(* ===== verification/Prelude.thy ===== *)
theory Prelude
  imports Main "HOL-Library.Char_ord" "HOL-Library.List_Lexorder"
begin

text \<open>
  Shared vocabulary of the development.

  \<^item> Code that throws returns a sum: \<^theory_text>\<open>Inl e\<close> is the thrown error, \<^theory_text>\<open>Inr v\<close> the
    returned value.  \<open>bindR\<close> is sequencing (the rest of a function body after a call that may
    throw), \<open>catchR\<close> is a \<open>try ... catch (error) { throw f(error) }\<close> block, and \<open>mapR\<close> is an
    array \<open>map\<close> whose callback may throw.
  \<^item> JavaScript numbers are modelled by the integers they denote.  A number that is no integer
    (a fraction, NaN, an infinity) takes the same branch of \<open>Number.isSafeInteger\<close> as an
    integer outside the safe range, and every number of the modelled code is checked by it
    before it is compared or added.
  \<^item> Strings are lists of characters.  The regular expressions of the code are predicates over
    them; all of them match ASCII text only.  The order on strings is the code-unit order of the
    JavaScript operator \<open><\<close> (the lexicographic order of \<open>HOL-Library.List_Lexorder\<close>).
\<close>

section \<open>Results\<close>

named_theorems result_simps \<open>inversion of sequenced computations\<close>

definition bindR :: "'e + 'a \<Rightarrow> ('a \<Rightarrow> 'e + 'b) \<Rightarrow> 'e + 'b" where
  "bindR m f = (case m of Inl e \<Rightarrow> Inl e | Inr x \<Rightarrow> f x)"

definition catchR :: "('e \<Rightarrow> 'f) \<Rightarrow> 'e + 'a \<Rightarrow> 'f + 'a" where
  "catchR h m = (case m of Inl e \<Rightarrow> Inl (h e) | Inr x \<Rightarrow> Inr x)"

definition throwIf :: "bool \<Rightarrow> 'e \<Rightarrow> 'e + unit" where
  "throwIf b e = (if b then Inl e else Inr ())"

fun mapR :: "('a \<Rightarrow> 'e + 'b) \<Rightarrow> 'a list \<Rightarrow> 'e + 'b list" where
  "mapR f [] = Inr []"
| "mapR f (x # xs) = bindR (f x) (\<lambda>y. bindR (mapR f xs) (\<lambda>ys. Inr (y # ys)))"

definition isOk :: "'e + 'a \<Rightarrow> bool" where
  "isOk m = (case m of Inl _ \<Rightarrow> False | Inr _ \<Rightarrow> True)"

lemma bindR_simps [simp]: "bindR (Inl e) f = Inl e" "bindR (Inr x) f = f x"
  by (simp_all add: bindR_def)

lemma catchR_simps [simp]: "catchR h (Inl e) = Inl (h e)" "catchR h (Inr x) = Inr x"
  by (simp_all add: catchR_def)

lemma isOk_simps [simp]: "\<not> isOk (Inl e)" "isOk (Inr x)"
  by (simp_all add: isOk_def)

lemma isOk_iff: "isOk m \<longleftrightarrow> (\<exists>x. m = Inr x)"
  by (cases m) auto

lemma bindR_eq_Inr [result_simps]:
  "bindR m f = Inr y \<longleftrightarrow> (\<exists>x. m = Inr x \<and> f x = Inr y)"
  by (cases m) auto

lemma bindR_eq_Inl [result_simps]:
  "bindR m f = Inl e \<longleftrightarrow> m = Inl e \<or> (\<exists>x. m = Inr x \<and> f x = Inl e)"
  by (cases m) auto

lemma catchR_eq_Inr [result_simps]: "catchR h m = Inr y \<longleftrightarrow> m = Inr y"
  by (cases m) auto

lemma catchR_eq_Inl [result_simps]: "catchR h m = Inl e \<longleftrightarrow> (\<exists>e'. m = Inl e' \<and> e = h e')"
  by (cases m) auto

lemma throwIf_eq_Inr [simp]: "throwIf b e = Inr u \<longleftrightarrow> \<not> b"
  by (simp add: throwIf_def)

lemma throwIf_eq_Inl [simp]: "throwIf b e = Inl e' \<longleftrightarrow> b \<and> e' = e"
  by (auto simp: throwIf_def)

lemma throwIf_simps [simp]: "throwIf True e = Inl e" "throwIf False e = Inr ()"
  by (simp_all add: throwIf_def)

lemma if_Inl_eq_Inr [result_simps]: "(if b then Inl e else m) = Inr y \<longleftrightarrow> \<not> b \<and> m = Inr y"
  by auto

lemma mapR_Inr_iff: "mapR f xs = Inr ys \<longleftrightarrow> list_all2 (\<lambda>x y. f x = Inr y) xs ys"
  by (induction xs arbitrary: ys) (auto simp: result_simps list_all2_Cons1)

lemma mapR_length: "mapR f xs = Inr ys \<Longrightarrow> length ys = length xs"
  by (simp add: mapR_Inr_iff list_all2_lengthD)

lemma mapR_Inr_set: "mapR f xs = Inr ys \<Longrightarrow> y \<in> set ys \<Longrightarrow> \<exists>x \<in> set xs. f x = Inr y"
  by (induction xs arbitrary: ys) (auto simp: result_simps)

lemma mapR_Inl: "mapR f xs = Inl e \<Longrightarrow> \<exists>x \<in> set xs. f x = Inl e"
  by (induction xs) (auto simp: result_simps)

lemma mapR_id: "(\<And>x. x \<in> set xs \<Longrightarrow> f x = Inr x) \<Longrightarrow> mapR f xs = Inr xs"
  by (induction xs) auto

section \<open>Numbers\<close>

definition MAX_SAFE_INTEGER :: int where
  "MAX_SAFE_INTEGER = 9007199254740991"

definition isSafeInteger :: "int \<Rightarrow> bool" where
  "isSafeInteger v \<longleftrightarrow> - MAX_SAFE_INTEGER \<le> v \<and> v \<le> MAX_SAFE_INTEGER"

section \<open>Character classes\<close>

definition charIn :: "char \<Rightarrow> char \<Rightarrow> char \<Rightarrow> bool" where
  "charIn lo hi c \<longleftrightarrow> lo \<le> c \<and> c \<le> hi"

definition isDigit :: "char \<Rightarrow> bool" where
  "isDigit c \<longleftrightarrow> charIn CHR ''0'' CHR ''9'' c"

definition isUpper :: "char \<Rightarrow> bool" where
  "isUpper c \<longleftrightarrow> charIn CHR ''A'' CHR ''Z'' c"

definition isLower :: "char \<Rightarrow> bool" where
  "isLower c \<longleftrightarrow> charIn CHR ''a'' CHR ''z'' c"

definition isHex :: "char \<Rightarrow> bool" where
  "isHex c \<longleftrightarrow> isDigit c \<or> charIn CHR ''a'' CHR ''f'' c"

definition isAlnum :: "char \<Rightarrow> bool" where
  "isAlnum c \<longleftrightarrow> isUpper c \<or> isLower c \<or> isDigit c"

definition hexOfLength :: "nat \<Rightarrow> string \<Rightarrow> bool" where
  "hexOfLength n s \<longleftrightarrow> length s = n \<and> list_all isHex s"

lemmas char_class_defs =
  charIn_def isDigit_def isUpper_def isLower_def isHex_def isAlnum_def

lemma charIn_int:
  "charIn lo hi c \<longleftrightarrow> of_char lo \<le> (of_char c :: int) \<and> (of_char c :: int) \<le> of_char hi"
proof -
  have "(of_char d :: int) = int (of_char d)" for d
    by (rule of_nat_of_char [symmetric])
  then show ?thesis by (simp only: charIn_def less_eq_char_def of_nat_le_iff)
qed

section \<open>Lists\<close>

text \<open>JavaScript's \<open>xs.at(-1)\<close>.\<close>

definition atLast :: "'a list \<Rightarrow> 'a option" where
  "atLast xs = (if xs = [] then None else Some (last xs))"

lemma atLast_simps [simp]: "atLast [] = None" "atLast (xs @ [x]) = Some x"
  by (simp_all add: atLast_def)

lemma atLast_eq_None [simp]: "atLast xs = None \<longleftrightarrow> xs = []"
  by (simp add: atLast_def)

lemma atLast_Some_append: "atLast xs = Some x \<longleftrightarrow> (\<exists>ys. xs = ys @ [x])"
  by (cases xs rule: rev_cases) (auto simp: atLast_def)

lemma atLast_in_set: "atLast xs = Some x \<Longrightarrow> x \<in> set xs"
  by (auto simp: atLast_Some_append)

text \<open>\<open>xs.find(p)\<close>.\<close>

fun findFirst :: "('a \<Rightarrow> bool) \<Rightarrow> 'a list \<Rightarrow> 'a option" where
  "findFirst p [] = None"
| "findFirst p (x # xs) = (if p x then Some x else findFirst p xs)"

lemma findFirst_Some: "findFirst p xs = Some x \<Longrightarrow> x \<in> set xs \<and> p x"
  by (induction xs) (auto split: if_splits)

lemma findFirst_None: "findFirst p xs = None \<longleftrightarrow> (\<forall>x \<in> set xs. \<not> p x)"
  by (induction xs) auto

lemma findFirst_append_None: "findFirst p xs = None \<Longrightarrow> findFirst p (xs @ ys) = findFirst p ys"
  by (induction xs) (auto split: if_splits)

lemma findFirst_append_Some: "findFirst p xs = Some x \<Longrightarrow> findFirst p (xs @ ys) = Some x"
  by (induction xs) (auto split: if_splits)

lemma findFirst_snoc:
  "\<forall>x \<in> set xs. \<not> p x \<Longrightarrow> findFirst p (xs @ [y]) = (if p y then Some y else None)"
  by (induction xs) auto

text \<open>The loop that rejects a list with two elements of the same key.\<close>

fun hasDuplicate :: "'k set \<Rightarrow> 'k list \<Rightarrow> bool" where
  "hasDuplicate seen [] = False"
| "hasDuplicate seen (k # ks) = (k \<in> seen \<or> hasDuplicate (insert k seen) ks)"

lemma hasDuplicate_iff:
  "hasDuplicate seen ks \<longleftrightarrow> \<not> (distinct ks \<and> seen \<inter> set ks = {})"
  by (induction ks arbitrary: seen) auto

text \<open>A strictly increasing list, checked pairwise as the code does.\<close>

fun strictlyIncreasing :: "'a :: linorder list \<Rightarrow> bool" where
  "strictlyIncreasing [] = True"
| "strictlyIncreasing [x] = True"
| "strictlyIncreasing (x # y # zs) = (x < y \<and> strictlyIncreasing (y # zs))"

lemma strictlyIncreasing_iff: "strictlyIncreasing xs \<longleftrightarrow> sorted_wrt (<) xs"
proof (induction xs rule: strictlyIncreasing.induct)
  case (3 x y zs)
  then show ?case by (auto intro: less_trans)
qed auto

lemma strictlyIncreasing_distinct: "strictlyIncreasing xs \<Longrightarrow> distinct xs"
  by (simp add: strictlyIncreasing_iff strict_sorted_iff)

lemma sort_key_strict:
  "distinct (map f xs) \<Longrightarrow> strictlyIncreasing (map f (sort_key f xs))"
  by (simp add: strictlyIncreasing_iff strict_sorted_iff distinct_map)

lemma sort_key_fixed:
  "strictlyIncreasing (map f xs) \<Longrightarrow> sort_key f xs = xs"
  by (simp add: strictlyIncreasing_iff strict_sorted_iff sorted_sort_id sort_key_id_if_sorted)

lemma sort_key_eq_Nil [simp]: "sort_key f xs = [] \<longleftrightarrow> xs = []"
  by (metis length_0_conv length_sort)

lemma list_all2_set2: "list_all2 P xs ys \<Longrightarrow> y \<in> set ys \<Longrightarrow> \<exists>x \<in> set xs. P x y"
  by (induction rule: list_all2_induct) auto

text \<open>A row whose key is not below any other is sorted to the end.\<close>

lemma insort_key_snoc: "f x \<le> f y \<Longrightarrow> insort_key f x (zs @ [y]) = insort_key f x zs @ [y]"
  by (induction zs) auto

lemma sort_key_snoc:
  assumes "\<forall>x \<in> set xs. f x \<le> f y"
  shows "sort_key f (xs @ [y]) = sort_key f xs @ [y]"
proof -
  have "foldr (insort_key f) xs (zs @ [y]) = foldr (insort_key f) xs zs @ [y]" for zs
    using assms by (induction xs) (auto simp: insort_key_snoc)
  from this [of "[]"] show ?thesis by (simp add: sort_key_def)
qed
lemma list_all2_functional:
  "list_all2 (\<lambda>x y. f x = Inr y) xs ys \<Longrightarrow> list_all2 (\<lambda>x y. f x = Inr y) xs zs \<Longrightarrow> ys = zs"
  by (induction xs arbitrary: ys zs) (auto simp: list_all2_Cons1)

section \<open>Normalising constructors\<close>

text \<open>
  The packages validate every record through a constructor that either throws or returns a
  normalised copy, and pass stored and received records through the same constructor again.
  The contract that makes this sound: a record the constructor returned is accepted again and
  returned unchanged.
\<close>

locale normaliser =
  fixes create :: "'a \<Rightarrow> 'e + 'b" and embed :: "'b \<Rightarrow> 'a"
  assumes recreate: "create x = Inr y \<Longrightarrow> create (embed y) = Inr y"
begin

definition canonical :: "'b \<Rightarrow> bool" where
  "canonical y \<longleftrightarrow> create (embed y) = Inr y"

lemma created_canonical: "create x = Inr y \<Longrightarrow> canonical y"
  by (simp add: canonical_def recreate)

lemma recreate_all: "mapR create xs = Inr ys \<Longrightarrow> mapR (\<lambda>y. create (embed y)) ys = Inr ys"
  by (induction xs arbitrary: ys) (auto simp: result_simps recreate)

lemma created_set_canonical:
  "mapR create xs = Inr ys \<Longrightarrow> y \<in> set ys \<Longrightarrow> canonical y"
  by (auto dest!: mapR_Inr_set intro: created_canonical)

end

end
