(* ===== verification/Identifiers.thy ===== *)
theory Identifiers
  imports Prelude
begin

text \<open>
  \<^verbatim>\<open>packages/domain/src/identifiers.ts\<close>, \<^verbatim>\<open>money.ts\<close> and
  \<^verbatim>\<open>operator-policy.ts\<close>: the branded identifier, timestamp and amount types with their
  checks, and the operator acceptance policy.  \<open>domain_error\<close> is the sum of the error classes
  the domain package throws (\<open>IdentifierError\<close>, \<open>MinorUnitError\<close>, \<open>OperatorPolicyError\<close>,
  \<open>LedgerError\<close>, \<open>InvoiceError\<close>), each with its code; messages are left out.

  A TypeScript union of string literals is a datatype.  Where the code checks at run time that a
  value really is one of the literals, the datatype has a further constructor \<open>Other_...\<close> for
  the strings outside the union, so the check and its error branch stay in the model.
\<close>

section \<open>Error classes of the domain package\<close>

datatype identifier_error_code = Invalid_identifier | Invalid_timestamp

datatype operator_policy_error_code = Invalid_operator_tier | Invalid_settlement_mode

datatype ledger_error_code =
    Account_mode_mismatch
  | Duplicate_invoice_payment
  | Duplicate_journal_entry
  | Duplicate_payment
  | Fee_not_less_than_gross
  | Invalid_account
  | Invalid_posting
  | Invalid_payment_entry
  | Invalid_reference
  | Posting_total_overflow
  | Unbalanced_entry

datatype invoice_error_code =
    Amount_must_be_positive
  | Invalid_expiry
  | Invalid_transition
  | Payment_after_expiry
  | Payment_before_creation
  | Recorded_before_acceptance
  | Unsupported_schema

datatype domain_error =
    Identifier_error identifier_error_code
  | Minor_unit_error
  | Operator_policy_error operator_policy_error_code
  | Ledger_error ledger_error_code
  | Invoice_error invoice_error_code

section \<open>Identifiers and timestamps\<close>

definition idChar :: "char \<Rightarrow> bool" where
  "idChar c \<longleftrightarrow> isAlnum c \<or> c = CHR ''.'' \<or> c = CHR ''_'' \<or> c = CHR '':'' \<or> c = CHR ''-''"

text \<open>\<^verbatim>\<open>/^[A-Za-z0-9][A-Za-z0-9._:-]{0,127}$/\<close>\<close>

fun identifierPattern :: "string \<Rightarrow> bool" where
  "identifierPattern [] = False"
| "identifierPattern (c # cs) = (isAlnum c \<and> length cs \<le> 127 \<and> list_all idChar cs)"

definition assertIdentifier :: "string \<Rightarrow> domain_error + unit" where
  "assertIdentifier v = throwIf (\<not> identifierPattern v) (Identifier_error Invalid_identifier)"

definition identifierOf :: "string \<Rightarrow> domain_error + string" where
  "identifierOf v = bindR (assertIdentifier v) (\<lambda>_. Inr v)"

definition assertUnixTimestamp :: "int \<Rightarrow> domain_error + unit" where
  "assertUnixTimestamp v =
     throwIf (\<not> isSafeInteger v \<or> v < 0) (Identifier_error Invalid_timestamp)"

definition unixTimestamp :: "int \<Rightarrow> domain_error + int" where
  "unixTimestamp v = bindR (assertUnixTimestamp v) (\<lambda>_. Inr v)"

definition minorUnits :: "int \<Rightarrow> domain_error + int" where
  "minorUnits v = (if \<not> isSafeInteger v \<or> v < 0 then Inl Minor_unit_error else Inr v)"

text \<open>The two ranges the branded types stand for.\<close>

definition validTimestamp :: "int \<Rightarrow> bool" where
  "validTimestamp v \<longleftrightarrow> 0 \<le> v \<and> v \<le> MAX_SAFE_INTEGER"

definition validAmount :: "int \<Rightarrow> bool" where
  "validAmount v \<longleftrightarrow> 0 \<le> v \<and> v \<le> MAX_SAFE_INTEGER"

lemma assertIdentifier_iff [simp]:
  "assertIdentifier v = Inr u \<longleftrightarrow> identifierPattern v"
  "assertIdentifier v = Inl e \<longleftrightarrow> \<not> identifierPattern v \<and> e = Identifier_error Invalid_identifier"
  by (auto simp: assertIdentifier_def)

lemma identifierOf_iff [simp]:
  "identifierOf v = Inr w \<longleftrightarrow> identifierPattern v \<and> w = v"
  "identifierOf v = Inl e \<longleftrightarrow> \<not> identifierPattern v \<and> e = Identifier_error Invalid_identifier"
  by (auto simp: identifierOf_def result_simps)

lemma assertUnixTimestamp_iff [simp]:
  "assertUnixTimestamp v = Inr u \<longleftrightarrow> validTimestamp v"
  "assertUnixTimestamp v = Inl e \<longleftrightarrow> \<not> validTimestamp v \<and> e = Identifier_error Invalid_timestamp"
  by (auto simp: assertUnixTimestamp_def validTimestamp_def isSafeInteger_def MAX_SAFE_INTEGER_def)

lemma unixTimestamp_iff [simp]:
  "unixTimestamp v = Inr w \<longleftrightarrow> validTimestamp v \<and> w = v"
  "unixTimestamp v = Inl e \<longleftrightarrow> \<not> validTimestamp v \<and> e = Identifier_error Invalid_timestamp"
  by (auto simp: unixTimestamp_def result_simps)

lemma minorUnits_iff [simp]:
  "minorUnits v = Inr w \<longleftrightarrow> validAmount v \<and> w = v"
  "minorUnits v = Inl e \<longleftrightarrow> \<not> validAmount v \<and> e = Minor_unit_error"
  by (auto simp: minorUnits_def validAmount_def isSafeInteger_def MAX_SAFE_INTEGER_def)

lemma validated_simps [simp]:
  "validTimestamp v \<Longrightarrow> unixTimestamp v = Inr v"
  "validTimestamp v \<Longrightarrow> assertUnixTimestamp v = Inr ()"
  "validAmount v \<Longrightarrow> minorUnits v = Inr v"
  "identifierPattern s \<Longrightarrow> identifierOf s = Inr s"
  "identifierPattern s \<Longrightarrow> assertIdentifier s = Inr ()"
  by simp_all

lemma identifierPattern_props:
  "identifierPattern v \<Longrightarrow> 1 \<le> length v \<and> length v \<le> 128 \<and> list_all idChar v"
  by (cases v) (auto simp: idChar_def)

interpretation ts: normaliser unixTimestamp id
  by unfold_locales simp

interpretation amt: normaliser minorUnits id
  by unfold_locales simp

section \<open>Operator policy\<close>

datatype operator_tier = Trusted | Convertible | Unlisted | Other_tier string

datatype settlement_mode = Trusted_hold | Immediate_conversion | Other_mode string

datatype policy_reason = Trusted_operator | Conversion_required | Operator_not_accepted

datatype policy_decision =
    Accepted settlement_mode policy_reason
  | Rejected policy_reason

definition OPERATOR_TIERS :: "operator_tier list" where
  "OPERATOR_TIERS = [Trusted, Convertible, Unlisted]"

definition SETTLEMENT_MODES :: "settlement_mode list" where
  "SETTLEMENT_MODES = [Trusted_hold, Immediate_conversion]"

record operator_policy_input =
  pol_tier :: operator_tier
  pol_requestedMode :: "settlement_mode option"

definition evaluateOperatorPolicy ::
  "operator_policy_input \<Rightarrow> domain_error + policy_decision" where
  "evaluateOperatorPolicy input =
    (if pol_tier input \<notin> set OPERATOR_TIERS
     then Inl (Operator_policy_error Invalid_operator_tier)
     else if (case pol_requestedMode input of None \<Rightarrow> False | Some m \<Rightarrow> m \<notin> set SETTLEMENT_MODES)
     then Inl (Operator_policy_error Invalid_settlement_mode)
     else if pol_tier input = Unlisted then Inr (Rejected Operator_not_accepted)
     else if pol_tier input = Convertible then Inr (Accepted Immediate_conversion Conversion_required)
     else Inr (Accepted (case pol_requestedMode input of None \<Rightarrow> Trusted_hold | Some m \<Rightarrow> m)
                 Trusted_operator))"

lemma SETTLEMENT_MODES_iff [simp]:
  "m \<in> set SETTLEMENT_MODES \<longleftrightarrow> m = Trusted_hold \<or> m = Immediate_conversion"
  by (auto simp: SETTLEMENT_MODES_def)

lemma OPERATOR_TIERS_iff [simp]:
  "t \<in> set OPERATOR_TIERS \<longleftrightarrow> t = Trusted \<or> t = Convertible \<or> t = Unlisted"
  by (auto simp: OPERATOR_TIERS_def)

end
