(* ===== verification/Cashu_Base.thy ===== *)
theory Cashu_Base
  imports Identifiers
begin

text \<open>
  The parts of \<^verbatim>\<open>packages/cashu/src\<close> that the record types share: the operations the
  package takes from outside the repository (\<open>cashu_env\<close>), mint URL normalisation
  (\<^verbatim>\<open>mint-url.ts\<close>) and proof references (\<^verbatim>\<open>proof-reference.ts\<close>).

  \<open>cashu_env\<close> holds what is not code of this repository: the URL parser of the web platform, and
  \<open>normalizeMintUrl\<close>, \<open>pointFromHex\<close>, \<open>Keyset.verifyKeysetId\<close> and the NUT-18 encoder of
  \<^verbatim>\<open>@cashu/cashu-ts\<close>, and SHA-256 over \<open>JSON.stringify\<close> text (\<^verbatim>\<open>node:crypto\<close>).  It
  is an argument of every definition that uses one of them.
\<close>

section \<open>What the package takes from outside\<close>

record url =
  url_protocol :: string
  url_host :: string
  url_username :: string
  url_password :: string
  url_pathname :: string
  url_search :: string
  url_hash :: string
  url_href :: string
  url_searchParams :: "(string \<times> string) list"

text \<open>The wire form of a keyset that \<open>Keyset.verifyKeysetId\<close> is given.\<close>

record keyset_dto =
  dto_active :: bool
  dto_finalExpiry :: "int option"
  dto_id :: string
  dto_inputFeePpk :: int
  dto_keys :: "(string \<times> string) list"
  dto_unit :: string

text \<open>What \<^verbatim>\<open>PaymentRequest.builder()\<close> is given before \<open>toEncodedCreqA\<close>.\<close>

record creq_input =
  creq_id :: string
  creq_amount :: int
  creq_unit :: string
  creq_mints :: "string list"
  creq_supportedMethod :: string
  creq_httpPostTransport :: string

text \<open>The values whose \<open>JSON.stringify\<close> text is hashed; the fields of an object keep their order.\<close>

datatype json =
    JNull
  | JBool bool
  | JNum int
  | JStr string
  | JArr "json list"
  | JObj "(string \<times> json) list"

fun jOpt :: "('a \<Rightarrow> json) \<Rightarrow> 'a option \<Rightarrow> json" where
  "jOpt f None = JNull"
| "jOpt f (Some x) = f x"

record cashu_env =
  env_parseUrl :: "string \<Rightarrow> url option"
  env_normalizeMintUrl :: "string \<Rightarrow> string option"
  env_pointFromHex :: "string \<Rightarrow> bool"
  env_verifyKeysetId :: "keyset_dto \<Rightarrow> bool"
  env_encodeCreqA :: "creq_input \<Rightarrow> string option"
  env_sha256 :: "json \<Rightarrow> string"

section \<open>Trimming\<close>

text \<open>The white space and line terminators \<open>String.prototype.trim\<close> removes, up to U+00FF.\<close>

definition isJsSpace :: "char \<Rightarrow> bool" where
  "isJsSpace c \<longleftrightarrow> of_char c \<in> {9, 10, 11, 12, 13, 32, 160 :: nat}"

definition jsTrim :: "string \<Rightarrow> string" where
  "jsTrim s = rev (dropWhile isJsSpace (rev (dropWhile isJsSpace s)))"

section \<open>Mint URLs\<close>

definition MAX_CASHU_ENDPOINT_LENGTH :: nat where
  "MAX_CASHU_ENDPOINT_LENGTH = 512"

datatype mint_url_error = Mint_url_invalid | Mint_url_unsafe

definition normalizeCashuMintUrl :: "cashu_env \<Rightarrow> string \<Rightarrow> mint_url_error + string" where
  "normalizeCashuMintUrl env v =
    (if length v = 0 \<or> length v > MAX_CASHU_ENDPOINT_LENGTH \<or> v \<noteq> jsTrim v
     then Inl Mint_url_invalid
     else (case env_parseUrl env v of
             None \<Rightarrow> Inl Mint_url_invalid
           | Some endpoint \<Rightarrow>
               if url_protocol endpoint \<noteq> ''https:'' \<or> url_username endpoint \<noteq> ''''
                  \<or> url_password endpoint \<noteq> '''' \<or> url_search endpoint \<noteq> ''''
                  \<or> url_hash endpoint \<noteq> ''''
               then Inl Mint_url_unsafe
               else (case env_normalizeMintUrl env (url_href endpoint) of
                       None \<Rightarrow> Inl Mint_url_invalid
                     | Some u \<Rightarrow> Inr u)))"

text \<open>
  The behaviour of the URL parser and of \<open>normalizeMintUrl\<close> the records rely on: a normalised
  mint URL is a fixed point of normalisation.  The code bounds the length of the URL it is given
  and not of the normal form (percent-encoding can lengthen it), so the fixed point is only
  required of normal forms within the bound.
\<close>

definition mintUrlStable :: "cashu_env \<Rightarrow> bool" where
  "mintUrlStable env \<longleftrightarrow>
     (\<forall>v u. normalizeCashuMintUrl env v = Inr u \<longrightarrow> length u \<le> MAX_CASHU_ENDPOINT_LENGTH
        \<longrightarrow> normalizeCashuMintUrl env u = Inr u)"

lemma mintUrlStableD:
  "\<lbrakk>mintUrlStable env; normalizeCashuMintUrl env v = Inr u; length u \<le> MAX_CASHU_ENDPOINT_LENGTH\<rbrakk>
   \<Longrightarrow> normalizeCashuMintUrl env u = Inr u"
  by (auto simp: mintUrlStable_def)

section \<open>Proof references\<close>

text \<open>\<^verbatim>\<open>/^(?:00[0-9a-f]{14}|01[0-9a-f]{64})$/\<close> and \<^verbatim>\<open>/^(?:02|03)[0-9a-f]{64}$/\<close>\<close>

definition keysetIdPattern :: "string \<Rightarrow> bool" where
  "keysetIdPattern s \<longleftrightarrow>
     (take 2 s = ''00'' \<and> hexOfLength 14 (drop 2 s)) \<or> (take 2 s = ''01'' \<and> hexOfLength 64 (drop 2 s))"

definition compressedPointPattern :: "string \<Rightarrow> bool" where
  "compressedPointPattern s \<longleftrightarrow>
     (take 2 s = ''02'' \<or> take 2 s = ''03'') \<and> hexOfLength 64 (drop 2 s)"

record proof_reference =
  pr_amount :: int
  pr_keysetId :: string
  pr_y :: string

datatype proof_reference_error = Proof_reference_invalid

definition cashuProofY :: "cashu_env \<Rightarrow> string \<Rightarrow> proof_reference_error + string" where
  "cashuProofY env v =
    (if \<not> compressedPointPattern v then Inl Proof_reference_invalid
     else if \<not> env_pointFromHex env v then Inl Proof_reference_invalid
     else Inr v)"

definition createCashuProofReferenceV1 ::
  "cashu_env \<Rightarrow> proof_reference \<Rightarrow> proof_reference_error + proof_reference" where
  "createCashuProofReferenceV1 env input =
    (if \<not> isSafeInteger (pr_amount input) \<or> pr_amount input \<le> 0
        \<or> \<not> keysetIdPattern (pr_keysetId input)
     then Inl Proof_reference_invalid
     else bindR (cashuProofY env (pr_y input)) (\<lambda>y.
       Inr \<lparr>pr_amount = pr_amount input, pr_keysetId = pr_keysetId input, pr_y = y\<rparr>))"

definition proofYValid :: "cashu_env \<Rightarrow> string \<Rightarrow> bool" where
  "proofYValid env y \<longleftrightarrow> compressedPointPattern y \<and> env_pointFromHex env y"

lemma cashuProofY_iff [simp]:
  "cashuProofY env v = Inr w \<longleftrightarrow> proofYValid env v \<and> w = v"
  "cashuProofY env v = Inl e \<longleftrightarrow> \<not> proofYValid env v"
  by (cases e; auto simp: cashuProofY_def proofYValid_def)+

lemma createCashuProofReferenceV1_iff:
  "createCashuProofReferenceV1 env p = Inr q \<longleftrightarrow>
     q = p \<and> 0 < pr_amount p \<and> pr_amount p \<le> MAX_SAFE_INTEGER
     \<and> keysetIdPattern (pr_keysetId p) \<and> proofYValid env (pr_y p)"
  by (auto simp: createCashuProofReferenceV1_def result_simps isSafeInteger_def MAX_SAFE_INTEGER_def)

interpretation proof_reference: normaliser "createCashuProofReferenceV1 env" id for env
  by unfold_locales (simp add: createCashuProofReferenceV1_iff)

lemma mapR_proof_references:
  "mapR (createCashuProofReferenceV1 env) ps = Inr qs \<longleftrightarrow>
     qs = ps \<and> (\<forall>p \<in> set ps. createCashuProofReferenceV1 env p = Inr p)"
  by (induction ps arbitrary: qs) (auto simp: result_simps createCashuProofReferenceV1_iff)

end
