(* ===== verification/Melt_Quote.thy ===== *)
theory Melt_Quote
  imports Cashu_Base
begin

unbundle bit_operations_syntax

text \<open>
  \<^verbatim>\<open>packages/cashu/src/stellar-melt-quote.ts\<close>: the bounded SEP-0007 profile of a Stellar melt
  quote.  The request must be a \<open>web+stellar:pay\<close> URI for the testnet USDC asset whose amount is
  the quote's amount and whose destination is a Stellar address with a correct checksum.  The
  base-32 decoder and the CRC are modelled bit by bit; JavaScript's bitwise operators work on
  32-bit integers, and \<open>decodeBase32Loop_spec\<close> shows that every intermediate value is a small
  non-negative integer, on which they agree with the operators on \<^typ>\<open>int\<close> used here.
\<close>

section \<open>Constants\<close>

definition CASHU_STELLAR_MELT_QUOTE_SCHEMA_VERSION :: int where
  "CASHU_STELLAR_MELT_QUOTE_SCHEMA_VERSION = 1"

definition CASHU_STELLAR_METHOD :: string where
  "CASHU_STELLAR_METHOD = ''stellar''"

definition CASHU_STELLAR_UNIT :: string where
  "CASHU_STELLAR_UNIT = ''usdc''"

definition CASHU_STELLAR_TESTNET_NETWORK_PASSPHRASE :: string where
  "CASHU_STELLAR_TESTNET_NETWORK_PASSPHRASE = ''Test SDF Network ; September 2015''"

definition CASHU_STELLAR_TESTNET_USDC_ASSET_CODE :: string where
  "CASHU_STELLAR_TESTNET_USDC_ASSET_CODE = ''USDC''"

definition CASHU_STELLAR_TESTNET_USDC_ISSUER :: string where
  "CASHU_STELLAR_TESTNET_USDC_ISSUER =
     ''GBBD47IF6LWK7P7MDEVSCWR7DPUWV3NY3DTQEVFL4NAT4AQH3ZLLFLA5''"

definition MIN_CASHU_STELLAR_MELT_AMOUNT :: int where
  "MIN_CASHU_STELLAR_MELT_AMOUNT = 1"

definition MAX_CASHU_STELLAR_MELT_AMOUNT :: int where
  "MAX_CASHU_STELLAR_MELT_AMOUNT = 25000"

definition MAX_CASHU_STELLAR_MELT_REQUEST_LENGTH :: nat where
  "MAX_CASHU_STELLAR_MELT_REQUEST_LENGTH = 4096"

definition ALLOWED_SEP7_PARAMETERS :: "string list" where
  "ALLOWED_SEP7_PARAMETERS =
     [''amount'', ''asset_code'', ''asset_issuer'', ''destination'', ''memo'', ''memo_type'',
      ''network_passphrase'']"

definition ALLOWED_MEMO_TYPES :: "string list" where
  "ALLOWED_MEMO_TYPES = [''MEMO_HASH'', ''MEMO_ID'', ''MEMO_RETURN'', ''MEMO_TEXT'']"

section \<open>Records and errors\<close>

datatype melt_quote_state = Quote_paid | Quote_pending | Quote_unpaid

record melt_quote_request_input =
  qri_amount :: int
  qri_request :: string

record melt_quote_request =
  qr_amount :: int
  qr_method :: string
  qr_request :: string
  qr_unit :: string

record melt_quote_input =
  mqi_amount :: int
  mqi_expiry :: int
  mqi_feeReserve :: "int option"
  mqi_method :: string
  mqi_mintUrl :: string
  mqi_observedAt :: int
  mqi_quoteId :: string
  mqi_request :: string
  mqi_schemaVersion :: "int option"
  mqi_state :: string
  mqi_unit :: string

record melt_quote =
  mq_amount :: int
  mq_expiry :: int
  mq_feeReserve :: int
  mq_method :: string
  mq_mintUrl :: string
  mq_observedAt :: int
  mq_quoteId :: string
  mq_request :: string
  mq_schemaVersion :: int
  mq_state :: melt_quote_state
  mq_unit :: string

datatype melt_quote_error =
    MQ_amount_out_of_range
  | MQ_invalid_expiry
  | MQ_invalid_fee_reserve
  | MQ_invalid_mint
  | MQ_invalid_observed_at
  | MQ_invalid_quote_id
  | MQ_invalid_request
  | MQ_invalid_snapshot
  | MQ_invalid_state

definition parseQuoteState :: "string \<Rightarrow> melt_quote_state option" where
  "parseQuoteState s =
    (if s = ''UNPAID'' then Some Quote_unpaid
     else if s = ''PENDING'' then Some Quote_pending
     else if s = ''PAID'' then Some Quote_paid else None)"

fun showQuoteState :: "melt_quote_state \<Rightarrow> string" where
  "showQuoteState Quote_unpaid = ''UNPAID''"
| "showQuoteState Quote_pending = ''PENDING''"
| "showQuoteState Quote_paid = ''PAID''"

section \<open>Stellar addresses\<close>

text \<open>\<^verbatim>\<open>BASE32_ALPHABET.indexOf(character)\<close>: \<open>A\<close>-\<open>Z\<close> are 0-25, \<open>2\<close>-\<open>7\<close> are 26-31.\<close>

definition base32Digit :: "char \<Rightarrow> int option" where
  "base32Digit c =
    (if isUpper c then Some (of_char c - 65)
     else if charIn CHR ''2'' CHR ''7'' c then Some (of_char c - 50 + 26)
     else None)"

fun decodeBase32Loop :: "string \<Rightarrow> int \<Rightarrow> nat \<Rightarrow> int list \<Rightarrow> int list option" where
  "decodeBase32Loop [] buffer bufferedBits output = (if buffer \<noteq> 0 then None else Some output)"
| "decodeBase32Loop (c # cs) buffer bufferedBits output =
    (case base32Digit c of
       None \<Rightarrow> None
     | Some digit \<Rightarrow>
         let buffer = (push_bit 5 buffer) OR digit;
             bufferedBits = bufferedBits + 5
         in if bufferedBits \<ge> 8
            then decodeBase32Loop cs (buffer AND (push_bit (bufferedBits - 8) 1 - 1))
                   (bufferedBits - 8)
                   (output @ [drop_bit (bufferedBits - 8) buffer AND 255])
            else decodeBase32Loop cs buffer bufferedBits output)"

definition decodeBase32 :: "string \<Rightarrow> int list option" where
  "decodeBase32 v = decodeBase32Loop v 0 0 []"

fun crcBits :: "nat \<Rightarrow> int \<Rightarrow> int" where
  "crcBits 0 checksum = checksum"
| "crcBits (Suc n) checksum =
     crcBits n (if checksum AND 32768 \<noteq> 0
                then (push_bit 1 checksum XOR 4129) AND 65535
                else push_bit 1 checksum AND 65535)"

definition crc16Xmodem :: "int list \<Rightarrow> int" where
  "crc16Xmodem bytes = foldl (\<lambda>checksum byte. crcBits 8 (checksum XOR push_bit 8 byte)) 0 bytes"

text \<open>\<^verbatim>\<open>/^(?:G[A-Z2-7]{55}|M[A-Z2-7]{68})$/\<close>\<close>

definition stellarAddressPattern :: "string \<Rightarrow> bool" where
  "stellarAddressPattern s \<longleftrightarrow>
     (case s of [] \<Rightarrow> False | c # cs \<Rightarrow>
        list_all (\<lambda>d. isUpper d \<or> charIn CHR ''2'' CHR ''7'' d) cs
        \<and> (c = CHR ''G'' \<and> length cs = 55 \<or> c = CHR ''M'' \<and> length cs = 68))"

definition isValidStellarDestination :: "string \<Rightarrow> bool" where
  "isValidStellarDestination v =
    (if \<not> stellarAddressPattern v then False
     else (case decodeBase32 v of
             None \<Rightarrow> False
           | Some decoded \<Rightarrow>
               let isMuxed = (take 1 v = ''M'');
                   expectedLength = (if isMuxed then 43 else 35);
                   expectedVersion = (if isMuxed then push_bit 3 12 else push_bit 3 6)
               in if length decoded \<noteq> expectedLength \<or> decoded ! 0 \<noteq> expectedVersion then False
                  else let payload = take (length decoded - 2) decoded;
                           checksum = crc16Xmodem payload
                       in decoded ! (length decoded - 2) = (checksum AND 255)
                          \<and> decoded ! (length decoded - 1) = drop_bit 8 checksum))"

definition cashuStellarSettlementDestination :: "string \<Rightarrow> melt_quote_error + string" where
  "cashuStellarSettlementDestination v =
     (if \<not> isValidStellarDestination v then Inl MQ_invalid_request else Inr v)"

section \<open>Amounts\<close>

definition digitsValue :: "string \<Rightarrow> int" where
  "digitsValue s = foldl (\<lambda>n c. 10 * n + (of_char c - 48)) 0 s"

text \<open>\<^verbatim>\<open>/^([0-9]+)(?:\.([0-9]{0,7}))?$/\<close>, with the groups it captures.\<close>

definition stellarDecimal :: "string \<Rightarrow> (string \<times> string) option" where
  "stellarDecimal v =
    (let whole = takeWhile isDigit v in
     if whole = [] then None
     else (case dropWhile isDigit v of
             [] \<Rightarrow> Some (whole, [])
           | c # fraction \<Rightarrow>
               if c = CHR ''.'' \<and> length fraction \<le> 7 \<and> list_all isDigit fraction
               then Some (whole, fraction) else None))"

definition stellarAmountMatches :: "string \<Rightarrow> int \<Rightarrow> bool" where
  "stellarAmountMatches v amount =
    (case stellarDecimal v of
       None \<Rightarrow> False
     | Some (whole, fraction) \<Rightarrow>
         digitsValue whole * 10000000
           + digitsValue (fraction @ replicate (7 - length fraction) CHR ''0'')
         = amount * 100000)"

section \<open>The SEP-0007 request\<close>

definition containsRawControlOrWhitespace :: "string \<Rightarrow> bool" where
  "containsRawControlOrWhitespace s \<longleftrightarrow> list_ex (\<lambda>c. of_char c \<le> (32 :: nat) \<or> of_char c = (127 :: nat)) s"

fun collectParameters ::
  "(string \<times> string) list \<Rightarrow> (string \<rightharpoonup> string) \<Rightarrow> melt_quote_error + (string \<rightharpoonup> string)" where
  "collectParameters [] parameters = Inr parameters"
| "collectParameters ((key, v) # rest) parameters =
    (if key \<notin> set ALLOWED_SEP7_PARAMETERS \<or> parameters key \<noteq> None then Inl MQ_invalid_request
     else collectParameters rest (parameters(key \<mapsto> v)))"

definition requiredParameter :: "(string \<rightharpoonup> string) \<Rightarrow> string \<Rightarrow> melt_quote_error + string" where
  "requiredParameter parameters name =
    (case parameters name of
       None \<Rightarrow> Inl MQ_invalid_request
     | Some v \<Rightarrow> if v = '''' then Inl MQ_invalid_request else Inr v)"

definition validateSep7PaymentRequest ::
  "cashu_env \<Rightarrow> string \<Rightarrow> int \<Rightarrow> melt_quote_error + unit" where
  "validateSep7PaymentRequest env v amount =
    (if length v = 0 \<or> length v > MAX_CASHU_STELLAR_MELT_REQUEST_LENGTH
        \<or> containsRawControlOrWhitespace v
     then Inl MQ_invalid_request
     else (case env_parseUrl env v of
       None \<Rightarrow> Inl MQ_invalid_request
     | Some u \<Rightarrow>
         if url_protocol u \<noteq> ''web+stellar:'' \<or> url_pathname u \<noteq> ''pay'' \<or> url_host u \<noteq> ''''
            \<or> url_username u \<noteq> '''' \<or> url_password u \<noteq> '''' \<or> url_hash u \<noteq> ''''
         then Inl MQ_invalid_request
         else
         bindR (collectParameters (url_searchParams u) Map.empty) (\<lambda>parameters.
         bindR (requiredParameter parameters ''destination'') (\<lambda>destination.
         bindR (requiredParameter parameters ''amount'') (\<lambda>requestAmount.
         bindR (requiredParameter parameters ''asset_code'') (\<lambda>assetCode.
         bindR (requiredParameter parameters ''asset_issuer'') (\<lambda>assetIssuer.
         bindR (requiredParameter parameters ''network_passphrase'') (\<lambda>networkPassphrase.
         if \<not> isValidStellarDestination destination
            \<or> assetCode \<noteq> CASHU_STELLAR_TESTNET_USDC_ASSET_CODE
            \<or> assetIssuer \<noteq> CASHU_STELLAR_TESTNET_USDC_ISSUER
            \<or> networkPassphrase \<noteq> CASHU_STELLAR_TESTNET_NETWORK_PASSPHRASE
            \<or> \<not> stellarAmountMatches requestAmount amount
         then Inl MQ_invalid_request
         else
         let hasMemo = (parameters ''memo'' \<noteq> None);
             hasMemoType = (parameters ''memo_type'' \<noteq> None)
         in if hasMemo \<noteq> hasMemoType then Inl MQ_invalid_request
            else if hasMemoType
                    \<and> (case parameters ''memo_type'' of None \<Rightarrow> '''' | Some t \<Rightarrow> t)
                        \<notin> set ALLOWED_MEMO_TYPES
            then Inl MQ_invalid_request
            else Inr ()))))))))"

section \<open>Quote requests and quotes\<close>

definition createCashuStellarMeltQuoteRequestV1 ::
  "cashu_env \<Rightarrow> melt_quote_request_input \<Rightarrow> melt_quote_error + melt_quote_request" where
  "createCashuStellarMeltQuoteRequestV1 env input =
     bindR (catchR (\<lambda>_. MQ_amount_out_of_range) (minorUnits (qri_amount input))) (\<lambda>amount.
     if amount < MIN_CASHU_STELLAR_MELT_AMOUNT \<or> amount > MAX_CASHU_STELLAR_MELT_AMOUNT
     then Inl MQ_amount_out_of_range
     else
     bindR (validateSep7PaymentRequest env (qri_request input) amount) (\<lambda>_.
     Inr \<lparr>qr_amount = amount, qr_method = CASHU_STELLAR_METHOD, qr_request = qri_request input,
          qr_unit = CASHU_STELLAR_UNIT\<rparr>))"

definition requestInput :: "melt_quote_request \<Rightarrow> melt_quote_request_input" where
  "requestInput r = \<lparr>qri_amount = qr_amount r, qri_request = qr_request r\<rparr>"

text \<open>
  \<open>new Map(url.searchParams)\<close> keeps the last value of a repeated key; the request just passed
  validation, which refuses repeated keys.
\<close>

definition cashuStellarMeltRequestDestination ::
  "cashu_env \<Rightarrow> melt_quote_request \<Rightarrow> melt_quote_error + string" where
  "cashuStellarMeltRequestDestination env input =
     bindR (createCashuStellarMeltQuoteRequestV1 env (requestInput input)) (\<lambda>request.
     case env_parseUrl env (qr_request request) of
       None \<Rightarrow> Inl MQ_invalid_request
     | Some u \<Rightarrow>
         bindR (requiredParameter (map_of (rev (url_searchParams u))) ''destination'')
           cashuStellarSettlementDestination)"

text \<open>\<^verbatim>\<open>/^[0-9a-f]{8}-[0-9a-f]{4}-7[0-9a-f]{3}-[89ab][0-9a-f]{3}-[0-9a-f]{12}$/\<close>\<close>

definition uuidV7Pattern :: "string \<Rightarrow> bool" where
  "uuidV7Pattern s \<longleftrightarrow>
     length s = 36
     \<and> hexOfLength 8 (take 8 s)
     \<and> s ! 8 = CHR ''-'' \<and> hexOfLength 4 (take 4 (drop 9 s))
     \<and> s ! 13 = CHR ''-'' \<and> s ! 14 = CHR ''7'' \<and> hexOfLength 3 (take 3 (drop 15 s))
     \<and> s ! 18 = CHR ''-'' \<and> s ! 19 \<in> {CHR ''8'', CHR ''9'', CHR ''a'', CHR ''b''}
     \<and> hexOfLength 3 (take 3 (drop 20 s))
     \<and> s ! 23 = CHR ''-'' \<and> hexOfLength 12 (drop 24 s)"

definition cashuStellarMeltQuoteId :: "string \<Rightarrow> melt_quote_error + string" where
  "cashuStellarMeltQuoteId v = (if \<not> uuidV7Pattern v then Inl MQ_invalid_quote_id else Inr v)"

definition createCashuStellarMeltQuoteV1 ::
  "cashu_env \<Rightarrow> melt_quote_input \<Rightarrow> melt_quote_error + melt_quote" where
  "createCashuStellarMeltQuoteV1 env input =
    (if mqi_schemaVersion input \<noteq> None
        \<and> mqi_schemaVersion input \<noteq> Some CASHU_STELLAR_MELT_QUOTE_SCHEMA_VERSION
     then Inl MQ_invalid_snapshot
     else if mqi_method input \<noteq> CASHU_STELLAR_METHOD \<or> mqi_unit input \<noteq> CASHU_STELLAR_UNIT
     then Inl MQ_invalid_snapshot
     else
     bindR (createCashuStellarMeltQuoteRequestV1 env
              \<lparr>qri_amount = mqi_amount input, qri_request = mqi_request input\<rparr>) (\<lambda>request.
     bindR (catchR (\<lambda>_. MQ_invalid_fee_reserve)
              (minorUnits (case mqi_feeReserve input of None \<Rightarrow> 0 | Some f \<Rightarrow> f))) (\<lambda>feeReserve.
     if \<not> isSafeInteger (qr_amount request + feeReserve) then Inl MQ_invalid_fee_reserve
     else
     bindR (catchR (\<lambda>_. MQ_invalid_mint) (normalizeCashuMintUrl env (mqi_mintUrl input)))
       (\<lambda>mintUrl.
     bindR (catchR (\<lambda>_. MQ_invalid_observed_at) (unixTimestamp (mqi_observedAt input)))
       (\<lambda>observedAt.
     bindR (catchR (\<lambda>_. MQ_invalid_expiry) (unixTimestamp (mqi_expiry input))) (\<lambda>expiry.
     case parseQuoteState (mqi_state input) of
       None \<Rightarrow> Inl MQ_invalid_state
     | Some st \<Rightarrow>
         bindR (cashuStellarMeltQuoteId (mqi_quoteId input)) (\<lambda>quoteId.
         Inr \<lparr>mq_amount = qr_amount request, mq_expiry = expiry, mq_feeReserve = feeReserve,
              mq_method = CASHU_STELLAR_METHOD, mq_mintUrl = mintUrl,
              mq_observedAt = observedAt, mq_quoteId = quoteId,
              mq_request = qr_request request,
              mq_schemaVersion = CASHU_STELLAR_MELT_QUOTE_SCHEMA_VERSION, mq_state = st,
              mq_unit = CASHU_STELLAR_UNIT\<rparr>)))))))"

text \<open>A quote read back as an input.\<close>

definition quoteInput :: "melt_quote \<Rightarrow> melt_quote_input" where
  "quoteInput q =
     \<lparr>mqi_amount = mq_amount q, mqi_expiry = mq_expiry q, mqi_feeReserve = Some (mq_feeReserve q),
      mqi_method = mq_method q, mqi_mintUrl = mq_mintUrl q, mqi_observedAt = mq_observedAt q,
      mqi_quoteId = mq_quoteId q, mqi_request = mq_request q,
      mqi_schemaVersion = Some (mq_schemaVersion q), mqi_state = showQuoteState (mq_state q),
      mqi_unit = mq_unit q\<rparr>"

section \<open>The base-32 decoder\<close>

definition base32Value :: "int \<Rightarrow> string \<Rightarrow> int" where
  "base32Value n s = foldl (\<lambda>n c. 32 * n + (case base32Digit c of None \<Rightarrow> 0 | Some d \<Rightarrow> d)) n s"

definition bytesValue :: "int list \<Rightarrow> int" where
  "bytesValue bs = foldl (\<lambda>n b. 256 * n + b) 0 bs"

lemma bytesValue_snoc [simp]: "bytesValue (bs @ [b]) = 256 * bytesValue bs + b"
  by (simp add: bytesValue_def)

lemma base32Value_Cons: "base32Digit c = Some d \<Longrightarrow> base32Value n (c # cs) = base32Value (32 * n + d) cs"
  by (simp add: base32Value_def)

lemma base32Digit_range: "base32Digit c = Some d \<Longrightarrow> 0 \<le> d \<and> d < 32"
  by (auto simp: base32Digit_def isUpper_def charIn_int split: if_splits)

lemma push5_or: "0 \<le> d \<Longrightarrow> d < 32 \<Longrightarrow> (push_bit 5 b) OR d = 32 * b + (d :: int)"
proof -
  assume d: "0 \<le> d" "d < 32"
  then have td: "take_bit 5 d = d" by (simp add: take_bit_int_eq_self)
  have "push_bit 5 b + d = push_bit 5 b OR d"
  proof (rule disjunctive_add)
    fix n
    have "bit d n \<Longrightarrow> n < 5" by (metis td bit_take_bit_iff)
    then show "\<not> bit (push_bit 5 b) n \<or> \<not> bit d n"
      by (auto simp: bit_push_bit_iff)
  qed
  then show ?thesis by (simp add: push_bit_eq_mult)
qed

lemma and_low_mask: "(x :: int) AND (push_bit k 1 - 1) = x mod 2 ^ k"
  by (metis mask_eq_exp_minus_1 push_bit_of_1 take_bit_eq_mask take_bit_eq_mod)

lemma and_low_mask' : "(x :: int) AND (2 ^ k - 1) = x mod 2 ^ k"
  using and_low_mask [of x k] by simp

lemma and_255: "(x :: int) AND 255 = x mod 256"
  using and_low_mask [of x 8] by (simp add: push_bit_eq_mult)

lemma decode_byte:
  assumes "0 \<le> (b' :: int)" and "b' < 2 ^ (k + 8)"
  shows "drop_bit k b' AND 255 = b' div 2 ^ k" and "0 \<le> b' div 2 ^ k" and "b' div 2 ^ k < 256"
proof -
  show "b' div 2 ^ k < 256"
  proof (rule ccontr)
    assume "\<not> b' div 2 ^ k < 256"
    then have "256 * 2 ^ k \<le> b' div 2 ^ k * (2 ^ k :: int)" by (intro mult_right_mono) auto
    also have "\<dots> \<le> b'" using div_mult_mod_eq [of b' "2 ^ k"] by (smt (verit) pos_mod_sign zero_less_power)
    finally show False using assms(2) by (simp add: power_add mult.commute)
  qed
  moreover show "0 \<le> b' div 2 ^ k" using assms(1) by (simp add: pos_imp_zdiv_nonneg_iff)
  ultimately show "drop_bit k b' AND 255 = b' div 2 ^ k"
    by (simp add: and_255 drop_bit_eq_div)
qed

lemma decodeBase32Loop_spec:
  assumes "decodeBase32Loop cs b n out = Some res" and "0 \<le> b" and "b < 2 ^ n" and "n < 8"
    and "\<forall>x \<in> set out. 0 \<le> x \<and> x < 256"
  shows "length res = length out + (n + 5 * length cs) div 8
     \<and> bytesValue res * 2 ^ ((n + 5 * length cs) mod 8)
        = base32Value (bytesValue out * 2 ^ n + b) cs
     \<and> (\<forall>x \<in> set res. 0 \<le> x \<and> x < 256)"
  using assms
proof (induction cs arbitrary: b n out)
  case Nil
  then show ?case by (simp add: base32Value_def split: if_splits)
next
  case (Cons c cs)
  then obtain d where d: "base32Digit c = Some d" by (auto split: option.splits)
  define b' where "b' = 32 * b + d"
  have or: "(push_bit 5 b) OR d = b'"
    using base32Digit_range [OF d] by (simp add: push5_or b'_def)
  have b'0: "0 \<le> b'" and b'n: "b' < 2 ^ (n + 5)"
    using Cons.prems(2,3) base32Digit_range [OF d] by (auto simp: b'_def power_add)
  show ?case
  proof (cases "n + 5 \<ge> 8")
    case False
    with Cons.prems d or have "decodeBase32Loop cs b' (n + 5) out = Some res" by simp
    from Cons.IH [OF this b'0 b'n _ Cons.prems(5)] False show ?thesis
      by (simp add: base32Value_Cons [OF d] b'_def power_add algebra_simps)
  next
    case True
    define k where "k = n - 3"
    have k: "n + 5 = k + 8" "n + 5 - 8 = k" using True by (auto simp: k_def)
    have byte: "drop_bit k b' AND 255 = b' div 2 ^ k" "0 \<le> b' div 2 ^ k" "b' div 2 ^ k < 256"
      using decode_byte [OF b'0, of k] b'n by (simp_all add: k)
    from Cons.prems d or k have "decodeBase32Loop cs (b' mod 2 ^ k) k (out @ [b' div 2 ^ k]) = Some res"
      by (simp add: byte and_low_mask' Let_def)
    from Cons.IH [OF this] byte Cons.prems(4,5) k
    have IH: "length res = length out + 1 + (k + 5 * length cs) div 8"
      "bytesValue res * 2 ^ ((k + 5 * length cs) mod 8)
        = base32Value (bytesValue (out @ [b' div 2 ^ k]) * 2 ^ k + b' mod 2 ^ k) cs"
      "\<forall>x \<in> set res. 0 \<le> x \<and> x < 256"
      by auto
    have "n + 5 * length (c # cs) = k + 5 * length cs + 8" using k by simp
    moreover have "bytesValue (out @ [b' div 2 ^ k]) * 2 ^ k + b' mod 2 ^ k
        = 32 * (bytesValue out * 2 ^ n + b) + d"
    proof -
      have "256 * bytesValue out * 2 ^ k = 32 * (bytesValue out * 2 ^ n)"
        using arg_cong [OF k(1), of "\<lambda>m. (2 :: int) ^ m"] by (simp add: power_add)
      moreover have "b' div 2 ^ k * 2 ^ k + b' mod 2 ^ k = b'" by (rule div_mult_mod_eq)
      ultimately show ?thesis by (simp add: b'_def algebra_simps)
    qed
    ultimately show ?thesis using IH by (simp add: base32Value_Cons [OF d])
  qed
qed

section \<open>Amounts, requests, quotes\<close>

lemma digitsValue_append:
  "digitsValue (xs @ ys) = digitsValue xs * 10 ^ length ys + digitsValue ys"
proof (induction ys rule: rev_induct)
  case (snoc y ys)
  then show ?case by (simp add: digitsValue_def distrib_left flip: append_assoc)
qed (simp add: digitsValue_def)

lemma digitsValue_zeros [simp]: "digitsValue (replicate n CHR ''0'') = 0"
proof (induction n)
  case (Suc n)
  then show ?case
    using digitsValue_append [of "[CHR ''0'']" "replicate n CHR ''0''"]
    by (simp add: digitsValue_def)
qed (simp add: digitsValue_def)

lemma stellarDecimal_Some:
  assumes "stellarDecimal v = Some (w, f)"
  shows "length f \<le> 7 \<and> list_all isDigit w \<and> list_all isDigit f \<and> w \<noteq> []
     \<and> (v = w \<and> f = [] \<or> v = w @ CHR ''.'' # f)"
proof -
  have w: "w = takeWhile isDigit v" "w \<noteq> []"
    using assms by (auto simp: stellarDecimal_def Let_def split: list.splits if_splits)
  from w(1) have v: "v = w @ dropWhile isDigit v" by simp
  from w have "list_all isDigit w" by (auto simp: list_all_iff dest: set_takeWhileD)
  moreover consider "dropWhile isDigit v = []" "f = []"
    | "dropWhile isDigit v = CHR ''.'' # f" "length f \<le> 7" "list_all isDigit f"
    using assms by (auto simp: stellarDecimal_def Let_def split: list.splits if_splits)
  then have "length f \<le> 7 \<and> list_all isDigit f \<and> (v = w \<and> f = [] \<or> v = w @ CHR ''.'' # f)"
  proof cases
    case 1
    with v have "v = w" by (metis append_Nil2)
    with 1 show ?thesis by simp
  next
    case 2
    with v show ?thesis by metis
  qed
  ultimately show ?thesis using w(2) by blast
qed

lemma stellarAmount_scaled:
  assumes "length f \<le> 7"
  shows "digitsValue w * 10000000 + digitsValue (f @ replicate (7 - length f) CHR ''0'') = a * 100000
    \<longleftrightarrow> 100 * digitsValue (w @ f) = a * 10 ^ length f"
proof -
  define D E :: int where "D = 10 ^ length f" and "E = 10 ^ (7 - length f)"
  have DE: "10000000 = D * E"
  proof -
    have "(10 :: int) ^ 7 = D * E"
      using assms unfolding D_def E_def by (simp only: le_add_diff_inverse flip: power_add)
    then show ?thesis by simp
  qed
  have "E \<noteq> 0" by (simp add: E_def)
  have "digitsValue w * (D * E) + digitsValue f * E = a * 100000
     \<longleftrightarrow> 100 * (digitsValue w * (D * E) + digitsValue f * E) = a * 10000000" by auto
  also have "\<dots> \<longleftrightarrow> E * (100 * (digitsValue w * D + digitsValue f)) = E * (a * D)"
    unfolding DE by (simp add: algebra_simps)
  also have "\<dots> \<longleftrightarrow> 100 * (digitsValue w * D + digitsValue f) = a * D" using \<open>E \<noteq> 0\<close> by simp
  finally show ?thesis by (simp add: digitsValue_append DE D_def E_def)
qed

lemma stellarAmountMatches_iff:
  "stellarAmountMatches v a \<longleftrightarrow>
     (\<exists>w f. stellarDecimal v = Some (w, f) \<and> 100 * digitsValue (w @ f) = a * 10 ^ length f)"
proof (cases "stellarDecimal v")
  case (Some p)
  obtain w f where p: "p = (w, f)" by fastforce
  from stellarDecimal_Some [OF Some [unfolded p]] have "length f \<le> 7" by simp
  from stellarAmount_scaled [OF this] show ?thesis by (simp add: stellarAmountMatches_def Some p)
qed (simp add: stellarAmountMatches_def)

lemma collectParameters_iff:
  "collectParameters ps m = Inr m' \<longleftrightarrow>
     fst ` set ps \<subseteq> set ALLOWED_SEP7_PARAMETERS \<and> distinct (map fst ps)
     \<and> dom m \<inter> fst ` set ps = {} \<and> m' = m ++ map_of ps"
proof (induction ps arbitrary: m)
  case (Cons p ps)
  obtain k v where p: "p = (k, v)" by fastforce
  show ?case
  proof (cases "k \<in> set ALLOWED_SEP7_PARAMETERS \<and> m k = None")
    case True
    then have "collectParameters (p # ps) m = Inr m' \<longleftrightarrow>
        fst ` set ps \<subseteq> set ALLOWED_SEP7_PARAMETERS \<and> distinct (map fst ps)
        \<and> dom (m(k \<mapsto> v)) \<inter> fst ` set ps = {} \<and> m' = m(k \<mapsto> v) ++ map_of ps"
      by (simp add: p Cons.IH del: fun_upd_apply)
    moreover have "m(k \<mapsto> v) ++ map_of ps = m ++ map_of (p # ps)" if "k \<notin> fst ` set ps"
      using that by (simp add: p map_add_upd_left dom_map_of_conv_image_fst)
    ultimately show ?thesis using True by (auto simp: p simp del: map_of.simps fun_upd_apply)
  qed (auto simp: p domIff)
qed auto


text \<open>What a request that passed validation says.\<close>

definition requestValid :: "cashu_env \<Rightarrow> string \<Rightarrow> int \<Rightarrow> bool" where
  "requestValid env r a \<longleftrightarrow> validateSep7PaymentRequest env r a = Inr ()"

lemma validateSep7_destination:
  assumes "validateSep7PaymentRequest env r a = Inr ()"
  shows "\<exists>u d. env_parseUrl env r = Some u
    \<and> distinct (map fst (url_searchParams u))
    \<and> map_of (url_searchParams u) ''destination'' = Some d \<and> d \<noteq> []
    \<and> isValidStellarDestination d
    \<and> (\<exists>t. map_of (url_searchParams u) ''amount'' = Some t \<and> stellarAmountMatches t a)"
  using assms
  by (auto simp: validateSep7PaymentRequest_def result_simps collectParameters_iff
      requiredParameter_def Let_def split: if_splits option.splits)

lemma createRequest_iff:
  "createCashuStellarMeltQuoteRequestV1 env i = Inr r \<longleftrightarrow>
     1 \<le> qri_amount i \<and> qri_amount i \<le> 25000 \<and> requestValid env (qri_request i) (qri_amount i)
     \<and> r = \<lparr>qr_amount = qri_amount i, qr_method = ''stellar'', qr_request = qri_request i,
            qr_unit = ''usdc''\<rparr>"
  by (auto simp: createCashuStellarMeltQuoteRequestV1_def result_simps requestValid_def
      MIN_CASHU_STELLAR_MELT_AMOUNT_def MAX_CASHU_STELLAR_MELT_AMOUNT_def CASHU_STELLAR_METHOD_def
      CASHU_STELLAR_UNIT_def validAmount_def MAX_SAFE_INTEGER_def)

lemma map_of_rev: "distinct (map fst ps) \<Longrightarrow> map_of (rev ps) = map_of ps"
  by (metis distinct_rev map_of_eq_Some_iff map_of_inject_set rev_map set_rev)

lemma requestDestination:
  assumes "requestValid env (qr_request r) (qr_amount r)" and "1 \<le> qr_amount r" "qr_amount r \<le> 25000"
  shows "\<exists>d. cashuStellarMeltRequestDestination env r = Inr d \<and> isValidStellarDestination d"
proof -
  from validateSep7_destination [OF assms(1) [unfolded requestValid_def]] obtain u d where
    u: "env_parseUrl env (qr_request r) = Some u" "distinct (map fst (url_searchParams u))"
      "map_of (url_searchParams u) ''destination'' = Some d" "d \<noteq> []" "isValidStellarDestination d"
    by blast
  then have "map_of (rev (url_searchParams u)) ''destination'' = Some d"
    by (simp add: map_of_rev)
  moreover have "createCashuStellarMeltQuoteRequestV1 env (requestInput r) =
      Inr \<lparr>qr_amount = qr_amount r, qr_method = ''stellar'', qr_request = qr_request r, qr_unit = ''usdc''\<rparr>"
    using assms by (simp add: createRequest_iff requestInput_def)
  ultimately show ?thesis
    using u by (auto simp: cashuStellarMeltRequestDestination_def requiredParameter_def
        cashuStellarSettlementDestination_def)
qed

definition quoteValid :: "cashu_env \<Rightarrow> melt_quote \<Rightarrow> bool" where
  "quoteValid env q \<longleftrightarrow> 1 \<le> mq_amount q \<and> mq_amount q \<le> 25000
     \<and> requestValid env (mq_request q) (mq_amount q) \<and> validAmount (mq_feeReserve q)
     \<and> mq_amount q + mq_feeReserve q \<le> MAX_SAFE_INTEGER
     \<and> normalizeCashuMintUrl env (mq_mintUrl q) = Inr (mq_mintUrl q)
     \<and> validTimestamp (mq_observedAt q) \<and> validTimestamp (mq_expiry q)
     \<and> uuidV7Pattern (mq_quoteId q) \<and> mq_schemaVersion q = 1 \<and> mq_method q = ''stellar''
     \<and> mq_unit q = ''usdc''"

lemma parse_show_quote_state [simp]: "parseQuoteState (showQuoteState s) = Some s"
  by (cases s) (simp_all add: parseQuoteState_def)

lemmas quote_constants =
  CASHU_STELLAR_MELT_QUOTE_SCHEMA_VERSION_def CASHU_STELLAR_METHOD_def CASHU_STELLAR_UNIT_def

lemma createCashuStellarMeltQuoteV1_valid:
  assumes "mintUrlStable env" and "createCashuStellarMeltQuoteV1 env i = Inr q"
    and "length (mq_mintUrl q) \<le> MAX_CASHU_ENDPOINT_LENGTH"
  shows "quoteValid env q"
  using assms(2,3)
  by (auto simp: createCashuStellarMeltQuoteV1_def result_simps createRequest_iff quoteValid_def
      cashuStellarMeltQuoteId_def isSafeInteger_def quote_constants
      split: if_splits option.splits) (rule mintUrlStableD [OF assms(1)], assumption+)+

lemma quoteValid_recreate:
  assumes "quoteValid env q"
  shows "createCashuStellarMeltQuoteV1 env (quoteInput q) = Inr q"
proof -
  have "isSafeInteger (mq_amount q + mq_feeReserve q)"
    using assms by (auto simp: quoteValid_def isSafeInteger_def MAX_SAFE_INTEGER_def validAmount_def)
  moreover have "createCashuStellarMeltQuoteRequestV1 env
      \<lparr>qri_amount = mq_amount q, qri_request = mq_request q\<rparr>
    = Inr \<lparr>qr_amount = mq_amount q, qr_method = ''stellar'', qr_request = mq_request q,
            qr_unit = ''usdc''\<rparr>"
    using assms by (simp add: createRequest_iff quoteValid_def)
  moreover have "minorUnits (mq_feeReserve q) = Inr (mq_feeReserve q)"
      "unixTimestamp (mq_observedAt q) = Inr (mq_observedAt q)"
      "unixTimestamp (mq_expiry q) = Inr (mq_expiry q)"
    using assms by (auto simp: quoteValid_def)
  ultimately show ?thesis
    using assms
    by (simp add: createCashuStellarMeltQuoteV1_def quoteInput_def quoteValid_def
        cashuStellarMeltQuoteId_def quote_constants)
qed

end
