(* ===== verification/Database.thy ===== *)
theory Database
  imports Melt_Quote
begin

text \<open>
  The PostgreSQL tables the repositories of \<^verbatim>\<open>services/acquirer-api/src\<close> share
  (\<^verbatim>\<open>postgres-schema.ts\<close>): one record per table, with its columns, and the database as the
  record of all tables.  A table is the list of its rows in order of insertion, a nullable column
  an option.  \<open>db_deferred\<close> is the queue of deferred constraint triggers of the running
  transaction; it is empty between transactions.

  The driver returns \<^verbatim>\<open>BIGINT\<close> columns as decimal text, which every repository reads back
  through its own copy of \<open>parseSafeInteger\<close>; \<open>readBigint\<close> is that round trip.
\<close>

section \<open>Rows\<close>

record invoice_row =
  ir_id :: string
  ir_merchant_id :: string
  ir_schema_version :: int
  ir_unit :: string
  ir_amount :: int
  ir_created_at :: int
  ir_expires_at :: int
  ir_state :: string
  ir_paid_at :: "int option"

record creation_row =
  cr_merchant_id :: string
  cr_idempotency_key :: string
  cr_request_fingerprint :: string
  cr_invoice_id :: string
  cr_created_at :: int

record request_row =
  rq_invoice_id :: string
  rq_merchant_id :: string
  rq_schema_version :: int
  rq_encoded_request :: string
  rq_encoding :: string
  rq_issued_at :: int
  rq_mint_policy :: string
  rq_operator_count :: int
  rq_route_set_fingerprint :: string
  rq_transport_url :: string

record route_row =
  rt_invoice_id :: string
  rt_merchant_id :: string
  rt_position :: int
  rt_operator_id :: string
  rt_mint_url :: string
  rt_mode :: string
  rt_tier :: string
  rt_reason :: string
  rt_settlement_destination :: string

record reservation_row =
  rs_payment_id :: string
  rs_reservation_fingerprint :: string
  rs_invoice_id :: string
  rs_operator_id :: string
  rs_mint_url :: string
  rs_unit :: string
  rs_schema_version :: int
  rs_keyset_observed_at :: int
  rs_reserved_at :: int
  rs_gross_amount :: int

record proof_row =
  pf_payment_id :: string
  pf_mint_url :: string
  pf_unit :: string
  pf_position :: int
  pf_proof_y :: string
  pf_keyset_id :: string
  pf_amount :: int

record proof_claim_row =
  pc_mint_url :: string
  pc_proof_y :: string
  pc_payment_id :: string

record invoice_claim_row =
  ic_invoice_id :: string
  ic_payment_id :: string
  ic_effect_id :: string

record effect_row =
  ef_effect_id :: string
  ef_effect_fingerprint :: string
  ef_dispatch_fingerprint :: string
  ef_payment_id :: string
  ef_invoice_id :: string
  ef_operator_id :: string
  ef_mint_url :: string
  ef_effect_kind :: string
  ef_operator_reference :: "string option"
  ef_operator_reference_expires_at :: "int option"
  ef_schema_version :: int
  ef_started_at :: int

record event_row =
  ev_event_id :: string
  ev_event_fingerprint :: string
  ev_payment_id :: string
  ev_sequence :: int
  ev_schema_version :: int
  ev_state :: string
  ev_recorded_at :: int
  ev_effect_id :: "string option"
  ev_evidence_kind :: "string option"
  ev_evidence_at :: "int option"
  ev_journal_entry_id :: "string option"
  ev_proof_state_fingerprint :: "string option"

record quote_attempt_row =
  qa_attempt_id :: string
  qa_attempt_fingerprint :: string
  qa_payment_id :: string
  qa_invoice_id :: string
  qa_operator_id :: string
  qa_mint_url :: string
  qa_method :: string
  qa_unit :: string
  qa_amount :: int
  qa_request :: string
  qa_schema_version :: int
  qa_settlement_destination :: string
  qa_started_at :: int

record quote_outcome_row =
  qo_attempt_id :: string
  qo_outcome_fingerprint :: string
  qo_payment_id :: string
  qo_mint_url :: string
  qo_outcome_kind :: string
  qo_ambiguity_reason :: "string option"
  qo_quote_id :: "string option"
  qo_fee_reserve :: "int option"
  qo_expiry :: "int option"
  qo_schema_version :: int
  qo_recorded_at :: int

record quote_observation_row =
  qb_snapshot_fingerprint :: string
  qb_attempt_id :: string
  qb_payment_id :: string
  qb_mint_url :: string
  qb_quote_id :: string
  qb_schema_version :: int
  qb_observed_at :: int
  qb_state :: string

record proof_observation_row =
  px_snapshot_fingerprint :: string
  px_payment_id :: string
  px_operator_id :: string
  px_mint_url :: string
  px_unit :: string
  px_schema_version :: int
  px_observed_at :: int

record proof_entry_row =
  pe_snapshot_fingerprint :: string
  pe_payment_id :: string
  pe_position :: int
  pe_proof_y :: string
  pe_state :: string

record journal_row =
  jr_journal_entry_id :: string
  jr_journal_fingerprint :: string
  jr_invoice_id :: string
  jr_merchant_id :: string
  jr_payment_id :: string
  jr_operator_id :: string
  jr_mint_url :: string
  jr_settlement_mode :: string
  jr_asset_account_kind :: string
  jr_asset_account_id :: "string option"
  jr_schema_version :: int
  jr_accepted_at :: int
  jr_effective_at :: int
  jr_gross_amount :: int
  jr_fee_amount :: int
  jr_net_amount :: int

record posting_row =
  pg_journal_entry_id :: string
  pg_position :: int
  pg_side :: string
  pg_account_kind :: string
  pg_account_id :: "string option"
  pg_amount :: int

text \<open>
  A keyset's \<open>keys\<close> are a \<^verbatim>\<open>JSONB\<close> object, kept as the list of its entries.  The repository writes them
  in the order of their amounts, which is the order \<^verbatim>\<open>JSONB\<close> keeps decimal numerals in (by length,
  then by their digits).
\<close>

record keyset_row =
  kr_mint_url :: string
  kr_keyset_id :: string
  kr_unit :: string
  kr_input_fee_ppk :: int
  kr_final_expiry :: "int option"
  kr_keys :: "(string \<times> string) list"
  kr_identity_fingerprint :: string

record keyset_observation_row =
  ko_snapshot_fingerprint :: string
  ko_operator_id :: string
  ko_mint_url :: string
  ko_unit :: string
  ko_schema_version :: int
  ko_observed_at :: int

record keyset_entry_row =
  ke_snapshot_fingerprint :: string
  ke_mint_url :: string
  ke_unit :: string
  ke_position :: int
  ke_keyset_id :: string
  ke_active :: bool

text \<open>Of a custody row, only the columns the modelled triggers read.\<close>

record custody_row =
  cu_payment_id :: string
  cu_proof_count :: int
  cu_created_at :: int

record job_row =
  jb_payment_id :: string
  jb_effect_id :: string
  jb_schema_version :: int
  jb_initial_attempt_at :: int

record lease_row =
  ls_lease_token :: string
  ls_payment_id :: string
  ls_attempt_number :: int
  ls_worker_id :: string
  ls_schema_version :: int
  ls_claimed_at :: int
  ls_expires_at :: int

record outcome_row =
  oc_lease_token :: string
  oc_payment_id :: string
  oc_outcome_kind :: string
  oc_reason :: "string option"
  oc_recorded_at :: int
  oc_next_attempt_at :: "int option"

section \<open>The database\<close>

text \<open>The deferred constraint triggers, with what they read of the row that queued them.\<close>

datatype deferred_check =
    Request_operator_check string
  | Invoice_request_check string
  | Creation_invoice_check string string
  | Effect_event_check effect_row
  | Active_claims_check string
  | Journal_postings_check string
  | Payment_accounting_check string
  | Proof_observation_check string
  | Quote_outcome_check string
  | Keyset_observation_check string
  | Reservation_check string

record db =
  db_invoices :: "invoice_row list"
  db_creations :: "creation_row list"
  db_requests :: "request_row list"
  db_routes :: "route_row list"
  db_reservations :: "reservation_row list"
  db_proofs :: "proof_row list"
  db_proofClaims :: "proof_claim_row list"
  db_invoiceClaims :: "invoice_claim_row list"
  db_effects :: "effect_row list"
  db_events :: "event_row list"
  db_quoteAttempts :: "quote_attempt_row list"
  db_quoteOutcomes :: "quote_outcome_row list"
  db_quoteObservations :: "quote_observation_row list"
  db_proofObservations :: "proof_observation_row list"
  db_proofEntries :: "proof_entry_row list"
  db_journals :: "journal_row list"
  db_postings :: "posting_row list"
  db_custody :: "custody_row list"
  db_jobs :: "job_row list"
  db_leases :: "lease_row list"
  db_outcomes :: "outcome_row list"
  db_keysets :: "keyset_row list"
  db_keysetObservations :: "keyset_observation_row list"
  db_keysetEntries :: "keyset_entry_row list"
  db_deferred :: "deferred_check list"

text \<open>
  PostgreSQL's error classes \<open>23505\<close> (with the constraint it names), \<open>23514\<close>, \<open>23503\<close> and
  \<open>55000\<close>, as far as the code tells them apart.
\<close>

datatype db_error =
    Unique_violation string
  | Check_violation
  | Foreign_key_violation
  | Not_in_prerequisite_state

text \<open>
  What a repository method can throw before its \<open>mapStorageError\<close>: its own error class with its
  code, a database error, or any other exception.
\<close>

datatype 'c failure =
    Repository_failure 'c
  | Database_failure db_error
  | Other_failure

definition liftDb :: "db_error + 'a \<Rightarrow> 'c failure + 'a" where
  "liftDb = catchR Database_failure"

definition failWith :: "'c \<Rightarrow> 'c failure + 'a" where
  "failWith c = Inl (Repository_failure c)"

text \<open>
  \<open>try { ... } catch (error) { if (error instanceof RepositoryError) throw error; return fail(); }\<close>
\<close>

definition orInvalid :: "'c \<Rightarrow> 'c failure + 'a \<Rightarrow> 'c failure + 'a" where
  "orInvalid c = catchR (\<lambda>f. case f of Repository_failure d \<Rightarrow> Repository_failure d
                                | _ \<Rightarrow> Repository_failure c)"

definition other :: "'e + 'a \<Rightarrow> 'c failure + 'a" where
  "other = catchR (\<lambda>_. Other_failure)"

lemma lift_iff [simp]:
  "liftDb m = Inr x \<longleftrightarrow> m = Inr x"
  "orInvalid c n = Inr x \<longleftrightarrow> n = Inr x"
  "other k = Inr x \<longleftrightarrow> k = Inr x"
  by (simp_all add: liftDb_def orInvalid_def other_def catchR_eq_Inr)

lemma lift_Inr [simp]:
  "liftDb (Inr x) = Inr x" "orInvalid c (Inr x) = Inr x" "other (Inr x) = Inr x"
  by simp_all

lemma failWith_iff [simp]: "failWith c \<noteq> Inr x" "failWith c = Inl f \<longleftrightarrow> f = Repository_failure c"
  by (auto simp: failWith_def)

section \<open>Reading rows\<close>

text \<open>\<open>SELECT ... WHERE ... ORDER BY key DESC LIMIT 1\<close>\<close>

definition latestBy :: "('r \<Rightarrow> 'k :: linorder) \<Rightarrow> 'r list \<Rightarrow> 'r option" where
  "latestBy key rows = atLast (sort_key key rows)"

text \<open>The unique index on \<open>key\<close>.\<close>

definition requireUnique :: "string \<Rightarrow> ('r \<Rightarrow> 'k) \<Rightarrow> 'r list \<Rightarrow> 'r \<Rightarrow> db_error + unit" where
  "requireUnique name key rows row =
     throwIf (list_ex (\<lambda>r. key r = key row) rows) (Unique_violation name)"

definition requireExists :: "('r \<Rightarrow> bool) \<Rightarrow> 'r list \<Rightarrow> db_error + unit" where
  "requireExists p rows = throwIf (\<not> list_ex p rows) Foreign_key_violation"

definition checkRow :: "bool \<Rightarrow> db_error + unit" where
  "checkRow ok = throwIf (\<not> ok) Check_violation"

lemma constraint_iff [simp]:
  "requireUnique name key rows row = Inr u \<longleftrightarrow> (\<forall>r \<in> set rows. key r \<noteq> key row)"
  "requireExists p rows = Inr u \<longleftrightarrow> (\<exists>r \<in> set rows. p r)"
  "checkRow ok = Inr u \<longleftrightarrow> ok"
  by (auto simp: requireUnique_def requireExists_def checkRow_def list_ex_iff)

lemma latestBy_None [simp]: "latestBy key rows = None \<longleftrightarrow> rows = []"
  by (simp add: latestBy_def)

lemma latestBy_Some:
  "latestBy key rows = Some r \<Longrightarrow> r \<in> set rows \<and> (\<forall>x \<in> set rows. key x \<le> key r)"
proof -
  assume "latestBy key rows = Some r"
  then obtain ys where ys: "sort_key key rows = ys @ [r]"
    by (auto simp: latestBy_def atLast_Some_append)
  moreover have "sorted (map key (sort_key key rows))" by simp
  ultimately have "\<forall>x \<in> set ys. key x \<le> key r" by (auto simp: sorted_append)
  moreover have "set rows = insert r (set ys)" using ys by (metis set_sort set_append Un_commute insert_is_Un list.simps(15) empty_set)
  ultimately show ?thesis by auto
qed

section \<open>Integers as decimal text\<close>

fun natText :: "nat \<Rightarrow> string" where
  "natText n = (if n < 10 then [char_of (48 + n)] else natText (n div 10) @ [char_of (48 + n mod 10)])"

declare natText.simps [simp del]

definition bigintText :: "int \<Rightarrow> string" where
  "bigintText v = (if v < 0 then CHR ''-'' # natText (nat (- v)) else natText (nat v))"

text \<open>\<^verbatim>\<open>/^(0|[1-9][0-9]*)$/\<close>\<close>

definition safeIntegerPattern :: "string \<Rightarrow> bool" where
  "safeIntegerPattern s \<longleftrightarrow> s = ''0'' \<or>
     (case s of [] \<Rightarrow> False | c # cs \<Rightarrow> charIn CHR ''1'' CHR ''9'' c \<and> list_all isDigit cs)"

definition parseSafeInteger :: "'e \<Rightarrow> string \<Rightarrow> 'e + int" where
  "parseSafeInteger e v =
    (if \<not> safeIntegerPattern v then Inl e
     else let parsed = digitsValue v in if \<not> isSafeInteger parsed then Inl e else Inr parsed)"

definition readBigint :: "'e \<Rightarrow> int \<Rightarrow> 'e + int" where
  "readBigint e v = parseSafeInteger e (bigintText v)"

lemma digit_char: "n < 10 \<Longrightarrow> of_char (char_of (48 + n :: nat)) = int (48 + n)"
proof -
  assume "n < 10"
  then have "(of_char (char_of (48 + n :: nat)) :: nat) = 48 + n" by simp
  then show ?thesis by (metis of_nat_of_char)
qed

lemma isDigit_char: "(n :: nat) < 10 \<Longrightarrow> isDigit (char_of (48 + n))"
  by (simp add: isDigit_def charIn_int digit_char)

lemma natText_digits: "list_all isDigit (natText n) \<and> natText n \<noteq> [] \<and> digitsValue (natText n) = int n"
proof (induction n rule: natText.induct)
  case (1 n)
  have "int n mod 10 + 10 * (int n div 10) = int n" by presburger
  then show ?case
    using 1 by (subst (1 2 3) natText.simps)
      (auto simp: isDigit_char digitsValue_append digitsValue_def digit_char zdiv_int zmod_int)
qed

lemma natText_head: "0 < n \<Longrightarrow> charIn CHR ''1'' CHR ''9'' (hd (natText n))"
proof (induction n rule: natText.induct)
  case (1 n)
  show ?case
  proof (cases "n < 10")
    case True
    with 1 show ?thesis by (simp add: natText.simps [of n] charIn_int digit_char)
  next
    case False
    with 1 have "charIn CHR ''1'' CHR ''9'' (hd (natText (n div 10)))" by (simp add: div_greater_zero_iff)
    with False natText_digits [of "n div 10"] show ?thesis by (simp add: natText.simps [of n])
  qed
qed

lemma natText_0: "natText 0 = ''0''"
  by (simp add: natText.simps char_of_def bit_simps)

lemma readBigint_iff [simp]:
  "readBigint e v = Inr w \<longleftrightarrow> 0 \<le> v \<and> v \<le> MAX_SAFE_INTEGER \<and> w = v"
proof (cases "v < 0")
  case True
  have "\<not> charIn CHR ''1'' CHR ''9'' CHR ''-''" by (simp add: charIn_int)
  with True show ?thesis
    by (simp add: readBigint_def parseSafeInteger_def bigintText_def safeIntegerPattern_def)
next
  case False
  have "safeIntegerPattern (natText (nat v))"
  proof (cases "v = 0")
    case True
    then show ?thesis by (simp add: safeIntegerPattern_def natText_0)
  next
    case nz: False
    obtain c cs where c: "natText (nat v) = c # cs"
      using natText_digits [of "nat v"] by (cases "natText (nat v)") auto
    moreover have "charIn CHR ''1'' CHR ''9'' c"
      using natText_head [of "nat v"] c False nz by simp
    moreover have "list_all isDigit cs" using natText_digits [of "nat v"] c by simp
    ultimately show ?thesis by (simp add: safeIntegerPattern_def)
  qed
  with False natText_digits [of "nat v"] show ?thesis
    by (auto simp: readBigint_def parseSafeInteger_def bigintText_def isSafeInteger_def
        MAX_SAFE_INTEGER_def)
qed

lemma readBigint_safe: "0 \<le> v \<Longrightarrow> v \<le> MAX_SAFE_INTEGER \<Longrightarrow> readBigint e v = Inr v"
  by simp

lemma readBigint_valid [simp]:
  "validTimestamp v \<Longrightarrow> readBigint e v = Inr v"
  "validAmount v \<Longrightarrow> readBigint e v = Inr v"
  by (simp_all add: validTimestamp_def validAmount_def)

end
