(* ===== verification/Quote_Record.thy ===== *)
theory Quote_Record
  imports Database
begin

text \<open>
  \<^verbatim>\<open>services/acquirer-api/src/cashu-stellar-melt-quote-record.ts\<close>: reading a quote attempt, its
  quoted outcome and its observations back from their rows.  Every record is rebuilt through the
  constructors of the Cashu package, bound to the others by identifier and fingerprint, and the
  history must start unpaid, advance in time and never leave the paid state.
\<close>

section \<open>Records\<close>

definition CASHU_STELLAR_MELT_QUOTE_ATTEMPT_SCHEMA_VERSION :: int where
  "CASHU_STELLAR_MELT_QUOTE_ATTEMPT_SCHEMA_VERSION = 1"

definition MAX_CASHU_STELLAR_MELT_QUOTE_TTL_SECONDS :: int where
  "MAX_CASHU_STELLAR_MELT_QUOTE_TTL_SECONDS = 900"

record quote_attempt =
  qat_attemptId :: string
  qat_invoiceId :: string
  qat_mintUrl :: string
  qat_operatorId :: string
  qat_paymentId :: string
  qat_request :: melt_quote_request
  qat_schemaVersion :: int
  qat_settlementDestination :: string
  qat_startedAt :: int

record stored_attempt = quote_attempt +
  qat_attemptFingerprint :: string

record quoted_evidence =
  qe_attempt :: stored_attempt
  qe_observations :: "melt_quote list"
  qe_recordedAt :: int

datatype record_error = Record_invalid

definition recordR :: "'e + 'a \<Rightarrow> record_error + 'a" where
  "recordR = catchR (\<lambda>_. Record_invalid)"

lemma recordR_simps [simp]: "recordR m = Inr x \<longleftrightarrow> m = Inr x" "recordR (Inr x) = Inr x"
  by (simp_all add: recordR_def catchR_eq_Inr)

section \<open>Fingerprints\<close>

definition createCashuStellarMeltQuoteAttemptFingerprint ::
  "cashu_env \<Rightarrow> 'a quote_attempt_scheme \<Rightarrow> string" where
  "createCashuStellarMeltQuoteAttemptFingerprint env a =
     env_sha256 env (JObj
       [(''amount'', JNum (qr_amount (qat_request a))), (''attemptId'', JStr (qat_attemptId a)),
        (''invoiceId'', JStr (qat_invoiceId a)), (''method'', JStr (qr_method (qat_request a))),
        (''mintUrl'', JStr (qat_mintUrl a)), (''operatorId'', JStr (qat_operatorId a)),
        (''paymentId'', JStr (qat_paymentId a)), (''request'', JStr (qr_request (qat_request a))),
        (''schemaVersion'', JNum (qat_schemaVersion a)),
        (''settlementDestination'', JStr (qat_settlementDestination a)),
        (''startedAt'', JNum (qat_startedAt a)), (''unit'', JStr (qr_unit (qat_request a)))])"

definition createCashuStellarMeltQuotedOutcomeFingerprint ::
  "cashu_env \<Rightarrow> stored_attempt \<Rightarrow> melt_quote \<Rightarrow> string" where
  "createCashuStellarMeltQuotedOutcomeFingerprint env a q =
     env_sha256 env (JObj
       [(''amount'', JNum (mq_amount q)), (''attemptFingerprint'', JStr (qat_attemptFingerprint a)),
        (''attemptId'', JStr (qat_attemptId a)), (''expiry'', JNum (mq_expiry q)),
        (''feeReserve'', JNum (mq_feeReserve q)), (''kind'', JStr ''quoted''),
        (''method'', JStr (mq_method q)), (''mintUrl'', JStr (mq_mintUrl q)),
        (''paymentId'', JStr (qat_paymentId a)), (''quoteId'', JStr (mq_quoteId q)),
        (''recordedAt'', JNum (mq_observedAt q)), (''request'', JStr (mq_request q)),
        (''schemaVersion'', JNum (qat_schemaVersion a)), (''unit'', JStr (mq_unit q))])"

definition createCashuStellarMeltQuoteObservationFingerprint ::
  "cashu_env \<Rightarrow> stored_attempt \<Rightarrow> melt_quote \<Rightarrow> string" where
  "createCashuStellarMeltQuoteObservationFingerprint env a q =
     env_sha256 env (JObj
       [(''amount'', JNum (mq_amount q)), (''attemptId'', JStr (qat_attemptId a)),
        (''expiry'', JNum (mq_expiry q)), (''feeReserve'', JNum (mq_feeReserve q)),
        (''method'', JStr (mq_method q)), (''mintUrl'', JStr (mq_mintUrl q)),
        (''observedAt'', JNum (mq_observedAt q)), (''operatorId'', JStr (qat_operatorId a)),
        (''paymentId'', JStr (qat_paymentId a)), (''quoteId'', JStr (mq_quoteId q)),
        (''request'', JStr (mq_request q)), (''schemaVersion'', JNum (mq_schemaVersion q)),
        (''state'', JStr (showQuoteState (mq_state q))), (''unit'', JStr (mq_unit q))])"

section \<open>Reading the rows\<close>

definition mapCashuStellarMeltQuoteAttemptRecord ::
  "cashu_env \<Rightarrow> quote_attempt_row \<Rightarrow> record_error + stored_attempt" where
  "mapCashuStellarMeltQuoteAttemptRecord env row =
     bindR (readBigint Record_invalid (qa_amount row)) (\<lambda>amount.
     bindR (recordR (createCashuStellarMeltQuoteRequestV1 env
              \<lparr>qri_amount = amount, qri_request = qa_request row\<rparr>)) (\<lambda>request.
     bindR (recordR (identifierOf (qa_attempt_id row))) (\<lambda>attemptId.
     bindR (recordR (identifierOf (qa_invoice_id row))) (\<lambda>invoiceId.
     bindR (recordR (normalizeCashuMintUrl env (qa_mint_url row))) (\<lambda>mintUrl.
     bindR (recordR (identifierOf (qa_operator_id row))) (\<lambda>operatorId.
     bindR (recordR (identifierOf (qa_payment_id row))) (\<lambda>paymentId.
     bindR (recordR (cashuStellarSettlementDestination (qa_settlement_destination row)))
       (\<lambda>settlementDestination.
     bindR (readBigint Record_invalid (qa_started_at row)) (\<lambda>storedStartedAt.
     bindR (recordR (unixTimestamp storedStartedAt)) (\<lambda>startedAt.
     let attempt = \<lparr>qat_attemptId = attemptId, qat_invoiceId = invoiceId, qat_mintUrl = mintUrl,
           qat_operatorId = operatorId, qat_paymentId = paymentId, qat_request = request,
           qat_schemaVersion = CASHU_STELLAR_MELT_QUOTE_ATTEMPT_SCHEMA_VERSION,
           qat_settlementDestination = settlementDestination, qat_startedAt = startedAt,
           qat_attemptFingerprint = qa_attempt_fingerprint row\<rparr>
     in
     bindR (recordR (cashuStellarMeltRequestDestination env request)) (\<lambda>destination.
     if qa_schema_version row \<noteq> CASHU_STELLAR_MELT_QUOTE_ATTEMPT_SCHEMA_VERSION
        \<or> qa_method row \<noteq> qr_method request \<or> qa_unit row \<noteq> qr_unit request
        \<or> qa_mint_url row \<noteq> mintUrl \<or> destination \<noteq> settlementDestination
        \<or> createCashuStellarMeltQuoteAttemptFingerprint env attempt \<noteq> qa_attempt_fingerprint row
     then Inl Record_invalid
     else Inr attempt)))))))))))"

definition mapCashuStellarMeltQuoteObservationRecord ::
  "cashu_env \<Rightarrow> stored_attempt \<Rightarrow> quote_outcome_row \<Rightarrow> int \<Rightarrow> int \<Rightarrow> quote_observation_row
     \<Rightarrow> record_error + melt_quote" where
  "mapCashuStellarMeltQuoteObservationRecord env attempt outcome expiry feeReserve row =
    (if qb_attempt_id row \<noteq> qat_attemptId attempt \<or> qb_payment_id row \<noteq> qat_paymentId attempt
        \<or> qb_mint_url row \<noteq> qat_mintUrl attempt \<or> Some (qb_quote_id row) \<noteq> qo_quote_id outcome
        \<or> qb_schema_version row \<noteq> CASHU_STELLAR_MELT_QUOTE_SCHEMA_VERSION
     then Inl Record_invalid
     else
     bindR (readBigint Record_invalid (qb_observed_at row)) (\<lambda>observedAt.
     if parseQuoteState (qb_state row) = None then Inl Record_invalid
     else
     bindR (recordR (createCashuStellarMeltQuoteV1 env
              \<lparr>mqi_amount = qr_amount (qat_request attempt), mqi_expiry = expiry,
               mqi_feeReserve = Some feeReserve, mqi_method = qr_method (qat_request attempt),
               mqi_mintUrl = qat_mintUrl attempt, mqi_observedAt = observedAt,
               mqi_quoteId = qb_quote_id row, mqi_request = qr_request (qat_request attempt),
               mqi_schemaVersion = Some (qb_schema_version row), mqi_state = qb_state row,
               mqi_unit = qr_unit (qat_request attempt)\<rparr>)) (\<lambda>quote.
     if createCashuStellarMeltQuoteObservationFingerprint env attempt quote
        \<noteq> qb_snapshot_fingerprint row
     then Inl Record_invalid
     else Inr quote)))"

text \<open>The loop over consecutive observations.\<close>

fun observationHistoryOk :: "melt_quote list \<Rightarrow> bool" where
  "observationHistoryOk (previous # current # rest) =
     (\<not> (mq_observedAt current \<le> mq_observedAt previous
         \<or> mq_state previous = Quote_paid \<and> mq_state current \<noteq> Quote_paid)
      \<and> observationHistoryOk (current # rest))"
| "observationHistoryOk _ = True"

definition mapCashuStellarMeltQuotedEvidenceRecord ::
  "cashu_env \<Rightarrow> quote_attempt_row \<Rightarrow> quote_outcome_row \<Rightarrow> quote_observation_row list
     \<Rightarrow> record_error + quoted_evidence" where
  "mapCashuStellarMeltQuotedEvidenceRecord env attemptRow outcome observationRows =
     bindR (mapCashuStellarMeltQuoteAttemptRecord env attemptRow) (\<lambda>attempt.
     if qo_attempt_id outcome \<noteq> qat_attemptId attempt \<or> qo_payment_id outcome \<noteq> qat_paymentId attempt
        \<or> qo_mint_url outcome \<noteq> qat_mintUrl attempt
        \<or> qo_schema_version outcome \<noteq> qat_schemaVersion attempt
        \<or> qo_outcome_kind outcome \<noteq> ''quoted'' \<or> qo_ambiguity_reason outcome \<noteq> None
        \<or> qo_quote_id outcome = None
     then Inl Record_invalid
     else
     bindR (readBigint Record_invalid (qo_recorded_at outcome)) (\<lambda>storedRecordedAt.
     bindR (recordR (unixTimestamp storedRecordedAt)) (\<lambda>recordedAt.
     bindR (case qo_expiry outcome of None \<Rightarrow> parseSafeInteger Record_invalid ''''
            | Some v \<Rightarrow> readBigint Record_invalid v) (\<lambda>expiry.
     bindR (case qo_fee_reserve outcome of None \<Rightarrow> parseSafeInteger Record_invalid ''''
            | Some v \<Rightarrow> readBigint Record_invalid v) (\<lambda>feeReserve.
     bindR (mapR (mapCashuStellarMeltQuoteObservationRecord env attempt outcome expiry feeReserve)
              observationRows) (\<lambda>observations.
     case observations of
       [] \<Rightarrow> Inl Record_invalid
     | first # _ \<Rightarrow>
         if mq_observedAt first \<noteq> recordedAt \<or> mq_state first \<noteq> Quote_unpaid
            \<or> recordedAt < qat_startedAt attempt \<or> mq_expiry first \<le> mq_observedAt first
            \<or> mq_expiry first - qat_startedAt attempt > MAX_CASHU_STELLAR_MELT_QUOTE_TTL_SECONDS
            \<or> createCashuStellarMeltQuotedOutcomeFingerprint env attempt first
              \<noteq> qo_outcome_fingerprint outcome
         then Inl Record_invalid
         else if \<not> observationHistoryOk observations then Inl Record_invalid
         else Inr \<lparr>qe_attempt = attempt, qe_observations = observations,
                   qe_recordedAt = recordedAt\<rparr>))))))"

section \<open>What the evidence says\<close>

lemma parseSafeInteger_empty [simp]: "parseSafeInteger e [] = Inl e"
  by (simp add: parseSafeInteger_def safeIntegerPattern_def)

lemma observationHistoryOk_iff:
  "observationHistoryOk qs \<longleftrightarrow>
     sorted_wrt (\<lambda>p c. mq_observedAt p < mq_observedAt c
        \<and> (mq_state p = Quote_paid \<longrightarrow> mq_state c = Quote_paid)) qs"
proof (induction qs rule: observationHistoryOk.induct)
  case (1 p c rest)
  then show ?case by (auto simp: not_le intro: less_trans)
qed auto

text \<open>
  The specification of quoted evidence: one quote observed over time, unpaid first, paid for good,
  issued for the attempt within the time a quote may live.
\<close>

definition evidenceValid :: "cashu_env \<Rightarrow> quoted_evidence \<Rightarrow> bool" where
  "evidenceValid env e \<longleftrightarrow>
     (\<exists>first rest. qe_observations e = first # rest \<and> mq_state first = Quote_unpaid
        \<and> mq_observedAt first = qe_recordedAt e \<and> mq_observedAt first < mq_expiry first
        \<and> qat_startedAt (qe_attempt e) \<le> qe_recordedAt e
        \<and> mq_expiry first \<le> qat_startedAt (qe_attempt e) + 900
        \<and> (\<forall>q \<in> set rest. mq_quoteId q = mq_quoteId first \<and> mq_expiry q = mq_expiry first
             \<and> mq_amount q = mq_amount first \<and> mq_feeReserve q = mq_feeReserve first))
     \<and> sorted_wrt (\<lambda>p c. mq_observedAt p < mq_observedAt c
        \<and> (mq_state p = Quote_paid \<longrightarrow> mq_state c = Quote_paid)) (qe_observations e)
     \<and> (\<forall>q \<in> set (qe_observations e). mq_amount q = qr_amount (qat_request (qe_attempt e))
          \<and> mq_request q = qr_request (qat_request (qe_attempt e)))"

lemma createQuote_fields:
  "createCashuStellarMeltQuoteV1 env i = Inr q \<Longrightarrow>
     mq_amount q = mqi_amount i \<and> mq_expiry q = mqi_expiry i \<and> mq_quoteId q = mqi_quoteId i
     \<and> mq_request q = mqi_request i \<and> mq_observedAt q = mqi_observedAt i
     \<and> parseQuoteState (mqi_state i) = Some (mq_state q)
     \<and> mq_feeReserve q = (case mqi_feeReserve i of None \<Rightarrow> 0 | Some f \<Rightarrow> f)"
  by (auto simp: createCashuStellarMeltQuoteV1_def result_simps createRequest_iff
      cashuStellarMeltQuoteId_def split: if_splits option.splits)

lemma observationRecord_fields:
  "mapCashuStellarMeltQuoteObservationRecord env a out expiry fee row = Inr q \<Longrightarrow>
     mq_amount q = qr_amount (qat_request a) \<and> mq_request q = qr_request (qat_request a)
     \<and> mq_expiry q = expiry \<and> mq_feeReserve q = fee \<and> Some (mq_quoteId q) = qo_quote_id out
     \<and> mq_observedAt q = qb_observed_at row \<and> qb_state row = showQuoteState (mq_state q)"
  by (auto simp: mapCashuStellarMeltQuoteObservationRecord_def result_simps parseQuoteState_def
      split: if_splits dest!: createQuote_fields)

lemma quotedEvidence_valid:
  assumes "mapCashuStellarMeltQuotedEvidenceRecord env a out rows = Inr e"
  shows "evidenceValid env e"
proof -
  obtain attempt expiry fee first rest where
    obs: "mapR (mapCashuStellarMeltQuoteObservationRecord env attempt out expiry fee) rows
      = Inr (qe_observations e)" and
    e: "qe_attempt e = attempt" "qe_observations e = first # rest"
      "mq_observedAt first = qe_recordedAt e" "mq_state first = Quote_unpaid"
      "qat_startedAt attempt \<le> qe_recordedAt e" "mq_observedAt first < mq_expiry first"
      "mq_expiry first \<le> qat_startedAt attempt + 900" "observationHistoryOk (qe_observations e)"
    using assms
    by (auto simp: mapCashuStellarMeltQuotedEvidenceRecord_def result_simps not_less not_le
        MAX_CASHU_STELLAR_MELT_QUOTE_TTL_SECONDS_def split: if_splits list.splits)
  have fields: "mq_amount q = qr_amount (qat_request attempt)
      \<and> mq_request q = qr_request (qat_request attempt)
      \<and> mq_expiry q = expiry \<and> mq_feeReserve q = fee \<and> Some (mq_quoteId q) = qo_quote_id out"
    if "q \<in> set (qe_observations e)" for q
    using mapR_Inr_set [OF obs that] observationRecord_fields by blast
  have first: "first \<in> set (qe_observations e)" and rest: "\<And>q. q \<in> set rest \<Longrightarrow> q \<in> set (qe_observations e)"
    by (simp_all add: e(2))
  have "mq_quoteId q = mq_quoteId first \<and> mq_expiry q = mq_expiry first
      \<and> mq_amount q = mq_amount first \<and> mq_feeReserve q = mq_feeReserve first" if "q \<in> set rest" for q
    using fields [OF first] fields [OF rest [OF that]] by (metis option.inject)
  then have "\<exists>first rest. qe_observations e = first # rest \<and> mq_state first = Quote_unpaid
      \<and> mq_observedAt first = qe_recordedAt e \<and> mq_observedAt first < mq_expiry first
      \<and> qat_startedAt (qe_attempt e) \<le> qe_recordedAt e
      \<and> mq_expiry first \<le> qat_startedAt (qe_attempt e) + 900
      \<and> (\<forall>q \<in> set rest. mq_quoteId q = mq_quoteId first \<and> mq_expiry q = mq_expiry first
           \<and> mq_amount q = mq_amount first \<and> mq_feeReserve q = mq_feeReserve first)"
    using e by (intro exI [of _ first] exI [of _ rest]) simp
  moreover have "\<forall>q \<in> set (qe_observations e). mq_amount q = qr_amount (qat_request (qe_attempt e))
      \<and> mq_request q = qr_request (qat_request (qe_attempt e))"
    using fields e(1) by simp
  ultimately show ?thesis
    using e(8) unfolding evidenceValid_def observationHistoryOk_iff by (intro conjI)
qed

end
