(* ===== verification/Ledger.thy ===== *)
theory Ledger
  imports Identifiers
begin

text \<open>
  \<^verbatim>\<open>packages/domain/src/ledger.ts\<close>: operator-aware double-entry journals.  An entry is built
  by \<open>createJournalEntryV1\<close>, which checks the reference, accumulates debits and credits as
  unbounded integers (the code uses \<open>BigInt\<close>), refuses totals beyond the safe range and
  unbalanced postings, and enforces the invoice-payment shape.  \<open>balanced\<close> and
  \<open>paymentShaped\<close> are the abstract specification every created entry is shown to meet.
\<close>

section \<open>Accounts, postings, entries\<close>

datatype posting_side = Debit | Credit | Other_side string

datatype ledger_account =
    Operator_ecash string
  | Settlement_asset string
  | Merchant_payable string
  | Fee_revenue
  | Other_account string

record ledger_posting =
  po_account :: ledger_account
  po_amount :: int
  po_side :: posting_side

record payment_reference =
  ref_invoiceId :: string
  ref_kind :: string
  ref_merchantId :: string
  ref_operatorId :: string
  ref_paymentId :: string
  ref_settlementMode :: settlement_mode

record journal_entry =
  je_effectiveAt :: int
  je_id :: string
  je_postings :: "ledger_posting list"
  je_reference :: payment_reference
  je_schemaVersion :: int
  je_unit :: string

record journal_entry_input =
  jei_effectiveAt :: int
  jei_id :: string
  jei_postings :: "ledger_posting list"
  jei_reference :: payment_reference

record payment_journal_input =
  pj_assetAccount :: ledger_account
  pj_effectiveAt :: int
  pj_feeAmount :: int
  pj_grossAmount :: int
  pj_invoiceId :: string
  pj_journalEntryId :: string
  pj_merchantId :: string
  pj_operatorId :: string
  pj_paymentId :: string
  pj_settlementMode :: settlement_mode

definition LEDGER_SCHEMA_VERSION :: int where
  "LEDGER_SCHEMA_VERSION = 1"

definition LEDGER_UNIT :: string where
  "LEDGER_UNIT = ''usdc''"

definition POSTING_SIDES :: "posting_side list" where
  "POSTING_SIDES = [Debit, Credit]"

section \<open>Validation of accounts, modes and references\<close>

fun validateAccount :: "ledger_account \<Rightarrow> domain_error + unit" where
  "validateAccount (Operator_ecash operatorId) = assertIdentifier operatorId"
| "validateAccount (Settlement_asset assetId) = assertIdentifier assetId"
| "validateAccount (Merchant_payable merchantId) = assertIdentifier merchantId"
| "validateAccount Fee_revenue = Inr ()"
| "validateAccount (Other_account kind) = Inl (Ledger_error Invalid_account)"

text \<open>Each account constructor of the code checks its identifier first.\<close>

definition operatorEcashAccount :: "string \<Rightarrow> domain_error + ledger_account" where
  "operatorEcashAccount operatorId =
     bindR (assertIdentifier operatorId) (\<lambda>_. Inr (Operator_ecash operatorId))"

definition settlementAssetAccount :: "string \<Rightarrow> domain_error + ledger_account" where
  "settlementAssetAccount assetId =
     bindR (assertIdentifier assetId) (\<lambda>_. Inr (Settlement_asset assetId))"

definition merchantPayableAccount :: "string \<Rightarrow> domain_error + ledger_account" where
  "merchantPayableAccount merchantId =
     bindR (assertIdentifier merchantId) (\<lambda>_. Inr (Merchant_payable merchantId))"

definition feeRevenueAccount :: ledger_account where
  "feeRevenueAccount = Fee_revenue"

text \<open>After \<open>validateAccount\<close> returned, the \<open>switch\<close> covers every kind.\<close>

definition ledgerAccountKey :: "ledger_account \<Rightarrow> domain_error + string" where
  "ledgerAccountKey account = bindR (validateAccount account) (\<lambda>_.
     case account of
       Operator_ecash operatorId \<Rightarrow> Inr (''operator_ecash:'' @ operatorId)
     | Settlement_asset assetId \<Rightarrow> Inr (''settlement_asset:'' @ assetId)
     | Merchant_payable merchantId \<Rightarrow> Inr (''merchant_payable:'' @ merchantId)
     | Fee_revenue \<Rightarrow> Inr ''fee_revenue:usdc''
     | Other_account _ \<Rightarrow> Inl (Ledger_error Invalid_account))"

text \<open>\<open>Object.freeze({...})\<close> of the same fields; the \<open>switch\<close> has no default.\<close>

fun cloneAccount :: "ledger_account \<Rightarrow> ledger_account" where
  "cloneAccount (Operator_ecash operatorId) = Operator_ecash operatorId"
| "cloneAccount (Settlement_asset assetId) = Settlement_asset assetId"
| "cloneAccount (Merchant_payable merchantId) = Merchant_payable merchantId"
| "cloneAccount Fee_revenue = Fee_revenue"
| "cloneAccount (Other_account kind) = Other_account kind"

definition validateSettlementMode :: "settlement_mode \<Rightarrow> domain_error + unit" where
  "validateSettlementMode mode =
     throwIf (mode \<notin> set SETTLEMENT_MODES) (Ledger_error Invalid_posting)"

definition validatePaymentAsset ::
  "ledger_account \<Rightarrow> string \<Rightarrow> settlement_mode \<Rightarrow> domain_error + unit" where
  "validatePaymentAsset account operatorId mode =
     bindR (validateAccount account) (\<lambda>_.
       let matchesTrustedHold = (account = Operator_ecash operatorId);
           matchesConversion = (case account of Settlement_asset _ \<Rightarrow> True | _ \<Rightarrow> False)
       in throwIf ((mode = Trusted_hold \<and> \<not> matchesTrustedHold)
                   \<or> (mode = Immediate_conversion \<and> \<not> matchesConversion))
            (Ledger_error Account_mode_mismatch))"

definition validateReference :: "payment_reference \<Rightarrow> domain_error + unit" where
  "validateReference r =
     bindR (throwIf (ref_kind r \<noteq> ''invoice_payment'') (Ledger_error Invalid_reference)) (\<lambda>_.
     bindR (assertIdentifier (ref_invoiceId r)) (\<lambda>_.
     bindR (assertIdentifier (ref_merchantId r)) (\<lambda>_.
     bindR (assertIdentifier (ref_operatorId r)) (\<lambda>_.
     bindR (assertIdentifier (ref_paymentId r)) (\<lambda>_.
     validateSettlementMode (ref_settlementMode r))))))"

section \<open>Building an entry\<close>

definition isAssetDebit :: "ledger_posting \<Rightarrow> bool" where
  "isAssetDebit p \<longleftrightarrow> po_side p = Debit \<and>
     (case po_account p of Operator_ecash _ \<Rightarrow> True | Settlement_asset _ \<Rightarrow> True | _ \<Rightarrow> False)"

definition isMerchantCredit :: "string \<Rightarrow> ledger_posting \<Rightarrow> bool" where
  "isMerchantCredit merchantId p \<longleftrightarrow>
     po_side p = Credit \<and> po_account p = Merchant_payable merchantId"

definition isFeeCredit :: "ledger_posting \<Rightarrow> bool" where
  "isFeeCredit p \<longleftrightarrow> po_side p = Credit \<and> po_account p = Fee_revenue"

definition validateInvoicePaymentPostings ::
  "ledger_posting list \<Rightarrow> payment_reference \<Rightarrow> domain_error + unit" where
  "validateInvoicePaymentPostings postings reference =
    (let assetDebits = filter isAssetDebit postings;
         merchantCredits = filter (isMerchantCredit (ref_merchantId reference)) postings;
         feeCredits = filter isFeeCredit postings
     in if length assetDebits \<noteq> 1 \<or> length merchantCredits \<noteq> 1 \<or> length feeCredits > 1
           \<or> length postings \<noteq> length assetDebits + length merchantCredits + length feeCredits
        then Inl (Ledger_error Invalid_payment_entry)
        else (case assetDebits of
                [] \<Rightarrow> Inl (Ledger_error Invalid_payment_entry)
              | assetDebit # _ \<Rightarrow>
                  validatePaymentAsset (po_account assetDebit) (ref_operatorId reference)
                    (ref_settlementMode reference)))"

text \<open>
  The callback of \<open>input.postings.map\<close> with its two captured accumulators: the result carries
  the debits, the credits and the copied postings.
\<close>

fun collectPostings ::
  "int \<Rightarrow> int \<Rightarrow> ledger_posting list \<Rightarrow> domain_error + int \<times> int \<times> ledger_posting list" where
  "collectPostings debits credits [] = Inr (debits, credits, [])"
| "collectPostings debits credits (p # ps) =
     bindR (validateAccount (po_account p)) (\<lambda>_.
     bindR (minorUnits (po_amount p)) (\<lambda>amount.
     bindR (throwIf (amount = 0 \<or> po_side p \<notin> set POSTING_SIDES) (Ledger_error Invalid_posting))
       (\<lambda>_.
     bindR (if po_side p = Debit then collectPostings (debits + amount) credits ps
            else collectPostings debits (credits + amount) ps) (\<lambda>(ds, cs, copied).
       Inr (ds, cs,
         \<lparr>po_account = cloneAccount (po_account p), po_amount = amount, po_side = po_side p\<rparr>
         # copied)))))"

definition createJournalEntryV1 :: "journal_entry_input \<Rightarrow> domain_error + journal_entry" where
  "createJournalEntryV1 input =
     bindR (assertIdentifier (jei_id input)) (\<lambda>_.
     bindR (validateReference (jei_reference input)) (\<lambda>_.
     bindR (assertUnixTimestamp (jei_effectiveAt input)) (\<lambda>_.
     bindR (throwIf (length (jei_postings input) < 2) (Ledger_error Invalid_posting)) (\<lambda>_.
     bindR (collectPostings 0 0 (jei_postings input)) (\<lambda>(debits, credits, postings).
     bindR (throwIf (debits > MAX_SAFE_INTEGER \<or> credits > MAX_SAFE_INTEGER)
              (Ledger_error Posting_total_overflow)) (\<lambda>_.
     bindR (throwIf (debits \<noteq> credits) (Ledger_error Unbalanced_entry)) (\<lambda>_.
     bindR (validateInvoicePaymentPostings postings (jei_reference input)) (\<lambda>_.
     Inr \<lparr>je_effectiveAt = jei_effectiveAt input,
          je_id = jei_id input,
          je_postings = postings,
          je_reference = (jei_reference input)\<lparr>ref_kind := ''invoice_payment''\<rparr>,
          je_schemaVersion = LEDGER_SCHEMA_VERSION,
          je_unit = LEDGER_UNIT\<rparr>))))))))"

definition createInvoicePaymentJournalV1 ::
  "payment_journal_input \<Rightarrow> domain_error + journal_entry" where
  "createInvoicePaymentJournalV1 input =
     bindR (validateSettlementMode (pj_settlementMode input)) (\<lambda>_.
     bindR (validatePaymentAsset (pj_assetAccount input) (pj_operatorId input)
              (pj_settlementMode input)) (\<lambda>_.
     bindR (minorUnits (pj_grossAmount input)) (\<lambda>grossAmount.
     bindR (minorUnits (pj_feeAmount input)) (\<lambda>feeAmount.
     bindR (throwIf (grossAmount = 0 \<or> feeAmount \<ge> grossAmount)
              (Ledger_error Fee_not_less_than_gross)) (\<lambda>_.
     bindR (minorUnits (grossAmount - feeAmount)) (\<lambda>netAmount.
     bindR (merchantPayableAccount (pj_merchantId input)) (\<lambda>payable.
     createJournalEntryV1
       \<lparr>jei_effectiveAt = pj_effectiveAt input,
        jei_id = pj_journalEntryId input,
        jei_postings =
          [\<lparr>po_account = pj_assetAccount input, po_amount = grossAmount, po_side = Debit\<rparr>,
           \<lparr>po_account = payable, po_amount = netAmount, po_side = Credit\<rparr>]
          @ (if feeAmount > 0
             then [\<lparr>po_account = feeRevenueAccount, po_amount = feeAmount, po_side = Credit\<rparr>]
             else []),
        jei_reference =
          \<lparr>ref_invoiceId = pj_invoiceId input, ref_kind = ''invoice_payment'',
           ref_merchantId = pj_merchantId input, ref_operatorId = pj_operatorId input,
           ref_paymentId = pj_paymentId input,
           ref_settlementMode = pj_settlementMode input\<rparr>\<rparr>)))))))"

section \<open>Uniqueness across a batch\<close>

fun journalBatchLoop ::
  "string set \<Rightarrow> string set \<Rightarrow> string set \<Rightarrow> journal_entry list \<Rightarrow> domain_error + unit" where
  "journalBatchLoop entryIds invoiceIds paymentIds [] = Inr ()"
| "journalBatchLoop entryIds invoiceIds paymentIds (e # es) =
     (if je_id e \<in> entryIds then Inl (Ledger_error Duplicate_journal_entry)
      else if ref_invoiceId (je_reference e) \<in> invoiceIds
      then Inl (Ledger_error Duplicate_invoice_payment)
      else if ref_paymentId (je_reference e) \<in> paymentIds
      then Inl (Ledger_error Duplicate_payment)
      else journalBatchLoop (insert (je_id e) entryIds)
             (insert (ref_invoiceId (je_reference e)) invoiceIds)
             (insert (ref_paymentId (je_reference e)) paymentIds) es)"

definition assertJournalBatchUnique :: "journal_entry list \<Rightarrow> domain_error + unit" where
  "assertJournalBatchUnique entries = journalBatchLoop {} {} {} entries"

section \<open>Specification of an entry\<close>

definition sideTotal :: "posting_side \<Rightarrow> ledger_posting list \<Rightarrow> int" where
  "sideTotal s ps = sum_list (map po_amount (filter (\<lambda>p. po_side p = s) ps))"

definition balanced :: "ledger_posting list \<Rightarrow> bool" where
  "balanced ps \<longleftrightarrow> sideTotal Debit ps = sideTotal Credit ps"

text \<open>
  The postings of an invoice payment: one debit of a payment asset, one credit of the merchant,
  at most one fee credit, in any order and nothing else.
\<close>

definition paymentShaped :: "payment_reference \<Rightarrow> ledger_posting list \<Rightarrow> bool" where
  "paymentShaped r ps \<longleftrightarrow>
     length (filter isAssetDebit ps) = 1
     \<and> length (filter (isMerchantCredit (ref_merchantId r)) ps) = 1
     \<and> length (filter isFeeCredit ps) \<le> 1
     \<and> (\<forall>p \<in> set ps. isAssetDebit p \<or> isMerchantCredit (ref_merchantId r) p \<or> isFeeCredit p)"

definition postingOk :: "ledger_posting \<Rightarrow> bool" where
  "postingOk p \<longleftrightarrow> validateAccount (po_account p) = Inr () \<and> 0 < po_amount p
     \<and> po_amount p \<le> MAX_SAFE_INTEGER \<and> (po_side p = Debit \<or> po_side p = Credit)"

section \<open>Validation lemmas\<close>

lemma cloneAccount_id [simp]: "cloneAccount a = a"
  by (cases a) auto

lemma POSTING_SIDES_iff [simp]: "s \<in> set POSTING_SIDES \<longleftrightarrow> s = Debit \<or> s = Credit"
  by (auto simp: POSTING_SIDES_def)

lemma account_constructors [simp]:
  "operatorEcashAccount i = Inr a \<longleftrightarrow> identifierPattern i \<and> a = Operator_ecash i"
  "settlementAssetAccount i = Inr a \<longleftrightarrow> identifierPattern i \<and> a = Settlement_asset i"
  "merchantPayableAccount i = Inr a \<longleftrightarrow> identifierPattern i \<and> a = Merchant_payable i"
  by (auto simp: operatorEcashAccount_def settlementAssetAccount_def merchantPayableAccount_def
      result_simps)

lemma validateSettlementMode_iff [simp]:
  "validateSettlementMode m = Inr u \<longleftrightarrow> m = Trusted_hold \<or> m = Immediate_conversion"
  by (auto simp: validateSettlementMode_def)

lemma validatePaymentAsset_iff:
  "validatePaymentAsset a oid m = Inr u \<longleftrightarrow>
     validateAccount a = Inr ()
     \<and> (m = Trusted_hold \<longrightarrow> a = Operator_ecash oid)
     \<and> (m = Immediate_conversion \<longrightarrow> (\<exists>i. a = Settlement_asset i))"
  by (cases a) (auto simp: validatePaymentAsset_def result_simps)

lemma validateReference_iff:
  "validateReference r = Inr u \<longleftrightarrow>
     ref_kind r = ''invoice_payment'' \<and> identifierPattern (ref_invoiceId r)
     \<and> identifierPattern (ref_merchantId r) \<and> identifierPattern (ref_operatorId r)
     \<and> identifierPattern (ref_paymentId r)
     \<and> (ref_settlementMode r = Trusted_hold \<or> ref_settlementMode r = Immediate_conversion)"
  by (auto simp: validateReference_def result_simps)

lemma sideTotal_simps [simp]:
  "sideTotal s [] = 0"
  "sideTotal s (p # ps) = (if po_side p = s then po_amount p else 0) + sideTotal s ps"
  by (simp_all add: sideTotal_def)

lemma collectPostings_iff:
  "collectPostings d c ps = Inr (ds, cs, qs) \<longleftrightarrow>
     list_all postingOk ps \<and> qs = ps \<and> ds = d + sideTotal Debit ps \<and> cs = c + sideTotal Credit ps"
  by (induction ps arbitrary: d c ds cs qs)
    (auto simp: result_simps postingOk_def validAmount_def)

lemma filter_partition3:
  "\<lbrakk>\<And>p. \<not> (P p \<and> Q p); \<And>p. \<not> (P p \<and> R p); \<And>p. \<not> (Q p \<and> R p)\<rbrakk> \<Longrightarrow>
   length ps = length (filter P ps) + length (filter Q ps) + length (filter R ps)
   \<longleftrightarrow> (\<forall>p \<in> set ps. P p \<or> Q p \<or> R p)"
proof (induction ps)
  case (Cons p ps)
  have "length (filter P ps) + length (filter Q ps) + length (filter R ps) \<le> length ps" for ps
    by (induction ps) (use Cons.prems in \<open>auto, (metis le_SucI)?\<close>)
  from this[of ps] Cons show ?case
    by (auto simp: Suc_le_eq)
qed simp

lemma posting_classes_disjoint:
  "\<not> (isAssetDebit p \<and> isMerchantCredit m p)"
  "\<not> (isAssetDebit p \<and> isFeeCredit p)"
  "\<not> (isMerchantCredit m p \<and> isFeeCredit p)"
  by (auto simp: isAssetDebit_def isMerchantCredit_def isFeeCredit_def)

lemma validateInvoicePaymentPostings_iff:
  "validateInvoicePaymentPostings ps r = Inr u \<longleftrightarrow>
     paymentShaped r ps \<and>
     (\<exists>p. filter isAssetDebit ps = [p] \<and>
        validatePaymentAsset (po_account p) (ref_operatorId r) (ref_settlementMode r) = Inr ())"
proof -
  note part = filter_partition3 [of isAssetDebit "isMerchantCredit (ref_merchantId r)" isFeeCredit ps,
      OF posting_classes_disjoint]
  show ?thesis
    unfolding validateInvoicePaymentPostings_def paymentShaped_def Let_def part [symmetric]
    by (auto simp: length_Suc_conv split: list.splits)
qed

lemma createJournalEntryV1_iff:
  "createJournalEntryV1 i = Inr e \<longleftrightarrow>
     identifierPattern (jei_id i) \<and> validateReference (jei_reference i) = Inr ()
     \<and> validTimestamp (jei_effectiveAt i) \<and> 2 \<le> length (jei_postings i)
     \<and> list_all postingOk (jei_postings i)
     \<and> sideTotal Debit (jei_postings i) \<le> MAX_SAFE_INTEGER \<and> balanced (jei_postings i)
     \<and> validateInvoicePaymentPostings (jei_postings i) (jei_reference i) = Inr ()
     \<and> e = \<lparr>je_effectiveAt = jei_effectiveAt i, je_id = jei_id i, je_postings = jei_postings i,
            je_reference = jei_reference i, je_schemaVersion = 1, je_unit = ''usdc''\<rparr>"
  by (auto simp: createJournalEntryV1_def result_simps collectPostings_iff balanced_def
      LEDGER_SCHEMA_VERSION_def LEDGER_UNIT_def validateReference_iff split: prod.splits)

section \<open>The invoice-payment journal\<close>

text \<open>The inputs the journal of a payment is made from, and the journal it makes.\<close>

definition paymentJournalValid :: "payment_journal_input \<Rightarrow> bool" where
  "paymentJournalValid i \<longleftrightarrow>
     (pj_settlementMode i = Trusted_hold \<and> pj_assetAccount i = Operator_ecash (pj_operatorId i)
      \<or> pj_settlementMode i = Immediate_conversion
        \<and> (\<exists>a. pj_assetAccount i = Settlement_asset a \<and> identifierPattern a))
     \<and> 0 \<le> pj_feeAmount i \<and> pj_feeAmount i < pj_grossAmount i
     \<and> pj_grossAmount i \<le> MAX_SAFE_INTEGER
     \<and> identifierPattern (pj_journalEntryId i) \<and> identifierPattern (pj_invoiceId i)
     \<and> identifierPattern (pj_merchantId i) \<and> identifierPattern (pj_operatorId i)
     \<and> identifierPattern (pj_paymentId i) \<and> validTimestamp (pj_effectiveAt i)"

definition paymentPostings :: "payment_journal_input \<Rightarrow> ledger_posting list" where
  "paymentPostings i =
     [\<lparr>po_account = pj_assetAccount i, po_amount = pj_grossAmount i, po_side = Debit\<rparr>,
      \<lparr>po_account = Merchant_payable (pj_merchantId i),
       po_amount = pj_grossAmount i - pj_feeAmount i, po_side = Credit\<rparr>]
     @ (if pj_feeAmount i > 0
        then [\<lparr>po_account = Fee_revenue, po_amount = pj_feeAmount i, po_side = Credit\<rparr>]
        else [])"

definition paymentJournal :: "payment_journal_input \<Rightarrow> journal_entry" where
  "paymentJournal i =
     \<lparr>je_effectiveAt = pj_effectiveAt i, je_id = pj_journalEntryId i,
      je_postings = paymentPostings i,
      je_reference =
        \<lparr>ref_invoiceId = pj_invoiceId i, ref_kind = ''invoice_payment'',
         ref_merchantId = pj_merchantId i, ref_operatorId = pj_operatorId i,
         ref_paymentId = pj_paymentId i, ref_settlementMode = pj_settlementMode i\<rparr>,
      je_schemaVersion = 1, je_unit = ''usdc''\<rparr>"

lemma createInvoicePaymentJournalV1_iff:
  "createInvoicePaymentJournalV1 i = Inr e \<longleftrightarrow> paymentJournalValid i \<and> e = paymentJournal i"
proof -
  have "createInvoicePaymentJournalV1 i = Inr e \<longleftrightarrow>
     validateSettlementMode (pj_settlementMode i) = Inr ()
     \<and> validatePaymentAsset (pj_assetAccount i) (pj_operatorId i) (pj_settlementMode i) = Inr ()
     \<and> 0 \<le> pj_feeAmount i \<and> pj_feeAmount i < pj_grossAmount i
     \<and> pj_grossAmount i \<le> MAX_SAFE_INTEGER \<and> identifierPattern (pj_merchantId i)
     \<and> createJournalEntryV1
          \<lparr>jei_effectiveAt = pj_effectiveAt i, jei_id = pj_journalEntryId i,
           jei_postings = paymentPostings i, jei_reference = je_reference (paymentJournal i)\<rparr>
        = Inr e"
    by (auto simp: createInvoicePaymentJournalV1_def result_simps validAmount_def paymentPostings_def
        paymentJournal_def feeRevenueAccount_def)
  also have "\<dots> \<longleftrightarrow> paymentJournalValid i \<and> e = paymentJournal i"
    by (cases "pj_settlementMode i"; cases "pj_assetAccount i")
      (auto simp: createJournalEntryV1_iff validateReference_iff validatePaymentAsset_iff
        paymentJournalValid_def paymentJournal_def paymentPostings_def balanced_def
        validateInvoicePaymentPostings_iff paymentShaped_def postingOk_def isAssetDebit_def
        isMerchantCredit_def isFeeCredit_def)
  finally show ?thesis .
qed

lemma ledgerAccountKey_inj:
  "ledgerAccountKey a = Inr k \<Longrightarrow> ledgerAccountKey b = Inr k \<Longrightarrow> a = b"
  by (cases a; cases b) (auto simp: ledgerAccountKey_def result_simps)

section \<open>Batch uniqueness\<close>

lemma journalBatchLoop_iff:
  "journalBatchLoop E I P es = Inr u \<longleftrightarrow>
     distinct (map je_id es) \<and> E \<inter> set (map je_id es) = {}
     \<and> distinct (map (\<lambda>e. ref_invoiceId (je_reference e)) es)
     \<and> I \<inter> set (map (\<lambda>e. ref_invoiceId (je_reference e)) es) = {}
     \<and> distinct (map (\<lambda>e. ref_paymentId (je_reference e)) es)
     \<and> P \<inter> set (map (\<lambda>e. ref_paymentId (je_reference e)) es) = {}"
  by (induction es arbitrary: E I P) auto

section \<open>Properties\<close>

text \<open>
  Journal entries balance: Every journal entry the ledger creates balances its debits and
  credits exactly, has the invoice-payment shape its reference asks for, and has only positive
  postings whose total stays a safe integer.
\<close>

theorem created_entry_sound:
  assumes "createJournalEntryV1 i = Inr e"
  shows "balanced (je_postings e) \<and> paymentShaped (je_reference e) (je_postings e)
    \<and> (\<forall>p \<in> set (je_postings e). 0 < po_amount p)
    \<and> sideTotal Debit (je_postings e) \<le> MAX_SAFE_INTEGER
    \<and> sideTotal Credit (je_postings e) \<le> MAX_SAFE_INTEGER"
  using assms
  by (auto simp: createJournalEntryV1_iff validateInvoicePaymentPostings_iff balanced_def
      list_all_iff postingOk_def)

theorem created_entry_sound_witness:
  "\<exists>e. createJournalEntryV1
     \<lparr>jei_effectiveAt = 5, jei_id = ''j1'',
      jei_postings = [\<lparr>po_account = Settlement_asset ''s1'', po_amount = 10, po_side = Debit\<rparr>,
        \<lparr>po_account = Merchant_payable ''m1'', po_amount = 9, po_side = Credit\<rparr>,
        \<lparr>po_account = Fee_revenue, po_amount = 1, po_side = Credit\<rparr>],
      jei_reference = \<lparr>ref_invoiceId = ''i1'', ref_kind = ''invoice_payment'',
        ref_merchantId = ''m1'', ref_operatorId = ''o1'', ref_paymentId = ''p1'',
        ref_settlementMode = Immediate_conversion\<rparr>\<rparr> = Inr e
     \<and> balanced (je_postings e)"
  (is "\<exists>e. createJournalEntryV1 ?i = Inr e \<and> _")
proof -
  have "isOk (createJournalEntryV1 ?i)" by code_simp
  then obtain e where "createJournalEntryV1 ?i = Inr e" by (auto simp: isOk_iff)
  with created_entry_sound [OF this] show ?thesis by blast
qed

text \<open>
  C39 (payment journal, exactly) The journal of an invoice payment is created exactly for the
  valid inputs, and then it is one asset debit of the gross amount, one merchant credit of gross
  minus fee, and a fee credit when the fee is not zero.
\<close>

theorem payment_journal_exact:
  "createInvoicePaymentJournalV1 i = Inr e \<longleftrightarrow> paymentJournalValid i \<and> e = paymentJournal i"
  by (rule createInvoicePaymentJournalV1_iff)

text \<open>
  Batch uniqueness: A batch passes the uniqueness check exactly when its entry ids, its
  invoice ids and its payment ids are each free of duplicates.
\<close>

theorem journal_batch_unique_iff:
  "assertJournalBatchUnique es = Inr () \<longleftrightarrow>
     distinct (map je_id es) \<and> distinct (map (\<lambda>e. ref_invoiceId (je_reference e)) es)
     \<and> distinct (map (\<lambda>e. ref_paymentId (je_reference e)) es)"
  by (simp add: assertJournalBatchUnique_def journalBatchLoop_iff)

end
