(* ===== verification/Invoice.thy ===== *)
theory Invoice
  imports Ledger
begin

text \<open>
  \<^verbatim>\<open>packages/domain/src/invoice.ts\<close>: the versioned merchant invoice and its three transitions
  out of the open state (payment, expiry, cancellation).  The union of the four invoice shapes is
  a record with the fields they share and a state that carries the fields of its shape.
  \<open>invoiceValid\<close> is the well-formedness every operation establishes or keeps.
\<close>

section \<open>Invoices\<close>

definition INVOICE_SCHEMA_VERSION :: int where
  "INVOICE_SCHEMA_VERSION = 1"

definition INVOICE_UNIT :: string where
  "INVOICE_UNIT = ''usdc''"

record invoice_payment =
  ip_acceptedAt :: int
  ip_assetAccount :: ledger_account
  ip_feeAmount :: int
  ip_grossAmount :: int
  ip_journalEntryId :: string
  ip_netAmount :: int
  ip_operatorId :: string
  ip_paymentId :: string
  ip_settlementMode :: settlement_mode

datatype invoice_state =
    Open
  | Paid int invoice_payment
  | Expired int
  | Cancelled int

record invoice_base =
  inv_amount :: int
  inv_createdAt :: int
  inv_expiresAt :: int
  inv_id :: string
  inv_merchantId :: string

record invoice = invoice_base +
  inv_schemaVersion :: int
  inv_unit :: string
  inv_state :: invoice_state

record accept_payment_input =
  ap_acceptedAt :: int
  ap_assetAccount :: ledger_account
  ap_effectiveAt :: int
  ap_feeAmount :: int
  ap_journalEntryId :: string
  ap_operatorId :: string
  ap_paymentId :: string
  ap_settlementMode :: settlement_mode

record accepted_payment =
  acc_invoice :: invoice
  acc_journalEntry :: journal_entry

section \<open>Operations\<close>

definition validateInvoiceBase :: "'a invoice_base_scheme \<Rightarrow> domain_error + int" where
  "validateInvoiceBase input =
     bindR (assertIdentifier (inv_id input)) (\<lambda>_.
     bindR (assertIdentifier (inv_merchantId input)) (\<lambda>_.
     bindR (assertUnixTimestamp (inv_createdAt input)) (\<lambda>_.
     bindR (assertUnixTimestamp (inv_expiresAt input)) (\<lambda>_.
     bindR (minorUnits (inv_amount input)) (\<lambda>amount.
     if amount = 0 then Inl (Invoice_error Amount_must_be_positive)
     else if inv_expiresAt input \<le> inv_createdAt input then Inl (Invoice_error Invalid_expiry)
     else Inr amount)))))"

definition createInvoiceV1 :: "invoice_base \<Rightarrow> domain_error + invoice" where
  "createInvoiceV1 input =
     bindR (validateInvoiceBase input) (\<lambda>amount.
     Inr \<lparr>inv_amount = amount, inv_createdAt = inv_createdAt input,
          inv_expiresAt = inv_expiresAt input, inv_id = inv_id input,
          inv_merchantId = inv_merchantId input, inv_schemaVersion = INVOICE_SCHEMA_VERSION,
          inv_unit = INVOICE_UNIT, inv_state = Open\<rparr>)"

definition requireOpen :: "invoice \<Rightarrow> domain_error + unit" where
  "requireOpen i =
     (if inv_schemaVersion i \<noteq> INVOICE_SCHEMA_VERSION \<or> inv_unit i \<noteq> INVOICE_UNIT
      then Inl (Invoice_error Unsupported_schema)
      else if inv_state i \<noteq> Open then Inl (Invoice_error Invalid_transition)
      else bindR (validateInvoiceBase i) (\<lambda>_. Inr ()))"

definition copyInvoiceBase :: "invoice \<Rightarrow> invoice_state \<Rightarrow> invoice" where
  "copyInvoiceBase i st =
     \<lparr>inv_amount = inv_amount i, inv_createdAt = inv_createdAt i,
      inv_expiresAt = inv_expiresAt i, inv_id = inv_id i, inv_merchantId = inv_merchantId i,
      inv_schemaVersion = INVOICE_SCHEMA_VERSION, inv_unit = INVOICE_UNIT, inv_state = st\<rparr>"

text \<open>
  Only \<open>operator_ecash\<close> keeps its kind; the code copies every other account as a settlement
  asset from its \<open>assetId\<close> (by then the account has passed \<open>validatePaymentAsset\<close>, so it is one).
\<close>

fun clonePaymentAsset :: "ledger_account \<Rightarrow> ledger_account" where
  "clonePaymentAsset (Operator_ecash operatorId) = Operator_ecash operatorId"
| "clonePaymentAsset (Settlement_asset assetId) = Settlement_asset assetId"
| "clonePaymentAsset _ = Settlement_asset ''''"

definition acceptInvoicePaymentV1 ::
  "invoice \<Rightarrow> accept_payment_input \<Rightarrow> domain_error + accepted_payment" where
  "acceptInvoicePaymentV1 i input =
     bindR (requireOpen i) (\<lambda>_.
     bindR (assertUnixTimestamp (ap_acceptedAt input)) (\<lambda>_.
     bindR (assertUnixTimestamp (ap_effectiveAt input)) (\<lambda>_.
     if ap_acceptedAt input < inv_createdAt i then Inl (Invoice_error Payment_before_creation)
     else if ap_acceptedAt input \<ge> inv_expiresAt i then Inl (Invoice_error Payment_after_expiry)
     else if ap_effectiveAt input < ap_acceptedAt input
     then Inl (Invoice_error Recorded_before_acceptance)
     else
     bindR (createInvoicePaymentJournalV1
              \<lparr>pj_assetAccount = ap_assetAccount input, pj_effectiveAt = ap_effectiveAt input,
               pj_feeAmount = ap_feeAmount input, pj_grossAmount = inv_amount i,
               pj_invoiceId = inv_id i, pj_journalEntryId = ap_journalEntryId input,
               pj_merchantId = inv_merchantId i, pj_operatorId = ap_operatorId input,
               pj_paymentId = ap_paymentId input,
               pj_settlementMode = ap_settlementMode input\<rparr>) (\<lambda>journalEntry.
     bindR (minorUnits (ap_feeAmount input)) (\<lambda>feeAmount.
     bindR (minorUnits (inv_amount i - feeAmount)) (\<lambda>netAmount.
     let payment =
           \<lparr>ip_acceptedAt = ap_acceptedAt input,
            ip_assetAccount = clonePaymentAsset (ap_assetAccount input),
            ip_feeAmount = feeAmount, ip_grossAmount = inv_amount i,
            ip_journalEntryId = ap_journalEntryId input, ip_netAmount = netAmount,
            ip_operatorId = ap_operatorId input, ip_paymentId = ap_paymentId input,
            ip_settlementMode = ap_settlementMode input\<rparr>
     in Inr \<lparr>acc_invoice = copyInvoiceBase i (Paid (ap_acceptedAt input) payment),
             acc_journalEntry = journalEntry\<rparr>))))))"

definition expireInvoiceV1 :: "invoice \<Rightarrow> int \<Rightarrow> domain_error + invoice" where
  "expireInvoiceV1 i expiredAt =
     bindR (requireOpen i) (\<lambda>_.
     bindR (assertUnixTimestamp expiredAt) (\<lambda>_.
     if expiredAt < inv_expiresAt i then Inl (Invoice_error Invalid_expiry)
     else Inr (copyInvoiceBase i (Expired expiredAt))))"

definition cancelInvoiceV1 :: "invoice \<Rightarrow> int \<Rightarrow> domain_error + invoice" where
  "cancelInvoiceV1 i cancelledAt =
     bindR (requireOpen i) (\<lambda>_.
     bindR (assertUnixTimestamp cancelledAt) (\<lambda>_.
     if cancelledAt < inv_createdAt i \<or> cancelledAt \<ge> inv_expiresAt i
     then Inl (Invoice_error Invalid_expiry)
     else Inr (copyInvoiceBase i (Cancelled cancelledAt))))"

section \<open>Well-formed invoices\<close>

definition baseValid :: "'a invoice_base_scheme \<Rightarrow> bool" where
  "baseValid i \<longleftrightarrow> identifierPattern (inv_id i) \<and> identifierPattern (inv_merchantId i)
     \<and> validTimestamp (inv_createdAt i) \<and> validTimestamp (inv_expiresAt i)
     \<and> inv_createdAt i < inv_expiresAt i \<and> 0 < inv_amount i \<and> inv_amount i \<le> MAX_SAFE_INTEGER"

text \<open>What the state of a well-formed invoice says about its time window and its money.\<close>

definition paymentOf :: "invoice \<Rightarrow> invoice_payment \<Rightarrow> int \<Rightarrow> bool" where
  "paymentOf i p t \<longleftrightarrow> ip_acceptedAt p = t \<and> inv_createdAt i \<le> t \<and> t < inv_expiresAt i
     \<and> ip_grossAmount p = inv_amount i \<and> ip_grossAmount p = ip_feeAmount p + ip_netAmount p
     \<and> 0 \<le> ip_feeAmount p \<and> 0 < ip_netAmount p
     \<and> validatePaymentAsset (ip_assetAccount p) (ip_operatorId p) (ip_settlementMode p) = Inr ()"

definition stateValid :: "invoice \<Rightarrow> bool" where
  "stateValid i \<longleftrightarrow> (case inv_state i of
       Open \<Rightarrow> True
     | Paid t p \<Rightarrow> paymentOf i p t
     | Expired t \<Rightarrow> inv_expiresAt i \<le> t \<and> validTimestamp t
     | Cancelled t \<Rightarrow> inv_createdAt i \<le> t \<and> t < inv_expiresAt i)"

definition invoiceValid :: "invoice \<Rightarrow> bool" where
  "invoiceValid i \<longleftrightarrow> baseValid i \<and> inv_schemaVersion i = 1 \<and> inv_unit i = ''usdc'' \<and> stateValid i"

lemma validateInvoiceBase_iff [simp]:
  "validateInvoiceBase i = Inr a \<longleftrightarrow> baseValid i \<and> a = inv_amount i"
  by (auto simp: validateInvoiceBase_def result_simps baseValid_def validAmount_def)

lemma requireOpen_iff [simp]:
  "requireOpen i = Inr u \<longleftrightarrow> invoiceValid i \<and> inv_state i = Open"
  by (auto simp: requireOpen_def result_simps invoiceValid_def stateValid_def
      INVOICE_SCHEMA_VERSION_def INVOICE_UNIT_def)

lemma createInvoiceV1_iff:
  "createInvoiceV1 b = Inr i \<longleftrightarrow> baseValid b \<and>
     i = \<lparr>inv_amount = inv_amount b, inv_createdAt = inv_createdAt b,
          inv_expiresAt = inv_expiresAt b, inv_id = inv_id b, inv_merchantId = inv_merchantId b,
          inv_schemaVersion = 1, inv_unit = ''usdc'', inv_state = Open\<rparr>"
  by (auto simp: createInvoiceV1_def result_simps INVOICE_SCHEMA_VERSION_def INVOICE_UNIT_def)

lemma baseValid_copy [simp]: "baseValid (copyInvoiceBase i st) = baseValid i"
  by (simp add: baseValid_def copyInvoiceBase_def)

lemma copyInvoiceBase_sel [simp]:
  "inv_amount (copyInvoiceBase i st) = inv_amount i"
  "inv_createdAt (copyInvoiceBase i st) = inv_createdAt i"
  "inv_expiresAt (copyInvoiceBase i st) = inv_expiresAt i"
  "inv_id (copyInvoiceBase i st) = inv_id i"
  "inv_merchantId (copyInvoiceBase i st) = inv_merchantId i"
  "inv_schemaVersion (copyInvoiceBase i st) = 1"
  "inv_unit (copyInvoiceBase i st) = ''usdc''"
  "inv_state (copyInvoiceBase i st) = st"
  by (simp_all add: copyInvoiceBase_def INVOICE_SCHEMA_VERSION_def INVOICE_UNIT_def)

text \<open>The journal input an acceptance derives from the invoice.\<close>

definition acceptanceJournal :: "invoice \<Rightarrow> accept_payment_input \<Rightarrow> payment_journal_input" where
  "acceptanceJournal i input =
     \<lparr>pj_assetAccount = ap_assetAccount input, pj_effectiveAt = ap_effectiveAt input,
      pj_feeAmount = ap_feeAmount input, pj_grossAmount = inv_amount i,
      pj_invoiceId = inv_id i, pj_journalEntryId = ap_journalEntryId input,
      pj_merchantId = inv_merchantId i, pj_operatorId = ap_operatorId input,
      pj_paymentId = ap_paymentId input, pj_settlementMode = ap_settlementMode input\<rparr>"

definition acceptedPaymentOf :: "invoice \<Rightarrow> accept_payment_input \<Rightarrow> invoice_payment" where
  "acceptedPaymentOf i input =
     \<lparr>ip_acceptedAt = ap_acceptedAt input, ip_assetAccount = ap_assetAccount input,
      ip_feeAmount = ap_feeAmount input, ip_grossAmount = inv_amount i,
      ip_journalEntryId = ap_journalEntryId input, ip_netAmount = inv_amount i - ap_feeAmount input,
      ip_operatorId = ap_operatorId input, ip_paymentId = ap_paymentId input,
      ip_settlementMode = ap_settlementMode input\<rparr>"

lemma acceptInvoicePaymentV1_iff:
  "acceptInvoicePaymentV1 i input = Inr acc \<longleftrightarrow>
     invoiceValid i \<and> inv_state i = Open \<and> validTimestamp (ap_acceptedAt input)
     \<and> inv_createdAt i \<le> ap_acceptedAt input \<and> ap_acceptedAt input < inv_expiresAt i
     \<and> ap_acceptedAt input \<le> ap_effectiveAt input
     \<and> paymentJournalValid (acceptanceJournal i input)
     \<and> acc = \<lparr>acc_invoice =
                copyInvoiceBase i (Paid (ap_acceptedAt input) (acceptedPaymentOf i input)),
              acc_journalEntry = paymentJournal (acceptanceJournal i input)\<rparr>"
proof -
  have clone: "paymentJournalValid (acceptanceJournal i input) \<Longrightarrow>
      clonePaymentAsset (ap_assetAccount input) = ap_assetAccount input"
    by (auto simp: paymentJournalValid_def acceptanceJournal_def)
  have amounts: "paymentJournalValid (acceptanceJournal i input) \<Longrightarrow>
      validAmount (ap_feeAmount input) \<and> validAmount (inv_amount i - ap_feeAmount input)
      \<and> validTimestamp (ap_effectiveAt input)"
    by (auto simp: paymentJournalValid_def acceptanceJournal_def validAmount_def)
  show ?thesis
    unfolding acceptInvoicePaymentV1_def acceptanceJournal_def [symmetric]
    by (auto simp: result_simps createInvoicePaymentJournalV1_iff Let_def acceptedPaymentOf_def
        clone amounts not_less dest: amounts)
qed

lemmas invoice_transition_defs = expireInvoiceV1_def cancelInvoiceV1_def

section \<open>A concrete invoice\<close>

definition openExample :: invoice where
  "openExample = \<lparr>inv_amount = 100, inv_createdAt = 10, inv_expiresAt = 110, inv_id = ''i1'',
     inv_merchantId = ''m1'', inv_schemaVersion = 1, inv_unit = ''usdc'', inv_state = Open\<rparr>"

definition paymentExample :: accept_payment_input where
  "paymentExample = \<lparr>ap_acceptedAt = 20, ap_assetAccount = Settlement_asset ''s1'',
     ap_effectiveAt = 21, ap_feeAmount = 1, ap_journalEntryId = ''j1'', ap_operatorId = ''o1'',
     ap_paymentId = ''p1'', ap_settlementMode = Immediate_conversion\<rparr>"

lemma openExample_valid: "invoiceValid openExample" "inv_state openExample = Open"
  by code_simp+

section \<open>Properties\<close>

text \<open>
  An accepted payment accounts for the invoice exactly: When a payment is accepted, the
  invoice was open and inside its validity window; the paid invoice keeps the identity, the amount
  and the window, gross equals fee plus net, and the journal entry balances, debits the gross
  amount and refers to this invoice, merchant and payment.
\<close>

theorem accepted_payment_accounts:
  assumes "acceptInvoicePaymentV1 i input = Inr acc"
  shows "inv_state i = Open \<and> invoiceValid (acc_invoice acc)
    \<and> inv_id (acc_invoice acc) = inv_id i \<and> inv_amount (acc_invoice acc) = inv_amount i
    \<and> (\<exists>p. inv_state (acc_invoice acc) = Paid (ap_acceptedAt input) p
         \<and> ip_grossAmount p = inv_amount i \<and> ip_grossAmount p = ip_feeAmount p + ip_netAmount p
         \<and> ip_journalEntryId p = je_id (acc_journalEntry acc))
    \<and> inv_createdAt i \<le> ap_acceptedAt input \<and> ap_acceptedAt input < inv_expiresAt i
    \<and> balanced (je_postings (acc_journalEntry acc))
    \<and> sideTotal Debit (je_postings (acc_journalEntry acc)) = inv_amount i
    \<and> ref_invoiceId (je_reference (acc_journalEntry acc)) = inv_id i
    \<and> ref_merchantId (je_reference (acc_journalEntry acc)) = inv_merchantId i
    \<and> ref_paymentId (je_reference (acc_journalEntry acc)) = ap_paymentId input"
  using assms
  by (auto simp: acceptInvoicePaymentV1_iff acceptedPaymentOf_def invoiceValid_def stateValid_def
      paymentOf_def paymentJournal_def paymentPostings_def acceptanceJournal_def balanced_def
      paymentJournalValid_def validatePaymentAsset_iff)

theorem accepted_payment_accounts_witness:
  "\<exists>acc. acceptInvoicePaymentV1 openExample paymentExample = Inr acc
     \<and> invoiceValid (acc_invoice acc) \<and> balanced (je_postings (acc_journalEntry acc))
     \<and> sideTotal Debit (je_postings (acc_journalEntry acc)) = 100"
proof -
  have "isOk (acceptInvoicePaymentV1 openExample paymentExample)" by code_simp
  then obtain acc where "acceptInvoicePaymentV1 openExample paymentExample = Inr acc"
    by (auto simp: isOk_iff)
  with accepted_payment_accounts [OF this] show ?thesis by (auto simp: openExample_def)
qed

text \<open>
  Closed invoices are final: Once an invoice has left the open state, no transition of any
  kind succeeds on it: payment, expiry and cancellation all fail, whatever their inputs.
\<close>

theorem closed_invoice_final:
  assumes "inv_state i \<noteq> Open"
  shows "\<not> isOk (acceptInvoicePaymentV1 i input) \<and> \<not> isOk (expireInvoiceV1 i t)
    \<and> \<not> isOk (cancelInvoiceV1 i t')"
  using assms
  by (auto simp: isOk_iff acceptInvoicePaymentV1_iff invoice_transition_defs result_simps)

theorem closed_invoice_final_witness:
  "\<not> isOk (acceptInvoicePaymentV1 (openExample\<lparr>inv_state := Expired 110\<rparr>) paymentExample)"
  using closed_invoice_final [of "openExample\<lparr>inv_state := Expired 110\<rparr>"] by simp

text \<open>
  C40 (well-formedness) Every operation that returns an invoice returns a well-formed one.
\<close>

theorem invoice_operations_well_formed:
  "(createInvoiceV1 b = Inr j \<longrightarrow> invoiceValid j \<and> inv_state j = Open)
   \<and> (expireInvoiceV1 i t = Inr j \<longrightarrow> invoiceValid j \<and> inv_state j = Expired t)
   \<and> (cancelInvoiceV1 i t = Inr j \<longrightarrow> invoiceValid j \<and> inv_state j = Cancelled t)"
  by (auto simp: createInvoiceV1_iff invoice_transition_defs result_simps invoiceValid_def
      stateValid_def baseValid_def)

theorem invoice_operations_well_formed_witness:
  "\<exists>j. expireInvoiceV1 openExample 120 = Inr j \<and> invoiceValid j \<and> inv_state j = Expired 120"
proof -
  have "isOk (expireInvoiceV1 openExample 120)" by code_simp
  then obtain j where j: "expireInvoiceV1 openExample 120 = Inr j" by (auto simp: isOk_iff)
  with invoice_operations_well_formed [where i = openExample and t = 120 and j = j] show ?thesis by blast
qed

text \<open>
  The validity interval: At every time from its creation on, a well-formed open invoice can
  be cancelled or expired but never both: cancellation is possible exactly before the expiry
  second and expiry exactly from it on.
\<close>

theorem open_invoice_window:
  assumes "invoiceValid i" and "inv_state i = Open" and "validTimestamp t" and "inv_createdAt i \<le> t"
  shows "(isOk (cancelInvoiceV1 i t) \<longleftrightarrow> t < inv_expiresAt i)
    \<and> (isOk (expireInvoiceV1 i t) \<longleftrightarrow> \<not> isOk (cancelInvoiceV1 i t))"
  using assms by (auto simp: isOk_iff invoice_transition_defs result_simps)

theorem open_invoice_window_witness:
  "isOk (cancelInvoiceV1 openExample 109) \<and> \<not> isOk (expireInvoiceV1 openExample 109)"
  using open_invoice_window [OF openExample_valid, of 109]
  by (simp add: openExample_def validTimestamp_def MAX_SAFE_INTEGER_def)

end
