(* ===== verification/Payment_Request.thy ===== *)
theory Payment_Request
  imports Invoice Cashu_Base
begin

text \<open>
  \<^verbatim>\<open>packages/cashu/src/payment-request.ts\<close>: the NUT-18 payment request an invoice is issued
  with.  The operator routes are checked against the operator policy, freed of duplicates and
  sorted by mint URL; the request is then encoded by the Cashu library
  (\<open>env_encodeCreqA\<close>).  \<open>PR_external\<close> is an exception of that library, which the code lets
  pass through.
\<close>

section \<open>Records and errors\<close>

definition CASHU_PAYMENT_REQUEST_SCHEMA_VERSION :: int where
  "CASHU_PAYMENT_REQUEST_SCHEMA_VERSION = 1"

definition MAX_NUT18_OPERATORS :: nat where
  "MAX_NUT18_OPERATORS = 16"

definition MAX_NUT18_ENCODED_LENGTH :: nat where
  "MAX_NUT18_ENCODED_LENGTH = 4096"

definition MAX_ENDPOINT_LENGTH :: nat where
  "MAX_ENDPOINT_LENGTH = 512"

datatype mint_policy = Strict | Advisory | Other_policy string

datatype endpoint_kind = Mint_endpoint | Transport_endpoint

record operator_route =
  or_mintUrl :: string
  or_operatorId :: string
  or_requestedMode :: "settlement_mode option"
  or_tier :: operator_tier

record accepted_route =
  ar_mintUrl :: string
  ar_mode :: settlement_mode
  ar_operatorId :: string
  ar_reason :: policy_reason
  ar_tier :: operator_tier

record payment_request =
  preq_amount :: int
  preq_encodedRequest :: string
  preq_encoding :: string
  preq_expiresAt :: int
  preq_invoiceId :: string
  preq_issuedAt :: int
  preq_mintPolicy :: mint_policy
  preq_operators :: "accepted_route list"
  preq_schemaVersion :: int
  preq_transportUrl :: string
  preq_unit :: string

record issuer_options =
  io_mintPolicy :: "mint_policy option"
  io_operators :: "operator_route list"
  io_transportUrl :: string

record payment_request_input = issuer_options +
  pri_invoice :: invoice
  pri_issuedAt :: int

record issuer =
  iss_mintPolicy :: mint_policy
  iss_operators :: "accepted_route list"
  iss_transportUrl :: string

datatype payment_request_error =
    PR_advisory_policy_unsupported
  | PR_duplicate_mint
  | PR_duplicate_operator
  | PR_empty_operator_set
  | PR_encoding_failed
  | PR_invalid_endpoint
  | PR_invalid_issued_at
  | PR_invalid_invoice
  | PR_invalid_mint_policy
  | PR_invalid_operator_policy
  | PR_invoice_expired
  | PR_operator_limit_exceeded
  | PR_operator_not_accepted
  | PR_request_before_invoice
  | PR_request_too_large
  | PR_external

section \<open>Validation\<close>

definition validateMintPolicy :: "mint_policy option \<Rightarrow> payment_request_error + mint_policy" where
  "validateMintPolicy v =
    (let mintPolicy = (case v of None \<Rightarrow> Strict | Some p \<Rightarrow> p)
     in if mintPolicy \<notin> {Strict, Advisory} then Inl PR_invalid_mint_policy
        else if mintPolicy = Advisory then Inl PR_advisory_policy_unsupported
        else Inr mintPolicy)"

text \<open>\<^verbatim>\<open>/^creqA[A-Za-z0-9+/_-]+={0,2}$/\<close>\<close>

definition creqChar :: "char \<Rightarrow> bool" where
  "creqChar c \<longleftrightarrow> isAlnum c \<or> c = CHR ''+'' \<or> c = CHR ''/'' \<or> c = CHR ''_'' \<or> c = CHR ''-''"

definition creqPattern :: "string \<Rightarrow> bool" where
  "creqPattern s \<longleftrightarrow> take 5 s = ''creqA'' \<and> takeWhile creqChar (drop 5 s) \<noteq> []
     \<and> length (dropWhile creqChar (drop 5 s)) \<le> 2
     \<and> list_all (\<lambda>c. c = CHR ''='') (dropWhile creqChar (drop 5 s))"

definition urlSafe :: "char \<Rightarrow> char" where
  "urlSafe c = (if c = CHR ''+'' then CHR ''-'' else if c = CHR ''/'' then CHR ''_'' else c)"

definition normalizeEncodedCreqA :: "string \<Rightarrow> payment_request_error + string" where
  "normalizeEncodedCreqA v =
     (if \<not> creqPattern v then Inl PR_encoding_failed
      else Inr (''creqA'' @ map urlSafe (drop 5 v)))"

definition encodeCashuPaymentRequest ::
  "cashu_env \<Rightarrow> string \<Rightarrow> int \<Rightarrow> accepted_route list \<Rightarrow> string \<Rightarrow> payment_request_error + string" where
  "encodeCashuPaymentRequest env invoiceId amount operators transportUrl =
    (case env_encodeCreqA env
       \<lparr>creq_id = invoiceId, creq_amount = amount, creq_unit = ''usdc'',
        creq_mints = map ar_mintUrl operators, creq_supportedMethod = ''stellar'',
        creq_httpPostTransport = transportUrl\<rparr> of
       None \<Rightarrow> Inl PR_external
     | Some s \<Rightarrow> normalizeEncodedCreqA s)"

definition ensureEncodedRequestBound :: "string \<Rightarrow> payment_request_error + unit" where
  "ensureEncodedRequestBound v =
     throwIf (length v > MAX_NUT18_ENCODED_LENGTH) PR_request_too_large"

definition validateOpenInvoice :: "invoice \<Rightarrow> payment_request_error + invoice" where
  "validateOpenInvoice i =
    (if inv_schemaVersion i \<noteq> INVOICE_SCHEMA_VERSION \<or> inv_unit i \<noteq> INVOICE_UNIT
        \<or> inv_state i \<noteq> Open
     then Inl PR_invalid_invoice
     else catchR (\<lambda>_. PR_invalid_invoice)
       (createInvoiceV1
          \<lparr>inv_amount = inv_amount i, inv_createdAt = inv_createdAt i,
           inv_expiresAt = inv_expiresAt i, inv_id = inv_id i,
           inv_merchantId = inv_merchantId i\<rparr>))"

definition normalizeHttpsEndpoint ::
  "cashu_env \<Rightarrow> string \<Rightarrow> endpoint_kind \<Rightarrow> payment_request_error + string" where
  "normalizeHttpsEndpoint env v kind =
    (if length v = 0 \<or> length v > MAX_ENDPOINT_LENGTH \<or> v \<noteq> jsTrim v then Inl PR_invalid_endpoint
     else (case env_parseUrl env v of
       None \<Rightarrow> Inl PR_invalid_endpoint
     | Some endpoint \<Rightarrow>
         if url_protocol endpoint \<noteq> ''https:'' \<or> url_username endpoint \<noteq> ''''
            \<or> url_password endpoint \<noteq> '''' \<or> url_search endpoint \<noteq> '''' \<or> url_hash endpoint \<noteq> ''''
         then Inl PR_invalid_endpoint
         else if kind = Mint_endpoint
         then (case env_normalizeMintUrl env (url_href endpoint) of
                 None \<Rightarrow> Inl PR_invalid_endpoint
               | Some u \<Rightarrow> Inr u)
         else Inr (url_href endpoint)))"

section \<open>Operator routes\<close>

definition acceptRoute :: "operator_route \<Rightarrow> string \<Rightarrow> payment_request_error + accepted_route" where
  "acceptRoute route mintUrl =
    bindR (catchR (\<lambda>_. PR_invalid_operator_policy)
       (evaluateOperatorPolicy
          \<lparr>pol_tier = or_tier route, pol_requestedMode = or_requestedMode route\<rparr>)) (\<lambda>decision.
    case decision of
      Rejected _ \<Rightarrow> Inl PR_operator_not_accepted
    | Accepted mode reason \<Rightarrow>
        if or_tier route = Unlisted then Inl PR_operator_not_accepted
        else Inr \<lparr>ar_mintUrl = mintUrl, ar_mode = mode, ar_operatorId = or_operatorId route,
                  ar_reason = reason, ar_tier = or_tier route\<rparr>)"

fun normalizeRoutes ::
  "cashu_env \<Rightarrow> string set \<Rightarrow> string set \<Rightarrow> operator_route list
     \<Rightarrow> payment_request_error + accepted_route list" where
  "normalizeRoutes env operatorIds mintUrls [] = Inr []"
| "normalizeRoutes env operatorIds mintUrls (route # routes) =
     bindR (catchR (\<lambda>_. PR_invalid_operator_policy) (assertIdentifier (or_operatorId route))) (\<lambda>_.
     if or_operatorId route \<in> operatorIds then Inl PR_duplicate_operator
     else
     bindR (normalizeHttpsEndpoint env (or_mintUrl route) Mint_endpoint) (\<lambda>mintUrl.
     if mintUrl \<in> mintUrls then Inl PR_duplicate_mint
     else
     bindR (acceptRoute route mintUrl) (\<lambda>accepted.
     bindR (normalizeRoutes env (insert (or_operatorId route) operatorIds)
              (insert mintUrl mintUrls) routes) (\<lambda>rest.
     Inr (accepted # rest)))))"

definition normalizeOperatorRoutes ::
  "cashu_env \<Rightarrow> operator_route list \<Rightarrow> payment_request_error + accepted_route list" where
  "normalizeOperatorRoutes env routes =
    (if length routes = 0 then Inl PR_empty_operator_set
     else if length routes > MAX_NUT18_OPERATORS then Inl PR_operator_limit_exceeded
     else bindR (normalizeRoutes env {} {} routes) (\<lambda>normalized.
            Inr (sort_key ar_mintUrl normalized)))"

section \<open>The issuer\<close>

text \<open>The constructor of \<open>CashuPaymentRequestIssuer\<close>, and its \<open>issue\<close>.\<close>

definition newIssuer :: "cashu_env \<Rightarrow> 'a issuer_options_scheme \<Rightarrow> payment_request_error + issuer" where
  "newIssuer env options =
     bindR (validateMintPolicy (io_mintPolicy options)) (\<lambda>mintPolicy.
     bindR (normalizeOperatorRoutes env (io_operators options)) (\<lambda>operators.
     bindR (normalizeHttpsEndpoint env (io_transportUrl options) Transport_endpoint)
       (\<lambda>transportUrl.
     bindR (encodeCashuPaymentRequest env (replicate 128 CHR ''i'') MAX_SAFE_INTEGER operators
              transportUrl) (\<lambda>encoded.
     bindR (ensureEncodedRequestBound encoded) (\<lambda>_.
     Inr \<lparr>iss_mintPolicy = mintPolicy, iss_operators = operators,
          iss_transportUrl = transportUrl\<rparr>)))))"

definition issue :: "cashu_env \<Rightarrow> issuer \<Rightarrow> invoice \<Rightarrow> int \<Rightarrow> payment_request_error + payment_request" where
  "issue env self givenInvoice issuedAt =
     bindR (validateOpenInvoice givenInvoice) (\<lambda>i.
     bindR (catchR (\<lambda>_. PR_invalid_issued_at) (assertUnixTimestamp issuedAt)) (\<lambda>_.
     if issuedAt < inv_createdAt i then Inl PR_request_before_invoice
     else if issuedAt \<ge> inv_expiresAt i then Inl PR_invoice_expired
     else
     bindR (encodeCashuPaymentRequest env (inv_id i) (inv_amount i) (iss_operators self)
              (iss_transportUrl self)) (\<lambda>encodedRequest.
     bindR (ensureEncodedRequestBound encodedRequest) (\<lambda>_.
     Inr \<lparr>preq_amount = inv_amount i, preq_encodedRequest = encodedRequest,
          preq_encoding = ''creqA'', preq_expiresAt = inv_expiresAt i, preq_invoiceId = inv_id i,
          preq_issuedAt = issuedAt, preq_mintPolicy = iss_mintPolicy self,
          preq_operators = iss_operators self,
          preq_schemaVersion = CASHU_PAYMENT_REQUEST_SCHEMA_VERSION,
          preq_transportUrl = iss_transportUrl self, preq_unit = ''usdc''\<rparr>))))"

definition createCashuPaymentRequestV1 ::
  "cashu_env \<Rightarrow> payment_request_input \<Rightarrow> payment_request_error + payment_request" where
  "createCashuPaymentRequestV1 env input =
     bindR (newIssuer env input) (\<lambda>self. issue env self (pri_invoice input) (pri_issuedAt input))"

section \<open>Accepted routes\<close>

text \<open>What the merchant policy lets an accepted route be.\<close>

definition routePolicy :: "accepted_route \<Rightarrow> bool" where
  "routePolicy a \<longleftrightarrow> identifierPattern (ar_operatorId a)
     \<and> (ar_tier a = Trusted \<and> ar_reason a = Trusted_operator \<and> ar_mode a \<in> set SETTLEMENT_MODES
        \<or> ar_tier a = Convertible \<and> ar_reason a = Conversion_required
          \<and> ar_mode a = Immediate_conversion)"

definition routesValid :: "accepted_route list \<Rightarrow> bool" where
  "routesValid rs \<longleftrightarrow> rs \<noteq> [] \<and> length rs \<le> MAX_NUT18_OPERATORS
     \<and> strictlyIncreasing (map ar_mintUrl rs) \<and> distinct (map ar_operatorId rs)
     \<and> (\<forall>r \<in> set rs. routePolicy r)"

text \<open>A route given back to the constructor, as \<open>validateCashuPaymentRequest\<close> does.\<close>

definition routeInput :: "accepted_route \<Rightarrow> operator_route" where
  "routeInput a = \<lparr>or_mintUrl = ar_mintUrl a, or_operatorId = ar_operatorId a,
     or_requestedMode = Some (ar_mode a), or_tier = ar_tier a\<rparr>"

lemma routeInput_sel [simp]:
  "or_mintUrl (routeInput a) = ar_mintUrl a"
  "or_operatorId (routeInput a) = ar_operatorId a"
  "or_requestedMode (routeInput a) = Some (ar_mode a)"
  "or_tier (routeInput a) = ar_tier a"
  by (simp_all add: routeInput_def)

lemma evaluateOperatorPolicy_Accepted:
  "evaluateOperatorPolicy i = Inr (Accepted m r) \<longleftrightarrow>
     pol_tier i = Trusted \<and> r = Trusted_operator \<and> m \<in> set SETTLEMENT_MODES
       \<and> (pol_requestedMode i = Some m \<or> pol_requestedMode i = None \<and> m = Trusted_hold)
     \<or> pol_tier i = Convertible \<and> r = Conversion_required \<and> m = Immediate_conversion
       \<and> (case pol_requestedMode i of None \<Rightarrow> True | Some q \<Rightarrow> q \<in> set SETTLEMENT_MODES)"
  by (cases "pol_tier i"; cases "pol_requestedMode i") (auto simp: evaluateOperatorPolicy_def)

lemma acceptRoute_policy:
  "acceptRoute r u = Inr a \<Longrightarrow> identifierPattern (or_operatorId r) \<Longrightarrow>
     routePolicy a \<and> ar_mintUrl a = u \<and> ar_operatorId a = or_operatorId r"
proof -
  assume acc: "acceptRoute r u = Inr a" and op: "identifierPattern (or_operatorId r)"
  then obtain m reason where
    "evaluateOperatorPolicy \<lparr>pol_tier = or_tier r, pol_requestedMode = or_requestedMode r\<rparr>
       = Inr (Accepted m reason)"
    "a = \<lparr>ar_mintUrl = u, ar_mode = m, ar_operatorId = or_operatorId r, ar_reason = reason,
          ar_tier = or_tier r\<rparr>"
    by (auto simp: acceptRoute_def bindR_def catchR_def
        split: sum.splits policy_decision.splits if_splits)
  with op show ?thesis by (auto simp: evaluateOperatorPolicy_Accepted routePolicy_def)
qed

lemma acceptRoute_input:
  "routePolicy a \<Longrightarrow> acceptRoute (routeInput a) (ar_mintUrl a) = Inr a"
proof -
  assume "routePolicy a"
  then have "evaluateOperatorPolicy
      \<lparr>pol_tier = ar_tier a, pol_requestedMode = Some (ar_mode a)\<rparr>
      = Inr (Accepted (ar_mode a) (ar_reason a)) \<and> ar_tier a \<noteq> Unlisted"
    by (auto simp: evaluateOperatorPolicy_Accepted routePolicy_def)
  then show ?thesis by (simp add: acceptRoute_def)
qed

lemma normalizeHttpsEndpoint_mint:
  "normalizeHttpsEndpoint env v Mint_endpoint = Inr u \<longleftrightarrow> normalizeCashuMintUrl env v = Inr u"
  by (simp add: normalizeHttpsEndpoint_def normalizeCashuMintUrl_def MAX_ENDPOINT_LENGTH_def
      MAX_CASHU_ENDPOINT_LENGTH_def split: option.splits)

lemma normalizeRoutes_sound:
  assumes "normalizeRoutes env ids urls rs = Inr as"
  shows "length as = length rs \<and> distinct (map ar_operatorId as) \<and> distinct (map ar_mintUrl as)
    \<and> ids \<inter> ar_operatorId ` set as = {} \<and> urls \<inter> ar_mintUrl ` set as = {}
    \<and> (\<forall>a \<in> set as. routePolicy a \<and> (\<exists>v. normalizeCashuMintUrl env v = Inr (ar_mintUrl a)))"
  using assms
proof (induction rs arbitrary: ids urls as)
  case (Cons r rs)
  then obtain u a as' where step: "as = a # as'" "identifierPattern (or_operatorId r)"
    "or_operatorId r \<notin> ids" "u \<notin> urls" "normalizeCashuMintUrl env (or_mintUrl r) = Inr u"
    "acceptRoute r u = Inr a"
    "normalizeRoutes env (insert (or_operatorId r) ids) (insert u urls) rs = Inr as'"
    by (auto simp: result_simps normalizeHttpsEndpoint_mint split: if_splits)
  from acceptRoute_policy [OF step(6,2)] Cons.IH [OF step(7)] step show ?case
    by (auto simp: image_iff)
qed simp

lemma normalizeRoutes_input:
  assumes "distinct (map ar_operatorId as)" and "distinct (map ar_mintUrl as)"
    and "ids \<inter> ar_operatorId ` set as = {}" and "urls \<inter> ar_mintUrl ` set as = {}"
    and "\<forall>a \<in> set as. routePolicy a \<and> normalizeCashuMintUrl env (ar_mintUrl a) = Inr (ar_mintUrl a)"
  shows "normalizeRoutes env ids urls (map routeInput as) = Inr as"
  using assms
proof (induction as arbitrary: ids urls)
  case (Cons a as)
  then have "normalizeHttpsEndpoint env (ar_mintUrl a) Mint_endpoint = Inr (ar_mintUrl a)"
    by (simp add: normalizeHttpsEndpoint_mint)
  moreover have "identifierPattern (ar_operatorId a)" using Cons.prems by (simp add: routePolicy_def)
  moreover have "normalizeRoutes env (insert (ar_operatorId a) ids) (insert (ar_mintUrl a) urls)
      (map routeInput as) = Inr as"
    using Cons.prems by (intro Cons.IH) auto
  moreover have "acceptRoute (routeInput a) (ar_mintUrl a) = Inr a"
    using Cons.prems by (simp add: acceptRoute_input)
  ultimately show ?case using Cons.prems by auto
qed simp

lemma normalizeOperatorRoutes_valid:
  assumes "normalizeOperatorRoutes env rs = Inr as"
  shows "routesValid as \<and> (\<forall>a \<in> set as. \<exists>v. normalizeCashuMintUrl env v = Inr (ar_mintUrl a))"
proof -
  obtain bs where bs: "normalizeRoutes env {} {} rs = Inr bs" "as = sort_key ar_mintUrl bs"
    and len: "rs \<noteq> []" "length rs \<le> MAX_NUT18_OPERATORS"
    using assms by (auto simp: normalizeOperatorRoutes_def result_simps split: if_splits)
  note sound = normalizeRoutes_sound [OF bs(1)]
  have "distinct (map ar_operatorId as)"
    using sound by (simp add: bs(2) distinct_map)
  moreover have "length as = length rs" using sound by (simp add: bs(2))
  ultimately show ?thesis
    using sound len sort_key_strict [of ar_mintUrl bs] by (auto simp: routesValid_def bs(2))
qed

text \<open>A request given back to the constructor.\<close>

definition requestAsInput :: "invoice \<Rightarrow> payment_request \<Rightarrow> payment_request_input" where
  "requestAsInput i req =
     \<lparr>io_mintPolicy = Some (preq_mintPolicy req),
      io_operators = map routeInput (preq_operators req),
      io_transportUrl = preq_transportUrl req, pri_invoice = i, pri_issuedAt = preq_issuedAt req\<rparr>"

lemma createCashuPaymentRequestV1_parts:
  assumes "createCashuPaymentRequestV1 env input = Inr req"
  shows "normalizeOperatorRoutes env (io_operators input) = Inr (preq_operators req)
    \<and> normalizeHttpsEndpoint env (io_transportUrl input) Transport_endpoint = Inr (preq_transportUrl req)
    \<and> issue env \<lparr>iss_mintPolicy = Strict, iss_operators = preq_operators req,
                iss_transportUrl = preq_transportUrl req\<rparr>
        (pri_invoice input) (pri_issuedAt input) = Inr req
    \<and> newIssuer env input = Inr \<lparr>iss_mintPolicy = Strict, iss_operators = preq_operators req,
                iss_transportUrl = preq_transportUrl req\<rparr>"
  using assms
  by (auto simp: createCashuPaymentRequestV1_def newIssuer_def issue_def validateMintPolicy_def
      result_simps Let_def split: if_splits option.splits)

lemma issue_parts:
  assumes "issue env self i t = Inr req"
  shows "inv_state i = Open \<and> baseValid i \<and> preq_amount req = inv_amount i
    \<and> preq_invoiceId req = inv_id i \<and> preq_expiresAt req = inv_expiresAt i \<and> preq_issuedAt req = t
    \<and> inv_createdAt i \<le> t \<and> t < inv_expiresAt i \<and> preq_mintPolicy req = iss_mintPolicy self
    \<and> length (preq_encodedRequest req) \<le> MAX_NUT18_ENCODED_LENGTH
    \<and> preq_operators req = iss_operators self \<and> preq_transportUrl req = iss_transportUrl self
    \<and> preq_schemaVersion req = 1 \<and> preq_encoding req = ''creqA''
    \<and> inv_schemaVersion i = 1 \<and> inv_unit i = ''usdc''"
  using assms
  by (auto simp: issue_def validateOpenInvoice_def createInvoiceV1_iff result_simps baseValid_def
      ensureEncodedRequestBound_def INVOICE_SCHEMA_VERSION_def INVOICE_UNIT_def
      CASHU_PAYMENT_REQUEST_SCHEMA_VERSION_def split: if_splits)

lemma createCashuPaymentRequestV1_recreate:
  assumes "createCashuPaymentRequestV1 env input = Inr req"
    and "\<forall>a \<in> set (preq_operators req).
           normalizeCashuMintUrl env (ar_mintUrl a) = Inr (ar_mintUrl a)"
    and "normalizeHttpsEndpoint env (preq_transportUrl req) Transport_endpoint
           = Inr (preq_transportUrl req)"
  shows "createCashuPaymentRequestV1 env (requestAsInput (pri_invoice input) req) = Inr req"
proof -
  note parts = createCashuPaymentRequestV1_parts [OF assms(1)]
  have valid: "routesValid (preq_operators req)"
    using parts normalizeOperatorRoutes_valid by blast
  then have "normalizeRoutes env {} {} (map routeInput (preq_operators req)) = Inr (preq_operators req)"
    using assms(2)
    by (intro normalizeRoutes_input) (auto simp: routesValid_def dest: strictlyIncreasing_distinct)
  with valid have routes:
    "normalizeOperatorRoutes env (map routeInput (preq_operators req)) = Inr (preq_operators req)"
    by (auto simp: normalizeOperatorRoutes_def routesValid_def sort_key_fixed)
  from parts have issued: "issue env \<lparr>iss_mintPolicy = Strict, iss_operators = preq_operators req,
      iss_transportUrl = preq_transportUrl req\<rparr> (pri_invoice input) (pri_issuedAt input) = Inr req"
    by simp
  have policy: "preq_mintPolicy req = Strict" and time: "preq_issuedAt req = pri_issuedAt input"
    using issue_parts [OF issued] by simp_all
  from parts have "newIssuer env (requestAsInput (pri_invoice input) req)
      = Inr \<lparr>iss_mintPolicy = Strict, iss_operators = preq_operators req,
             iss_transportUrl = preq_transportUrl req\<rparr>"
    using routes assms(3) policy
    by (auto simp: newIssuer_def requestAsInput_def result_simps validateMintPolicy_def)
  with issued time show ?thesis
    by (simp add: createCashuPaymentRequestV1_def requestAsInput_def)
qed

end
