(* ===== verification/Schema.thy ===== *)
theory Schema
  imports Database
begin

text \<open>
  The constraints and trigger functions of \<^verbatim>\<open>postgres-schema.ts\<close> on the lifecycle, accounting
  and recovery tables.  Each \<open>insert\<close> is the SQL statement with everything the schema attaches to
  it, in PostgreSQL's order: the \<^verbatim>\<open>BEFORE\<close> triggers, the row checks, the unique indexes, the
  foreign keys, the \<^verbatim>\<open>AFTER\<close> triggers, and the deferred constraint triggers it queues.
  \<open>commit\<close> runs that queue.  Conditions follow SQL's three-valued logic: a comparison with
  a null is not true, so \<open>ltN\<close>, \<open>gtN\<close> and \<open>neqN\<close> are false on nulls, while
  \<^verbatim>\<open>IS DISTINCT FROM\<close> is inequality of options.

  Row checks that repeat a pattern or range the code has validated (identifier and fingerprint
  formats, safe-integer ranges) are left out; the checks that limit what a valid input can do
  (the event shape, the sequence and attempt bounds, the lease length) are kept.
\<close>

section \<open>Nulls\<close>

definition ltN :: "int option \<Rightarrow> int option \<Rightarrow> bool" where
  "ltN a b = (case (a, b) of (Some x, Some y) \<Rightarrow> x < y | _ \<Rightarrow> False)"

definition neqN :: "'a option \<Rightarrow> 'a option \<Rightarrow> bool" where
  "neqN a b = (case (a, b) of (Some x, Some y) \<Rightarrow> x \<noteq> y | _ \<Rightarrow> False)"

lemma null_simps [simp]:
  "ltN (Some x) (Some y) \<longleftrightarrow> x < y" "\<not> ltN None b" "\<not> ltN a None"
  "neqN (Some u) (Some v) \<longleftrightarrow> u \<noteq> v" "\<not> neqN None d" "\<not> neqN c None"
  by (simp_all add: ltN_def neqN_def split: option.splits)

section \<open>Reading the lifecycle tables\<close>

definition eventsOf :: "db \<Rightarrow> string \<Rightarrow> event_row list" where
  "eventsOf db pid = filter (\<lambda>e. ev_payment_id e = pid) (db_events db)"

definition latestEvent :: "db \<Rightarrow> string \<Rightarrow> event_row option" where
  "latestEvent db pid = latestBy ev_sequence (eventsOf db pid)"

definition latestState :: "db \<Rightarrow> string \<Rightarrow> string option" where
  "latestState db pid = map_option ev_state (latestEvent db pid)"

definition terminalState :: "string option \<Rightarrow> bool" where
  "terminalState s \<longleftrightarrow> s = Some ''consumed'' \<or> s = Some ''released''"

definition findReservation :: "db \<Rightarrow> string \<Rightarrow> reservation_row option" where
  "findReservation db pid = findFirst (\<lambda>r. rs_payment_id r = pid) (db_reservations db)"

definition findInvoice :: "db \<Rightarrow> string \<Rightarrow> invoice_row option" where
  "findInvoice db iid = findFirst (\<lambda>i. ir_id i = iid) (db_invoices db)"

definition effectOf :: "db \<Rightarrow> string \<Rightarrow> effect_row option" where
  "effectOf db pid = findFirst (\<lambda>e. ef_payment_id e = pid) (db_effects db)"

definition queue :: "deferred_check list \<Rightarrow> db \<Rightarrow> db" where
  "queue checks db = db\<lparr>db_deferred := db_deferred db @ checks\<rparr>"

section \<open>Operator effects\<close>

text \<open>\<open>cashmesh_validate_cashu_melt_effect_quote\<close>\<close>

definition validateMeltEffectQuote :: "db \<Rightarrow> effect_row \<Rightarrow> db_error + unit" where
  "validateMeltEffectQuote db new =
    (if ef_effect_kind new \<noteq> ''melt'' then Inr ()
     else case findFirst (\<lambda>a. qa_payment_id a = ef_payment_id new) (db_quoteAttempts db) of
       None \<Rightarrow> Inl Check_violation
     | Some attempt \<Rightarrow>
     case findFirst (\<lambda>out. qo_attempt_id out = qa_attempt_id attempt \<and> qo_outcome_kind out = ''quoted'')
            (db_quoteOutcomes db) of
       None \<Rightarrow> Inl Check_violation
     | Some outcome \<Rightarrow>
     case latestBy qb_observed_at
            (filter (\<lambda>b. qb_attempt_id b = qa_attempt_id attempt) (db_quoteObservations db)) of
       None \<Rightarrow> Inl Check_violation
     | Some latest \<Rightarrow>
         checkRow (\<not> (qa_mint_url attempt \<noteq> ef_mint_url new
           \<or> qo_quote_id outcome \<noteq> ef_operator_reference new
           \<or> qo_expiry outcome \<noteq> ef_operator_reference_expires_at new
           \<or> qo_recorded_at outcome > ef_started_at new
           \<or> qb_observed_at latest > ef_started_at new
           \<or> qb_state latest \<noteq> ''UNPAID''
           \<or> \<not> ltN (Some (ef_started_at new)) (qo_expiry outcome) \<and> qo_expiry outcome \<noteq> None)))"

text \<open>\<open>cashu_operator_effects_reference\<close>\<close>

definition effectReferenceCheck :: "effect_row \<Rightarrow> bool" where
  "effectReferenceCheck new \<longleftrightarrow>
     ef_effect_kind new = ''swap'' \<and> ef_operator_reference new = None
       \<and> ef_operator_reference_expires_at new = None
     \<or> ef_effect_kind new = ''melt'' \<and> ef_operator_reference new \<noteq> None
       \<and> ltN (Some (ef_started_at new)) (ef_operator_reference_expires_at new)"

text \<open>\<open>cashmesh_claim_cashu_operator_effect_invoice\<close> inserts the claim of the invoice.\<close>

definition insertInvoiceClaim :: "db \<Rightarrow> invoice_claim_row \<Rightarrow> db_error + db" where
  "insertInvoiceClaim db new =
     bindR (requireUnique ''cashu_active_invoice_payment_claims_pkey'' ic_invoice_id
              (db_invoiceClaims db) new) (\<lambda>_.
     bindR (requireUnique ''cashu_active_invoice_payment_claims_payment_id_key'' ic_payment_id
              (db_invoiceClaims db) new) (\<lambda>_.
     bindR (requireUnique ''cashu_active_invoice_payment_claims_effect_id_key'' ic_effect_id
              (db_invoiceClaims db) new) (\<lambda>_.
     Inr (queue [Active_claims_check (ic_payment_id new)]
            (db\<lparr>db_invoiceClaims := db_invoiceClaims db @ [new]\<rparr>)))))"

text \<open>\<open>cashmesh_schedule_stellar_melt_recovery\<close> inserts the recovery job of a melt effect.\<close>

definition insertRecoveryJob :: "db \<Rightarrow> job_row \<Rightarrow> db_error + db" where
  "insertRecoveryJob db new =
     bindR (requireUnique ''cashu_stellar_melt_recovery_jobs_pkey'' jb_payment_id (db_jobs db) new) (\<lambda>_.
     bindR (requireUnique ''cashu_stellar_melt_recovery_jobs_effect_id_key'' jb_effect_id
              (db_jobs db) new) (\<lambda>_.
     Inr (db\<lparr>db_jobs := db_jobs db @ [new]\<rparr>)))"

definition scheduleMeltRecovery :: "db \<Rightarrow> effect_row \<Rightarrow> db_error + db" where
  "scheduleMeltRecovery db new =
    (if ef_effect_kind new \<noteq> ''melt'' then Inr db
     else insertRecoveryJob db
       \<lparr>jb_payment_id = ef_payment_id new, jb_effect_id = ef_effect_id new, jb_schema_version = 1,
        jb_initial_attempt_at = min MAX_SAFE_INTEGER (ef_started_at new + 60)\<rparr>)"

definition insertEffect :: "db \<Rightarrow> effect_row \<Rightarrow> db_error + db" where
  "insertEffect db new =
     bindR (validateMeltEffectQuote db new) (\<lambda>_.
     bindR (checkRow (effectReferenceCheck new)) (\<lambda>_.
     bindR (requireUnique ''cashu_operator_effects_pkey'' ef_effect_id (db_effects db) new) (\<lambda>_.
     bindR (requireUnique ''cashu_operator_effects_effect_fingerprint_key'' ef_effect_fingerprint
              (db_effects db) new) (\<lambda>_.
     bindR (requireUnique ''cashu_operator_effects_payment_id_key'' ef_payment_id
              (db_effects db) new) (\<lambda>_.
     bindR (requireUnique ''cashu_operator_effects_remote_reference_unique''
              (\<lambda>e. (ef_mint_url e, ef_effect_kind e, ef_operator_reference e))
              (filter (\<lambda>e. ef_operator_reference e \<noteq> None) (db_effects db)) new) (\<lambda>_.
     bindR (requireUnique ''cashu_operator_effects_dispatch_unique''
              (\<lambda>e. (ef_mint_url e, ef_effect_kind e, ef_dispatch_fingerprint e))
              (db_effects db) new) (\<lambda>_.
     bindR (requireExists (\<lambda>r. rs_payment_id r = ef_payment_id new \<and> rs_invoice_id r = ef_invoice_id new
              \<and> rs_operator_id r = ef_operator_id new \<and> rs_mint_url r = ef_mint_url new)
              (db_reservations db)) (\<lambda>_.
     bindR (insertInvoiceClaim (db\<lparr>db_effects := db_effects db @ [new]\<rparr>)
              \<lparr>ic_invoice_id = ef_invoice_id new, ic_payment_id = ef_payment_id new,
               ic_effect_id = ef_effect_id new\<rparr>) (\<lambda>claimed.
     bindR (scheduleMeltRecovery claimed new) (\<lambda>scheduled.
     Inr (queue [Active_claims_check (ef_payment_id new), Effect_event_check new] scheduled)))))))))))"

section \<open>Reservation events\<close>

text \<open>\<open>cashmesh_validate_cashu_reservation_event\<close>\<close>

definition eventSequenceCheck :: "db \<Rightarrow> event_row \<Rightarrow> bool" where
  "eventSequenceCheck db new =
    (case latestEvent db (ev_payment_id new) of
       Some previous \<Rightarrow>
         \<not> (ev_sequence new \<noteq> ev_sequence previous + 1
            \<or> ev_recorded_at new < ev_recorded_at previous
            \<or> ev_state previous \<in> {''consumed'', ''released''}
            \<or> ev_state new = ''dispatch_started''
            \<or> ev_effect_id new \<noteq> ev_effect_id previous
            \<or> ev_state new \<notin> {''pending'', ''needs_attention'', ''consumed'', ''released''})
     | None \<Rightarrow>
         \<not> (ev_sequence new \<noteq> 0
            \<or> ev_state new \<notin> {''dispatch_started'', ''released''}
            \<or> ev_state new = ''released'' \<and> neqN (ev_evidence_kind new) (Some ''pre_dispatch'')))"

definition eventEffectCheck :: "db \<Rightarrow> reservation_row \<Rightarrow> event_row \<Rightarrow> bool" where
  "eventEffectCheck db reservation new =
    (case ev_effect_id new of None \<Rightarrow> True
     | Some effectId \<Rightarrow>
     case findFirst (\<lambda>e. ef_effect_id e = effectId \<and> ef_payment_id e = ev_payment_id new)
            (db_effects db) of
       None \<Rightarrow> False
     | Some effect \<Rightarrow>
         \<not> (ef_started_at effect > ev_recorded_at new
            \<or> ltN (ev_evidence_at new) (Some (ef_started_at effect)))
         \<and> (ev_state new = ''dispatch_started'' \<longrightarrow>
              (case findInvoice db (rs_invoice_id reservation) of
                 None \<Rightarrow> False
               | Some invRow \<Rightarrow>
                   \<not> (ef_started_at effect \<noteq> ev_recorded_at new \<or> ir_state invRow \<noteq> ''open''
                      \<or> ef_started_at effect < ir_created_at invRow
                      \<or> ef_started_at effect \<ge> ir_expires_at invRow)))
         \<and> \<not> (ev_evidence_kind new = Some ''swap_succeeded'' \<and> ef_effect_kind effect \<noteq> ''swap''
              \<or> ev_evidence_kind new = Some ''melt_paid'' \<and> ef_effect_kind effect \<noteq> ''melt''
              \<or> ev_evidence_kind new = Some ''swap_rejected'' \<and> ef_effect_kind effect \<noteq> ''swap''
              \<or> ev_evidence_kind new = Some ''melt_unpaid_after_expiry''
                \<and> (ef_effect_kind effect \<noteq> ''melt''
                   \<or> ltN (ev_evidence_at new) (ef_operator_reference_expires_at effect))
              \<or> ev_evidence_kind new = Some ''operator_pending'' \<and> ef_effect_kind effect \<noteq> ''melt''))"

definition eventProofCheck :: "db \<Rightarrow> event_row \<Rightarrow> bool" where
  "eventProofCheck db new =
    (case ev_proof_state_fingerprint new of None \<Rightarrow> True
     | Some fingerprint \<Rightarrow>
     case findFirst (\<lambda>x. px_snapshot_fingerprint x = fingerprint \<and> px_payment_id x = ev_payment_id new)
            (db_proofObservations db) of
       None \<Rightarrow> False
     | Some observation \<Rightarrow>
         let entries = filter (\<lambda>e. pe_snapshot_fingerprint e = fingerprint) (db_proofEntries db);
             wanted = (if ev_state new = ''consumed'' then ''SPENT'' else ''UNSPENT'')
         in \<not> (ltN (Some (px_observed_at observation)) (ev_evidence_at new)
               \<or> px_observed_at observation > ev_recorded_at new)
            \<and> entries \<noteq> [] \<and> list_all (\<lambda>e. pe_state e = wanted) entries)"

definition validateReservationEvent :: "db \<Rightarrow> event_row \<Rightarrow> db_error + unit" where
  "validateReservationEvent db new =
    (case findReservation db (ev_payment_id new) of
       None \<Rightarrow> Inl Check_violation
     | Some reservation \<Rightarrow>
         checkRow (\<not> ev_recorded_at new < rs_reserved_at reservation
           \<and> eventSequenceCheck db new \<and> eventEffectCheck db reservation new
           \<and> eventProofCheck db new))"

text \<open>\<open>cashmesh_validate_latest_melt_release_evidence\<close>\<close>

definition latestQuoteObservation ::
  "db \<Rightarrow> string \<Rightarrow> (quote_observation_row \<times> quote_outcome_row) option" where
  "latestQuoteObservation db pid =
     latestBy (\<lambda>(b, out). qb_observed_at b)
       [(b, out). b \<leftarrow> db_quoteObservations db, qb_payment_id b = pid, out \<leftarrow> db_quoteOutcomes db,
          qo_attempt_id out = qb_attempt_id b \<and> qo_payment_id out = qb_payment_id b
          \<and> qo_mint_url out = qb_mint_url b \<and> qo_quote_id out = Some (qb_quote_id b)]"

definition latestProofObservation :: "db \<Rightarrow> string \<Rightarrow> proof_observation_row option" where
  "latestProofObservation db pid =
     latestBy px_observed_at (filter (\<lambda>x. px_payment_id x = pid) (db_proofObservations db))"

definition validateLatestMeltRelease :: "db \<Rightarrow> event_row \<Rightarrow> db_error + unit" where
  "validateLatestMeltRelease db new =
    (if ev_state new \<noteq> ''released'' \<or> neqN (ev_evidence_kind new) (Some ''melt_unpaid_after_expiry'')
     then Inr ()
     else
     let effect = findFirst (\<lambda>e. Some (ef_effect_id e) = ev_effect_id new
                     \<and> ef_payment_id e = ev_payment_id new) (db_effects db);
         latestQuote = latestQuoteObservation db (ev_payment_id new);
         latestProof = latestProofObservation db (ev_payment_id new);
         proofObservedAt = map_option px_observed_at latestProof
     in case effect of
          None \<Rightarrow> Inl Check_violation
        | Some e \<Rightarrow>
            checkRow (\<not> (ef_effect_kind e \<noteq> ''melt''
              \<or> map_option (\<lambda>(b, out). qb_state b) latestQuote \<noteq> Some ''UNPAID''
              \<or> map_option (\<lambda>(b, out). qb_observed_at b) latestQuote \<noteq> ev_evidence_at new
              \<or> map_option (\<lambda>(b, out). qb_quote_id b) latestQuote \<noteq> ef_operator_reference e
              \<or> (case latestQuote of None \<Rightarrow> None | Some (b, out) \<Rightarrow> qo_expiry out)
                  \<noteq> ef_operator_reference_expires_at e
              \<or> map_option px_snapshot_fingerprint latestProof \<noteq> ev_proof_state_fingerprint new
              \<or> ltN proofObservedAt (ev_evidence_at new)
              \<or> ltN (Some (ev_recorded_at new)) proofObservedAt)))"

text \<open>The checks \<open>..._sequence\<close>, \<open>..._shape\<close> and \<open>..._accounting_shape\<close>.\<close>

definition eventShapeCheck :: "event_row \<Rightarrow> bool" where
  "eventShapeCheck new \<longleftrightarrow>
     0 \<le> ev_sequence new \<and> ev_sequence new < 1024
     \<and> (ev_state new = ''dispatch_started'' \<and> ev_effect_id new \<noteq> None
          \<and> ev_evidence_kind new = None \<and> ev_evidence_at new = None
          \<and> ev_proof_state_fingerprint new = None
        \<or> ev_state new = ''pending'' \<and> ev_effect_id new \<noteq> None
          \<and> ev_evidence_kind new = Some ''operator_pending'' \<and> ev_evidence_at new \<noteq> None
          \<and> ev_proof_state_fingerprint new = None
        \<or> ev_state new = ''needs_attention'' \<and> ev_effect_id new \<noteq> None
          \<and> ev_evidence_kind new \<in> {Some ''transport_ambiguous'', Some ''operator_state_unknown'',
               Some ''operator_response_invalid''}
          \<and> ev_evidence_at new \<noteq> None \<and> ev_proof_state_fingerprint new = None
        \<or> ev_state new = ''consumed'' \<and> ev_effect_id new \<noteq> None
          \<and> ev_evidence_kind new \<in> {Some ''swap_succeeded'', Some ''melt_paid''}
          \<and> ev_evidence_at new \<noteq> None \<and> ev_proof_state_fingerprint new \<noteq> None
        \<or> ev_state new = ''released'' \<and> ev_effect_id new = None
          \<and> ev_evidence_kind new = Some ''pre_dispatch'' \<and> ev_evidence_at new = None
          \<and> ev_proof_state_fingerprint new = None
        \<or> ev_state new = ''released'' \<and> ev_effect_id new \<noteq> None
          \<and> ev_evidence_kind new \<in> {Some ''swap_rejected'', Some ''melt_unpaid_after_expiry''}
          \<and> ev_evidence_at new \<noteq> None \<and> ev_proof_state_fingerprint new \<noteq> None)
     \<and> (ev_state new = ''consumed'' \<longleftrightarrow> ev_journal_entry_id new \<noteq> None)"

text \<open>
  The foreign keys of an event.  A composite foreign key with a null column is satisfied
  (\<^verbatim>\<open>MATCH SIMPLE\<close>).
\<close>

definition eventForeignKeys :: "db \<Rightarrow> event_row \<Rightarrow> db_error + unit" where
  "eventForeignKeys db new =
     bindR (requireExists (\<lambda>r. rs_payment_id r = ev_payment_id new) (db_reservations db)) (\<lambda>_.
     bindR (case ev_effect_id new of None \<Rightarrow> Inr ()
            | Some effectId \<Rightarrow> requireExists (\<lambda>e. ef_effect_id e = effectId
                \<and> ef_payment_id e = ev_payment_id new) (db_effects db)) (\<lambda>_.
     bindR (case ev_proof_state_fingerprint new of None \<Rightarrow> Inr ()
            | Some f \<Rightarrow> requireExists (\<lambda>x. px_snapshot_fingerprint x = f
                \<and> px_payment_id x = ev_payment_id new) (db_proofObservations db)) (\<lambda>_.
     (case ev_journal_entry_id new of None \<Rightarrow> Inr ()
      | Some j \<Rightarrow> requireExists (\<lambda>r. jr_journal_entry_id r = j
          \<and> jr_payment_id r = ev_payment_id new) (db_journals db)))))"

text \<open>\<open>cashmesh_destroy_terminal_cashu_bearer_proof_custody\<close>\<close>

definition destroyTerminalCustody :: "event_row \<Rightarrow> db \<Rightarrow> db" where
  "destroyTerminalCustody new db =
    (if ev_state new \<in> {''consumed'', ''released''}
     then db\<lparr>db_custody := filter (\<lambda>c. cu_payment_id c \<noteq> ev_payment_id new) (db_custody db)\<rparr>
     else db)"

definition insertEventRow :: "db \<Rightarrow> event_row \<Rightarrow> db_error + db" where
  "insertEventRow db new =
     bindR (validateLatestMeltRelease db new) (\<lambda>_.
     bindR (validateReservationEvent db new) (\<lambda>_.
     bindR (checkRow (eventShapeCheck new)) (\<lambda>_.
     bindR (requireUnique ''cashu_proof_reservation_events_pkey'' ev_event_id (db_events db) new) (\<lambda>_.
     bindR (requireUnique ''cashu_proof_reservation_events_event_fingerprint_key''
              ev_event_fingerprint (db_events db) new) (\<lambda>_.
     bindR (requireUnique ''cashu_proof_reservation_events_payment_sequence_unique''
              (\<lambda>e. (ev_payment_id e, ev_sequence e)) (db_events db) new) (\<lambda>_.
     bindR (eventForeignKeys db new) (\<lambda>_.
     let inserted = destroyTerminalCustody new (db\<lparr>db_events := db_events db @ [new]\<rparr>);
         accounting = (if ev_state new \<noteq> ''consumed'' then []
                       else case findReservation db (ev_payment_id new) of
                              None \<Rightarrow> [] | Some r \<Rightarrow> [Payment_accounting_check (rs_invoice_id r)])
     in Inr (queue (accounting @ [Active_claims_check (ev_payment_id new)]) inserted))))))))"

text \<open>\<open>DELETE FROM cashu_active_..._claims WHERE payment_id = $1\<close>, a deferred check per row.\<close>

definition deleteProofClaims :: "string \<Rightarrow> db \<Rightarrow> db" where
  "deleteProofClaims pid db =
     queue (map (\<lambda>_. Active_claims_check pid)
              (filter (\<lambda>c. pc_payment_id c = pid) (db_proofClaims db)))
       (db\<lparr>db_proofClaims := filter (\<lambda>c. pc_payment_id c \<noteq> pid) (db_proofClaims db)\<rparr>)"

definition deleteInvoiceClaims :: "string \<Rightarrow> db \<Rightarrow> db" where
  "deleteInvoiceClaims pid db =
     queue (map (\<lambda>_. Active_claims_check pid)
              (filter (\<lambda>c. ic_payment_id c = pid) (db_invoiceClaims db)))
       (db\<lparr>db_invoiceClaims := filter (\<lambda>c. ic_payment_id c \<noteq> pid) (db_invoiceClaims db)\<rparr>)"

section \<open>Accounting\<close>

text \<open>\<open>merchant_invoice_payment_journals_account\<close>, \<open>..._time\<close> and \<open>..._amounts\<close>\<close>

definition journalCheck :: "journal_row \<Rightarrow> bool" where
  "journalCheck new \<longleftrightarrow> jr_settlement_mode new = ''immediate_conversion''
     \<and> jr_asset_account_kind new = ''settlement_asset''
     \<and> jr_asset_account_id new = Some ''stellar-testnet-usdc-circle''
     \<and> jr_schema_version new = 1
     \<and> 0 \<le> jr_accepted_at new \<and> jr_accepted_at new \<le> jr_effective_at new
     \<and> 0 < jr_gross_amount new \<and> 0 \<le> jr_fee_amount new \<and> jr_fee_amount new < jr_gross_amount new
     \<and> jr_net_amount new = jr_gross_amount new - jr_fee_amount new"

definition insertJournal :: "db \<Rightarrow> journal_row \<Rightarrow> db_error + db" where
  "insertJournal db new =
     bindR (checkRow (journalCheck new)) (\<lambda>_.
     bindR (requireUnique ''merchant_invoice_payment_journals_pkey'' jr_journal_entry_id
              (db_journals db) new) (\<lambda>_.
     bindR (requireUnique ''merchant_invoice_payment_journals_journal_fingerprint_key''
              jr_journal_fingerprint (db_journals db) new) (\<lambda>_.
     bindR (requireUnique ''merchant_invoice_payment_journals_invoice_id_key'' jr_invoice_id
              (db_journals db) new) (\<lambda>_.
     bindR (requireUnique ''merchant_invoice_payment_journals_payment_id_key'' jr_payment_id
              (db_journals db) new) (\<lambda>_.
     bindR (requireExists (\<lambda>i. ir_id i = jr_invoice_id new \<and> ir_merchant_id i = jr_merchant_id new)
              (db_invoices db)) (\<lambda>_.
     bindR (requireExists (\<lambda>r. rs_payment_id r = jr_payment_id new \<and> rs_invoice_id r = jr_invoice_id new
              \<and> rs_operator_id r = jr_operator_id new \<and> rs_mint_url r = jr_mint_url new)
              (db_reservations db)) (\<lambda>_.
     Inr (queue [Payment_accounting_check (jr_invoice_id new),
                 Journal_postings_check (jr_journal_entry_id new)]
            (db\<lparr>db_journals := db_journals db @ [new]\<rparr>)))))))))"

definition postingCheck :: "posting_row \<Rightarrow> bool" where
  "postingCheck new \<longleftrightarrow> 0 \<le> pg_position new \<and> pg_position new < 3
     \<and> pg_side new \<in> {''debit'', ''credit''}
     \<and> (pg_account_kind new \<in> {''operator_ecash'', ''settlement_asset'', ''merchant_payable''}
          \<and> pg_account_id new \<noteq> None
        \<or> pg_account_kind new = ''fee_revenue'' \<and> pg_account_id new = None)
     \<and> 0 < pg_amount new"

definition insertPosting :: "db \<Rightarrow> posting_row \<Rightarrow> db_error + db" where
  "insertPosting db new =
     bindR (checkRow (postingCheck new)) (\<lambda>_.
     bindR (requireUnique ''merchant_invoice_payment_postings_pkey''
              (\<lambda>p. (pg_journal_entry_id p, pg_position p)) (db_postings db) new) (\<lambda>_.
     bindR (requireExists (\<lambda>r. jr_journal_entry_id r = pg_journal_entry_id new) (db_journals db)) (\<lambda>_.
     Inr (queue [Journal_postings_check (pg_journal_entry_id new)]
            (db\<lparr>db_postings := db_postings db @ [new]\<rparr>)))))"

text \<open>
  \<open>UPDATE merchant_invoices SET state = 'paid', paid_at = $2 WHERE id = $1 AND state = 'open' AND
  paid_at IS NULL\<close> with \<open>cashmesh_guard_merchant_invoice_update\<close> and the check
  \<open>merchant_invoices_state\<close>; the second component is the number of rows.
\<close>

definition updateInvoicePaid :: "db \<Rightarrow> string \<Rightarrow> int \<Rightarrow> db_error + db \<times> nat" where
  "updateInvoicePaid db iid paidAt =
    (let hit = (\<lambda>i. ir_id i = iid \<and> ir_state i = ''open'' \<and> ir_paid_at i = None);
         rows = filter hit (db_invoices db)
     in bindR (checkRow (list_all (\<lambda>i. ir_created_at i \<le> paidAt \<and> paidAt < ir_expires_at i) rows)) (\<lambda>_.
        Inr (queue (concat (map (\<lambda>i. [Invoice_request_check (ir_id i),
                                       Payment_accounting_check (ir_id i)]) rows))
               (db\<lparr>db_invoices := map (\<lambda>i. if hit i
                   then i\<lparr>ir_state := ''paid'', ir_paid_at := Some paidAt\<rparr> else i)
                   (db_invoices db)\<rparr>), length rows)))"

end
