(* ===== verification/Commit.thy ===== *)
theory Commit
  imports Schema
begin

text \<open>
  The deferred constraint triggers of \<^verbatim>\<open>postgres-schema.ts\<close> and the end of a transaction.  A
  transaction is a function from the database to an error or to a new database and a result;
  \<open>withTransaction\<close> runs the queued triggers at its \<^verbatim>\<open>COMMIT\<close> and gives the old database up only
  when all of them pass.  Transactions are atomic here: the row locks the code takes
  (\<^verbatim>\<open>FOR UPDATE\<close>) are what makes them so in PostgreSQL.
\<close>

section \<open>Deferred triggers\<close>

text \<open>\<open>cashmesh_require_cashu_request_operator\<close> (of migration 10)\<close>

definition requestOperatorCheck :: "db \<Rightarrow> string \<Rightarrow> bool" where
  "requestOperatorCheck db iid =
    (case findFirst (\<lambda>r. rq_invoice_id r = iid) (db_requests db) of
       None \<Rightarrow> True
     | Some r \<Rightarrow> int (length (filter (\<lambda>rt. rt_invoice_id rt = iid) (db_routes db)))
                   = rq_operator_count r)"

text \<open>\<open>cashmesh_require_invoice_cashu_request\<close>\<close>

definition invoiceRequestCheck :: "db \<Rightarrow> string \<Rightarrow> bool" where
  "invoiceRequestCheck db iid \<longleftrightarrow>
     \<not> (list_ex (\<lambda>i. ir_id i = iid) (db_invoices db)
        \<and> \<not> list_ex (\<lambda>r. rq_invoice_id r = iid) (db_requests db))"

text \<open>The deferred foreign key \<open>invoice_creation_requests_invoice_fkey\<close>\<close>

definition creationInvoiceCheck :: "db \<Rightarrow> string \<Rightarrow> string \<Rightarrow> bool" where
  "creationInvoiceCheck db iid mid =
     list_ex (\<lambda>i. ir_id i = iid \<and> ir_merchant_id i = mid) (db_invoices db)"

text \<open>\<open>cashmesh_require_cashu_operator_effect_event\<close>\<close>

definition effectEventCheck :: "db \<Rightarrow> effect_row \<Rightarrow> bool" where
  "effectEventCheck db new =
     list_ex (\<lambda>e. ev_payment_id e = ef_payment_id new \<and> ev_sequence e = 0
        \<and> ev_state e = ''dispatch_started'' \<and> ev_effect_id e = Some (ef_effect_id new)
        \<and> ev_recorded_at e = ef_started_at new) (db_events db)"

text \<open>\<open>cashmesh_validate_cashu_active_claims\<close>\<close>

definition reservedProofCount :: "db \<Rightarrow> string \<Rightarrow> nat" where
  "reservedProofCount db pid = length (filter (\<lambda>p. pf_payment_id p = pid) (db_proofs db))"

definition joinedProofClaims :: "db \<Rightarrow> string \<Rightarrow> nat" where
  "joinedProofClaims db pid =
     length [(c, p). c \<leftarrow> db_proofClaims db, pc_payment_id c = pid, p \<leftarrow> db_proofs db,
       pf_payment_id p = pc_payment_id c \<and> pf_mint_url p = pc_mint_url c
       \<and> pf_proof_y p = pc_proof_y c]"

definition invoiceClaimCount :: "db \<Rightarrow> string \<Rightarrow> nat" where
  "invoiceClaimCount db pid = length (filter (\<lambda>c. ic_payment_id c = pid) (db_invoiceClaims db))"

definition activeClaimsCheck :: "db \<Rightarrow> string \<Rightarrow> bool" where
  "activeClaimsCheck db pid =
    (if \<not> list_ex (\<lambda>r. rs_payment_id r = pid) (db_reservations db) then True
     else
     let latest = (case latestState db pid of None \<Rightarrow> ''reserved'' | Some s \<Rightarrow> s);
         expected = reservedProofCount db pid;
         active = joinedProofClaims db pid;
         effectExists = (effectOf db pid \<noteq> None);
         claims = invoiceClaimCount db pid
     in \<not> (latest = ''released'' \<and> active \<noteq> 0 \<or> latest \<noteq> ''released'' \<and> active \<noteq> expected)
        \<and> \<not> (latest = ''released'' \<and> claims \<noteq> 0
             \<or> latest \<noteq> ''released'' \<and> effectExists \<and> claims \<noteq> 1
             \<or> latest \<noteq> ''released'' \<and> \<not> effectExists \<and> claims \<noteq> 0))"

text \<open>\<open>cashmesh_validate_merchant_payment_journal\<close>\<close>

definition postingsOf :: "db \<Rightarrow> string \<Rightarrow> posting_row list" where
  "postingsOf db jid = filter (\<lambda>p. pg_journal_entry_id p = jid) (db_postings db)"

definition rowSideTotal :: "string \<Rightarrow> posting_row list \<Rightarrow> int" where
  "rowSideTotal side ps = sum_list (map pg_amount (filter (\<lambda>p. pg_side p = side) ps))"

definition countRows :: "('r \<Rightarrow> bool) \<Rightarrow> 'r list \<Rightarrow> nat" where
  "countRows p rows = length (filter p rows)"

definition journalPostingsCheck :: "db \<Rightarrow> string \<Rightarrow> bool" where
  "journalPostingsCheck db jid =
    (case findFirst (\<lambda>r. jr_journal_entry_id r = jid) (db_journals db) of
       None \<Rightarrow> True
     | Some r \<Rightarrow>
       let ps = postingsOf db (jr_journal_entry_id r);
           positions = sort (map pg_position ps)
       in \<not> (length ps \<noteq> (if jr_fee_amount r = 0 then 2 else 3)
             \<or> hd positions \<noteq> 0
             \<or> last positions \<noteq> int (length ps) - 1
             \<or> countRows (\<lambda>p. pg_side p = ''debit'') ps \<noteq> 1
             \<or> rowSideTotal ''debit'' ps \<noteq> jr_gross_amount r
             \<or> rowSideTotal ''credit'' ps \<noteq> jr_gross_amount r
             \<or> countRows (\<lambda>p. pg_side p = ''debit'' \<and> pg_position p = 0
                  \<and> pg_account_kind p = jr_asset_account_kind r
                  \<and> pg_account_id p = jr_asset_account_id r \<and> pg_account_id p \<noteq> None
                  \<and> pg_amount p = jr_gross_amount r) ps \<noteq> 1
             \<or> countRows (\<lambda>p. pg_side p = ''credit'' \<and> pg_position p = 1
                  \<and> pg_account_kind p = ''merchant_payable''
                  \<and> pg_account_id p = Some (jr_merchant_id r)
                  \<and> pg_amount p = jr_net_amount r) ps \<noteq> 1
             \<or> countRows (\<lambda>p. pg_side p = ''credit'' \<and> pg_position p = 2
                  \<and> pg_account_kind p = ''fee_revenue'' \<and> pg_account_id p = None
                  \<and> pg_amount p = jr_fee_amount r) ps
                \<noteq> (if jr_fee_amount r = 0 then 0 else 1)))"

text \<open>\<open>cashmesh_validate_cashu_payment_accounting\<close>\<close>

definition accountingRouteMode :: "db \<Rightarrow> journal_row \<Rightarrow> string option" where
  "accountingRouteMode db j =
     map_option rt_mode (findFirst (\<lambda>rt. rt_invoice_id rt = jr_invoice_id j
       \<and> rt_operator_id rt = jr_operator_id j \<and> rt_mint_url rt = jr_mint_url j
       \<and> list_ex (\<lambda>q. rq_invoice_id q = rt_invoice_id rt) (db_requests db)) (db_routes db))"

definition paidQuoteExists :: "db \<Rightarrow> journal_row \<Rightarrow> effect_row \<Rightarrow> event_row \<Rightarrow> bool" where
  "paidQuoteExists db j effect consumed =
     list_ex (\<lambda>a. qa_payment_id a = jr_payment_id j \<and> qa_mint_url a = jr_mint_url j
       \<and> list_ex (\<lambda>out. qo_attempt_id out = qa_attempt_id a \<and> qo_outcome_kind out = ''quoted''
            \<and> qo_quote_id out = ef_operator_reference effect \<and> qo_quote_id out \<noteq> None
            \<and> qo_expiry out = ef_operator_reference_expires_at effect \<and> qo_expiry out \<noteq> None)
           (db_quoteOutcomes db)
       \<and> list_ex (\<lambda>b. qb_attempt_id b = qa_attempt_id a
            \<and> Some (qb_observed_at b) = ev_evidence_at consumed \<and> qb_state b = ''PAID'')
           (db_quoteObservations db)) (db_quoteAttempts db)"

definition paymentAccountingCheck :: "db \<Rightarrow> string \<Rightarrow> bool" where
  "paymentAccountingCheck db iid =
    (case (findInvoice db iid, findFirst (\<lambda>j. jr_invoice_id j = iid) (db_journals db)) of
       (Some i, Some j) \<Rightarrow>
         (case (findReservation db (jr_payment_id j), effectOf db (jr_payment_id j),
                findFirst (\<lambda>e. ev_payment_id e = jr_payment_id j \<and> ev_state e = ''consumed'')
                  (db_events db)) of
            (Some r, Some effect, Some consumed) \<Rightarrow>
              (case (findFirst (\<lambda>x. px_payment_id x = jr_payment_id j
                       \<and> Some (px_snapshot_fingerprint x) = ev_proof_state_fingerprint consumed)
                       (db_proofObservations db), accountingRouteMode db j) of
                 (Some x, Some routeMode) \<Rightarrow>
                   \<not> (ir_state i \<noteq> ''paid''
                      \<or> jr_invoice_id j \<noteq> ir_id i
                      \<or> jr_merchant_id j \<noteq> ir_merchant_id i
                      \<or> jr_gross_amount j \<noteq> ir_amount i
                      \<or> neqN (Some (jr_accepted_at j)) (ir_paid_at i)
                      \<or> jr_payment_id j \<noteq> rs_payment_id r
                      \<or> jr_invoice_id j \<noteq> rs_invoice_id r
                      \<or> jr_operator_id j \<noteq> rs_operator_id r
                      \<or> jr_mint_url j \<noteq> rs_mint_url r
                      \<or> jr_payment_id j \<noteq> ef_payment_id effect
                      \<or> neqN (Some (jr_journal_entry_id j)) (ev_journal_entry_id consumed)
                      \<or> jr_payment_id j \<noteq> ev_payment_id consumed
                      \<or> jr_accepted_at j \<noteq> px_observed_at x
                      \<or> jr_effective_at j \<noteq> ev_recorded_at consumed
                      \<or> jr_settlement_mode j \<noteq> routeMode
                      \<or> neqN (ev_evidence_kind consumed) (Some ''melt_paid'')
                      \<or> ef_effect_kind effect \<noteq> ''melt''
                      \<or> jr_settlement_mode j \<noteq> ''immediate_conversion''
                      \<or> \<not> paidQuoteExists db j effect consumed)
               | _ \<Rightarrow> False)
          | _ \<Rightarrow> False)
     | _ \<Rightarrow> False)"

text \<open>On \<open>merchant_invoices\<close> the same trigger returns early unless the new state is \<open>paid\<close>.\<close>

text \<open>\<open>cashmesh_validate_cashu_proof_state_observation\<close>\<close>

definition proofEntriesOf :: "db \<Rightarrow> string \<Rightarrow> proof_entry_row list" where
  "proofEntriesOf db f = filter (\<lambda>e. pe_snapshot_fingerprint e = f) (db_proofEntries db)"

definition spentIsTerminal :: "db \<Rightarrow> proof_observation_row \<Rightarrow> bool" where
  "spentIsTerminal db x =
     (\<not> list_ex (\<lambda>cur. list_ex (\<lambda>o'. px_payment_id o' = px_payment_id x
        \<and> px_snapshot_fingerprint o' \<noteq> px_snapshot_fingerprint x
        \<and> list_ex (\<lambda>oth. pe_proof_y oth = pe_proof_y cur
            \<and> (px_observed_at o' < px_observed_at x \<and> pe_state oth = ''SPENT''
                 \<and> pe_state cur \<noteq> ''SPENT''
               \<or> px_observed_at o' > px_observed_at x \<and> pe_state cur = ''SPENT''
                 \<and> pe_state oth \<noteq> ''SPENT''))
            (proofEntriesOf db (px_snapshot_fingerprint o'))) (db_proofObservations db))
        (proofEntriesOf db (px_snapshot_fingerprint x)))"

definition proofObservationCheck :: "db \<Rightarrow> string \<Rightarrow> bool" where
  "proofObservationCheck db f =
    (case findFirst (\<lambda>x. px_snapshot_fingerprint x = f) (db_proofObservations db) of
       None \<Rightarrow> True
     | Some x \<Rightarrow>
     case findReservation db (px_payment_id x) of
       None \<Rightarrow> False
     | Some r \<Rightarrow>
       let entries = proofEntriesOf db f;
           positions = sort (map pe_position entries)
       in \<not> (rs_operator_id r \<noteq> px_operator_id x \<or> rs_mint_url r \<noteq> px_mint_url x
             \<or> rs_unit r \<noteq> px_unit x \<or> px_observed_at x < rs_reserved_at r)
          \<and> entries \<noteq> [] \<and> length entries = reservedProofCount db (px_payment_id x)
          \<and> hd positions = 0 \<and> last positions = int (length entries) - 1
          \<and> list_all (\<lambda>p. list_ex (\<lambda>e. pe_payment_id e = px_payment_id x
               \<and> pe_proof_y e = pf_proof_y p) entries)
              (filter (\<lambda>p. pf_payment_id p = px_payment_id x) (db_proofs db))
          \<and> spentIsTerminal db x)"

text \<open>\<open>cashmesh_require_stellar_quote_observation\<close>\<close>

definition quoteOutcomeCheck :: "db \<Rightarrow> string \<Rightarrow> bool" where
  "quoteOutcomeCheck db aid =
    (case findFirst (\<lambda>out. qo_attempt_id out = aid) (db_quoteOutcomes db) of
       None \<Rightarrow> True
     | Some out \<Rightarrow>
       let observations = sort_key qb_observed_at
             (filter (\<lambda>b. qb_attempt_id b = aid) (db_quoteObservations db))
       in \<not> (qo_outcome_kind out = ''ambiguous'' \<and> observations \<noteq> [])
          \<and> \<not> (qo_outcome_kind out = ''quoted''
               \<and> (case observations of [] \<Rightarrow> True
                  | b # _ \<Rightarrow> qb_observed_at b \<noteq> qo_recorded_at out \<or> qb_state b \<noteq> ''UNPAID'')))"

text \<open>\<open>cashmesh_require_cashu_keyset_observation_entry\<close>\<close>

definition keysetObservationCheck :: "db \<Rightarrow> string \<Rightarrow> bool" where
  "keysetObservationCheck db f \<longleftrightarrow>
     \<not> (list_ex (\<lambda>o'. ko_snapshot_fingerprint o' = f) (db_keysetObservations db)
        \<and> \<not> list_ex (\<lambda>e. ke_snapshot_fingerprint e = f) (db_keysetEntries db))"

text \<open>\<open>cashmesh_validate_cashu_proof_reservation\<close>\<close>

definition keysetObserved :: "db \<Rightarrow> reservation_row \<Rightarrow> string \<Rightarrow> bool" where
  "keysetObserved db r kid \<longleftrightarrow>
     list_ex (\<lambda>o'. ko_operator_id o' = rs_operator_id r \<and> ko_mint_url o' = rs_mint_url r
       \<and> ko_unit o' = rs_unit r \<and> ko_observed_at o' = rs_keyset_observed_at r
       \<and> list_ex (\<lambda>e. ke_snapshot_fingerprint e = ko_snapshot_fingerprint o' \<and> ke_keyset_id e = kid)
           (db_keysetEntries db)) (db_keysetObservations db)"

definition proofsOf :: "db \<Rightarrow> string \<Rightarrow> proof_row list" where
  "proofsOf db pid = filter (\<lambda>p. pf_payment_id p = pid) (db_proofs db)"

definition reservationCheck :: "db \<Rightarrow> string \<Rightarrow> bool" where
  "reservationCheck db pid =
    (case findReservation db pid of
       None \<Rightarrow> True
     | Some r \<Rightarrow>
     case findInvoice db (rs_invoice_id r) of
       None \<Rightarrow> False
     | Some i \<Rightarrow>
       let proofs = proofsOf db pid
       in \<not> (ir_state i \<noteq> ''open'' \<or> ir_unit i \<noteq> rs_unit r
             \<or> rs_reserved_at r < ir_created_at i \<or> rs_reserved_at r \<ge> ir_expires_at i)
          \<and> \<not> (proofs = [] \<or> length proofs > 128
               \<or> last (sort (map pf_position proofs)) \<noteq> int (length proofs) - 1
               \<or> sum_list (map pf_amount proofs) \<noteq> rs_gross_amount r)
          \<and> list_all (\<lambda>p. keysetObserved db r (pf_keyset_id p)) proofs)"

section \<open>Commit\<close>

fun deferredHolds :: "db \<Rightarrow> deferred_check \<Rightarrow> bool" where
  "deferredHolds db (Request_operator_check iid) = requestOperatorCheck db iid"
| "deferredHolds db (Invoice_request_check iid) = invoiceRequestCheck db iid"
| "deferredHolds db (Creation_invoice_check iid mid) = creationInvoiceCheck db iid mid"
| "deferredHolds db (Effect_event_check new) = effectEventCheck db new"
| "deferredHolds db (Active_claims_check pid) = activeClaimsCheck db pid"
| "deferredHolds db (Journal_postings_check jid) = journalPostingsCheck db jid"
| "deferredHolds db (Payment_accounting_check iid) = paymentAccountingCheck db iid"
| "deferredHolds db (Proof_observation_check f) = proofObservationCheck db f"
| "deferredHolds db (Quote_outcome_check aid) = quoteOutcomeCheck db aid"
| "deferredHolds db (Keyset_observation_check f) = keysetObservationCheck db f"
| "deferredHolds db (Reservation_check pid) = reservationCheck db pid"

definition commit :: "db \<Rightarrow> db_error + db" where
  "commit db =
     (if list_all (deferredHolds db) (db_deferred db) then Inr (db\<lparr>db_deferred := []\<rparr>)
      else Inl Check_violation)"

text \<open>An error in the action or at the commit rolls the transaction back.\<close>

definition withTransaction :: "(db \<Rightarrow> 'c failure + db \<times> 'a) \<Rightarrow> db \<Rightarrow> 'c failure + db \<times> 'a" where
  "withTransaction action db =
     bindR (action db) (\<lambda>(after, result).
     bindR (liftDb (commit after)) (\<lambda>committed. Inr (committed, result)))"

lemma commit_iff [simp]:
  "commit db = Inr db' \<longleftrightarrow>
     (\<forall>c \<in> set (db_deferred db). deferredHolds db c) \<and> db' = db\<lparr>db_deferred := []\<rparr>"
  by (auto simp: commit_def list_all_iff)

lemma withTransaction_iff:
  "withTransaction action db = Inr (db', v) \<longleftrightarrow>
     (\<exists>after. action db = Inr (after, v) \<and> (\<forall>c \<in> set (db_deferred after). deferredHolds after c)
        \<and> db' = after\<lparr>db_deferred := []\<rparr>)"
  by (auto simp: withTransaction_def result_simps)

end
