(* ===== verification/Invoice_Store.thy ===== *)
theory Invoice_Store
  imports Payment_Request Commit
begin

text \<open>
  \<^verbatim>\<open>services/acquirer-api/src/postgres-invoice-repository.ts\<close> (interface
  \<^verbatim>\<open>invoice-repository.ts\<close>): idempotent issuance of invoices with their payment request.  What
  is stored is never trusted: the request is rebuilt from its rows through the same constructor
  and compared with what was stored, including the fingerprint of the whole route set.
\<close>

section \<open>Records, errors, text of enumerations\<close>

datatype invoice_repository_error =
    IR_idempotency_conflict
  | IR_invalid_record
  | IR_invoice_id_conflict
  | IR_storage_unavailable

record issued_invoice =
  ii_cashuPaymentRequest :: payment_request
  ii_invoice :: invoice

record create_invoice_record =
  cir_cashuPaymentRequest :: payment_request
  cir_idempotencyKey :: string
  cir_invoice :: invoice
  cir_requestFingerprint :: string
  cir_settlementDestination :: string

record create_invoice_result = issued_invoice +
  cir_replayed :: bool

record find_creation_record =
  fcr_idempotencyKey :: string
  fcr_merchantId :: string
  fcr_requestFingerprint :: string

text \<open>\<open>StoredCashuPaymentRequestRow\<close>: null columns where the left join found no request.\<close>

record stored_request =
  sr_cashu_schema_version :: "int option"
  sr_encoded_request :: "string option"
  sr_encoding :: "string option"
  sr_issued_at :: "int option"
  sr_mint_policy :: "string option"
  sr_operator_count :: "int option"
  sr_route_set_fingerprint :: "string option"
  sr_transport_url :: "string option"

definition storedRequest :: "request_row option \<Rightarrow> stored_request" where
  "storedRequest r =
     \<lparr>sr_cashu_schema_version = map_option rq_schema_version r,
      sr_encoded_request = map_option rq_encoded_request r,
      sr_encoding = map_option rq_encoding r, sr_issued_at = map_option rq_issued_at r,
      sr_mint_policy = map_option rq_mint_policy r,
      sr_operator_count = map_option rq_operator_count r,
      sr_route_set_fingerprint = map_option rq_route_set_fingerprint r,
      sr_transport_url = map_option rq_transport_url r\<rparr>"

fun showMode :: "settlement_mode \<Rightarrow> string" where
  "showMode Trusted_hold = ''trusted_hold''"
| "showMode Immediate_conversion = ''immediate_conversion''"
| "showMode (Other_mode s) = s"

fun showTier :: "operator_tier \<Rightarrow> string" where
  "showTier Trusted = ''trusted''"
| "showTier Convertible = ''convertible''"
| "showTier Unlisted = ''unlisted''"
| "showTier (Other_tier s) = s"

fun showReason :: "policy_reason \<Rightarrow> string" where
  "showReason Trusted_operator = ''trusted_operator''"
| "showReason Conversion_required = ''conversion_required''"
| "showReason Operator_not_accepted = ''operator_not_accepted''"

fun showPolicy :: "mint_policy \<Rightarrow> string" where
  "showPolicy Strict = ''strict''"
| "showPolicy Advisory = ''advisory''"
| "showPolicy (Other_policy s) = s"

fun showInvoiceState :: "invoice_state \<Rightarrow> string" where
  "showInvoiceState Open = ''open''"
| "showInvoiceState (Paid t p) = ''paid''"
| "showInvoiceState (Expired t) = ''expired''"
| "showInvoiceState (Cancelled t) = ''cancelled''"

text \<open>The guards \<open>isOperatorTier\<close> and \<open>isSettlementMode\<close>, with the value they let through.\<close>

definition storedTier :: "string \<Rightarrow> operator_tier option" where
  "storedTier s = (if s = ''trusted'' then Some Trusted
     else if s = ''convertible'' then Some Convertible else None)"

definition storedMode :: "string \<Rightarrow> settlement_mode option" where
  "storedMode s = (if s = ''trusted_hold'' then Some Trusted_hold
     else if s = ''immediate_conversion'' then Some Immediate_conversion else None)"

section \<open>Rebuilding a stored request\<close>

definition routeJson :: "string \<Rightarrow> nat \<Rightarrow> accepted_route \<Rightarrow> json" where
  "routeJson settlementDestination position r =
     JObj [(''mintUrl'', JStr (ar_mintUrl r)), (''mode'', JStr (showMode (ar_mode r))),
       (''operatorId'', JStr (ar_operatorId r)), (''position'', JNum (int position)),
       (''reason'', JStr (showReason (ar_reason r))),
       (''settlementDestination'', JStr settlementDestination),
       (''tier'', JStr (showTier (ar_tier r)))]"

definition createCashuPaymentRequestRouteSetFingerprint ::
  "cashu_env \<Rightarrow> string \<Rightarrow> payment_request \<Rightarrow> string \<Rightarrow> string" where
  "createCashuPaymentRequestRouteSetFingerprint env ownerId request settlementDestination =
     env_sha256 env (JObj
       [(''amount'', JNum (preq_amount request)),
        (''encodedRequest'', JStr (preq_encodedRequest request)),
        (''encoding'', JStr (preq_encoding request)),
        (''expiresAt'', JNum (preq_expiresAt request)),
        (''invoiceId'', JStr (preq_invoiceId request)),
        (''issuedAt'', JNum (preq_issuedAt request)),
        (''merchantId'', JStr ownerId),
        (''mintPolicy'', JStr (showPolicy (preq_mintPolicy request))),
        (''operators'', JArr (map (\<lambda>(position, r). routeJson settlementDestination position r)
            (List.enumerate 0 (preq_operators request)))),
        (''schemaVersion'', JNum (preq_schemaVersion request)),
        (''transportUrl'', JStr (preq_transportUrl request)),
        (''unit'', JStr (preq_unit request))])"

definition sameOperatorRoute :: "route_row \<Rightarrow> accepted_route option \<Rightarrow> bool" where
  "sameOperatorRoute row route =
    (case route of None \<Rightarrow> False
     | Some r \<Rightarrow> rt_mint_url row = ar_mintUrl r \<and> rt_mode row = showMode (ar_mode r)
         \<and> rt_operator_id row = ar_operatorId r \<and> rt_reason row = showReason (ar_reason r)
         \<and> rt_tier row = showTier (ar_tier r))"

definition nthOpt :: "'a list \<Rightarrow> nat \<Rightarrow> 'a option" where
  "nthOpt xs n = (if n < length xs then Some (xs ! n) else None)"

definition configuredRoute :: "nat \<times> route_row \<Rightarrow> invoice_repository_error + operator_route" where
  "configuredRoute = (\<lambda>(position, operator).
     if rt_position operator \<noteq> int position then Inl IR_invalid_record
     else case (storedTier (rt_tier operator), storedMode (rt_mode operator)) of
       (Some tier, Some mode) \<Rightarrow>
         bindR (catchR (\<lambda>_. IR_invalid_record) (identifierOf (rt_operator_id operator))) (\<lambda>operatorId.
         Inr \<lparr>or_mintUrl = rt_mint_url operator, or_operatorId = operatorId,
              or_requestedMode = Some mode, or_tier = tier\<rparr>)
     | _ \<Rightarrow> Inl IR_invalid_record)"

definition reconstructStoredCashuPaymentRequest ::
  "cashu_env \<Rightarrow> stored_request \<Rightarrow> route_row list \<Rightarrow> invoice
     \<Rightarrow> invoice_repository_error + payment_request" where
  "reconstructStoredCashuPaymentRequest env row operatorRows invoice0 =
    (case (sr_encoded_request row, sr_issued_at row, sr_route_set_fingerprint row, sr_transport_url row) of
       (Some encodedRequest, Some storedIssuedAt, Some routeSetFingerprint, Some transportUrl) \<Rightarrow>
         if sr_cashu_schema_version row \<noteq> Some 1 \<or> sr_encoding row \<noteq> Some ''creqA''
            \<or> sr_mint_policy row \<noteq> Some ''strict''
            \<or> sr_operator_count row \<noteq> Some (int (length operatorRows)) \<or> operatorRows = []
         then Inl IR_invalid_record
         else
         bindR (readBigint IR_invalid_record storedIssuedAt) (\<lambda>issuedAt.
         if issuedAt \<noteq> inv_createdAt invoice0 then Inl IR_invalid_record
         else
         bindR (catchR (\<lambda>_. IR_invalid_record)
                  (cashuStellarSettlementDestination (rt_settlement_destination (hd operatorRows))))
           (\<lambda>settlementDestination.
         if \<not> list_all (\<lambda>operator. rt_settlement_destination operator = settlementDestination)
                operatorRows
         then Inl IR_invalid_record
         else
         bindR (mapR configuredRoute (List.enumerate 0 operatorRows)) (\<lambda>configuredRoutes.
         bindR (catchR (\<lambda>_. IR_invalid_record)
                  (createCashuPaymentRequestV1 env
                     \<lparr>io_mintPolicy = Some Strict, io_operators = configuredRoutes,
                      io_transportUrl = transportUrl, pri_invoice = invoice0,
                      pri_issuedAt = issuedAt\<rparr>)) (\<lambda>reconstructed.
         if preq_encodedRequest reconstructed \<noteq> encodedRequest
            \<or> preq_transportUrl reconstructed \<noteq> transportUrl
            \<or> routeSetFingerprint \<noteq> createCashuPaymentRequestRouteSetFingerprint env
                 (inv_merchantId invoice0) reconstructed settlementDestination
            \<or> \<not> list_all (\<lambda>(position, operator).
                  sameOperatorRoute operator (nthOpt (preq_operators reconstructed) position))
                (List.enumerate 0 operatorRows)
         then Inl IR_invalid_record
         else Inr reconstructed))))
     | _ \<Rightarrow> Inl IR_invalid_record)"

definition mapInvoiceRow :: "invoice_row \<Rightarrow> invoice_repository_error + invoice" where
  "mapInvoiceRow row =
    (if ir_schema_version row \<noteq> 1 \<or> ir_unit row \<noteq> ''usdc'' then Inl IR_invalid_record
     else
     bindR (readBigint IR_invalid_record (ir_created_at row)) (\<lambda>createdAt.
     bindR (readBigint IR_invalid_record (ir_expires_at row)) (\<lambda>expiresAt.
     bindR (case ir_paid_at row of None \<Rightarrow> Inr None
            | Some t \<Rightarrow> bindR (readBigint IR_invalid_record t) (\<lambda>u. Inr (Some u))) (\<lambda>paidAt.
     if \<not> (ir_state row = ''open'' \<and> paidAt = None
           \<or> ir_state row = ''paid''
             \<and> (case paidAt of None \<Rightarrow> False | Some t \<Rightarrow> createdAt \<le> t \<and> t < expiresAt))
     then Inl IR_invalid_record
     else
     bindR (readBigint IR_invalid_record (ir_amount row)) (\<lambda>amount.
     bindR (catchR (\<lambda>_. IR_invalid_record) (identifierOf (ir_id row))) (\<lambda>iid.
     bindR (catchR (\<lambda>_. IR_invalid_record) (identifierOf (ir_merchant_id row))) (\<lambda>mid.
     catchR (\<lambda>_. IR_invalid_record)
       (createInvoiceV1 \<lparr>inv_amount = amount, inv_createdAt = createdAt,
          inv_expiresAt = expiresAt, inv_id = iid, inv_merchantId = mid\<rparr>))))))))"

definition routesOf :: "db \<Rightarrow> string \<Rightarrow> route_row list" where
  "routesOf db iid = sort_key rt_position (filter (\<lambda>r. rt_invoice_id r = iid) (db_routes db))"

text \<open>The left join of an invoice row with its request.\<close>

definition joinedRequest :: "db \<Rightarrow> invoice_row \<Rightarrow> request_row option" where
  "joinedRequest db i =
     findFirst (\<lambda>r. rq_invoice_id r = ir_id i \<and> rq_merchant_id r = ir_merchant_id i) (db_requests db)"

definition mapIssuedInvoice ::
  "cashu_env \<Rightarrow> db \<Rightarrow> invoice_row \<Rightarrow> invoice_repository_error + issued_invoice" where
  "mapIssuedInvoice env db row =
     bindR (mapInvoiceRow row) (\<lambda>i.
     bindR (reconstructStoredCashuPaymentRequest env (storedRequest (joinedRequest db row))
              (routesOf db (inv_id i)) i) (\<lambda>request.
     Inr \<lparr>ii_cashuPaymentRequest = request, ii_invoice = i\<rparr>))"

section \<open>Lookups\<close>

definition findOpenInvoice ::
  "cashu_env \<Rightarrow> db \<Rightarrow> string \<Rightarrow> string \<Rightarrow> invoice_repository_error + issued_invoice option" where
  "findOpenInvoice env db ownerId requestedInvoiceId =
    (case findFirst (\<lambda>i. ir_merchant_id i = ownerId \<and> ir_id i = requestedInvoiceId
            \<and> ir_state i = ''open'') (db_invoices db) of
       None \<Rightarrow> Inr None
     | Some row \<Rightarrow> bindR (mapIssuedInvoice env db row) (\<lambda>i. Inr (Some i)))"

definition findOpenInvoiceById ::
  "cashu_env \<Rightarrow> db \<Rightarrow> string \<Rightarrow> invoice_repository_error + issued_invoice option" where
  "findOpenInvoiceById env db requestedInvoiceId =
    (case findFirst (\<lambda>i. ir_id i = requestedInvoiceId \<and> ir_state i = ''open'') (db_invoices db) of
       None \<Rightarrow> Inr None
     | Some row \<Rightarrow> bindR (mapIssuedInvoice env db row) (\<lambda>i. Inr (Some i)))"

text \<open>The join on the creation row, which its primary key makes unique.\<close>

definition findCreationRow :: "db \<Rightarrow> string \<Rightarrow> string \<Rightarrow> (creation_row \<times> invoice_row) option" where
  "findCreationRow db ownerId requestKey =
    (case findFirst (\<lambda>c. cr_merchant_id c = ownerId \<and> cr_idempotency_key c = requestKey)
            (db_creations db) of
       None \<Rightarrow> None
     | Some c \<Rightarrow> map_option (Pair c)
         (findFirst (\<lambda>i. ir_id i = cr_invoice_id c \<and> ir_merchant_id i = cr_merchant_id c)
            (db_invoices db)))"

definition findInvoiceCreation ::
  "cashu_env \<Rightarrow> db \<Rightarrow> find_creation_record \<Rightarrow> invoice_repository_error + issued_invoice option" where
  "findInvoiceCreation env db input =
    (case findCreationRow db (fcr_merchantId input) (fcr_idempotencyKey input) of
       None \<Rightarrow> Inr None
     | Some (c, row) \<Rightarrow>
         if cr_request_fingerprint c \<noteq> fcr_requestFingerprint input
         then Inl IR_idempotency_conflict
         else bindR (mapIssuedInvoice env db row) (\<lambda>i. Inr (Some i)))"

section \<open>Issuance\<close>

definition validateCashuPaymentRequest ::
  "cashu_env \<Rightarrow> invoice \<Rightarrow> payment_request \<Rightarrow> invoice_repository_error + payment_request" where
  "validateCashuPaymentRequest env invoice0 request =
    (if preq_issuedAt request \<noteq> inv_createdAt invoice0 then Inl IR_invalid_record
     else
     bindR (mapR (\<lambda>route. catchR (\<lambda>_. IR_invalid_record)
              (bindR (identifierOf (ar_operatorId route)) (\<lambda>_. Inr (routeInput route))))
              (preq_operators request)) (\<lambda>operators.
     bindR (catchR (\<lambda>_. IR_invalid_record)
              (createCashuPaymentRequestV1 env
                 \<lparr>io_mintPolicy = Some (preq_mintPolicy request), io_operators = operators,
                  io_transportUrl = preq_transportUrl request, pri_invoice = invoice0,
                  pri_issuedAt = preq_issuedAt request\<rparr>)) (\<lambda>reconstructed.
     if request \<noteq> reconstructed then Inl IR_invalid_record else Inr reconstructed)))"

definition insertInvoiceRow :: "db \<Rightarrow> invoice_row \<Rightarrow> db_error + db" where
  "insertInvoiceRow db new =
     bindR (checkRow (ir_state new = ''open'' \<and> ir_paid_at new = None)) (\<lambda>_.
     bindR (requireUnique ''merchant_invoices_pkey'' ir_id (db_invoices db) new) (\<lambda>_.
     Inr (queue [Invoice_request_check (ir_id new)]
            (db\<lparr>db_invoices := db_invoices db @ [new]\<rparr>))))"

definition insertRequestRow :: "db \<Rightarrow> request_row \<Rightarrow> db_error + db" where
  "insertRequestRow db new =
     bindR (requireUnique ''invoice_cashu_requests_pkey'' rq_invoice_id (db_requests db) new) (\<lambda>_.
     bindR (requireExists (\<lambda>i. ir_id i = rq_invoice_id new \<and> ir_merchant_id i = rq_merchant_id new)
              (db_invoices db)) (\<lambda>_.
     Inr (queue [Request_operator_check (rq_invoice_id new)]
            (db\<lparr>db_requests := db_requests db @ [new]\<rparr>))))"

text \<open>\<open>invoice_cashu_request_operators_policy\<close>\<close>

definition routePolicyCheck :: "route_row \<Rightarrow> bool" where
  "routePolicyCheck new \<longleftrightarrow> 0 \<le> rt_position new \<and> rt_position new < 16 \<and>
     (rt_tier new = ''trusted'' \<and> rt_reason new = ''trusted_operator''
        \<and> rt_mode new \<in> {''trusted_hold'', ''immediate_conversion''}
      \<or> rt_tier new = ''convertible'' \<and> rt_reason new = ''conversion_required''
        \<and> rt_mode new = ''immediate_conversion'')"

definition insertRouteRow :: "db \<Rightarrow> route_row \<Rightarrow> db_error + db" where
  "insertRouteRow db new =
     bindR (checkRow (routePolicyCheck new)) (\<lambda>_.
     bindR (requireUnique ''invoice_cashu_request_operators_pkey''
              (\<lambda>r. (rt_invoice_id r, rt_position r)) (db_routes db) new) (\<lambda>_.
     bindR (requireUnique ''invoice_cashu_request_operators_operator_unique''
              (\<lambda>r. (rt_invoice_id r, rt_operator_id r)) (db_routes db) new) (\<lambda>_.
     bindR (requireUnique ''invoice_cashu_request_operators_mint_unique''
              (\<lambda>r. (rt_invoice_id r, rt_mint_url r)) (db_routes db) new) (\<lambda>_.
     bindR (requireExists (\<lambda>q. rq_invoice_id q = rt_invoice_id new
              \<and> rq_merchant_id q = rt_merchant_id new) (db_requests db)) (\<lambda>_.
     Inr (queue [Request_operator_check (rt_invoice_id new)]
            (db\<lparr>db_routes := db_routes db @ [new]\<rparr>)))))))"

definition routeRowOf :: "invoice \<Rightarrow> string \<Rightarrow> nat \<Rightarrow> accepted_route \<Rightarrow> route_row" where
  "routeRowOf invoice0 settlementDestination position route =
     \<lparr>rt_invoice_id = inv_id invoice0, rt_merchant_id = inv_merchantId invoice0,
      rt_position = int position, rt_operator_id = ar_operatorId route,
      rt_mint_url = ar_mintUrl route, rt_mode = showMode (ar_mode route),
      rt_tier = showTier (ar_tier route), rt_reason = showReason (ar_reason route),
      rt_settlement_destination = settlementDestination\<rparr>"

fun insertRouteRows :: "db \<Rightarrow> route_row list \<Rightarrow> db_error + db" where
  "insertRouteRows db [] = Inr db"
| "insertRouteRows db (row # rows) =
     bindR (insertRouteRow db row) (\<lambda>after. insertRouteRows after rows)"

definition requestRowOf :: "cashu_env \<Rightarrow> invoice \<Rightarrow> payment_request \<Rightarrow> string \<Rightarrow> request_row" where
  "requestRowOf env invoice0 request settlementDestination =
     \<lparr>rq_invoice_id = inv_id invoice0, rq_merchant_id = inv_merchantId invoice0,
      rq_schema_version = preq_schemaVersion request,
      rq_encoded_request = preq_encodedRequest request, rq_encoding = preq_encoding request,
      rq_issued_at = preq_issuedAt request, rq_mint_policy = showPolicy (preq_mintPolicy request),
      rq_operator_count = int (length (preq_operators request)),
      rq_route_set_fingerprint = createCashuPaymentRequestRouteSetFingerprint env
        (inv_merchantId invoice0) request settlementDestination,
      rq_transport_url = preq_transportUrl request\<rparr>"

definition insertCashuPaymentRequest ::
  "cashu_env \<Rightarrow> db \<Rightarrow> invoice \<Rightarrow> payment_request \<Rightarrow> string \<Rightarrow> db_error + db" where
  "insertCashuPaymentRequest env db invoice0 request settlementDestination =
     bindR (insertRequestRow db (requestRowOf env invoice0 request settlementDestination)) (\<lambda>after.
     insertRouteRows after
       (map (\<lambda>(position, route). routeRowOf invoice0 settlementDestination position route)
          (List.enumerate 0 (preq_operators request))))"

text \<open>
  The insert of the idempotency key with \<^verbatim>\<open>ON CONFLICT (merchant_id, idempotency_key) DO NOTHING\<close>;
  \<open>None\<close> when the key exists.
\<close>

definition insertCreation :: "db \<Rightarrow> creation_row \<Rightarrow> db_error + db option" where
  "insertCreation db new =
    (if list_ex (\<lambda>c. cr_merchant_id c = cr_merchant_id new
          \<and> cr_idempotency_key c = cr_idempotency_key new) (db_creations db)
     then Inr None
     else
     bindR (requireUnique ''invoice_creation_requests_invoice_unique'' cr_invoice_id
              (db_creations db) new) (\<lambda>_.
     Inr (Some (queue [Creation_invoice_check (cr_invoice_id new) (cr_merchant_id new)]
                 (db\<lparr>db_creations := db_creations db @ [new]\<rparr>)))))"

definition issuedResult :: "issued_invoice \<Rightarrow> bool \<Rightarrow> create_invoice_result" where
  "issuedResult i replayed =
     \<lparr>ii_cashuPaymentRequest = ii_cashuPaymentRequest i, ii_invoice = ii_invoice i,
      cir_replayed = replayed\<rparr>"

definition readReplay ::
  "cashu_env \<Rightarrow> db \<Rightarrow> create_invoice_record \<Rightarrow> invoice_repository_error failure + create_invoice_result" where
  "readReplay env db input =
    (case findCreationRow db (inv_merchantId (cir_invoice input)) (cir_idempotencyKey input) of
       None \<Rightarrow> failWith IR_invalid_record
     | Some (c, row) \<Rightarrow>
         if cr_request_fingerprint c \<noteq> cir_requestFingerprint input
         then failWith IR_idempotency_conflict
         else bindR (catchR Repository_failure (mapIssuedInvoice env db row)) (\<lambda>i.
              Inr (issuedResult i True)))"

definition invoiceRowOf :: "invoice \<Rightarrow> invoice_row" where
  "invoiceRowOf i =
     \<lparr>ir_id = inv_id i, ir_merchant_id = inv_merchantId i, ir_schema_version = inv_schemaVersion i,
      ir_unit = inv_unit i, ir_amount = inv_amount i, ir_created_at = inv_createdAt i,
      ir_expires_at = inv_expiresAt i, ir_state = showInvoiceState (inv_state i),
      ir_paid_at = None\<rparr>"

definition createOpenInvoiceIn ::
  "cashu_env \<Rightarrow> create_invoice_record \<Rightarrow> payment_request \<Rightarrow> string \<Rightarrow> db
     \<Rightarrow> invoice_repository_error failure + db \<times> create_invoice_result" where
  "createOpenInvoiceIn env input request settlementDestination db =
     bindR (liftDb (insertCreation db
              \<lparr>cr_merchant_id = inv_merchantId (cir_invoice input),
               cr_idempotency_key = cir_idempotencyKey input,
               cr_request_fingerprint = cir_requestFingerprint input,
               cr_invoice_id = inv_id (cir_invoice input),
               cr_created_at = inv_createdAt (cir_invoice input)\<rparr>)) (\<lambda>reserved.
     case reserved of
       None \<Rightarrow> bindR (readReplay env db input) (\<lambda>r. Inr (db, r))
     | Some db1 \<Rightarrow>
         bindR (liftDb (insertInvoiceRow db1 (invoiceRowOf (cir_invoice input)))) (\<lambda>db2.
         bindR (liftDb (insertCashuPaymentRequest env db2 (cir_invoice input) request
                  settlementDestination)) (\<lambda>db3.
         Inr (db3, \<lparr>ii_cashuPaymentRequest = request, ii_invoice = cir_invoice input,
                    cir_replayed = False\<rparr>))))"

definition mapInvoiceStorageError :: "invoice_repository_error failure \<Rightarrow> invoice_repository_error" where
  "mapInvoiceStorageError f = (case f of
       Repository_failure c \<Rightarrow> c
     | Database_failure (Unique_violation name) \<Rightarrow>
         if name \<in> {''merchant_invoices_pkey'', ''merchant_invoices_identity_unique'',
              ''invoice_creation_requests_invoice_unique'', ''invoice_cashu_requests_pkey'',
              ''invoice_cashu_requests_identity_unique''}
         then IR_invoice_id_conflict else IR_storage_unavailable
     | _ \<Rightarrow> IR_storage_unavailable)"

definition createOpenInvoice ::
  "cashu_env \<Rightarrow> create_invoice_record \<Rightarrow> db \<Rightarrow> invoice_repository_error + db \<times> create_invoice_result" where
  "createOpenInvoice env input db =
     catchR mapInvoiceStorageError (
     bindR (catchR Repository_failure
              (validateCashuPaymentRequest env (cir_invoice input) (cir_cashuPaymentRequest input)))
       (\<lambda>request.
     bindR (catchR (\<lambda>_. Repository_failure IR_invalid_record)
              (cashuStellarSettlementDestination (cir_settlementDestination input)))
       (\<lambda>settlementDestination.
     withTransaction (createOpenInvoiceIn env input request settlementDestination) db)))"

section \<open>A stored request is rebuilt exactly\<close>

lemma stored_show:
  "routePolicy a \<Longrightarrow> storedMode (showMode (ar_mode a)) = Some (ar_mode a)"
  "routePolicy a \<Longrightarrow> storedTier (showTier (ar_tier a)) = Some (ar_tier a)"
  by (auto simp: routePolicy_def storedMode_def storedTier_def)

lemma configuredRoute_stored:
  assumes "routePolicy a"
  shows "configuredRoute (n, routeRowOf i d n a) = Inr (routeInput a)"
proof -
  have "identifierPattern (ar_operatorId a)" using assms by (simp add: routePolicy_def)
  then show ?thesis
    by (simp add: configuredRoute_def routeRowOf_def stored_show [OF assms] routeInput_def)
qed

lemma configuredRoutes_stored:
  "\<forall>a \<in> set as. routePolicy a \<Longrightarrow>
   mapR configuredRoute (List.enumerate n (map (\<lambda>(position, a). routeRowOf i d position a)
     (List.enumerate n as))) = Inr (map routeInput as)"
  by (induction as arbitrary: n) (simp_all add: configuredRoute_stored)

lemma sameOperatorRoute_stored:
  "list_all (\<lambda>(position, row). sameOperatorRoute row (nthOpt as position))
     (List.enumerate 0 (map (\<lambda>(position, a). routeRowOf i d position a) (List.enumerate 0 as)))"
  by (auto simp: list_all_length nth_enumerate_eq nthOpt_def sameOperatorRoute_def routeRowOf_def)

definition storedRoutes :: "invoice \<Rightarrow> string \<Rightarrow> payment_request \<Rightarrow> route_row list" where
  "storedRoutes i d request =
     map (\<lambda>(position, route). routeRowOf i d position route)
       (List.enumerate 0 (preq_operators request))"

lemma validateCashuPaymentRequest_iff:
  "validateCashuPaymentRequest env i request = Inr r \<longleftrightarrow>
     r = request \<and> preq_issuedAt request = inv_createdAt i
     \<and> (\<forall>a \<in> set (preq_operators request). identifierPattern (ar_operatorId a))
     \<and> createCashuPaymentRequestV1 env (requestAsInput i request) = Inr request"
proof -
  have "mapR (\<lambda>route. catchR (\<lambda>_. IR_invalid_record)
          (bindR (identifierOf (ar_operatorId route)) (\<lambda>_. Inr (routeInput route)))) as = Inr os
     \<longleftrightarrow> os = map routeInput as \<and> (\<forall>a \<in> set as. identifierPattern (ar_operatorId a))" for as os
    by (induction as arbitrary: os) (auto simp: result_simps)
  then show ?thesis
    by (auto simp: validateCashuPaymentRequest_def requestAsInput_def result_simps)
qed

lemma created_request_facts:
  assumes "createCashuPaymentRequestV1 env (requestAsInput i request) = Inr request"
  shows "routesValid (preq_operators request) \<and> preq_mintPolicy request = Strict
    \<and> inv_state i = Open \<and> invoiceValid i \<and> preq_schemaVersion request = 1
    \<and> preq_encoding request = ''creqA''"
proof -
  note parts = createCashuPaymentRequestV1_parts [OF assms]
  then have issued: "issue env \<lparr>iss_mintPolicy = Strict, iss_operators = preq_operators request,
      iss_transportUrl = preq_transportUrl request\<rparr> i (preq_issuedAt request) = Inr request"
    by (simp add: requestAsInput_def)
  with parts issue_parts [OF issued] show ?thesis
    using normalizeOperatorRoutes_valid by (auto simp: invoiceValid_def stateValid_def)
qed

lemma reconstruct_stored:
  assumes "validateCashuPaymentRequest env i request = Inr request"
    and "isValidStellarDestination d"
  shows "reconstructStoredCashuPaymentRequest env
      (storedRequest (Some (requestRowOf env i request d))) (storedRoutes i d request) i = Inr request"
proof -
  from assms(1) have created: "createCashuPaymentRequestV1 env (requestAsInput i request) = Inr request"
    and time: "preq_issuedAt request = inv_createdAt i"
    by (auto simp: validateCashuPaymentRequest_iff)
  note facts = created_request_facts [OF created]
  then have routes: "preq_operators request \<noteq> []" "\<forall>a \<in> set (preq_operators request). routePolicy a"
    by (auto simp: routesValid_def)
  have rows: "storedRoutes i d request \<noteq> []"
    "length (storedRoutes i d request) = length (preq_operators request)"
    "\<forall>r \<in> set (storedRoutes i d request). rt_settlement_destination r = d"
    using routes by (auto simp: storedRoutes_def enumerate_eq_zip routeRowOf_def)
  then have hd: "rt_settlement_destination (hd (storedRoutes i d request)) = d" by simp
  have config: "mapR configuredRoute (List.enumerate 0 (storedRoutes i d request))
      = Inr (map routeInput (preq_operators request))"
    using configuredRoutes_stored [OF routes(2)] by (simp add: storedRoutes_def)
  have same: "list_all (\<lambda>(position, operator).
      sameOperatorRoute operator (nthOpt (preq_operators request) position))
      (List.enumerate 0 (storedRoutes i d request))"
    unfolding storedRoutes_def by (rule sameOperatorRoute_stored)
  have input: "\<lparr>io_mintPolicy = Some Strict, io_operators = map routeInput (preq_operators request),
      io_transportUrl = preq_transportUrl request, pri_invoice = i,
      pri_issuedAt = inv_createdAt i\<rparr> = requestAsInput i request"
    using facts time by (simp add: requestAsInput_def)
  have stamp: "validTimestamp (inv_createdAt i)"
    using facts by (simp add: invoiceValid_def baseValid_def)
  show ?thesis
    using facts time rows hd config same input stamp created assms(2)
    by (simp add: reconstructStoredCashuPaymentRequest_def storedRequest_def requestRowOf_def
        cashuStellarSettlementDestination_def list_all_iff)
qed

lemma mapInvoiceRow_stored:
  assumes "invoiceValid i" and "inv_state i = Open"
  shows "mapInvoiceRow (invoiceRowOf i) = Inr i"
proof -
  from assms have valid: "baseValid i" "inv_schemaVersion i = 1" "inv_unit i = ''usdc''"
    by (auto simp: invoiceValid_def)
  then have "createInvoiceV1 \<lparr>inv_amount = inv_amount i, inv_createdAt = inv_createdAt i,
      inv_expiresAt = inv_expiresAt i, inv_id = inv_id i, inv_merchantId = inv_merchantId i\<rparr> = Inr i"
    using assms(2) by (cases i) (auto simp: createInvoiceV1_iff baseValid_def)
  moreover have "validAmount (inv_amount i)"
    using valid by (simp add: baseValid_def validAmount_def)
  ultimately show ?thesis
    using assms valid by (simp add: mapInvoiceRow_def invoiceRowOf_def baseValid_def)
qed

section \<open>What issuance writes\<close>

text \<open>The references between the issuance tables that their foreign keys and primary keys keep.\<close>

definition issuanceKeys :: "db \<Rightarrow> bool" where
  "issuanceKeys db \<longleftrightarrow>
     (\<forall>r \<in> set (db_routes db). \<exists>q \<in> set (db_requests db). rq_invoice_id q = rt_invoice_id r)
     \<and> (\<forall>q \<in> set (db_requests db). \<exists>i \<in> set (db_invoices db). ir_id i = rq_invoice_id q)
     \<and> db_deferred db = []"

lemma insertRouteRows_Inr:
  "insertRouteRows db rows = Inr db' \<Longrightarrow>
     \<exists>q. db' = db\<lparr>db_routes := db_routes db @ rows, db_deferred := q\<rparr>"
proof (induction rows arbitrary: db)
  case (Cons row rows)
  then obtain mid where mid: "insertRouteRow db row = Inr mid" "insertRouteRows mid rows = Inr db'"
    by (auto simp: result_simps)
  then obtain q0 where m: "mid = db\<lparr>db_routes := db_routes db @ [row], db_deferred := q0\<rparr>"
    by (auto simp: insertRouteRow_def result_simps queue_def)
  from Cons.IH [OF mid(2)] m show ?case by auto
next
  case Nil
  then show ?case by (intro exI [of _ "db_deferred db"]) simp
qed

definition issuedDb :: "cashu_env \<Rightarrow> create_invoice_record \<Rightarrow> db \<Rightarrow> db" where
  "issuedDb env input db = db\<lparr>
     db_creations := db_creations db @
       [\<lparr>cr_merchant_id = inv_merchantId (cir_invoice input),
         cr_idempotency_key = cir_idempotencyKey input,
         cr_request_fingerprint = cir_requestFingerprint input,
         cr_invoice_id = inv_id (cir_invoice input),
         cr_created_at = inv_createdAt (cir_invoice input)\<rparr>],
     db_invoices := db_invoices db @ [invoiceRowOf (cir_invoice input)],
     db_requests := db_requests db @ [requestRowOf env (cir_invoice input)
        (cir_cashuPaymentRequest input) (cir_settlementDestination input)],
     db_routes := db_routes db @ storedRoutes (cir_invoice input) (cir_settlementDestination input)
        (cir_cashuPaymentRequest input),
     db_deferred := []\<rparr>"

lemma createOpenInvoice_fresh:
  assumes "createOpenInvoice env input db = Inr (db', res)" and "\<not> cir_replayed res"
  shows "db' = issuedDb env input db
    \<and> res = \<lparr>ii_cashuPaymentRequest = cir_cashuPaymentRequest input,
             ii_invoice = cir_invoice input, cir_replayed = False\<rparr>
    \<and> validateCashuPaymentRequest env (cir_invoice input) (cir_cashuPaymentRequest input)
        = Inr (cir_cashuPaymentRequest input)
    \<and> isValidStellarDestination (cir_settlementDestination input)
    \<and> (\<forall>c \<in> set (db_creations db). \<not> (cr_merchant_id c = inv_merchantId (cir_invoice input)
          \<and> cr_idempotency_key c = cir_idempotencyKey input))
    \<and> (\<forall>i \<in> set (db_invoices db). ir_id i \<noteq> inv_id (cir_invoice input))"
proof -
  obtain request after db1 db2 where
    request: "validateCashuPaymentRequest env (cir_invoice input) (cir_cashuPaymentRequest input) = Inr request"
    and dest: "isValidStellarDestination (cir_settlementDestination input)"
    and ins: "insertCreation db \<lparr>cr_merchant_id = inv_merchantId (cir_invoice input),
         cr_idempotency_key = cir_idempotencyKey input,
         cr_request_fingerprint = cir_requestFingerprint input,
         cr_invoice_id = inv_id (cir_invoice input),
         cr_created_at = inv_createdAt (cir_invoice input)\<rparr> = Inr (Some db1)"
      "insertInvoiceRow db1 (invoiceRowOf (cir_invoice input)) = Inr db2"
      "insertCashuPaymentRequest env db2 (cir_invoice input) request (cir_settlementDestination input)
         = Inr after"
    and db': "db' = after\<lparr>db_deferred := []\<rparr>"
    and res: "res = \<lparr>ii_cashuPaymentRequest = request, ii_invoice = cir_invoice input, cir_replayed = False\<rparr>"
    using assms
    by (auto simp: createOpenInvoice_def createOpenInvoiceIn_def withTransaction_iff result_simps
        cashuStellarSettlementDestination_def readReplay_def issuedResult_def failWith_def
        split: option.splits if_splits prod.splits)
  from request have same: "request = cir_cashuPaymentRequest input"
    by (simp add: validateCashuPaymentRequest_iff)
  from ins(3) obtain q where "after = db2\<lparr>db_requests := db_requests db2 @
      [requestRowOf env (cir_invoice input) request (cir_settlementDestination input)],
      db_routes := db_routes db2 @ storedRoutes (cir_invoice input) (cir_settlementDestination input) request,
      db_deferred := q\<rparr>"
    by (auto simp: insertCashuPaymentRequest_def insertRequestRow_def result_simps queue_def
        storedRoutes_def dest!: insertRouteRows_Inr)
  with ins(1,2) db' res request same dest show ?thesis
    by (auto simp: insertCreation_def insertInvoiceRow_def result_simps queue_def issuedDb_def
        list_ex_iff invoiceRowOf_def split: if_splits)
qed


lemma storedRoutes_sorted: "sort_key rt_position (storedRoutes i d request) = storedRoutes i d request"
  by (rule sort_key_fixed)
    (auto simp: storedRoutes_def routeRowOf_def strictlyIncreasing_iff sorted_wrt_iff_nth_less
      nth_enumerate_eq)

lemma storedRoutes_invoice: "r \<in> set (storedRoutes i d request) \<Longrightarrow> rt_invoice_id r = inv_id i"
  by (auto simp: storedRoutes_def routeRowOf_def)

lemma mapIssuedInvoice_issued:
  assumes "createOpenInvoice env input db = Inr (db', res)" and "\<not> cir_replayed res"
    and "issuanceKeys db"
  shows "mapIssuedInvoice env db' (invoiceRowOf (cir_invoice input))
    = Inr \<lparr>ii_cashuPaymentRequest = cir_cashuPaymentRequest input, ii_invoice = cir_invoice input\<rparr>"
proof -
  note fresh = createOpenInvoice_fresh [OF assms(1,2)]
  let ?i = "cir_invoice input" and ?q = "cir_cashuPaymentRequest input"
  let ?d = "cir_settlementDestination input"
  have noRequest: "\<forall>q \<in> set (db_requests db). rq_invoice_id q \<noteq> inv_id ?i"
    using fresh assms(3) by (metis issuanceKeys_def)
  then have "filter (\<lambda>r. rt_invoice_id r = inv_id ?i) (db_routes db) = []"
    using assms(3) by (auto simp: issuanceKeys_def filter_empty_conv)
  moreover have "filter (\<lambda>r. rt_invoice_id r = inv_id ?i) (storedRoutes ?i ?d ?q) = storedRoutes ?i ?d ?q"
    by (auto simp: filter_id_conv storedRoutes_invoice)
  ultimately have routes: "routesOf db' (inv_id ?i) = storedRoutes ?i ?d ?q"
    using fresh by (simp add: routesOf_def issuedDb_def storedRoutes_sorted)
  have request: "joinedRequest db' (invoiceRowOf ?i) = Some (requestRowOf env ?i ?q ?d)"
    using fresh noRequest
    by (simp add: joinedRequest_def issuedDb_def findFirst_snoc invoiceRowOf_def requestRowOf_def)
  have "createCashuPaymentRequestV1 env (requestAsInput ?i ?q) = Inr ?q"
    using fresh by (simp add: validateCashuPaymentRequest_iff)
  from created_request_facts [OF this] have "mapInvoiceRow (invoiceRowOf ?i) = Inr ?i"
    by (simp add: mapInvoiceRow_stored)
  moreover have "reconstructStoredCashuPaymentRequest env
      (storedRequest (Some (requestRowOf env ?i ?q ?d))) (storedRoutes ?i ?d ?q) ?i = Inr ?q"
    using fresh by (intro reconstruct_stored) simp_all
  ultimately show ?thesis
    by (simp add: mapIssuedInvoice_def routes request)
qed

lemma findCreationRow_issued:
  assumes "createOpenInvoice env input db = Inr (db', res)" and "\<not> cir_replayed res"
  shows "\<exists>c. findCreationRow db' (inv_merchantId (cir_invoice input)) (cir_idempotencyKey input)
      = Some (c, invoiceRowOf (cir_invoice input))
    \<and> cr_request_fingerprint c = cir_requestFingerprint input"
proof -
  note fresh = createOpenInvoice_fresh [OF assms]
  show ?thesis
    using fresh by (auto simp: findCreationRow_def issuedDb_def invoiceRowOf_def findFirst_snoc)
qed

section \<open>Properties\<close>

text \<open>
  C37 (an issued invoice is found as issued) When an invoice is issued, every later lookup by its
  id, by its owner and by its idempotency key rebuilds exactly the issued invoice and payment
  request from the stored rows.
\<close>

theorem issued_invoice_found:
  assumes "createOpenInvoice env input db = Inr (db', res)" and "\<not> cir_replayed res"
    and "issuanceKeys db"
  shows "findOpenInvoiceById env db' (inv_id (cir_invoice input))
      = Inr (Some \<lparr>ii_cashuPaymentRequest = cir_cashuPaymentRequest input,
                  ii_invoice = cir_invoice input\<rparr>)
    \<and> findOpenInvoice env db' (inv_merchantId (cir_invoice input)) (inv_id (cir_invoice input))
      = Inr (Some \<lparr>ii_cashuPaymentRequest = cir_cashuPaymentRequest input,
                  ii_invoice = cir_invoice input\<rparr>)
    \<and> findInvoiceCreation env db'
        \<lparr>fcr_idempotencyKey = cir_idempotencyKey input,
         fcr_merchantId = inv_merchantId (cir_invoice input),
         fcr_requestFingerprint = cir_requestFingerprint input\<rparr>
      = Inr (Some \<lparr>ii_cashuPaymentRequest = cir_cashuPaymentRequest input,
                  ii_invoice = cir_invoice input\<rparr>)"
proof -
  note fresh = createOpenInvoice_fresh [OF assms(1,2)] and mapped = mapIssuedInvoice_issued [OF assms]
  have "inv_state (cir_invoice input) = Open"
    using fresh created_request_facts by (auto simp: validateCashuPaymentRequest_iff)
  with fresh mapped findCreationRow_issued [OF assms(1,2)] show ?thesis
    by (auto simp: findOpenInvoiceById_def findOpenInvoice_def findInvoiceCreation_def issuedDb_def
        findFirst_snoc invoiceRowOf_def)
qed

text \<open>
  C38 (issuance is idempotent) Issuing again under the idempotency key of an issued invoice changes
  nothing: with the same request fingerprint the stored invoice and request are returned as a
  replay, with another fingerprint the call fails with a conflict, whatever invoice it carries.
\<close>

theorem issuance_idempotent:
  assumes "createOpenInvoice env input db = Inr (db', res)" and "\<not> cir_replayed res"
    and "issuanceKeys db"
    and "inv_merchantId (cir_invoice again) = inv_merchantId (cir_invoice input)"
    and "cir_idempotencyKey again = cir_idempotencyKey input"
    and "validateCashuPaymentRequest env (cir_invoice again) (cir_cashuPaymentRequest again) = Inr q"
    and "isValidStellarDestination (cir_settlementDestination again)"
  shows "createOpenInvoice env again db' =
    (if cir_requestFingerprint again = cir_requestFingerprint input
     then Inr (db', \<lparr>ii_cashuPaymentRequest = cir_cashuPaymentRequest input,
                     ii_invoice = cir_invoice input, cir_replayed = True\<rparr>)
     else Inl IR_idempotency_conflict)"
proof -
  note fresh = createOpenInvoice_fresh [OF assms(1,2)] and mapped = mapIssuedInvoice_issued [OF assms(1-3)]
  from fresh have reserved: "insertCreation db' \<lparr>cr_merchant_id = inv_merchantId (cir_invoice input),
       cr_idempotency_key = cir_idempotencyKey input,
       cr_request_fingerprint = f, cr_invoice_id = j, cr_created_at = t\<rparr> = Inr None" for f j t
    by (simp add: insertCreation_def issuedDb_def)
  obtain c where c: "findCreationRow db' (inv_merchantId (cir_invoice input)) (cir_idempotencyKey input)
      = Some (c, invoiceRowOf (cir_invoice input))"
    "cr_request_fingerprint c = cir_requestFingerprint input"
    using findCreationRow_issued [OF assms(1,2)] by blast
  have commits: "commit db' = Inr db'" using fresh by (simp add: issuedDb_def)
  from reserved c mapped assms(4-7) show ?thesis
    by (auto simp: commits createOpenInvoice_def createOpenInvoiceIn_def withTransaction_def readReplay_def
        cashuStellarSettlementDestination_def issuedResult_def mapInvoiceStorageError_def failWith_def)
qed

end
