(* ===== verification/Proof_State.thy ===== *)
theory Proof_State
  imports Cashu_Base
begin

text \<open>
  \<^verbatim>\<open>packages/cashu/src/proof-state.ts\<close>: NUT-07 proof-state snapshots.  A snapshot holds one state per
  proof, free of duplicates and in increasing order of the proof's \<open>Y\<close>.
\<close>

section \<open>Snapshots\<close>

datatype proof_state_value = Proof_pending | Proof_spent | Proof_unspent

record proof_state_entry_input =
  psi_state :: string
  psi_y :: string

record proof_state_entry =
  pse_state :: proof_state_value
  pse_y :: string

record proof_state_snapshot_input =
  pssi_mintUrl :: string
  pssi_observedAt :: int
  pssi_schemaVersion :: "int option"
  pssi_states :: "proof_state_entry_input list"

record proof_state_snapshot =
  pss_mintUrl :: string
  pss_observedAt :: int
  pss_schemaVersion :: int
  pss_states :: "proof_state_entry list"

datatype proof_state_snapshot_error =
    PS_duplicate_proof
  | PS_empty_proof_set
  | PS_invalid_mint
  | PS_invalid_observed_at
  | PS_invalid_proof_state
  | PS_invalid_snapshot
  | PS_proof_limit_exceeded

definition CASHU_PROOF_STATE_SNAPSHOT_SCHEMA_VERSION :: int where
  "CASHU_PROOF_STATE_SNAPSHOT_SCHEMA_VERSION = 1"

definition MAX_CASHU_PROOF_STATES_PER_SNAPSHOT :: nat where
  "MAX_CASHU_PROOF_STATES_PER_SNAPSHOT = 128"

definition parseProofStateValue :: "string \<Rightarrow> proof_state_value option" where
  "parseProofStateValue s =
    (if s = ''UNSPENT'' then Some Proof_unspent
     else if s = ''PENDING'' then Some Proof_pending
     else if s = ''SPENT'' then Some Proof_spent else None)"

fun showProofStateValue :: "proof_state_value \<Rightarrow> string" where
  "showProofStateValue Proof_unspent = ''UNSPENT''"
| "showProofStateValue Proof_pending = ''PENDING''"
| "showProofStateValue Proof_spent = ''SPENT''"

definition createState ::
  "cashu_env \<Rightarrow> proof_state_entry_input \<Rightarrow> proof_state_snapshot_error + proof_state_entry" where
  "createState env input =
    (case parseProofStateValue (psi_state input) of
       None \<Rightarrow> Inl PS_invalid_proof_state
     | Some st \<Rightarrow> catchR (\<lambda>_. PS_invalid_proof_state)
         (bindR (cashuProofY env (psi_y input)) (\<lambda>y. Inr \<lparr>pse_state = st, pse_y = y\<rparr>)))"

text \<open>The \<open>Array.from\<close> callback with its set of seen proofs.\<close>

fun createStates ::
  "cashu_env \<Rightarrow> string set \<Rightarrow> proof_state_entry_input list
     \<Rightarrow> proof_state_snapshot_error + proof_state_entry list" where
  "createStates env seen [] = Inr []"
| "createStates env seen (i # is) =
     bindR (createState env i) (\<lambda>st.
     if pse_y st \<in> seen then Inl PS_duplicate_proof
     else bindR (createStates env (insert (pse_y st) seen) is) (\<lambda>sts. Inr (st # sts)))"

definition createCashuProofStateSnapshotV1 ::
  "cashu_env \<Rightarrow> proof_state_snapshot_input
     \<Rightarrow> proof_state_snapshot_error + proof_state_snapshot" where
  "createCashuProofStateSnapshotV1 env input =
    (if pssi_schemaVersion input \<noteq> None
        \<and> pssi_schemaVersion input \<noteq> Some CASHU_PROOF_STATE_SNAPSHOT_SCHEMA_VERSION
     then Inl PS_invalid_snapshot
     else
     bindR (catchR (\<lambda>_. PS_invalid_mint) (normalizeCashuMintUrl env (pssi_mintUrl input)))
       (\<lambda>mintUrl.
     bindR (catchR (\<lambda>_. PS_invalid_observed_at) (unixTimestamp (pssi_observedAt input)))
       (\<lambda>observedAt.
     if length (pssi_states input) = 0 then Inl PS_empty_proof_set
     else if length (pssi_states input) > MAX_CASHU_PROOF_STATES_PER_SNAPSHOT
     then Inl PS_proof_limit_exceeded
     else bindR (createStates env {} (pssi_states input)) (\<lambda>states.
       Inr \<lparr>pss_mintUrl = mintUrl, pss_observedAt = observedAt,
            pss_schemaVersion = CASHU_PROOF_STATE_SNAPSHOT_SCHEMA_VERSION,
            pss_states = sort_key pse_y states\<rparr>))))"

text \<open>A snapshot read back as an input, as the repositories and coordinators do.\<close>

definition entryInput :: "proof_state_entry \<Rightarrow> proof_state_entry_input" where
  "entryInput e = \<lparr>psi_state = showProofStateValue (pse_state e), psi_y = pse_y e\<rparr>"

definition snapshotInput :: "proof_state_snapshot \<Rightarrow> proof_state_snapshot_input" where
  "snapshotInput s =
     \<lparr>pssi_mintUrl = pss_mintUrl s, pssi_observedAt = pss_observedAt s,
      pssi_schemaVersion = Some (pss_schemaVersion s),
      pssi_states = map entryInput (pss_states s)\<rparr>"

section \<open>Well-formed snapshots\<close>

definition snapshotValid :: "cashu_env \<Rightarrow> proof_state_snapshot \<Rightarrow> bool" where
  "snapshotValid env s \<longleftrightarrow>
     normalizeCashuMintUrl env (pss_mintUrl s) = Inr (pss_mintUrl s)
     \<and> validTimestamp (pss_observedAt s) \<and> pss_schemaVersion s = 1
     \<and> pss_states s \<noteq> [] \<and> length (pss_states s) \<le> MAX_CASHU_PROOF_STATES_PER_SNAPSHOT
     \<and> strictlyIncreasing (map pse_y (pss_states s))
     \<and> (\<forall>e \<in> set (pss_states s). proofYValid env (pse_y e))"

lemma parse_show_state [simp]: "parseProofStateValue (showProofStateValue v) = Some v"
  by (cases v) (simp_all add: parseProofStateValue_def)

lemma parseProofStateValue_Some:
  "parseProofStateValue s = Some v \<longleftrightarrow> s = showProofStateValue v"
  by (cases v) (auto simp: parseProofStateValue_def)

lemma showProofStateValue_inject [simp]:
  "showProofStateValue v = showProofStateValue w \<longleftrightarrow> v = w"
  by (metis option.inject parse_show_state)

lemma createState_iff:
  "createState env i = Inr e \<longleftrightarrow> i = entryInput e \<and> proofYValid env (pse_y e)"
  by (cases i; cases e)
    (auto simp: createState_def result_simps entryInput_def parseProofStateValue_Some
      split: option.splits)

lemma createStates_iff:
  "createStates env seen is = Inr es \<longleftrightarrow>
     is = map entryInput es \<and> (\<forall>e \<in> set es. proofYValid env (pse_y e))
     \<and> distinct (map pse_y es) \<and> seen \<inter> pse_y ` set es = {}"
proof (induction "is" arbitrary: seen es)
  case (Cons i "is")
  show ?case
    by (cases es) (auto simp: result_simps createState_iff Cons.IH)
qed auto

lemma createCashuProofStateSnapshotV1_valid:
  assumes "mintUrlStable env" and "createCashuProofStateSnapshotV1 env i = Inr s"
    and "length (pss_mintUrl s) \<le> MAX_CASHU_ENDPOINT_LENGTH"
  shows "snapshotValid env s"
  using assms
  by (auto simp: createCashuProofStateSnapshotV1_def result_simps createStates_iff snapshotValid_def
      CASHU_PROOF_STATE_SNAPSHOT_SCHEMA_VERSION_def sort_key_strict
      dest: mintUrlStableD)

lemma snapshotValid_recreate:
  assumes "snapshotValid env s"
  shows "createCashuProofStateSnapshotV1 env (snapshotInput s) = Inr s"
proof -
  have "createStates env {} (map entryInput (pss_states s)) = Inr (pss_states s)"
    using assms
    by (auto simp: createStates_iff snapshotValid_def dest: strictlyIncreasing_distinct)
  with assms show ?thesis
    by (auto simp: createCashuProofStateSnapshotV1_def snapshotInput_def snapshotValid_def
        CASHU_PROOF_STATE_SNAPSHOT_SCHEMA_VERSION_def sort_key_fixed result_simps bindR_def
        split: sum.splits)
qed

end
