(* ===== verification/Lifecycle.thy ===== *)
theory Lifecycle
  imports Quote_Record Invoice_Store Proof_State
begin

text \<open>
  \<^verbatim>\<open>cashu-proof-reservation-lifecycle-repository.ts\<close> and the pure part of
  \<^verbatim>\<open>postgres-cashu-proof-reservation-lifecycle-repository.ts\<close>: the states of a proof reservation,
  its operator effect and its events, the validation of inputs, the transition rules, the public
  form of a stored event and the fingerprints.

  \<open>lifecycle_step\<close> is the abstract state machine of a reservation.
\<close>

section \<open>States, effects, events\<close>

definition CASHU_PROOF_RESERVATION_LIFECYCLE_SCHEMA_VERSION :: int where
  "CASHU_PROOF_RESERVATION_LIFECYCLE_SCHEMA_VERSION = 1"

datatype reservation_state =
    Reserved | Dispatch_started | Pending | Needs_attention | Consumed | Released

definition CASHU_OPERATOR_ATTENTION_REASONS :: "string list" where
  "CASHU_OPERATOR_ATTENTION_REASONS =
     [''transport_ambiguous'', ''operator_state_unknown'', ''operator_response_invalid'']"

definition CASHU_OPERATOR_SUCCESS_EVIDENCE :: "string list" where
  "CASHU_OPERATOR_SUCCESS_EVIDENCE = [''swap_succeeded'', ''melt_paid'']"

definition CASHU_OPERATOR_FAILURE_EVIDENCE :: "string list" where
  "CASHU_OPERATOR_FAILURE_EVIDENCE = [''swap_rejected'', ''melt_unpaid_after_expiry'']"

text \<open>The union of swap and melt effects; a melt has its reference and the reference's expiry.\<close>

datatype effect_kind = Swap | Melt (operatorReference: string) (operatorReferenceExpiresAt: int)

record operator_effect =
  oe_dispatchFingerprint :: string
  oe_effectId :: string
  oe_kind :: effect_kind
  oe_schemaVersion :: int
  oe_startedAt :: int

text \<open>The union of lifecycle events: the common fields, and the fields of each state.\<close>

datatype event_body =
    Event_dispatch_started
  | Event_pending int
  | Event_needs_attention int string
  | Event_consumed int string string int
  | Event_released_pre_dispatch
  | Event_released int string int

record lifecycle_event =
  le_eventId :: string
  le_recordedAt :: int
  le_sequence :: int
  le_body :: event_body

record lifecycle =
  lc_effect :: "operator_effect option"
  lc_events :: "lifecycle_event list"
  lc_paymentId :: string
  lc_schemaVersion :: int
  lc_state :: reservation_state

datatype lifecycle_error =
    LR_accounting_conflict
  | LR_effect_conflict
  | LR_event_conflict
  | LR_invalid_input
  | LR_invalid_record
  | LR_invalid_transition
  | LR_invoice_claimed
  | LR_proof_state_evidence_missing
  | LR_quote_evidence_mismatch
  | LR_quote_evidence_missing
  | LR_reservation_not_found
  | LR_storage_unavailable

fun eventState :: "event_body \<Rightarrow> reservation_state" where
  "eventState Event_dispatch_started = Dispatch_started"
| "eventState (Event_pending t) = Pending"
| "eventState (Event_needs_attention t r) = Needs_attention"
| "eventState (Event_consumed t k j p) = Consumed"
| "eventState Event_released_pre_dispatch = Released"
| "eventState (Event_released t k p) = Released"

fun eventEvidenceAt :: "event_body \<Rightarrow> int option" where
  "eventEvidenceAt (Event_pending t) = Some t"
| "eventEvidenceAt (Event_needs_attention t r) = Some t"
| "eventEvidenceAt (Event_consumed t k j p) = Some t"
| "eventEvidenceAt (Event_released t k p) = Some t"
| "eventEvidenceAt b = None"

fun eventEvidenceKind :: "event_body \<Rightarrow> string option" where
  "eventEvidenceKind Event_dispatch_started = None"
| "eventEvidenceKind (Event_pending t) = Some ''operator_pending''"
| "eventEvidenceKind (Event_needs_attention t r) = Some r"
| "eventEvidenceKind (Event_consumed t k j p) = Some k"
| "eventEvidenceKind Event_released_pre_dispatch = Some ''pre_dispatch''"
| "eventEvidenceKind (Event_released t k p) = Some k"

fun showState :: "reservation_state \<Rightarrow> string" where
  "showState Reserved = ''reserved''"
| "showState Dispatch_started = ''dispatch_started''"
| "showState Pending = ''pending''"
| "showState Needs_attention = ''needs_attention''"
| "showState Consumed = ''consumed''"
| "showState Released = ''released''"

fun showEffectKind :: "effect_kind \<Rightarrow> string" where
  "showEffectKind Swap = ''swap''"
| "showEffectKind (Melt r t) = ''melt''"

section \<open>Inputs and their validation\<close>

record start_effect_input =
  se_dispatchFingerprint :: string
  se_effectId :: string
  se_eventId :: string
  se_paymentId :: string
  se_startedAt :: int
  se_kind :: string
  se_operatorReference :: "string option"
  se_operatorReferenceExpiresAt :: "int option"

record valid_start_effect =
  vs_dispatchFingerprint :: string
  vs_effectId :: string
  vs_eventId :: string
  vs_paymentId :: string
  vs_startedAt :: int
  vs_kind :: effect_kind

record evidence_input =
  ei_effectId :: string
  ei_eventId :: string
  ei_evidenceAt :: int
  ei_paymentId :: string
  ei_recordedAt :: int

record attention_input = evidence_input +
  ai_reason :: string

record acceptance_input = evidence_input +
  ci_evidenceKind :: string
  ci_feeAmount :: int
  ci_journalEntryId :: string
  ci_proofStateObservedAt :: int

text \<open>The release input as received: the fields of both shapes, undefined where absent.\<close>

record release_input =
  ri_eventId :: string
  ri_paymentId :: string
  ri_recordedAt :: int
  ri_kind :: string
  ri_effectId :: "string option"
  ri_evidenceAt :: "int option"
  ri_evidenceKind :: "string option"
  ri_proofStateObservedAt :: "int option"

datatype release_kind = Pre_dispatch | After_failure string int string int

record valid_release =
  vr_eventId :: string
  vr_paymentId :: string
  vr_recordedAt :: int
  vr_kind :: release_kind

definition invalidInput :: "'e + 'a \<Rightarrow> lifecycle_error failure + 'a" where
  "invalidInput = catchR (\<lambda>_. Repository_failure LR_invalid_input)"

definition cashuOperatorDispatchFingerprint :: "string \<Rightarrow> unit + string" where
  "cashuOperatorDispatchFingerprint v = (if \<not> hexOfLength 64 v then Inl () else Inr v)"

definition validateStartEffect ::
  "start_effect_input \<Rightarrow> lifecycle_error failure + valid_start_effect" where
  "validateStartEffect input =
    (if se_kind input \<notin> {''swap'', ''melt''} then failWith LR_invalid_input
     else
     bindR (invalidInput (cashuOperatorDispatchFingerprint (se_dispatchFingerprint input))) (\<lambda>fingerprint.
     bindR (invalidInput (identifierOf (se_effectId input))) (\<lambda>effectId.
     bindR (invalidInput (identifierOf (se_eventId input))) (\<lambda>eventId.
     bindR (invalidInput (identifierOf (se_paymentId input))) (\<lambda>paymentId.
     bindR (invalidInput (unixTimestamp (se_startedAt input))) (\<lambda>startedAt.
     let base = \<lparr>vs_dispatchFingerprint = fingerprint, vs_effectId = effectId,
           vs_eventId = eventId, vs_paymentId = paymentId, vs_startedAt = startedAt,
           vs_kind = Swap\<rparr>
     in if se_kind input = ''swap''
        then if se_operatorReference input \<noteq> None \<or> se_operatorReferenceExpiresAt input \<noteq> None
             then failWith LR_invalid_input else Inr base
        else
        case (se_operatorReference input, se_operatorReferenceExpiresAt input) of
          (Some reference, Some expiresAt) \<Rightarrow>
            bindR (invalidInput (identifierOf reference)) (\<lambda>operatorReference.
            bindR (invalidInput (unixTimestamp expiresAt)) (\<lambda>operatorReferenceExpiresAt.
            if operatorReferenceExpiresAt \<le> startedAt then failWith LR_invalid_input
            else Inr (base\<lparr>vs_kind := Melt operatorReference operatorReferenceExpiresAt\<rparr>)))
        | _ \<Rightarrow> failWith LR_invalid_input))))))"

definition validateEvidenceInput ::
  "'x evidence_input_scheme \<Rightarrow> lifecycle_error failure + evidence_input" where
  "validateEvidenceInput input =
     bindR (invalidInput (identifierOf (ei_effectId input))) (\<lambda>effectId.
     bindR (invalidInput (identifierOf (ei_eventId input))) (\<lambda>eventId.
     bindR (invalidInput (unixTimestamp (ei_evidenceAt input))) (\<lambda>evidenceAt.
     bindR (invalidInput (identifierOf (ei_paymentId input))) (\<lambda>paymentId.
     bindR (invalidInput (unixTimestamp (ei_recordedAt input))) (\<lambda>recordedAt.
     Inr \<lparr>ei_effectId = effectId, ei_eventId = eventId, ei_evidenceAt = evidenceAt,
          ei_paymentId = paymentId, ei_recordedAt = recordedAt\<rparr>)))))"

definition validatePending :: "evidence_input \<Rightarrow> lifecycle_error failure + evidence_input" where
  "validatePending input = validateEvidenceInput input"

definition validateAttention :: "attention_input \<Rightarrow> lifecycle_error failure + attention_input" where
  "validateAttention input =
     bindR (validateEvidenceInput input) (\<lambda>base.
     if ai_reason input \<notin> set CASHU_OPERATOR_ATTENTION_REASONS then failWith LR_invalid_input
     else Inr \<lparr>ei_effectId = ei_effectId base, ei_eventId = ei_eventId base,
               ei_evidenceAt = ei_evidenceAt base, ei_paymentId = ei_paymentId base,
               ei_recordedAt = ei_recordedAt base, ai_reason = ai_reason input\<rparr>)"

definition validatePaymentAcceptance ::
  "acceptance_input \<Rightarrow> lifecycle_error failure + acceptance_input" where
  "validatePaymentAcceptance input =
     bindR (validateEvidenceInput input) (\<lambda>base.
     if ci_evidenceKind input \<noteq> ''melt_paid'' then failWith LR_invalid_input
     else
     bindR (invalidInput (minorUnits (ci_feeAmount input))) (\<lambda>feeAmount.
     bindR (invalidInput (identifierOf (ci_journalEntryId input))) (\<lambda>journalEntryId.
     bindR (invalidInput (unixTimestamp (ci_proofStateObservedAt input))) (\<lambda>observedAt.
     Inr \<lparr>ei_effectId = ei_effectId base, ei_eventId = ei_eventId base,
          ei_evidenceAt = ei_evidenceAt base, ei_paymentId = ei_paymentId base,
          ei_recordedAt = ei_recordedAt base, ci_evidenceKind = ''melt_paid'',
          ci_feeAmount = feeAmount, ci_journalEntryId = journalEntryId,
          ci_proofStateObservedAt = observedAt\<rparr>))))"

definition validateRelease :: "release_input \<Rightarrow> lifecycle_error failure + valid_release" where
  "validateRelease input =
     bindR (invalidInput (identifierOf (ri_eventId input))) (\<lambda>eventId.
     bindR (invalidInput (identifierOf (ri_paymentId input))) (\<lambda>paymentId.
     bindR (invalidInput (unixTimestamp (ri_recordedAt input))) (\<lambda>recordedAt.
     let base = \<lparr>vr_eventId = eventId, vr_paymentId = paymentId, vr_recordedAt = recordedAt,
                 vr_kind = Pre_dispatch\<rparr>
     in if ri_kind input = ''pre_dispatch'' then Inr base
        else
        case (ri_effectId input, ri_evidenceKind input) of
          (Some inputEffectId, Some evidenceKind) \<Rightarrow>
            if ri_kind input \<noteq> ''after_failure''
               \<or> evidenceKind \<notin> set CASHU_OPERATOR_FAILURE_EVIDENCE
            then failWith LR_invalid_input
            else
            bindR (invalidInput (identifierOf inputEffectId)) (\<lambda>effectId.
            case (ri_evidenceAt input, ri_proofStateObservedAt input) of
              (Some at, Some observed) \<Rightarrow>
                bindR (invalidInput (unixTimestamp at)) (\<lambda>evidenceAt.
                bindR (invalidInput (unixTimestamp observed)) (\<lambda>observedAt.
                Inr (base\<lparr>vr_kind := After_failure effectId evidenceAt evidenceKind observedAt\<rparr>)))
            | _ \<Rightarrow> failWith LR_invalid_input)
        | _ \<Rightarrow> failWith LR_invalid_input)))"

definition validatePaymentId :: "string \<Rightarrow> lifecycle_error failure + string" where
  "validatePaymentId v = invalidInput (identifierOf v)"

section \<open>Transition rules\<close>

definition transitionAllowed :: "reservation_state \<Rightarrow> reservation_state \<Rightarrow> bool" where
  "transitionAllowed current next' =
    (if current = Reserved then next' = Dispatch_started \<or> next' = Released
     else if current \<in> {Dispatch_started, Pending, Needs_attention}
     then next' \<in> {Pending, Needs_attention, Consumed, Released}
     else False)"

definition evidenceMatchesEffect :: "string option \<Rightarrow> effect_kind \<Rightarrow> bool" where
  "evidenceMatchesEffect kind effectKind =
    (if kind = Some ''operator_pending'' then effectKind \<noteq> Swap
     else if kind = Some ''swap_succeeded'' \<or> kind = Some ''swap_rejected'' then effectKind = Swap
     else if kind = Some ''melt_paid'' \<or> kind = Some ''melt_unpaid_after_expiry''
     then effectKind \<noteq> Swap
     else True)"

definition evidenceTimeMatchesEffect :: "string option \<Rightarrow> int \<Rightarrow> operator_effect \<Rightarrow> bool" where
  "evidenceTimeMatchesEffect kind evidenceAt effect =
    (\<not> (kind = Some ''melt_unpaid_after_expiry'' \<and>
        (case oe_kind effect of Swap \<Rightarrow> True | Melt _ expiresAt \<Rightarrow> evidenceAt < expiresAt)))"

definition eventMatchesEffect :: "lifecycle_event \<Rightarrow> operator_effect option \<Rightarrow> bool" where
  "eventMatchesEffect event effect =
    (if le_body event = Event_released_pre_dispatch then effect = None
     else case effect of
       None \<Rightarrow> False
     | Some e \<Rightarrow>
         if le_recordedAt event < oe_startedAt e then False
         else if (case eventEvidenceAt (le_body event) of None \<Rightarrow> False | Some t \<Rightarrow> t < oe_startedAt e)
         then False
         else (case eventEvidenceKind (le_body event) of None \<Rightarrow> True
               | Some kind \<Rightarrow> evidenceMatchesEffect (Some kind) (oe_kind e)
                   \<and> (case eventEvidenceAt (le_body event) of None \<Rightarrow> True
                      | Some t \<Rightarrow> evidenceTimeMatchesEffect (Some kind) t e)))"

section \<open>Drafts and public events\<close>

record event_draft =
  dr_effectId :: "string option"
  dr_eventId :: string
  dr_evidenceAt :: "int option"
  dr_evidenceKind :: "string option"
  dr_journalEntryId :: "string option"
  dr_paymentId :: string
  dr_proofStateFingerprint :: "string option"
  dr_recordedAt :: int
  dr_state :: reservation_state

text \<open>The state of a draft is never \<open>reserved\<close>; the \<open>switch\<close> has no such case.\<close>

definition publicBody ::
  "event_draft \<Rightarrow> int option \<Rightarrow> lifecycle_error failure + event_body" where
  "publicBody draft proofStateObservedAt =
    (case dr_state draft of
       Reserved \<Rightarrow> failWith LR_invalid_record
     | Dispatch_started \<Rightarrow>
         if dr_evidenceKind draft \<noteq> None \<or> dr_evidenceAt draft \<noteq> None
         then failWith LR_invalid_record else Inr Event_dispatch_started
     | Pending \<Rightarrow>
         (case dr_evidenceAt draft of
            None \<Rightarrow> failWith LR_invalid_record
          | Some t \<Rightarrow> if dr_evidenceKind draft \<noteq> Some ''operator_pending''
                      then failWith LR_invalid_record else Inr (Event_pending t))
     | Needs_attention \<Rightarrow>
         (case (dr_evidenceAt draft, dr_evidenceKind draft) of
            (Some t, Some kind) \<Rightarrow>
              if kind \<notin> set CASHU_OPERATOR_ATTENTION_REASONS then failWith LR_invalid_record
              else Inr (Event_needs_attention t kind)
          | _ \<Rightarrow> failWith LR_invalid_record)
     | Consumed \<Rightarrow>
         (case (dr_evidenceAt draft, proofStateObservedAt, dr_evidenceKind draft,
                dr_journalEntryId draft) of
            (Some t, Some observed, Some kind, Some journal) \<Rightarrow>
              if kind \<notin> set CASHU_OPERATOR_SUCCESS_EVIDENCE then failWith LR_invalid_record
              else Inr (Event_consumed t kind journal observed)
          | _ \<Rightarrow> failWith LR_invalid_record)
     | Released \<Rightarrow>
         if dr_evidenceKind draft = Some ''pre_dispatch''
         then if dr_evidenceAt draft \<noteq> None \<or> proofStateObservedAt \<noteq> None
              then failWith LR_invalid_record else Inr Event_released_pre_dispatch
         else
         (case (dr_evidenceAt draft, proofStateObservedAt, dr_evidenceKind draft) of
            (Some t, Some observed, Some kind) \<Rightarrow>
              if kind \<notin> set CASHU_OPERATOR_FAILURE_EVIDENCE then failWith LR_invalid_record
              else Inr (Event_released t kind observed)
          | _ \<Rightarrow> failWith LR_invalid_record))"

definition createPublicEvent ::
  "event_draft \<Rightarrow> int \<Rightarrow> int option \<Rightarrow> lifecycle_error failure + lifecycle_event" where
  "createPublicEvent draft sequence proofStateObservedAt =
    (if (dr_state draft = Consumed) \<noteq> (dr_journalEntryId draft \<noteq> None)
     then failWith LR_invalid_record
     else bindR (publicBody draft proofStateObservedAt) (\<lambda>body.
       Inr \<lparr>le_eventId = dr_eventId draft, le_recordedAt = dr_recordedAt draft,
            le_sequence = sequence, le_body = body\<rparr>))"

definition parseEventState :: "string \<Rightarrow> lifecycle_error failure + reservation_state" where
  "parseEventState s =
    (if s = ''dispatch_started'' then Inr Dispatch_started
     else if s = ''pending'' then Inr Pending
     else if s = ''needs_attention'' then Inr Needs_attention
     else if s = ''consumed'' then Inr Consumed
     else if s = ''released'' then Inr Released
     else failWith LR_invalid_record)"

section \<open>The reservation scope and the fingerprints\<close>

record reservation_scope =
  sc_amount :: int
  sc_createdAt :: int
  sc_expiresAt :: int
  sc_invoiceId :: string
  sc_invoiceState :: string
  sc_merchantId :: string
  sc_paidAt :: "int option"
  sc_mintUrl :: string
  sc_operatorId :: string
  sc_paymentId :: string
  sc_reservedAt :: int
  sc_unit :: string

definition createEffectFingerprint :: "cashu_env \<Rightarrow> reservation_scope \<Rightarrow> operator_effect \<Rightarrow> string" where
  "createEffectFingerprint env scope effect =
     env_sha256 env (JObj
       [(''dispatchFingerprint'', JStr (oe_dispatchFingerprint effect)),
        (''effectId'', JStr (oe_effectId effect)), (''invoiceId'', JStr (sc_invoiceId scope)),
        (''kind'', JStr (showEffectKind (oe_kind effect))),
        (''mintUrl'', JStr (sc_mintUrl scope)), (''operatorId'', JStr (sc_operatorId scope)),
        (''operatorReference'', case oe_kind effect of Swap \<Rightarrow> JNull | Melt r _ \<Rightarrow> JStr r),
        (''operatorReferenceExpiresAt'', case oe_kind effect of Swap \<Rightarrow> JNull | Melt _ t \<Rightarrow> JNum t),
        (''paymentId'', JStr (sc_paymentId scope)),
        (''schemaVersion'', JNum (oe_schemaVersion effect)),
        (''startedAt'', JNum (oe_startedAt effect))])"

definition eventJson :: "event_draft \<Rightarrow> int \<Rightarrow> json" where
  "eventJson draft sequence = JObj
     ([(''effectId'', jOpt JStr (dr_effectId draft)), (''eventId'', JStr (dr_eventId draft)),
       (''evidenceAt'', jOpt JNum (dr_evidenceAt draft)),
       (''evidenceKind'', jOpt JStr (dr_evidenceKind draft))]
      @ (case dr_journalEntryId draft of None \<Rightarrow> [] | Some j \<Rightarrow> [(''journalEntryId'', JStr j)])
      @ [(''paymentId'', JStr (dr_paymentId draft)),
       (''proofStateSnapshotFingerprint'', jOpt JStr (dr_proofStateFingerprint draft)),
       (''recordedAt'', JNum (dr_recordedAt draft)),
       (''schemaVersion'', JNum CASHU_PROOF_RESERVATION_LIFECYCLE_SCHEMA_VERSION),
       (''sequence'', JNum sequence), (''state'', JStr (showState (dr_state draft)))])"

definition createEventFingerprint :: "cashu_env \<Rightarrow> event_draft \<Rightarrow> int \<Rightarrow> string" where
  "createEventFingerprint env draft sequence = env_sha256 env (eventJson draft sequence)"

definition createProofStateFingerprint ::
  "cashu_env \<Rightarrow> reservation_scope \<Rightarrow> proof_state_snapshot \<Rightarrow> string" where
  "createProofStateFingerprint env scope snapshot =
     env_sha256 env (JObj
       [(''mintUrl'', JStr (pss_mintUrl snapshot)), (''observedAt'', JNum (pss_observedAt snapshot)),
        (''operatorId'', JStr (sc_operatorId scope)), (''paymentId'', JStr (sc_paymentId scope)),
        (''schemaVersion'', JNum (pss_schemaVersion snapshot)),
        (''states'', JArr (map (\<lambda>s. JObj [(''state'', JStr (showProofStateValue (pse_state s))),
            (''y'', JStr (pse_y s))]) (pss_states snapshot))),
        (''unit'', JStr (sc_unit scope))])"

text \<open>\<open>storeAccount\<close>: the kind of an account and its identifier, null for fee revenue.\<close>

fun storeAccountKind :: "ledger_account \<Rightarrow> string" where
  "storeAccountKind (Operator_ecash i) = ''operator_ecash''"
| "storeAccountKind (Settlement_asset i) = ''settlement_asset''"
| "storeAccountKind (Merchant_payable i) = ''merchant_payable''"
| "storeAccountKind Fee_revenue = ''fee_revenue''"
| "storeAccountKind (Other_account k) = k"

fun storeAccountId :: "ledger_account \<Rightarrow> string option" where
  "storeAccountId (Operator_ecash i) = Some i"
| "storeAccountId (Settlement_asset i) = Some i"
| "storeAccountId (Merchant_payable i) = Some i"
| "storeAccountId Fee_revenue = None"
| "storeAccountId (Other_account k) = None"

fun showSide :: "posting_side \<Rightarrow> string" where
  "showSide Debit = ''debit''"
| "showSide Credit = ''credit''"
| "showSide (Other_side s) = s"

definition accountJson :: "ledger_account \<Rightarrow> json" where
  "accountJson a = JObj [(''id'', jOpt JStr (storeAccountId a)), (''kind'', JStr (storeAccountKind a))]"

definition createAccountingFingerprint ::
  "cashu_env \<Rightarrow> reservation_scope \<Rightarrow> invoice \<Rightarrow> invoice_payment \<Rightarrow> journal_entry \<Rightarrow> string" where
  "createAccountingFingerprint env scope paid payment entry =
     env_sha256 env (JObj
       [(''acceptedAt'', JNum (ip_acceptedAt payment)),
        (''assetAccount'', accountJson (ip_assetAccount payment)),
        (''effectiveAt'', JNum (je_effectiveAt entry)), (''feeAmount'', JNum (ip_feeAmount payment)),
        (''grossAmount'', JNum (ip_grossAmount payment)), (''invoiceId'', JStr (inv_id paid)),
        (''journalEntryId'', JStr (je_id entry)), (''merchantId'', JStr (inv_merchantId paid)),
        (''mintUrl'', JStr (sc_mintUrl scope)), (''netAmount'', JNum (ip_netAmount payment)),
        (''operatorId'', JStr (ip_operatorId payment)), (''paymentId'', JStr (ip_paymentId payment)),
        (''postings'', JArr (map (\<lambda>p. JObj [(''account'', accountJson (po_account p)),
            (''amount'', JNum (po_amount p)), (''side'', JStr (showSide (po_side p)))])
            (je_postings entry))),
        (''schemaVersion'', JNum (je_schemaVersion entry)),
        (''settlementMode'', JStr (showMode (ip_settlementMode payment))),
        (''unit'', JStr (je_unit entry))])"

text \<open>\<^verbatim>\<open>UNIT_PATTERN\<close> with the length and trim checks; \<open>trim\<close> cannot change what it matches.\<close>

definition normalizeUnit :: "string \<Rightarrow> unit + string" where
  "normalizeUnit v =
    (if v = [] \<or> length v > 32 \<or> v \<noteq> jsTrim v
        \<or> \<not> (isLower (hd v) \<or> isDigit (hd v))
        \<or> \<not> list_all (\<lambda>c. isLower c \<or> isDigit c \<or> c = CHR ''.'' \<or> c = CHR ''_'' \<or> c = CHR '':''
               \<or> c = CHR ''-'') (tl v)
     then Inl () else Inr v)"

definition meltQuoteAttemptMatchesReservation :: "stored_attempt \<Rightarrow> reservation_scope \<Rightarrow> bool" where
  "meltQuoteAttemptMatchesReservation attempt scope \<longleftrightarrow>
     qat_paymentId attempt = sc_paymentId scope \<and> qat_invoiceId attempt = sc_invoiceId scope
     \<and> qat_operatorId attempt = sc_operatorId scope \<and> qat_mintUrl attempt = sc_mintUrl scope
     \<and> qr_amount (qat_request attempt) = sc_amount scope \<and> qr_unit (qat_request attempt) = sc_unit scope
     \<and> qat_startedAt attempt \<ge> sc_createdAt scope \<and> qat_startedAt attempt \<ge> sc_reservedAt scope
     \<and> qat_startedAt attempt < sc_expiresAt scope"

section \<open>The abstract state machine\<close>

definition terminal :: "reservation_state \<Rightarrow> bool" where
  "terminal s \<longleftrightarrow> s = Consumed \<or> s = Released"

inductive lifecycle_step :: "reservation_state \<Rightarrow> reservation_state \<Rightarrow> bool" where
  dispatch: "lifecycle_step Reserved Dispatch_started"
| cancel: "lifecycle_step Reserved Released"
| observe: "s \<in> {Dispatch_started, Pending, Needs_attention} \<Longrightarrow>
    s' \<in> {Pending, Needs_attention, Consumed, Released} \<Longrightarrow> lifecycle_step s s'"

code_pred lifecycle_step .

inductive_cases lifecycle_step_cases: "lifecycle_step s s'"

inductive_simps lifecycle_step_from [simp]:
  "lifecycle_step Reserved s'" "lifecycle_step Consumed s'" "lifecycle_step Released s'"
  "lifecycle_step s Reserved" "lifecycle_step s Dispatch_started"

lemma transitionAllowed_step: "transitionAllowed s s' \<longleftrightarrow> lifecycle_step s s'"
  by (cases s; cases s')
    (auto simp: transitionAllowed_def intro: lifecycle_step.intros elim: lifecycle_step_cases)

lemma terminal_no_step: "terminal s \<Longrightarrow> \<not> lifecycle_step s s'"
  by (auto simp: terminal_def)

text \<open>A path of states the machine can run through.\<close>

fun statePath :: "reservation_state \<Rightarrow> reservation_state list \<Rightarrow> bool" where
  "statePath s [] = True"
| "statePath s (s' # ss) = (lifecycle_step s s' \<and> statePath s' ss)"

lemma statePath_append:
  "statePath s (xs @ ys) \<longleftrightarrow> statePath s xs \<and> statePath (last (s # xs)) ys"
  by (induction xs arbitrary: s) auto

lemma statePath_terminal_last:
  "statePath s (xs @ x # ys) \<Longrightarrow> terminal x \<Longrightarrow> ys = []"
  by (cases ys) (auto simp: statePath_append terminal_no_step)

lemma statePath_dispatch_once:
  "statePath s ss \<Longrightarrow> s \<noteq> Reserved \<Longrightarrow> Dispatch_started \<notin> set ss"
  by (induction ss arbitrary: s) (auto elim: lifecycle_step_cases)

end
