(* ===== verification/Lifecycle_Store.thy ===== *)
theory Lifecycle_Store
  imports Lifecycle
begin

text \<open>
  \<^verbatim>\<open>postgres-cashu-proof-reservation-lifecycle-repository.ts\<close>: the reads, checks and writes of
  the lifecycle repository, method by method and in the code's order.  A method takes the
  environment and the database; a writing method returns the new database, and an error leaves
  the old one (the transaction rolls back).
\<close>

type_synonym 'a lifecycle_result = "lifecycle_error failure + 'a"

section \<open>Reading the reservation\<close>

definition invalidRecord :: "'e + 'a \<Rightarrow> 'a lifecycle_result" where
  "invalidRecord = catchR (\<lambda>_. Repository_failure LR_invalid_record)"

lemma invalid_iff [simp]:
  "invalidRecord m = Inr x \<longleftrightarrow> m = Inr x" "invalidRecord (Inr x) = Inr x"
  "invalidInput m = Inr x \<longleftrightarrow> m = Inr x" "invalidInput (Inr x) = Inr x"
  by (simp_all add: invalidRecord_def invalidInput_def catchR_eq_Inr)

definition scopeOfRow ::
  "cashu_env \<Rightarrow> string \<Rightarrow> reservation_row \<Rightarrow> invoice_row \<Rightarrow> reservation_scope lifecycle_result" where
  "scopeOfRow env requestedPaymentId row invoiceRow =
     bindR (invalidRecord (identifierOf (rs_payment_id row))) (\<lambda>storedPaymentId.
     bindR (invalidRecord (identifierOf (rs_invoice_id row))) (\<lambda>storedInvoiceId.
     bindR (invalidRecord (identifierOf (ir_merchant_id invoiceRow))) (\<lambda>storedMerchantId.
     bindR (invalidRecord (identifierOf (rs_operator_id row))) (\<lambda>storedOperatorId.
     bindR (invalidRecord (normalizeCashuMintUrl env (rs_mint_url row))) (\<lambda>mintUrl.
     bindR (invalidRecord (normalizeUnit (rs_unit row))) (\<lambda>unit.
     bindR (invalidRecord (readBigint () (ir_created_at invoiceRow))) (\<lambda>createdAt.
     bindR (invalidRecord (readBigint () (ir_expires_at invoiceRow))) (\<lambda>expiresAt.
     bindR (case ir_paid_at invoiceRow of None \<Rightarrow> Inr None
            | Some t \<Rightarrow> bindR (invalidRecord (readBigint () t)) (\<lambda>u. Inr (Some u))) (\<lambda>paidAt.
     if rs_schema_version row \<noteq> 1 \<or> storedPaymentId \<noteq> requestedPaymentId
        \<or> mintUrl \<noteq> rs_mint_url row \<or> unit \<noteq> rs_unit row
        \<or> \<not> (ir_state invoiceRow = ''open'' \<and> paidAt = None
             \<or> ir_state invoiceRow = ''paid''
               \<and> (case paidAt of None \<Rightarrow> False | Some t \<Rightarrow> createdAt \<le> t \<and> t < expiresAt))
     then failWith LR_invalid_record
     else
     bindR (invalidRecord (readBigint () (ir_amount invoiceRow))) (\<lambda>amount.
     bindR (invalidRecord (readBigint () (rs_reserved_at row))) (\<lambda>reservedAt.
     Inr \<lparr>sc_amount = amount, sc_createdAt = createdAt, sc_expiresAt = expiresAt,
          sc_invoiceId = storedInvoiceId, sc_invoiceState = ir_state invoiceRow,
          sc_merchantId = storedMerchantId, sc_paidAt = paidAt, sc_mintUrl = mintUrl,
          sc_operatorId = storedOperatorId, sc_paymentId = storedPaymentId,
          sc_reservedAt = reservedAt, sc_unit = unit\<rparr>)))))))))))"

definition loadReservation ::
  "cashu_env \<Rightarrow> db \<Rightarrow> string \<Rightarrow> reservation_scope option lifecycle_result" where
  "loadReservation env db requestedPaymentId =
    (case findReservation db requestedPaymentId of
       None \<Rightarrow> Inr None
     | Some row \<Rightarrow>
     case findInvoice db (rs_invoice_id row) of
       None \<Rightarrow> Inr None
     | Some invoiceRow \<Rightarrow>
         bindR (scopeOfRow env requestedPaymentId row invoiceRow) (\<lambda>scope. Inr (Some scope)))"

text \<open>With \<open>lock\<close> the code reads again under the row lock it just took.\<close>

definition requireReservation ::
  "cashu_env \<Rightarrow> db \<Rightarrow> string \<Rightarrow> bool \<Rightarrow> reservation_scope lifecycle_result" where
  "requireReservation env db requestedPaymentId lock =
     bindR (loadReservation env db requestedPaymentId) (\<lambda>found.
     case found of
       None \<Rightarrow> failWith LR_reservation_not_found
     | Some scope \<Rightarrow>
         if \<not> lock then Inr scope
         else bindR (loadReservation env db requestedPaymentId) (\<lambda>again.
              case again of None \<Rightarrow> failWith LR_invalid_record | Some scope \<Rightarrow> Inr scope))"

section \<open>The settlement route\<close>

record settlement_route =
  rte_destination :: string
  rte_mode :: settlement_mode

definition scopeInvoice :: "reservation_scope \<Rightarrow> invoice_base" where
  "scopeInvoice scope =
     \<lparr>inv_amount = sc_amount scope, inv_createdAt = sc_createdAt scope,
      inv_expiresAt = sc_expiresAt scope, inv_id = sc_invoiceId scope,
      inv_merchantId = sc_merchantId scope\<rparr>"

definition requireSettlementRoute ::
  "cashu_env \<Rightarrow> db \<Rightarrow> reservation_scope \<Rightarrow> settlement_route lifecycle_result" where
  "requireSettlementRoute env db scope =
    (let requests = filter (\<lambda>r. rq_invoice_id r = sc_invoiceId scope
           \<and> rq_merchant_id r = sc_merchantId scope) (db_requests db);
         operators = sort_key rt_position (filter (\<lambda>r. rt_invoice_id r = sc_invoiceId scope
           \<and> rt_merchant_id r = sc_merchantId scope) (db_routes db))
     in case requests of
          [requestRow] \<Rightarrow>
            bindR (invalidRecord (createInvoiceV1 (scopeInvoice scope))) (\<lambda>issued.
            bindR (invalidRecord (reconstructStoredCashuPaymentRequest env
                     (storedRequest (Some requestRow)) operators issued)) (\<lambda>issuedRequest.
            case (findFirst (\<lambda>r. ar_operatorId r = sc_operatorId scope
                    \<and> ar_mintUrl r = sc_mintUrl scope) (preq_operators issuedRequest),
                  findFirst (\<lambda>r. rt_operator_id r = sc_operatorId scope
                    \<and> rt_mint_url r = sc_mintUrl scope) operators) of
              (Some route, Some routeRow) \<Rightarrow>
                bindR (invalidRecord (cashuStellarSettlementDestination
                         (rt_settlement_destination routeRow))) (\<lambda>destination.
                Inr \<lparr>rte_destination = destination, rte_mode = ar_mode route\<rparr>)
            | _ \<Rightarrow> failWith LR_invalid_record))
        | _ \<Rightarrow> failWith LR_invalid_record)"

section \<open>Quote evidence\<close>

definition loadMeltQuotedEvidence ::
  "cashu_env \<Rightarrow> db \<Rightarrow> string \<Rightarrow> quoted_evidence option lifecycle_result" where
  "loadMeltQuotedEvidence env db requestedPaymentId =
    (case findFirst (\<lambda>a. qa_payment_id a = requestedPaymentId) (db_quoteAttempts db) of
       None \<Rightarrow> Inr None
     | Some attemptRow \<Rightarrow>
     case findFirst (\<lambda>out. qo_attempt_id out = qa_attempt_id attemptRow) (db_quoteOutcomes db) of
       None \<Rightarrow> Inr None
     | Some outcomeRow \<Rightarrow>
         bindR (invalidRecord (mapCashuStellarMeltQuotedEvidenceRecord env attemptRow outcomeRow
           (sort_key qb_observed_at (filter (\<lambda>b. qb_attempt_id b = qa_attempt_id attemptRow)
              (db_quoteObservations db))))) (\<lambda>evidence. Inr (Some evidence)))"

text \<open>\<open>immutableTermsMatch\<close>, evaluated left to right with the calls that can throw.\<close>

definition immutableTermsMatch ::
  "cashu_env \<Rightarrow> quoted_evidence \<Rightarrow> melt_quote option \<Rightarrow> settlement_route \<Rightarrow> reservation_scope
     \<Rightarrow> int \<Rightarrow> string \<Rightarrow> int \<Rightarrow> bool lifecycle_result" where
  "immutableTermsMatch env evidence dispatchQuote route scope startedAt reference expiresAt =
    (if \<not> meltQuoteAttemptMatchesReservation (qe_attempt evidence) scope
        \<or> qat_mintUrl (qe_attempt evidence) \<noteq> sc_mintUrl scope
     then Inr False
     else
     bindR (other (cashuStellarMeltRequestDestination env (qat_request (qe_attempt evidence))))
       (\<lambda>destination.
     if destination \<noteq> rte_destination route then Inr False
     else case dispatchQuote of
       None \<Rightarrow> Inr False
     | Some quote \<Rightarrow>
         bindR (other (identifierOf (mq_quoteId quote))) (\<lambda>quoteReference.
         Inr (quoteReference = reference \<and> mq_expiry quote = expiresAt
              \<and> qe_recordedAt evidence \<le> startedAt \<and> mq_state quote = Quote_unpaid))))"

definition assertMeltQuoteEvidence ::
  "cashu_env \<Rightarrow> db \<Rightarrow> reservation_scope \<Rightarrow> int \<Rightarrow> string \<Rightarrow> int \<Rightarrow> bool \<Rightarrow> unit lifecycle_result" where
  "assertMeltQuoteEvidence env db scope startedAt reference expiresAt dispatch =
     bindR (loadMeltQuotedEvidence env db (sc_paymentId scope)) (\<lambda>found.
     case found of
       None \<Rightarrow> failWith (if dispatch then LR_quote_evidence_missing else LR_invalid_record)
     | Some evidence \<Rightarrow>
         let dispatchQuote =
               atLast (filter (\<lambda>q. mq_observedAt q \<le> startedAt) (qe_observations evidence));
             latestQuote = atLast (qe_observations evidence)
         in
         bindR (requireSettlementRoute env db scope) (\<lambda>route.
         bindR (immutableTermsMatch env evidence dispatchQuote route scope startedAt reference
                  expiresAt) (\<lambda>termsMatch.
         let dispatchStateMatches = (case latestQuote of None \<Rightarrow> False
               | Some q \<Rightarrow> mq_state q = Quote_unpaid \<and> mq_observedAt q \<le> startedAt)
         in if \<not> termsMatch \<or> dispatch \<and> \<not> dispatchStateMatches
            then failWith (if dispatch then LR_quote_evidence_mismatch else LR_invalid_record)
            else Inr ())))"

section \<open>Proof-state evidence\<close>

definition proofStateInputs ::
  "reservation_scope \<Rightarrow> string \<Rightarrow> bool \<Rightarrow> (proof_entry_row \<times> proof_row) list \<Rightarrow> nat
     \<Rightarrow> proof_state_entry_input list lifecycle_result" where
  "proofStateInputs scope requiredState inputEvidence rows start =
     mapR (\<lambda>(position, entry, proof).
       if pe_payment_id entry \<noteq> sc_paymentId scope \<or> pe_position entry \<noteq> int position
          \<or> pf_position proof \<noteq> int position \<or> pe_proof_y entry \<noteq> pf_proof_y proof
       then failWith LR_invalid_record
       else if pe_state entry \<noteq> requiredState
       then failWith (if inputEvidence then LR_proof_state_evidence_missing else LR_invalid_record)
       else Inr \<lparr>psi_state = pe_state entry, psi_y = pe_proof_y entry\<rparr>) (List.enumerate start rows)"

definition validateProofStateEvidenceByFingerprint ::
  "cashu_env \<Rightarrow> db \<Rightarrow> reservation_scope \<Rightarrow> string \<Rightarrow> string \<Rightarrow> bool \<Rightarrow> int lifecycle_result" where
  "validateProofStateEvidenceByFingerprint env db scope fingerprint requiredState inputEvidence =
    (let entries = sort_key pe_position (proofEntriesOf db fingerprint);
         proofs = sort_key pf_position
           (filter (\<lambda>p. pf_payment_id p = sc_paymentId scope) (db_proofs db))
     in case findFirst (\<lambda>x. px_snapshot_fingerprint x = fingerprint
              \<and> px_payment_id x = sc_paymentId scope) (db_proofObservations db) of
          None \<Rightarrow> failWith LR_invalid_record
        | Some row \<Rightarrow>
            if px_schema_version row \<noteq> CASHU_PROOF_STATE_SNAPSHOT_SCHEMA_VERSION
               \<or> px_operator_id row \<noteq> sc_operatorId scope \<or> px_mint_url row \<noteq> sc_mintUrl scope
               \<or> px_unit row \<noteq> sc_unit scope \<or> entries = [] \<or> length entries \<noteq> length proofs
            then failWith LR_invalid_record
            else
            bindR (invalidRecord (readBigint () (px_observed_at row))) (\<lambda>observedAt.
            bindR (proofStateInputs scope requiredState inputEvidence (zip entries proofs) 0) (\<lambda>states.
            bindR (invalidRecord (createCashuProofStateSnapshotV1 env
                     \<lparr>pssi_mintUrl = px_mint_url row, pssi_observedAt = observedAt,
                      pssi_schemaVersion = Some (px_schema_version row), pssi_states = states\<rparr>))
              (\<lambda>snapshot.
            if createProofStateFingerprint env scope snapshot \<noteq> fingerprint
               \<or> pss_observedAt snapshot < sc_reservedAt scope
            then failWith LR_invalid_record
            else Inr (pss_observedAt snapshot)))))"

definition resolveProofStateEvidence ::
  "cashu_env \<Rightarrow> db \<Rightarrow> reservation_scope \<Rightarrow> int \<Rightarrow> string \<Rightarrow> string lifecycle_result" where
  "resolveProofStateEvidence env db scope observedAt requiredState =
    (case findFirst (\<lambda>x. px_payment_id x = sc_paymentId scope \<and> px_observed_at x = observedAt)
            (db_proofObservations db) of
       None \<Rightarrow> failWith LR_proof_state_evidence_missing
     | Some row \<Rightarrow>
         bindR (validateProofStateEvidenceByFingerprint env db scope
                  (px_snapshot_fingerprint row) requiredState True) (\<lambda>_.
         Inr (px_snapshot_fingerprint row)))"

definition proofStateObservedAt :: "db \<Rightarrow> string \<Rightarrow> string \<Rightarrow> int lifecycle_result" where
  "proofStateObservedAt db pid fingerprint =
    (case findFirst (\<lambda>x. px_payment_id x = pid \<and> px_snapshot_fingerprint x = fingerprint)
            (db_proofObservations db) of
       None \<Rightarrow> failWith LR_invalid_record
     | Some row \<Rightarrow> invalidRecord (readBigint () (px_observed_at row)))"

section \<open>Reading the lifecycle\<close>

definition mapEffect ::
  "cashu_env \<Rightarrow> effect_row \<Rightarrow> reservation_scope \<Rightarrow> operator_effect lifecycle_result" where
  "mapEffect env row scope =
    (if ef_effect_kind row \<notin> {''swap'', ''melt''} then failWith LR_invalid_input
     else
     bindR (invalidRecord (cashuOperatorDispatchFingerprint (ef_dispatch_fingerprint row)))
       (\<lambda>dispatchFingerprint.
     bindR (invalidRecord (identifierOf (ef_effect_id row))) (\<lambda>effectId.
     bindR (invalidRecord (readBigint () (ef_started_at row))) (\<lambda>startedAt.
     bindR (if ef_effect_kind row = ''swap'' then Inr Swap
            else
            bindR (invalidRecord (identifierOf
                     (case ef_operator_reference row of None \<Rightarrow> '''' | Some r \<Rightarrow> r))) (\<lambda>reference.
            bindR (invalidRecord (case ef_operator_reference_expires_at row of
                     None \<Rightarrow> parseSafeInteger () '''' | Some t \<Rightarrow> readBigint () t)) (\<lambda>expiresAt.
            Inr (Melt reference expiresAt)))) (\<lambda>kind.
     let effect = \<lparr>oe_dispatchFingerprint = dispatchFingerprint, oe_effectId = effectId,
           oe_kind = kind, oe_schemaVersion = CASHU_PROOF_RESERVATION_LIFECYCLE_SCHEMA_VERSION,
           oe_startedAt = startedAt\<rparr>
     in if ef_schema_version row \<noteq> CASHU_PROOF_RESERVATION_LIFECYCLE_SCHEMA_VERSION
           \<or> ef_payment_id row \<noteq> sc_paymentId scope \<or> ef_invoice_id row \<noteq> sc_invoiceId scope
           \<or> ef_operator_id row \<noteq> sc_operatorId scope \<or> ef_mint_url row \<noteq> sc_mintUrl scope
           \<or> ef_effect_fingerprint row \<noteq> createEffectFingerprint env scope effect
           \<or> kind = Swap \<and> (ef_operator_reference row \<noteq> None
               \<or> ef_operator_reference_expires_at row \<noteq> None)
           \<or> (case kind of Swap \<Rightarrow> False | Melt _ expiresAt \<Rightarrow> expiresAt \<le> startedAt)
           \<or> startedAt < sc_reservedAt scope \<or> startedAt < sc_createdAt scope
           \<or> startedAt \<ge> sc_expiresAt scope
        then failWith LR_invalid_record
        else Inr effect)))))"

definition draftOfRow ::
  "reservation_scope \<Rightarrow> event_row \<Rightarrow> reservation_state \<Rightarrow> event_draft" where
  "draftOfRow scope row state =
     \<lparr>dr_effectId = ev_effect_id row, dr_eventId = ev_event_id row,
      dr_evidenceAt = ev_evidence_at row, dr_evidenceKind = ev_evidence_kind row,
      dr_journalEntryId = ev_journal_entry_id row, dr_paymentId = sc_paymentId scope,
      dr_proofStateFingerprint = ev_proof_state_fingerprint row,
      dr_recordedAt = ev_recorded_at row, dr_state = state\<rparr>"

definition optR :: "('a \<Rightarrow> 'e + 'b) \<Rightarrow> 'a option \<Rightarrow> 'e + 'b option" where
  "optR f v = (case v of None \<Rightarrow> Inr None | Some x \<Rightarrow> bindR (f x) (\<lambda>y. Inr (Some y)))"

definition mapEvent ::
  "cashu_env \<Rightarrow> db \<Rightarrow> event_row \<Rightarrow> reservation_scope \<Rightarrow> operator_effect option
     \<Rightarrow> lifecycle_event lifecycle_result" where
  "mapEvent env db row scope effect =
    (if ev_schema_version row \<noteq> CASHU_PROOF_RESERVATION_LIFECYCLE_SCHEMA_VERSION
        \<or> ev_payment_id row \<noteq> sc_paymentId scope \<or> \<not> isSafeInteger (ev_sequence row)
        \<or> ev_sequence row < 0
     then failWith LR_invalid_record
     else
     bindR (invalidRecord (identifierOf (ev_event_id row))) (\<lambda>eventId.
     bindR (invalidRecord (readBigint () (ev_recorded_at row))) (\<lambda>recordedAt.
     bindR (invalidRecord (optR identifierOf (ev_effect_id row))) (\<lambda>effectId.
     bindR (invalidRecord (optR identifierOf (ev_journal_entry_id row))) (\<lambda>journalEntryId.
     if effectId \<noteq> map_option oe_effectId effect then failWith LR_invalid_record
     else
     bindR (invalidRecord (optR (readBigint ()) (ev_evidence_at row))) (\<lambda>evidenceAt.
     bindR (optR (\<lambda>fingerprint. validateProofStateEvidenceByFingerprint env db scope fingerprint
              (if ev_state row = ''consumed'' then ''SPENT'' else ''UNSPENT'') False)
              (ev_proof_state_fingerprint row)) (\<lambda>proofObservedAt.
     bindR (parseEventState (ev_state row)) (\<lambda>state.
     let draft = draftOfRow scope row state in
     bindR (createPublicEvent draft (ev_sequence row) proofObservedAt) (\<lambda>event.
     if createEventFingerprint env draft (ev_sequence row) \<noteq> ev_event_fingerprint row
        \<or> recordedAt < sc_reservedAt scope
        \<or> (case evidenceAt of None \<Rightarrow> False | Some t \<Rightarrow> t > recordedAt)
        \<or> \<not> eventMatchesEffect event effect
     then failWith LR_invalid_record
     else Inr event)))))))))"

text \<open>The loop over the events: the sequence, the transition rule, and time never going back.\<close>

fun loadEvents ::
  "cashu_env \<Rightarrow> db \<Rightarrow> reservation_scope \<Rightarrow> operator_effect option \<Rightarrow> int \<Rightarrow> reservation_state
     \<Rightarrow> lifecycle_event option \<Rightarrow> event_row list
     \<Rightarrow> (lifecycle_event list \<times> reservation_state) lifecycle_result" where
  "loadEvents env db scope effect sequence current previous [] = Inr ([], current)"
| "loadEvents env db scope effect sequence current previous (row # rows) =
     bindR (mapEvent env db row scope effect) (\<lambda>event.
     if ev_sequence row \<noteq> sequence \<or> \<not> transitionAllowed current (eventState (le_body event))
        \<or> (case previous of None \<Rightarrow> False | Some p \<Rightarrow> le_recordedAt event < le_recordedAt p)
     then failWith LR_invalid_record
     else
     bindR (loadEvents env db scope effect (sequence + 1) (eventState (le_body event)) (Some event)
              rows) (\<lambda>(events, final). Inr (event # events, final)))"

definition assertProjection :: "db \<Rightarrow> string \<Rightarrow> reservation_state \<Rightarrow> bool \<Rightarrow> unit lifecycle_result" where
  "assertProjection db pid state hasEffect =
    (let reservedProofs = reservedProofCount db pid;
         activeProofClaims = length (filter (\<lambda>c. pc_payment_id c = pid) (db_proofClaims db));
         activeInvoiceClaims = invoiceClaimCount db pid
     in if reservedProofs = 0
           \<or> state = Released \<and> (activeProofClaims \<noteq> 0 \<or> activeInvoiceClaims \<noteq> 0)
           \<or> state \<noteq> Released \<and> activeProofClaims \<noteq> reservedProofs
           \<or> state \<noteq> Released \<and> activeInvoiceClaims \<noteq> (if hasEffect then 1 else 0)
        then failWith LR_invalid_record else Inr ())"

definition loadLifecycle :: "cashu_env \<Rightarrow> db \<Rightarrow> reservation_scope \<Rightarrow> lifecycle lifecycle_result" where
  "loadLifecycle env db scope =
    (let effectRows = filter (\<lambda>e. ef_payment_id e = sc_paymentId scope) (db_effects db);
         eventRows = sort_key ev_sequence (eventsOf db (sc_paymentId scope))
     in
     bindR (case effectRows of [] \<Rightarrow> Inr None
            | row # _ \<Rightarrow> bindR (mapEffect env row scope) (\<lambda>e. Inr (Some e))) (\<lambda>effect.
     if length effectRows > 1 \<or> effect \<noteq> None \<and> eventRows = [] then failWith LR_invalid_record
     else
     bindR (case effect of None \<Rightarrow> Inr ()
            | Some e \<Rightarrow> (case oe_kind e of Swap \<Rightarrow> Inr ()
                | Melt reference expiresAt \<Rightarrow>
                    assertMeltQuoteEvidence env db scope (oe_startedAt e) reference expiresAt False))
       (\<lambda>_.
     bindR (loadEvents env db scope effect 0 Reserved None eventRows) (\<lambda>(events, state).
     if effect = None \<and> list_ex (\<lambda>e. eventState (le_body e) \<noteq> Released) events
        \<or> effect \<noteq> None \<and> map_option (eventState \<circ> le_body) (nthOpt events 0) \<noteq> Some Dispatch_started
     then failWith LR_invalid_record
     else
     bindR (assertProjection db (sc_paymentId scope) state (effect \<noteq> None)) (\<lambda>_.
     Inr \<lparr>lc_effect = effect, lc_events = events, lc_paymentId = sc_paymentId scope,
          lc_schemaVersion = CASHU_PROOF_RESERVATION_LIFECYCLE_SCHEMA_VERSION,
          lc_state = state\<rparr>)))))"

section \<open>Evidence checks of a transition\<close>

definition assertMeltPaidEvidence ::
  "cashu_env \<Rightarrow> db \<Rightarrow> reservation_scope \<Rightarrow> string \<Rightarrow> int \<Rightarrow> int \<Rightarrow> unit lifecycle_result" where
  "assertMeltPaidEvidence env db scope reference expiresAt evidenceAt =
     bindR (loadMeltQuotedEvidence env db (sc_paymentId scope)) (\<lambda>found.
     case found of
       None \<Rightarrow> failWith LR_quote_evidence_missing
     | Some evidence \<Rightarrow>
     case findFirst (\<lambda>q. mq_observedAt q = evidenceAt) (qe_observations evidence) of
       None \<Rightarrow> failWith LR_quote_evidence_missing
     | Some paid \<Rightarrow>
         if \<not> meltQuoteAttemptMatchesReservation (qe_attempt evidence) scope
            \<or> qat_mintUrl (qe_attempt evidence) \<noteq> sc_mintUrl scope
         then failWith LR_quote_evidence_mismatch
         else
         bindR (other (identifierOf (mq_quoteId paid))) (\<lambda>quoteReference.
         if quoteReference \<noteq> reference \<or> mq_expiry paid \<noteq> expiresAt \<or> mq_state paid \<noteq> Quote_paid
         then failWith LR_quote_evidence_mismatch else Inr ()))"

definition assertEffectEvidence ::
  "cashu_env \<Rightarrow> db \<Rightarrow> reservation_scope \<Rightarrow> string \<Rightarrow> string \<Rightarrow> int \<Rightarrow> int
     \<Rightarrow> operator_effect lifecycle_result" where
  "assertEffectEvidence env db scope effectId evidenceKind evidenceAt recordedAt =
     bindR (loadLifecycle env db scope) (\<lambda>lifecycle.
     case lc_effect lifecycle of
       None \<Rightarrow> failWith LR_invalid_transition
     | Some effect \<Rightarrow>
         if oe_effectId effect \<noteq> effectId
            \<or> \<not> evidenceMatchesEffect (Some evidenceKind) (oe_kind effect)
            \<or> \<not> evidenceTimeMatchesEffect (Some evidenceKind) evidenceAt effect
            \<or> evidenceAt < oe_startedAt effect \<or> evidenceAt > recordedAt
         then failWith LR_invalid_transition
         else if evidenceKind = ''melt_paid''
         then (case oe_kind effect of
                 Swap \<Rightarrow> failWith LR_invalid_transition
               | Melt reference expiresAt \<Rightarrow>
                   bindR (assertMeltPaidEvidence env db scope reference expiresAt evidenceAt) (\<lambda>_.
                   Inr effect))
         else Inr effect)"

text \<open>The condition of \<open>assertLatestMeltReleaseEvidence\<close>, left to right.\<close>

definition latestReleaseQuote ::
  "cashu_env \<Rightarrow> quoted_evidence option \<Rightarrow> settlement_route \<Rightarrow> reservation_scope \<Rightarrow> string \<Rightarrow> int \<Rightarrow> int
     \<Rightarrow> bool lifecycle_result" where
  "latestReleaseQuote env found route scope reference expiresAt evidenceAt =
    (case found of
       None \<Rightarrow> Inr False
     | Some evidence \<Rightarrow>
     case atLast (qe_observations evidence) of
       None \<Rightarrow> Inr False
     | Some latest \<Rightarrow>
         if \<not> meltQuoteAttemptMatchesReservation (qe_attempt evidence) scope
            \<or> qat_mintUrl (qe_attempt evidence) \<noteq> sc_mintUrl scope
         then Inr False
         else
         bindR (other (cashuStellarMeltRequestDestination env (qat_request (qe_attempt evidence))))
           (\<lambda>destination.
         if destination \<noteq> rte_destination route then Inr False
         else
         bindR (other (identifierOf (mq_quoteId latest))) (\<lambda>quoteReference.
         Inr (quoteReference = reference \<and> mq_expiry latest = expiresAt
              \<and> mq_observedAt latest = evidenceAt \<and> mq_state latest = Quote_unpaid))))"

definition assertLatestMeltReleaseEvidence ::
  "cashu_env \<Rightarrow> db \<Rightarrow> reservation_scope \<Rightarrow> string \<Rightarrow> int \<Rightarrow> int \<Rightarrow> int \<Rightarrow> string
     \<Rightarrow> unit lifecycle_result" where
  "assertLatestMeltReleaseEvidence env db scope reference expiresAt evidenceAt observedAt fingerprint =
     bindR (loadMeltQuotedEvidence env db (sc_paymentId scope)) (\<lambda>found.
     bindR (requireSettlementRoute env db scope) (\<lambda>route.
     bindR (latestReleaseQuote env found route scope reference expiresAt evidenceAt) (\<lambda>ok.
     if \<not> ok then failWith LR_invalid_transition
     else case latestProofObservation db (sc_paymentId scope) of
       None \<Rightarrow> failWith LR_proof_state_evidence_missing
     | Some latestProof \<Rightarrow>
         if px_snapshot_fingerprint latestProof \<noteq> fingerprint
         then failWith LR_proof_state_evidence_missing
         else
         bindR (invalidRecord (readBigint () (px_observed_at latestProof))) (\<lambda>latestAt.
         if latestAt \<noteq> observedAt then failWith LR_proof_state_evidence_missing else Inr ()))))"

section \<open>Writing an event\<close>

record lifecycle_change =
  ch_lifecycle :: lifecycle
  ch_replayed :: bool

definition eventRowOf :: "cashu_env \<Rightarrow> event_draft \<Rightarrow> int \<Rightarrow> event_row" where
  "eventRowOf env draft sequence =
     \<lparr>ev_event_id = dr_eventId draft,
      ev_event_fingerprint = createEventFingerprint env draft sequence,
      ev_payment_id = dr_paymentId draft, ev_sequence = sequence,
      ev_schema_version = CASHU_PROOF_RESERVATION_LIFECYCLE_SCHEMA_VERSION,
      ev_state = showState (dr_state draft), ev_recorded_at = dr_recordedAt draft,
      ev_effect_id = dr_effectId draft, ev_evidence_kind = dr_evidenceKind draft,
      ev_evidence_at = dr_evidenceAt draft, ev_journal_entry_id = dr_journalEntryId draft,
      ev_proof_state_fingerprint = dr_proofStateFingerprint draft\<rparr>"

definition insertEvent :: "cashu_env \<Rightarrow> db \<Rightarrow> event_draft \<Rightarrow> int \<Rightarrow> db lifecycle_result" where
  "insertEvent env db draft sequence = liftDb (insertEventRow db (eventRowOf env draft sequence))"

definition releaseActiveClaims :: "string \<Rightarrow> db \<Rightarrow> db" where
  "releaseActiveClaims pid db = deleteInvoiceClaims pid (deleteProofClaims pid db)"

definition replayEvent ::
  "cashu_env \<Rightarrow> db \<Rightarrow> event_draft \<Rightarrow> operator_effect option \<Rightarrow> lifecycle_change option lifecycle_result" where
  "replayEvent env db draft expectedEffect =
    (case findFirst (\<lambda>e. ev_event_id e = dr_eventId draft) (db_events db) of
       None \<Rightarrow> Inr None
     | Some existing \<Rightarrow>
         if ev_payment_id existing \<noteq> dr_paymentId draft then failWith LR_event_conflict
         else
         bindR (requireReservation env db (dr_paymentId draft) False) (\<lambda>scope.
         bindR (loadLifecycle env db scope) (\<lambda>lifecycle.
         if ev_event_fingerprint existing \<noteq> createEventFingerprint env draft (ev_sequence existing)
         then failWith LR_event_conflict
         else
         let result = Inr (Some \<lparr>ch_lifecycle = lifecycle, ch_replayed = True\<rparr>)
         in case expectedEffect of
              None \<Rightarrow> result
            | Some expected \<Rightarrow>
                (case lc_effect lifecycle of
                   None \<Rightarrow> failWith LR_effect_conflict
                 | Some stored \<Rightarrow>
                     if createEffectFingerprint env scope stored
                        \<noteq> createEffectFingerprint env scope expected
                     then failWith LR_effect_conflict else result))))"

definition reloaded ::
  "cashu_env \<Rightarrow> reservation_scope \<Rightarrow> db \<Rightarrow> (db \<times> lifecycle_change) lifecycle_result" where
  "reloaded env scope db =
     bindR (loadLifecycle env db scope) (\<lambda>lifecycle.
     Inr (db, \<lparr>ch_lifecycle = lifecycle, ch_replayed = False\<rparr>))"

text \<open>The guard of a transition after dispatch.\<close>

definition transitionGuard :: "event_draft \<Rightarrow> lifecycle \<Rightarrow> operator_effect \<Rightarrow> bool" where
  "transitionGuard draft current effect \<longleftrightarrow>
     dr_effectId draft = Some (oe_effectId effect)
     \<and> lc_state current \<in> {Dispatch_started, Pending, Needs_attention}
     \<and> dr_recordedAt draft \<ge> (case atLast (lc_events current) of
          None \<Rightarrow> oe_startedAt effect | Some e \<Rightarrow> le_recordedAt e)
     \<and> (case dr_evidenceAt draft of None \<Rightarrow> False
        | Some t \<Rightarrow> oe_startedAt effect \<le> t \<and> t \<le> dr_recordedAt draft
            \<and> evidenceMatchesEffect (dr_evidenceKind draft) (oe_kind effect)
            \<and> evidenceTimeMatchesEffect (dr_evidenceKind draft) t effect)"

definition proofStateInOrder :: "db \<Rightarrow> reservation_scope \<Rightarrow> event_draft \<Rightarrow> unit lifecycle_result" where
  "proofStateInOrder db scope draft =
    (case dr_proofStateFingerprint draft of
       None \<Rightarrow> Inr ()
     | Some fingerprint \<Rightarrow>
         bindR (proofStateObservedAt db (sc_paymentId scope) fingerprint) (\<lambda>observedAt.
         if (case dr_evidenceAt draft of None \<Rightarrow> False | Some t \<Rightarrow> observedAt < t)
            \<or> observedAt > dr_recordedAt draft
         then failWith LR_invalid_transition else Inr ()))"

definition persistTransitionInTransaction ::
  "cashu_env \<Rightarrow> reservation_scope \<Rightarrow> event_draft \<Rightarrow> db \<Rightarrow> (db \<times> lifecycle_change) lifecycle_result" where
  "persistTransitionInTransaction env scope draft db =
     bindR (replayEvent env db draft None) (\<lambda>replay.
     case replay of
       Some result \<Rightarrow> Inr (db, result)
     | None \<Rightarrow>
     bindR (loadLifecycle env db scope) (\<lambda>current.
     if dr_state draft = Released \<and> dr_evidenceKind draft = Some ''pre_dispatch''
     then if lc_state current \<noteq> Reserved \<or> lc_effect current \<noteq> None
             \<or> dr_recordedAt draft < sc_reservedAt scope
          then failWith LR_invalid_transition
          else
          bindR (insertEvent env db draft 0) (\<lambda>inserted.
          reloaded env scope (releaseActiveClaims (sc_paymentId scope) inserted))
     else case lc_effect current of
       None \<Rightarrow> failWith LR_invalid_transition
     | Some effect \<Rightarrow>
         if \<not> transitionGuard draft current effect then failWith LR_invalid_transition
         else
         bindR (proofStateInOrder db scope draft) (\<lambda>_.
         bindR (insertEvent env db draft (int (length (lc_events current)))) (\<lambda>inserted.
         reloaded env scope (if dr_state draft = Released
           then releaseActiveClaims (sc_paymentId scope) inserted else inserted)))))"

end
