(* ===== verification/Lifecycle_Operations.thy ===== *)
theory Lifecycle_Operations
  imports Lifecycle_Store
begin

text \<open>
  The public methods of \<^verbatim>\<open>postgres-cashu-proof-reservation-lifecycle-repository.ts\<close>, with the
  accounting of an accepted payment.  \<open>mapStorageError\<close> gives every failure its repository code.
\<close>

section \<open>Errors\<close>

definition mapStorageError :: "lifecycle_error failure \<Rightarrow> lifecycle_error" where
  "mapStorageError f = (case f of
       Repository_failure c \<Rightarrow> c
     | Database_failure (Unique_violation name) \<Rightarrow>
         if take 34 name = ''merchant_invoice_payment_journals_'' then LR_accounting_conflict
         else if name = ''cashu_active_invoice_payment_claims_pkey'' then LR_invoice_claimed
         else if name \<in> {''cashu_operator_effects_pkey'',
              ''cashu_operator_effects_effect_fingerprint_key'',
              ''cashu_operator_effects_payment_id_key'',
              ''cashu_operator_effects_remote_reference_unique'',
              ''cashu_operator_effects_dispatch_unique''} then LR_effect_conflict
         else if name \<in> {''cashu_proof_reservation_events_pkey'',
              ''cashu_proof_reservation_events_event_fingerprint_key''} then LR_event_conflict
         else LR_storage_unavailable
     | _ \<Rightarrow> LR_storage_unavailable)"

section \<open>Dispatch\<close>

definition effectOfInput :: "valid_start_effect \<Rightarrow> operator_effect" where
  "effectOfInput v =
     \<lparr>oe_dispatchFingerprint = vs_dispatchFingerprint v, oe_effectId = vs_effectId v,
      oe_kind = vs_kind v, oe_schemaVersion = CASHU_PROOF_RESERVATION_LIFECYCLE_SCHEMA_VERSION,
      oe_startedAt = vs_startedAt v\<rparr>"

definition dispatchDraft :: "valid_start_effect \<Rightarrow> reservation_scope \<Rightarrow> event_draft" where
  "dispatchDraft v scope =
     \<lparr>dr_effectId = Some (vs_effectId v), dr_eventId = vs_eventId v, dr_evidenceAt = None,
      dr_evidenceKind = None, dr_journalEntryId = None, dr_paymentId = sc_paymentId scope,
      dr_proofStateFingerprint = None, dr_recordedAt = vs_startedAt v,
      dr_state = Dispatch_started\<rparr>"

definition effectRowOf :: "cashu_env \<Rightarrow> reservation_scope \<Rightarrow> operator_effect \<Rightarrow> effect_row" where
  "effectRowOf env scope effect =
     \<lparr>ef_effect_id = oe_effectId effect,
      ef_effect_fingerprint = createEffectFingerprint env scope effect,
      ef_dispatch_fingerprint = oe_dispatchFingerprint effect,
      ef_payment_id = sc_paymentId scope, ef_invoice_id = sc_invoiceId scope,
      ef_operator_id = sc_operatorId scope, ef_mint_url = sc_mintUrl scope,
      ef_effect_kind = showEffectKind (oe_kind effect),
      ef_operator_reference = (case oe_kind effect of Swap \<Rightarrow> None | Melt r _ \<Rightarrow> Some r),
      ef_operator_reference_expires_at =
        (case oe_kind effect of Swap \<Rightarrow> None | Melt _ t \<Rightarrow> Some t),
      ef_schema_version = oe_schemaVersion effect, ef_started_at = oe_startedAt effect\<rparr>"

definition startEffectIn ::
  "cashu_env \<Rightarrow> valid_start_effect \<Rightarrow> db \<Rightarrow> (db \<times> lifecycle_change) lifecycle_result" where
  "startEffectIn env v db =
     bindR (requireReservation env db (vs_paymentId v) True) (\<lambda>scope.
     let effect = effectOfInput v; draft = dispatchDraft v scope in
     bindR (replayEvent env db draft (Some effect)) (\<lambda>replay.
     case replay of
       Some result \<Rightarrow> Inr (db, result)
     | None \<Rightarrow>
     bindR (loadLifecycle env db scope) (\<lambda>current.
     if lc_state current \<noteq> Reserved then failWith LR_invalid_transition
     else if sc_invoiceState scope \<noteq> ''open'' \<or> oe_startedAt effect < sc_createdAt scope
             \<or> oe_startedAt effect \<ge> sc_expiresAt scope \<or> oe_startedAt effect < sc_reservedAt scope
     then failWith LR_invalid_transition
     else
     bindR (case oe_kind effect of Swap \<Rightarrow> Inr ()
            | Melt reference expiresAt \<Rightarrow>
                assertMeltQuoteEvidence env db scope (oe_startedAt effect) reference expiresAt True)
       (\<lambda>_.
     bindR (liftDb (insertEffect db (effectRowOf env scope effect))) (\<lambda>withEffect.
     bindR (insertEvent env withEffect draft 0) (\<lambda>inserted.
     reloaded env scope inserted))))))"

definition startEffect ::
  "cashu_env \<Rightarrow> start_effect_input \<Rightarrow> db \<Rightarrow> lifecycle_error + db \<times> lifecycle_change" where
  "startEffect env input db =
     catchR mapStorageError (
     bindR (validateStartEffect input) (\<lambda>v. withTransaction (startEffectIn env v) db))"

section \<open>Pending and attention\<close>

definition persistTransition ::
  "cashu_env \<Rightarrow> event_draft \<Rightarrow> db \<Rightarrow> lifecycle_error + db \<times> lifecycle_change" where
  "persistTransition env draft db =
     catchR mapStorageError (withTransaction (\<lambda>db.
       bindR (requireReservation env db (dr_paymentId draft) True) (\<lambda>scope.
       persistTransitionInTransaction env scope draft db)) db)"

definition evidenceDraft ::
  "'x evidence_input_scheme \<Rightarrow> string \<Rightarrow> reservation_state \<Rightarrow> event_draft" where
  "evidenceDraft v kind state =
     \<lparr>dr_effectId = Some (ei_effectId v), dr_eventId = ei_eventId v,
      dr_evidenceAt = Some (ei_evidenceAt v), dr_evidenceKind = Some kind,
      dr_journalEntryId = None, dr_paymentId = ei_paymentId v, dr_proofStateFingerprint = None,
      dr_recordedAt = ei_recordedAt v, dr_state = state\<rparr>"

definition recordPending ::
  "cashu_env \<Rightarrow> evidence_input \<Rightarrow> db \<Rightarrow> lifecycle_error + db \<times> lifecycle_change" where
  "recordPending env input db =
     bindR (catchR mapStorageError (validatePending input)) (\<lambda>v.
     persistTransition env (evidenceDraft v ''operator_pending'' Pending) db)"

definition requireAttention ::
  "cashu_env \<Rightarrow> attention_input \<Rightarrow> db \<Rightarrow> lifecycle_error + db \<times> lifecycle_change" where
  "requireAttention env input db =
     bindR (catchR mapStorageError (validateAttention input)) (\<lambda>v.
     persistTransition env (evidenceDraft v (ai_reason v) Needs_attention) db)"

section \<open>Accounting\<close>

definition STELLAR_TESTNET_USDC_SETTLEMENT_ASSET_ID :: string where
  "STELLAR_TESTNET_USDC_SETTLEMENT_ASSET_ID = ''stellar-testnet-usdc-circle''"

record accounting =
  ac_invoice :: invoice
  ac_payment :: invoice_payment
  ac_paidAt :: int
  ac_journalEntry :: journal_entry

text \<open>\<open>accounting.invoice.payment\<close> and \<open>accounting.invoice.paidAt\<close> of the accepted payment.\<close>

definition acceptPaymentOf ::
  "reservation_scope \<Rightarrow> accept_payment_input \<Rightarrow> (unit + accounting)" where
  "acceptPaymentOf scope input =
     bindR (catchR (\<lambda>_. ()) (createInvoiceV1 (scopeInvoice scope))) (\<lambda>issued.
     bindR (catchR (\<lambda>_. ()) (acceptInvoicePaymentV1 issued input)) (\<lambda>accepted.
     case inv_state (acc_invoice accepted) of
       Paid paidAt payment \<Rightarrow>
         Inr \<lparr>ac_invoice = acc_invoice accepted, ac_payment = payment, ac_paidAt = paidAt,
              ac_journalEntry = acc_journalEntry accepted\<rparr>
     | _ \<Rightarrow> Inl ()))"

definition paymentInput ::
  "reservation_scope \<Rightarrow> int \<Rightarrow> ledger_account \<Rightarrow> int \<Rightarrow> int \<Rightarrow> string \<Rightarrow> settlement_mode
     \<Rightarrow> accept_payment_input" where
  "paymentInput scope acceptedAt asset effectiveAt feeAmount journalEntryId mode =
     \<lparr>ap_acceptedAt = acceptedAt, ap_assetAccount = asset, ap_effectiveAt = effectiveAt,
      ap_feeAmount = feeAmount, ap_journalEntryId = journalEntryId,
      ap_operatorId = sc_operatorId scope, ap_paymentId = sc_paymentId scope,
      ap_settlementMode = mode\<rparr>"

definition journalRowOf :: "cashu_env \<Rightarrow> reservation_scope \<Rightarrow> accounting \<Rightarrow> journal_row" where
  "journalRowOf env scope a =
     \<lparr>jr_journal_entry_id = je_id (ac_journalEntry a),
      jr_journal_fingerprint =
        createAccountingFingerprint env scope (ac_invoice a) (ac_payment a) (ac_journalEntry a),
      jr_invoice_id = inv_id (ac_invoice a), jr_merchant_id = inv_merchantId (ac_invoice a),
      jr_payment_id = ip_paymentId (ac_payment a), jr_operator_id = ip_operatorId (ac_payment a),
      jr_mint_url = sc_mintUrl scope, jr_settlement_mode = showMode (ip_settlementMode (ac_payment a)),
      jr_asset_account_kind = storeAccountKind (ip_assetAccount (ac_payment a)),
      jr_asset_account_id = storeAccountId (ip_assetAccount (ac_payment a)),
      jr_schema_version = je_schemaVersion (ac_journalEntry a),
      jr_accepted_at = ip_acceptedAt (ac_payment a),
      jr_effective_at = je_effectiveAt (ac_journalEntry a),
      jr_gross_amount = ip_grossAmount (ac_payment a), jr_fee_amount = ip_feeAmount (ac_payment a),
      jr_net_amount = ip_netAmount (ac_payment a)\<rparr>"

definition postingRowsOf :: "journal_entry \<Rightarrow> posting_row list" where
  "postingRowsOf entry = map (\<lambda>(position, posting).
     \<lparr>pg_journal_entry_id = je_id entry, pg_position = int position,
      pg_side = showSide (po_side posting), pg_account_kind = storeAccountKind (po_account posting),
      pg_account_id = storeAccountId (po_account posting), pg_amount = po_amount posting\<rparr>)
     (List.enumerate 0 (je_postings entry))"

fun insertPostings :: "db \<Rightarrow> posting_row list \<Rightarrow> db_error + db" where
  "insertPostings db [] = Inr db"
| "insertPostings db (row # rows) =
     bindR (insertPosting db row) (\<lambda>after. insertPostings after rows)"

definition persistAcceptedPayment ::
  "cashu_env \<Rightarrow> reservation_scope \<Rightarrow> acceptance_input \<Rightarrow> db \<Rightarrow> (db \<times> accounting) lifecycle_result" where
  "persistAcceptedPayment env scope input db =
    (case findInvoice db (sc_invoiceId scope) of
       None \<Rightarrow> failWith LR_invalid_transition
     | Some invoiceRow \<Rightarrow>
         if ir_state invoiceRow \<noteq> ''open'' \<or> ir_paid_at invoiceRow \<noteq> None
            \<or> sc_invoiceState scope \<noteq> ''open'' \<or> sc_paidAt scope \<noteq> None
         then failWith LR_invalid_transition
         else
         bindR (requireSettlementRoute env db scope) (\<lambda>route.
         if rte_mode route \<noteq> Immediate_conversion then failWith LR_invalid_transition
         else
         bindR (other (settlementAssetAccount STELLAR_TESTNET_USDC_SETTLEMENT_ASSET_ID))
           (\<lambda>assetAccount.
         bindR (catchR (\<lambda>_. Repository_failure LR_invalid_transition)
                  (acceptPaymentOf scope (paymentInput scope (ci_proofStateObservedAt input)
                     assetAccount (ei_recordedAt input) (ci_feeAmount input)
                     (ci_journalEntryId input) (rte_mode route)))) (\<lambda>accounting.
         bindR (liftDb (insertJournal db (journalRowOf env scope accounting))) (\<lambda>withJournal.
         bindR (liftDb (insertPostings withJournal (postingRowsOf (ac_journalEntry accounting))))
           (\<lambda>withPostings.
         bindR (liftDb (updateInvoicePaid withPostings (sc_invoiceId scope) (ac_paidAt accounting)))
           (\<lambda>(paid, rowCount).
         if rowCount \<noteq> 1 then failWith LR_invalid_transition
         else Inr (paid, accounting))))))))"

definition mapStoredAssetAccount :: "journal_row \<Rightarrow> ledger_account lifecycle_result" where
  "mapStoredAssetAccount row =
    (if jr_asset_account_kind row = ''settlement_asset''
        \<and> jr_asset_account_id row = Some STELLAR_TESTNET_USDC_SETTLEMENT_ASSET_ID
     then invalidRecord (settlementAssetAccount STELLAR_TESTNET_USDC_SETTLEMENT_ASSET_ID)
     else failWith LR_invalid_record)"

definition postingsMatch :: "posting_row list \<Rightarrow> journal_entry \<Rightarrow> bool" where
  "postingsMatch rows entry \<longleftrightarrow>
     length rows = length (je_postings entry)
     \<and> list_all (\<lambda>(position, row, posting).
          pg_journal_entry_id row = je_id entry \<and> pg_position row = int position
          \<and> pg_side row = showSide (po_side posting)
          \<and> pg_account_kind row = storeAccountKind (po_account posting)
          \<and> pg_account_id row = storeAccountId (po_account posting)
          \<and> readBigint () (pg_amount row) = Inr (po_amount posting))
        (List.enumerate 0 (zip rows (je_postings entry)))"

definition loadAcceptedPayment ::
  "cashu_env \<Rightarrow> db \<Rightarrow> reservation_scope \<Rightarrow> accounting option lifecycle_result" where
  "loadAcceptedPayment env db scope =
    (case filter (\<lambda>j. jr_payment_id j = sc_paymentId scope) (db_journals db) of
       [] \<Rightarrow> Inr None
     | [row] \<Rightarrow>
         let postings = sort_key pg_position (postingsOf db (jr_journal_entry_id row)) in
         bindR (requireSettlementRoute env db scope) (\<lambda>route.
         bindR (mapStoredAssetAccount row) (\<lambda>assetAccount.
         bindR (invalidRecord (readBigint () (jr_accepted_at row))) (\<lambda>acceptedAt.
         bindR (invalidRecord (readBigint () (jr_effective_at row))) (\<lambda>effectiveAt.
         bindR (invalidRecord (readBigint () (jr_fee_amount row))) (\<lambda>feeAmount.
         bindR (invalidRecord (identifierOf (jr_journal_entry_id row))) (\<lambda>journalEntryId.
         bindR (invalidRecord (acceptPaymentOf scope (paymentInput scope acceptedAt assetAccount
                  effectiveAt feeAmount journalEntryId (rte_mode route)))) (\<lambda>a.
         bindR (invalidRecord (readBigint () (jr_gross_amount row))) (\<lambda>grossAmount.
         bindR (invalidRecord (readBigint () (jr_net_amount row))) (\<lambda>netAmount.
         if jr_schema_version row \<noteq> je_schemaVersion (ac_journalEntry a)
            \<or> jr_invoice_id row \<noteq> sc_invoiceId scope \<or> jr_merchant_id row \<noteq> sc_merchantId scope
            \<or> jr_operator_id row \<noteq> sc_operatorId scope \<or> jr_mint_url row \<noteq> sc_mintUrl scope
            \<or> jr_settlement_mode row \<noteq> showMode (rte_mode route)
            \<or> jr_asset_account_kind row \<noteq> storeAccountKind assetAccount
            \<or> jr_asset_account_id row \<noteq> storeAccountId assetAccount
            \<or> grossAmount \<noteq> ip_grossAmount (ac_payment a) \<or> netAmount \<noteq> ip_netAmount (ac_payment a)
            \<or> sc_invoiceState scope \<noteq> ''paid'' \<or> sc_paidAt scope \<noteq> Some (ac_paidAt a)
            \<or> jr_journal_fingerprint row
                \<noteq> createAccountingFingerprint env scope (ac_invoice a) (ac_payment a) (ac_journalEntry a)
            \<or> \<not> postingsMatch postings (ac_journalEntry a)
         then failWith LR_invalid_record
         else Inr (Some a))))))))))
     | _ \<Rightarrow> failWith LR_invalid_record)"

definition requireAcceptedPayment ::
  "cashu_env \<Rightarrow> db \<Rightarrow> reservation_scope \<Rightarrow> accounting lifecycle_result" where
  "requireAcceptedPayment env db scope =
     bindR (loadAcceptedPayment env db scope) (\<lambda>found.
     case found of None \<Rightarrow> failWith LR_invalid_record | Some a \<Rightarrow> Inr a)"

definition assertAccountingMatchesInput ::
  "accounting \<Rightarrow> reservation_scope \<Rightarrow> acceptance_input \<Rightarrow> unit lifecycle_result" where
  "assertAccountingMatchesInput a scope input =
    (let payment = ac_payment a
     in if inv_id (ac_invoice a) \<noteq> sc_invoiceId scope
           \<or> inv_merchantId (ac_invoice a) \<noteq> sc_merchantId scope
           \<or> ac_paidAt a \<noteq> ci_proofStateObservedAt input
           \<or> je_effectiveAt (ac_journalEntry a) \<noteq> ei_recordedAt input
           \<or> je_id (ac_journalEntry a) \<noteq> ci_journalEntryId input
           \<or> ip_paymentId payment \<noteq> sc_paymentId scope
           \<or> ip_operatorId payment \<noteq> sc_operatorId scope
           \<or> ip_feeAmount payment \<noteq> ci_feeAmount input
           \<or> storeAccountKind (ip_assetAccount payment) \<noteq> ''settlement_asset''
           \<or> storeAccountId (ip_assetAccount payment) \<noteq> Some STELLAR_TESTNET_USDC_SETTLEMENT_ASSET_ID
           \<or> ip_settlementMode payment \<noteq> Immediate_conversion
        then failWith LR_accounting_conflict else Inr ())"

definition assertAccountingProjection ::
  "cashu_env \<Rightarrow> db \<Rightarrow> reservation_scope \<Rightarrow> lifecycle \<Rightarrow> unit lifecycle_result" where
  "assertAccountingProjection env db scope lifecycle =
     bindR (loadAcceptedPayment env db scope) (\<lambda>accounting.
     if lc_state lifecycle \<noteq> Consumed
     then (if accounting \<noteq> None then failWith LR_invalid_record else Inr ())
     else (case (accounting, map_option le_body (atLast (lc_events lifecycle))) of
             (Some a, Some (Event_consumed _ _ journal _)) \<Rightarrow>
               if journal \<noteq> je_id (ac_journalEntry a) then failWith LR_invalid_record else Inr ()
           | _ \<Rightarrow> failWith LR_invalid_record))"

section \<open>Acceptance\<close>

record acceptance =
  an_accounting :: accounting
  an_change :: lifecycle_change

definition acceptanceDraft :: "acceptance_input \<Rightarrow> string \<Rightarrow> event_draft" where
  "acceptanceDraft v fingerprint =
     (evidenceDraft v (ci_evidenceKind v) Consumed)
       \<lparr>dr_journalEntryId := Some (ci_journalEntryId v),
        dr_proofStateFingerprint := Some fingerprint\<rparr>"

definition acceptPaymentIn ::
  "cashu_env \<Rightarrow> acceptance_input \<Rightarrow> db \<Rightarrow> (db \<times> acceptance) lifecycle_result" where
  "acceptPaymentIn env v db =
     bindR (requireReservation env db (ei_paymentId v) True) (\<lambda>scope.
     bindR (assertEffectEvidence env db scope (ei_effectId v) (ci_evidenceKind v) (ei_evidenceAt v)
              (ei_recordedAt v)) (\<lambda>_.
     bindR (resolveProofStateEvidence env db scope (ci_proofStateObservedAt v) ''SPENT'')
       (\<lambda>fingerprint.
     let draft = acceptanceDraft v fingerprint in
     bindR (replayEvent env db draft None) (\<lambda>replay.
     case replay of
       Some change \<Rightarrow>
         bindR (requireAcceptedPayment env db scope) (\<lambda>accounting.
         bindR (assertAccountingMatchesInput accounting scope v) (\<lambda>_.
         Inr (db, \<lparr>an_accounting = accounting, an_change = change\<rparr>)))
     | None \<Rightarrow>
         bindR (persistAcceptedPayment env scope v db) (\<lambda>(paid, accounting).
         bindR (persistTransitionInTransaction env scope draft paid) (\<lambda>(after, change).
         Inr (after, \<lparr>an_accounting = accounting, an_change = change\<rparr>)))))))"

definition acceptPayment ::
  "cashu_env \<Rightarrow> acceptance_input \<Rightarrow> db \<Rightarrow> lifecycle_error + db \<times> acceptance" where
  "acceptPayment env input db =
     catchR mapStorageError (
     bindR (validatePaymentAcceptance input) (\<lambda>v. withTransaction (acceptPaymentIn env v) db))"

section \<open>Release\<close>

definition releaseDraft ::
  "cashu_env \<Rightarrow> valid_release \<Rightarrow> reservation_scope \<Rightarrow> db \<Rightarrow> event_draft lifecycle_result" where
  "releaseDraft env v scope db =
    (case vr_kind v of
       Pre_dispatch \<Rightarrow>
         Inr \<lparr>dr_effectId = None, dr_eventId = vr_eventId v, dr_evidenceAt = None,
              dr_evidenceKind = Some ''pre_dispatch'', dr_journalEntryId = None,
              dr_paymentId = vr_paymentId v, dr_proofStateFingerprint = None,
              dr_recordedAt = vr_recordedAt v, dr_state = Released\<rparr>
     | After_failure effectId evidenceAt evidenceKind observedAt \<Rightarrow>
         bindR (assertEffectEvidence env db scope effectId evidenceKind evidenceAt (vr_recordedAt v))
           (\<lambda>effect.
         bindR (resolveProofStateEvidence env db scope observedAt ''UNSPENT'') (\<lambda>fingerprint.
         bindR (if evidenceKind = ''melt_unpaid_after_expiry''
                then (case oe_kind effect of
                        Swap \<Rightarrow> failWith LR_invalid_transition
                      | Melt reference expiresAt \<Rightarrow>
                          assertLatestMeltReleaseEvidence env db scope reference expiresAt
                            evidenceAt observedAt fingerprint)
                else Inr ()) (\<lambda>_.
         Inr \<lparr>dr_effectId = Some effectId, dr_eventId = vr_eventId v,
              dr_evidenceAt = Some evidenceAt, dr_evidenceKind = Some evidenceKind,
              dr_journalEntryId = None, dr_paymentId = vr_paymentId v,
              dr_proofStateFingerprint = Some fingerprint, dr_recordedAt = vr_recordedAt v,
              dr_state = Released\<rparr>))))"

definition releaseIn ::
  "cashu_env \<Rightarrow> valid_release \<Rightarrow> db \<Rightarrow> (db \<times> lifecycle_change) lifecycle_result" where
  "releaseIn env v db =
     bindR (requireReservation env db (vr_paymentId v) True) (\<lambda>scope.
     bindR (releaseDraft env v scope db) (\<lambda>draft.
     persistTransitionInTransaction env scope draft db))"

definition release ::
  "cashu_env \<Rightarrow> release_input \<Rightarrow> db \<Rightarrow> lifecycle_error + db \<times> lifecycle_change" where
  "release env input db =
     catchR mapStorageError (
     bindR (validateRelease input) (\<lambda>v. withTransaction (releaseIn env v) db))"

section \<open>Lookups\<close>

definition findByPaymentId ::
  "cashu_env \<Rightarrow> string \<Rightarrow> db \<Rightarrow> lifecycle_error + lifecycle option" where
  "findByPaymentId env requested db =
     catchR mapStorageError (
     bindR (validatePaymentId requested) (\<lambda>pid.
     bindR (loadReservation env db pid) (\<lambda>found.
     case found of
       None \<Rightarrow> Inr None
     | Some scope \<Rightarrow>
         bindR (loadLifecycle env db scope) (\<lambda>lifecycle.
         bindR (assertAccountingProjection env db scope lifecycle) (\<lambda>_.
         Inr (Some lifecycle))))))"

definition findAcceptedPaymentByPaymentId ::
  "cashu_env \<Rightarrow> string \<Rightarrow> db \<Rightarrow> lifecycle_error + accounting option" where
  "findAcceptedPaymentByPaymentId env requested db =
     catchR mapStorageError (
     bindR (validatePaymentId requested) (\<lambda>pid.
     bindR (loadReservation env db pid) (\<lambda>found.
     case found of
       None \<Rightarrow> Inr None
     | Some scope \<Rightarrow>
         bindR (loadLifecycle env db scope) (\<lambda>lifecycle.
         bindR (loadAcceptedPayment env db scope) (\<lambda>accounting.
         if lc_state lifecycle \<noteq> Consumed
         then (if accounting \<noteq> None then failWith LR_invalid_record else Inr None)
         else (case accounting of None \<Rightarrow> failWith LR_invalid_record | Some a \<Rightarrow> Inr (Some a)))))))"

end
