(* ===== verification/Lifecycle_Facts.thy ===== *)
theory Lifecycle_Facts
  imports Lifecycle_Operations
begin

text \<open>
  What the reads and writes of the lifecycle repository guarantee: a lifecycle that loads is
  valid (\<open>loadLifecycle_valid\<close>), reads see only \<open>lifecycleView\<close> of the database, and every insert
  changes exactly the rows it names.
\<close>

section \<open>A loaded event\<close>

lemma optR_Inr [simp]:
  "optR f None = Inr w \<longleftrightarrow> w = None"
  "optR f (Some x) = Inr w \<longleftrightarrow> (\<exists>y. f x = Inr y \<and> w = Some y)"
  by (auto simp: optR_def result_simps)

lemma optR_id: "(\<And>x y. f x = Inr y \<Longrightarrow> y = x) \<Longrightarrow> optR f v = Inr w \<Longrightarrow> w = v"
  by (cases v) auto

lemma parseEventState_iff: "parseEventState s = Inr st \<longleftrightarrow> st \<noteq> Reserved \<and> s = showState st"
  by (cases st) (auto simp: parseEventState_def)

lemma publicBody_fields:
  assumes "publicBody d p = Inr b"
  shows "eventState b = dr_state d \<and> eventEvidenceAt b = dr_evidenceAt d
    \<and> eventEvidenceKind b = dr_evidenceKind d
    \<and> (b = Event_released_pre_dispatch \<longleftrightarrow>
         dr_state d = Released \<and> dr_evidenceKind d = Some ''pre_dispatch'')"
  using assms
  by (auto simp: publicBody_def CASHU_OPERATOR_ATTENTION_REASONS_def
      CASHU_OPERATOR_SUCCESS_EVIDENCE_def CASHU_OPERATOR_FAILURE_EVIDENCE_def
      split: reservation_state.splits option.splits if_splits)

lemma mapEvent_fields:
  assumes "mapEvent env db row scope effect = Inr e"
  shows "le_sequence e = ev_sequence row \<and> le_recordedAt e = ev_recorded_at row
    \<and> le_eventId e = ev_event_id row \<and> ev_state row = showState (eventState (le_body e))
    \<and> eventState (le_body e) \<noteq> Reserved \<and> eventEvidenceAt (le_body e) = ev_evidence_at row
    \<and> eventEvidenceKind (le_body e) = ev_evidence_kind row
    \<and> ev_effect_id row = map_option oe_effectId effect \<and> eventMatchesEffect e effect
    \<and> sc_reservedAt scope \<le> le_recordedAt e
    \<and> (\<forall>t. eventEvidenceAt (le_body e) = Some t \<longrightarrow> t \<le> le_recordedAt e)"
proof -
  obtain eid at st w where ids: "optR identifierOf (ev_effect_id row) = Inr eid"
      "eid = map_option oe_effectId effect" "optR (readBigint ()) (ev_evidence_at row) = Inr at"
    and st: "parseEventState (ev_state row) = Inr st"
    and ev: "createPublicEvent (draftOfRow scope row st) (ev_sequence row) w = Inr e"
    and rest: "sc_reservedAt scope \<le> ev_recorded_at row"
      "case at of None \<Rightarrow> True | Some t \<Rightarrow> t \<le> ev_recorded_at row" "eventMatchesEffect e effect"
    using assms
    by (auto simp: mapEvent_def result_simps Let_def not_less split: if_splits option.splits)
  have "eid = ev_effect_id row" using ids(1) by (rule optR_id [rotated]) simp
  moreover have "at = ev_evidence_at row" using ids(3) by (rule optR_id [rotated]) simp
  moreover obtain b where b: "publicBody (draftOfRow scope row st) w = Inr b"
      "e = \<lparr>le_eventId = ev_event_id row, le_recordedAt = ev_recorded_at row,
            le_sequence = ev_sequence row, le_body = b\<rparr>"
    using ev by (auto simp: createPublicEvent_def result_simps draftOfRow_def split: if_splits)
  ultimately show ?thesis
    using ids(2) st rest publicBody_fields [OF b(1)]
    by (auto simp: parseEventState_iff draftOfRow_def split: option.splits)
qed

definition eventStates :: "lifecycle_event list \<Rightarrow> reservation_state list" where
  "eventStates es = map (\<lambda>e. eventState (le_body e)) es"

lemma eventStates_simps [simp]:
  "eventStates [] = []" "eventStates (e # es) = eventState (le_body e) # eventStates es"
  "eventStates (es @ fs) = eventStates es @ eventStates fs" "length (eventStates es) = length es"
  by (simp_all add: eventStates_def)

definition eventSound :: "reservation_scope \<Rightarrow> operator_effect option \<Rightarrow> lifecycle_event \<Rightarrow> bool" where
  "eventSound scope effect e \<longleftrightarrow> eventMatchesEffect e effect \<and> sc_reservedAt scope \<le> le_recordedAt e
     \<and> (\<forall>t. eventEvidenceAt (le_body e) = Some t \<longrightarrow> t \<le> le_recordedAt e)"

lemma loadEvents_sound:
  assumes "loadEvents env db scope effect n cur prev rows = Inr (es, fin)"
  shows "list_all2 (\<lambda>row e. mapEvent env db row scope effect = Inr e) rows es
    \<and> statePath cur (eventStates es) \<and> fin = last (cur # eventStates es)
    \<and> map ev_sequence rows = [n..n + int (length rows) - 1]
    \<and> sorted (map le_recordedAt (case prev of None \<Rightarrow> es | Some p \<Rightarrow> p # es))"
  using assms
proof (induction rows arbitrary: n cur prev es fin)
  case Nil
  then show ?case by (auto split: option.splits)
next
  case (Cons row rows)
  then obtain e es' where e: "mapEvent env db row scope effect = Inr e" "es = e # es'"
    "ev_sequence row = n" "transitionAllowed cur (eventState (le_body e))"
    "\<not> (case prev of None \<Rightarrow> False | Some p \<Rightarrow> le_recordedAt e < le_recordedAt p)"
    "loadEvents env db scope effect (n + 1) (eventState (le_body e)) (Some e) rows = Inr (es', fin)"
    by (auto simp: result_simps split: if_splits prod.splits)
  from Cons.IH [OF e(6)] e(1-5) show ?case
    by (auto simp: transitionAllowed_step upto_rec1 not_less split: option.splits)
qed

section \<open>A loaded lifecycle\<close>

text \<open>
  The specification of a lifecycle: its states are a path of the machine from \<open>Reserved\<close>, its
  events are numbered from zero and ordered in time, they fit the effect, and there is an effect
  exactly when the first event is its dispatch.
\<close>

definition lifecycleValid :: "reservation_scope \<Rightarrow> lifecycle \<Rightarrow> bool" where
  "lifecycleValid scope lc \<longleftrightarrow>
     statePath Reserved (eventStates (lc_events lc))
     \<and> lc_state lc = last (Reserved # eventStates (lc_events lc))
     \<and> map le_sequence (lc_events lc) = [0..int (length (lc_events lc)) - 1]
     \<and> sorted (map le_recordedAt (lc_events lc))
     \<and> (\<forall>e \<in> set (lc_events lc). eventSound scope (lc_effect lc) e)
     \<and> (lc_effect lc \<noteq> None \<longleftrightarrow>
          (\<exists>e es. lc_events lc = e # es \<and> eventState (le_body e) = Dispatch_started))"

lemma loadLifecycle_parts:
  assumes "loadLifecycle env db scope = Inr lc"
  shows "\<exists>es. loadEvents env db scope (lc_effect lc) 0 Reserved None
        (sort_key ev_sequence (eventsOf db (sc_paymentId scope))) = Inr (es, lc_state lc)
      \<and> lc_events lc = es
    \<and> (case lc_effect lc of None \<Rightarrow> filter (\<lambda>e. ef_payment_id e = sc_paymentId scope) (db_effects db) = []
       | Some e \<Rightarrow> \<exists>row. filter (\<lambda>e. ef_payment_id e = sc_paymentId scope) (db_effects db) = [row]
           \<and> mapEffect env row scope = Inr e)
    \<and> assertProjection db (sc_paymentId scope) (lc_state lc) (lc_effect lc \<noteq> None) = Inr ()
    \<and> lc_paymentId lc = sc_paymentId scope
    \<and> (lc_effect lc = None \<longrightarrow> (\<forall>e \<in> set es. eventState (le_body e) = Released))
    \<and> (lc_effect lc \<noteq> None \<longrightarrow>
        (\<exists>e es. lc_events lc = e # es \<and> eventState (le_body e) = Dispatch_started))"
  using assms
  by (auto simp: loadLifecycle_def Let_def result_simps list_ex_iff nthOpt_def
      split: list.splits if_splits option.splits prod.splits effect_kind.splits)
    (auto simp: neq_Nil_conv length_Suc_conv)


lemma loadLifecycle_valid:
  assumes "loadLifecycle env db scope = Inr lc"
  shows "lifecycleValid scope lc"
proof -
  note parts = loadLifecycle_parts [OF assms]
  let ?rows = "sort_key ev_sequence (eventsOf db (sc_paymentId scope))"
  from parts have load: "loadEvents env db scope (lc_effect lc) 0 Reserved None ?rows
      = Inr (lc_events lc, lc_state lc)" by auto
  note sound = loadEvents_sound [OF load]
  then have all: "list_all2 (\<lambda>row e. mapEvent env db row scope (lc_effect lc) = Inr e) ?rows (lc_events lc)"
    by simp
  then have len: "length ?rows = length (lc_events lc)" by (rule list_all2_lengthD)
  have "list_all2 (\<lambda>row e. le_sequence e = ev_sequence row) ?rows (lc_events lc)"
    using all by (rule list_all2_mono) (auto dest: mapEvent_fields)
  then have seq: "map le_sequence (lc_events lc) = map ev_sequence ?rows"
    by (auto simp: list_all2_conv_all_nth intro: nth_equalityI)
  have "eventSound scope (lc_effect lc) e" if "e \<in> set (lc_events lc)" for e
  proof -
    from that all obtain row where "mapEvent env db row scope (lc_effect lc) = Inr e"
      by (blast dest: list_all2_set2)
    from mapEvent_fields [OF this] show ?thesis unfolding eventSound_def by blast
  qed
  moreover have "lc_effect lc = None \<Longrightarrow>
      \<not> (\<exists>e es. lc_events lc = e # es \<and> eventState (le_body e) = Dispatch_started)"
    using parts by auto
  ultimately show ?thesis
    using sound parts len seq by (auto simp: lifecycleValid_def)
qed

section \<open>Frames\<close>

text \<open>What the lifecycle reads: not the custody, the recovery tables or the deferred queue.\<close>

definition lifecycleView :: "db \<Rightarrow> db" where
  "lifecycleView db = db\<lparr>db_custody := [], db_jobs := [], db_leases := [], db_outcomes := [],
     db_deferred := []\<rparr>"

lemma lifecycleView_sel [simp]:
  "db_invoices (lifecycleView db) = db_invoices db"
  "db_requests (lifecycleView db) = db_requests db"
  "db_routes (lifecycleView db) = db_routes db"
  "db_reservations (lifecycleView db) = db_reservations db"
  "db_proofs (lifecycleView db) = db_proofs db"
  "db_proofClaims (lifecycleView db) = db_proofClaims db"
  "db_invoiceClaims (lifecycleView db) = db_invoiceClaims db"
  "db_effects (lifecycleView db) = db_effects db"
  "db_events (lifecycleView db) = db_events db"
  "db_quoteAttempts (lifecycleView db) = db_quoteAttempts db"
  "db_quoteOutcomes (lifecycleView db) = db_quoteOutcomes db"
  "db_quoteObservations (lifecycleView db) = db_quoteObservations db"
  "db_proofObservations (lifecycleView db) = db_proofObservations db"
  "db_proofEntries (lifecycleView db) = db_proofEntries db"
  "db_journals (lifecycleView db) = db_journals db"
  "db_postings (lifecycleView db) = db_postings db"
  by (simp_all add: lifecycleView_def)

lemma view_reads:
  "findReservation (lifecycleView db) pid = findReservation db pid"
  "findInvoice (lifecycleView db) iid = findInvoice db iid"
  "eventsOf (lifecycleView db) pid = eventsOf db pid"
  "proofEntriesOf (lifecycleView db) f = proofEntriesOf db f"
  "postingsOf (lifecycleView db) j = postingsOf db j"
  "reservedProofCount (lifecycleView db) pid = reservedProofCount db pid"
  "invoiceClaimCount (lifecycleView db) pid = invoiceClaimCount db pid"
  "latestProofObservation (lifecycleView db) pid = latestProofObservation db pid"
  by (simp_all add: findReservation_def findInvoice_def eventsOf_def proofEntriesOf_def postingsOf_def
      reservedProofCount_def invoiceClaimCount_def latestProofObservation_def)

lemma view_loads:
  "loadReservation env (lifecycleView db) pid = loadReservation env db pid"
  "requireSettlementRoute env (lifecycleView db) scope = requireSettlementRoute env db scope"
  "loadMeltQuotedEvidence env (lifecycleView db) pid = loadMeltQuotedEvidence env db pid"
  "validateProofStateEvidenceByFingerprint env (lifecycleView db) scope f st i
     = validateProofStateEvidenceByFingerprint env db scope f st i"
  "proofStateObservedAt (lifecycleView db) pid f = proofStateObservedAt db pid f"
  "assertProjection (lifecycleView db) pid state b = assertProjection db pid state b"
  unfolding view_reads loadReservation_def requireSettlementRoute_def
    loadMeltQuotedEvidence_def validateProofStateEvidenceByFingerprint_def proofStateObservedAt_def
    assertProjection_def lifecycleView_sel
  by (rule refl)+

lemma view_loads2:
  "requireReservation env (lifecycleView db) pid lock = requireReservation env db pid lock"
  "assertMeltQuoteEvidence env (lifecycleView db) scope t r x d
     = assertMeltQuoteEvidence env db scope t r x d"
  "resolveProofStateEvidence env (lifecycleView db) scope t st
     = resolveProofStateEvidence env db scope t st"
  "mapEvent env (lifecycleView db) row scope effect = mapEvent env db row scope effect"
  "assertMeltPaidEvidence env (lifecycleView db) scope r x t = assertMeltPaidEvidence env db scope r x t"
  "assertLatestMeltReleaseEvidence env (lifecycleView db) scope r x t o' f
     = assertLatestMeltReleaseEvidence env db scope r x t o' f"
  "loadAcceptedPayment env (lifecycleView db) scope = loadAcceptedPayment env db scope"
  unfolding view_reads view_loads requireReservation_def assertMeltQuoteEvidence_def
    resolveProofStateEvidence_def mapEvent_def assertMeltPaidEvidence_def
    assertLatestMeltReleaseEvidence_def loadAcceptedPayment_def lifecycleView_sel
  by (rule refl)+

lemma view_loadEvents:
  "loadEvents env (lifecycleView db) scope effect n cur prev rows
     = loadEvents env db scope effect n cur prev rows"
proof (induction rows arbitrary: n cur prev)
  case (Cons row rows)
  show ?case unfolding loadEvents.simps view_loads2 Cons.IH by (rule refl)
qed simp

lemma view_loadLifecycle:
  "loadLifecycle env (lifecycleView db) scope = loadLifecycle env db scope"
  unfolding loadLifecycle_def view_reads view_loads view_loads2 view_loadEvents lifecycleView_sel
  by (rule refl)

lemma view_operations:
  "assertEffectEvidence env (lifecycleView db) scope i k t r
     = assertEffectEvidence env db scope i k t r"
  "replayEvent env (lifecycleView db) draft expected = replayEvent env db draft expected"
  unfolding view_loads2 view_loadLifecycle assertEffectEvidence_def replayEvent_def lifecycleView_sel
  by (rule refl)+

lemmas view_frame = view_reads view_loads view_loads2 view_loadLifecycle view_operations

text \<open>Two databases with the same view are read alike.\<close>

lemma sameView:
  assumes "lifecycleView db = lifecycleView db'"
  shows "loadLifecycle env db scope = loadLifecycle env db' scope"
    and "requireReservation env db pid lock = requireReservation env db' pid lock"
    and "replayEvent env db draft expected = replayEvent env db' draft expected"
    and "assertEffectEvidence env db scope i k t r = assertEffectEvidence env db' scope i k t r"
    and "resolveProofStateEvidence env db scope t' st = resolveProofStateEvidence env db' scope t' st"
    and "assertLatestMeltReleaseEvidence env db scope r' x t o' f
         = assertLatestMeltReleaseEvidence env db' scope r' x t o' f"
    and "loadAcceptedPayment env db scope = loadAcceptedPayment env db' scope"
  by (metis assms view_loadLifecycle, metis assms view_loads2(1), metis assms view_operations(2),
      metis assms view_operations(1), metis assms view_loads2(3), metis assms view_loads2(6),
      metis assms view_loads2(7))

section \<open>What the writes change\<close>

lemma insertEventRow_Inr:
  assumes "insertEventRow db row = Inr db'"
  shows "lifecycleView db' = (lifecycleView db)\<lparr>db_events := db_events db @ [row]\<rparr>
    \<and> db_events db' = db_events db @ [row]
    \<and> (\<forall>e \<in> set (db_events db). ev_event_id e \<noteq> ev_event_id row)
    \<and> validateReservationEvent db row = Inr () \<and> validateLatestMeltRelease db row = Inr ()"
  using assms
  by (auto simp: insertEventRow_def result_simps Let_def queue_def destroyTerminalCustody_def
      lifecycleView_def)

lemma insertEffect_Inr:
  assumes "insertEffect db row = Inr db'"
  shows "lifecycleView db' = (lifecycleView db)\<lparr>db_effects := db_effects db @ [row],
      db_invoiceClaims := db_invoiceClaims db @ [\<lparr>ic_invoice_id = ef_invoice_id row,
        ic_payment_id = ef_payment_id row, ic_effect_id = ef_effect_id row\<rparr>]\<rparr>
    \<and> (\<forall>e \<in> set (db_effects db). ef_payment_id e \<noteq> ef_payment_id row \<and> ef_effect_id e \<noteq> ef_effect_id row)
    \<and> (\<forall>c \<in> set (db_invoiceClaims db). ic_invoice_id c \<noteq> ef_invoice_id row
         \<and> ic_payment_id c \<noteq> ef_payment_id row)
    \<and> db_events db' = db_events db \<and> validateMeltEffectQuote db row = Inr ()"
  using assms
  by (auto simp: insertEffect_def insertInvoiceClaim_def scheduleMeltRecovery_def
      insertRecoveryJob_def result_simps queue_def lifecycleView_def split: if_splits)

lemma releaseActiveClaims_view:
  "lifecycleView (releaseActiveClaims pid db) = (lifecycleView db)
     \<lparr>db_proofClaims := filter (\<lambda>c. pc_payment_id c \<noteq> pid) (db_proofClaims db),
      db_invoiceClaims := filter (\<lambda>c. ic_payment_id c \<noteq> pid) (db_invoiceClaims db)\<rparr>"
  by (simp add: releaseActiveClaims_def deleteInvoiceClaims_def deleteProofClaims_def queue_def
      lifecycleView_def)

lemma view_deferred [simp]: "lifecycleView (db\<lparr>db_deferred := q\<rparr>) = lifecycleView db"
  by (simp add: lifecycleView_def)

end
