(* ===== verification/Lifecycle_Transitions.thy ===== *)
theory Lifecycle_Transitions
  imports Lifecycle_Facts
begin

text \<open>
  What one persisted transition does to the database and to the lifecycle read from it: exactly
  one event is appended, the state takes one step of \<open>lifecycle_step\<close>, and the claims of the
  reservation are kept unless it is released.
\<close>


section \<open>Scope\<close>

lemma requireReservation_Inr:
  "requireReservation env db pid lock = Inr scope \<longleftrightarrow> loadReservation env db pid = Inr (Some scope)"
  by (auto simp: requireReservation_def result_simps split: option.splits if_splits)

lemma loadReservation_scope:
  assumes "loadReservation env db pid = Inr (Some scope)"
  shows "sc_paymentId scope = pid
    \<and> (\<exists>row inv'. findReservation db pid = Some row \<and> findInvoice db (rs_invoice_id row) = Some inv'
        \<and> rs_invoice_id row = sc_invoiceId scope \<and> ir_state inv' = sc_invoiceState scope
        \<and> ir_paid_at inv' = sc_paidAt scope \<and> rs_reserved_at row = sc_reservedAt scope
        \<and> rs_operator_id row = sc_operatorId scope \<and> rs_mint_url row = sc_mintUrl scope
        \<and> ir_created_at inv' = sc_createdAt scope \<and> ir_expires_at inv' = sc_expiresAt scope
        \<and> ir_amount inv' = sc_amount scope \<and> ir_merchant_id inv' = sc_merchantId scope)"
  using assms
  by (auto simp: loadReservation_def scopeOfRow_def result_simps split: option.splits if_splits)

section \<open>Appending an event\<close>

lemma showState_inject [simp]: "showState s = showState s' \<longleftrightarrow> s = s'"
  by (cases s; cases s') auto

lemma loadLifecycle_rows:
  assumes "loadLifecycle env db scope = Inr lc"
  shows "list_all2 (\<lambda>row e. mapEvent env db row scope (lc_effect lc) = Inr e)
      (sort_key ev_sequence (eventsOf db (sc_paymentId scope))) (lc_events lc)
    \<and> map ev_sequence (sort_key ev_sequence (eventsOf db (sc_paymentId scope)))
      = [0..int (length (lc_events lc)) - 1]"
proof -
  from loadLifecycle_parts [OF assms] have load:
    "loadEvents env db scope (lc_effect lc) 0 Reserved None
      (sort_key ev_sequence (eventsOf db (sc_paymentId scope))) = Inr (lc_events lc, lc_state lc)"
    by auto
  from loadEvents_sound [OF load] show ?thesis by (auto dest: list_all2_lengthD)
qed

lemma sorted_rows_append:
  assumes "loadLifecycle env db scope = Inr cur"
    and "db_events db' = db_events db @ [row]" and "ev_payment_id row = sc_paymentId scope"
    and "ev_sequence row = int (length (lc_events cur))"
  shows "sort_key ev_sequence (eventsOf db' (sc_paymentId scope))
    = sort_key ev_sequence (eventsOf db (sc_paymentId scope)) @ [row]"
proof -
  let ?rows = "eventsOf db (sc_paymentId scope)"
  have "ev_sequence ` set ?rows = set (map ev_sequence (sort_key ev_sequence ?rows))" by simp
  also have "\<dots> = {0..int (length (lc_events cur)) - 1}"
    using loadLifecycle_rows [OF assms(1)] by simp
  finally have range: "ev_sequence ` set ?rows = {0..int (length (lc_events cur)) - 1}" .
  have "ev_sequence r \<le> ev_sequence row" if "r \<in> set ?rows" for r
  proof -
    from that have "ev_sequence r \<in> ev_sequence ` set ?rows" by (rule imageI)
    then show ?thesis unfolding range assms(4) by simp
  qed
  moreover have "eventsOf db' (sc_paymentId scope) = ?rows @ [row]"
    using assms(2,3) by (simp add: eventsOf_def)
  ultimately show ?thesis by (simp add: sort_key_snoc)
qed

lemma mapEvent_frame:
  assumes "db_proofEntries db' = db_proofEntries db" and "db_proofs db' = db_proofs db"
    and "db_proofObservations db' = db_proofObservations db"
  shows "mapEvent env db' row scope effect = mapEvent env db row scope effect"
  unfolding mapEvent_def validateProofStateEvidenceByFingerprint_def proofEntriesOf_def assms
  by (rule refl)

lemma appended_lifecycle:
  assumes cur: "loadLifecycle env db scope = Inr cur"
    and new: "loadLifecycle env db' scope = Inr lc"
    and events: "db_events db' = db_events db @ [row]" "ev_payment_id row = sc_paymentId scope"
      "ev_sequence row = int (length (lc_events cur))" "ev_state row = showState s"
    and same: "db_proofEntries db' = db_proofEntries db" "db_proofs db' = db_proofs db"
      "db_proofObservations db' = db_proofObservations db"
    and effect: "lc_effect lc = lc_effect cur \<or> lc_events cur = []"
  shows "lc_state lc = s \<and> lifecycle_step (lc_state cur) s
    \<and> (\<exists>e. mapEvent env db row scope (lc_effect lc) = Inr e \<and> lc_events lc = lc_events cur @ [e])"
proof -
  let ?old = "sort_key ev_sequence (eventsOf db (sc_paymentId scope))"
  note rows = sorted_rows_append [OF cur events(1-3)]
  have "list_all2 (\<lambda>row e. mapEvent env db row scope (lc_effect lc) = Inr e) (?old @ [row]) (lc_events lc)"
    using loadLifecycle_rows [OF new] by (simp add: rows mapEvent_frame [OF same])
  then obtain es e where es: "lc_events lc = es @ [e]"
    "list_all2 (\<lambda>row e. mapEvent env db row scope (lc_effect lc) = Inr e) ?old es"
    "mapEvent env db row scope (lc_effect lc) = Inr e"
    by (auto simp: list_all2_append1 list_all2_Cons1)
  have "es = lc_events cur"
  proof (cases "lc_effect lc = lc_effect cur")
    case True
    with es(2) loadLifecycle_rows [OF cur] show ?thesis
      by (intro list_all2_functional) auto
  next
    case False
    with effect loadLifecycle_rows [OF cur] es(2) show ?thesis
      by (metis list.rel_sel list_all2_Nil2)
  qed
  moreover have "eventState (le_body e) = s"
    using mapEvent_fields [OF es(3)] events(4) by simp
  moreover have "lifecycleValid scope lc" "lifecycleValid scope cur"
    using loadLifecycle_valid cur new by blast+
  ultimately show ?thesis
    using es by (auto simp: lifecycleValid_def statePath_append)
qed

lemma effects_same:
  assumes "loadLifecycle env db scope = Inr cur" and "loadLifecycle env db' scope = Inr lc"
    and "db_effects db' = db_effects db"
  shows "lc_effect lc = lc_effect cur"
  using loadLifecycle_parts [OF assms(1)] loadLifecycle_parts [OF assms(2)]
  by (auto simp: assms(3) split: option.splits)

section \<open>A persisted transition\<close>

text \<open>What a fresh transition leaves of the database.\<close>

definition claimsAfter :: "reservation_state \<Rightarrow> string \<Rightarrow> db \<Rightarrow> db" where
  "claimsAfter s pid db = (if s = Released
     then db\<lparr>db_proofClaims := filter (\<lambda>c. pc_payment_id c \<noteq> pid) (db_proofClaims db),
             db_invoiceClaims := filter (\<lambda>c. ic_payment_id c \<noteq> pid) (db_invoiceClaims db)\<rparr>
     else db)"

definition transitionView :: "cashu_env \<Rightarrow> event_draft \<Rightarrow> int \<Rightarrow> db \<Rightarrow> db" where
  "transitionView env draft n db =
     claimsAfter (dr_state draft) (dr_paymentId draft)
       ((lifecycleView db)\<lparr>db_events := db_events db @ [eventRowOf env draft n]\<rparr>)"

lemma eventRowOf_sel [simp]:
  "ev_payment_id (eventRowOf env draft n) = dr_paymentId draft"
  "ev_event_id (eventRowOf env draft n) = dr_eventId draft"
  "ev_sequence (eventRowOf env draft n) = n"
  "ev_state (eventRowOf env draft n) = showState (dr_state draft)"
  "ev_recorded_at (eventRowOf env draft n) = dr_recordedAt draft"
  "ev_effect_id (eventRowOf env draft n) = dr_effectId draft"
  "ev_evidence_kind (eventRowOf env draft n) = dr_evidenceKind draft"
  "ev_evidence_at (eventRowOf env draft n) = dr_evidenceAt draft"
  "ev_journal_entry_id (eventRowOf env draft n) = dr_journalEntryId draft"
  "ev_proof_state_fingerprint (eventRowOf env draft n) = dr_proofStateFingerprint draft"
  "ev_event_fingerprint (eventRowOf env draft n) = createEventFingerprint env draft n"
  by (simp_all add: eventRowOf_def)

lemma transitionView_sel [simp]:
  "db_events (transitionView env draft n db) = db_events db @ [eventRowOf env draft n]"
  "db_effects (transitionView env draft n db) = db_effects db"
  "db_proofEntries (transitionView env draft n db) = db_proofEntries db"
  "db_proofs (transitionView env draft n db) = db_proofs db"
  "db_proofObservations (transitionView env draft n db) = db_proofObservations db"
  "db_reservations (transitionView env draft n db) = db_reservations db"
  "db_invoices (transitionView env draft n db) = db_invoices db"
  by (simp_all add: transitionView_def claimsAfter_def)

lemma viewD:
  assumes "lifecycleView db' = v"
  shows "db_events db' = db_events v" "db_effects db' = db_effects v"
    "db_proofEntries db' = db_proofEntries v" "db_proofs db' = db_proofs v"
    "db_proofObservations db' = db_proofObservations v"
    "db_reservations db' = db_reservations v" "db_invoices db' = db_invoices v"
    "db_proofClaims db' = db_proofClaims v" "db_invoiceClaims db' = db_invoiceClaims v"
    "db_journals db' = db_journals v" "db_postings db' = db_postings v"
    "db_quoteAttempts db' = db_quoteAttempts v" "db_quoteOutcomes db' = db_quoteOutcomes v"
    "db_quoteObservations db' = db_quoteObservations v" "db_requests db' = db_requests v"
    "db_routes db' = db_routes v"
  using assms by (metis lifecycleView_sel)+

lemma lifecycleView_events [simp]:
  "lifecycleView (db\<lparr>db_events := x\<rparr>) = (lifecycleView db)\<lparr>db_events := x\<rparr>"
  "lifecycleView (lifecycleView db) = lifecycleView db"
  by (simp_all add: lifecycleView_def)

lemma persistTransition_fresh:
  assumes "persistTransitionInTransaction env scope draft db = Inr (db', change)"
    and "replayEvent env db draft None = Inr None"
    and "dr_paymentId draft = sc_paymentId scope"
  shows "\<not> ch_replayed change \<and> (\<exists>cur. loadLifecycle env db scope = Inr cur
    \<and> loadLifecycle env db' scope = Inr (ch_lifecycle change)
    \<and> lifecycleView db' = transitionView env draft (int (length (lc_events cur))) db
    \<and> (dr_evidenceKind draft = Some ''pre_dispatch'' \<and> dr_state draft = Released
         \<and> lc_state cur = Reserved \<and> lc_effect cur = None
       \<or> (\<exists>effect. lc_effect cur = Some effect \<and> transitionGuard draft cur effect
            \<and> proofStateInOrder db scope draft = Inr ())))"
proof -
  obtain cur where cur: "loadLifecycle env db scope = Inr cur"
    using assms(1,2) by (auto simp: persistTransitionInTransaction_def result_simps)
  show ?thesis
  proof (cases "dr_state draft = Released \<and> dr_evidenceKind draft = Some ''pre_dispatch''")
    case True
    then obtain mid where mid: "insertEventRow db (eventRowOf env draft 0) = Inr mid"
        "lc_state cur = Reserved" "lc_effect cur = None"
        "db' = releaseActiveClaims (sc_paymentId scope) mid"
        "loadLifecycle env db' scope = Inr (ch_lifecycle change)" "\<not> ch_replayed change"
      using assms(1,2) cur
      by (auto simp: persistTransitionInTransaction_def result_simps insertEvent_def reloaded_def
          split: if_splits)
    have "lifecycleValid scope cur" using cur by (rule loadLifecycle_valid)
    with mid(2) have "lc_events cur = []"
      by (cases "lc_events cur" rule: rev_cases)
        (auto simp: lifecycleValid_def statePath_append)
    moreover have view: "lifecycleView mid = (lifecycleView db)
        \<lparr>db_events := db_events db @ [eventRowOf env draft 0]\<rparr>"
      using insertEventRow_Inr [OF mid(1)] by simp
    moreover have "lifecycleView db' = transitionView env draft 0 db"
      unfolding mid(4) releaseActiveClaims_view viewD(8,9) [OF view] view transitionView_def
        claimsAfter_def using True assms(3) by simp
    ultimately show ?thesis using mid cur True by simp
  next
    case False
    then obtain effect mid where mid: "lc_effect cur = Some effect" "transitionGuard draft cur effect"
        "proofStateInOrder db scope draft = Inr ()"
        "insertEventRow db (eventRowOf env draft (int (length (lc_events cur)))) = Inr mid"
        "db' = (if dr_state draft = Released then releaseActiveClaims (sc_paymentId scope) mid else mid)"
        "loadLifecycle env db' scope = Inr (ch_lifecycle change)" "\<not> ch_replayed change"
      using assms(1,2) cur
      by (cases "dr_state draft = Released")
        (auto simp: persistTransitionInTransaction_def result_simps insertEvent_def reloaded_def
          split: if_splits option.splits)
    have "lifecycleView db' = transitionView env draft (int (length (lc_events cur))) db"
    proof -
      have view: "lifecycleView mid = (lifecycleView db)
          \<lparr>db_events := db_events db @ [eventRowOf env draft (int (length (lc_events cur)))]\<rparr>"
        using insertEventRow_Inr [OF mid(4)] by simp
      show ?thesis
        unfolding mid(5) transitionView_def claimsAfter_def assms(3)
        using view by (simp add: releaseActiveClaims_view viewD(8,9) [OF view])
    qed
    with mid cur show ?thesis by blast
  qed
qed

end
