(* ===== verification/Lifecycle_Commands.thy ===== *)
theory Lifecycle_Commands
  imports Lifecycle_Transitions
begin

text \<open>
  The five writing methods of the lifecycle repository as commands, and what each of them does when
  it succeeds: it is a replay and changes nothing, or it appends one event by one step of the
  reservation machine (\<open>command_step\<close>, \<open>command_replay\<close>).
\<close>

section \<open>Commands\<close>

datatype lifecycle_command =
    Start_effect start_effect_input
  | Record_pending evidence_input
  | Require_attention attention_input
  | Accept_payment acceptance_input
  | Release_reservation release_input

definition runCommand ::
  "cashu_env \<Rightarrow> lifecycle_command \<Rightarrow> db \<Rightarrow> lifecycle_error + db \<times> lifecycle_change" where
  "runCommand env command db = (case command of
       Start_effect input \<Rightarrow> startEffect env input db
     | Record_pending input \<Rightarrow> recordPending env input db
     | Require_attention input \<Rightarrow> requireAttention env input db
     | Accept_payment input \<Rightarrow>
         bindR (acceptPayment env input db) (\<lambda>(after, acceptance). Inr (after, an_change acceptance))
     | Release_reservation input \<Rightarrow> release env input db)"

fun commandPayment :: "lifecycle_command \<Rightarrow> string" where
  "commandPayment (Start_effect input) = se_paymentId input"
| "commandPayment (Record_pending input) = ei_paymentId input"
| "commandPayment (Require_attention input) = ei_paymentId input"
| "commandPayment (Accept_payment input) = ei_paymentId input"
| "commandPayment (Release_reservation input) = ri_paymentId input"

fun commandState :: "lifecycle_command \<Rightarrow> reservation_state" where
  "commandState (Start_effect input) = Dispatch_started"
| "commandState (Record_pending input) = Pending"
| "commandState (Require_attention input) = Needs_attention"
| "commandState (Accept_payment input) = Consumed"
| "commandState (Release_reservation input) = Released"

section \<open>Frames of the accounting writes\<close>

text \<open>What loading a lifecycle reads: not the invoices and the journals either.\<close>

definition lifecycleReads :: "db \<Rightarrow> db" where
  "lifecycleReads db = (lifecycleView db)\<lparr>db_invoices := [], db_journals := [], db_postings := []\<rparr>"

lemma lifecycleReads_sel [simp]:
  "db_requests (lifecycleReads db) = db_requests db"
  "db_routes (lifecycleReads db) = db_routes db"
  "db_reservations (lifecycleReads db) = db_reservations db"
  "db_proofs (lifecycleReads db) = db_proofs db"
  "db_proofClaims (lifecycleReads db) = db_proofClaims db"
  "db_invoiceClaims (lifecycleReads db) = db_invoiceClaims db"
  "db_effects (lifecycleReads db) = db_effects db"
  "db_events (lifecycleReads db) = db_events db"
  "db_quoteAttempts (lifecycleReads db) = db_quoteAttempts db"
  "db_quoteOutcomes (lifecycleReads db) = db_quoteOutcomes db"
  "db_quoteObservations (lifecycleReads db) = db_quoteObservations db"
  "db_proofObservations (lifecycleReads db) = db_proofObservations db"
  "db_proofEntries (lifecycleReads db) = db_proofEntries db"
  by (simp_all add: lifecycleReads_def)

lemma reads_counts:
  "eventsOf (lifecycleReads db) pid = eventsOf db pid"
  "proofEntriesOf (lifecycleReads db) f = proofEntriesOf db f"
  "reservedProofCount (lifecycleReads db) pid = reservedProofCount db pid"
  "invoiceClaimCount (lifecycleReads db) pid = invoiceClaimCount db pid"
  by (simp_all add: eventsOf_def proofEntriesOf_def reservedProofCount_def invoiceClaimCount_def)

lemma reads_loads:
  "requireSettlementRoute env (lifecycleReads db) scope = requireSettlementRoute env db scope"
  "loadMeltQuotedEvidence env (lifecycleReads db) pid = loadMeltQuotedEvidence env db pid"
  "validateProofStateEvidenceByFingerprint env (lifecycleReads db) scope f st i
     = validateProofStateEvidenceByFingerprint env db scope f st i"
  "assertProjection (lifecycleReads db) pid state b = assertProjection db pid state b"
  unfolding reads_counts requireSettlementRoute_def loadMeltQuotedEvidence_def
    validateProofStateEvidenceByFingerprint_def assertProjection_def lifecycleReads_sel
  by (rule refl)+

lemma reads_loads2:
  "assertMeltQuoteEvidence env (lifecycleReads db) scope t r x d
     = assertMeltQuoteEvidence env db scope t r x d"
  "mapEvent env (lifecycleReads db) row scope effect = mapEvent env db row scope effect"
  unfolding reads_counts reads_loads assertMeltQuoteEvidence_def mapEvent_def lifecycleReads_sel
  by (rule refl)+

lemma reads_loadEvents:
  "loadEvents env (lifecycleReads db) scope effect n cur prev rows
     = loadEvents env db scope effect n cur prev rows"
proof (induction rows arbitrary: n cur prev)
  case (Cons row rows)
  show ?case unfolding loadEvents.simps reads_loads2 Cons.IH by (rule refl)
qed simp

lemma reads_loadLifecycle:
  "loadLifecycle env (lifecycleReads db) scope = loadLifecycle env db scope"
  unfolding loadLifecycle_def reads_counts reads_loads reads_loads2 reads_loadEvents
    lifecycleReads_sel
  by (rule refl)

lemma sameReads:
  "lifecycleReads db = lifecycleReads db' \<Longrightarrow> loadLifecycle env db scope = loadLifecycle env db' scope"
  by (metis reads_loadLifecycle)

lemma sameReads_view:
  "lifecycleReads db = lifecycleReads db' \<Longrightarrow>
     lifecycleReads (db\<lparr>db_deferred := q\<rparr>) = lifecycleReads db'"
  by (simp add: lifecycleReads_def)

lemma view_sameReads:
  "lifecycleView db = lifecycleView db' \<Longrightarrow> lifecycleReads db = lifecycleReads db'"
  by (simp add: lifecycleReads_def)

lemma insertJournal_Inr:
  assumes "insertJournal db row = Inr db'"
  shows "lifecycleView db' = (lifecycleView db)\<lparr>db_journals := db_journals db @ [row]\<rparr>
    \<and> (\<forall>j \<in> set (db_journals db). jr_journal_entry_id j \<noteq> jr_journal_entry_id row
         \<and> jr_invoice_id j \<noteq> jr_invoice_id row \<and> jr_payment_id j \<noteq> jr_payment_id row)
    \<and> journalCheck row"
  using assms by (auto simp: insertJournal_def result_simps queue_def lifecycleView_def)

lemma insertPostings_Inr:
  assumes "insertPostings db rows = Inr db'"
  shows "lifecycleView db' = (lifecycleView db)\<lparr>db_postings := db_postings db @ rows\<rparr>"
  using assms
proof (induction rows arbitrary: db)
  case Nil
  then show ?case by (simp add: lifecycleView_def)
next
  case (Cons row rows)
  then obtain mid where mid: "insertPosting db row = Inr mid" "insertPostings mid rows = Inr db'"
    by (auto simp: result_simps)
  have view: "lifecycleView mid = (lifecycleView db)\<lparr>db_postings := db_postings db @ [row]\<rparr>"
    using mid(1) by (auto simp: insertPosting_def result_simps queue_def lifecycleView_def)
  note v = viewD(11) [OF view]
  show ?case using Cons.IH [OF mid(2)] by (simp add: view v)
qed

lemma updateInvoicePaid_Inr:
  assumes "updateInvoicePaid db iid t = Inr (db', n)"
  shows "lifecycleView db' = (lifecycleView db)\<lparr>db_invoices := map (\<lambda>i.
      if ir_id i = iid \<and> ir_state i = ''open'' \<and> ir_paid_at i = None
      then i\<lparr>ir_state := ''paid'', ir_paid_at := Some t\<rparr> else i) (db_invoices db)\<rparr>
    \<and> n = length (filter (\<lambda>i. ir_id i = iid \<and> ir_state i = ''open'' \<and> ir_paid_at i = None)
           (db_invoices db))"
  using assms by (auto simp: updateInvoicePaid_def Let_def result_simps queue_def lifecycleView_def)

text \<open>\<open>persistAcceptedPayment\<close>: the journal, its postings and the paid invoice, nothing else.\<close>

lemma persistAcceptedPayment_Inr:
  assumes "persistAcceptedPayment env scope v db = Inr (paid, a)"
  shows "lifecycleView paid = (lifecycleView db)
      \<lparr>db_journals := db_journals db @ [journalRowOf env scope a],
       db_postings := db_postings db @ postingRowsOf (ac_journalEntry a),
       db_invoices := map (\<lambda>i.
         if ir_id i = sc_invoiceId scope \<and> ir_state i = ''open'' \<and> ir_paid_at i = None
         then i\<lparr>ir_state := ''paid'', ir_paid_at := Some (ac_paidAt a)\<rparr> else i) (db_invoices db)\<rparr>
    \<and> sc_invoiceState scope = ''open''
    \<and> length (filter (\<lambda>i. ir_id i = sc_invoiceId scope \<and> ir_state i = ''open''
         \<and> ir_paid_at i = None) (db_invoices db)) = 1
    \<and> (\<exists>route asset. requireSettlementRoute env db scope = Inr route
         \<and> settlementAssetAccount STELLAR_TESTNET_USDC_SETTLEMENT_ASSET_ID = Inr asset
         \<and> rte_mode route = Immediate_conversion
         \<and> acceptPaymentOf scope (paymentInput scope (ci_proofStateObservedAt v) asset
              (ei_recordedAt v) (ci_feeAmount v) (ci_journalEntryId v) Immediate_conversion) = Inr a)
    \<and> (\<forall>j \<in> set (db_journals db). jr_journal_entry_id j \<noteq> je_id (ac_journalEntry a)
         \<and> jr_invoice_id j \<noteq> inv_id (ac_invoice a) \<and> jr_payment_id j \<noteq> ip_paymentId (ac_payment a))"
proof -
  obtain route asset mid1 mid2 where steps: "sc_invoiceState scope = ''open''"
    "requireSettlementRoute env db scope = Inr route" "rte_mode route = Immediate_conversion"
    "settlementAssetAccount STELLAR_TESTNET_USDC_SETTLEMENT_ASSET_ID = Inr asset"
    "acceptPaymentOf scope (paymentInput scope (ci_proofStateObservedAt v) asset
       (ei_recordedAt v) (ci_feeAmount v) (ci_journalEntryId v) Immediate_conversion) = Inr a"
    "insertJournal db (journalRowOf env scope a) = Inr mid1"
    "insertPostings mid1 (postingRowsOf (ac_journalEntry a)) = Inr mid2"
    "updateInvoicePaid mid2 (sc_invoiceId scope) (ac_paidAt a) = Inr (paid, 1)"
    using assms
    by (auto simp: persistAcceptedPayment_def result_simps catchR_eq_Inr split: option.splits if_splits)
  note j = insertJournal_Inr [OF steps(6)]
  note p = insertPostings_Inr [OF steps(7)]
  note u = updateInvoicePaid_Inr [OF steps(8)]
  have "lifecycleView mid1 = (lifecycleView db)\<lparr>db_journals := db_journals db @ [journalRowOf env scope a]\<rparr>"
    using j by simp
  note v1 = viewD [OF this] 
  note v2 = viewD [OF p]
  have inv: "db_invoices mid2 = db_invoices db" "db_postings mid1 = db_postings db" 
    using v1 v2 by simp_all
  show ?thesis
    using steps(1-5) j p u by (auto simp: inv journalRowOf_def)
qed

section \<open>One event per fresh command\<close>

text \<open>
  \<open>eventAppended env scope draft cur db' lc\<close>: the database \<open>db'\<close> has one event more than \<open>db\<close>, the
  one \<open>draft\<close> describes, and the lifecycle went from \<open>cur\<close> to \<open>lc\<close> by one step of the machine.
\<close>

definition eventAppended ::
  "cashu_env \<Rightarrow> reservation_scope \<Rightarrow> event_draft \<Rightarrow> db \<Rightarrow> lifecycle \<Rightarrow> db \<Rightarrow> lifecycle \<Rightarrow> bool" where
  "eventAppended env scope draft db cur db' lc \<longleftrightarrow>
     loadLifecycle env db scope = Inr cur \<and> loadLifecycle env db' scope = Inr lc
     \<and> db_events db' = db_events db @ [eventRowOf env draft (int (length (lc_events cur)))]
     \<and> (\<forall>e \<in> set (db_events db). ev_event_id e \<noteq> dr_eventId draft)
     \<and> dr_paymentId draft = sc_paymentId scope
     \<and> lc_state lc = dr_state draft \<and> lifecycle_step (lc_state cur) (dr_state draft)
     \<and> (\<exists>e. lc_events lc = lc_events cur @ [e] \<and> le_eventId e = dr_eventId draft
           \<and> le_recordedAt e = dr_recordedAt draft \<and> eventState (le_body e) = dr_state draft
           \<and> eventEvidenceKind (le_body e) = dr_evidenceKind draft
           \<and> eventEvidenceAt (le_body e) = dr_evidenceAt draft)"

lemma appended_eventAppended:
  assumes "loadLifecycle env db scope = Inr cur" and "loadLifecycle env db' scope = Inr lc"
    and "db_events db' = db_events db @ [eventRowOf env draft (int (length (lc_events cur)))]"
    and "dr_paymentId draft = sc_paymentId scope"
    and "db_proofEntries db' = db_proofEntries db" "db_proofs db' = db_proofs db"
      "db_proofObservations db' = db_proofObservations db"
    and "lc_effect lc = lc_effect cur \<or> lc_events cur = []"
    and "\<forall>e \<in> set (db_events db). ev_event_id e \<noteq> dr_eventId draft"
  shows "eventAppended env scope draft db cur db' lc"
proof -
  from appended_lifecycle [OF assms(1-3) _ _ _ assms(5-8), of "dr_state draft"] assms(4)
  obtain e where e: "lc_state lc = dr_state draft" "lifecycle_step (lc_state cur) (dr_state draft)"
    "mapEvent env db (eventRowOf env draft (int (length (lc_events cur)))) scope (lc_effect lc) = Inr e"
    "lc_events lc = lc_events cur @ [e]"
    by auto
  from mapEvent_fields [OF e(3)] e assms(1-4,9) show ?thesis by (auto simp: eventAppended_def)
qed

lemma reserved_no_events:
  assumes "loadLifecycle env db scope = Inr cur" and "lc_state cur = Reserved"
  shows "lc_events cur = []"
proof -
  have "lifecycleValid scope cur" using assms(1) by (rule loadLifecycle_valid)
  with assms(2) show ?thesis
    by (cases "lc_events cur" rule: rev_cases) (auto simp: lifecycleValid_def statePath_append)
qed

lemma startEffectIn_fresh:
  assumes "startEffectIn env v db = Inr (db', change)" and "\<not> ch_replayed change"
  shows "\<exists>scope cur. requireReservation env db (vs_paymentId v) True = Inr scope
    \<and> eventAppended env scope (dispatchDraft v scope) db cur db' (ch_lifecycle change)
    \<and> lc_state cur = Reserved \<and> sc_invoiceState scope = ''open''
    \<and> sc_createdAt scope \<le> vs_startedAt v \<and> vs_startedAt v < sc_expiresAt scope
    \<and> sc_reservedAt scope \<le> vs_startedAt v
    \<and> (\<forall>r x. vs_kind v = Melt r x \<longrightarrow>
          assertMeltQuoteEvidence env db scope (vs_startedAt v) r x True = Inr ())
    \<and> lifecycleView db' = (lifecycleView db)
        \<lparr>db_events := db_events db @ [eventRowOf env (dispatchDraft v scope) 0],
         db_effects := db_effects db @ [effectRowOf env scope (effectOfInput v)],
         db_invoiceClaims := db_invoiceClaims db @ [\<lparr>ic_invoice_id = sc_invoiceId scope,
            ic_payment_id = sc_paymentId scope, ic_effect_id = vs_effectId v\<rparr>]\<rparr>
    \<and> (\<forall>e \<in> set (db_effects db). ef_payment_id e \<noteq> sc_paymentId scope \<and> ef_effect_id e \<noteq> vs_effectId v)
    \<and> (\<forall>c \<in> set (db_invoiceClaims db). ic_invoice_id c \<noteq> sc_invoiceId scope)"
proof -
  obtain scope cur mid where steps: "requireReservation env db (vs_paymentId v) True = Inr scope"
    "loadLifecycle env db scope = Inr cur" "lc_state cur = Reserved" "sc_invoiceState scope = ''open''"
    "sc_createdAt scope \<le> vs_startedAt v" "vs_startedAt v < sc_expiresAt scope"
    "sc_reservedAt scope \<le> vs_startedAt v"
    "\<forall>r x. vs_kind v = Melt r x \<longrightarrow> assertMeltQuoteEvidence env db scope (vs_startedAt v) r x True = Inr ()"
    "insertEffect db (effectRowOf env scope (effectOfInput v)) = Inr mid"
    "insertEvent env mid (dispatchDraft v scope) 0 = Inr db'"
    "loadLifecycle env db' scope = Inr (ch_lifecycle change)"
    using assms
    by (auto simp: startEffectIn_def Let_def result_simps reloaded_def effectOfInput_def replayEvent_def
        split: option.splits if_splits effect_kind.splits)
  note i = insertEffect_Inr [OF steps(9)]
  have ev: "insertEventRow mid (eventRowOf env (dispatchDraft v scope) 0) = Inr db'"
    using steps(10) by (simp add: insertEvent_def)
  note e = insertEventRow_Inr [OF ev]
  have row: "ef_invoice_id (effectRowOf env scope (effectOfInput v)) = sc_invoiceId scope"
    "ef_payment_id (effectRowOf env scope (effectOfInput v)) = sc_paymentId scope"
    "ef_effect_id (effectRowOf env scope (effectOfInput v)) = vs_effectId v"
    by (simp_all add: effectRowOf_def effectOfInput_def)
  have view: "lifecycleView db' = (lifecycleView db)
        \<lparr>db_events := db_events db @ [eventRowOf env (dispatchDraft v scope) 0],
         db_effects := db_effects db @ [effectRowOf env scope (effectOfInput v)],
         db_invoiceClaims := db_invoiceClaims db @ [\<lparr>ic_invoice_id = sc_invoiceId scope,
            ic_payment_id = sc_paymentId scope, ic_effect_id = vs_effectId v\<rparr>]\<rparr>"
    using e i by (simp add: row)
  note none = reserved_no_events [OF steps(2,3)]
  have fresh: "\<forall>ev \<in> set (db_events db). ev_event_id ev \<noteq> dr_eventId (dispatchDraft v scope)"
    using e i by simp
  have "eventAppended env scope (dispatchDraft v scope) db cur db' (ch_lifecycle change)"
    using viewD [OF view] none fresh
    by (intro appended_eventAppended [OF steps(2) steps(11)]) (simp_all add: dispatchDraft_def)
  with steps i show ?thesis by (auto simp: row view)
qed

lemma replayEvent_None_iff:
  "replayEvent env db draft x = Inr None \<longleftrightarrow>
     findFirst (\<lambda>e. ev_event_id e = dr_eventId draft) (db_events db) = None"
  by (cases x)
    (auto simp: replayEvent_def result_simps Let_def split: option.splits)

lemma persistTransition_appended:
  assumes "persistTransitionInTransaction env scope draft db = Inr (db', change)"
    and "replayEvent env db draft None = Inr None"
    and "dr_paymentId draft = sc_paymentId scope"
  shows "\<exists>cur. eventAppended env scope draft db cur db' (ch_lifecycle change)
    \<and> \<not> ch_replayed change
    \<and> lifecycleView db' = transitionView env draft (int (length (lc_events cur))) db
    \<and> lc_effect (ch_lifecycle change) = lc_effect cur
    \<and> (dr_evidenceKind draft = Some ''pre_dispatch'' \<and> dr_state draft = Released
         \<and> lc_state cur = Reserved \<and> lc_effect cur = None
       \<or> (\<exists>effect. lc_effect cur = Some effect \<and> transitionGuard draft cur effect
            \<and> proofStateInOrder db scope draft = Inr ()))"
proof -
  from persistTransition_fresh [OF assms] obtain cur where cur: "loadLifecycle env db scope = Inr cur"
    "loadLifecycle env db' scope = Inr (ch_lifecycle change)" "\<not> ch_replayed change"
    "lifecycleView db' = transitionView env draft (int (length (lc_events cur))) db"
    "dr_evidenceKind draft = Some ''pre_dispatch'' \<and> dr_state draft = Released
         \<and> lc_state cur = Reserved \<and> lc_effect cur = None
       \<or> (\<exists>effect. lc_effect cur = Some effect \<and> transitionGuard draft cur effect
            \<and> proofStateInOrder db scope draft = Inr ())"
    by blast
  note view = viewD [OF cur(4)]
  have effect: "lc_effect (ch_lifecycle change) = lc_effect cur"
    using effects_same [OF cur(1,2)] view by simp
  have "eventAppended env scope draft db cur db' (ch_lifecycle change)"
    using view assms(3) effect assms(2)
    by (intro appended_eventAppended [OF cur(1,2)])
      (simp_all add: replayEvent_None_iff findFirst_None)
  with cur effect show ?thesis by blast
qed

lemma persistTransition_replay:
  assumes "persistTransitionInTransaction env scope draft db = Inr (db', change)"
  shows "replayEvent env db draft None = Inr None
    \<or> replayEvent env db draft None = Inr (Some change) \<and> db' = db"
  using assms
  by (auto simp: persistTransitionInTransaction_def result_simps split: option.splits)

lemma replayEvent_replayed: "replayEvent env db draft x = Inr (Some change) \<Longrightarrow> ch_replayed change"
  by (auto simp: replayEvent_def result_simps Let_def split: option.splits if_splits)

section \<open>The commands of the repository\<close>

lemma acceptPaymentIn_fresh:
  assumes "acceptPaymentIn env v db = Inr (db', a)" and "\<not> ch_replayed (an_change a)"
  shows "\<exists>scope cur f effect paid. requireReservation env db (ei_paymentId v) True = Inr scope
    \<and> assertEffectEvidence env db scope (ei_effectId v) (ci_evidenceKind v) (ei_evidenceAt v)
        (ei_recordedAt v) = Inr effect
    \<and> resolveProofStateEvidence env db scope (ci_proofStateObservedAt v) ''SPENT'' = Inr f
    \<and> persistAcceptedPayment env scope v db = Inr (paid, an_accounting a)
    \<and> eventAppended env scope (acceptanceDraft v f) db cur db' (ch_lifecycle (an_change a))
    \<and> lc_effect cur = Some effect \<and> transitionGuard (acceptanceDraft v f) cur effect
    \<and> proofStateInOrder db scope (acceptanceDraft v f) = Inr ()
    \<and> lifecycleView db' = transitionView env (acceptanceDraft v f) (int (length (lc_events cur))) paid"
proof -
  obtain scope f effect replay where pre: "requireReservation env db (ei_paymentId v) True = Inr scope"
    "assertEffectEvidence env db scope (ei_effectId v) (ci_evidenceKind v) (ei_evidenceAt v)
        (ei_recordedAt v) = Inr effect"
    "resolveProofStateEvidence env db scope (ci_proofStateObservedAt v) ''SPENT'' = Inr f"
    "replayEvent env db (acceptanceDraft v f) None = Inr replay"
    using assms(1) by (auto simp: acceptPaymentIn_def result_simps Let_def)
  have none: "replay = None"
    using assms pre replayEvent_replayed
    by (cases replay) (auto simp: acceptPaymentIn_def result_simps)
  then obtain paid where steps: "requireReservation env db (ei_paymentId v) True = Inr scope"
    "assertEffectEvidence env db scope (ei_effectId v) (ci_evidenceKind v) (ei_evidenceAt v)
        (ei_recordedAt v) = Inr effect"
    "resolveProofStateEvidence env db scope (ci_proofStateObservedAt v) ''SPENT'' = Inr f"
    "replayEvent env db (acceptanceDraft v f) None = Inr None"
    "persistAcceptedPayment env scope v db = Inr (paid, an_accounting a)"
    "persistTransitionInTransaction env scope (acceptanceDraft v f) paid = Inr (db', an_change a)"
    using assms(1) pre by (auto simp: acceptPaymentIn_def result_simps)
  have scope: "sc_paymentId scope = ei_paymentId v"
    using steps(1) loadReservation_scope by (auto simp: requireReservation_Inr)
  obtain js ps invs where view: "lifecycleView paid = (lifecycleView db)
      \<lparr>db_journals := js, db_postings := ps, db_invoices := invs\<rparr>"
    using persistAcceptedPayment_Inr [OF steps(5)] by blast
  note same = viewD [OF view]
  have reads: "lifecycleReads paid = lifecycleReads db" by (simp add: lifecycleReads_def view)
  have replay: "replayEvent env paid (acceptanceDraft v f) None = Inr None"
    using steps(4) same by (simp add: replayEvent_None_iff)
  from persistTransition_appended [OF steps(6) replay] scope obtain cur where
    cur: "eventAppended env scope (acceptanceDraft v f) paid cur db' (ch_lifecycle (an_change a))"
      "lifecycleView db' = transitionView env (acceptanceDraft v f) (int (length (lc_events cur))) paid"
      "dr_evidenceKind (acceptanceDraft v f) = Some ''pre_dispatch''
          \<and> dr_state (acceptanceDraft v f) = Released
        \<or> (\<exists>effect. lc_effect cur = Some effect \<and> transitionGuard (acceptanceDraft v f) cur effect
            \<and> proofStateInOrder paid scope (acceptanceDraft v f) = Inr ())"
    by (auto simp: acceptanceDraft_def evidenceDraft_def)
  have load: "loadLifecycle env db scope = Inr cur"
    using cur(1) sameReads [OF reads] by (simp add: eventAppended_def)
  have "lc_effect cur = Some effect"
    using steps(2) load by (auto simp: assertEffectEvidence_def result_simps split: option.splits if_splits effect_kind.splits)
  moreover have "proofStateInOrder paid scope (acceptanceDraft v f)
      = proofStateInOrder db scope (acceptanceDraft v f)"
    using same by (simp add: proofStateInOrder_def proofStateObservedAt_def split: option.splits)
  moreover have "eventAppended env scope (acceptanceDraft v f) db cur db' (ch_lifecycle (an_change a))"
    using cur(1) load same by (simp add: eventAppended_def)
  ultimately show ?thesis
    using cur(2,3) steps by (auto simp: acceptanceDraft_def evidenceDraft_def)
qed

lemma releaseIn_fresh:
  assumes "releaseIn env v db = Inr (db', change)" and "\<not> ch_replayed change"
  shows "\<exists>scope draft cur. requireReservation env db (vr_paymentId v) True = Inr scope
    \<and> releaseDraft env v scope db = Inr draft \<and> dr_state draft = Released
    \<and> eventAppended env scope draft db cur db' (ch_lifecycle change)
    \<and> lifecycleView db' = transitionView env draft (int (length (lc_events cur))) db
    \<and> (vr_kind v = Pre_dispatch \<and> lc_state cur = Reserved \<and> lc_effect cur = None
       \<or> (\<exists>effect. lc_effect cur = Some effect \<and> transitionGuard draft cur effect
            \<and> proofStateInOrder db scope draft = Inr ()))"
proof -
  obtain scope draft where steps: "requireReservation env db (vr_paymentId v) True = Inr scope"
    "releaseDraft env v scope db = Inr draft"
    "persistTransitionInTransaction env scope draft db = Inr (db', change)"
    using assms by (auto simp: releaseIn_def result_simps)
  have fresh: "replayEvent env db draft None = Inr None"
    using persistTransition_replay [OF steps(3)] replayEvent_replayed assms(2) by blast
  have scope: "sc_paymentId scope = vr_paymentId v"
    using steps(1) loadReservation_scope by (auto simp: requireReservation_Inr)
  have draft: "dr_paymentId draft = vr_paymentId v" "dr_state draft = Released"
    using steps(2) by (auto simp: releaseDraft_def result_simps split: release_kind.splits if_splits)
  obtain cur where cur: "eventAppended env scope draft db cur db' (ch_lifecycle change)"
    "lifecycleView db' = transitionView env draft (int (length (lc_events cur))) db"
    "lc_state cur = Reserved \<and> lc_effect cur = None
       \<or> (\<exists>effect. lc_effect cur = Some effect \<and> transitionGuard draft cur effect
            \<and> proofStateInOrder db scope draft = Inr ())"
    using persistTransition_appended [OF steps(3) fresh] draft(1) scope by auto
  have "vr_kind v = Pre_dispatch" if "lc_effect cur = None"
    using that steps(2) cur(1)
    by (auto simp: releaseDraft_def assertEffectEvidence_def eventAppended_def result_simps
        split: release_kind.splits)
  with cur draft steps show ?thesis by blast
qed

section \<open>Every command\<close>

lemma draft_sel [simp]:
  "dr_paymentId (evidenceDraft v k st) = ei_paymentId v" "dr_state (evidenceDraft v k st) = st"
  "dr_evidenceKind (evidenceDraft v k st) = Some k" "dr_eventId (evidenceDraft v k st) = ei_eventId v"
  "dr_evidenceAt (evidenceDraft v k st) = Some (ei_evidenceAt v)"
  "dr_recordedAt (evidenceDraft v k st) = ei_recordedAt v"
  "dr_effectId (evidenceDraft v k st) = Some (ei_effectId v)"
  "dr_proofStateFingerprint (evidenceDraft v k st) = None"
  "dr_paymentId (acceptanceDraft a f) = ei_paymentId a" "dr_state (acceptanceDraft a f) = Consumed"
  "dr_evidenceKind (acceptanceDraft a f) = Some (ci_evidenceKind a)"
  "dr_eventId (acceptanceDraft a f) = ei_eventId a"
  "dr_evidenceAt (acceptanceDraft a f) = Some (ei_evidenceAt a)"
  "dr_recordedAt (acceptanceDraft a f) = ei_recordedAt a"
  "dr_effectId (acceptanceDraft a f) = Some (ei_effectId a)"
  "dr_proofStateFingerprint (acceptanceDraft a f) = Some f"
  "dr_journalEntryId (acceptanceDraft a f) = Some (ci_journalEntryId a)"
  "dr_paymentId (dispatchDraft w scope) = sc_paymentId scope"
  "dr_state (dispatchDraft w scope) = Dispatch_started"
  "dr_eventId (dispatchDraft w scope) = vs_eventId w"
  by (simp_all add: evidenceDraft_def acceptanceDraft_def dispatchDraft_def)

lemma eventAppended_commit [simp]:
  "eventAppended env scope draft db cur (db'\<lparr>db_deferred := q\<rparr>) lc
     = eventAppended env scope draft db cur db' lc"
proof -
  have "lifecycleReads (db'\<lparr>db_deferred := q\<rparr>) = lifecycleReads db'"
    by (simp add: lifecycleReads_def)
  from sameReads [OF this] show ?thesis by (simp add: eventAppended_def)
qed

lemma validateStartEffect_ids:
  "validateStartEffect input = Inr v \<Longrightarrow> vs_paymentId v = se_paymentId input
     \<and> vs_effectId v = se_effectId input \<and> vs_eventId v = se_eventId input
     \<and> vs_startedAt v = se_startedAt input
     \<and> vs_dispatchFingerprint v = se_dispatchFingerprint input
     \<and> (vs_kind v = Swap \<and> se_kind input = ''swap'' \<or>
        (\<exists>r x. vs_kind v = Melt r x \<and> se_kind input = ''melt'' \<and> se_operatorReference input = Some r
           \<and> se_operatorReferenceExpiresAt input = Some x \<and> se_startedAt input < x))"
  by (auto simp: validateStartEffect_def result_simps Let_def cashuOperatorDispatchFingerprint_def
      split: if_splits option.splits)

lemma validateEvidenceInput_id:
  "validateEvidenceInput input = Inr v \<Longrightarrow> v = \<lparr>ei_effectId = ei_effectId input,
     ei_eventId = ei_eventId input, ei_evidenceAt = ei_evidenceAt input,
     ei_paymentId = ei_paymentId input, ei_recordedAt = ei_recordedAt input\<rparr>"
  by (auto simp: validateEvidenceInput_def result_simps)

lemma validatePending_id: "validatePending input = Inr v \<Longrightarrow> v = input"
  by (auto simp: validatePending_def dest: validateEvidenceInput_id)

lemma validateAttention_id:
  "validateAttention input = Inr v \<Longrightarrow> v = input \<and> ai_reason v \<in> set CASHU_OPERATOR_ATTENTION_REASONS"
  by (auto simp: validateAttention_def result_simps dest!: validateEvidenceInput_id split: if_splits)

lemma validatePaymentAcceptance_id:
  "validatePaymentAcceptance input = Inr v \<Longrightarrow> v = input \<and> ci_evidenceKind v = ''melt_paid''"
  by (auto simp: validatePaymentAcceptance_def result_simps dest!: validateEvidenceInput_id
      split: if_splits)

lemma validateRelease_ids:
  "validateRelease input = Inr v \<Longrightarrow> vr_paymentId v = ri_paymentId input
     \<and> vr_eventId v = ri_eventId input \<and> vr_recordedAt v = ri_recordedAt input
     \<and> (vr_kind v = Pre_dispatch \<and> ri_kind input = ''pre_dispatch'' \<or>
        (\<exists>i t k o'. vr_kind v = After_failure i t k o' \<and> ri_kind input = ''after_failure''
           \<and> ri_effectId input = Some i \<and> ri_evidenceAt input = Some t
           \<and> ri_evidenceKind input = Some k \<and> ri_proofStateObservedAt input = Some o'
           \<and> k \<in> set CASHU_OPERATOR_FAILURE_EVIDENCE))"
  by (auto simp: validateRelease_def result_simps Let_def split: if_splits option.splits)

text \<open>The four kinds of transitions, each with its transaction.\<close>

lemma startEffect_iff:
  "startEffect env input db = Inr (db', change) \<longleftrightarrow>
     (\<exists>v after. validateStartEffect input = Inr v \<and> startEffectIn env v db = Inr (after, change)
        \<and> (\<forall>c \<in> set (db_deferred after). deferredHolds after c) \<and> db' = after\<lparr>db_deferred := []\<rparr>)"
  by (auto simp: startEffect_def catchR_eq_Inr result_simps withTransaction_iff)

lemma persistTransition_iff:
  "persistTransition env draft db = Inr (db', change) \<longleftrightarrow>
     (\<exists>scope after. requireReservation env db (dr_paymentId draft) True = Inr scope
        \<and> persistTransitionInTransaction env scope draft db = Inr (after, change)
        \<and> (\<forall>c \<in> set (db_deferred after). deferredHolds after c) \<and> db' = after\<lparr>db_deferred := []\<rparr>)"
  by (auto simp: persistTransition_def catchR_eq_Inr result_simps withTransaction_iff)

lemma acceptPayment_iff:
  "acceptPayment env input db = Inr (db', a) \<longleftrightarrow>
     (\<exists>v after. validatePaymentAcceptance input = Inr v \<and> acceptPaymentIn env v db = Inr (after, a)
        \<and> (\<forall>c \<in> set (db_deferred after). deferredHolds after c) \<and> db' = after\<lparr>db_deferred := []\<rparr>)"
  by (auto simp: acceptPayment_def catchR_eq_Inr result_simps withTransaction_iff)

lemma release_iff:
  "release env input db = Inr (db', change) \<longleftrightarrow>
     (\<exists>v after. validateRelease input = Inr v \<and> releaseIn env v db = Inr (after, change)
        \<and> (\<forall>c \<in> set (db_deferred after). deferredHolds after c) \<and> db' = after\<lparr>db_deferred := []\<rparr>)"
  by (auto simp: release_def catchR_eq_Inr result_simps withTransaction_iff)

lemmas command_iffs = startEffect_iff persistTransition_iff acceptPayment_iff release_iff

lemma persistTransition_fresh_step:
  assumes "persistTransition env draft db = Inr (db', change)" and "\<not> ch_replayed change"
  shows "\<exists>scope cur. requireReservation env db (dr_paymentId draft) True = Inr scope
    \<and> eventAppended env scope draft db cur db' (ch_lifecycle change)
    \<and> lifecycleView db' = transitionView env draft (int (length (lc_events cur))) db"
proof -
  obtain scope after where steps: "requireReservation env db (dr_paymentId draft) True = Inr scope"
    "persistTransitionInTransaction env scope draft db = Inr (after, change)"
    "db' = after\<lparr>db_deferred := []\<rparr>"
    using assms(1) by (auto simp: persistTransition_iff)
  have none: "replayEvent env db draft None = Inr None"
    using persistTransition_replay [OF steps(2)] replayEvent_replayed assms(2) by blast
  have pid: "dr_paymentId draft = sc_paymentId scope"
    using steps(1) loadReservation_scope by (auto simp: requireReservation_Inr)
  from persistTransition_appended [OF steps(2) none pid] steps(1,3) show ?thesis by auto
qed

lemma command_step:
  assumes "runCommand env command db = Inr (db', change)" and "\<not> ch_replayed change"
  shows "\<exists>scope draft cur. requireReservation env db (commandPayment command) True = Inr scope
    \<and> dr_state draft = commandState command
    \<and> eventAppended env scope draft db cur db' (ch_lifecycle change)"
proof (cases command)
  case (Start_effect input)
  then obtain v after where v: "validateStartEffect input = Inr v"
    "startEffectIn env v db = Inr (after, change)" "db' = after\<lparr>db_deferred := []\<rparr>"
    using assms(1) by (auto simp: runCommand_def startEffect_iff)
  obtain scope cur where "requireReservation env db (vs_paymentId v) True = Inr scope"
    "eventAppended env scope (dispatchDraft v scope) db cur after (ch_lifecycle change)"
    using startEffectIn_fresh [OF v(2) assms(2)] by auto
  moreover have "dr_state (dispatchDraft v scope) = Dispatch_started" by simp
  ultimately show ?thesis
    using Start_effect validateStartEffect_ids [OF v(1)] v(3)
    by (intro exI [where x = scope] exI [where x = "dispatchDraft v scope"] exI [where x = cur]) auto
next
  case (Record_pending input)
  then obtain v where v: "validatePending input = Inr v"
    "persistTransition env (evidenceDraft v ''operator_pending'' Pending) db = Inr (db', change)"
    using assms(1) by (auto simp: runCommand_def recordPending_def result_simps catchR_eq_Inr)
  have "v = input" using v(1) by (rule validatePending_id)
  with persistTransition_fresh_step [OF v(2) assms(2)] obtain scope cur where
    "requireReservation env db (ei_paymentId input) True = Inr scope"
    "eventAppended env scope (evidenceDraft v ''operator_pending'' Pending) db cur db'
       (ch_lifecycle change)"
    by auto
  with Record_pending show ?thesis
    by (intro exI [where x = scope] exI [where x = "evidenceDraft v ''operator_pending'' Pending"]
        exI [where x = cur]) auto
next
  case (Require_attention input)
  then obtain v where v: "validateAttention input = Inr v"
    "persistTransition env (evidenceDraft v (ai_reason v) Needs_attention) db = Inr (db', change)"
    using assms(1) by (auto simp: runCommand_def requireAttention_def result_simps catchR_eq_Inr)
  have "v = input" using validateAttention_id [OF v(1)] by simp
  with persistTransition_fresh_step [OF v(2) assms(2)] obtain scope cur where
    "requireReservation env db (ei_paymentId input) True = Inr scope"
    "eventAppended env scope (evidenceDraft v (ai_reason v) Needs_attention) db cur db'
       (ch_lifecycle change)"
    by auto
  with Require_attention show ?thesis
    by (intro exI [where x = scope] exI [where x = "evidenceDraft v (ai_reason v) Needs_attention"]
        exI [where x = cur]) auto
next
  case (Accept_payment input)
  then obtain v a after where v: "validatePaymentAcceptance input = Inr v"
    "acceptPaymentIn env v db = Inr (after, a)" "db' = after\<lparr>db_deferred := []\<rparr>"
    "change = an_change a"
    using assms(1) by (auto simp: runCommand_def acceptPayment_iff result_simps)
  have "v = input" using validatePaymentAcceptance_id [OF v(1)] by simp
  moreover obtain scope cur f where
    "requireReservation env db (ei_paymentId v) True = Inr scope"
    "eventAppended env scope (acceptanceDraft v f) db cur after (ch_lifecycle (an_change a))"
    using acceptPaymentIn_fresh [OF v(2)] assms(2) v(4) by blast
  moreover have "dr_state (acceptanceDraft v f) = Consumed"
    by simp
  ultimately show ?thesis using Accept_payment v(3,4)
    by (intro exI [where x = scope] exI [where x = "acceptanceDraft v f"] exI [where x = cur]) auto
next
  case (Release_reservation input)
  then obtain v after where v: "validateRelease input = Inr v"
    "releaseIn env v db = Inr (after, change)" "db' = after\<lparr>db_deferred := []\<rparr>"
    using assms(1) by (auto simp: runCommand_def release_iff)
  from releaseIn_fresh [OF v(2) assms(2)] obtain scope draft cur where
    "requireReservation env db (vr_paymentId v) True = Inr scope" "dr_state draft = Released"
    "eventAppended env scope draft db cur after (ch_lifecycle change)"
    by blast
  with v(3) validateRelease_ids [OF v(1)] Release_reservation show ?thesis by auto
qed

lemma persistTransition_replayed:
  assumes "persistTransitionInTransaction env scope draft db = Inr (after, change)"
    and "ch_replayed change" and "dr_paymentId draft = sc_paymentId scope"
  shows "after = db \<and> replayEvent env db draft None = Inr (Some change)"
  using persistTransition_replay [OF assms(1)] persistTransition_appended [OF assms(1) _ assms(3)]
    assms(2)
  by auto

lemma acceptPaymentIn_replayed:
  assumes "acceptPaymentIn env v db = Inr (after, a)" and "ch_replayed (an_change a)"
  shows "after = db"
proof -
  obtain scope f effect replay where pre: "requireReservation env db (ei_paymentId v) True = Inr scope"
    "assertEffectEvidence env db scope (ei_effectId v) (ci_evidenceKind v) (ei_evidenceAt v)
        (ei_recordedAt v) = Inr effect"
    "resolveProofStateEvidence env db scope (ci_proofStateObservedAt v) ''SPENT'' = Inr f"
    "replayEvent env db (acceptanceDraft v f) None = Inr replay"
    using assms(1) by (auto simp: acceptPaymentIn_def result_simps Let_def)
  show ?thesis
  proof (cases replay)
    case None
    then obtain paid where paid: "persistAcceptedPayment env scope v db = Inr (paid, an_accounting a)"
      "persistTransitionInTransaction env scope (acceptanceDraft v f) paid = Inr (after, an_change a)"
      using assms(1) pre by (auto simp: acceptPaymentIn_def result_simps)
    obtain js ps invs where view: "lifecycleView paid = (lifecycleView db)
        \<lparr>db_journals := js, db_postings := ps, db_invoices := invs\<rparr>"
      using persistAcceptedPayment_Inr [OF paid(1)] by blast
    have "replayEvent env paid (acceptanceDraft v f) None = Inr None"
      using pre(4) None viewD(1) [OF view] by (simp add: replayEvent_None_iff)
    then have False
      using persistTransition_replay [OF paid(2)] persistTransition_replayed [OF paid(2) assms(2)]
        pre(1) loadReservation_scope
      by (auto simp: requireReservation_Inr)
    then show ?thesis ..
  next
    case (Some change)
    then show ?thesis using assms(1) pre by (auto simp: acceptPaymentIn_def result_simps)
  qed
qed

lemma command_replay:
  assumes "runCommand env command db = Inr (db', change)" and "ch_replayed change"
  shows "db' = db\<lparr>db_deferred := []\<rparr>"
proof -
  have tr: "after = db" if "persistTransitionInTransaction env scope draft db = Inr (after, change)"
      "requireReservation env db (dr_paymentId draft) True = Inr scope" for scope draft after
    using persistTransition_replayed [OF that(1) assms(2)] that(2) loadReservation_scope
    by (auto simp: requireReservation_Inr)
  have pt: "db' = db\<lparr>db_deferred := []\<rparr>" if "persistTransition env draft db = Inr (db', change)"
    for draft
    using that tr by (auto simp: persistTransition_iff)
  show ?thesis
  proof (cases command)
    case (Start_effect input)
    with assms show ?thesis
      by (auto simp: runCommand_def startEffect_iff startEffectIn_def Let_def result_simps reloaded_def
          split: option.splits if_splits effect_kind.splits)
  next
    case (Record_pending input)
    with assms(1) pt show ?thesis
      by (auto simp: runCommand_def recordPending_def result_simps catchR_eq_Inr)
  next
    case (Require_attention input)
    with assms(1) pt show ?thesis
      by (auto simp: runCommand_def requireAttention_def result_simps catchR_eq_Inr)
  next
    case (Accept_payment input)
    with assms show ?thesis
      by (auto simp: runCommand_def acceptPayment_iff result_simps dest: acceptPaymentIn_replayed)
  next
    case (Release_reservation input)
    then obtain v scope draft after where v: "releaseIn env v db = Inr (after, change)"
      "requireReservation env db (vr_paymentId v) True = Inr scope"
      "releaseDraft env v scope db = Inr draft"
      "persistTransitionInTransaction env scope draft db = Inr (after, change)"
      "db' = after\<lparr>db_deferred := []\<rparr>"
      using assms(1) by (auto simp: runCommand_def release_iff releaseIn_def result_simps)
    have "dr_paymentId draft = vr_paymentId v"
      using v(3) by (auto simp: releaseDraft_def result_simps split: release_kind.splits if_splits)
    with tr [OF v(4)] v(2,5) show ?thesis by simp
  qed
qed

end
