(* ===== verification/Example.thy ===== *)
theory Example
  imports Lifecycle_Commands
begin

text \<open>
  A concrete deployment on which the properties are instantiated: one merchant, one operator with
  an immediate-conversion route, one invoice of 100 minor units open from 10 to 110, one reserved
  payment and its melt quote, observed unpaid at 30 and expiring at 90.  \<open>exEnv\<close> stands for the
  platform and the Cashu library: it parses the URLs used here and digests a JSON object by the
  last characters of its strings and one digit of its numbers.  The code equations let a proof evaluate the operations
  without decoding the one address, without decimal text and without comparing characters as
  numbers, again and again.
\<close>

section \<open>Evaluation\<close>

definition exAddress :: string where
  "exAddress = ''GBBD47IF6LWK7P7MDEVSCWR7DPUWV3NY3DTQEVFL4NAT4AQH3ZLLFLA5''"

lemma exAddress_valid: "isValidStellarDestination exAddress"
  by code_simp

lemma isValidStellarDestination_code [code]:
  "isValidStellarDestination v =
    (if v = exAddress then True
     else if \<not> stellarAddressPattern v then False
     else (case decodeBase32 v of
             None \<Rightarrow> False
           | Some decoded \<Rightarrow>
               let isMuxed = (take 1 v = ''M'');
                   expectedLength = (if isMuxed then 43 else 35);
                   expectedVersion = (if isMuxed then push_bit 3 12 else push_bit 3 6)
               in if length decoded \<noteq> expectedLength \<or> decoded ! 0 \<noteq> expectedVersion then False
                  else let payload = take (length decoded - 2) decoded;
                           checksum = crc16Xmodem payload
                       in decoded ! (length decoded - 2) = (checksum AND 255)
                          \<and> decoded ! (length decoded - 1) = drop_bit 8 checksum))"
proof (cases "v = exAddress")
  case True
  then show ?thesis by (simp only: exAddress_valid if_True simp_thms)
next
  case False
  then show ?thesis unfolding isValidStellarDestination_def [of v] by (simp only: if_False)
qed

fun leBits :: "bool list \<Rightarrow> bool list \<Rightarrow> bool" where
  "leBits (a # as) (b # bs) = (if a = b then leBits as bs else b)"
| "leBits _ _ = True"

lemma horner_bound: "0 \<le> (horner_sum of_bool 2 bs :: int) \<and> horner_sum of_bool 2 bs < (2 :: int) ^ length bs"
  by (induction bs) auto

lemma leBits_horner:
  "length as = length bs \<Longrightarrow>
     leBits as bs \<longleftrightarrow> horner_sum of_bool 2 (rev as) \<le> (horner_sum of_bool 2 (rev bs) :: int)"
proof (induction as bs rule: list_induct2)
  case (Cons a as b bs)
  then show ?case
    using horner_bound [of "rev as"] horner_bound [of "rev bs"]
    by (auto simp: horner_sum_append)
qed simp

fun charBits :: "char \<Rightarrow> bool list" where
  "charBits (Char b0 b1 b2 b3 b4 b5 b6 b7) = [b7, b6, b5, b4, b3, b2, b1, b0]"

lemma charBits_int: "(of_char c :: int) = horner_sum of_bool 2 (rev (charBits c))"
  by (cases c) (simp add: of_char_def)

lemma charIn_code [code]:
  "charIn lo hi c \<longleftrightarrow> leBits (charBits lo) (charBits c) \<and> leBits (charBits c) (charBits hi)"
proof -
  have "length (charBits d) = 8" for d by (cases d) simp
  then show ?thesis by (simp add: charIn_int charBits_int leBits_horner)
qed

lemma isJsSpace_code [code]:
  "isJsSpace c \<longleftrightarrow> c \<in> set [CHR 0x09, CHR 0x0A, CHR 0x0B, CHR 0x0C, CHR 0x0D, CHR 0x20, CHR 0xA0]"
proof -
  have "of_char c = n \<longleftrightarrow> c = char_of n" if "n < 256" for n :: nat
    using that by (metis char_of_char of_char_of mod_less)
  then show ?thesis by (simp add: isJsSpace_def char_of_def bit_simps)
qed

lemma containsRaw_code [code]:
  "containsRawControlOrWhitespace s \<longleftrightarrow> list_ex (\<lambda>c. charIn CHR 0x00 CHR 0x20 c \<or> c = CHR 0x7F) s"
proof -
  have "of_char c = (127 :: nat) \<longleftrightarrow> c = CHR 0x7F" for c
  proof -
    have "of_char CHR 0x7F = (127 :: nat)" by simp
    then show ?thesis by (metis of_char_eq_iff)
  qed
  then show ?thesis
    by (simp add: containsRawControlOrWhitespace_def charIn_def less_eq_char_def)
qed

lemma readBigint_code [code]:
  "readBigint e v = (if 0 \<le> v \<and> v \<le> MAX_SAFE_INTEGER then Inr v else Inl e)"
proof (cases "0 \<le> v \<and> v \<le> MAX_SAFE_INTEGER")
  case True
  then show ?thesis by simp
next
  case False
  then obtain x where "readBigint e v = Inl x"
    by (cases "readBigint e v") auto
  moreover have "readBigint e v = Inl x \<Longrightarrow> x = e" for x
    by (auto simp: readBigint_def parseSafeInteger_def Let_def split: if_splits)
  ultimately show ?thesis using False by auto
qed

section \<open>The environment\<close>

definition exDigest :: "json \<Rightarrow> string" where
  "exDigest j = (case j of
       JObj members \<Rightarrow> concat (map (\<lambda>(key, v). case v of
           JStr s \<Rightarrow> take 1 (rev s) | JNum n \<Rightarrow> take 1 (drop (nat (n div 10)) ''0123456789ab'')
         | _ \<Rightarrow> []) members)
     | _ \<Rightarrow> [])"

definition exUrl :: "string \<Rightarrow> url option" where
  "exUrl v =
    (if take 6 v = ''https:''
     then Some \<lparr>url_protocol = ''https:'', url_host = ''h'', url_username = [], url_password = [],
       url_pathname = ''/'', url_search = [], url_hash = [], url_href = v, url_searchParams = []\<rparr>
     else if take 4 v = ''web+''
     then Some \<lparr>url_protocol = ''web+stellar:'', url_host = [], url_username = [],
       url_password = [], url_pathname = ''pay'', url_search = ''?'', url_hash = [], url_href = v,
       url_searchParams = [(''destination'', exAddress), (''amount'', ''1''),
         (''asset_code'', ''USDC''), (''asset_issuer'', CASHU_STELLAR_TESTNET_USDC_ISSUER),
         (''network_passphrase'', CASHU_STELLAR_TESTNET_NETWORK_PASSPHRASE)]\<rparr>
     else None)"

definition exEnv :: cashu_env where
  "exEnv = \<lparr>env_parseUrl = exUrl, env_normalizeMintUrl = Some, env_pointFromHex = (\<lambda>_. True),
     env_verifyKeysetId = (\<lambda>_. True), env_encodeCreqA = (\<lambda>_. Some ''creqAx''),
     env_sha256 = exDigest\<rparr>"

section \<open>The database\<close>

definition exInvoice :: invoice_row where
  "exInvoice = \<lparr>ir_id = ''i1'', ir_merchant_id = ''m1'', ir_schema_version = 1, ir_unit = ''usdc'',
     ir_amount = 100, ir_created_at = 10, ir_expires_at = 110, ir_state = ''open'',
     ir_paid_at = None\<rparr>"

definition exRequest :: request_row where
  "exRequest = \<lparr>rq_invoice_id = ''i1'', rq_merchant_id = ''m1'', rq_schema_version = 1,
     rq_encoded_request = ''creqAx'', rq_encoding = ''creqA'', rq_issued_at = 10,
     rq_mint_policy = ''strict'', rq_operator_count = 1, rq_route_set_fingerprint = ''axAb111t0tc'',
     rq_transport_url = ''https:t''\<rparr>"

definition exRoute :: route_row where
  "exRoute = \<lparr>rt_invoice_id = ''i1'', rt_merchant_id = ''m1'', rt_position = 0,
     rt_operator_id = ''o1'', rt_mint_url = ''https:m'', rt_mode = ''immediate_conversion'',
     rt_tier = ''trusted'', rt_reason = ''trusted_operator'',
     rt_settlement_destination = exAddress\<rparr>"

definition exReservation :: reservation_row where
  "exReservation = \<lparr>rs_payment_id = ''p1'', rs_reservation_fingerprint = ''r1'',
     rs_invoice_id = ''i1'', rs_operator_id = ''o1'', rs_mint_url = ''https:m'',
     rs_unit = ''usdc'', rs_schema_version = 1, rs_keyset_observed_at = 15, rs_reserved_at = 20,
     rs_gross_amount = 100\<rparr>"

definition exY :: string where
  "exY = ''02'' @ replicate 64 CHR ''a''"

definition exProof :: proof_row where
  "exProof = \<lparr>pf_payment_id = ''p1'', pf_mint_url = ''https:m'', pf_unit = ''usdc'',
     pf_position = 0, pf_proof_y = exY, pf_keyset_id = ''k1'', pf_amount = 100\<rparr>"

definition exQuoteId :: string where
  "exQuoteId = ''00000000-0000-7000-8000-000000000001''"

definition exAttempt :: quote_attempt_row where
  "exAttempt = \<lparr>qa_attempt_id = ''a1'', qa_attempt_fingerprint = ''a11rm11y052c'', qa_payment_id = ''p1'',
     qa_invoice_id = ''i1'', qa_operator_id = ''o1'', qa_mint_url = ''https:m'',
     qa_method = ''stellar'', qa_unit = ''usdc'', qa_amount = 100, qa_request = ''web+pay'',
     qa_schema_version = 1, qa_settlement_destination = exAddress, qa_started_at = 25\<rparr>"

definition exOutcome :: quote_outcome_row where
  "exOutcome = \<lparr>qo_attempt_id = ''a1'', qo_outcome_fingerprint = ''ac190drm113y0c'',
     qo_payment_id = ''p1'', qo_mint_url = ''https:m'', qo_outcome_kind = ''quoted'',
     qo_ambiguity_reason = None, qo_quote_id = Some exQuoteId, qo_fee_reserve = Some 1,
     qo_expiry = Some 90, qo_schema_version = 1, qo_recorded_at = 30\<rparr>"

definition exObservation :: "int \<Rightarrow> string \<Rightarrow> string \<Rightarrow> quote_observation_row" where
  "exObservation t st f = \<lparr>qb_snapshot_fingerprint = f, qb_attempt_id = ''a1'',
     qb_payment_id = ''p1'', qb_mint_url = ''https:m'', qb_quote_id = exQuoteId,
     qb_schema_version = 1, qb_observed_at = t, qb_state = st\<rparr>"

definition exDb :: db where
  "exDb = \<lparr>db_invoices = [exInvoice], db_creations = [], db_requests = [exRequest],
     db_routes = [exRoute], db_reservations = [exReservation], db_proofs = [exProof],
     db_proofClaims = [\<lparr>pc_mint_url = ''https:m'', pc_proof_y = exY, pc_payment_id = ''p1''\<rparr>],
     db_invoiceClaims = [], db_effects = [], db_events = [], db_quoteAttempts = [exAttempt],
     db_quoteOutcomes = [exOutcome], db_quoteObservations = [exObservation 30 ''UNPAID'' ''a190rm3111y0Dc''],
     db_proofObservations = [], db_proofEntries = [], db_journals = [], db_postings = [],
     db_custody = [], db_jobs = [], db_leases = [], db_outcomes = [],
     db_keysets = [], db_keysetObservations = [], db_keysetEntries = [], db_deferred = []\<rparr>"

definition exStart :: start_effect_input where
  "exStart = \<lparr>se_dispatchFingerprint = replicate 64 CHR ''d'', se_effectId = ''e1'',
     se_eventId = ''v1'', se_paymentId = ''p1'', se_startedAt = 40, se_kind = ''melt'',
     se_operatorReference = Some exQuoteId, se_operatorReferenceExpiresAt = Some 90\<rparr>"

definition exEffect :: effect_row where
  "exEffect = \<lparr>ef_effect_id = ''e1'', ef_effect_fingerprint = ''d11tm119104'',
     ef_dispatch_fingerprint = replicate 64 CHR ''d'', ef_payment_id = ''p1'',
     ef_invoice_id = ''i1'', ef_operator_id = ''o1'', ef_mint_url = ''https:m'',
     ef_effect_kind = ''melt'', ef_operator_reference = Some exQuoteId,
     ef_operator_reference_expires_at = Some 90, ef_schema_version = 1, ef_started_at = 40\<rparr>"

definition exDispatched :: event_row where
  "exDispatched = \<lparr>ev_event_id = ''v1'', ev_event_fingerprint = ''111400d'', ev_payment_id = ''p1'',
     ev_sequence = 0, ev_schema_version = 1, ev_state = ''dispatch_started'', ev_recorded_at = 40,
     ev_effect_id = Some ''e1'', ev_evidence_kind = None, ev_evidence_at = None,
     ev_journal_entry_id = None, ev_proof_state_fingerprint = None\<rparr>"

text \<open>After the dispatch.\<close>

definition exDb1 :: db where
  "exDb1 = exDb\<lparr>db_effects := [exEffect], db_events := [exDispatched],
     db_invoiceClaims := [\<lparr>ic_invoice_id = ''i1'', ic_payment_id = ''p1'', ic_effect_id = ''e1''\<rparr>],
     db_jobs := [\<lparr>jb_payment_id = ''p1'', jb_effect_id = ''e1'', jb_schema_version = 1,
       jb_initial_attempt_at = 100\<rparr>]\<rparr>"

definition exSnapshot :: "int \<Rightarrow> string \<Rightarrow> proof_observation_row" where
  "exSnapshot t f = \<lparr>px_snapshot_fingerprint = f, px_payment_id = ''p1'', px_operator_id = ''o1'',
     px_mint_url = ''https:m'', px_unit = ''usdc'', px_schema_version = 1, px_observed_at = t\<rparr>"

definition exEntry :: "string \<Rightarrow> string \<Rightarrow> proof_entry_row" where
  "exEntry st f = \<lparr>pe_snapshot_fingerprint = f, pe_payment_id = ''p1'', pe_position = 0,
     pe_proof_y = exY, pe_state = st\<rparr>"

text \<open>After the operator has paid: the quote is seen paid at 60, the proof spent at 65.\<close>

definition exDb2 :: db where
  "exDb2 = exDb1\<lparr>db_quoteObservations := db_quoteObservations exDb1 @ [exObservation 60 ''PAID'' ''a190rm6111y0Dc''],
     db_proofObservations := [exSnapshot 65 ''m6110c''], db_proofEntries := [exEntry ''SPENT'' ''m6110c'']\<rparr>"

text \<open>After the quote has expired: it is seen unpaid at 95, the proof unspent at 97.\<close>

definition exDb3 :: db where
  "exDb3 = exDb1\<lparr>db_quoteObservations := db_quoteObservations exDb1 @ [exObservation 95 ''UNPAID'' ''a190rm9111y0Dc''],
     db_proofObservations := [exSnapshot 97 ''m9110c''], db_proofEntries := [exEntry ''UNSPENT'' ''m9110c'']\<rparr>"

definition exPending :: evidence_input where
  "exPending = \<lparr>ei_effectId = ''e1'', ei_eventId = ''v2'', ei_evidenceAt = 50, ei_paymentId = ''p1'',
     ei_recordedAt = 51\<rparr>"

definition exAcceptance :: acceptance_input where
  "exAcceptance = \<lparr>ei_effectId = ''e1'', ei_eventId = ''v3'', ei_evidenceAt = 60,
     ei_paymentId = ''p1'', ei_recordedAt = 70, ci_evidenceKind = ''melt_paid'', ci_feeAmount = 1,
     ci_journalEntryId = ''j1'', ci_proofStateObservedAt = 65\<rparr>"

definition exRelease :: release_input where
  "exRelease = \<lparr>ri_eventId = ''v4'', ri_paymentId = ''p1'', ri_recordedAt = 98,
     ri_kind = ''after_failure'', ri_effectId = Some ''e1'', ri_evidenceAt = Some 95,
     ri_evidenceKind = Some ''melt_unpaid_after_expiry'', ri_proofStateObservedAt = Some 97\<rparr>"

section \<open>What the commands return\<close>

definition exLifecycle :: "lifecycle_event list \<Rightarrow> reservation_state \<Rightarrow> lifecycle" where
  "exLifecycle events state =
     \<lparr>lc_effect = Some \<lparr>oe_dispatchFingerprint = replicate 64 CHR ''d'', oe_effectId = ''e1'',
        oe_kind = Melt exQuoteId 90, oe_schemaVersion = 1, oe_startedAt = 40\<rparr>,
      lc_events = \<lparr>le_eventId = ''v1'', le_recordedAt = 40, le_sequence = 0,
        le_body = Event_dispatch_started\<rparr> # events,
      lc_paymentId = ''p1'', lc_schemaVersion = 1, lc_state = state\<rparr>"

definition exChange :: "lifecycle_event list \<Rightarrow> reservation_state \<Rightarrow> lifecycle_change" where
  "exChange events state = \<lparr>ch_lifecycle = exLifecycle events state, ch_replayed = False\<rparr>"

definition exConsumed :: lifecycle_event where
  "exConsumed = \<lparr>le_eventId = ''v3'', le_recordedAt = 70, le_sequence = 1,
     le_body = Event_consumed 60 ''melt_paid'' ''j1'' 65\<rparr>"

definition exReleased :: lifecycle_event where
  "exReleased = \<lparr>le_eventId = ''v4'', le_recordedAt = 98, le_sequence = 1,
     le_body = Event_released 95 ''melt_unpaid_after_expiry'' 97\<rparr>"

definition exAccepted :: acceptance where
  "exAccepted = \<lparr>an_accounting = (case acceptPaymentOf
       \<lparr>sc_amount = 100, sc_createdAt = 10, sc_expiresAt = 110, sc_invoiceId = ''i1'',
        sc_invoiceState = ''open'', sc_merchantId = ''m1'', sc_paidAt = None,
        sc_mintUrl = ''https:m'', sc_operatorId = ''o1'', sc_paymentId = ''p1'',
        sc_reservedAt = 20, sc_unit = ''usdc''\<rparr>
       \<lparr>ap_acceptedAt = 65, ap_assetAccount = Settlement_asset ''stellar-testnet-usdc-circle'',
        ap_effectiveAt = 70, ap_feeAmount = 1, ap_journalEntryId = ''j1'', ap_operatorId = ''o1'',
        ap_paymentId = ''p1'', ap_settlementMode = Immediate_conversion\<rparr> of Inr a \<Rightarrow> a),
     an_change = exChange [exConsumed] Consumed\<rparr>"

definition exDb4 :: db where
  "exDb4 = (case acceptPayment exEnv exAcceptance exDb2 of Inr (after, _) \<Rightarrow> after | Inl _ \<Rightarrow> exDb2)"

definition exDb5 :: db where
  "exDb5 = (case release exEnv exRelease exDb3 of Inr (after, _) \<Rightarrow> after | Inl _ \<Rightarrow> exDb3)"

lemma exStart_result: "startEffect exEnv exStart exDb = Inr (exDb1, exChange [] Dispatch_started)"
  by code_simp

lemma exPending_ok: "isOk (recordPending exEnv exPending exDb1)"
  by code_simp

lemma exAcceptance_snd:
  "map_sum id snd (acceptPayment exEnv exAcceptance exDb2) = Inr exAccepted"
  by code_simp

lemma exRelease_snd: "map_sum id snd (release exEnv exRelease exDb3) = Inr (exChange [exReleased] Released)"
  by code_simp

lemma exAcceptance_result: "acceptPayment exEnv exAcceptance exDb2 = Inr (exDb4, exAccepted)"
  using exAcceptance_snd
  by (auto simp: exDb4_def split: sum.splits prod.splits)

lemma exRelease_result: "release exEnv exRelease exDb3 = Inr (exDb5, exChange [exReleased] Released)"
  using exRelease_snd
  by (auto simp: exDb5_def split: sum.splits prod.splits)

end
