(* ===== verification/Lifecycle_Properties.thy ===== *)
theory Lifecycle_Properties
  imports Example
begin

text \<open>
  What a successful command of the lifecycle repository establishes: the evidence an acceptance
  and a release need, the accounting of an acceptance, and what happens to the claims.
\<close>

lemma case_Inr:
  "(case m of None \<Rightarrow> a | Some v \<Rightarrow> f v) = Inr y \<longleftrightarrow>
     m = None \<and> a = Inr y \<or> (\<exists>v. m = Some v \<and> f v = Inr y)"
  "(case k of Swap \<Rightarrow> b | Melt r x \<Rightarrow> g r x) = Inr y \<longleftrightarrow>
     k = Swap \<and> b = Inr y \<or> (\<exists>r x. k = Melt r x \<and> g r x = Inr y)"
  "(if c then d else e) = Inr y \<longleftrightarrow> c \<and> d = Inr y \<or> \<not> c \<and> e = Inr y"
  by (auto split: option.splits effect_kind.splits)

section \<open>What the evidence checks establish\<close>

lemma zip_map_eq:
  "length xs = length ys \<Longrightarrow> (\<And>x y. (x, y) \<in> set (zip xs ys) \<Longrightarrow> f x = g y) \<Longrightarrow> map f xs = map g ys"
  by (induction xs ys rule: list_induct2) auto

lemma mapR_Inr_all: "mapR f xs = Inr ys \<Longrightarrow> x \<in> set xs \<Longrightarrow> \<exists>y. f x = Inr y"
  by (induction xs arbitrary: ys) (auto simp: result_simps)

lemma enumerate_mem: "x \<in> set xs \<Longrightarrow> \<exists>k. (k, x) \<in> set (List.enumerate n xs)"
  by (induction xs arbitrary: n) auto

lemma proofStateInputs_states:
  assumes "proofStateInputs scope st i rows n = Inr xs" and "(e, p) \<in> set rows"
  shows "pe_state e = st \<and> pe_payment_id e = sc_paymentId scope \<and> pe_proof_y e = pf_proof_y p"
proof -
  obtain k where "(k, e, p) \<in> set (List.enumerate n rows)"
    using enumerate_mem [OF assms(2)] by blast
  from mapR_Inr_all [OF assms(1) [unfolded proofStateInputs_def] this]
  show ?thesis by (auto split: if_splits)
qed

text \<open>
  \<open>allProofs db pid st f\<close>: the stored snapshot \<open>f\<close> has one entry per reserved proof of the
  payment, on the same proofs and all in the state \<open>st\<close>.
\<close>

definition allProofs :: "db \<Rightarrow> string \<Rightarrow> string \<Rightarrow> string \<Rightarrow> bool" where
  "allProofs db pid st f \<longleftrightarrow>
     proofEntriesOf db f \<noteq> [] \<and> length (proofEntriesOf db f) = reservedProofCount db pid
     \<and> (\<forall>e \<in> set (proofEntriesOf db f). pe_state e = st \<and> pe_payment_id e = pid)
     \<and> pe_proof_y ` set (proofEntriesOf db f)
         = pf_proof_y ` set (filter (\<lambda>p. pf_payment_id p = pid) (db_proofs db))"

lemma validateProofState_all:
  assumes "validateProofStateEvidenceByFingerprint env db scope f st i = Inr t"
  shows "allProofs db (sc_paymentId scope) st f \<and> sc_reservedAt scope \<le> t"
proof -
  let ?entries = "sort_key pe_position (proofEntriesOf db f)"
  let ?proofs = "sort_key pf_position
    (filter (\<lambda>p. pf_payment_id p = sc_paymentId scope) (db_proofs db))"
  obtain xs where xs: "?entries \<noteq> []" "length ?entries = length ?proofs"
    "proofStateInputs scope st i (zip ?entries ?proofs) 0 = Inr xs" "sc_reservedAt scope \<le> t"
    using assms
    by (auto simp: validateProofStateEvidenceByFingerprint_def Let_def result_simps not_less
        split: option.splits if_splits)
  note all = proofStateInputs_states [OF xs(3)]
  have "\<forall>e \<in> set ?entries. pe_state e = st \<and> pe_payment_id e = sc_paymentId scope"
    using all xs(2) by (metis in_set_impl_in_set_zip1)
  moreover have "map pe_proof_y ?entries = map pf_proof_y ?proofs"
    using all xs(2) by (intro zip_map_eq) blast+
  then have "pe_proof_y ` set ?entries = pf_proof_y ` set ?proofs"
    by (metis list.set_map)
  ultimately show ?thesis
    using xs by (simp add: allProofs_def reservedProofCount_def sort_key_eq_Nil)
qed

lemma resolveProofState_all:
  assumes "resolveProofStateEvidence env db scope t st = Inr f"
  shows "allProofs db (sc_paymentId scope) st f
    \<and> (\<exists>x \<in> set (db_proofObservations db). px_payment_id x = sc_paymentId scope
         \<and> px_observed_at x = t \<and> px_snapshot_fingerprint x = f)"
  using assms
  by (auto simp: resolveProofStateEvidence_def result_simps split: option.splits
      dest!: findFirst_Some validateProofState_all)

lemma assertMeltPaid_quote:
  assumes "assertMeltPaidEvidence env db scope reference expiresAt t = Inr ()"
  shows "\<exists>evidence q. loadMeltQuotedEvidence env db (sc_paymentId scope) = Inr (Some evidence)
    \<and> meltQuoteAttemptMatchesReservation (qe_attempt evidence) scope
    \<and> q \<in> set (qe_observations evidence) \<and> mq_observedAt q = t \<and> mq_state q = Quote_paid
    \<and> mq_quoteId q = reference \<and> mq_expiry q = expiresAt"
  using assms
  by (auto simp: assertMeltPaidEvidence_def result_simps case_Inr dest!: findFirst_Some)

lemma assertEffect_paid:
  assumes "assertEffectEvidence env db scope i ''melt_paid'' t r = Inr effect"
  shows "oe_effectId effect = i \<and> oe_startedAt effect \<le> t \<and> t \<le> r
    \<and> (\<exists>reference expiresAt. oe_kind effect = Melt reference expiresAt
         \<and> assertMeltPaidEvidence env db scope reference expiresAt t = Inr ())"
  using assms
  by (auto simp: assertEffectEvidence_def result_simps not_less case_Inr)

lemma acceptPaymentOf_fields:
  assumes "acceptPaymentOf scope input = Inr a"
  shows "ac_paidAt a = ap_acceptedAt input \<and> inv_id (ac_invoice a) = sc_invoiceId scope
    \<and> inv_merchantId (ac_invoice a) = sc_merchantId scope
    \<and> ip_paymentId (ac_payment a) = ap_paymentId input
    \<and> ip_grossAmount (ac_payment a) = sc_amount scope \<and> ip_feeAmount (ac_payment a) = ap_feeAmount input
    \<and> ip_netAmount (ac_payment a) = sc_amount scope - ap_feeAmount input
    \<and> 0 \<le> ap_feeAmount input \<and> ap_feeAmount input < sc_amount scope
    \<and> sc_createdAt scope \<le> ap_acceptedAt input \<and> ap_acceptedAt input < sc_expiresAt scope
    \<and> je_id (ac_journalEntry a) = ap_journalEntryId input
    \<and> je_postings (ac_journalEntry a) =
        [\<lparr>po_account = ap_assetAccount input, po_amount = sc_amount scope, po_side = Debit\<rparr>,
         \<lparr>po_account = Merchant_payable (sc_merchantId scope),
          po_amount = sc_amount scope - ap_feeAmount input, po_side = Credit\<rparr>]
        @ (if ap_feeAmount input > 0
           then [\<lparr>po_account = Fee_revenue, po_amount = ap_feeAmount input, po_side = Credit\<rparr>]
           else [])"
  using assms
  by (auto simp: acceptPaymentOf_def result_simps catchR_eq_Inr createInvoiceV1_iff
      acceptInvoicePaymentV1_iff scopeInvoice_def acceptedPaymentOf_def paymentJournal_def
      paymentPostings_def acceptanceJournal_def paymentJournalValid_def)

lemma postingRows_totals:
  "rowSideTotal ''debit'' (postingRowsOf e) = sum_list (map po_amount (filter (\<lambda>p. showSide (po_side p) = ''debit'') (je_postings e)))"
  "rowSideTotal ''credit'' (postingRowsOf e) = sum_list (map po_amount (filter (\<lambda>p. showSide (po_side p) = ''credit'') (je_postings e)))"
proof -
  have "map pg_amount (filter (\<lambda>p. pg_side p = side) (map (\<lambda>(n, p). \<lparr>pg_journal_entry_id = j,
      pg_position = int n, pg_side = showSide (po_side p), pg_account_kind = storeAccountKind (po_account p),
      pg_account_id = storeAccountId (po_account p), pg_amount = po_amount p\<rparr>) (List.enumerate n ps)))
    = map po_amount (filter (\<lambda>p. showSide (po_side p) = side) ps)" for side j n and ps :: "ledger_posting list"
    by (induction ps arbitrary: n) auto
  then show "rowSideTotal ''debit'' (postingRowsOf e) = sum_list (map po_amount (filter (\<lambda>p. showSide (po_side p) = ''debit'') (je_postings e)))"
    "rowSideTotal ''credit'' (postingRowsOf e) = sum_list (map po_amount (filter (\<lambda>p. showSide (po_side p) = ''credit'') (je_postings e)))"
    by (simp_all add: rowSideTotal_def postingRowsOf_def)
qed


text \<open>What an acceptance leaves of the database, in one place.\<close>

lemma acceptance_facts:
  assumes "acceptPayment env input db = Inr (db', a)" and "\<not> ch_replayed (an_change a)"
  shows "\<exists>scope cur f effect paid asset.
      requireReservation env db (ei_paymentId input) True = Inr scope
      \<and> sc_paymentId scope = ei_paymentId input
      \<and> assertEffectEvidence env db scope (ei_effectId input) ''melt_paid'' (ei_evidenceAt input)
          (ei_recordedAt input) = Inr effect
      \<and> resolveProofStateEvidence env db scope (ci_proofStateObservedAt input) ''SPENT'' = Inr f
      \<and> eventAppended env scope (acceptanceDraft input f) db cur db' (ch_lifecycle (an_change a))
      \<and> lc_effect cur = Some effect \<and> lc_effect (ch_lifecycle (an_change a)) = Some effect
      \<and> persistAcceptedPayment env scope input db = Inr (paid, an_accounting a)
      \<and> lifecycleView db' = transitionView env (acceptanceDraft input f)
          (int (length (lc_events cur))) paid
      \<and> acceptPaymentOf scope (paymentInput scope (ci_proofStateObservedAt input) asset
          (ei_recordedAt input) (ci_feeAmount input) (ci_journalEntryId input) Immediate_conversion)
          = Inr (an_accounting a)"
proof -
  obtain v after where v: "validatePaymentAcceptance input = Inr v"
    "acceptPaymentIn env v db = Inr (after, a)" "db' = after\<lparr>db_deferred := []\<rparr>"
    using assms(1) by (auto simp: acceptPayment_iff)
  have input: "v = input" "ci_evidenceKind input = ''melt_paid''"
    using validatePaymentAcceptance_id [OF v(1)] by auto
  obtain scope cur f effect paid where facts:
    "requireReservation env db (ei_paymentId input) True = Inr scope"
    "assertEffectEvidence env db scope (ei_effectId input) ''melt_paid'' (ei_evidenceAt input)
        (ei_recordedAt input) = Inr effect"
    "resolveProofStateEvidence env db scope (ci_proofStateObservedAt input) ''SPENT'' = Inr f"
    "persistAcceptedPayment env scope input db = Inr (paid, an_accounting a)"
    "eventAppended env scope (acceptanceDraft input f) db cur after (ch_lifecycle (an_change a))"
    "lc_effect cur = Some effect"
    "lifecycleView after = transitionView env (acceptanceDraft input f) (int (length (lc_events cur))) paid"
    using acceptPaymentIn_fresh [OF v(2) assms(2)] input by auto
  have pid: "sc_paymentId scope = ei_paymentId input"
    using facts(1) loadReservation_scope by (auto simp: requireReservation_Inr)
  note paid = persistAcceptedPayment_Inr [OF facts(4)]
  have same: "db_effects after = db_effects db"
    using viewD(2) [OF facts(7)] viewD(2) [OF paid [THEN conjunct1]] by simp
  have "lc_effect (ch_lifecycle (an_change a)) = lc_effect cur"
    using facts(5) by (intro effects_same [OF _ _ same]) (auto simp: eventAppended_def)
  then show ?thesis
    using facts pid paid v(3) by auto
qed

section \<open>Refinement of the reservation machine\<close>

text \<open>
  C1 (every repository command is one step of the reservation machine) When a writing method of the
  lifecycle repository succeeds, either it is reported as a replay and the database is unchanged,
  or exactly one event is appended to the log: the lifecycle read before is extended by that event,
  its state moves by one step of the abstract machine to the state the command stands for, and the
  returned lifecycle is what the new database loads.
\<close>

theorem lifecycle_command_refines:
  assumes "runCommand env command db = Inr (db', change)"
  shows "if ch_replayed change then db' = db\<lparr>db_deferred := []\<rparr>
    else (\<exists>scope draft cur. requireReservation env db (commandPayment command) True = Inr scope
      \<and> dr_state draft = commandState command
      \<and> eventAppended env scope draft db cur db' (ch_lifecycle change))"
  using command_step [OF assms] command_replay [OF assms] by auto

theorem lifecycle_command_refines_witness:
  "\<exists>scope draft cur. requireReservation exEnv exDb ''p1'' True = Inr scope
     \<and> dr_state draft = Dispatch_started
     \<and> eventAppended exEnv scope draft exDb cur exDb1 (exLifecycle [] Dispatch_started)"
proof -
  have "runCommand exEnv (Start_effect exStart) exDb = Inr (exDb1, exChange [] Dispatch_started)"
    by (simp add: runCommand_def exStart_result)
  from lifecycle_command_refines [OF this] show ?thesis by (simp add: exChange_def exStart_def)
qed

section \<open>Acceptance\<close>

text \<open>
  C2 (a payment is accepted only on proof of payment) When \<open>acceptPayment\<close> accepts a payment for
  the first time, the payment's effect is a melt; the stored history of its quote holds an
  observation of that very quote in the state PAID at the evidence time; a stored snapshot taken at
  the given time shows every reserved proof SPENT; and the effect had started before the evidence.
\<close>

theorem acceptance_needs_evidence:
  assumes "acceptPayment env input db = Inr (db', a)" and "\<not> ch_replayed (an_change a)"
  shows "\<exists>scope effect reference expiresAt evidence q f.
      requireReservation env db (ei_paymentId input) True = Inr scope
      \<and> lc_effect (ch_lifecycle (an_change a)) = Some effect \<and> oe_effectId effect = ei_effectId input
      \<and> oe_kind effect = Melt reference expiresAt \<and> oe_startedAt effect \<le> ei_evidenceAt input
      \<and> loadMeltQuotedEvidence env db (ei_paymentId input) = Inr (Some evidence)
      \<and> meltQuoteAttemptMatchesReservation (qe_attempt evidence) scope
      \<and> q \<in> set (qe_observations evidence) \<and> mq_observedAt q = ei_evidenceAt input
      \<and> mq_state q = Quote_paid \<and> mq_quoteId q = reference \<and> mq_expiry q = expiresAt
      \<and> allProofs db (ei_paymentId input) ''SPENT'' f
      \<and> (\<exists>x \<in> set (db_proofObservations db). px_payment_id x = ei_paymentId input
           \<and> px_observed_at x = ci_proofStateObservedAt input \<and> px_snapshot_fingerprint x = f)"
proof -
  from acceptance_facts [OF assms] obtain scope f effect where facts:
    "requireReservation env db (ei_paymentId input) True = Inr scope"
    "sc_paymentId scope = ei_paymentId input"
    "assertEffectEvidence env db scope (ei_effectId input) ''melt_paid'' (ei_evidenceAt input)
        (ei_recordedAt input) = Inr effect"
    "resolveProofStateEvidence env db scope (ci_proofStateObservedAt input) ''SPENT'' = Inr f"
    "lc_effect (ch_lifecycle (an_change a)) = Some effect"
    by blast
  obtain reference expiresAt where melt: "oe_effectId effect = ei_effectId input"
    "oe_kind effect = Melt reference expiresAt" "oe_startedAt effect \<le> ei_evidenceAt input"
    "assertMeltPaidEvidence env db scope reference expiresAt (ei_evidenceAt input) = Inr ()"
    using assertEffect_paid [OF facts(3)] by auto
  obtain evidence q where quote:
    "loadMeltQuotedEvidence env db (ei_paymentId input) = Inr (Some evidence)"
    "meltQuoteAttemptMatchesReservation (qe_attempt evidence) scope"
    "q \<in> set (qe_observations evidence)" "mq_observedAt q = ei_evidenceAt input"
    "mq_state q = Quote_paid" "mq_quoteId q = reference" "mq_expiry q = expiresAt"
    using assertMeltPaid_quote [OF melt(4)] facts(2) by auto
  show ?thesis
    using facts melt quote resolveProofState_all [OF facts(4)]
    by (intro exI [of _ scope] exI [of _ effect] exI [of _ reference] exI [of _ expiresAt]
        exI [of _ evidence] exI [of _ q] exI [of _ f]) simp
qed

theorem acceptance_needs_evidence_witness:
  "\<exists>effect reference expiresAt evidence q f.
     lc_effect (exLifecycle [exConsumed] Consumed) = Some effect
     \<and> oe_kind effect = Melt reference expiresAt
     \<and> loadMeltQuotedEvidence exEnv exDb2 ''p1'' = Inr (Some evidence)
     \<and> q \<in> set (qe_observations evidence) \<and> mq_observedAt q = 60 \<and> mq_state q = Quote_paid
     \<and> mq_quoteId q = reference \<and> allProofs exDb2 ''p1'' ''SPENT'' f"
proof -
  have "\<not> ch_replayed (an_change exAccepted)" "an_change exAccepted = exChange [exConsumed] Consumed"
    by (simp_all add: exAccepted_def exChange_def)
  with acceptance_needs_evidence [OF exAcceptance_result] show ?thesis
    by (simp add: exChange_def exAcceptance_def) blast
qed

text \<open>
  C3 (an accepted payment is accounted for exactly) A first acceptance finds the invoice open and
  marks exactly its row paid at the time the proofs were seen spent, inside the invoice's validity
  window; it adds one journal whose gross amount is the invoice's and equals fee plus net, for an
  invoice and a payment that had no journal, and postings whose debits and credits both add up to
  the gross amount.
\<close>

theorem acceptance_accounts:
  assumes "acceptPayment env input db = Inr (db', a)" and "\<not> ch_replayed (an_change a)"
  shows "\<exists>scope j ps. requireReservation env db (ei_paymentId input) True = Inr scope
      \<and> sc_invoiceState scope = ''open''
      \<and> db_invoices db' = map (\<lambda>i.
          if ir_id i = sc_invoiceId scope \<and> ir_state i = ''open'' \<and> ir_paid_at i = None
          then i\<lparr>ir_state := ''paid'', ir_paid_at := Some (ci_proofStateObservedAt input)\<rparr> else i)
          (db_invoices db)
      \<and> sc_createdAt scope \<le> ci_proofStateObservedAt input
      \<and> ci_proofStateObservedAt input < sc_expiresAt scope
      \<and> db_journals db' = db_journals db @ [j] \<and> db_postings db' = db_postings db @ ps
      \<and> jr_payment_id j = ei_paymentId input \<and> jr_invoice_id j = sc_invoiceId scope
      \<and> jr_gross_amount j = sc_amount scope \<and> jr_fee_amount j = ci_feeAmount input
      \<and> jr_gross_amount j = jr_fee_amount j + jr_net_amount j \<and> 0 < jr_net_amount j
      \<and> rowSideTotal ''debit'' ps = jr_gross_amount j
      \<and> rowSideTotal ''credit'' ps = jr_gross_amount j
      \<and> (\<forall>old \<in> set (db_journals db). jr_invoice_id old \<noteq> sc_invoiceId scope
           \<and> jr_payment_id old \<noteq> ei_paymentId input)"
proof -
  from acceptance_facts [OF assms] obtain scope f paid asset and cur :: lifecycle
    where facts:
    "requireReservation env db (ei_paymentId input) True = Inr scope"
    "sc_paymentId scope = ei_paymentId input"
    "persistAcceptedPayment env scope input db = Inr (paid, an_accounting a)"
    "lifecycleView db' = transitionView env (acceptanceDraft input f) (int (length (lc_events cur))) paid"
    "acceptPaymentOf scope (paymentInput scope (ci_proofStateObservedAt input) asset
        (ei_recordedAt input) (ci_feeAmount input) (ci_journalEntryId input) Immediate_conversion)
      = Inr (an_accounting a)"
    by blast
  note paid = persistAcceptedPayment_Inr [OF facts(3)]
  note acc = acceptPaymentOf_fields [OF facts(5), unfolded paymentInput_def, simplified]
  have view: "db_invoices db' = db_invoices paid" "db_journals db' = db_journals paid"
      "db_postings db' = db_postings paid"
    using viewD(7,10,11) [OF facts(4)] by (simp_all add: transitionView_def claimsAfter_def)
  note rows = viewD(7,10,11) [OF paid [THEN conjunct1]]
  have "rowSideTotal ''debit'' (postingRowsOf (ac_journalEntry (an_accounting a))) = sc_amount scope"
      "rowSideTotal ''credit'' (postingRowsOf (ac_journalEntry (an_accounting a))) = sc_amount scope"
    unfolding postingRows_totals using acc by simp_all
  then show ?thesis
    using facts(1,2) paid acc view rows
    by (intro exI [of _ scope] exI [of _ "journalRowOf env scope (an_accounting a)"]
        exI [of _ "postingRowsOf (ac_journalEntry (an_accounting a))"])
      (auto simp: journalRowOf_def)
qed

theorem acceptance_accounts_witness:
  "\<exists>j ps. db_journals exDb4 = db_journals exDb2 @ [j] \<and> db_postings exDb4 = db_postings exDb2 @ ps
     \<and> jr_fee_amount j = 1 \<and> jr_gross_amount j = jr_fee_amount j + jr_net_amount j
     \<and> rowSideTotal ''debit'' ps = jr_gross_amount j"
proof -
  have "\<not> ch_replayed (an_change exAccepted)" by (simp add: exAccepted_def exChange_def)
  from acceptance_accounts [OF exAcceptance_result this] show ?thesis
    by (auto simp: exAcceptance_def)
qed

section \<open>Release\<close>

lemma latestRelease_quote:
  assumes "assertLatestMeltReleaseEvidence env db scope reference expiresAt t o' f = Inr ()"
  shows "(\<exists>evidence q. loadMeltQuotedEvidence env db (sc_paymentId scope) = Inr (Some evidence)
      \<and> atLast (qe_observations evidence) = Some q \<and> mq_observedAt q = t \<and> mq_state q = Quote_unpaid
      \<and> mq_quoteId q = reference \<and> mq_expiry q = expiresAt)
    \<and> (\<exists>x. latestProofObservation db (sc_paymentId scope) = Some x
      \<and> px_snapshot_fingerprint x = f \<and> px_observed_at x = o')"
  using assms
  by (auto simp: assertLatestMeltReleaseEvidence_def latestReleaseQuote_def result_simps case_Inr)

lemma assertEffect_matches:
  assumes "assertEffectEvidence env db scope i k t r = Inr effect" and "loadLifecycle env db scope = Inr cur"
  shows "lc_effect cur = Some effect \<and> oe_effectId effect = i \<and> oe_startedAt effect \<le> t \<and> t \<le> r
    \<and> evidenceMatchesEffect (Some k) (oe_kind effect) \<and> evidenceTimeMatchesEffect (Some k) t effect"
  using assms by (auto simp: assertEffectEvidence_def bindR_eq_Inr case_Inr not_less)

lemma evidenceTime_melt:
  "evidenceTimeMatchesEffect (Some ''melt_unpaid_after_expiry'') t effect \<Longrightarrow>
     \<exists>reference expiresAt. oe_kind effect = Melt reference expiresAt \<and> expiresAt \<le> t"
  by (auto simp: evidenceTimeMatchesEffect_def not_less split: effect_kind.split_asm)

lemma releaseDraft_failure:
  assumes "releaseDraft env v scope db = Inr draft" and "vr_kind v = After_failure i t k o'"
    and "loadLifecycle env db scope = Inr cur"
  shows "\<exists>effect f. lc_effect cur = Some effect \<and> oe_effectId effect = i \<and> oe_startedAt effect \<le> t
    \<and> t \<le> vr_recordedAt v \<and> evidenceMatchesEffect (Some k) (oe_kind effect)
    \<and> resolveProofStateEvidence env db scope o' ''UNSPENT'' = Inr f
    \<and> (k = ''melt_unpaid_after_expiry'' \<longrightarrow> (\<exists>reference expiresAt. oe_kind effect = Melt reference expiresAt
         \<and> expiresAt \<le> t \<and> assertLatestMeltReleaseEvidence env db scope reference expiresAt t o' f = Inr ()))"
proof -
  obtain effect f where effect: "assertEffectEvidence env db scope i k t (vr_recordedAt v) = Inr effect"
    and f: "resolveProofStateEvidence env db scope o' ''UNSPENT'' = Inr f"
    and latest: "(if k = ''melt_unpaid_after_expiry'' then (case oe_kind effect of
        Swap \<Rightarrow> failWith LR_invalid_transition
      | Melt reference expiresAt \<Rightarrow> assertLatestMeltReleaseEvidence env db scope reference expiresAt t o' f)
        else Inr ()) = Inr ()"
    using assms(1,2) by (auto simp: releaseDraft_def bindR_eq_Inr)
  note e = assertEffect_matches [OF effect assms(3)]
  have "\<exists>reference expiresAt. oe_kind effect = Melt reference expiresAt
         \<and> expiresAt \<le> t \<and> assertLatestMeltReleaseEvidence env db scope reference expiresAt t o' f = Inr ()"
    if "k = ''melt_unpaid_after_expiry''"
    using evidenceTime_melt [of t effect] e latest that by auto
  with e f show ?thesis by blast
qed

lemma releaseDraft_pre_dispatch:
  "releaseDraft env v scope db = Inr draft \<Longrightarrow> vr_kind v = Pre_dispatch \<Longrightarrow> dr_effectId draft = None"
  by (auto simp: releaseDraft_def)

lemma release_facts:
  assumes "release env input db = Inr (db', change)" and "\<not> ch_replayed change"
  shows "\<exists>v scope draft. \<exists>cur :: lifecycle. validateRelease input = Inr v
    \<and> requireReservation env db (ri_paymentId input) True = Inr scope
    \<and> sc_paymentId scope = ri_paymentId input
    \<and> releaseDraft env v scope db = Inr draft \<and> dr_state draft = Released
    \<and> dr_paymentId draft = ri_paymentId input
    \<and> eventAppended env scope draft db cur db' (ch_lifecycle change)
    \<and> lifecycleView db' = transitionView env draft (int (length (lc_events cur))) db
    \<and> (vr_kind v = Pre_dispatch \<and> lc_state cur = Reserved \<and> lc_effect cur = None
       \<or> (\<exists>effect. lc_effect cur = Some effect \<and> transitionGuard draft cur effect
            \<and> proofStateInOrder db scope draft = Inr ()))"
proof -
  obtain v after where v: "validateRelease input = Inr v" "releaseIn env v db = Inr (after, change)"
    "db' = after\<lparr>db_deferred := []\<rparr>"
    using assms(1) by (auto simp: release_iff)
  have pid: "vr_paymentId v = ri_paymentId input" using validateRelease_ids [OF v(1)] by simp
  from releaseIn_fresh [OF v(2) assms(2)] obtain scope draft and cur :: lifecycle where
    r: "requireReservation env db (vr_paymentId v) True = Inr scope"
    "releaseDraft env v scope db = Inr draft" "dr_state draft = Released"
    "eventAppended env scope draft db cur after (ch_lifecycle change)"
    "lifecycleView after = transitionView env draft (int (length (lc_events cur))) db"
    "vr_kind v = Pre_dispatch \<and> lc_state cur = Reserved \<and> lc_effect cur = None
       \<or> (\<exists>effect. lc_effect cur = Some effect \<and> transitionGuard draft cur effect
            \<and> proofStateInOrder db scope draft = Inr ())"
    by blast
  have "sc_paymentId scope = vr_paymentId v"
    using r(1) loadReservation_scope by (auto simp: requireReservation_Inr)
  moreover have "dr_paymentId draft = sc_paymentId scope"
    using r(4) by (simp add: eventAppended_def)
  ultimately show ?thesis
    using v r pid by (intro exI [of _ v] exI [of _ scope] exI [of _ draft] exI [of _ cur]) simp
qed

text \<open>
  What stands behind the release of a payment.  With no operator effect, nothing was sent.  With a
  melt, the latest observation of its quote is UNPAID, seen at the evidence time and not before the
  quote expired, and the latest snapshot of the proofs shows every one UNSPENT.  With a swap, the
  operator rejected it, and a snapshot at the given time shows every proof UNSPENT.
\<close>

definition releaseBacked :: "cashu_env \<Rightarrow> db \<Rightarrow> release_input \<Rightarrow> operator_effect option \<Rightarrow> bool" where
  "releaseBacked env db input found = (case found of
       None \<Rightarrow> ri_kind input = ''pre_dispatch''
     | Some effect \<Rightarrow> ri_kind input = ''after_failure'' \<and> ri_effectId input = Some (oe_effectId effect)
         \<and> (\<exists>t x. ri_evidenceAt input = Some t \<and> oe_startedAt effect \<le> t \<and> t \<le> ri_recordedAt input
              \<and> x \<in> set (db_proofObservations db) \<and> px_payment_id x = ri_paymentId input
              \<and> ri_proofStateObservedAt input = Some (px_observed_at x)
              \<and> allProofs db (ri_paymentId input) ''UNSPENT'' (px_snapshot_fingerprint x)
              \<and> (case oe_kind effect of
                   Swap \<Rightarrow> ri_evidenceKind input = Some ''swap_rejected''
                 | Melt reference expiresAt \<Rightarrow> ri_evidenceKind input = Some ''melt_unpaid_after_expiry''
                     \<and> (\<exists>evidence q latest. loadMeltQuotedEvidence env db (ri_paymentId input) = Inr (Some evidence)
                          \<and> atLast (qe_observations evidence) = Some q \<and> mq_observedAt q = t
                          \<and> mq_state q = Quote_unpaid \<and> mq_quoteId q = reference
                          \<and> mq_expiry q = expiresAt \<and> expiresAt \<le> t
                          \<and> latestProofObservation db (ri_paymentId input) = Some latest
                          \<and> px_observed_at latest = px_observed_at x
                          \<and> px_snapshot_fingerprint latest = px_snapshot_fingerprint x))))"

lemma failure_release_backed:
  assumes input: "validateRelease input = Inr v" and draft: "releaseDraft env v scope db = Inr draft"
    and pid: "sc_paymentId scope = ri_paymentId input" and cur: "loadLifecycle env db scope = Inr cur"
    and kind: "vr_kind v \<noteq> Pre_dispatch"
  shows "\<exists>effect. lc_effect cur = Some effect \<and> releaseBacked env db input (Some effect)"
proof -
  obtain i t k o' where v: "vr_kind v = After_failure i t k o'" "ri_kind input = ''after_failure''"
      "ri_effectId input = Some i" "ri_evidenceAt input = Some t" "ri_evidenceKind input = Some k"
      "ri_proofStateObservedAt input = Some o'" "k \<in> set CASHU_OPERATOR_FAILURE_EVIDENCE"
      "vr_recordedAt v = ri_recordedAt input"
    using validateRelease_ids [OF input] kind by auto
  from releaseDraft_failure [OF draft v(1) cur] obtain effect f where
    e: "lc_effect cur = Some effect" "oe_effectId effect = i" "oe_startedAt effect \<le> t" "t \<le> vr_recordedAt v"
      "evidenceMatchesEffect (Some k) (oe_kind effect)"
    and proofs: "resolveProofStateEvidence env db scope o' ''UNSPENT'' = Inr f"
    and melt: "k = ''melt_unpaid_after_expiry'' \<Longrightarrow> \<exists>reference expiresAt. oe_kind effect = Melt reference expiresAt
        \<and> expiresAt \<le> t \<and> assertLatestMeltReleaseEvidence env db scope reference expiresAt t o' f = Inr ()"
    by blast
  from resolveProofState_all [OF proofs] pid obtain x where x: "x \<in> set (db_proofObservations db)"
      "px_payment_id x = ri_paymentId input" "px_observed_at x = o'" "px_snapshot_fingerprint x = f"
      "allProofs db (ri_paymentId input) ''UNSPENT'' f" by auto
  have "releaseBacked env db input (Some effect)"
  proof (cases "k = ''melt_unpaid_after_expiry''")
    case True
    from melt [OF this] obtain reference expiresAt where m: "oe_kind effect = Melt reference expiresAt"
        "expiresAt \<le> t" "assertLatestMeltReleaseEvidence env db scope reference expiresAt t o' f = Inr ()"
      by blast
    with latestRelease_quote [OF m(3)] pid e x v True show ?thesis
      by (auto simp: releaseBacked_def intro!: exI [of _ x])
  next
    case False
    then have "k = ''swap_rejected''" using v(7) by (simp add: CASHU_OPERATOR_FAILURE_EVIDENCE_def)
    with e(5) have "oe_kind effect = Swap" by (simp add: evidenceMatchesEffect_def)
    with \<open>k = ''swap_rejected''\<close> e x v show ?thesis by (auto simp: releaseBacked_def intro!: exI [of _ x])
  qed
  with e(1) show ?thesis by blast
qed

text \<open>
  C4 (reserved funds are released only when the operator cannot have been paid) Every first release
  is backed by the evidence that its operator effect asks for: without an effect the payment is
  still reserved; after a melt the latest stored observation of the quote is UNPAID, seen at the
  evidence time and not before the quote expired, and the latest stored snapshot shows every
  reserved proof UNSPENT; after a swap the operator rejected it and the stored snapshot of the given
  time shows every reserved proof UNSPENT.
\<close>

theorem release_needs_latest_evidence:
  assumes "release env input db = Inr (db', change)" and "\<not> ch_replayed change"
  shows "\<exists>scope cur. requireReservation env db (ri_paymentId input) True = Inr scope
      \<and> loadLifecycle env db scope = Inr cur \<and> lc_state (ch_lifecycle change) = Released
      \<and> (lc_effect cur = None \<longleftrightarrow> lc_state cur = Reserved)
      \<and> releaseBacked env db input (lc_effect cur)"
proof -
  from release_facts [OF assms(1,2)] obtain v scope draft and cur :: lifecycle where
    r: "validateRelease input = Inr v" "requireReservation env db (ri_paymentId input) True = Inr scope"
      "sc_paymentId scope = ri_paymentId input" "releaseDraft env v scope db = Inr draft"
      "dr_state draft = Released" "eventAppended env scope draft db cur db' (ch_lifecycle change)"
    and steps: "vr_kind v = Pre_dispatch \<and> lc_state cur = Reserved \<and> lc_effect cur = None
       \<or> (\<exists>effect. lc_effect cur = Some effect \<and> transitionGuard draft cur effect)"
    by blast
  have cur: "loadLifecycle env db scope = Inr cur" "lc_state (ch_lifecycle change) = Released"
    using r(5,6) by (simp_all add: eventAppended_def)
  have "(lc_effect cur = None \<longleftrightarrow> lc_state cur = Reserved) \<and> releaseBacked env db input (lc_effect cur)"
  proof (cases "vr_kind v = Pre_dispatch")
    case True
    with steps releaseDraft_pre_dispatch [OF r(4)] have "lc_state cur = Reserved" "lc_effect cur = None"
      by (auto simp: transitionGuard_def)
    moreover have "ri_kind input = ''pre_dispatch''" using validateRelease_ids [OF r(1)] True by auto
    ultimately show ?thesis by (simp add: releaseBacked_def)
  next
    case False
    from failure_release_backed [OF r(1,4,3) cur(1) this] steps False show ?thesis
      by (auto simp: transitionGuard_def)
  qed
  with r(2) cur show ?thesis by (intro exI [of _ scope] exI [of _ cur]) simp
qed

theorem release_needs_latest_evidence_witness:
  "\<exists>evidence q x. loadMeltQuotedEvidence exEnv exDb3 ''p1'' = Inr (Some evidence)
      \<and> atLast (qe_observations evidence) = Some q \<and> mq_observedAt q = 95
      \<and> mq_expiry q \<le> 95 \<and> latestProofObservation exDb3 ''p1'' = Some x
      \<and> allProofs exDb3 ''p1'' ''UNSPENT'' (px_snapshot_fingerprint x)"
proof -
  have "\<not> ch_replayed (exChange [exReleased] Released)" by (simp add: exChange_def)
  from release_needs_latest_evidence [OF exRelease_result this] obtain found where
    backed: "releaseBacked exEnv exDb3 exRelease found" by blast
  then obtain effect where "found = Some effect"
    by (cases found) (simp_all add: releaseBacked_def exRelease_def)
  with backed show ?thesis
    by (cases "oe_kind effect") (auto simp: releaseBacked_def exRelease_def)
qed

section \<open>Claims\<close>

text \<open>What each command does to the claims on proofs and on invoices.\<close>

definition claimsDropped :: "string \<Rightarrow> db \<Rightarrow> db \<Rightarrow> bool" where
  "claimsDropped pid db db' \<longleftrightarrow>
     db_proofClaims db' = filter (\<lambda>c. pc_payment_id c \<noteq> pid) (db_proofClaims db)
     \<and> db_invoiceClaims db' = filter (\<lambda>c. ic_payment_id c \<noteq> pid) (db_invoiceClaims db)"

lemma transitionView_claims:
  assumes "lifecycleView db' = transitionView env draft n db"
  shows "if dr_state draft = Released then claimsDropped (dr_paymentId draft) db db'
    else db_proofClaims db' = db_proofClaims db \<and> db_invoiceClaims db' = db_invoiceClaims db"
  using viewD(8,9) [OF assms] by (simp add: transitionView_def claimsAfter_def claimsDropped_def)

lemma claims_of_command:
  assumes "runCommand env command db = Inr (db', change)" and "\<not> ch_replayed change"
  shows "(\<exists>input. command = Release_reservation input) \<and> claimsDropped (commandPayment command) db db'
    \<or> (\<exists>input new. command = Start_effect input \<and> db_proofClaims db' = db_proofClaims db
        \<and> db_invoiceClaims db' = db_invoiceClaims db @ [new] \<and> ic_payment_id new = commandPayment command
        \<and> (\<forall>c \<in> set (db_invoiceClaims db). ic_invoice_id c \<noteq> ic_invoice_id new))
    \<or> db_proofClaims db' = db_proofClaims db \<and> db_invoiceClaims db' = db_invoiceClaims db"
proof (cases command)
  case (Start_effect input)
  then obtain v after where v: "validateStartEffect input = Inr v"
    "startEffectIn env v db = Inr (after, change)" "db' = after\<lparr>db_deferred := []\<rparr>"
    using assms(1) by (auto simp: runCommand_def startEffect_iff)
  from startEffectIn_fresh [OF v(2) assms(2)] obtain scope where
    s: "requireReservation env db (vs_paymentId v) True = Inr scope"
    "lifecycleView after = (lifecycleView db)
        \<lparr>db_events := db_events db @ [eventRowOf env (dispatchDraft v scope) 0],
         db_effects := db_effects db @ [effectRowOf env scope (effectOfInput v)],
         db_invoiceClaims := db_invoiceClaims db @ [\<lparr>ic_invoice_id = sc_invoiceId scope,
            ic_payment_id = sc_paymentId scope, ic_effect_id = vs_effectId v\<rparr>]\<rparr>"
    "\<forall>c \<in> set (db_invoiceClaims db). ic_invoice_id c \<noteq> sc_invoiceId scope"
    by blast
  have "sc_paymentId scope = se_paymentId input"
    using s(1) loadReservation_scope validateStartEffect_ids [OF v(1)]
    by (auto simp: requireReservation_Inr)
  then show ?thesis
    using viewD(8,9) [OF s(2)] s(3) Start_effect v(3) by auto
next
  case (Release_reservation input)
  then have "release env input db = Inr (db', change)"
    using assms(1) by (simp add: runCommand_def)
  from release_facts [OF this assms(2)] transitionView_claims Release_reservation show ?thesis
    by (metis (no_types, lifting) commandPayment.simps(5))
next
  case (Record_pending input)
  then obtain v :: evidence_input where "persistTransition env (evidenceDraft v ''operator_pending'' Pending) db = Inr (db', change)"
    using assms(1) by (auto simp: runCommand_def recordPending_def result_simps catchR_eq_Inr)
  from persistTransition_fresh_step [OF this assms(2)] show ?thesis
    by (auto dest!: transitionView_claims)
next
  case (Require_attention input)
  then obtain v :: attention_input where "persistTransition env (evidenceDraft v (ai_reason v) Needs_attention) db = Inr (db', change)"
    using assms(1) by (auto simp: runCommand_def requireAttention_def result_simps catchR_eq_Inr)
  from persistTransition_fresh_step [OF this assms(2)] show ?thesis
    by (auto dest!: transitionView_claims)
next
  case (Accept_payment input)
  then obtain a where a: "acceptPayment env input db = Inr (db', a)" "change = an_change a"
    using assms(1) by (auto simp: runCommand_def result_simps)
  from acceptance_facts [OF a(1)] assms(2) a(2) obtain scope f paid and cur :: lifecycle where
    p: "persistAcceptedPayment env scope input db = Inr (paid, an_accounting a)"
    "lifecycleView db' = transitionView env (acceptanceDraft input f) (int (length (lc_events cur))) paid"
    by blast
  from persistAcceptedPayment_Inr [OF p(1)] have "db_proofClaims paid = db_proofClaims db"
    "db_invoiceClaims paid = db_invoiceClaims db"
    using viewD(8,9) by fastforce+
  with transitionView_claims [OF p(2)] show ?thesis by simp
qed

text \<open>
  C5 (claims are held until release) No command but a release gives up a claim on a proof or on
  an invoice; a release gives up exactly the claims of its own payment; and an effect starts only
  when no other payment holds a claim on the invoice, whose claim it then takes.
\<close>

theorem claims_held_until_release:
  assumes "runCommand env command db = Inr (db', change)" and "\<not> ch_replayed change"
  shows "(\<exists>input. command = Release_reservation input) \<and> claimsDropped (commandPayment command) db db'
    \<or> (\<exists>input new. command = Start_effect input \<and> db_proofClaims db' = db_proofClaims db
        \<and> db_invoiceClaims db' = db_invoiceClaims db @ [new] \<and> ic_payment_id new = commandPayment command
        \<and> (\<forall>c \<in> set (db_invoiceClaims db). ic_invoice_id c \<noteq> ic_invoice_id new))
    \<or> db_proofClaims db' = db_proofClaims db \<and> db_invoiceClaims db' = db_invoiceClaims db"
  using assms by (rule claims_of_command)

theorem claims_held_until_release_witness:
  "claimsDropped ''p1'' exDb3 exDb5 \<or> db_proofClaims exDb5 = db_proofClaims exDb3"
proof -
  have "runCommand exEnv (Release_reservation exRelease) exDb3 = Inr (exDb5, exChange [exReleased] Released)"
    by (simp add: runCommand_def exRelease_result)
  moreover have "\<not> ch_replayed (exChange [exReleased] Released)" by (simp add: exChange_def)
  ultimately show ?thesis
    using claims_held_until_release [of exEnv "Release_reservation exRelease"]
    by (auto simp: exRelease_def)
qed

end
