(* ===== verification/Lifecycle_Runs.thy ===== *)
theory Lifecycle_Runs
  imports Lifecycle_Properties
begin

text \<open>
  Sequences of commands: what every command adds to the tables (\<open>tablesGrow\<close>), the invariants of
  all runs, and the replay of a repeated command.
\<close>

section \<open>What a command adds to the tables\<close>

text \<open>
  \<open>grows db db'\<close>: one new event, at most one new effect and one new journal, each under keys that
  were free, and no invoice row changed except open rows that became paid.
\<close>

definition invoiceKept :: "invoice_row \<Rightarrow> invoice_row \<Rightarrow> bool" where
  "invoiceKept i i' \<longleftrightarrow> i' = i \<or> ir_state i = ''open'' \<and> ir_paid_at i = None
     \<and> (\<exists>t. i' = i\<lparr>ir_state := ''paid'', ir_paid_at := Some t\<rparr>)"

definition effectsGrow :: "effect_row list \<Rightarrow> effect_row list \<Rightarrow> bool" where
  "effectsGrow es es' \<longleftrightarrow> es' = es \<or> (\<exists>new. es' = es @ [new]
     \<and> (\<forall>e \<in> set es. ef_payment_id e \<noteq> ef_payment_id new \<and> ef_effect_id e \<noteq> ef_effect_id new))"

definition journalsGrow :: "journal_row list \<Rightarrow> journal_row list \<Rightarrow> bool" where
  "journalsGrow js js' \<longleftrightarrow> js' = js \<or> (\<exists>new. js' = js @ [new]
     \<and> (\<forall>j \<in> set js. jr_invoice_id j \<noteq> jr_invoice_id new \<and> jr_payment_id j \<noteq> jr_payment_id new
          \<and> jr_journal_entry_id j \<noteq> jr_journal_entry_id new))"

definition tablesGrow :: "db \<Rightarrow> db \<Rightarrow> bool" where
  "tablesGrow db db' \<longleftrightarrow>
     (\<exists>new. db_events db' = db_events db @ [new]
        \<and> (\<forall>e \<in> set (db_events db). ev_event_id e \<noteq> ev_event_id new))
     \<and> effectsGrow (db_effects db) (db_effects db')
     \<and> journalsGrow (db_journals db) (db_journals db')
     \<and> list_all2 invoiceKept (db_invoices db) (db_invoices db')"

lemma invoiceKept_refl: "list_all2 invoiceKept is is"
  by (rule list_all2_refl) (simp add: invoiceKept_def)

lemma eventAppended_grows:
  assumes "eventAppended env scope draft db cur db' lc"
  shows "\<exists>new. db_events db' = db_events db @ [new]
    \<and> (\<forall>e \<in> set (db_events db). ev_event_id e \<noteq> ev_event_id new)"
  using assms by (auto simp: eventAppended_def)

lemma transitionView_grows:
  assumes "lifecycleView db' = transitionView env draft n db"
    and "eventAppended env scope draft0 db cur db' lc"
  shows "tablesGrow db db'"
proof -
  have "db_effects db' = db_effects db" "db_invoices db' = db_invoices db"
    "db_journals db' = db_journals db"
    using viewD(2,7,10) [OF assms(1)] by (simp_all add: transitionView_def claimsAfter_def)
  then show ?thesis
    using eventAppended_grows [OF assms(2)]
    by (simp add: tablesGrow_def effectsGrow_def journalsGrow_def invoiceKept_refl)
qed

lemma acceptance_grows:
  assumes "acceptPayment env input db = Inr (db', a)" and "\<not> ch_replayed (an_change a)"
  shows "tablesGrow db db'"
proof -
  from acceptance_facts [OF assms] obtain scope f paid asset and cur :: lifecycle where p:
    "persistAcceptedPayment env scope input db = Inr (paid, an_accounting a)"
    "eventAppended env scope (acceptanceDraft input f) db cur db' (ch_lifecycle (an_change a))"
    "lifecycleView db' = transitionView env (acceptanceDraft input f) (int (length (lc_events cur))) paid"
    "acceptPaymentOf scope (paymentInput scope (ci_proofStateObservedAt input) asset
        (ei_recordedAt input) (ci_feeAmount input) (ci_journalEntryId input) Immediate_conversion)
      = Inr (an_accounting a)"
    by blast
  note paid = persistAcceptedPayment_Inr [OF p(1)]
  note rows = viewD(2,7,10) [OF paid [THEN conjunct1]]
  have "db_effects db' = db_effects paid" "db_invoices db' = db_invoices paid"
    "db_journals db' = db_journals paid"
    using viewD(2,7,10) [OF p(3)] by (simp_all add: transitionView_def claimsAfter_def)
  moreover have "journalsGrow (db_journals db) (db_journals paid)"
    using paid rows by (auto simp: journalsGrow_def journalRowOf_def)
  moreover have "list_all2 invoiceKept (db_invoices db) (db_invoices paid)"
    using rows by (auto simp: list_all2_map2 invoiceKept_def intro!: list_all2_refl)
  ultimately show ?thesis
    using eventAppended_grows [OF p(2)] rows by (simp add: tablesGrow_def effectsGrow_def)
qed

lemma command_grows:
  assumes "runCommand env command db = Inr (db', change)" and "\<not> ch_replayed change"
  shows "tablesGrow db db'"
proof (cases command)
  case (Start_effect input)
  then obtain v after where v: "validateStartEffect input = Inr v"
    "startEffectIn env v db = Inr (after, change)" "db' = after\<lparr>db_deferred := []\<rparr>"
    using assms(1) by (auto simp: runCommand_def startEffect_iff)
  from startEffectIn_fresh [OF v(2) assms(2)] obtain scope and cur :: lifecycle where
    s: "eventAppended env scope (dispatchDraft v scope) db cur after (ch_lifecycle change)"
    "lifecycleView after = (lifecycleView db)
        \<lparr>db_events := db_events db @ [eventRowOf env (dispatchDraft v scope) 0],
         db_effects := db_effects db @ [effectRowOf env scope (effectOfInput v)],
         db_invoiceClaims := db_invoiceClaims db @ [\<lparr>ic_invoice_id = sc_invoiceId scope,
            ic_payment_id = sc_paymentId scope, ic_effect_id = vs_effectId v\<rparr>]\<rparr>"
    "\<forall>e \<in> set (db_effects db). ef_payment_id e \<noteq> sc_paymentId scope \<and> ef_effect_id e \<noteq> vs_effectId v"
    by blast
  have "effectsGrow (db_effects db) (db_effects after)"
    using viewD(2) [OF s(2)] s(3) by (auto simp: effectsGrow_def effectRowOf_def effectOfInput_def)
  then show ?thesis
    using viewD(7,10) [OF s(2)] eventAppended_grows [OF s(1)] v(3)
    by (simp add: tablesGrow_def journalsGrow_def invoiceKept_refl)
next
  case (Release_reservation input)
  then have "release env input db = Inr (db', change)"
    using assms(1) by (simp add: runCommand_def)
  from release_facts [OF this assms(2)] show ?thesis by (auto dest: transitionView_grows)
next
  case (Record_pending input)
  then obtain v :: evidence_input where
    "persistTransition env (evidenceDraft v ''operator_pending'' Pending) db = Inr (db', change)"
    using assms(1) by (auto simp: runCommand_def recordPending_def result_simps catchR_eq_Inr)
  from persistTransition_fresh_step [OF this assms(2)] show ?thesis
    by (auto dest: transitionView_grows)
next
  case (Require_attention input)
  then obtain v :: attention_input where
    "persistTransition env (evidenceDraft v (ai_reason v) Needs_attention) db = Inr (db', change)"
    using assms(1) by (auto simp: runCommand_def requireAttention_def result_simps catchR_eq_Inr)
  from persistTransition_fresh_step [OF this assms(2)] show ?thesis
    by (auto dest: transitionView_grows)
next
  case (Accept_payment input)
  then show ?thesis using assms acceptance_grows by (auto simp: runCommand_def result_simps)
qed

section \<open>Runs\<close>

text \<open>A run of commands; a command that fails leaves the database as it was.\<close>

fun runCommands :: "cashu_env \<Rightarrow> lifecycle_command list \<Rightarrow> db \<Rightarrow> db" where
  "runCommands env [] db = db"
| "runCommands env (c # cs) db =
     (case runCommand env c db of
        Inl _ \<Rightarrow> runCommands env cs db
      | Inr (after, _) \<Rightarrow> runCommands env cs after)"

lemma command_step_cases:
  assumes "runCommand env c db = Inr (db', change)"
  shows "db' = db\<lparr>db_deferred := []\<rparr> \<or> tablesGrow db db'"
  using command_replay [OF assms] command_grows [OF assms] by blast

lemma run_invariant:
  assumes "\<And>db db'. P db \<Longrightarrow> tablesGrow db db' \<Longrightarrow> P db'"
    and "\<And>db. P (db\<lparr>db_deferred := []\<rparr>) = P db" and "P db"
  shows "P (runCommands env cs db)"
  using assms(3)
proof (induction cs arbitrary: db)
  case (Cons c cs)
  then show ?case
    using command_step_cases [of env c db] assms(1,2)
    by (auto split: sum.splits prod.splits)
qed simp

definition lifecycleKeys :: "db \<Rightarrow> bool" where
  "lifecycleKeys db \<longleftrightarrow> distinct (map ev_event_id (db_events db))
     \<and> distinct (map ef_payment_id (db_effects db)) \<and> distinct (map ef_effect_id (db_effects db))
     \<and> distinct (map jr_invoice_id (db_journals db)) \<and> distinct (map jr_payment_id (db_journals db))
     \<and> distinct (map jr_journal_entry_id (db_journals db))"

lemma distinct_map_snoc:
  "distinct (map f (xs @ [y])) \<longleftrightarrow> distinct (map f xs) \<and> (\<forall>x \<in> set xs. f x \<noteq> f y)"
  by (induction xs) (auto simp: image_iff)

lemma lifecycleKeys_grow: "lifecycleKeys db \<Longrightarrow> tablesGrow db db' \<Longrightarrow> lifecycleKeys db'"
  unfolding lifecycleKeys_def tablesGrow_def effectsGrow_def journalsGrow_def
  by (elim conjE exE disjE) (simp_all add: distinct_map_snoc del: map_append distinct_append)

text \<open>
  C6 (at most one effect per payment and one payment per invoice, for ever) Along any run of
  commands, successful or not, on any payments: event ids stay unique, no payment ever gets a
  second operator effect, and no invoice and no payment ever gets a second payment journal.
\<close>

theorem run_keeps_keys:
  assumes "lifecycleKeys db"
  shows "lifecycleKeys (runCommands env commands db)"
proof (rule run_invariant [where P = lifecycleKeys])
  show "lifecycleKeys db" by (rule assms)
qed (fact lifecycleKeys_grow, simp add: lifecycleKeys_def)

theorem run_keeps_keys_witness: "lifecycleKeys (runCommands exEnv [Start_effect exStart] exDb)"
  by (rule run_keeps_keys) (simp add: lifecycleKeys_def exDb_def)





section \<open>Replays\<close>

lemma reservation_frame:
  assumes "db_reservations db' = db_reservations db" and "db_invoices db' = db_invoices db"
  shows "requireReservation env db' pid lock = requireReservation env db pid lock"
  unfolding requireReservation_def loadReservation_def findReservation_def findInvoice_def assms
  by (rule refl)

lemma transitionView_frame:
  assumes "lifecycleView db' = transitionView env draft n db"
  shows "db_proofEntries db' = db_proofEntries db" "db_proofs db' = db_proofs db"
    "db_proofObservations db' = db_proofObservations db"
    "db_quoteAttempts db' = db_quoteAttempts db" "db_quoteOutcomes db' = db_quoteOutcomes db"
    "db_quoteObservations db' = db_quoteObservations db" "db_requests db' = db_requests db"
    "db_routes db' = db_routes db"
  using viewD [OF assms] by (simp_all add: transitionView_def claimsAfter_def)

lemma replay_after:
  assumes "eventAppended env scope draft db cur db' lc"
    and "requireReservation env db' (dr_paymentId draft) False = Inr scope"
  shows "replayEvent env db' draft None = Inr (Some \<lparr>ch_lifecycle = lc, ch_replayed = True\<rparr>)"
proof -
  let ?row = "eventRowOf env draft (int (length (lc_events cur)))"
  have "findFirst (\<lambda>e. ev_event_id e = dr_eventId draft) (db_events db') = Some ?row"
    using assms(1) by (simp add: eventAppended_def findFirst_snoc)
  then show ?thesis
    using assms by (simp add: replayEvent_def eventAppended_def)
qed

lemma persistTransition_again:
  assumes "persistTransition env draft db = Inr (db', change)" and "\<not> ch_replayed change"
  shows "persistTransition env draft db'
    = Inr (db', \<lparr>ch_lifecycle = ch_lifecycle change, ch_replayed = True\<rparr>)"
proof -
  from persistTransition_fresh_step [OF assms] obtain scope and cur :: lifecycle where
    s: "requireReservation env db (dr_paymentId draft) True = Inr scope"
    "eventAppended env scope draft db cur db' (ch_lifecycle change)"
    "lifecycleView db' = transitionView env draft (int (length (lc_events cur))) db"
    by blast
  have deferred: "db_deferred db' = []" using assms(1) by (auto simp: persistTransition_iff)
  have same: "requireReservation env db' pid lock = requireReservation env db pid lock" for pid lock
    by (rule reservation_frame) (use viewD(6,7) [OF s(3)] in simp_all)
  have "requireReservation env db' (dr_paymentId draft) False = Inr scope"
    using s(1) unfolding same requireReservation_Inr .
  note replay = replay_after [OF s(2) this]
  have "persistTransitionInTransaction env scope draft db'
      = Inr (db', \<lparr>ch_lifecycle = ch_lifecycle change, ch_replayed = True\<rparr>)"
    by (simp add: persistTransitionInTransaction_def replay)
  with s(1) deferred show ?thesis by (simp add: persistTransition_iff same)
qed

lemma mapEffect_row:
  assumes "mapEffect env (effectRowOf env scope effect) scope = Inr e"
    and "oe_schemaVersion effect = CASHU_PROOF_RESERVATION_LIFECYCLE_SCHEMA_VERSION"
  shows "e = effect"
  using assms
  by (cases effect; cases "oe_kind effect")
    (auto simp: mapEffect_def effectRowOf_def result_simps Let_def cashuOperatorDispatchFingerprint_def
      split: if_splits)

lemma startEffect_again:
  assumes "startEffect env input db = Inr (db', change)" and "\<not> ch_replayed change"
  shows "startEffect env input db'
    = Inr (db', \<lparr>ch_lifecycle = ch_lifecycle change, ch_replayed = True\<rparr>)"
proof -
  obtain v after where v: "validateStartEffect input = Inr v"
    "startEffectIn env v db = Inr (after, change)" "db' = after\<lparr>db_deferred := []\<rparr>"
    using assms(1) by (auto simp: startEffect_iff)
  from startEffectIn_fresh [OF v(2) assms(2)] obtain scope and cur :: lifecycle where
    s: "requireReservation env db (vs_paymentId v) True = Inr scope"
    "eventAppended env scope (dispatchDraft v scope) db cur after (ch_lifecycle change)"
    "lifecycleView after = (lifecycleView db)
        \<lparr>db_events := db_events db @ [eventRowOf env (dispatchDraft v scope) 0],
         db_effects := db_effects db @ [effectRowOf env scope (effectOfInput v)],
         db_invoiceClaims := db_invoiceClaims db @ [\<lparr>ic_invoice_id = sc_invoiceId scope,
            ic_payment_id = sc_paymentId scope, ic_effect_id = vs_effectId v\<rparr>]\<rparr>"
    "\<forall>e \<in> set (db_effects db). ef_payment_id e \<noteq> sc_paymentId scope \<and> ef_effect_id e \<noteq> vs_effectId v"
    "lc_state cur = Reserved"
    by blast
  have pid: "sc_paymentId scope = vs_paymentId v"
    using s(1) loadReservation_scope by (auto simp: requireReservation_Inr)
  have same: "requireReservation env db' pid lock = requireReservation env db pid lock" for pid lock
    by (rule reservation_frame) (use viewD(6,7) [OF s(3)] v(3) in simp_all)
  have app: "eventAppended env scope (dispatchDraft v scope) db cur db' (ch_lifecycle change)"
    using s(2) v(3) by simp
  have req: "requireReservation env db' (vs_paymentId v) False = Inr scope"
    using s(1) unfolding same requireReservation_Inr .
  note replay = replay_after [OF app] req
  have rows: "filter (\<lambda>e. ef_payment_id e = sc_paymentId scope) (db_effects db')
      = [effectRowOf env scope (effectOfInput v)]"
  proof -
    have "filter (\<lambda>e. ef_payment_id e = sc_paymentId scope) (db_effects db) = []"
      using s(4) by (simp add: filter_empty_conv)
    then show ?thesis using viewD(2) [OF s(3)] v(3) by (simp add: effectRowOf_def)
  qed
  have load: "loadLifecycle env db' scope = Inr (ch_lifecycle change)"
    using app by (simp add: eventAppended_def)
  have effect: "lc_effect (ch_lifecycle change) = Some (effectOfInput v)"
  proof -
    have "mapEffect env (effectRowOf env scope (effectOfInput v)) scope = Inr e
        \<Longrightarrow> e = effectOfInput v" for e
      by (rule mapEffect_row) (simp_all add: effectOfInput_def)
    then show ?thesis
      using loadLifecycle_parts [OF load] rows by (auto split: option.splits)
  qed
  have "replayEvent env db' (dispatchDraft v scope) (Some (effectOfInput v))
      = Inr (Some \<lparr>ch_lifecycle = ch_lifecycle change, ch_replayed = True\<rparr>)"
    using replay req pid load effect
    by (auto simp: replayEvent_def result_simps case_Inr Let_def)
  then have "startEffectIn env v db'
      = Inr (db', \<lparr>ch_lifecycle = ch_lifecycle change, ch_replayed = True\<rparr>)"
    using s(1) by (simp add: startEffectIn_def same)
  with v show ?thesis by (auto simp: startEffect_iff)
qed

lemma release_again:
  assumes "release env input db = Inr (db', change)" and "\<not> ch_replayed change"
  shows "release env input db'
    = Inr (db', \<lparr>ch_lifecycle = ch_lifecycle change, ch_replayed = True\<rparr>)"
proof -
  from release_facts [OF assms] obtain v scope draft and cur :: lifecycle where
    s: "validateRelease input = Inr v"
    "requireReservation env db (ri_paymentId input) True = Inr scope"
    "releaseDraft env v scope db = Inr draft" "dr_paymentId draft = ri_paymentId input"
    "eventAppended env scope draft db cur db' (ch_lifecycle change)"
    "lifecycleView db' = transitionView env draft (int (length (lc_events cur))) db"
    by blast
  note view = viewD [OF s(6)]
  have same: "requireReservation env db' pid lock = requireReservation env db pid lock" for pid lock
    by (rule reservation_frame) (use view(6,7) in simp_all)
  have req: "requireReservation env db' (dr_paymentId draft) False = Inr scope"
    using s(2,4) unfolding same requireReservation_Inr by simp
  note replay = replay_after [OF s(5) req]
  have load: "loadLifecycle env db scope = Inr cur"
    "loadLifecycle env db' scope = Inr (ch_lifecycle change)"
    using s(5) by (simp_all add: eventAppended_def)
  have "lc_effect (ch_lifecycle change) = lc_effect cur"
    using view(2) by (intro effects_same [OF load]) simp
  then have effect: "assertEffectEvidence env db' scope i k t r = assertEffectEvidence env db scope i k t r"
    if "k \<noteq> ''melt_paid''" for i k t r
    using load that by (simp add: assertEffectEvidence_def split: option.split)
  have proof': "resolveProofStateEvidence env db' scope t st = resolveProofStateEvidence env db scope t st"
    for t st
    unfolding resolveProofStateEvidence_def validateProofStateEvidenceByFingerprint_def
      proofEntriesOf_def transitionView_frame [OF s(6)]
    by (rule refl)
  have latest: "assertLatestMeltReleaseEvidence env db' scope r x t o' f
      = assertLatestMeltReleaseEvidence env db scope r x t o' f" for r x t o' f
    unfolding assertLatestMeltReleaseEvidence_def latestProofObservation_def
      loadMeltQuotedEvidence_def requireSettlementRoute_def transitionView_frame [OF s(6)]
    by (rule refl)
  have "releaseDraft env v scope db' = releaseDraft env v scope db"
  proof (cases "vr_kind v")
    case (After_failure i t k o')
    then have "k \<noteq> ''melt_paid''"
      using validateRelease_ids [OF s(1)] by (auto simp: CASHU_OPERATOR_FAILURE_EVIDENCE_def)
    then show ?thesis
      unfolding releaseDraft_def After_failure release_kind.case effect [OF \<open>k \<noteq> ''melt_paid''\<close>]
        proof' latest
      by (intro refl)
  qed (simp add: releaseDraft_def)
  then have "releaseIn env v db'
      = Inr (db', \<lparr>ch_lifecycle = ch_lifecycle change, ch_replayed = True\<rparr>)"
    using s(2,3) validateRelease_ids [OF s(1)]
    by (simp add: releaseIn_def same persistTransitionInTransaction_def replay)
  moreover have "db_deferred db' = []" using assms(1) by (auto simp: release_iff)
  ultimately show ?thesis using s(1) by (simp add: release_iff)
qed

text \<open>
  C8 (a repeated command is a replay) A dispatch, pending, attention or release command that has
  succeeded can be sent again with the same input: it succeeds again, is reported as a replay,
  returns the same lifecycle and leaves the database as it is.
\<close>

theorem repeated_command_replays:
  assumes "runCommand env command db = Inr (db', change)" and "\<not> ch_replayed change"
    and "\<forall>input. command \<noteq> Accept_payment input"
  shows "runCommand env command db'
    = Inr (db', \<lparr>ch_lifecycle = ch_lifecycle change, ch_replayed = True\<rparr>)"
proof (cases command)
  case (Start_effect input)
  with assms startEffect_again show ?thesis by (simp add: runCommand_def)
next
  case (Record_pending input)
  with assms persistTransition_again show ?thesis
    by (auto simp: runCommand_def recordPending_def result_simps catchR_eq_Inr)
next
  case (Require_attention input)
  with assms persistTransition_again show ?thesis
    by (auto simp: runCommand_def requireAttention_def result_simps catchR_eq_Inr)
next
  case (Release_reservation input)
  with assms release_again show ?thesis by (simp add: runCommand_def)
qed (use assms(3) in simp)

theorem repeated_command_replays_witness:
  "startEffect exEnv exStart exDb1
     = Inr (exDb1, \<lparr>ch_lifecycle = exLifecycle [] Dispatch_started, ch_replayed = True\<rparr>)"
proof -
  have "runCommand exEnv (Start_effect exStart) exDb = Inr (exDb1, exChange [] Dispatch_started)"
    by (simp add: runCommand_def exStart_result)
  from repeated_command_replays [OF this] show ?thesis by (simp add: exChange_def runCommand_def)
qed

end
