(* ===== verification/Issuance_Example.thy ===== *)
theory Issuance_Example
  imports Example
begin

text \<open>
  Issuance, instantiated: the first invoice of an empty deployment, issued with one trusted
  operator, and the witnesses of the issuance theorems.
\<close>

definition exEmpty :: db where
  "exEmpty = \<lparr>db_invoices = [], db_creations = [], db_requests = [],
     db_routes = [], db_reservations = [], db_proofs = [],
     db_proofClaims = [], db_invoiceClaims = [], db_effects = [], db_events = [],
     db_quoteAttempts = [], db_quoteOutcomes = [], db_quoteObservations = [],
     db_proofObservations = [], db_proofEntries = [], db_journals = [], db_postings = [],
     db_custody = [], db_jobs = [], db_leases = [], db_outcomes = [],
     db_keysets = [], db_keysetObservations = [], db_keysetEntries = [], db_deferred = []\<rparr>"

definition exIssued :: invoice where
  "exIssued = \<lparr>inv_amount = 100, inv_createdAt = 10, inv_expiresAt = 110, inv_id = ''i1'',
     inv_merchantId = ''m1'', inv_schemaVersion = 1, inv_unit = ''usdc'', inv_state = Open\<rparr>"

definition exRequestInput :: payment_request_input where
  "exRequestInput = \<lparr>io_mintPolicy = Some Strict,
     io_operators = [\<lparr>or_mintUrl = ''https:m'', or_operatorId = ''o1'',
       or_requestedMode = Some Immediate_conversion, or_tier = Trusted\<rparr>],
     io_transportUrl = ''https:t'', pri_invoice = exIssued, pri_issuedAt = 10\<rparr>"

definition exCreate :: "string \<Rightarrow> create_invoice_record" where
  "exCreate f = \<lparr>cir_cashuPaymentRequest =
       (case createCashuPaymentRequestV1 exEnv exRequestInput of Inr r \<Rightarrow> r),
     cir_idempotencyKey = ''k1'', cir_invoice = exIssued, cir_requestFingerprint = f,
     cir_settlementDestination = exAddress\<rparr>"

lemma exRequest_ok: "isOk (createCashuPaymentRequestV1 exEnv exRequestInput)"
  by code_simp

lemma exCreate_fresh:
  "map_sum id (cir_replayed \<circ> snd) (createOpenInvoice exEnv (exCreate ''f1'') exEmpty) = Inr False"
  by code_simp

lemma exEmpty_keys: "issuanceKeys exEmpty"
  by (simp add: issuanceKeys_def exEmpty_def)

lemma exCreate_result:
  obtains db' res where
    "createOpenInvoice exEnv (exCreate ''f1'') exEmpty = Inr (db', res)" "\<not> cir_replayed res"
  using exCreate_fresh
  by (cases "createOpenInvoice exEnv (exCreate ''f1'') exEmpty") auto

lemma exCreate_valid:
  "isOk (validateCashuPaymentRequest exEnv exIssued (cir_cashuPaymentRequest (exCreate f)))"
  unfolding exCreate_def create_invoice_record.select_convs by code_simp

theorem issued_invoice_found_witness:
  "\<exists>db' res. createOpenInvoice exEnv (exCreate ''f1'') exEmpty = Inr (db', res)
     \<and> findOpenInvoiceById exEnv db' ''i1''
       = Inr (Some \<lparr>ii_cashuPaymentRequest = cir_cashuPaymentRequest (exCreate ''f1''),
                    ii_invoice = exIssued\<rparr>)"
proof -
  obtain db' res where issued: "createOpenInvoice exEnv (exCreate ''f1'') exEmpty = Inr (db', res)"
    "\<not> cir_replayed res"
    by (rule exCreate_result)
  from issued issued_invoice_found [OF issued exEmpty_keys] show ?thesis
    by (auto simp: exCreate_def exIssued_def)
qed

theorem issuance_idempotent_witness:
  "\<exists>db' res. createOpenInvoice exEnv (exCreate ''f1'') exEmpty = Inr (db', res)
     \<and> createOpenInvoice exEnv (exCreate ''f2'') db' = Inl IR_idempotency_conflict
     \<and> map_sum id (cir_replayed \<circ> snd) (createOpenInvoice exEnv (exCreate ''f1'') db') = Inr True"
proof -
  obtain db' res where issued: "createOpenInvoice exEnv (exCreate ''f1'') exEmpty = Inr (db', res)"
    "\<not> cir_replayed res"
    by (rule exCreate_result)
  have again: "createOpenInvoice exEnv (exCreate f) db' =
    (if f = ''f1'' then Inr (db', \<lparr>ii_cashuPaymentRequest = cir_cashuPaymentRequest (exCreate ''f1''),
                     ii_invoice = exIssued, cir_replayed = True\<rparr>)
     else Inl IR_idempotency_conflict)" for f
  proof -
    obtain q where q: "validateCashuPaymentRequest exEnv (cir_invoice (exCreate f))
        (cir_cashuPaymentRequest (exCreate f)) = Inr q"
      using exCreate_valid [of f] by (auto simp: isOk_iff exCreate_def)
    show ?thesis
      using issuance_idempotent [OF issued exEmpty_keys, of "exCreate f", OF _ _ q]
      by (simp add: exCreate_def exAddress_valid exIssued_def)
  qed
  from issued(1) again [of "''f1''"] again [of "''f2''"] show ?thesis by auto
qed

end
