(* ===== verification/Recovery_Job.thy ===== *)
theory Recovery_Job
  imports Commit
begin

text \<open>
  \<^verbatim>\<open>cashu-stellar-melt-recovery-job-repository.ts\<close> and its PostgreSQL implementation
  \<^verbatim>\<open>postgres-cashu-stellar-melt-recovery-job-repository.ts\<close>, with the trigger functions of
  \<^verbatim>\<open>postgres-schema.ts\<close> on leases and outcomes.  Every melt effect has one recovery job.  A
  worker claims the job under a lease of at most 300 seconds, numbered from 1, and records at most
  one outcome under it: the payment was accepted or released, a retry is due later, or a person
  has to look at it.

  \<open>claimNext\<close> takes the payments whose job rows other transactions hold locked, which its
  \<^verbatim>\<open>FOR UPDATE SKIP LOCKED\<close> passes over.  Text columns compare by code units, as under the
  collation \<^verbatim>\<open>C\<close>.
\<close>

section \<open>Jobs, leases, outcomes\<close>

definition CASHU_STELLAR_MELT_RECOVERY_JOB_SCHEMA_VERSION :: int where
  "CASHU_STELLAR_MELT_RECOVERY_JOB_SCHEMA_VERSION = 1"

definition CASHU_STELLAR_MELT_RECOVERY_INITIAL_DELAY_SECONDS :: int where
  "CASHU_STELLAR_MELT_RECOVERY_INITIAL_DELAY_SECONDS = 60"

definition CASHU_STELLAR_MELT_RECOVERY_RETRY_REASONS :: "string list" where
  "CASHU_STELLAR_MELT_RECOVERY_RETRY_REASONS =
     [''nonterminal_evidence'', ''operator_state_unknown'', ''storage_unavailable'',
      ''worker_aborted'']"

definition CASHU_STELLAR_MELT_RECOVERY_ATTENTION_REASONS :: "string list" where
  "CASHU_STELLAR_MELT_RECOVERY_ATTENTION_REASONS =
     [''evidence_invalid'', ''operator_response_invalid'', ''recovery_configuration_invalid'',
      ''retry_exhausted'']"

record recovery_lease =
  rl_attemptNumber :: int
  rl_claimedAt :: int
  rl_expiresAt :: int
  rl_leaseToken :: string
  rl_paymentId :: string
  rl_schemaVersion :: int
  rl_workerId :: string

text \<open>The union of outcomes: the field all of them have, and the fields of each kind.\<close>

datatype outcome_body =
    Outcome_accepted
  | Outcome_released
  | Outcome_retry_scheduled int string
  | Outcome_attention_required string

record lease_outcome =
  lo_recordedAt :: int
  lo_body :: outcome_body

record recovery_attempt =
  rat_lease :: recovery_lease
  rat_outcome :: "lease_outcome option"

datatype job_state =
    Job_scheduled int
  | Job_leased recovery_lease
  | Job_attention_required lease_outcome
  | Job_completed int string

record recovery_job =
  rj_attempts :: "recovery_attempt list"
  rj_effectId :: string
  rj_initialAttemptAt :: int
  rj_paymentId :: string
  rj_schemaVersion :: int
  rj_state :: job_state

record claim_input =
  cl_claimedAt :: int
  cl_expiresAt :: int
  cl_leaseToken :: string
  cl_workerId :: string

record outcome_input =
  oi_kind :: string
  oi_leaseToken :: string
  oi_nextAttemptAt :: "int option"
  oi_paymentId :: string
  oi_reason :: "string option"
  oi_recordedAt :: int

record outcome_result =
  or_job :: recovery_job
  or_replayed :: bool

datatype recovery_job_error =
    RJ_invalid_input
  | RJ_invalid_record
  | RJ_lease_conflict
  | RJ_lease_lost
  | RJ_storage_unavailable

type_synonym 'a job_result = "recovery_job_error failure + 'a"

text \<open>The \<^verbatim>\<open>TypeError\<close> of a malformed token is one of the errors the callers replace.\<close>

definition cashuStellarMeltRecoveryLeaseToken :: "string \<Rightarrow> unit + string" where
  "cashuStellarMeltRecoveryLeaseToken v = (if identifierPattern v then Inr v else Inl ())"

section \<open>Validation of inputs\<close>

definition badInput :: "'e + 'a \<Rightarrow> 'a job_result" where
  "badInput = catchR (\<lambda>_. Repository_failure RJ_invalid_input)"

definition validateClaim :: "claim_input \<Rightarrow> claim_input job_result" where
  "validateClaim input =
    (if \<not> identifierPattern (cl_workerId input) then failWith RJ_invalid_input
     else
     bindR (badInput (unixTimestamp (cl_claimedAt input))) (\<lambda>claimedAt.
     bindR (badInput (unixTimestamp (cl_expiresAt input))) (\<lambda>expiresAt.
     if expiresAt \<le> claimedAt \<or> expiresAt - claimedAt > 300 then failWith RJ_invalid_input
     else
     bindR (badInput (cashuStellarMeltRecoveryLeaseToken (cl_leaseToken input))) (\<lambda>token.
     Inr \<lparr>cl_claimedAt = claimedAt, cl_expiresAt = expiresAt, cl_leaseToken = token,
          cl_workerId = cl_workerId input\<rparr>))))"

definition validateOutcome :: "outcome_input \<Rightarrow> outcome_input job_result" where
  "validateOutcome input =
     bindR (badInput (cashuStellarMeltRecoveryLeaseToken (oi_leaseToken input))) (\<lambda>token.
     bindR (badInput (identifierOf (oi_paymentId input))) (\<lambda>pid.
     bindR (badInput (unixTimestamp (oi_recordedAt input))) (\<lambda>recordedAt.
     let base = \<lparr>oi_kind = oi_kind input, oi_leaseToken = token, oi_nextAttemptAt = None,
                 oi_paymentId = pid, oi_reason = None, oi_recordedAt = recordedAt\<rparr>
     in
     if oi_kind input = ''accepted'' \<or> oi_kind input = ''released'' then Inr base
     else if oi_kind input = ''retry_scheduled''
     then case oi_reason input of
            None \<Rightarrow> failWith RJ_invalid_input
          | Some reason \<Rightarrow>
              if reason \<notin> set CASHU_STELLAR_MELT_RECOVERY_RETRY_REASONS
              then failWith RJ_invalid_input
              else case oi_nextAttemptAt input of
                None \<Rightarrow> failWith RJ_invalid_input
              | Some next' \<Rightarrow>
                  bindR (badInput (unixTimestamp next')) (\<lambda>nextAttemptAt.
                  if nextAttemptAt \<le> recordedAt then failWith RJ_invalid_input
                  else Inr (base\<lparr>oi_nextAttemptAt := Some nextAttemptAt, oi_reason := Some reason\<rparr>))
     else case oi_reason input of
            None \<Rightarrow> failWith RJ_invalid_input
          | Some reason \<Rightarrow>
              if oi_kind input \<noteq> ''attention_required''
                 \<or> reason \<notin> set CASHU_STELLAR_MELT_RECOVERY_ATTENTION_REASONS
              then failWith RJ_invalid_input
              else Inr (base\<lparr>oi_reason := Some reason\<rparr>))))"

section \<open>Mapping stored rows\<close>

definition mapLease :: "lease_row \<Rightarrow> recovery_lease job_result" where
  "mapLease row =
     bindR (catchR Repository_failure (readBigint RJ_invalid_record (ls_claimed_at row))) (\<lambda>c.
     bindR (other (unixTimestamp c)) (\<lambda>claimedAt.
     bindR (catchR Repository_failure (readBigint RJ_invalid_record (ls_expires_at row))) (\<lambda>e.
     bindR (other (unixTimestamp e)) (\<lambda>expiresAt.
     if ls_schema_version row \<noteq> CASHU_STELLAR_MELT_RECOVERY_JOB_SCHEMA_VERSION
        \<or> \<not> isSafeInteger (ls_attempt_number row)
        \<or> ls_attempt_number row < 1 \<or> ls_attempt_number row > 1024
        \<or> \<not> identifierPattern (ls_worker_id row)
        \<or> expiresAt \<le> claimedAt \<or> expiresAt - claimedAt > 300
     then failWith RJ_invalid_record
     else
     bindR (other (cashuStellarMeltRecoveryLeaseToken (ls_lease_token row))) (\<lambda>token.
     bindR (other (identifierOf (ls_payment_id row))) (\<lambda>pid.
     Inr \<lparr>rl_attemptNumber = ls_attempt_number row, rl_claimedAt = claimedAt,
          rl_expiresAt = expiresAt, rl_leaseToken = token, rl_paymentId = pid,
          rl_schemaVersion = CASHU_STELLAR_MELT_RECOVERY_JOB_SCHEMA_VERSION,
          rl_workerId = ls_worker_id row\<rparr>))))))"

definition isRetryReason :: "string \<Rightarrow> bool" where
  "isRetryReason v \<longleftrightarrow> v \<in> set CASHU_STELLAR_MELT_RECOVERY_RETRY_REASONS"

definition isAttentionReason :: "string \<Rightarrow> bool" where
  "isAttentionReason v \<longleftrightarrow> v \<in> set CASHU_STELLAR_MELT_RECOVERY_ATTENTION_REASONS"

text \<open>The outcome columns of an attempt are all null when the left join finds no outcome.\<close>

definition mapOutcome :: "outcome_row option \<Rightarrow> lease_outcome option job_result" where
  "mapOutcome found =
    (case found of
       None \<Rightarrow> Inr None
     | Some row \<Rightarrow>
         bindR (catchR Repository_failure (readBigint RJ_invalid_record (oc_recorded_at row))) (\<lambda>r.
         bindR (other (unixTimestamp r)) (\<lambda>recordedAt.
         if oc_outcome_kind row = ''accepted'' \<or> oc_outcome_kind row = ''released''
         then if oc_reason row \<noteq> None \<or> oc_next_attempt_at row \<noteq> None
              then failWith RJ_invalid_record
              else Inr (Some \<lparr>lo_recordedAt = recordedAt,
                lo_body = (if oc_outcome_kind row = ''accepted'' then Outcome_accepted
                           else Outcome_released)\<rparr>)
         else if oc_outcome_kind row = ''retry_scheduled''
         then case (oc_reason row, oc_next_attempt_at row) of
                (Some reason, Some t) \<Rightarrow>
                  if \<not> isRetryReason reason then failWith RJ_invalid_record
                  else
                  bindR (catchR Repository_failure (readBigint RJ_invalid_record t)) (\<lambda>n.
                  bindR (other (unixTimestamp n)) (\<lambda>nextAttemptAt.
                  if nextAttemptAt \<le> recordedAt then failWith RJ_invalid_record
                  else Inr (Some \<lparr>lo_recordedAt = recordedAt,
                         lo_body = Outcome_retry_scheduled nextAttemptAt reason\<rparr>)))
              | _ \<Rightarrow> failWith RJ_invalid_record
         else case oc_reason row of
                None \<Rightarrow> failWith RJ_invalid_record
              | Some reason \<Rightarrow>
                  if oc_outcome_kind row \<noteq> ''attention_required'' \<or> \<not> isAttentionReason reason
                     \<or> oc_next_attempt_at row \<noteq> None
                  then failWith RJ_invalid_record
                  else Inr (Some \<lparr>lo_recordedAt = recordedAt,
                         lo_body = Outcome_attention_required reason\<rparr>))))"

text \<open>
  The loop over the attempts: \<open>eligibleAt\<close> is when the next lease may be claimed at the earliest.
\<close>

fun mapAttempts ::
  "int \<Rightarrow> nat \<Rightarrow> (lease_row \<times> outcome_row option) list \<Rightarrow> recovery_attempt list job_result" where
  "mapAttempts eligibleAt position [] = Inr []"
| "mapAttempts eligibleAt position ((row, outcomeRow) # rows) =
     bindR (mapLease row) (\<lambda>lease.
     if rl_attemptNumber lease \<noteq> int position + 1 \<or> rl_claimedAt lease < eligibleAt
     then failWith RJ_invalid_record
     else
     bindR (mapOutcome outcomeRow) (\<lambda>outcome.
     bindR (case outcome of
              None \<Rightarrow> Inr (rl_expiresAt lease)
            | Some out \<Rightarrow>
                if lo_recordedAt out < rl_claimedAt lease \<or> lo_recordedAt out > rl_expiresAt lease
                then failWith RJ_invalid_record
                else case lo_body out of
                  Outcome_retry_scheduled nextAttemptAt _ \<Rightarrow> Inr nextAttemptAt
                | _ \<Rightarrow> if rows \<noteq> [] then failWith RJ_invalid_record else Inr eligibleAt)
       (\<lambda>nextEligibleAt.
     bindR (mapAttempts nextEligibleAt (position + 1) rows) (\<lambda>attempts.
     Inr (\<lparr>rat_lease = lease, rat_outcome = outcome\<rparr> # attempts)))))"

definition isActiveLifecycleState :: "string \<Rightarrow> bool" where
  "isActiveLifecycleState v \<longleftrightarrow> v = ''dispatch_started'' \<or> v = ''pending'' \<or> v = ''needs_attention''"

definition latestOutcomeBody :: "recovery_attempt list \<Rightarrow> outcome_body option" where
  "latestOutcomeBody attempts =
    (case atLast attempts of None \<Rightarrow> None | Some a \<Rightarrow> map_option lo_body (rat_outcome a))"

definition jobState ::
  "recovery_attempt list \<Rightarrow> int \<Rightarrow> string \<Rightarrow> int \<Rightarrow> job_state job_result" where
  "jobState attempts initialAttemptAt lifecycleState lifecycleRecordedAt =
    (if lifecycleState = ''consumed'' \<or> lifecycleState = ''released''
     then let terminalState = (if lifecycleState = ''consumed'' then ''accepted'' else ''released'')
          in if latestOutcomeBody attempts = Some Outcome_accepted \<and> terminalState \<noteq> ''accepted''
                \<or> latestOutcomeBody attempts = Some Outcome_released \<and> terminalState \<noteq> ''released''
             then failWith RJ_invalid_record
             else
             bindR (catchR Repository_failure (readBigint RJ_invalid_record lifecycleRecordedAt)) (\<lambda>r.
             bindR (other (unixTimestamp r)) (\<lambda>completedAt.
             Inr (Job_completed completedAt terminalState)))
     else if \<not> isActiveLifecycleState lifecycleState then failWith RJ_invalid_record
     else case atLast attempts of
       None \<Rightarrow> Inr (Job_scheduled initialAttemptAt)
     | Some latest \<Rightarrow>
     case rat_outcome latest of
       None \<Rightarrow> Inr (Job_leased (rat_lease latest))
     | Some out \<Rightarrow>
     case lo_body out of
       Outcome_retry_scheduled nextAttemptAt _ \<Rightarrow> Inr (Job_scheduled nextAttemptAt)
     | Outcome_attention_required _ \<Rightarrow> Inr (Job_attention_required out)
     | _ \<Rightarrow> failWith RJ_invalid_record)"

definition mapJob ::
  "job_row \<Rightarrow> effect_row \<Rightarrow> event_row option \<Rightarrow> (lease_row \<times> outcome_row option) list
     \<Rightarrow> recovery_job job_result" where
  "mapJob row effect lifecycle attemptRows =
     orInvalid RJ_invalid_record (
     bindR (other (identifierOf (jb_payment_id row))) (\<lambda>pid.
     bindR (other (identifierOf (jb_effect_id row))) (\<lambda>effectId.
     bindR (catchR Repository_failure (readBigint RJ_invalid_record (ef_started_at effect))) (\<lambda>s.
     bindR (other (unixTimestamp s)) (\<lambda>effectStartedAt.
     bindR (catchR Repository_failure (readBigint RJ_invalid_record (jb_initial_attempt_at row))) (\<lambda>i.
     bindR (other (unixTimestamp i)) (\<lambda>initialAttemptAt.
     if jb_schema_version row \<noteq> CASHU_STELLAR_MELT_RECOVERY_JOB_SCHEMA_VERSION
        \<or> ef_effect_kind effect \<noteq> ''melt''
        \<or> initialAttemptAt \<noteq> min MAX_SAFE_INTEGER
             (effectStartedAt + CASHU_STELLAR_MELT_RECOVERY_INITIAL_DELAY_SECONDS)
     then failWith RJ_invalid_record
     else case lifecycle of
       None \<Rightarrow> failWith RJ_invalid_record
     | Some event \<Rightarrow>
         bindR (mapAttempts initialAttemptAt 0 attemptRows) (\<lambda>attempts.
         bindR (jobState attempts initialAttemptAt (ev_state event) (ev_recorded_at event)) (\<lambda>state.
         Inr \<lparr>rj_attempts = attempts, rj_effectId = effectId, rj_initialAttemptAt = initialAttemptAt,
              rj_paymentId = pid, rj_schemaVersion = CASHU_STELLAR_MELT_RECOVERY_JOB_SCHEMA_VERSION,
              rj_state = state\<rparr>)))))))))"

end
