(* ===== verification/Recovery_Store.thy ===== *)
theory Recovery_Store
  imports Recovery_Job
begin

text \<open>
  The methods of \<^verbatim>\<open>postgres-cashu-stellar-melt-recovery-job-repository.ts\<close> and the trigger
  functions of the recovery tables in \<^verbatim>\<open>postgres-schema.ts\<close>.
\<close>

section \<open>Reading the recovery tables\<close>

definition leasesOf :: "db \<Rightarrow> string \<Rightarrow> lease_row list" where
  "leasesOf db pid = filter (\<lambda>l. ls_payment_id l = pid) (db_leases db)"

definition latestLease :: "db \<Rightarrow> string \<Rightarrow> lease_row option" where
  "latestLease db pid = latestBy ls_attempt_number (leasesOf db pid)"

definition outcomeOfLease :: "db \<Rightarrow> string \<Rightarrow> outcome_row option" where
  "outcomeOfLease db token = findFirst (\<lambda>out. oc_lease_token out = token) (db_outcomes db)"

definition findJobRow :: "db \<Rightarrow> string \<Rightarrow> job_row option" where
  "findJobRow db pid = findFirst (\<lambda>j. jb_payment_id j = pid) (db_jobs db)"

text \<open>The left join of a lease with its outcome, on the token and the payment.\<close>

definition joinedOutcome :: "db \<Rightarrow> lease_row \<Rightarrow> outcome_row option" where
  "joinedOutcome db l =
     findFirst (\<lambda>out. oc_lease_token out = ls_lease_token l \<and> oc_payment_id out = ls_payment_id l)
       (db_outcomes db)"

definition attemptRows :: "db \<Rightarrow> string \<Rightarrow> (lease_row \<times> outcome_row option) list" where
  "attemptRows db pid =
     map (\<lambda>l. (l, joinedOutcome db l)) (sort_key ls_attempt_number (leasesOf db pid))"

definition findJob :: "db \<Rightarrow> string \<Rightarrow> recovery_job option job_result" where
  "findJob db pid =
    (case findJobRow db pid of
       None \<Rightarrow> Inr None
     | Some row \<Rightarrow>
     case findFirst (\<lambda>e. ef_effect_id e = jb_effect_id row \<and> ef_payment_id e = jb_payment_id row)
            (db_effects db) of
       None \<Rightarrow> Inr None
     | Some effect \<Rightarrow>
         bindR (mapJob row effect (latestEvent db (jb_payment_id row)) (attemptRows db pid)) (\<lambda>job.
         Inr (Some job)))"

definition requireJob :: "db \<Rightarrow> string \<Rightarrow> recovery_job job_result" where
  "requireJob db pid =
     bindR (findJob db pid) (\<lambda>found.
     case found of None \<Rightarrow> failWith RJ_invalid_record | Some job \<Rightarrow> Inr job)"

section \<open>Triggers\<close>

text \<open>\<open>cashmesh_validate_stellar_melt_recovery_lease\<close>\<close>

definition validateRecoveryLease :: "db \<Rightarrow> lease_row \<Rightarrow> db_error + unit" where
  "validateRecoveryLease db new =
    (case (findJobRow db (ls_payment_id new), latestState db (ls_payment_id new)) of
       (Some job, Some lifecycleState) \<Rightarrow>
         if lifecycleState = ''consumed'' \<or> lifecycleState = ''released''
         then Inl Not_in_prerequisite_state
         else
         bindR (case latestLease db (ls_payment_id new) of
                  None \<Rightarrow>
                    if ls_attempt_number new \<noteq> 1 then Inl Check_violation
                    else Inr (Some (jb_initial_attempt_at job))
                | Some latest \<Rightarrow>
                    if ls_attempt_number new \<noteq> ls_attempt_number latest + 1 then Inl Check_violation
                    else case outcomeOfLease db (ls_lease_token latest) of
                      None \<Rightarrow> Inr (Some (ls_expires_at latest))
                    | Some out \<Rightarrow>
                        if oc_outcome_kind out = ''retry_scheduled'' then Inr (oc_next_attempt_at out)
                        else Inl Not_in_prerequisite_state)
           (\<lambda>eligibleAt.
         case eligibleAt of
           None \<Rightarrow> Inl Not_in_prerequisite_state
         | Some t \<Rightarrow>
             if ls_claimed_at new < t then Inl Not_in_prerequisite_state else Inr ())
     | _ \<Rightarrow> Inl Not_in_prerequisite_state)"

text \<open>The row checks on the attempt number and the length of the lease.\<close>

definition leaseCheck :: "lease_row \<Rightarrow> bool" where
  "leaseCheck new \<longleftrightarrow> 0 < ls_attempt_number new \<and> ls_attempt_number new \<le> 1024
     \<and> ls_claimed_at new < ls_expires_at new \<and> ls_expires_at new - ls_claimed_at new \<le> 300"

definition insertLease :: "db \<Rightarrow> lease_row \<Rightarrow> db_error + db" where
  "insertLease db new =
     bindR (validateRecoveryLease db new) (\<lambda>_.
     bindR (checkRow (leaseCheck new)) (\<lambda>_.
     bindR (requireUnique ''cashu_stellar_melt_recovery_leases_pkey'' ls_lease_token
              (db_leases db) new) (\<lambda>_.
     bindR (requireUnique ''cashu_stellar_melt_recovery_leases_attempt_unique''
              (\<lambda>l. (ls_payment_id l, ls_attempt_number l)) (db_leases db) new) (\<lambda>_.
     bindR (requireExists (\<lambda>j. jb_payment_id j = ls_payment_id new) (db_jobs db)) (\<lambda>_.
     Inr (db\<lparr>db_leases := db_leases db @ [new]\<rparr>))))))"

text \<open>\<open>cashmesh_validate_stellar_melt_recovery_outcome\<close>; a lease that is not found is null.\<close>

definition validateRecoveryOutcome :: "db \<Rightarrow> outcome_row \<Rightarrow> db_error + unit" where
  "validateRecoveryOutcome db new =
    (case latestLease db (oc_payment_id new) of
       None \<Rightarrow> Inl Not_in_prerequisite_state
     | Some latest \<Rightarrow>
         let lifecycleState = latestState db (oc_payment_id new)
         in if ls_lease_token latest \<noteq> oc_lease_token new
               \<or> oc_recorded_at new < ls_claimed_at latest
               \<or> oc_recorded_at new > ls_expires_at latest
               \<or> oc_outcome_kind new = ''accepted'' \<and> lifecycleState \<noteq> Some ''consumed''
               \<or> oc_outcome_kind new = ''released'' \<and> lifecycleState \<noteq> Some ''released''
               \<or> (oc_outcome_kind new = ''retry_scheduled'' \<or> oc_outcome_kind new = ''attention_required'')
                 \<and> (case lifecycleState of None \<Rightarrow> True | Some s \<Rightarrow> \<not> isActiveLifecycleState s)
            then Inl Not_in_prerequisite_state else Inr ())"

text \<open>\<open>cashu_stellar_melt_recovery_outcomes_next_attempt_at\<close> and \<open>..._shape\<close>\<close>

definition outcomeCheck :: "outcome_row \<Rightarrow> bool" where
  "outcomeCheck new \<longleftrightarrow>
     (case oc_next_attempt_at new of None \<Rightarrow> True | Some t \<Rightarrow> oc_recorded_at new < t)
     \<and> (oc_outcome_kind new \<in> {''accepted'', ''released''} \<and> oc_reason new = None
           \<and> oc_next_attempt_at new = None
        \<or> oc_outcome_kind new = ''retry_scheduled''
           \<and> (case oc_reason new of None \<Rightarrow> False | Some r \<Rightarrow> isRetryReason r)
           \<and> oc_next_attempt_at new \<noteq> None
        \<or> oc_outcome_kind new = ''attention_required''
           \<and> (case oc_reason new of None \<Rightarrow> False | Some r \<Rightarrow> isAttentionReason r)
           \<and> oc_next_attempt_at new = None)"

text \<open>\<open>INSERT ... ON CONFLICT DO NOTHING\<close>: \<open>None\<close> is a conflicting row, nothing inserted.\<close>

definition insertOutcome :: "db \<Rightarrow> outcome_row \<Rightarrow> db_error + db option" where
  "insertOutcome db new =
     bindR (validateRecoveryOutcome db new) (\<lambda>_.
     bindR (checkRow (outcomeCheck new)) (\<lambda>_.
     if list_ex (\<lambda>out. oc_lease_token out = oc_lease_token new) (db_outcomes db) then Inr None
     else
     bindR (requireExists (\<lambda>l. ls_lease_token l = oc_lease_token new
              \<and> ls_payment_id l = oc_payment_id new) (db_leases db)) (\<lambda>_.
     Inr (Some (db\<lparr>db_outcomes := db_outcomes db @ [new]\<rparr>)))))"

section \<open>Claiming\<close>

text \<open>The condition of the candidate and of the eligibility query, at the time \<open>t\<close>.\<close>

definition claimEligible :: "db \<Rightarrow> int \<Rightarrow> job_row \<Rightarrow> bool" where
  "claimEligible db t job \<longleftrightarrow>
     (case latestState db (jb_payment_id job) of None \<Rightarrow> False | Some s \<Rightarrow> isActiveLifecycleState s)
     \<and> (case latestLease db (jb_payment_id job) of
          None \<Rightarrow> jb_initial_attempt_at job \<le> t
        | Some latest \<Rightarrow>
        case outcomeOfLease db (ls_lease_token latest) of
          None \<Rightarrow> ls_expires_at latest \<le> t
        | Some out \<Rightarrow> oc_outcome_kind out = ''retry_scheduled''
            \<and> (case oc_next_attempt_at out of None \<Rightarrow> False | Some n \<Rightarrow> n \<le> t))"

text \<open>The \<open>ORDER BY\<close> expression; the rows it orders have the next attempt it reads.\<close>

definition dueAt :: "db \<Rightarrow> job_row \<Rightarrow> int" where
  "dueAt db job =
    (case latestLease db (jb_payment_id job) of
       None \<Rightarrow> jb_initial_attempt_at job
     | Some latest \<Rightarrow>
     case outcomeOfLease db (ls_lease_token latest) of
       None \<Rightarrow> ls_expires_at latest
     | Some out \<Rightarrow> (case oc_next_attempt_at out of None \<Rightarrow> 0 | Some n \<Rightarrow> n))"

definition claimCandidate :: "string list \<Rightarrow> db \<Rightarrow> int \<Rightarrow> string option" where
  "claimCandidate locked db t =
    (case sort_key (dueAt db) (sort_key jb_payment_id
            (filter (\<lambda>j. claimEligible db t j \<and> jb_payment_id j \<notin> set locked) (db_jobs db))) of
       [] \<Rightarrow> None
     | job # _ \<Rightarrow> Some (jb_payment_id job))"

text \<open>The second query: the number of the next attempt, and whether the job is still eligible.\<close>

definition readEligibility :: "db \<Rightarrow> string \<Rightarrow> int \<Rightarrow> (int \<times> bool) option" where
  "readEligibility db pid t =
     map_option (\<lambda>job. (case latestLease db pid of None \<Rightarrow> 1 | Some l \<Rightarrow> ls_attempt_number l + 1,
                        claimEligible db t job))
       (findJobRow db pid)"

definition leaseRowOf :: "claim_input \<Rightarrow> string \<Rightarrow> int \<Rightarrow> lease_row" where
  "leaseRowOf claim pid attemptNumber =
     \<lparr>ls_lease_token = cl_leaseToken claim, ls_payment_id = pid,
      ls_attempt_number = attemptNumber, ls_worker_id = cl_workerId claim, ls_schema_version = 1,
      ls_claimed_at = cl_claimedAt claim, ls_expires_at = cl_expiresAt claim\<rparr>"

definition claimNextIn ::
  "string list \<Rightarrow> claim_input \<Rightarrow> db \<Rightarrow> (db \<times> recovery_lease option) job_result" where
  "claimNextIn locked claim db =
    (case claimCandidate locked db (cl_claimedAt claim) of
       None \<Rightarrow> Inr (db, None)
     | Some pid \<Rightarrow>
     case readEligibility db pid (cl_claimedAt claim) of
       None \<Rightarrow> Inr (db, None)
     | Some (attemptNumber, isEligible) \<Rightarrow>
         if \<not> isEligible \<or> \<not> isSafeInteger attemptNumber \<or> attemptNumber < 1 then Inr (db, None)
         else
         bindR (liftDb (insertLease db (leaseRowOf claim pid attemptNumber))) (\<lambda>after.
         bindR (mapLease (leaseRowOf claim pid attemptNumber)) (\<lambda>lease.
         Inr (after, Some lease))))"

definition mapJobStorageError :: "recovery_job_error failure \<Rightarrow> recovery_job_error" where
  "mapJobStorageError f = (case f of
       Repository_failure c \<Rightarrow> c
     | Database_failure Not_in_prerequisite_state \<Rightarrow> RJ_lease_lost
     | Database_failure (Unique_violation _) \<Rightarrow> RJ_lease_conflict
     | Database_failure Check_violation \<Rightarrow> RJ_invalid_record
     | _ \<Rightarrow> RJ_storage_unavailable)"

definition claimNext ::
  "string list \<Rightarrow> claim_input \<Rightarrow> db \<Rightarrow> recovery_job_error + db \<times> recovery_lease option" where
  "claimNext locked input db =
     catchR mapJobStorageError (
     bindR (validateClaim input) (\<lambda>claim. withTransaction (claimNextIn locked claim) db))"

definition findRecoveryJob :: "string \<Rightarrow> db \<Rightarrow> recovery_job_error + recovery_job option" where
  "findRecoveryJob requested db =
     catchR mapJobStorageError (
     bindR (badInput (identifierOf requested)) (\<lambda>pid. findJob db pid))"

section \<open>Recording an outcome\<close>

definition assertStoredOutcome :: "lease_row \<Rightarrow> outcome_row \<Rightarrow> outcome_input \<Rightarrow> unit job_result" where
  "assertStoredOutcome lease row expected =
    (if ls_payment_id lease \<noteq> oi_paymentId expected \<or> oc_payment_id row \<noteq> oi_paymentId expected
        \<or> oc_outcome_kind row \<noteq> oi_kind expected \<or> oc_reason row \<noteq> oi_reason expected
     then failWith RJ_lease_conflict
     else
     bindR (catchR Repository_failure (readBigint RJ_invalid_record (oc_recorded_at row))) (\<lambda>recordedAt.
     if recordedAt \<noteq> oi_recordedAt expected then failWith RJ_lease_conflict
     else
     bindR (case oc_next_attempt_at row of
              None \<Rightarrow> Inr None
            | Some t \<Rightarrow> bindR (catchR Repository_failure (readBigint RJ_invalid_record t)) (\<lambda>n. Inr (Some n)))
       (\<lambda>nextAttemptAt.
     if nextAttemptAt \<noteq> oi_nextAttemptAt expected then failWith RJ_lease_conflict else Inr ())))"

definition outcomeRowOf :: "outcome_input \<Rightarrow> outcome_row" where
  "outcomeRowOf out =
     \<lparr>oc_lease_token = oi_leaseToken out, oc_payment_id = oi_paymentId out,
      oc_outcome_kind = oi_kind out, oc_reason = oi_reason out,
      oc_recorded_at = oi_recordedAt out, oc_next_attempt_at = oi_nextAttemptAt out\<rparr>"

definition findStoredOutcome :: "db \<Rightarrow> string \<Rightarrow> (lease_row \<times> outcome_row option) option" where
  "findStoredOutcome db token =
     map_option (\<lambda>l. (l, joinedOutcome db l))
       (findFirst (\<lambda>l. ls_lease_token l = token) (db_leases db))"

definition recordOutcomeIn ::
  "outcome_input \<Rightarrow> db \<Rightarrow> (db \<times> outcome_result) job_result" where
  "recordOutcomeIn out db =
    (if findJobRow db (oi_paymentId out) = None then failWith RJ_lease_lost
     else if map_option ls_lease_token (latestLease db (oi_paymentId out)) \<noteq> Some (oi_leaseToken out)
     then failWith RJ_lease_lost
     else case findStoredOutcome db (oi_leaseToken out) of
       None \<Rightarrow> failWith RJ_lease_lost
     | Some (lease, Some existing) \<Rightarrow>
         bindR (assertStoredOutcome lease existing out) (\<lambda>_.
         bindR (requireJob db (oi_paymentId out)) (\<lambda>job.
         Inr (db, \<lparr>or_job = job, or_replayed = True\<rparr>)))
     | Some (lease, None) \<Rightarrow>
         if ls_payment_id lease \<noteq> oi_paymentId out then failWith RJ_lease_lost
         else
         bindR (liftDb (insertOutcome db (outcomeRowOf out))) (\<lambda>inserted.
         bindR (case inserted of
                  Some _ \<Rightarrow> Inr ()
                | None \<Rightarrow>
                    case findStoredOutcome db (oi_leaseToken out) of
                      Some (l, Some concurrent) \<Rightarrow> assertStoredOutcome l concurrent out
                    | _ \<Rightarrow> failWith RJ_invalid_record) (\<lambda>_.
         let after = (case inserted of None \<Rightarrow> db | Some d \<Rightarrow> d)
         in bindR (requireJob after (oi_paymentId out)) (\<lambda>job.
            Inr (after, \<lparr>or_job = job, or_replayed = (inserted = None)\<rparr>)))))"

definition recordOutcome ::
  "outcome_input \<Rightarrow> db \<Rightarrow> recovery_job_error + db \<times> outcome_result" where
  "recordOutcome input db =
     catchR mapJobStorageError (
     bindR (validateOutcome input) (\<lambda>out. withTransaction (recordOutcomeIn out) db))"

end
