(* ===== verification/Recovery_Facts.thy ===== *)
theory Recovery_Facts
  imports Recovery_Store Lifecycle_Runs
begin

text \<open>
  The history of a recovery job as a predicate on its stored rows, and the invariant of the
  recovery tables: every operation of the job repository keeps it, and so does every command of
  the lifecycle repository, which shares the database.
\<close>

section \<open>Rows the mappers accept\<close>

definition leaseRowOk :: "lease_row \<Rightarrow> bool" where
  "leaseRowOk l \<longleftrightarrow> ls_schema_version l = 1 \<and> leaseCheck l \<and> identifierPattern (ls_worker_id l)
     \<and> identifierPattern (ls_lease_token l) \<and> identifierPattern (ls_payment_id l)
     \<and> validTimestamp (ls_claimed_at l) \<and> validTimestamp (ls_expires_at l)"

definition leaseOfRow :: "lease_row \<Rightarrow> recovery_lease" where
  "leaseOfRow l = \<lparr>rl_attemptNumber = ls_attempt_number l, rl_claimedAt = ls_claimed_at l,
     rl_expiresAt = ls_expires_at l, rl_leaseToken = ls_lease_token l,
     rl_paymentId = ls_payment_id l, rl_schemaVersion = 1, rl_workerId = ls_worker_id l\<rparr>"

definition outcomeRowOk :: "outcome_row \<Rightarrow> bool" where
  "outcomeRowOk out \<longleftrightarrow> outcomeCheck out \<and> validTimestamp (oc_recorded_at out)
     \<and> (case oc_next_attempt_at out of None \<Rightarrow> True | Some t \<Rightarrow> validTimestamp t)"

definition outcomeOfRow :: "outcome_row \<Rightarrow> lease_outcome" where
  "outcomeOfRow out = \<lparr>lo_recordedAt = oc_recorded_at out,
     lo_body = (if oc_outcome_kind out = ''accepted'' then Outcome_accepted
                else if oc_outcome_kind out = ''released'' then Outcome_released
                else if oc_outcome_kind out = ''retry_scheduled''
                then Outcome_retry_scheduled (the (oc_next_attempt_at out)) (the (oc_reason out))
                else Outcome_attention_required (the (oc_reason out)))\<rparr>"

lemma token_iff [simp]: "cashuStellarMeltRecoveryLeaseToken v = Inr w \<longleftrightarrow> identifierPattern v \<and> w = v"
  by (auto simp: cashuStellarMeltRecoveryLeaseToken_def)

lemma badInput_iff [simp]: "badInput m = Inr x \<longleftrightarrow> m = Inr x"
  by (simp add: badInput_def catchR_eq_Inr)

lemma mapLease_iff: "mapLease l = Inr lease \<longleftrightarrow> leaseRowOk l \<and> lease = leaseOfRow l"
  by (auto simp: mapLease_def result_simps leaseRowOk_def leaseOfRow_def leaseCheck_def
      validTimestamp_def isSafeInteger_def MAX_SAFE_INTEGER_def
      CASHU_STELLAR_MELT_RECOVERY_JOB_SCHEMA_VERSION_def split: if_splits)

lemma mapOutcome_None [simp]: "mapOutcome None = Inr None"
  by (simp add: mapOutcome_def)

lemma mapOutcome_iff:
  "mapOutcome (Some out) = Inr x \<longleftrightarrow> outcomeRowOk out \<and> x = Some (outcomeOfRow out)"
  by (cases "oc_reason out"; cases "oc_next_attempt_at out")
    (auto simp: mapOutcome_def result_simps outcomeRowOk_def outcomeOfRow_def outcomeCheck_def
      validTimestamp_def split: if_splits)

section \<open>Histories\<close>

text \<open>From when on the next lease may be claimed; a final outcome admits none.\<close>

definition nextDue :: "lease_row \<times> outcome_row option \<Rightarrow> int option" where
  "nextDue = (\<lambda>(l, found). case found of
       None \<Rightarrow> Some (ls_expires_at l)
     | Some out \<Rightarrow> if oc_outcome_kind out = ''retry_scheduled'' then oc_next_attempt_at out else None)"

definition attemptOk :: "lease_row \<times> outcome_row option \<Rightarrow> bool" where
  "attemptOk = (\<lambda>(l, found). leaseRowOk l \<and> (case found of
       None \<Rightarrow> True
     | Some out \<Rightarrow> outcomeRowOk out \<and> ls_claimed_at l \<le> oc_recorded_at out
         \<and> oc_recorded_at out \<le> ls_expires_at l))"

fun historyOk :: "int \<Rightarrow> nat \<Rightarrow> (lease_row \<times> outcome_row option) list \<Rightarrow> bool" where
  "historyOk dueFrom n [] = True"
| "historyOk dueFrom n (a # as) =
     (attemptOk a \<and> ls_attempt_number (fst a) = int n + 1 \<and> dueFrom \<le> ls_claimed_at (fst a)
      \<and> (case nextDue a of None \<Rightarrow> as = [] | Some t \<Rightarrow> historyOk t (n + 1) as))"

definition dueAfter :: "int \<Rightarrow> (lease_row \<times> outcome_row option) list \<Rightarrow> int option" where
  "dueAfter start as = (case atLast as of None \<Rightarrow> Some start | Some a \<Rightarrow> nextDue a)"

lemma dueAfter_simps [simp]:
  "dueAfter start [] = Some start" "dueAfter start (as @ [a]) = nextDue a"
  by (simp_all add: dueAfter_def)

lemma historyOk_snoc:
  "historyOk start n (as @ [a]) \<longleftrightarrow>
     historyOk start n as \<and> attemptOk a \<and> ls_attempt_number (fst a) = int (n + length as) + 1
     \<and> (case dueAfter start as of None \<Rightarrow> False | Some t \<Rightarrow> t \<le> ls_claimed_at (fst a))"
proof (induction as arbitrary: start n)
  case Nil
  then show ?case by (auto split: option.splits)
next
  case (Cons b bs)
  show ?case
  proof (cases "nextDue b")
    case None
    then show ?thesis by (cases bs) (auto simp: dueAfter_def atLast_def)
  next
    case (Some t)
    have "dueAfter start (b # bs) = dueAfter t bs"
      using Some by (cases "bs = []") (auto simp: dueAfter_def atLast_def)
    with Some show ?thesis by (auto simp: Cons.IH split: option.splits)
  qed
qed

definition attemptOfRow :: "lease_row \<times> outcome_row option \<Rightarrow> recovery_attempt" where
  "attemptOfRow = (\<lambda>(l, found). \<lparr>rat_lease = leaseOfRow l, rat_outcome = map_option outcomeOfRow found\<rparr>)"

lemma leaseOfRow_sel [simp]:
  "rl_attemptNumber (leaseOfRow l) = ls_attempt_number l" "rl_claimedAt (leaseOfRow l) = ls_claimed_at l"
  "rl_expiresAt (leaseOfRow l) = ls_expires_at l" "rl_leaseToken (leaseOfRow l) = ls_lease_token l"
  "rl_paymentId (leaseOfRow l) = ls_payment_id l"
  by (simp_all add: leaseOfRow_def)

text \<open>The loop of the code accepts exactly the histories of the specification.\<close>

lemma mapAttempts_iff:
  "mapAttempts start n rows = Inr as \<longleftrightarrow> historyOk start n rows \<and> as = map attemptOfRow rows"
proof (induction rows arbitrary: start n as)
  case Nil
  then show ?case by auto
next
  case (Cons a rows)
  obtain l found where a: "a = (l, found)" by (cases a)
  show ?case
  proof (cases found)
    case None
    then show ?thesis
      unfolding a by (auto simp: result_simps Cons.IH mapLease_iff attemptOk_def nextDue_def attemptOfRow_def)
  next
    case (Some out)
    show ?thesis
    proof (cases "outcomeRowOk out")
      case True
      then consider "oc_outcome_kind out = ''accepted''" | "oc_outcome_kind out = ''released''"
        | t where "oc_outcome_kind out = ''retry_scheduled''" "oc_next_attempt_at out = Some t"
        | "oc_outcome_kind out = ''attention_required''"
        by (auto simp: outcomeRowOk_def outcomeCheck_def)
      then show ?thesis
        unfolding a Some using True
        by cases (auto simp: result_simps Cons.IH mapLease_iff mapOutcome_iff attemptOk_def nextDue_def
            attemptOfRow_def outcomeOfRow_def)
    next
      case False
      then show ?thesis
        unfolding a Some by (auto simp: result_simps mapLease_iff mapOutcome_iff attemptOk_def)
    qed
  qed
qed

section \<open>The recovery tables\<close>

definition recoveryInv :: "db \<Rightarrow> bool" where
  "recoveryInv db \<longleftrightarrow>
     distinct (map ls_lease_token (db_leases db)) \<and> distinct (map oc_lease_token (db_outcomes db))
     \<and> distinct (map jb_payment_id (db_jobs db))
     \<and> (\<forall>out \<in> set (db_outcomes db). \<exists>l \<in> set (db_leases db).
          ls_lease_token l = oc_lease_token out \<and> ls_payment_id l = oc_payment_id out)
     \<and> (\<forall>l \<in> set (db_leases db). \<exists>j \<in> set (db_jobs db). jb_payment_id j = ls_payment_id l)
     \<and> (\<forall>j \<in> set (db_jobs db). identifierPattern (jb_payment_id j)
          \<and> historyOk (jb_initial_attempt_at j) 0 (attemptRows db (jb_payment_id j)))"

lemma attemptRows_last:
  "atLast (attemptRows db pid) = map_option (\<lambda>l. (l, joinedOutcome db l)) (latestLease db pid)"
  by (auto simp: attemptRows_def latestLease_def latestBy_def atLast_def last_map)

lemma attemptRows_split:
  assumes "latestLease db pid = Some l"
  obtains before where "attemptRows db pid = before @ [(l, joinedOutcome db l)]"
  using attemptRows_last [of db pid] assms by (auto simp: atLast_Some_append)

lemma latestLease_None: "latestLease db pid = None \<longleftrightarrow> attemptRows db pid = []"
  by (simp add: latestLease_def attemptRows_def)

lemma latestLease_Some:
  "latestLease db pid = Some l \<Longrightarrow> l \<in> set (db_leases db) \<and> ls_payment_id l = pid
     \<and> (\<forall>k \<in> set (leasesOf db pid). ls_attempt_number k \<le> ls_attempt_number l)"
  unfolding latestLease_def by (drule latestBy_Some) (auto simp: leasesOf_def)

lemma attemptRows_set:
  "set (attemptRows db pid) = (\<lambda>l. (l, joinedOutcome db l)) ` set (leasesOf db pid)"
  by (simp add: attemptRows_def)

lemma distinct_map_eq: "distinct (map f xs) \<Longrightarrow> x \<in> set xs \<Longrightarrow> y \<in> set xs \<Longrightarrow> f x = f y \<Longrightarrow> x = y"
  by (auto simp: distinct_map dest: inj_onD)

lemma findFirst_cong:
  "(\<And>x. x \<in> set xs \<Longrightarrow> p x = q x) \<Longrightarrow> findFirst p xs = findFirst q xs"
  by (induction xs) auto

text \<open>The trigger joins the outcome on the token alone, the query on token and payment.\<close>

lemma outcomeOfLease_joined:
  assumes "recoveryInv db" and "l \<in> set (db_leases db)"
  shows "outcomeOfLease db (ls_lease_token l) = joinedOutcome db l"
proof -
  have "oc_payment_id out = ls_payment_id l"
    if "out \<in> set (db_outcomes db)" "oc_lease_token out = ls_lease_token l" for out
  proof -
    from assms(1) that(1) obtain k where k: "k \<in> set (db_leases db)"
      "ls_lease_token k = oc_lease_token out" "ls_payment_id k = oc_payment_id out"
      by (auto simp: recoveryInv_def)
    with that assms have "k = l"
      by (intro distinct_map_eq [of ls_lease_token "db_leases db"]) (auto simp: recoveryInv_def)
    with k show ?thesis by simp
  qed
  then show ?thesis
    unfolding outcomeOfLease_def joinedOutcome_def by (intro findFirst_cong) auto
qed

lemma job_history:
  assumes "recoveryInv db" and "findJobRow db pid = Some j"
  shows "j \<in> set (db_jobs db) \<and> jb_payment_id j = pid \<and> identifierPattern pid
    \<and> historyOk (jb_initial_attempt_at j) 0 (attemptRows db pid)"
  using assms findFirst_Some [of "\<lambda>j. jb_payment_id j = pid" "db_jobs db" j]
  by (auto simp: recoveryInv_def findJobRow_def)

text \<open>The latest lease of a job carries the number of attempts.\<close>

lemma latest_number:
  assumes "recoveryInv db" and "findJobRow db pid = Some j"
  shows "(case latestLease db pid of None \<Rightarrow> 0 | Some l \<Rightarrow> ls_attempt_number l) = int (length (attemptRows db pid))"
proof (cases "latestLease db pid")
  case None
  then show ?thesis using latestLease_None [of db pid] by simp
next
  case (Some l)
  then obtain before where "attemptRows db pid = before @ [(l, joinedOutcome db l)]"
    by (rule attemptRows_split)
  with Some job_history [OF assms] show ?thesis by (simp add: historyOk_snoc)
qed

lemma attempt_bound:
  assumes "historyOk start n rows" and "a \<in> set rows"
  shows "ls_attempt_number (fst a) \<le> int (n + length rows)"
  using assms
proof (induction rows arbitrary: start n)
  case (Cons b rows)
  then show ?case by (fastforce split: option.splits)
qed simp

section \<open>A new lease\<close>

lemma attemptRows_lease:
  assumes "\<forall>k \<in> set (leasesOf db pid). ls_attempt_number k \<le> ls_attempt_number new"
    and "\<forall>out \<in> set (db_outcomes db). oc_lease_token out \<noteq> ls_lease_token new"
  shows "attemptRows (db\<lparr>db_leases := db_leases db @ [new]\<rparr>) pid =
    attemptRows db pid @ (if ls_payment_id new = pid then [(new, None)] else [])"
proof -
  have "joinedOutcome (db\<lparr>db_leases := db_leases db @ [new]\<rparr>) l = joinedOutcome db l" for l
    by (simp add: joinedOutcome_def)
  moreover have "joinedOutcome db new = None"
    using assms(2) by (auto simp: joinedOutcome_def findFirst_None)
  ultimately show ?thesis
    using assms(1) by (auto simp: attemptRows_def leasesOf_def sort_key_snoc)
qed

text \<open>What the trigger and the constraints let through.\<close>

lemma insertLease_Inr:
  "insertLease db new = Inr db' \<longleftrightarrow>
     validateRecoveryLease db new = Inr () \<and> leaseCheck new
     \<and> (\<forall>l \<in> set (db_leases db). ls_lease_token l \<noteq> ls_lease_token new)
     \<and> (\<forall>l \<in> set (db_leases db). (ls_payment_id l, ls_attempt_number l)
          \<noteq> (ls_payment_id new, ls_attempt_number new))
     \<and> (\<exists>j \<in> set (db_jobs db). jb_payment_id j = ls_payment_id new)
     \<and> db' = db\<lparr>db_leases := db_leases db @ [new]\<rparr>"
  by (auto simp: insertLease_def result_simps)

lemma validateRecoveryLease_iff:
  assumes "recoveryInv db"
  shows "validateRecoveryLease db new = Inr () \<longleftrightarrow>
    (\<exists>j s t. findJobRow db (ls_payment_id new) = Some j \<and> latestState db (ls_payment_id new) = Some s
       \<and> s \<noteq> ''consumed'' \<and> s \<noteq> ''released''
       \<and> ls_attempt_number new = int (length (attemptRows db (ls_payment_id new))) + 1
       \<and> dueAfter (jb_initial_attempt_at j) (attemptRows db (ls_payment_id new)) = Some t
       \<and> t \<le> ls_claimed_at new)"
proof (cases "latestLease db (ls_payment_id new)")
  case None
  then have "attemptRows db (ls_payment_id new) = []" by (simp add: latestLease_None)
  with None show ?thesis
    by (auto simp: validateRecoveryLease_def split: option.splits if_splits)
next
  case (Some l)
  then obtain before where rows: "attemptRows db (ls_payment_id new) = before @ [(l, joinedOutcome db l)]"
    by (rule attemptRows_split)
  have joined: "outcomeOfLease db (ls_lease_token l) = joinedOutcome db l"
    using assms latestLease_Some [OF Some] by (simp add: outcomeOfLease_joined)
  show ?thesis
  proof (cases "findJobRow db (ls_payment_id new)")
    case None
    then show ?thesis by (simp add: validateRecoveryLease_def)
  next
    case (Some j)
    from latest_number [OF assms Some] \<open>latestLease db (ls_payment_id new) = Some l\<close>
    have "ls_attempt_number l = int (length (attemptRows db (ls_payment_id new)))" by simp
    with Some rows joined \<open>latestLease db (ls_payment_id new) = Some l\<close> show ?thesis
      by (cases "joinedOutcome db l")
        (auto simp: validateRecoveryLease_def nextDue_def split: option.splits if_splits)
  qed
qed

lemma insertLease_inv:
  assumes "recoveryInv db" and "insertLease db new = Inr db'" and "leaseRowOk new"
  shows "recoveryInv db'"
    and "attemptRows db' pid = attemptRows db pid @ (if ls_payment_id new = pid then [(new, None)] else [])"
proof -
  note new = assms(2) [unfolded insertLease_Inr validateRecoveryLease_iff [OF assms(1)]]
  then have db': "db' = db\<lparr>db_leases := db_leases db @ [new]\<rparr>" by simp
  have free: "\<forall>out \<in> set (db_outcomes db). oc_lease_token out \<noteq> ls_lease_token new"
    using assms(1) new by (fastforce simp: recoveryInv_def)
  have last: "\<forall>k \<in> set (leasesOf db (ls_payment_id new)). ls_attempt_number k \<le> ls_attempt_number new"
  proof
    fix k
    assume k: "k \<in> set (leasesOf db (ls_payment_id new))"
    obtain j where j: "findJobRow db (ls_payment_id new) = Some j" using new by blast
    have "(k, joinedOutcome db k) \<in> set (attemptRows db (ls_payment_id new))"
      using k by (auto simp: attemptRows_set)
    with attempt_bound [of _ 0 _ "(k, joinedOutcome db k)"] job_history [OF assms(1) j] new
    show "ls_attempt_number k \<le> ls_attempt_number new" by fastforce
  qed
  have rows: "attemptRows db' q = attemptRows db q @ (if ls_payment_id new = q then [(new, None)] else [])" for q
  proof (cases "ls_payment_id new = q")
    case True
    then show ?thesis using attemptRows_lease [of db q new] last free by (simp add: db')
  next
    case False
    then show ?thesis by (simp add: db' attemptRows_def leasesOf_def joinedOutcome_def)
  qed
  show "attemptRows db' pid = attemptRows db pid @ (if ls_payment_id new = pid then [(new, None)] else [])"
    by (rule rows)
  have "historyOk (jb_initial_attempt_at i) 0 (attemptRows db' (jb_payment_id i))"
    if "i \<in> set (db_jobs db)" for i
  proof (cases "jb_payment_id i = ls_payment_id new")
    case True
    obtain j t where j: "findJobRow db (ls_payment_id new) = Some j"
      "dueAfter (jb_initial_attempt_at j) (attemptRows db (ls_payment_id new)) = Some t"
      "t \<le> ls_claimed_at new"
      using new by blast
    with job_history [OF assms(1) j(1)] that True assms(1) have "i = j"
      by (intro distinct_map_eq [of jb_payment_id "db_jobs db"]) (auto simp: recoveryInv_def)
    moreover have "ls_attempt_number new = int (length (attemptRows db (ls_payment_id new))) + 1"
      using new by blast
    ultimately show ?thesis
      using job_history [OF assms(1) j(1)] j assms(3) True
      by (simp add: rows historyOk_snoc attemptOk_def)
  next
    case False
    with that assms(1) show ?thesis by (auto simp: rows recoveryInv_def)
  qed
  moreover have "\<exists>j \<in> set (db_jobs db). jb_payment_id j = ls_payment_id new"
    "\<forall>l \<in> set (db_leases db). ls_lease_token l \<noteq> ls_lease_token new"
    using new by blast+
  ultimately show "recoveryInv db'"
    using assms(1) unfolding recoveryInv_def db' by auto
qed

section \<open>A new outcome\<close>

lemma insertOutcome_Inr:
  "insertOutcome db new = Inr found \<longleftrightarrow>
     validateRecoveryOutcome db new = Inr () \<and> outcomeCheck new
     \<and> (if \<exists>out \<in> set (db_outcomes db). oc_lease_token out = oc_lease_token new then found = None
        else (\<exists>l \<in> set (db_leases db). ls_lease_token l = oc_lease_token new
                \<and> ls_payment_id l = oc_payment_id new)
           \<and> found = Some (db\<lparr>db_outcomes := db_outcomes db @ [new]\<rparr>))"
  by (auto simp: insertOutcome_def result_simps list_ex_iff)

text \<open>The outcome's kind agrees with the state of the payment.\<close>

definition outcomeAgrees :: "string \<Rightarrow> string option \<Rightarrow> bool" where
  "outcomeAgrees kind state \<longleftrightarrow>
     (kind = ''accepted'' \<longrightarrow> state = Some ''consumed'')
     \<and> (kind = ''released'' \<longrightarrow> state = Some ''released'')
     \<and> (kind = ''retry_scheduled'' \<or> kind = ''attention_required''
          \<longrightarrow> (\<exists>s. state = Some s \<and> isActiveLifecycleState s))"

lemma validateRecoveryOutcome_iff:
  "validateRecoveryOutcome db new = Inr () \<longleftrightarrow>
     (\<exists>l. latestLease db (oc_payment_id new) = Some l \<and> ls_lease_token l = oc_lease_token new
        \<and> ls_claimed_at l \<le> oc_recorded_at new \<and> oc_recorded_at new \<le> ls_expires_at l
        \<and> outcomeAgrees (oc_outcome_kind new) (latestState db (oc_payment_id new)))"
  by (cases "latestLease db (oc_payment_id new)"; cases "latestState db (oc_payment_id new)")
    (auto simp: validateRecoveryOutcome_def outcomeAgrees_def Let_def)

lemma joinedOutcome_snoc:
  "joinedOutcome (db\<lparr>db_outcomes := db_outcomes db @ [new]\<rparr>) k =
    (case joinedOutcome db k of
       None \<Rightarrow> if oc_lease_token new = ls_lease_token k \<and> oc_payment_id new = ls_payment_id k
               then Some new else None
     | Some out \<Rightarrow> Some out)"
  by (cases "joinedOutcome db k")
    (simp_all add: joinedOutcome_def findFirst_append_None findFirst_append_Some)

lemma leases_distinct:
  assumes "recoveryInv db"
  shows "distinct (map ls_lease_token (sort_key ls_attempt_number (leasesOf db pid)))"
proof -
  have "distinct (map ls_lease_token (leasesOf db pid))"
    using assms by (simp add: recoveryInv_def leasesOf_def distinct_map_filter)
  then show ?thesis by (simp add: distinct_map)
qed

lemma attemptRows_outcome:
  assumes "recoveryInv db" and "latestLease db (oc_payment_id new) = Some l"
    and "ls_lease_token l = oc_lease_token new"
    and "\<forall>out \<in> set (db_outcomes db). oc_lease_token out \<noteq> oc_lease_token new"
  obtains before where "attemptRows db (oc_payment_id new) = before @ [(l, None)]"
    "attemptRows (db\<lparr>db_outcomes := db_outcomes db @ [new]\<rparr>) (oc_payment_id new) = before @ [(l, Some new)]"
proof -
  let ?db' = "db\<lparr>db_outcomes := db_outcomes db @ [new]\<rparr>"
  obtain ys where ys: "sort_key ls_attempt_number (leasesOf db (oc_payment_id new)) = ys @ [l]"
    using assms(2) by (auto simp: latestLease_def latestBy_def atLast_Some_append)
  have l: "ls_payment_id l = oc_payment_id new" using latestLease_Some [OF assms(2)] by simp
  have other: "ls_lease_token k \<noteq> oc_lease_token new" if "k \<in> set ys" for k
    using leases_distinct [OF assms(1), of "oc_payment_id new"] imageI [OF that, of ls_lease_token]
      assms(3)
    by (auto simp: ys simp del: image_eqI)
  have same: "joinedOutcome ?db' k = joinedOutcome db k" if "k \<in> set ys" for k
    using other [OF that]
    by (auto simp: joinedOutcome_snoc split: option.splits)
  have none: "joinedOutcome db l = None"
    using assms(3,4) by (auto simp: joinedOutcome_def findFirst_None)
  have sorted': "sort_key ls_attempt_number (leasesOf ?db' (oc_payment_id new)) = ys @ [l]"
    using ys by (simp add: leasesOf_def)
  show ?thesis
  proof (rule that)
    show "attemptRows db (oc_payment_id new) = map (\<lambda>k. (k, joinedOutcome db k)) ys @ [(l, None)]"
      by (simp add: attemptRows_def ys none)
    show "attemptRows ?db' (oc_payment_id new) = map (\<lambda>k. (k, joinedOutcome db k)) ys @ [(l, Some new)]"
      using same by (simp add: attemptRows_def sorted' joinedOutcome_snoc none l assms(3))
  qed
qed

lemma attemptRows_other:
  assumes "recoveryInv db" and "l \<in> set (db_leases db)" and "ls_lease_token l = oc_lease_token new"
    and "ls_payment_id l = oc_payment_id new" and "pid \<noteq> oc_payment_id new"
  shows "attemptRows (db\<lparr>db_outcomes := db_outcomes db @ [new]\<rparr>) pid = attemptRows db pid"
proof -
  let ?db' = "db\<lparr>db_outcomes := db_outcomes db @ [new]\<rparr>"
  have same: "joinedOutcome ?db' k = joinedOutcome db k" if "ls_payment_id k = pid" for k
    using that assms(5) by (auto simp: joinedOutcome_snoc split: option.splits)
  have "leasesOf ?db' pid = leasesOf db pid" by (simp add: leasesOf_def)
  moreover have "ls_payment_id k = pid" if "k \<in> set (leasesOf db pid)" for k
    using that by (simp add: leasesOf_def)
  ultimately show ?thesis using same by (simp add: attemptRows_def)
qed

lemma insertOutcome_inv:
  assumes "recoveryInv db" and "insertOutcome db new = Inr (Some db')" and "outcomeRowOk new"
  shows "recoveryInv db'"
proof -
  from assms(2) have new: "outcomeCheck new"
    "\<forall>out \<in> set (db_outcomes db). oc_lease_token out \<noteq> oc_lease_token new"
    "db' = db\<lparr>db_outcomes := db_outcomes db @ [new]\<rparr>"
    and valid: "validateRecoveryOutcome db new = Inr ()"
    by (auto simp: insertOutcome_Inr split: if_splits)
  obtain l where l: "latestLease db (oc_payment_id new) = Some l" "ls_lease_token l = oc_lease_token new"
    "ls_claimed_at l \<le> oc_recorded_at new" "oc_recorded_at new \<le> ls_expires_at l"
    using valid by (auto simp: validateRecoveryOutcome_iff)
  note lease = latestLease_Some [OF l(1)]
  obtain before where rows: "attemptRows db (oc_payment_id new) = before @ [(l, None)]"
    "attemptRows db' (oc_payment_id new) = before @ [(l, Some new)]"
    using attemptRows_outcome [OF assms(1) l(1,2) new(2)] new(3) by metis
  have "historyOk (jb_initial_attempt_at j) 0 (attemptRows db' (jb_payment_id j))"
    if "j \<in> set (db_jobs db)" for j
  proof (cases "jb_payment_id j = oc_payment_id new")
    case True
    with that assms(1) rows(1) have "historyOk (jb_initial_attempt_at j) 0 (before @ [(l, None)])"
      by (auto simp: recoveryInv_def)
    with assms(3) l have "historyOk (jb_initial_attempt_at j) 0 (before @ [(l, Some new)])"
      by (auto simp: historyOk_snoc attemptOk_def split: option.splits)
    with True rows show ?thesis by simp
  next
    case False
    with that assms(1) attemptRows_other [OF assms(1), of l new "jb_payment_id j"] lease l(2) new(3)
    show ?thesis by (auto simp: recoveryInv_def)
  qed
  with assms(1) new lease l(2) show ?thesis unfolding recoveryInv_def by auto
qed

section \<open>The operations\<close>

lemma validateClaim_iff:
  "validateClaim input = Inr c \<longleftrightarrow> c = input \<and> identifierPattern (cl_workerId input)
     \<and> identifierPattern (cl_leaseToken input) \<and> validTimestamp (cl_claimedAt input)
     \<and> validTimestamp (cl_expiresAt input) \<and> cl_claimedAt input < cl_expiresAt input
     \<and> cl_expiresAt input - cl_claimedAt input \<le> 300"
  by (cases input) (auto simp: validateClaim_def result_simps)

lemma claimNext_Inr:
  "claimNext locked input db = Inr (db', found) \<longleftrightarrow>
     validateClaim input = Inr input \<and>
     (\<exists>after. claimNextIn locked input db = Inr (after, found)
        \<and> (\<forall>c \<in> set (db_deferred after). deferredHolds after c) \<and> db' = after\<lparr>db_deferred := []\<rparr>)"
  by (auto simp: claimNext_def result_simps withTransaction_iff validateClaim_iff)

lemma claimNextIn_Some:
  assumes "claimNextIn locked claim db = Inr (after, Some lease)"
  obtains pid n where "claimCandidate locked db (cl_claimedAt claim) = Some pid"
    "insertLease db (leaseRowOf claim pid n) = Inr after" "leaseRowOk (leaseRowOf claim pid n)"
    "lease = leaseOfRow (leaseRowOf claim pid n)"
  using assms
  by (auto simp: claimNextIn_def result_simps mapLease_iff split: option.splits prod.splits if_splits)

lemma claimNextIn_None:
  "claimNextIn locked claim db = Inr (after, None) \<Longrightarrow> after = db"
  by (auto simp: claimNextIn_def result_simps split: option.splits prod.splits if_splits)

lemma validateOutcome_row:
  assumes "validateOutcome input = Inr out"
  shows "outcomeRowOk (outcomeRowOf out) \<and> identifierPattern (oi_leaseToken out)
    \<and> identifierPattern (oi_paymentId out)"
  using assms
  by (auto simp: validateOutcome_def result_simps Let_def outcomeRowOk_def outcomeCheck_def
      outcomeRowOf_def isRetryReason_def isAttentionReason_def split: if_splits option.splits)

lemma recordOutcome_Inr:
  "recordOutcome input db = Inr (db', r) \<longleftrightarrow>
     (\<exists>out after. validateOutcome input = Inr out \<and> recordOutcomeIn out db = Inr (after, r)
        \<and> (\<forall>c \<in> set (db_deferred after). deferredHolds after c) \<and> db' = after\<lparr>db_deferred := []\<rparr>)"
  by (auto simp: recordOutcome_def result_simps withTransaction_iff)

lemma stored_none_inserts:
  assumes "recoveryInv db" and "insertOutcome db (outcomeRowOf out) = Inr None"
    and "findStoredOutcome db (oi_leaseToken out) = Some (lease, None)"
    and "ls_payment_id lease = oi_paymentId out"
  shows False
proof -
  have lease: "lease \<in> set (db_leases db)" "ls_lease_token lease = oi_leaseToken out"
    "joinedOutcome db lease = None"
    using assms(3) by (auto simp: findStoredOutcome_def dest: findFirst_Some)
  from assms(2) obtain o' where "o' \<in> set (db_outcomes db)" "oc_lease_token o' = oi_leaseToken out"
    by (auto simp: insertOutcome_Inr outcomeRowOf_def split: if_splits)
  then have "outcomeOfLease db (ls_lease_token lease) \<noteq> None"
    using lease(2) by (auto simp: outcomeOfLease_def findFirst_None)
  with outcomeOfLease_joined [OF assms(1) lease(1)] lease(3) show False by simp
qed

text \<open>A first record inserts the outcome; a repeated one changes nothing.\<close>

lemma recordOutcomeIn_cases:
  assumes "recordOutcomeIn out db = Inr (after, r)" and "recoveryInv db"
  shows "if or_replayed r then after = db
    else insertOutcome db (outcomeRowOf out) = Inr (Some after) \<and> requireJob after (oi_paymentId out) = Inr (or_job r)"
  using assms(1) stored_none_inserts [OF assms(2)]
  by (auto simp: recordOutcomeIn_def result_simps Let_def split: if_splits option.splits prod.splits)

section \<open>Lifecycle commands\<close>

definition recoveryTables :: "db \<Rightarrow> job_row list \<times> lease_row list \<times> outcome_row list" where
  "recoveryTables db = (db_jobs db, db_leases db, db_outcomes db)"

lemma recoveryTables_primitives [simp]:
  "recoveryTables (queue checks db) = recoveryTables db"
  "recoveryTables (releaseActiveClaims pid db) = recoveryTables db"
  "recoveryTables (destroyTerminalCustody e db) = recoveryTables db"
  "recoveryTables (db\<lparr>db_deferred := q\<rparr>) = recoveryTables db"
  by (simp_all add: recoveryTables_def queue_def releaseActiveClaims_def deleteProofClaims_def
      deleteInvoiceClaims_def destroyTerminalCustody_def)

lemma recoveryTables_event: "insertEvent env db draft n = Inr db' \<Longrightarrow> recoveryTables db' = recoveryTables db"
  by (auto simp: insertEvent_def insertEventRow_def result_simps Let_def)
    (simp add: recoveryTables_def)

lemma recoveryTables_reloaded:
  "reloaded env scope db = Inr (db', c) \<Longrightarrow> recoveryTables db' = recoveryTables db"
  by (auto simp: reloaded_def result_simps)

lemma recoveryTables_transition:
  "persistTransitionInTransaction env scope draft db = Inr (db', c) \<Longrightarrow> recoveryTables db' = recoveryTables db"
  by (auto simp: persistTransitionInTransaction_def result_simps
      dest!: recoveryTables_event recoveryTables_reloaded split: option.splits if_splits)

lemma recoveryTables_postings: "insertPostings db rows = Inr db' \<Longrightarrow> recoveryTables db' = recoveryTables db"
proof (induction rows arbitrary: db)
  case (Cons row rows)
  then obtain mid where "insertPosting db row = Inr mid" "recoveryTables db' = recoveryTables mid"
    by (auto simp: result_simps)
  moreover from this(1) have "recoveryTables mid = recoveryTables db"
    by (auto simp: insertPosting_def result_simps) (simp add: recoveryTables_def)
  ultimately show ?case by simp
qed simp

lemma recoveryTables_accepted:
  assumes "persistAcceptedPayment env scope input db = Inr (db', a)"
  shows "recoveryTables db' = recoveryTables db"
proof -
  obtain row journal postings where
    "insertJournal db row = Inr journal" "\<exists>rows. insertPostings journal rows = Inr postings"
    "\<exists>t n. updateInvoicePaid postings (sc_invoiceId scope) t = Inr (db', n)"
    using assms by (auto simp: persistAcceptedPayment_def result_simps split: option.splits if_splits) blast
  moreover have "recoveryTables journal = recoveryTables db" if "insertJournal db row = Inr journal"
    using that by (auto simp: insertJournal_def result_simps) (simp add: recoveryTables_def)
  moreover have "recoveryTables db' = recoveryTables postings"
    if "updateInvoicePaid postings (sc_invoiceId scope) t = Inr (db', n)" for t n
    using that by (auto simp: updateInvoicePaid_def result_simps Let_def) (simp add: recoveryTables_def)
  ultimately show ?thesis using recoveryTables_postings by metis
qed

text \<open>What the lifecycle repository may do to the recovery tables: add the job of a new effect.\<close>

definition jobsGrow :: "db \<Rightarrow> db \<Rightarrow> bool" where
  "jobsGrow db db' \<longleftrightarrow> db_leases db' = db_leases db \<and> db_outcomes db' = db_outcomes db
     \<and> (db_jobs db' = db_jobs db \<or> (\<exists>j. db_jobs db' = db_jobs db @ [j]
          \<and> identifierPattern (jb_payment_id j) \<and> (\<forall>i \<in> set (db_jobs db). jb_payment_id i \<noteq> jb_payment_id j)))"

lemma jobsGrow_same: "recoveryTables db' = recoveryTables db \<Longrightarrow> jobsGrow db db'"
  by (simp add: recoveryTables_def jobsGrow_def)

lemma jobsGrow_effect:
  assumes "insertEffect db new = Inr db'" and "identifierPattern (ef_payment_id new)"
  shows "jobsGrow db db'"
proof -
  obtain claim claimed scheduled where
    "insertInvoiceClaim (db\<lparr>db_effects := db_effects db @ [new]\<rparr>) claim = Inr claimed"
    "scheduleMeltRecovery claimed new = Inr scheduled" "recoveryTables db' = recoveryTables scheduled"
    using assms(1) by (auto simp: insertEffect_def result_simps)
  moreover from this(1) have "recoveryTables claimed = recoveryTables db"
    by (auto simp: insertInvoiceClaim_def result_simps) (simp add: recoveryTables_def)
  ultimately have "recoveryTables claimed = recoveryTables db" "scheduleMeltRecovery claimed new = Inr scheduled"
    "recoveryTables db' = recoveryTables scheduled" by simp_all
  with assms(2) show ?thesis
    by (auto simp: scheduleMeltRecovery_def insertRecoveryJob_def result_simps jobsGrow_def
        recoveryTables_def split: if_splits)
qed

lemma scope_identifier:
  assumes "requireReservation env db pid lock = Inr scope"
  shows "identifierPattern (sc_paymentId scope)"
proof -
  from assms have "loadReservation env db pid = Inr (Some scope)"
    by (simp add: requireReservation_Inr)
  then show ?thesis
    by (auto simp: loadReservation_def scopeOfRow_def result_simps split: option.splits if_splits)
qed

lemma jobsGrow_startEffect:
  assumes "startEffectIn env v db = Inr (db', c)"
  shows "jobsGrow db db'"
proof (cases "recoveryTables db' = recoveryTables db")
  case False
  then obtain scope withEffect inserted where
    "requireReservation env db (vs_paymentId v) True = Inr scope"
    "insertEffect db (effectRowOf env scope (effectOfInput v)) = Inr withEffect"
    "insertEvent env withEffect (dispatchDraft v scope) 0 = Inr inserted"
    "reloaded env scope inserted = Inr (db', c)"
    using assms by (auto simp: startEffectIn_def result_simps Let_def split: option.splits if_splits)
  note step = this
  have "ef_payment_id (effectRowOf env scope (effectOfInput v)) = sc_paymentId scope"
    by (simp add: effectRowOf_def)
  with jobsGrow_effect [OF step(2)] scope_identifier [OF step(1)] have "jobsGrow db withEffect" by simp
  moreover have "recoveryTables db' = recoveryTables withEffect"
    using recoveryTables_event [OF step(3)] recoveryTables_reloaded [OF step(4)] by simp
  ultimately show ?thesis by (simp add: jobsGrow_def recoveryTables_def)
qed (rule jobsGrow_same)


lemma command_jobs:
  assumes "runCommand env command db = Inr (db', change)"
  shows "jobsGrow db db'"
proof -
  have transition: "recoveryTables db' = recoveryTables db"
    if "persistTransition env draft db = Inr (db', c)" for draft c
    using that recoveryTables_transition by (auto simp: persistTransition_iff)
  show ?thesis
  proof (cases command)
    case (Start_effect input)
    then obtain v after where "startEffectIn env v db = Inr (after, change)" "db' = after\<lparr>db_deferred := []\<rparr>"
      using assms by (auto simp: runCommand_def startEffect_iff)
    then show ?thesis using jobsGrow_startEffect by (fastforce simp: jobsGrow_def)
  next
    case (Record_pending input)
    then show ?thesis
      using assms transition by (auto simp: runCommand_def recordPending_def result_simps intro!: jobsGrow_same)
  next
    case (Require_attention input)
    then show ?thesis
      using assms transition by (auto simp: runCommand_def requireAttention_def result_simps intro!: jobsGrow_same)
  next
    case (Accept_payment input)
    then obtain v a after where accept: "acceptPaymentIn env v db = Inr (after, a)" "db' = after\<lparr>db_deferred := []\<rparr>"
      using assms by (auto simp: runCommand_def acceptPayment_iff result_simps)
    then have "recoveryTables after = recoveryTables db"
      by (auto simp: acceptPaymentIn_def result_simps Let_def split: option.splits
          dest!: recoveryTables_accepted recoveryTables_transition)
    with accept show ?thesis by (auto intro: jobsGrow_same)
  next
    case (Release_reservation input)
    then obtain v after where "releaseIn env v db = Inr (after, change)" "db' = after\<lparr>db_deferred := []\<rparr>"
      using assms by (auto simp: runCommand_def release_iff)
    then show ?thesis
      by (auto simp: releaseIn_def result_simps dest!: recoveryTables_transition intro!: jobsGrow_same)
  qed
qed

section \<open>The invariant along runs\<close>

lemma recoveryInv_deferred [simp]: "recoveryInv (db\<lparr>db_deferred := q\<rparr>) = recoveryInv db"
  by (simp add: recoveryInv_def attemptRows_def leasesOf_def joinedOutcome_def)

lemma jobsGrow_attempts:
  "jobsGrow db db' \<Longrightarrow> attemptRows db' pid = attemptRows db pid"
  by (simp add: jobsGrow_def attemptRows_def leasesOf_def joinedOutcome_def)

lemma jobsGrow_inv:
  assumes "recoveryInv db" and "jobsGrow db db'"
  shows "recoveryInv db'"
proof -
  have tables: "db_leases db' = db_leases db" "db_outcomes db' = db_outcomes db"
    using assms(2) by (simp_all add: jobsGrow_def)
  have "attemptRows db pid = []" if "\<forall>i \<in> set (db_jobs db). jb_payment_id i \<noteq> pid" for pid
    using that assms(1) by (fastforce simp: attemptRows_def leasesOf_def filter_empty_conv recoveryInv_def)
  with assms jobsGrow_attempts [OF assms(2)] show ?thesis
    unfolding recoveryInv_def tables
    by (auto simp: jobsGrow_def distinct_map_snoc simp del: map_append distinct_append)
qed

text \<open>The three writers of the shared database: workers that claim, workers that record, and the
  lifecycle repository.\<close>

datatype recovery_step =
    Claim_next "string list" claim_input
  | Record_outcome outcome_input
  | Lifecycle_command lifecycle_command

fun runStep :: "cashu_env \<Rightarrow> recovery_step \<Rightarrow> db \<Rightarrow> db" where
  "runStep env (Claim_next locked input) db =
     (case claimNext locked input db of Inl _ \<Rightarrow> db | Inr (after, _) \<Rightarrow> after)"
| "runStep env (Record_outcome input) db =
     (case recordOutcome input db of Inl _ \<Rightarrow> db | Inr (after, _) \<Rightarrow> after)"
| "runStep env (Lifecycle_command command) db =
     (case runCommand env command db of Inl _ \<Rightarrow> db | Inr (after, _) \<Rightarrow> after)"

definition runSteps :: "cashu_env \<Rightarrow> recovery_step list \<Rightarrow> db \<Rightarrow> db" where
  "runSteps env steps db = foldl (\<lambda>d step. runStep env step d) db steps"

lemma claimNext_inv:
  assumes "recoveryInv db" and "claimNext locked input db = Inr (db', found)"
  shows "recoveryInv db'"
proof -
  obtain after where after: "claimNextIn locked input db = Inr (after, found)" "db' = after\<lparr>db_deferred := []\<rparr>"
    using assms(2) by (auto simp: claimNext_Inr)
  then have "recoveryInv after"
  proof (cases found)
    case None
    with after assms(1) show ?thesis by (auto dest: claimNextIn_None)
  next
    case (Some lease)
    with after(1) have "claimNextIn locked input db = Inr (after, Some lease)" by simp
    then show ?thesis by (rule claimNextIn_Some) (use insertLease_inv(1) [OF assms(1)] in blast)
  qed
  with after(2) show ?thesis by simp
qed

lemma recordOutcome_inv:
  assumes "recoveryInv db" and "recordOutcome input db = Inr (db', r)"
  shows "recoveryInv db'"
proof -
  obtain out after where after: "validateOutcome input = Inr out" "recordOutcomeIn out db = Inr (after, r)"
    "db' = after\<lparr>db_deferred := []\<rparr>"
    using assms(2) by (auto simp: recordOutcome_Inr)
  have "recoveryInv after"
    using recordOutcomeIn_cases [OF after(2) assms(1)] validateOutcome_row [OF after(1)] assms(1)
      insertOutcome_inv [OF assms(1), of "outcomeRowOf out" after]
    by (auto split: if_splits)
  with after(3) show ?thesis by simp
qed

lemma runStep_inv: "recoveryInv db \<Longrightarrow> recoveryInv (runStep env step db)"
  by (cases step)
    (auto split: sum.splits prod.splits dest: claimNext_inv recordOutcome_inv command_jobs intro: jobsGrow_inv)

lemma runSteps_inv: "recoveryInv db \<Longrightarrow> recoveryInv (runSteps env steps db)"
  unfolding runSteps_def by (induction steps arbitrary: db) (auto intro: runStep_inv)

end
