(* ===== verification/Recovery_Properties.thy ===== *)
theory Recovery_Properties
  imports Recovery_Facts Example
begin

text \<open>
  The properties of the recovery job repository: leases never overlap, a finished job stays
  finished, the longest due job is claimed, and an outcome is recorded once, by the holder of the
  lease and in agreement with the payment.
\<close>

section \<open>Histories, position by position\<close>

lemma nextDue_after:
  assumes "attemptOk a" and "nextDue a = Some t"
  shows "ls_claimed_at (fst a) < t"
proof -
  obtain l found where a: "a = (l, found)" by (cases a)
  show ?thesis
  proof (cases found)
    case None
    with assms show ?thesis by (simp add: a nextDue_def attemptOk_def leaseRowOk_def leaseCheck_def)
  next
    case (Some out)
    with assms have "oc_next_attempt_at out = Some t" "outcomeRowOk out"
      "ls_claimed_at l \<le> oc_recorded_at out"
      by (auto simp: a nextDue_def attemptOk_def split: if_splits)
    then show ?thesis by (simp add: a outcomeRowOk_def outcomeCheck_def)
  qed
qed

lemma history_from:
  "historyOk start n rows \<Longrightarrow> a \<in> set rows \<Longrightarrow>
     start \<le> ls_claimed_at (fst a) \<and> int n < ls_attempt_number (fst a) \<and> attemptOk a"
proof (induction rows arbitrary: start n)
  case (Cons b rows)
  show ?case
  proof (cases "a = b")
    case True
    with Cons.prems(1) show ?thesis by simp
  next
    case False
    with Cons.prems obtain t where t: "nextDue b = Some t" "historyOk t (n + 1) rows" "a \<in> set rows"
      by (cases "nextDue b") auto
    have "start \<le> t" using Cons.prems(1) nextDue_after [OF _ t(1)] by auto
    with Cons.IH [OF t(2,3)] show ?thesis by auto
  qed
qed simp

definition follows :: "lease_row \<times> outcome_row option \<Rightarrow> lease_row \<times> outcome_row option \<Rightarrow> bool" where
  "follows a b \<longleftrightarrow> ls_attempt_number (fst a) < ls_attempt_number (fst b)
     \<and> (\<exists>t. nextDue a = Some t \<and> t \<le> ls_claimed_at (fst b))"

lemma history_sorted: "historyOk start n rows \<Longrightarrow> sorted_wrt follows rows"
proof (induction rows arbitrary: start n)
  case (Cons a rows)
  show ?case
  proof (cases "nextDue a")
    case None
    with Cons.prems show ?thesis by simp
  next
    case (Some t)
    with Cons.prems have rest: "historyOk t (n + 1) rows" and a: "ls_attempt_number (fst a) = int n + 1"
      by simp_all
    have "follows a b" if "b \<in> set rows" for b
      using history_from [OF rest that] a Some by (auto simp: follows_def)
    with Cons.IH [OF rest] show ?thesis by simp
  qed
qed simp

lemma history_pair:
  assumes "historyOk start n rows" and "a \<in> set rows" and "b \<in> set rows"
    and "ls_attempt_number (fst a) < ls_attempt_number (fst b)"
  shows "follows a b"
proof -
  obtain i j where ij: "i < length rows" "rows ! i = a" "j < length rows" "rows ! j = b"
    using assms(2,3) by (auto simp: in_set_conv_nth)
  note sorted = history_sorted [OF assms(1), unfolded sorted_wrt_iff_nth_less]
  consider "i < j" | "j < i" | "i = j" by linarith
  then show ?thesis
  proof cases
    case 1
    with sorted ij show ?thesis by blast
  next
    case 2
    with sorted ij have "follows b a" by blast
    with assms(4) show ?thesis by (simp add: follows_def)
  next
    case 3
    with ij assms(4) show ?thesis by simp
  qed
qed

lemma lease_history:
  assumes "recoveryInv db" and "l \<in> set (db_leases db)"
  obtains start where "historyOk start 0 (attemptRows db (ls_payment_id l))"
    "(l, joinedOutcome db l) \<in> set (attemptRows db (ls_payment_id l))"
proof -
  from assms obtain j where "j \<in> set (db_jobs db)" "jb_payment_id j = ls_payment_id l"
    by (auto simp: recoveryInv_def)
  with assms have "historyOk (jb_initial_attempt_at j) 0 (attemptRows db (ls_payment_id l))"
    by (auto simp: recoveryInv_def)
  moreover have "(l, joinedOutcome db l) \<in> set (attemptRows db (ls_payment_id l))"
    using assms(2) by (auto simp: attemptRows_set leasesOf_def)
  ultimately show ?thesis by (rule that)
qed

lemma history_numbers:
  "historyOk start n rows \<Longrightarrow> sorted_wrt (<) (map (ls_attempt_number \<circ> fst) rows)"
  unfolding sorted_wrt_map
  by (rule sorted_wrt_mono_rel [OF _ history_sorted]) (auto simp: follows_def)

section \<open>One worker at a time\<close>

text \<open>
  C12 (one worker at a time) Along any run of claims, records and lifecycle commands by any number of
  workers, two leases of a payment never overlap: before the later one is claimed, the earlier one
  has either expired without an outcome or recorded that a retry is due, at a time that has come.
\<close>

theorem leases_never_overlap:
  assumes "recoveryInv db" and "db' = runSteps env steps db"
    and "l \<in> set (db_leases db')" and "k \<in> set (db_leases db')"
    and "ls_payment_id l = ls_payment_id k" and "ls_attempt_number l < ls_attempt_number k"
  shows "case joinedOutcome db' l of
      None \<Rightarrow> ls_expires_at l \<le> ls_claimed_at k
    | Some out \<Rightarrow> oc_outcome_kind out = ''retry_scheduled'' \<and> ls_claimed_at l \<le> oc_recorded_at out
        \<and> oc_recorded_at out < ls_claimed_at k
        \<and> (\<exists>t. oc_next_attempt_at out = Some t \<and> t \<le> ls_claimed_at k)"
proof -
  have inv: "recoveryInv db'" using assms(1,2) runSteps_inv by simp
  from lease_history [OF inv assms(3)] obtain start where
    h: "historyOk start 0 (attemptRows db' (ls_payment_id l))"
    "(l, joinedOutcome db' l) \<in> set (attemptRows db' (ls_payment_id l))"
    by blast
  have k: "(k, joinedOutcome db' k) \<in> set (attemptRows db' (ls_payment_id l))"
    using assms(4,5) by (auto simp: attemptRows_set leasesOf_def)
  have "follows (l, joinedOutcome db' l) (k, joinedOutcome db' k)"
    using history_pair [OF h(1,2) k] assms(6) by simp
  moreover have "attemptOk (l, joinedOutcome db' l)" using history_from [OF h] by blast
  ultimately show ?thesis
    by (auto simp: follows_def nextDue_def attemptOk_def outcomeRowOk_def outcomeCheck_def
        split: option.splits if_splits)
qed

section \<open>Finished jobs\<close>

lemma final_step:
  assumes "recoveryInv db" and "latestLease db pid = Some l"
    and "nextDue (l, joinedOutcome db l) = None"
  shows "attemptRows (runStep env step db) pid = attemptRows db pid"
proof (cases step)
  case (Claim_next locked input)
  show ?thesis
  proof (cases "claimNext locked input db")
    case (Inr r)
    then obtain found db' after where after: "r = (db', found)" "db' = after\<lparr>db_deferred := []\<rparr>"
      "claimNextIn locked input db = Inr (after, found)"
      by (cases r) (auto simp: claimNext_Inr)
    have "attemptRows after pid = attemptRows db pid"
    proof (cases found)
      case None
      with after(3) show ?thesis by (auto dest: claimNextIn_None)
    next
      case (Some lease)
      with after(3) have "claimNextIn locked input db = Inr (after, Some lease)" by simp
      then obtain q n where q: "insertLease db (leaseRowOf input q n) = Inr after"
        "leaseRowOk (leaseRowOf input q n)"
        by (rule claimNextIn_Some)
      have "q \<noteq> pid"
      proof
        assume "q = pid"
        with q(1) obtain j :: job_row and t where due:
          "dueAfter (jb_initial_attempt_at j) (attemptRows db pid) = Some t"
          by (auto simp: insertLease_Inr validateRecoveryLease_iff [OF assms(1)] leaseRowOf_def)
        obtain before where "attemptRows db pid = before @ [(l, joinedOutcome db l)]"
          by (rule attemptRows_split [OF assms(2)])
        with due assms(3) show False by simp
      qed
      then show ?thesis
        using insertLease_inv(2) [OF assms(1) q, of pid] by (simp add: leaseRowOf_def)
    qed
    with after Inr Claim_next show ?thesis
      by (simp add: attemptRows_def leasesOf_def joinedOutcome_def)
  qed (simp add: Claim_next)
next
  case (Record_outcome input)
  show ?thesis
  proof (cases "recordOutcome input db")
    case (Inr r)
    then obtain res db' out after where after: "r = (db', res)" "db' = after\<lparr>db_deferred := []\<rparr>"
      "recordOutcomeIn out db = Inr (after, res)"
      by (cases r) (auto simp: recordOutcome_Inr)
    have "attemptRows after pid = attemptRows db pid"
    proof (cases "or_replayed res")
      case True
      then show ?thesis using recordOutcomeIn_cases [OF after(3) assms(1)] by simp
    next
      case False
      then have ins: "insertOutcome db (outcomeRowOf out) = Inr (Some after)"
        using recordOutcomeIn_cases [OF after(3) assms(1)] by simp
      then obtain k where k: "latestLease db (oi_paymentId out) = Some k"
        "ls_lease_token k = oi_leaseToken out" "after = db\<lparr>db_outcomes := db_outcomes db @ [outcomeRowOf out]\<rparr>"
        "\<forall>o' \<in> set (db_outcomes db). oc_lease_token o' \<noteq> oi_leaseToken out"
        by (auto simp: insertOutcome_Inr validateRecoveryOutcome_iff outcomeRowOf_def split: if_splits)
      have "joinedOutcome db k = None"
        using k(2,4) by (auto simp: joinedOutcome_def findFirst_None)
      then have "oi_paymentId out \<noteq> pid" using k(1) assms(2,3) by (auto simp: nextDue_def)
      then show ?thesis
        using attemptRows_other [OF assms(1), of k "outcomeRowOf out" pid] latestLease_Some [OF k(1)] k(2,3)
        by (simp add: outcomeRowOf_def)
    qed
    with after Inr Record_outcome show ?thesis
      by (simp add: attemptRows_def leasesOf_def joinedOutcome_def)
  qed (simp add: Record_outcome)
next
  case (Lifecycle_command command)
  then show ?thesis
    using command_jobs jobsGrow_attempts by (auto split: sum.splits prod.splits)
qed

lemma latest_of_rows:
  "attemptRows db' pid = attemptRows db pid \<Longrightarrow> latestLease db pid = Some l \<Longrightarrow>
     latestLease db' pid = Some l \<and> joinedOutcome db' l = joinedOutcome db l"
  using attemptRows_last [of db pid] attemptRows_last [of db' pid]
  by (cases "latestLease db' pid") auto

lemma final_run:
  assumes "recoveryInv db" and "latestLease db pid = Some l"
    and "nextDue (l, joinedOutcome db l) = None"
  shows "attemptRows (runSteps env steps db) pid = attemptRows db pid"
  using assms
proof (induction steps arbitrary: db)
  case (Cons step steps)
  note same = final_step [OF Cons.prems, of env step]
  from latest_of_rows [OF same Cons.prems(2)] Cons.prems(3)
  have "attemptRows (runSteps env steps (runStep env step db)) pid = attemptRows (runStep env step db) pid"
    by (intro Cons.IH runStep_inv Cons.prems(1)) simp_all
  with same show ?case by (simp add: runSteps_def)
qed (simp add: runSteps_def)

text \<open>
  C14 (a finished job is never claimed again) Once an outcome other than a retry has been recorded for
  a payment, its attempts never change again, whatever claims, records and lifecycle commands follow.
\<close>

theorem finished_job_stays_finished:
  assumes "recoveryInv db" and "out \<in> set (db_outcomes db)"
    and "oc_outcome_kind out \<noteq> ''retry_scheduled''"
  shows "attemptRows (runSteps env steps db) (oc_payment_id out) = attemptRows db (oc_payment_id out)"
proof -
  obtain l where l: "l \<in> set (db_leases db)" "ls_lease_token l = oc_lease_token out"
    "ls_payment_id l = oc_payment_id out"
    using assms(1,2) by (auto simp: recoveryInv_def)
  have joined: "joinedOutcome db l = Some out"
  proof -
    have "joinedOutcome db l \<noteq> None"
      using assms(2) l by (auto simp: joinedOutcome_def findFirst_None)
    then obtain o' where o': "joinedOutcome db l = Some o'" by blast
    then have "o' \<in> set (db_outcomes db)" "oc_lease_token o' = ls_lease_token l"
      by (auto simp: joinedOutcome_def dest: findFirst_Some)
    with assms(1,2) l o' show ?thesis
      by (metis distinct_map_eq recoveryInv_def)
  qed
  then have final: "nextDue (l, joinedOutcome db l) = None" using assms(3) by (simp add: nextDue_def)
  obtain start where h: "historyOk start 0 (attemptRows db (ls_payment_id l))"
    "(l, joinedOutcome db l) \<in> set (attemptRows db (ls_payment_id l))"
    by (rule lease_history [OF assms(1) l(1)])
  obtain k where k: "latestLease db (ls_payment_id l) = Some k"
    using h(2) latestLease_None [of db "ls_payment_id l"] by fastforce
  have "k = l"
  proof -
    have "ls_attempt_number l \<le> ls_attempt_number k"
      using latestLease_Some [OF k] l(1) by (simp add: leasesOf_def)
    moreover have "\<not> ls_attempt_number l < ls_attempt_number k"
    proof
      assume "ls_attempt_number l < ls_attempt_number k"
      moreover have "(k, joinedOutcome db k) \<in> set (attemptRows db (ls_payment_id l))"
        using latestLease_Some [OF k] by (auto simp: attemptRows_set leasesOf_def)
      ultimately have "follows (l, joinedOutcome db l) (k, joinedOutcome db k)"
        using history_pair [OF h] by simp
      with final show False by (simp add: follows_def)
    qed
    ultimately have "ls_attempt_number k = ls_attempt_number l" by simp
    moreover have "distinct (map ls_attempt_number (map fst (attemptRows db (ls_payment_id l))))"
      using history_numbers [OF h(1)] by (simp add: strict_sorted_iff)
    moreover have "k \<in> set (map fst (attemptRows db (ls_payment_id l)))" "l \<in> set (map fst (attemptRows db (ls_payment_id l)))"
      using latestLease_Some [OF k] l(1) by (auto simp: attemptRows_set leasesOf_def image_iff)
    ultimately show ?thesis using distinct_map_eq by metis
  qed
  with k final l(3) final_run [OF assms(1), of "oc_payment_id out" l] show ?thesis by simp
qed

section \<open>Claims\<close>

lemma sort_key_head:
  assumes "sort_key f xs = y # ys"
  shows "y \<in> set xs \<and> (\<forall>x \<in> set xs. f y \<le> f x)"
proof -
  have "sorted (map f (sort_key f xs))" by simp
  then have "\<forall>x \<in> set ys. f y \<le> f x" by (simp add: assms)
  moreover have "set xs = insert y (set ys)"
    using assms by (metis list.simps(15) set_sort)
  ultimately show ?thesis by auto
qed

lemma claimCandidate_Some:
  assumes "claimCandidate locked db t = Some pid"
  obtains job where "job \<in> set (db_jobs db)" "jb_payment_id job = pid" "pid \<notin> set locked"
    "claimEligible db t job"
    "\<forall>j \<in> set (db_jobs db). claimEligible db t j \<and> jb_payment_id j \<notin> set locked \<longrightarrow> dueAt db job \<le> dueAt db j"
proof -
  let ?eligible = "filter (\<lambda>j. claimEligible db t j \<and> jb_payment_id j \<notin> set locked) (db_jobs db)"
  obtain job rest where job: "sort_key (dueAt db) (sort_key jb_payment_id ?eligible) = job # rest"
    "jb_payment_id job = pid"
    using assms by (auto simp: claimCandidate_def split: list.splits)
  from sort_key_head [OF job(1)] job(2) show ?thesis by (intro that [of job]) auto
qed

lemma findJobRow_in:
  assumes "recoveryInv db" and "job \<in> set (db_jobs db)"
  shows "findJobRow db (jb_payment_id job) = Some job"
proof -
  have "findJobRow db (jb_payment_id job) \<noteq> None"
    using assms(2) by (auto simp: findJobRow_def findFirst_None)
  then obtain j where j: "findJobRow db (jb_payment_id job) = Some j" by blast
  with job_history [OF assms(1) j] assms have "j = job"
    by (intro distinct_map_eq [of jb_payment_id "db_jobs db"]) (auto simp: recoveryInv_def)
  with j show ?thesis by simp
qed

lemma claimEligible_iff:
  assumes "recoveryInv db"
  shows "claimEligible db t job \<longleftrightarrow>
    (\<exists>s. latestState db (jb_payment_id job) = Some s \<and> isActiveLifecycleState s)
    \<and> (\<exists>d. dueAfter (jb_initial_attempt_at job) (attemptRows db (jb_payment_id job)) = Some d \<and> d \<le> t)"
proof (cases "latestLease db (jb_payment_id job)")
  case None
  then have "attemptRows db (jb_payment_id job) = []" by (simp add: latestLease_None)
  with None show ?thesis by (auto simp: claimEligible_def split: option.splits)
next
  case (Some l)
  then obtain before where "attemptRows db (jb_payment_id job) = before @ [(l, joinedOutcome db l)]"
    by (rule attemptRows_split)
  with Some outcomeOfLease_joined [OF assms, of l] latestLease_Some [OF Some] show ?thesis
    by (auto simp: claimEligible_def nextDue_def split: option.splits)
qed


text \<open>
  C16 (a due job is claimed) When some unlocked job of an active payment is due, a valid claim with a
  fresh lease token returns a lease, provided that no job has used its 1024 attempts.  A job is due
  from its initial time on when it had no attempt, from the expiry of its last lease on when that
  has no outcome, and from the time of the scheduled retry on when it has one.
\<close>

theorem due_job_is_claimed:
  assumes "recoveryInv db" and "db_deferred db = []" and "validateClaim input = Inr input"
    and "job \<in> set (db_jobs db)" and "jb_payment_id job \<notin> set locked"
    and "latestState db (jb_payment_id job) \<in> {Some ''dispatch_started'', Some ''pending'', Some ''needs_attention''}"
    and "case atLast (attemptRows db (jb_payment_id job)) of
        None \<Rightarrow> jb_initial_attempt_at job \<le> cl_claimedAt input
      | Some (lease, None) \<Rightarrow> ls_expires_at lease \<le> cl_claimedAt input
      | Some (lease, Some out) \<Rightarrow> oc_outcome_kind out = ''retry_scheduled''
          \<and> (\<exists>t. oc_next_attempt_at out = Some t \<and> t \<le> cl_claimedAt input)"
    and "\<forall>l \<in> set (db_leases db). ls_lease_token l \<noteq> cl_leaseToken input"
    and "\<forall>j \<in> set (db_jobs db). length (attemptRows db (jb_payment_id j)) < 1024"
  shows "\<exists>db' lease. claimNext locked input db = Inr (db', Some lease)"
proof -
  have "claimEligible db (cl_claimedAt input) job"
    unfolding claimEligible_iff [OF assms(1)] using assms(6,7)
    by (auto simp: isActiveLifecycleState_def dueAfter_def nextDue_def split: option.splits)
  then have "claimCandidate locked db (cl_claimedAt input) \<noteq> None"
    using assms(4,5) by (auto simp: claimCandidate_def filter_empty_conv split: list.splits)
  then obtain pid where pid: "claimCandidate locked db (cl_claimedAt input) = Some pid" by blast
  from claimCandidate_Some [OF pid] obtain j where j: "j \<in> set (db_jobs db)" "jb_payment_id j = pid"
    "claimEligible db (cl_claimedAt input) j"
    by blast
  note row = findJobRow_in [OF assms(1) j(1), unfolded j(2)]
  let ?n = "int (length (attemptRows db pid)) + 1"
  have number: "(case latestLease db pid of None \<Rightarrow> 1 | Some l \<Rightarrow> ls_attempt_number l + 1) = ?n"
    using latest_number [OF assms(1) row] by (simp split: option.splits)
  have eligible: "readEligibility db pid (cl_claimedAt input) = Some (?n, True)"
    using row j(3) number by (simp add: readEligibility_def)
  have bound: "?n \<le> 1024" using assms(9) j(1,2) by force
  have ok: "leaseRowOk (leaseRowOf input pid ?n)"
    using assms(3) job_history [OF assms(1) row] bound
    by (auto simp: validateClaim_iff leaseRowOk_def leaseRowOf_def leaseCheck_def)
  obtain s d where active: "latestState db pid = Some s" "isActiveLifecycleState s"
    "dueAfter (jb_initial_attempt_at j) (attemptRows db pid) = Some d" "d \<le> cl_claimedAt input"
    using j by (auto simp: claimEligible_iff [OF assms(1)])
  have "\<forall>l \<in> set (db_leases db). \<not> (ls_payment_id l = pid \<and> ls_attempt_number l = ?n)"
  proof (intro ballI notI)
    fix l
    assume l: "l \<in> set (db_leases db)" "ls_payment_id l = pid \<and> ls_attempt_number l = ?n"
    then have "(l, joinedOutcome db l) \<in> set (attemptRows db pid)"
      by (auto simp: attemptRows_set leasesOf_def)
    with attempt_bound [of _ 0 _ "(l, joinedOutcome db l)"] job_history [OF assms(1) row] l
    show False by fastforce
  qed
  then have "insertLease db (leaseRowOf input pid ?n)
      = Inr (db\<lparr>db_leases := db_leases db @ [leaseRowOf input pid ?n]\<rparr>)"
    using active row ok assms(8) j(1,2)
    by (auto simp: insertLease_Inr validateRecoveryLease_iff [OF assms(1)] leaseRowOk_def leaseRowOf_def
        isActiveLifecycleState_def)
  moreover have "mapLease (leaseRowOf input pid ?n) = Inr (leaseOfRow (leaseRowOf input pid ?n))"
    using ok by (simp add: mapLease_iff)
  ultimately have "claimNextIn locked input db =
      Inr (db\<lparr>db_leases := db_leases db @ [leaseRowOf input pid ?n]\<rparr>,
           Some (leaseOfRow (leaseRowOf input pid ?n)))"
    using pid eligible bound
    by (simp add: claimNextIn_def isSafeInteger_def MAX_SAFE_INTEGER_def)
  with assms(2,3) show ?thesis by (auto simp: claimNext_Inr)
qed

section \<open>Outcomes\<close>

lemma validateOutcome_fields:
  assumes "validateOutcome input = Inr out"
  shows "oi_kind out = oi_kind input \<and> oi_leaseToken out = oi_leaseToken input
    \<and> oi_paymentId out = oi_paymentId input \<and> oi_recordedAt out = oi_recordedAt input"
  using assms
  by (auto simp: validateOutcome_def result_simps Let_def split: if_splits option.splits)

lemma requireJob_deferred [simp]: "requireJob (db\<lparr>db_deferred := q\<rparr>) pid = requireJob db pid"
proof -
  have tables: "db_jobs (db\<lparr>db_deferred := q\<rparr>) = db_jobs db" "db_effects (db\<lparr>db_deferred := q\<rparr>) = db_effects db"
    "db_events (db\<lparr>db_deferred := q\<rparr>) = db_events db" "db_leases (db\<lparr>db_deferred := q\<rparr>) = db_leases db"
    "db_outcomes (db\<lparr>db_deferred := q\<rparr>) = db_outcomes db"
    by simp_all
  show ?thesis
    unfolding requireJob_def findJob_def findJobRow_def attemptRows_def leasesOf_def joinedOutcome_def
      latestEvent_def eventsOf_def tables
    by (rule refl)
qed

lemma recordOutcome_fresh:
  assumes "recoveryInv db" and "recordOutcome input db = Inr (db', r)" and "\<not> or_replayed r"
  obtains out l where "validateOutcome input = Inr out" "latestLease db (oi_paymentId out) = Some l"
    "ls_lease_token l = oi_leaseToken out" "joinedOutcome db l = None"
    "ls_claimed_at l \<le> oi_recordedAt out" "oi_recordedAt out \<le> ls_expires_at l"
    "outcomeAgrees (oi_kind out) (latestState db (oi_paymentId out))"
    "db' = db\<lparr>db_outcomes := db_outcomes db @ [outcomeRowOf out], db_deferred := []\<rparr>"
    "requireJob db' (oi_paymentId out) = Inr (or_job r)"
proof -
  obtain out after where out: "validateOutcome input = Inr out" "recordOutcomeIn out db = Inr (after, r)"
    "db' = after\<lparr>db_deferred := []\<rparr>"
    using assms(2) by (auto simp: recordOutcome_Inr)
  have ins: "insertOutcome db (outcomeRowOf out) = Inr (Some after)"
    and job: "requireJob after (oi_paymentId out) = Inr (or_job r)"
    using recordOutcomeIn_cases [OF out(2) assms(1)] assms(3) by simp_all
  from ins obtain l where l: "latestLease db (oi_paymentId out) = Some l"
    "ls_lease_token l = oi_leaseToken out" "ls_claimed_at l \<le> oi_recordedAt out"
    "oi_recordedAt out \<le> ls_expires_at l"
    "outcomeAgrees (oi_kind out) (latestState db (oi_paymentId out))"
    and after: "after = db\<lparr>db_outcomes := db_outcomes db @ [outcomeRowOf out]\<rparr>"
    and fresh: "\<forall>o' \<in> set (db_outcomes db). oc_lease_token o' \<noteq> oi_leaseToken out"
    by (auto simp: insertOutcome_Inr validateRecoveryOutcome_iff outcomeRowOf_def split: if_splits)
  have "joinedOutcome db l = None" using fresh l(2) by (auto simp: joinedOutcome_def findFirst_None)
  then show ?thesis using that out l after job by simp
qed

text \<open>
  C13 (an outcome is recorded only by the holder of the lease, and only if it is true) A first record
  names the latest lease of the payment, is made between its claim and its expiry, finds no
  outcome yet, and agrees with the payment: accepted only once the payment is consumed, released
  only once it is released, a retry or a call for attention only while it is open.
\<close>

theorem outcome_needs_current_lease:
  assumes "recoveryInv db" and "recordOutcome input db = Inr (db', r)" and "\<not> or_replayed r"
  shows "\<exists>l. latestLease db (oi_paymentId input) = Some l \<and> ls_lease_token l = oi_leaseToken input
    \<and> joinedOutcome db l = None
    \<and> ls_claimed_at l \<le> oi_recordedAt input \<and> oi_recordedAt input \<le> ls_expires_at l
    \<and> outcomeAgrees (oi_kind input) (latestState db (oi_paymentId input))
    \<and> latestLease db' (oi_paymentId input) = Some l \<and> joinedOutcome db' l \<noteq> None"
proof -
  from recordOutcome_fresh [OF assms] obtain out l where f: "validateOutcome input = Inr out"
    "latestLease db (oi_paymentId out) = Some l" "ls_lease_token l = oi_leaseToken out"
    "joinedOutcome db l = None" "ls_claimed_at l \<le> oi_recordedAt out"
    "oi_recordedAt out \<le> ls_expires_at l"
    "outcomeAgrees (oi_kind out) (latestState db (oi_paymentId out))"
    "db' = db\<lparr>db_outcomes := db_outcomes db @ [outcomeRowOf out], db_deferred := []\<rparr>"
    by metis
  have "latestLease db' (oi_paymentId out) = Some l"
    using f(2,8) by (simp add: latestLease_def leasesOf_def)
  moreover have "joinedOutcome db' l \<noteq> None"
    using f(3) latestLease_Some [OF f(2)]
    by (auto simp: f(8) joinedOutcome_def findFirst_None outcomeRowOf_def)
  ultimately show ?thesis
    using f(2-7) validateOutcome_fields [OF f(1)] by (intro exI [of _ l]) simp
qed

lemma findLease:
  assumes "recoveryInv db" and "l \<in> set (db_leases db)"
  shows "findFirst (\<lambda>k. ls_lease_token k = ls_lease_token l) (db_leases db) = Some l"
proof -
  have "findFirst (\<lambda>k. ls_lease_token k = ls_lease_token l) (db_leases db) \<noteq> None"
    using assms(2) by (auto simp: findFirst_None)
  then obtain k where k: "findFirst (\<lambda>k. ls_lease_token k = ls_lease_token l) (db_leases db) = Some k"
    by blast
  with findFirst_Some [OF k] assms have "k = l"
    by (intro distinct_map_eq [of ls_lease_token "db_leases db"]) (auto simp: recoveryInv_def)
  with k show ?thesis by simp
qed

lemma stored_matches:
  assumes "outcomeRowOk (outcomeRowOf out)" and "ls_payment_id l = oi_paymentId out"
    and "oi_paymentId again = oi_paymentId out" and "oi_leaseToken again = oi_leaseToken out"
  shows "assertStoredOutcome l (outcomeRowOf out) again =
    (if again = out then Inr () else failWith RJ_lease_conflict)"
proof -
  have times: "validTimestamp (oi_recordedAt out)"
    "oi_nextAttemptAt out = Some t \<Longrightarrow> validTimestamp t" for t
    using assms(1) by (auto simp: outcomeRowOk_def outcomeRowOf_def)
  show ?thesis
    using assms(2-4) times
    by (cases out; cases again)
      (auto simp: assertStoredOutcome_def outcomeRowOf_def failWith_def split: option.splits)
qed

text \<open>
  One outcome per lease: Once an outcome has been recorded under a lease, recording the same
  outcome again replays it, and recording any other is a conflict; neither changes anything.
\<close>

theorem one_outcome_per_lease:
  assumes "recoveryInv db" and "recordOutcome input db = Inr (db', r)" and "\<not> or_replayed r"
    and "validateOutcome again = Inr out'" and "oi_leaseToken again = oi_leaseToken input"
    and "oi_paymentId again = oi_paymentId input"
  shows "recordOutcome again db' =
    (if validateOutcome again = validateOutcome input
     then Inr (db', \<lparr>or_job = or_job r, or_replayed = True\<rparr>)
     else Inl RJ_lease_conflict)"
proof -
  from recordOutcome_fresh [OF assms(1-3)] obtain out l where f: "validateOutcome input = Inr out"
    "latestLease db (oi_paymentId out) = Some l" "ls_lease_token l = oi_leaseToken out"
    "joinedOutcome db l = None"
    "db' = db\<lparr>db_outcomes := db_outcomes db @ [outcomeRowOf out], db_deferred := []\<rparr>"
    "requireJob db' (oi_paymentId out) = Inr (or_job r)"
    by metis
  note lease = latestLease_Some [OF f(2)]
  have same: "oi_leaseToken out' = oi_leaseToken out" "oi_paymentId out' = oi_paymentId out"
    using validateOutcome_fields [OF f(1)] validateOutcome_fields [OF assms(4)] assms(5,6) by simp_all
  have "findStoredOutcome db' (oi_leaseToken out) = Some (l, joinedOutcome db' l)"
    using findLease [OF assms(1), of l] lease f(3) by (simp add: findStoredOutcome_def f(5))
  moreover have "joinedOutcome db' l = Some (outcomeRowOf out)"
  proof -
    have "joinedOutcome db' l = joinedOutcome (db\<lparr>db_outcomes := db_outcomes db @ [outcomeRowOf out]\<rparr>) l"
      by (simp add: joinedOutcome_def f(5))
    then show ?thesis using f(3,4) lease by (simp add: joinedOutcome_snoc outcomeRowOf_def)
  qed
  moreover have "latestLease db' (oi_paymentId out) = Some l"
    using f(2) by (simp add: f(5) latestLease_def leasesOf_def)
  moreover have "findJobRow db' (oi_paymentId out) \<noteq> None"
  proof -
    obtain j where "j \<in> set (db_jobs db)" "jb_payment_id j = oi_paymentId out"
      using assms(1) lease by (auto simp: recoveryInv_def)
    then show ?thesis by (auto simp: findJobRow_def findFirst_None f(5))
  qed
  ultimately have "recordOutcomeIn out' db' =
      (if out' = out then Inr (db', \<lparr>or_job = or_job r, or_replayed = True\<rparr>)
       else failWith RJ_lease_conflict)"
    using stored_matches [of out l out'] validateOutcome_row [OF f(1)] lease same f(3,6)
    by (auto simp: recordOutcomeIn_def failWith_def)
  moreover have "withTransaction (recordOutcomeIn out') db' = recordOutcomeIn out' db'"
    if "recordOutcomeIn out' db' = Inr (db', x) \<or> recordOutcomeIn out' db' = Inl e" for x e
    using that by (auto simp: withTransaction_def f(5) commit_def)
  ultimately show ?thesis
    using assms(4) f(1)
    by (auto simp: recordOutcome_def failWith_def mapJobStorageError_def)
qed

section \<open>Instances\<close>

definition exClaim :: "string \<Rightarrow> int \<Rightarrow> claim_input" where
  "exClaim token t = \<lparr>cl_claimedAt = t, cl_expiresAt = t + 60, cl_leaseToken = token,
     cl_workerId = ''w1''\<rparr>"

definition exLease :: "string \<Rightarrow> int \<Rightarrow> int \<Rightarrow> lease_row" where
  "exLease token n t = leaseRowOf (exClaim token t) ''p1'' n"

definition exRetry :: outcome_input where
  "exRetry = \<lparr>oi_kind = ''retry_scheduled'', oi_leaseToken = ''t1'', oi_nextAttemptAt = Some 150,
     oi_paymentId = ''p1'', oi_reason = Some ''nonterminal_evidence'', oi_recordedAt = 110\<rparr>"

definition exAttention :: outcome_input where
  "exAttention = \<lparr>oi_kind = ''attention_required'', oi_leaseToken = ''t1'', oi_nextAttemptAt = None,
     oi_paymentId = ''p1'', oi_reason = Some ''retry_exhausted'', oi_recordedAt = 110\<rparr>"

text \<open>After the first claim at 100.\<close>

definition exDb6 :: db where
  "exDb6 = exDb1\<lparr>db_leases := [exLease ''t1'' 1 100]\<rparr>"

lemma exDb1_inv: "recoveryInv exDb1"
  by (simp add: recoveryInv_def exDb1_def exDb_def attemptRows_def leasesOf_def) code_simp

lemma exClaim_first: "map_sum id fst (claimNext [] (exClaim ''t1'' 100) exDb1) = Inr exDb6"
  by code_simp

lemma exDb6_step: "runStep exEnv (Claim_next [] (exClaim ''t1'' 100)) exDb1 = exDb6"
  using exClaim_first by (cases "claimNext [] (exClaim ''t1'' 100) exDb1") auto

lemma exDb6_inv: "recoveryInv exDb6"
  using runStep_inv [OF exDb1_inv] exDb6_step by metis

lemma exSecond:
  "db_leases (runSteps exEnv [Claim_next [] (exClaim ''t1'' 100), Claim_next [] (exClaim ''t2'' 200)] exDb1)
     = [exLease ''t1'' 1 100, exLease ''t2'' 2 200]"
  by code_simp

theorem leases_never_overlap_witness:
  "ls_expires_at (exLease ''t1'' 1 100) \<le> ls_claimed_at (exLease ''t2'' 2 200)"
proof -
  let ?db = "runSteps exEnv [Claim_next [] (exClaim ''t1'' 100), Claim_next [] (exClaim ''t2'' 200)] exDb1"
  have "joinedOutcome ?db (exLease ''t1'' 1 100) = None" by code_simp
  with leases_never_overlap [OF exDb1_inv refl,
      of "exLease ''t1'' 1 100" exEnv "[Claim_next [] (exClaim ''t1'' 100), Claim_next [] (exClaim ''t2'' 200)]"
        "exLease ''t2'' 2 200"]
  show ?thesis unfolding exSecond by (simp add: exLease_def leaseRowOf_def)
qed

lemma exAttention_fresh:
  "map_sum id (or_replayed \<circ> snd) (recordOutcome exAttention exDb6) = Inr False"
  "map_sum id (or_replayed \<circ> snd) (recordOutcome exRetry exDb6) = Inr False"
  by code_simp+

lemma exAttention_result:
  obtains db' r where "recordOutcome exAttention exDb6 = Inr (db', r)" "\<not> or_replayed r"
  using exAttention_fresh(1) by (cases "recordOutcome exAttention exDb6") auto

lemma exRetry_result:
  obtains db' r where "recordOutcome exRetry exDb6 = Inr (db', r)" "\<not> or_replayed r"
  using exAttention_fresh(2) by (cases "recordOutcome exRetry exDb6") auto

theorem finished_job_stays_finished_witness:
  "\<exists>db'. runStep exEnv (Record_outcome exAttention) exDb6 = db'
     \<and> length (attemptRows (runSteps exEnv [Claim_next [] (exClaim ''t2'' 500)] db') ''p1'') = 1"
proof -
  obtain db' r where r: "recordOutcome exAttention exDb6 = Inr (db', r)" "\<not> or_replayed r"
    by (rule exAttention_result)
  have step: "runStep exEnv (Record_outcome exAttention) exDb6 = db'" by (simp add: r(1))
  have facts: "db_outcomes (runStep exEnv (Record_outcome exAttention) exDb6) = [outcomeRowOf exAttention]"
    "length (attemptRows (runStep exEnv (Record_outcome exAttention) exDb6) ''p1'') = 1"
    by code_simp+
  have "recoveryInv db'" using runStep_inv [OF exDb6_inv, of exEnv "Record_outcome exAttention"] step by simp
  from finished_job_stays_finished [OF this, of "outcomeRowOf exAttention" exEnv
      "[Claim_next [] (exClaim ''t2'' 500)]"] facts step
  show ?thesis by (auto simp: outcomeRowOf_def exAttention_def)
qed



theorem due_job_is_claimed_witness:
  "\<exists>db' lease. claimNext [] (exClaim ''t1'' 100) exDb1 = Inr (db', Some lease)"
proof (rule due_job_is_claimed [OF exDb1_inv])
  show "db_deferred exDb1 = []" "\<forall>l \<in> set (db_leases exDb1). ls_lease_token l \<noteq> cl_leaseToken (exClaim ''t1'' 100)"
    by (simp_all add: exDb1_def exDb_def)
  show "validateClaim (exClaim ''t1'' 100) = Inr (exClaim ''t1'' 100)" by code_simp
  show "\<lparr>jb_payment_id = ''p1'', jb_effect_id = ''e1'', jb_schema_version = 1,
       jb_initial_attempt_at = 100\<rparr> \<in> set (db_jobs exDb1)"
    by (simp add: exDb1_def)
  have "attemptRows exDb1 ''p1'' = []" by (simp add: exDb1_def exDb_def attemptRows_def leasesOf_def)
  then show "case atLast (attemptRows exDb1 (jb_payment_id \<lparr>jb_payment_id = ''p1'', jb_effect_id = ''e1'',
        jb_schema_version = 1, jb_initial_attempt_at = 100\<rparr>)) of
      None \<Rightarrow> jb_initial_attempt_at \<lparr>jb_payment_id = ''p1'', jb_effect_id = ''e1'', jb_schema_version = 1,
        jb_initial_attempt_at = 100\<rparr> \<le> cl_claimedAt (exClaim ''t1'' 100)
    | Some (lease, None) \<Rightarrow> ls_expires_at lease \<le> cl_claimedAt (exClaim ''t1'' 100)
    | Some (lease, Some out) \<Rightarrow> oc_outcome_kind out = ''retry_scheduled''
        \<and> (\<exists>t. oc_next_attempt_at out = Some t \<and> t \<le> cl_claimedAt (exClaim ''t1'' 100))"
    by (simp add: exClaim_def atLast_def)
  show "latestState exDb1 (jb_payment_id \<lparr>jb_payment_id = ''p1'', jb_effect_id = ''e1'', jb_schema_version = 1,
      jb_initial_attempt_at = 100\<rparr>) \<in> {Some ''dispatch_started'', Some ''pending'', Some ''needs_attention''}"
    by code_simp
  show "\<forall>j \<in> set (db_jobs exDb1). length (attemptRows exDb1 (jb_payment_id j)) < 1024"
    by (simp add: exDb1_def exDb_def attemptRows_def leasesOf_def)
qed simp

theorem outcome_needs_current_lease_witness:
  "\<exists>l. latestLease exDb6 ''p1'' = Some l \<and> outcomeAgrees ''retry_scheduled'' (latestState exDb6 ''p1'')"
proof -
  obtain db' r where r: "recordOutcome exRetry exDb6 = Inr (db', r)" "\<not> or_replayed r"
    by (rule exRetry_result)
  from outcome_needs_current_lease [OF exDb6_inv r] show ?thesis by (auto simp: exRetry_def)
qed

theorem one_outcome_per_lease_witness:
  "\<exists>db' r. recordOutcome exRetry exDb6 = Inr (db', r)
     \<and> recordOutcome exAttention db' = Inl RJ_lease_conflict"
proof -
  obtain db' r where r: "recordOutcome exRetry exDb6 = Inr (db', r)" "\<not> or_replayed r"
    by (rule exRetry_result)
  have "isOk (validateOutcome exAttention)" "validateOutcome exAttention \<noteq> validateOutcome exRetry"
    by code_simp+
  then obtain out where out: "validateOutcome exAttention = Inr out"
    and differ: "validateOutcome exAttention \<noteq> validateOutcome exRetry"
    by (auto simp: isOk_iff)
  from one_outcome_per_lease [OF exDb6_inv r out] differ r(1) show ?thesis
    by (auto simp: exAttention_def exRetry_def)
qed

end
