(* ===== verification/Effects.thy ===== *)
theory Effects
  imports Prelude
begin

text \<open>
  Code that calls the outside world: asynchronous functions whose dependencies (repositories,
  HTTP clients, the clock) are parameters.  An action takes the state of the world and returns the
  new state with its result or its error, so a call that throws may have changed the world.  The
  world carries the log of the calls the properties speak about; what happens between two calls
  (other processes, the operator) is part of the answer of the next one.
\<close>

type_synonym ('s, 'e, 'a) act = "'s \<Rightarrow> 's \<times> ('e + 'a)"

definition doneA :: "'a \<Rightarrow> ('s, 'e, 'a) act" where
  "doneA x = (\<lambda>s. (s, Inr x))"

definition failA :: "'e \<Rightarrow> ('s, 'e, 'a) act" where
  "failA e = (\<lambda>s. (s, Inl e))"

text \<open>A computation without effect.\<close>

definition pureA :: "'e + 'a \<Rightarrow> ('s, 'e, 'a) act" where
  "pureA r = (\<lambda>s. (s, r))"

text \<open>\<open>try { x = await m } catch (e) { return h(e) } return k(x)\<close>\<close>

definition eitherA ::
  "('s, 'e, 'a) act \<Rightarrow> ('e \<Rightarrow> ('s, 'f, 'b) act) \<Rightarrow> ('a \<Rightarrow> ('s, 'f, 'b) act) \<Rightarrow> ('s, 'f, 'b) act" where
  "eitherA m h k = (\<lambda>s. case m s of (t, Inl e) \<Rightarrow> h e t | (t, Inr x) \<Rightarrow> k x t)"

definition thenA :: "('s, 'e, 'a) act \<Rightarrow> ('a \<Rightarrow> ('s, 'e, 'b) act) \<Rightarrow> ('s, 'e, 'b) act" where
  "thenA m k = eitherA m failA k"

text \<open>\<open>try { return await m } catch (e) { throw f(e) }\<close>\<close>

definition mapErrorA :: "('e \<Rightarrow> 'f) \<Rightarrow> ('s, 'e, 'a) act \<Rightarrow> ('s, 'f, 'a) act" where
  "mapErrorA f m = eitherA m (\<lambda>e. failA (f e)) doneA"

text \<open>Reading the world, and calling a dependency that is logged with its answer.\<close>

definition askA :: "('w \<Rightarrow> 'a) \<Rightarrow> ('c list \<times> 'w, 'e, 'a) act" where
  "askA f = (\<lambda>(log, w). ((log, w), Inr (f w)))"

definition callA :: "('w \<Rightarrow> 'w \<times> ('e + 'a)) \<Rightarrow> ('c list \<times> 'w, 'e, 'a) act" where
  "callA dep = (\<lambda>(log, w). case dep w of (u, r) \<Rightarrow> ((log, u), r))"

definition loggedA ::
  "('e + 'a \<Rightarrow> 'c) \<Rightarrow> ('w \<Rightarrow> 'w \<times> ('e + 'a)) \<Rightarrow> ('c list \<times> 'w, 'e, 'a) act" where
  "loggedA event dep = (\<lambda>(log, w). case dep w of (u, r) \<Rightarrow> ((log @ [event r], u), r))"

named_theorems act_simps \<open>evaluating actions\<close>

lemma doneA_eval [act_simps]: "doneA x s = (s, Inr x)"
  by (simp add: doneA_def)

lemma failA_eval [act_simps]: "failA e s = (s, Inl e)"
  by (simp add: failA_def)

lemma pureA_eval [act_simps]: "pureA r s = (s, r)"
  by (simp add: pureA_def)

lemma eitherA_eval [act_simps]:
  "eitherA m h k s = (case m s of (t, Inl e) \<Rightarrow> h e t | (t, Inr x) \<Rightarrow> k x t)"
  by (simp add: eitherA_def)

lemma thenA_eval [act_simps]:
  "thenA m k s = (case m s of (t, Inl e) \<Rightarrow> (t, Inl e) | (t, Inr x) \<Rightarrow> k x t)"
  by (simp add: thenA_def act_simps split: prod.splits sum.splits)

lemma mapErrorA_eval [act_simps]:
  "mapErrorA f m s = (case m s of (t, Inl e) \<Rightarrow> (t, Inl (f e)) | (t, Inr x) \<Rightarrow> (t, Inr x))"
  by (simp add: mapErrorA_def act_simps split: prod.splits sum.splits)

lemma askA_eval [act_simps]: "askA g (log, w) = ((log, w), Inr (g w))"
  by (simp add: askA_def)

lemma callA_eval [act_simps]: "callA dep (log, w) = (case dep w of (u, q) \<Rightarrow> ((log, u), q))"
  by (simp add: callA_def)

lemma loggedA_eval [act_simps]:
  "loggedA event dep (log, w) = (case dep w of (u, q) \<Rightarrow> ((log @ [event q], u), q))"
  by (simp add: loggedA_def)

section \<open>What an action logs\<close>

text \<open>
  \<open>logs L m\<close>: whatever the world answers, the calls that \<open>m\<close> adds to the log, with its result,
  satisfy \<open>L\<close>.
\<close>

definition logs :: "('c list \<Rightarrow> 'e + 'a \<Rightarrow> bool) \<Rightarrow> ('c list \<times> 'w, 'e, 'a) act \<Rightarrow> bool" where
  "logs L m \<longleftrightarrow> (\<forall>log w log' w' r. m (log, w) = ((log', w'), r) \<longrightarrow> (\<exists>new. log' = log @ new \<and> L new r))"

lemma logsD:
  "logs L m \<Longrightarrow> m (log, w) = ((log', w'), r) \<Longrightarrow> \<exists>new. log' = log @ new \<and> L new r"
  by (simp add: logs_def)

lemma logs_mono: "logs L m \<Longrightarrow> (\<And>new r. L new r \<Longrightarrow> M new r) \<Longrightarrow> logs M m"
  unfolding logs_def by blast

lemma logs_done: "L [] (Inr x) \<Longrightarrow> logs L (doneA x)"
  by (auto simp: logs_def act_simps)

lemma logs_fail: "L [] (Inl e) \<Longrightarrow> logs L (failA e)"
  by (auto simp: logs_def act_simps)

lemma logs_pure: "L [] r \<Longrightarrow> logs L (pureA r)"
  by (auto simp: logs_def act_simps)

lemma logs_ask: "(\<And>x. L [] (Inr x)) \<Longrightarrow> logs L (askA f)"
  by (auto simp: logs_def act_simps)

lemma logs_call: "(\<And>r. L [] r) \<Longrightarrow> logs L (callA dep)"
  by (auto simp: logs_def act_simps split: prod.splits)

lemma logs_logged: "(\<And>r. L [event r] r) \<Longrightarrow> logs L (loggedA event dep)"
  by (auto simp: logs_def act_simps split: prod.splits)

lemma logs_either:
  assumes "logs M m"
    and "\<And>before e. M before (Inl e) \<Longrightarrow> logs (\<lambda>new r. L (before @ new) r) (h e)"
    and "\<And>before x. M before (Inr x) \<Longrightarrow> logs (\<lambda>new r. L (before @ new) r) (k x)"
  shows "logs L (eitherA m h k)"
  unfolding logs_def
proof (intro allI impI)
  fix log w log' w' r
  assume run: "eitherA m h k (log, w) = ((log', w'), r)"
  obtain log1 w1 r1 where m: "m (log, w) = ((log1, w1), r1)" by (metis prod.collapse)
  then obtain before where before: "log1 = log @ before" "M before r1"
    using logsD [OF assms(1)] by blast
  show "\<exists>new. log' = log @ new \<and> L new r"
  proof (cases r1)
    case (Inl e)
    with run m have "h e (log1, w1) = ((log', w'), r)" by (simp add: act_simps)
    with logsD [OF assms(2)] before Inl show ?thesis by fastforce
  next
    case (Inr x)
    with run m have "k x (log1, w1) = ((log', w'), r)" by (simp add: act_simps)
    with logsD [OF assms(3)] before Inr show ?thesis by fastforce
  qed
qed

lemma logs_then:
  assumes "logs M m"
    and "\<And>before e. M before (Inl e) \<Longrightarrow> L before (Inl e)"
    and "\<And>before x. M before (Inr x) \<Longrightarrow> logs (\<lambda>new r. L (before @ new) r) (k x)"
  shows "logs L (thenA m k)"
  unfolding thenA_def
proof (rule logs_either [OF assms(1)])
  show "logs (\<lambda>new. L (before @ new)) (failA e)" if "M before (Inl e)" for before e
    by (rule logs_fail) (simp add: assms(2) that)
qed (rule assms(3))

lemma logs_mapError:
  assumes "logs M m" and "\<And>before e. M before (Inl e) \<Longrightarrow> L before (Inl (f e))"
    and "\<And>before x. M before (Inr x) \<Longrightarrow> L before (Inr x)"
  shows "logs L (mapErrorA f m)"
  unfolding mapErrorA_def
proof (rule logs_either [OF assms(1)])
  show "logs (\<lambda>new. L (before @ new)) (failA (f e))" if "M before (Inl e)" for before e
    by (rule logs_fail) (simp add: assms(2) that)
  show "logs (\<lambda>new. L (before @ new)) (doneA x)" if "M before (Inr x)" for before x
    by (rule logs_done) (simp add: assms(3) that)
qed

section \<open>Actions that log nothing\<close>

abbreviation quiet :: "('c list \<times> 'w, 'e, 'a) act \<Rightarrow> bool" where
  "quiet m \<equiv> logs (\<lambda>new r. new = []) m"

lemmas logs_intros = logs_done logs_fail logs_pure logs_ask logs_call

lemma quiet_either:
  assumes "quiet m" and "\<And>e. quiet (h e)" and "\<And>x. quiet (k x)"
  shows "quiet (eitherA m h k)"
  by (rule logs_either [OF assms(1)]) (simp_all add: assms(2,3))

lemma quiet_then:
  assumes "quiet m" and "\<And>x. quiet (k x)"
  shows "quiet (thenA m k)"
  by (rule logs_then [OF assms(1)]) (simp_all add: assms(2))

lemma then_quiet:
  assumes "quiet m" and "\<And>e. L [] (Inl e)" and "\<And>x. logs L (k x)"
  shows "logs L (thenA m k)"
  by (rule logs_then [OF assms(1)]) (simp_all add: assms(2,3))

lemma either_quiet:
  assumes "quiet m" and "\<And>e. logs L (h e)" and "\<And>x. logs L (k x)"
  shows "logs L (eitherA m h k)"
  by (rule logs_either [OF assms(1)]) (simp_all add: assms(2,3))

lemma logged_either:
  assumes "\<And>e. logs (\<lambda>new r. L (event (Inl e) # new) r) (h e)"
    and "\<And>x. logs (\<lambda>new r. L (event (Inr x) # new) r) (k x)"
  shows "logs L (eitherA (loggedA event dep) h k)"
proof (rule logs_either)
  show "logs (\<lambda>new r. new = [event r]) (loggedA event dep)" by (rule logs_logged) simp
qed (simp_all add: assms)

text \<open>Actions that log nothing and whose result satisfies \<open>P\<close>.\<close>

abbreviation quietly :: "('a \<Rightarrow> bool) \<Rightarrow> ('c list \<times> 'w, 'e, 'a) act \<Rightarrow> bool" where
  "quietly P m \<equiv> logs (\<lambda>new r. new = [] \<and> (\<forall>x. r = Inr x \<longrightarrow> P x)) m"

lemma quietly_then:
  assumes "quietly P m" and "\<And>e. L [] (Inl e)" and "\<And>x. P x \<Longrightarrow> logs L (k x)"
  shows "logs L (thenA m k)"
  by (rule logs_then [OF assms(1)]) (auto simp: assms(2,3))

lemma pure_bind:
  fixes L :: "'c list \<Rightarrow> 'e + 'b \<Rightarrow> bool"
  assumes "\<And>e. L [] (Inl e)" and "\<And>x. r = Inr x \<Longrightarrow> logs L (k x)"
  shows "logs L (thenA (pureA r) k)"
  by (rule quietly_then [where P = "\<lambda>x. r = Inr x"]) (simp_all add: logs_pure assms)

section \<open>What an action keeps\<close>

text \<open>
  \<open>logsIn I L m\<close>: started in a world that satisfies \<open>I\<close>, the action \<open>m\<close> ends in one, and what it
  logs, with its result, satisfies \<open>L\<close>.
\<close>

definition logsIn ::
  "('w \<Rightarrow> bool) \<Rightarrow> ('c list \<Rightarrow> 'e + 'a \<Rightarrow> bool) \<Rightarrow> ('c list \<times> 'w, 'e, 'a) act \<Rightarrow> bool" where
  "logsIn I L m \<longleftrightarrow> (\<forall>log w log' w' r. I w \<longrightarrow> m (log, w) = ((log', w'), r)
     \<longrightarrow> I w' \<and> (\<exists>new. log' = log @ new \<and> L new r))"

definition keeps :: "('w \<Rightarrow> bool) \<Rightarrow> ('w \<Rightarrow> 'w \<times> 'a) \<Rightarrow> bool" where
  "keeps I dep \<longleftrightarrow> (\<forall>w. I w \<longrightarrow> I (fst (dep w)))"

lemma keeps_True [simp]: "keeps (\<lambda>_. True) dep"
  by (simp add: keeps_def)

lemma logsInD:
  "logsIn I L m \<Longrightarrow> I w \<Longrightarrow> m (log, w) = ((log', w'), r)
     \<Longrightarrow> I w' \<and> (\<exists>new. log' = log @ new \<and> L new r)"
  unfolding logsIn_def by blast

lemma logsIn_mono: "logsIn I L m \<Longrightarrow> (\<And>new r. L new r \<Longrightarrow> M new r) \<Longrightarrow> logsIn I M m"
  unfolding logsIn_def by blast

lemma logsIn_done: "L [] (Inr x) \<Longrightarrow> logsIn I L (doneA x)"
  by (auto simp: logsIn_def act_simps)

lemma logsIn_fail: "L [] (Inl e) \<Longrightarrow> logsIn I L (failA e)"
  by (auto simp: logsIn_def act_simps)

lemma logsIn_call:
  assumes "keeps I dep" and "\<And>r. L [] r"
  shows "logsIn I L (callA dep)"
  using assms by (auto simp: logsIn_def keeps_def act_simps split: prod.splits)

lemma logsIn_logged:
  assumes "keeps I dep" and "\<And>w w' r. I w \<Longrightarrow> dep w = (w', r) \<Longrightarrow> L [event r] r"
  shows "logsIn I L (loggedA event dep)"
  using assms by (auto simp: logsIn_def keeps_def act_simps split: prod.splits)

lemma logsIn_either:
  assumes "logsIn I M m"
    and "\<And>before e. M before (Inl e) \<Longrightarrow> logsIn I (\<lambda>new r. L (before @ new) r) (h e)"
    and "\<And>before x. M before (Inr x) \<Longrightarrow> logsIn I (\<lambda>new r. L (before @ new) r) (k x)"
  shows "logsIn I L (eitherA m h k)"
  unfolding logsIn_def
proof (intro allI impI)
  fix log w log' w' r
  assume start: "I w" and run: "eitherA m h k (log, w) = ((log', w'), r)"
  obtain log1 w1 r1 where m: "m (log, w) = ((log1, w1), r1)" by (metis prod.collapse)
  then obtain before where before: "log1 = log @ before" "M before r1" "I w1"
    using logsInD [OF assms(1) start] by blast
  show "I w' \<and> (\<exists>new. log' = log @ new \<and> L new r)"
  proof (cases r1)
    case (Inl e)
    with run m have "h e (log1, w1) = ((log', w'), r)" by (simp add: act_simps)
    with logsInD [OF assms(2) before(3)] before Inl show ?thesis by fastforce
  next
    case (Inr x)
    with run m have "k x (log1, w1) = ((log', w'), r)" by (simp add: act_simps)
    with logsInD [OF assms(3) before(3)] before Inr show ?thesis by fastforce
  qed
qed

lemma logsIn_then:
  assumes "logsIn I M m"
    and "\<And>before e. M before (Inl e) \<Longrightarrow> L before (Inl e)"
    and "\<And>before x. M before (Inr x) \<Longrightarrow> logsIn I (\<lambda>new r. L (before @ new) r) (k x)"
  shows "logsIn I L (thenA m k)"
  unfolding thenA_def
proof (rule logsIn_either [OF assms(1)])
  show "logsIn I (\<lambda>new. L (before @ new)) (failA e)" if "M before (Inl e)" for before e
    by (rule logsIn_fail) (simp add: assms(2) that)
qed (rule assms(3))

abbreviation quietlyIn :: "('w \<Rightarrow> bool) \<Rightarrow> ('a \<Rightarrow> bool) \<Rightarrow> ('c list \<times> 'w, 'e, 'a) act \<Rightarrow> bool" where
  "quietlyIn I P m \<equiv> logsIn I (\<lambda>new r. new = [] \<and> (\<forall>x. r = Inr x \<longrightarrow> P x)) m"

lemma quietlyIn_then:
  assumes "quietlyIn I P m" and "\<And>e. L [] (Inl e)" and "\<And>x. P x \<Longrightarrow> logsIn I L (k x)"
  shows "logsIn I L (thenA m k)"
  by (rule logsIn_then [OF assms(1)]) (auto simp: assms(2,3))

lemma quietlyIn_either:
  assumes "quietlyIn I P m" and "\<And>e. logsIn I L (h e)" and "\<And>x. P x \<Longrightarrow> logsIn I L (k x)"
  shows "logsIn I L (eitherA m h k)"
  by (rule logsIn_either [OF assms(1)]) (auto simp: assms(2,3))

lemma quietlyIn_pure: "(\<And>x. r = Inr x \<Longrightarrow> P x) \<Longrightarrow> quietlyIn I P (pureA r)"
  by (auto simp: logsIn_def act_simps)

lemma pureIn_bind:
  assumes "\<And>e. L [] (Inl e)" and "\<And>x. r = Inr x \<Longrightarrow> logsIn I L (k x)"
  shows "logsIn I L (thenA (pureA r) k)"
  by (rule quietlyIn_then [OF quietlyIn_pure [where P = "\<lambda>x. r = Inr x"]]) (simp_all add: assms)

lemma quietlyIn_call: "keeps I dep \<Longrightarrow> quietlyIn I (\<lambda>_. True) (callA dep)"
  by (rule logsIn_call) simp_all

lemma quietlyIn_ask: "quietlyIn I (\<lambda>_. True) (askA f)"
  by (auto simp: logsIn_def act_simps)

lemma loggedIn_either:
  assumes "keeps I dep"
    and "\<And>w w' e. I w \<Longrightarrow> dep w = (w', Inl e) \<Longrightarrow> logsIn I (\<lambda>new r. L (event (Inl e) # new) r) (h e)"
    and "\<And>w w' x. I w \<Longrightarrow> dep w = (w', Inr x) \<Longrightarrow> logsIn I (\<lambda>new r. L (event (Inr x) # new) r) (k x)"
  shows "logsIn I L (eitherA (loggedA event dep) h k)"
proof (rule logsIn_either)
  show "logsIn I (\<lambda>new r. new = [event r] \<and> (\<exists>w w'. I w \<and> dep w = (w', r))) (loggedA event dep)"
    by (rule logsIn_logged [OF assms(1)]) auto
qed (use assms(2,3) in auto)

section \<open>Where an action ends\<close>

text \<open>
  \<open>logsFrom w L m\<close>: started in the world \<open>w\<close>, the calls that \<open>m\<close> adds to the log, the world it
  ends in and its result satisfy \<open>L\<close>.
\<close>

definition logsFrom ::
  "'w \<Rightarrow> ('c list \<Rightarrow> 'w \<Rightarrow> 'e + 'a \<Rightarrow> bool) \<Rightarrow> ('c list \<times> 'w, 'e, 'a) act \<Rightarrow> bool" where
  "logsFrom w L m \<longleftrightarrow> (\<forall>log log' w' r. m (log, w) = ((log', w'), r) \<longrightarrow> (\<exists>new. log' = log @ new \<and> L new w' r))"

lemma logsFromD:
  "logsFrom w L m \<Longrightarrow> m (log, w) = ((log', w'), r) \<Longrightarrow> \<exists>new. log' = log @ new \<and> L new w' r"
  by (simp add: logsFrom_def)

lemma logsFrom_mono: "logsFrom w L m \<Longrightarrow> (\<And>new v r. L new v r \<Longrightarrow> M new v r) \<Longrightarrow> logsFrom w M m"
  unfolding logsFrom_def by blast

lemma logsFrom_logs: "logs L m \<Longrightarrow> logsFrom w (\<lambda>new v r. L new r) m"
  unfolding logsFrom_def logs_def by blast

lemma logsFrom_done: "L [] w (Inr x) \<Longrightarrow> logsFrom w L (doneA x)"
  by (auto simp: logsFrom_def act_simps)

lemma logsFrom_fail: "L [] w (Inl e) \<Longrightarrow> logsFrom w L (failA e)"
  by (auto simp: logsFrom_def act_simps)

lemma logsFrom_pure: "L [] w r \<Longrightarrow> logsFrom w L (pureA r)"
  by (auto simp: logsFrom_def act_simps)

lemma logsFrom_ask: "(\<And>x. L [] w (Inr x)) \<Longrightarrow> logsFrom w L (askA f)"
  by (auto simp: logsFrom_def act_simps)

lemma logsFrom_call: "(\<And>v r. dep w = (v, r) \<Longrightarrow> L [] v r) \<Longrightarrow> logsFrom w L (callA dep)"
  by (auto simp: logsFrom_def act_simps split: prod.splits)

lemma logsFrom_logged: "(\<And>v r. dep w = (v, r) \<Longrightarrow> L [event r] v r) \<Longrightarrow> logsFrom w L (loggedA event dep)"
  by (auto simp: logsFrom_def act_simps split: prod.splits)

lemmas logsFrom_intros = logsFrom_done logsFrom_fail logsFrom_pure logsFrom_ask logsFrom_call

lemma logsFrom_either:
  assumes "logsFrom w M m"
    and "\<And>before v e. M before v (Inl e) \<Longrightarrow> logsFrom v (\<lambda>new. L (before @ new)) (h e)"
    and "\<And>before v x. M before v (Inr x) \<Longrightarrow> logsFrom v (\<lambda>new. L (before @ new)) (k x)"
  shows "logsFrom w L (eitherA m h k)"
  unfolding logsFrom_def
proof (intro allI impI)
  fix log log' w' r
  assume run: "eitherA m h k (log, w) = ((log', w'), r)"
  obtain log1 w1 r1 where m: "m (log, w) = ((log1, w1), r1)" by (metis prod.collapse)
  then obtain before where before: "log1 = log @ before" "M before w1 r1"
    using logsFromD [OF assms(1)] by blast
  show "\<exists>new. log' = log @ new \<and> L new w' r"
  proof (cases r1)
    case (Inl e)
    with run m have "h e (log1, w1) = ((log', w'), r)" by (simp add: act_simps)
    with logsFromD [OF assms(2)] before Inl show ?thesis by fastforce
  next
    case (Inr x)
    with run m have "k x (log1, w1) = ((log', w'), r)" by (simp add: act_simps)
    with logsFromD [OF assms(3)] before Inr show ?thesis by fastforce
  qed
qed

lemma logsFrom_then:
  assumes "logsFrom w M m"
    and "\<And>before v e. M before v (Inl e) \<Longrightarrow> L before v (Inl e)"
    and "\<And>before v x. M before v (Inr x) \<Longrightarrow> logsFrom v (\<lambda>new. L (before @ new)) (k x)"
  shows "logsFrom w L (thenA m k)"
  unfolding thenA_def
proof (rule logsFrom_either [OF assms(1)])
  show "logsFrom v (\<lambda>new. L (before @ new)) (failA e)" if "M before v (Inl e)" for before v e
    by (rule logsFrom_fail) (simp add: assms(2) that)
qed (rule assms(3))

lemma thenFrom_quiet:
  assumes "quiet m" and "\<And>v e. L [] v (Inl e)" and "\<And>v x. logsFrom v L (k x)"
  shows "logsFrom w L (thenA m k)"
  by (rule logsFrom_then [OF logsFrom_logs [OF assms(1)]]) (simp_all add: assms(2,3))

lemma loggedFrom_either:
  assumes "\<And>v e. logsFrom v (\<lambda>new. L (event (Inl e) # new)) (h e)"
    and "\<And>v x. dep w = (v, Inr x) \<Longrightarrow> logsFrom v (\<lambda>new. L (event (Inr x) # new)) (k x)"
  shows "logsFrom w L (eitherA (loggedA event dep) h k)"
proof (rule logsFrom_either)
  show "logsFrom w (\<lambda>new v r. new = [event r] \<and> dep w = (v, r)) (loggedA event dep)"
    by (rule logsFrom_logged) simp
qed (simp_all add: assms)

abbreviation quietlyFrom ::
  "'w \<Rightarrow> ('w \<Rightarrow> 'a \<Rightarrow> bool) \<Rightarrow> ('c list \<times> 'w, 'e, 'a) act \<Rightarrow> bool" where
  "quietlyFrom w P m \<equiv> logsFrom w (\<lambda>new v r. new = [] \<and> (\<forall>x. r = Inr x \<longrightarrow> P v x)) m"

lemma quietlyFrom_then:
  assumes "quietlyFrom w P m" and "\<And>v e. L [] v (Inl e)" and "\<And>v x. P v x \<Longrightarrow> logsFrom v L (k x)"
  shows "logsFrom w L (thenA m k)"
  by (rule logsFrom_then [OF assms(1)]) (auto simp: assms(2,3))

lemma pureFrom_bind:
  fixes L :: "'c list \<Rightarrow> 'w \<Rightarrow> 'e + 'b \<Rightarrow> bool"
  assumes "\<And>v e. L [] v (Inl e)" and "\<And>x. r = Inr x \<Longrightarrow> logsFrom w L (k x)"
  shows "logsFrom w L (thenA (pureA r) k)"
  by (rule quietlyFrom_then [where P = "\<lambda>v x. v = w \<and> r = Inr x"])
    (auto simp: logsFrom_pure assms)

end
