(* ===== verification/Keyset_Snapshot.thy ===== *)
theory Keyset_Snapshot
  imports Melt_Quote
begin

text \<open>
  \<^verbatim>\<open>packages/cashu/src/keyset-snapshot.ts\<close>: NUT-02 keyset snapshots of a mint.  An object of keys by
  amount is the list of its entries; a snapshot keeps its keysets in increasing order of their ids
  and the keys of each in increasing order of their amounts.  A missing field and a field that is
  \<open>null\<close> are both \<^theory_text>\<open>None\<close>, as the code treats them alike.
\<close>

section \<open>Snapshots\<close>

record keyset_entry_input =
  ksi_active :: bool
  ksi_finalExpiry :: "int option"
  ksi_id :: string
  ksi_inputFeePpk :: "int option"
  ksi_keys :: "(string \<times> string) list"
  ksi_unit :: string

record keyset_entry =
  kse_active :: bool
  kse_finalExpiry :: "int option"
  kse_id :: string
  kse_inputFeePpk :: int
  kse_keys :: "(string \<times> string) list"
  kse_unit :: string

record keyset_snapshot_input =
  kssi_keysets :: "keyset_entry_input list"
  kssi_mintUrl :: string
  kssi_observedAt :: int
  kssi_schemaVersion :: "int option"

record keyset_snapshot =
  kss_keysets :: "keyset_entry list"
  kss_mintUrl :: string
  kss_observedAt :: int
  kss_schemaVersion :: int

datatype keyset_snapshot_error =
    KS_duplicate_keyset | KS_empty_keyset_set | KS_invalid_keyset | KS_invalid_mint
  | KS_invalid_observed_at | KS_invalid_snapshot | KS_keyset_limit_exceeded
  | KS_unsupported_keyset_version

definition CASHU_KEYSET_SNAPSHOT_SCHEMA_VERSION :: int where
  "CASHU_KEYSET_SNAPSHOT_SCHEMA_VERSION = 1"

definition MAX_CASHU_KEYSETS_PER_SNAPSHOT :: nat where
  "MAX_CASHU_KEYSETS_PER_SNAPSHOT = 64"

definition MAX_CASHU_KEYS_PER_KEYSET :: nat where
  "MAX_CASHU_KEYS_PER_KEYSET = 256"

definition MAX_U64 :: int where
  "MAX_U64 = 18446744073709551615"

text \<open>\<^verbatim>\<open>/^[1-9][0-9]*$/\<close>, \<^verbatim>\<open>/^[a-z0-9][a-z0-9._:-]*$/\<close> and the pattern of other keyset versions.\<close>

definition keyAmountPattern :: "string \<Rightarrow> bool" where
  "keyAmountPattern s \<longleftrightarrow>
    (case s of [] \<Rightarrow> False | c # cs \<Rightarrow> isDigit c \<and> c \<noteq> CHR ''0'' \<and> list_all isDigit cs)"

definition unitPattern :: "string \<Rightarrow> bool" where
  "unitPattern s \<longleftrightarrow>
    (case s of [] \<Rightarrow> False
     | c # cs \<Rightarrow> (isLower c \<or> isDigit c)
         \<and> list_all (\<lambda>d. isLower d \<or> isDigit d \<or> d \<in> set ''._:-'') cs)"

definition otherKeysetVersionPattern :: "string \<Rightarrow> bool" where
  "otherKeysetVersionPattern s \<longleftrightarrow>
     (take 2 s = ''02'' \<and> hexOfLength 64 (drop 2 s))
     \<or> (length s = 12 \<and> list_all (\<lambda>c. isAlnum c \<or> c \<in> set ''+_/-'') s)"

text \<open>
  \<open>String.prototype.toLowerCase\<close> on what can become a hexadecimal key: only the ASCII letters.  A
  string with any other letter stays outside the pattern of a public key.
\<close>

definition lowerChar :: "char \<Rightarrow> char" where
  "lowerChar c = (if isUpper c then char_of (of_char c + 32 :: nat) else c)"

definition toLowerCase :: "string \<Rightarrow> string" where
  "toLowerCase s = map lowerChar s"

definition normalizeKey ::
  "cashu_env \<Rightarrow> string \<times> string \<Rightarrow> keyset_snapshot_error + string \<times> string" where
  "normalizeKey env entry =
    (case entry of (amount, publicKey) \<Rightarrow>
     if length amount > 20 \<or> \<not> keyAmountPattern amount \<or> digitsValue amount > MAX_U64
        \<or> length publicKey \<noteq> 66
     then Inl KS_invalid_keyset
     else let canonicalPublicKey = toLowerCase publicKey in
       if \<not> compressedPointPattern canonicalPublicKey then Inl KS_invalid_keyset
       else if \<not> env_pointFromHex env canonicalPublicKey then Inl KS_invalid_keyset
       else Inr (amount, canonicalPublicKey))"

definition normalizeKeys ::
  "cashu_env \<Rightarrow> (string \<times> string) list \<Rightarrow> keyset_snapshot_error + (string \<times> string) list" where
  "normalizeKeys env entries =
    (if length entries = 0 \<or> length entries > MAX_CASHU_KEYS_PER_KEYSET then Inl KS_invalid_keyset
     else bindR (mapR (normalizeKey env) entries) (\<lambda>normalized.
       Inr (sort_key (\<lambda>e. digitsValue (fst e)) normalized)))"

definition normalizeFinalExpiry :: "int option \<Rightarrow> keyset_snapshot_error + int option" where
  "normalizeFinalExpiry v =
    (case v of None \<Rightarrow> Inr None
     | Some t \<Rightarrow> if t = 0 then Inr None
         else bindR (catchR (\<lambda>_. KS_invalid_keyset) (unixTimestamp t)) (\<lambda>u. Inr (Some u)))"

definition normalizeKeyset ::
  "cashu_env \<Rightarrow> keyset_entry_input \<Rightarrow> keyset_snapshot_error + keyset_entry" where
  "normalizeKeyset env input =
    (if \<not> keysetIdPattern (ksi_id input)
     then (if otherKeysetVersionPattern (ksi_id input) then Inl KS_unsupported_keyset_version
           else Inl KS_invalid_keyset)
     else if length (ksi_unit input) > 32 \<or> ksi_unit input \<noteq> jsTrim (ksi_unit input)
        \<or> \<not> unitPattern (ksi_unit input)
     then Inl KS_invalid_keyset
     else let inputFeePpk = (case ksi_inputFeePpk input of None \<Rightarrow> 0 | Some f \<Rightarrow> f) in
     if \<not> isSafeInteger inputFeePpk \<or> inputFeePpk < 0 then Inl KS_invalid_keyset
     else bindR (normalizeFinalExpiry (ksi_finalExpiry input)) (\<lambda>finalExpiry.
     bindR (normalizeKeys env (ksi_keys input)) (\<lambda>keys.
     if \<not> env_verifyKeysetId env
            \<lparr>dto_active = ksi_active input, dto_finalExpiry = finalExpiry, dto_id = ksi_id input,
             dto_inputFeePpk = inputFeePpk, dto_keys = keys, dto_unit = ksi_unit input\<rparr>
     then Inl KS_invalid_keyset
     else Inr \<lparr>kse_active = ksi_active input, kse_finalExpiry = finalExpiry,
       kse_id = ksi_id input, kse_inputFeePpk = inputFeePpk, kse_keys = keys,
       kse_unit = ksi_unit input\<rparr>)))"

text \<open>The \<open>map\<close> callback with its set of seen ids.\<close>

fun normalizeKeysets ::
  "cashu_env \<Rightarrow> string set \<Rightarrow> keyset_entry_input list
     \<Rightarrow> keyset_snapshot_error + keyset_entry list" where
  "normalizeKeysets env seen [] = Inr []"
| "normalizeKeysets env seen (i # is) =
     bindR (normalizeKeyset env i) (\<lambda>k.
     if kse_id k \<in> seen then Inl KS_duplicate_keyset
     else bindR (normalizeKeysets env (insert (kse_id k) seen) is) (\<lambda>ks. Inr (k # ks)))"

definition createCashuKeysetSnapshotV1 ::
  "cashu_env \<Rightarrow> keyset_snapshot_input \<Rightarrow> keyset_snapshot_error + keyset_snapshot" where
  "createCashuKeysetSnapshotV1 env input =
    (if kssi_schemaVersion input \<noteq> None
        \<and> kssi_schemaVersion input \<noteq> Some CASHU_KEYSET_SNAPSHOT_SCHEMA_VERSION
     then Inl KS_invalid_snapshot
     else
     bindR (catchR (\<lambda>_. KS_invalid_mint) (normalizeCashuMintUrl env (kssi_mintUrl input)))
       (\<lambda>mintUrl.
     bindR (catchR (\<lambda>_. KS_invalid_observed_at) (unixTimestamp (kssi_observedAt input)))
       (\<lambda>observedAt.
     if length (kssi_keysets input) = 0 then Inl KS_empty_keyset_set
     else if length (kssi_keysets input) > MAX_CASHU_KEYSETS_PER_SNAPSHOT
     then Inl KS_keyset_limit_exceeded
     else bindR (normalizeKeysets env {} (kssi_keysets input)) (\<lambda>keysets.
       Inr \<lparr>kss_keysets = sort_key kse_id keysets, kss_mintUrl = mintUrl,
            kss_observedAt = observedAt,
            kss_schemaVersion = CASHU_KEYSET_SNAPSHOT_SCHEMA_VERSION\<rparr>))))"

text \<open>A snapshot read back as an input, as the repositories and coordinators do.\<close>

definition keysetInput :: "keyset_entry \<Rightarrow> keyset_entry_input" where
  "keysetInput k =
     \<lparr>ksi_active = kse_active k, ksi_finalExpiry = kse_finalExpiry k, ksi_id = kse_id k,
      ksi_inputFeePpk = Some (kse_inputFeePpk k), ksi_keys = kse_keys k, ksi_unit = kse_unit k\<rparr>"

definition keysetSnapshotInput :: "keyset_snapshot \<Rightarrow> keyset_snapshot_input" where
  "keysetSnapshotInput s =
     \<lparr>kssi_keysets = map keysetInput (kss_keysets s), kssi_mintUrl = kss_mintUrl s,
      kssi_observedAt = kss_observedAt s, kssi_schemaVersion = Some (kss_schemaVersion s)\<rparr>"

section \<open>Normal keysets\<close>

lemma lowerChar_idem [simp]: "lowerChar (lowerChar c) = lowerChar c"
proof (cases "isUpper c")
  case True
  define n :: nat where "n = of_char c"
  have range: "65 \<le> n" "n \<le> 90"
    using True by (auto simp: isUpper_def charIn_def less_eq_char_def n_def)
  then have "of_char (char_of (n + 32) :: char) = n + 32" by simp
  then have "\<not> isUpper (char_of (n + 32))"
    using range by (simp add: isUpper_def charIn_def less_eq_char_def)
  then show ?thesis using True by (simp add: lowerChar_def n_def)
qed (simp add: lowerChar_def)

lemma toLowerCase_simps [simp]:
  "toLowerCase (toLowerCase s) = toLowerCase s" "length (toLowerCase s) = length s"
  by (simp_all add: toLowerCase_def)

definition keyValid :: "cashu_env \<Rightarrow> string \<times> string \<Rightarrow> bool" where
  "keyValid env e \<longleftrightarrow> normalizeKey env e = Inr e"

lemma normalizeKey_keyValid: "normalizeKey env e = Inr f \<Longrightarrow> keyValid env f"
  by (auto simp: normalizeKey_def keyValid_def Let_def split: prod.splits if_splits)

definition keysValid :: "cashu_env \<Rightarrow> (string \<times> string) list \<Rightarrow> bool" where
  "keysValid env ks \<longleftrightarrow> ks \<noteq> [] \<and> length ks \<le> MAX_CASHU_KEYS_PER_KEYSET
     \<and> (\<forall>e \<in> set ks. keyValid env e) \<and> sorted (map (\<lambda>e. digitsValue (fst e)) ks)"

lemma normalizeKeys_valid:
  assumes "normalizeKeys env es = Inr ks"
  shows "keysValid env ks"
proof -
  obtain fs where fs: "mapR (normalizeKey env) es = Inr fs"
      and ks: "ks = sort_key (\<lambda>e. digitsValue (fst e)) fs"
      and size: "es \<noteq> []" "length es \<le> MAX_CASHU_KEYS_PER_KEYSET"
    using assms by (auto simp: normalizeKeys_def result_simps split: if_splits)
  have "\<forall>e \<in> set fs. keyValid env e"
    using mapR_Inr_set [OF fs] normalizeKey_keyValid by blast
  then show ?thesis
    using ks size mapR_length [OF fs] by (auto simp: keysValid_def)
qed

lemma keysValid_recreate: "keysValid env ks \<Longrightarrow> normalizeKeys env ks = Inr ks"
  by (simp add: keysValid_def normalizeKeys_def keyValid_def mapR_id sort_key_id_if_sorted)

lemma normalizeFinalExpiry_iff:
  "normalizeFinalExpiry v = Inr u \<longleftrightarrow>
     (case u of None \<Rightarrow> v = None \<or> v = Some 0 | Some t \<Rightarrow> v = Some t \<and> t \<noteq> 0 \<and> validTimestamp t)"
  by (auto simp: normalizeFinalExpiry_def result_simps split: option.splits if_splits)

definition keysetValid :: "cashu_env \<Rightarrow> keyset_entry \<Rightarrow> bool" where
  "keysetValid env k \<longleftrightarrow> normalizeKeyset env (keysetInput k) = Inr k"

lemma normalizeKeyset_Inr:
  "normalizeKeyset env i = Inr k \<longleftrightarrow>
     keysetIdPattern (kse_id k) \<and> length (kse_unit k) \<le> 32 \<and> kse_unit k = jsTrim (kse_unit k)
     \<and> unitPattern (kse_unit k)
     \<and> (case ksi_inputFeePpk i of None \<Rightarrow> 0 | Some f \<Rightarrow> f) = kse_inputFeePpk k
     \<and> 0 \<le> kse_inputFeePpk k \<and> isSafeInteger (kse_inputFeePpk k)
     \<and> normalizeFinalExpiry (ksi_finalExpiry i) = Inr (kse_finalExpiry k)
     \<and> normalizeKeys env (ksi_keys i) = Inr (kse_keys k)
     \<and> ksi_active i = kse_active k \<and> ksi_id i = kse_id k \<and> ksi_unit i = kse_unit k
     \<and> env_verifyKeysetId env
          \<lparr>dto_active = kse_active k, dto_finalExpiry = kse_finalExpiry k, dto_id = kse_id k,
           dto_inputFeePpk = kse_inputFeePpk k, dto_keys = kse_keys k, dto_unit = kse_unit k\<rparr>"
  by (cases k) (simp add: normalizeKeyset_def Let_def result_simps if_Inl_eq_Inr not_less; blast)

lemma normalizeKeyset_valid:
  assumes "normalizeKeyset env i = Inr k"
  shows "keysetValid env k"
proof -
  have "normalizeFinalExpiry (kse_finalExpiry k) = Inr (kse_finalExpiry k)"
      "normalizeKeys env (kse_keys k) = Inr (kse_keys k)"
    using assms
    by (auto simp: normalizeKeyset_Inr normalizeFinalExpiry_iff
        intro: keysValid_recreate [OF normalizeKeys_valid] split: option.splits)
  then show ?thesis
    using assms unfolding keysetValid_def normalizeKeyset_Inr by (simp add: keysetInput_def)
qed

interpretation keyset: normaliser "normalizeKeyset env" keysetInput for env
  by unfold_locales (use normalizeKeyset_valid in \<open>simp add: keysetValid_def\<close>)

lemma normalizeKeysets_valid:
  "normalizeKeysets env seen is = Inr ks \<Longrightarrow>
     length ks = length is \<and> distinct (map kse_id ks) \<and> seen \<inter> kse_id ` set ks = {}
     \<and> (\<forall>k \<in> set ks. keysetValid env k)"
  by (induction env seen "is" arbitrary: ks rule: normalizeKeysets.induct)
    (fastforce simp: result_simps split: if_splits dest: normalizeKeyset_valid)+

lemma normalizeKeysets_recreate:
  "\<lbrakk>\<forall>k \<in> set ks. keysetValid env k; distinct (map kse_id ks); seen \<inter> kse_id ` set ks = {}\<rbrakk>
   \<Longrightarrow> normalizeKeysets env seen (map keysetInput ks) = Inr ks"
  by (induction ks arbitrary: seen) (auto simp: keysetValid_def)

section \<open>Well-formed snapshots\<close>

definition keysetSnapshotValid :: "cashu_env \<Rightarrow> keyset_snapshot \<Rightarrow> bool" where
  "keysetSnapshotValid env s \<longleftrightarrow>
     normalizeCashuMintUrl env (kss_mintUrl s) = Inr (kss_mintUrl s)
     \<and> validTimestamp (kss_observedAt s) \<and> kss_schemaVersion s = 1
     \<and> kss_keysets s \<noteq> [] \<and> length (kss_keysets s) \<le> MAX_CASHU_KEYSETS_PER_SNAPSHOT
     \<and> strictlyIncreasing (map kse_id (kss_keysets s))
     \<and> (\<forall>k \<in> set (kss_keysets s). keysetValid env k)"

lemma createCashuKeysetSnapshotV1_parts:
  assumes "createCashuKeysetSnapshotV1 env i = Inr s"
  shows "normalizeCashuMintUrl env (kssi_mintUrl i) = Inr (kss_mintUrl s)
     \<and> validTimestamp (kss_observedAt s) \<and> kss_schemaVersion s = 1
     \<and> kss_keysets s \<noteq> [] \<and> length (kss_keysets s) \<le> MAX_CASHU_KEYSETS_PER_SNAPSHOT
     \<and> strictlyIncreasing (map kse_id (kss_keysets s))
     \<and> (\<forall>k \<in> set (kss_keysets s). keysetValid env k)"
  using assms
  by (auto simp: createCashuKeysetSnapshotV1_def result_simps sort_key_strict
      CASHU_KEYSET_SNAPSHOT_SCHEMA_VERSION_def dest!: normalizeKeysets_valid)

lemma createCashuKeysetSnapshotV1_valid:
  assumes "mintUrlStable env" and "createCashuKeysetSnapshotV1 env i = Inr s"
    and "length (kss_mintUrl s) \<le> MAX_CASHU_ENDPOINT_LENGTH"
  shows "keysetSnapshotValid env s"
  using createCashuKeysetSnapshotV1_parts [OF assms(2)] assms(1,3)
  by (auto simp: keysetSnapshotValid_def dest: mintUrlStableD)

lemma keysetSnapshotValid_recreate:
  assumes "keysetSnapshotValid env s"
  shows "createCashuKeysetSnapshotV1 env (keysetSnapshotInput s) = Inr s"
proof -
  have "normalizeKeysets env {} (map keysetInput (kss_keysets s)) = Inr (kss_keysets s)"
    using assms
    by (auto simp: keysetSnapshotValid_def intro!: normalizeKeysets_recreate
        dest: strictlyIncreasing_distinct)
  with assms show ?thesis
    by (auto simp: createCashuKeysetSnapshotV1_def keysetSnapshotInput_def keysetSnapshotValid_def
        CASHU_KEYSET_SNAPSHOT_SCHEMA_VERSION_def sort_key_fixed)
qed

end
