(* ===== verification/Interfaces.thy ===== *)
theory Interfaces
  imports Melt_Quote Proof_State Keyset_Snapshot
begin

text \<open>
  The records that the acquirer's repositories exchange: \<^verbatim>\<open>cashu-stellar-melt-quote-repository.ts\<close>,
  \<^verbatim>\<open>cashu-proof-reservation-repository.ts\<close>, \<^verbatim>\<open>cashu-proof-state-repository.ts\<close> and
  \<^verbatim>\<open>cashu-keyset-repository.ts\<close>.
\<close>

section \<open>Quote attempts\<close>

datatype attempt_body =
    Attempt_creating
  | Attempt_ambiguous string int
  | Attempt_quoted melt_quote "melt_quote list"

record melt_attempt =
  mat_attemptId :: string
  mat_invoiceId :: string
  mat_mintUrl :: string
  mat_operatorId :: string
  mat_paymentId :: string
  mat_request :: melt_quote_request
  mat_schemaVersion :: int
  mat_startedAt :: int
  mat_body :: attempt_body

record begin_attempt_input =
  bat_amount :: int
  bat_attemptId :: string
  bat_paymentId :: string
  bat_request :: string
  bat_startedAt :: int

record ambiguous_attempt_input =
  aat_attemptId :: string
  aat_paymentId :: string
  aat_reason :: string
  aat_recordedAt :: int

record quote_attempt_input =
  qti_attemptId :: string
  qti_paymentId :: string
  qti_quote :: melt_quote

record attempt_result =
  atr_attempt :: melt_attempt
  atr_replayed :: bool

datatype quote_repository_error =
    QR_attempt_conflict | QR_attempt_not_found | QR_custody_not_found | QR_invalid_input
  | QR_invalid_record | QR_invalid_transition | QR_invoice_window_closed
  | QR_observation_conflict | QR_quote_conflict | QR_reservation_not_active
  | QR_reservation_not_found | QR_storage_unavailable | QR_terms_mismatch

section \<open>Proof reservations\<close>

definition CASHU_PROOF_RESERVATION_SCHEMA_VERSION :: int where
  "CASHU_PROOF_RESERVATION_SCHEMA_VERSION = 1"

record reserve_proofs_input =
  prs_invoiceId :: string
  prs_keysetObservedAt :: int
  prs_mintUrl :: string
  prs_operatorId :: string
  prs_paymentId :: string
  prs_proofReferences :: "proof_reference list"
  prs_reservedAt :: int
  prs_unit :: string

record proof_reservation = reserve_proofs_input +
  prs_grossAmount :: int
  prs_schemaVersion :: int

section \<open>Proof-state observations\<close>

record persist_observation_input =
  poi_operatorId :: string
  poi_paymentId :: string
  poi_snapshot :: proof_state_snapshot
  poi_unit :: string

record reserve_proofs_result =
  rpr_replayed :: bool
  rpr_reservation :: proof_reservation

datatype proof_reservation_error =
    PRR_invalid_input | PRR_invalid_record | PRR_invoice_not_open | PRR_keyset_evidence_missing
  | PRR_payment_conflict | PRR_proof_conflict | PRR_reservation_released
  | PRR_reservation_window_closed | PRR_route_not_accepted | PRR_storage_unavailable

section \<open>Keyset observations\<close>

record persist_keysets_input =
  pki_operatorId :: string
  pki_snapshot :: keyset_snapshot
  pki_unit :: string

record persist_keysets_result =
  pkr_replayed :: bool
  pkr_snapshot :: keyset_snapshot

record keyset_query =
  kq_mintUrl :: string
  kq_observedAtOrAfter :: int
  kq_observedAtOrBefore :: int
  kq_operatorId :: string
  kq_unit :: string

datatype keyset_repository_error =
    KSR_invalid_input | KSR_invalid_record | KSR_keyset_collision | KSR_observation_conflict
  | KSR_storage_unavailable

end
