(* ===== verification/Recovery_Coordinator.thy ===== *)
theory Recovery_Coordinator
  imports Effects Interfaces Lifecycle_Operations
begin

text \<open>
  \<^verbatim>\<open>cashu-stellar-melt-recovery-coordinator.ts\<close>: \<open>recover\<close> reads the stored evidence of a payment
  whose melt was dispatched, asks the operator for the state of the quote and of the proofs, stores
  both observations, and then books, releases, waits, or calls for attention.

  The coordinator's dependencies are the record \<open>recovery_deps\<close> of functions on the state \<open>'w\<close> of
  the world.  An error of a repository is \<open>True\<close> when it is a
  \<^verbatim>\<open>CashuProofReservationLifecycleRepositoryError\<close>, the one class the code tells apart there.  A
  clock that throws is one that answers a number \<open>unixTimestamp\<close> rejects.  Quotes and snapshots
  from the operator are taken as received, before the constructors check them.
\<close>

section \<open>Errors, results, dependencies\<close>

datatype coordinator_error =
    RC_clock_unavailable | RC_effect_not_recoverable | RC_evidence_invalid
  | RC_invalid_configuration | RC_invalid_request | RC_operator_not_configured
  | RC_quote_evidence_missing | RC_request_aborted | RC_reservation_not_found
  | RC_storage_unavailable

text \<open>What \<open>recover\<close> throws: its own error, or an error it does not catch.\<close>

datatype recover_failure = Coordinator_error coordinator_error | Uncaught_error

datatype recovery_outcome =
    Recovery_accepted accounting bool
  | Recovery_released bool
  | Recovery_pending int int
  | Recovery_attention string

record recovery_result =
  rr_lifecycle :: lifecycle
  rr_paymentId :: string
  rr_outcome :: recovery_outcome

text \<open>
  The errors of the operator clients, by class and code; \<open>Other_observation_error\<close> is any other,
  such as the error of a constructor that rejects the answer.
\<close>

datatype observation_error =
    Quote_client_error string
  | Proof_observation_error string
  | Proof_http_error string
  | Observation_rejected
  | Other_observation_error

record 'w recovery_deps =
  rd_now :: "'w \<Rightarrow> 'w \<times> (unit + int)"
  rd_aborted :: "'w \<Rightarrow> bool"
  rd_findReservation :: "string \<Rightarrow> 'w \<Rightarrow> 'w \<times> (unit + proof_reservation option)"
  rd_findLifecycle :: "string \<Rightarrow> 'w \<Rightarrow> 'w \<times> (unit + lifecycle option)"
  rd_findAccounting :: "string \<Rightarrow> 'w \<Rightarrow> 'w \<times> (unit + accounting option)"
  rd_findQuote :: "string \<Rightarrow> 'w \<Rightarrow> 'w \<times> (unit + melt_attempt option)"
  rd_check :: "string \<Rightarrow> melt_quote \<Rightarrow> 'w \<Rightarrow> 'w \<times> (observation_error + melt_quote_input)"
  rd_observe :: "string \<Rightarrow> proof_reference list \<Rightarrow> 'w
     \<Rightarrow> 'w \<times> (observation_error + proof_state_snapshot_input)"
  rd_storeQuote :: "quote_attempt_input \<Rightarrow> 'w \<Rightarrow> 'w \<times> (unit + melt_attempt)"
  rd_storeProofState :: "persist_observation_input \<Rightarrow> 'w
     \<Rightarrow> 'w \<times> (unit + proof_state_snapshot_input)"
  rd_acceptPayment :: "acceptance_input \<Rightarrow> 'w \<Rightarrow> 'w \<times> (bool + acceptance)"
  rd_release :: "release_input \<Rightarrow> 'w \<Rightarrow> 'w \<times> (bool + lifecycle_change)"
  rd_recordPending :: "evidence_input \<Rightarrow> 'w \<Rightarrow> 'w \<times> (bool + lifecycle_change)"
  rd_requireAttention :: "attention_input \<Rightarrow> 'w \<Rightarrow> 'w \<times> (bool + lifecycle_change)"

text \<open>The calls that observe the operator or write to a repository, with their answers.\<close>

datatype recovery_call =
    Quote_checked melt_quote "observation_error + melt_quote_input"
  | Quote_stored quote_attempt_input "unit + melt_attempt"
  | Proofs_observed "proof_reference list" "observation_error + proof_state_snapshot_input"
  | Proofs_stored persist_observation_input "unit + proof_state_snapshot_input"
  | Payment_accepted acceptance_input "bool + acceptance"
  | Reservation_released release_input "bool + lifecycle_change"
  | Pending_recorded evidence_input "bool + lifecycle_change"
  | Attention_required attention_input "bool + lifecycle_change"

type_synonym ('w, 'a) recovery_act = "(recovery_call list \<times> 'w, recover_failure, 'a) act"

definition throwCoordinator :: "coordinator_error \<Rightarrow> ('w, 'a) recovery_act" where
  "throwCoordinator e = failA (Coordinator_error e)"

text \<open>The configured operators, by mint.\<close>

record recovery_config =
  rcf_env :: cashu_env
  rcf_quoteMints :: "string list"
  rcf_observerMints :: "string list"

fun configuredByMint :: "cashu_env \<Rightarrow> string list \<Rightarrow> string list \<Rightarrow> coordinator_error + string list" where
  "configuredByMint env configured [] = Inr configured"
| "configuredByMint env configured (v # vs) =
     bindR (catchR (\<lambda>_. RC_invalid_configuration) (normalizeCashuMintUrl env v)) (\<lambda>mintUrl.
     if mintUrl \<in> set configured then Inl RC_invalid_configuration
     else configuredByMint env (configured @ [mintUrl]) vs)"

definition newRecoveryCoordinator ::
  "cashu_env \<Rightarrow> string list \<Rightarrow> string list \<Rightarrow> coordinator_error + recovery_config" where
  "newRecoveryCoordinator env checkers observers =
     bindR (configuredByMint env [] checkers) (\<lambda>quoteMints.
     bindR (configuredByMint env [] observers) (\<lambda>observerMints.
     if quoteMints = [] \<or> observerMints = [] then Inl RC_invalid_configuration
     else Inr \<lparr>rcf_env = env, rcf_quoteMints = quoteMints, rcf_observerMints = observerMints\<rparr>))"

section \<open>Comparing evidence\<close>

definition sameImmutableQuoteTerms :: "melt_quote \<Rightarrow> melt_quote \<Rightarrow> bool" where
  "sameImmutableQuoteTerms left right \<longleftrightarrow>
     mq_amount left = mq_amount right \<and> mq_expiry left = mq_expiry right
     \<and> mq_feeReserve left = mq_feeReserve right \<and> mq_method left = mq_method right
     \<and> mq_mintUrl left = mq_mintUrl right \<and> mq_quoteId left = mq_quoteId right
     \<and> mq_request left = mq_request right \<and> mq_unit left = mq_unit right"

definition sameQuote :: "melt_quote \<Rightarrow> melt_quote \<Rightarrow> bool" where
  "sameQuote left right \<longleftrightarrow> sameImmutableQuoteTerms left right
     \<and> mq_observedAt left = mq_observedAt right \<and> mq_state left = mq_state right"

definition sameProofStateSnapshot :: "proof_state_snapshot \<Rightarrow> proof_state_snapshot \<Rightarrow> bool" where
  "sameProofStateSnapshot left right \<longleftrightarrow>
     pss_mintUrl left = pss_mintUrl right \<and> pss_observedAt left = pss_observedAt right
     \<and> length (pss_states left) = length (pss_states right)
     \<and> list_all (\<lambda>(l, r). pse_y l = pse_y r \<and> pse_state l = pse_state r)
         (zip (pss_states left) (pss_states right))"

text \<open>\<open>None\<close> is \<open>MIXED\<close>.\<close>

definition uniformProofState :: "proof_state_snapshot \<Rightarrow> proof_state_value option" where
  "uniformProofState snapshot =
    (case pss_states snapshot of
       [] \<Rightarrow> None
     | first # rest \<Rightarrow>
         if list_all (\<lambda>s. pse_state s = pse_state first) (first # rest) then Some (pse_state first)
         else None)"

definition laterTimestamp :: "int \<Rightarrow> int \<Rightarrow> int" where
  "laterTimestamp left right = (if left \<ge> right then left else right)"

section \<open>Validating stored evidence\<close>

text \<open>Increasing \<open>y\<close> and the total, as the loop computes them.\<close>

fun sumProofs :: "string option \<Rightarrow> int \<Rightarrow> proof_reference list \<Rightarrow> coordinator_error + int" where
  "sumProofs previousY acc [] = Inr acc"
| "sumProofs previousY acc (p # ps) =
    (if (case previousY of None \<Rightarrow> False | Some y \<Rightarrow> y \<ge> pr_y p) then Inl RC_evidence_invalid
     else sumProofs (Some (pr_y p)) (acc + pr_amount p) ps)"

definition validateReservation ::
  "cashu_env \<Rightarrow> proof_reservation \<Rightarrow> string \<Rightarrow> coordinator_error + proof_reservation" where
  "validateReservation env reservation expectedPaymentId =
    (if prs_schemaVersion reservation \<noteq> CASHU_PROOF_RESERVATION_SCHEMA_VERSION
        \<or> prs_unit reservation \<noteq> CASHU_STELLAR_UNIT
        \<or> prs_proofReferences reservation = [] \<or> length (prs_proofReferences reservation) > 128
     then Inl RC_evidence_invalid
     else
     bindR (catchR (\<lambda>_. RC_evidence_invalid)
              (mapR (createCashuProofReferenceV1 env) (prs_proofReferences reservation))) (\<lambda>proofs.
     bindR (sumProofs None 0 proofs) (\<lambda>totalAmount.
     bindR (catchR (\<lambda>_. RC_evidence_invalid) (minorUnits (prs_grossAmount reservation))) (\<lambda>gross.
     bindR (catchR (\<lambda>_. RC_evidence_invalid) (identifierOf (prs_invoiceId reservation))) (\<lambda>iid.
     bindR (catchR (\<lambda>_. RC_evidence_invalid)
              (unixTimestamp (prs_keysetObservedAt reservation))) (\<lambda>keysetObservedAt.
     bindR (catchR (\<lambda>_. RC_evidence_invalid)
              (normalizeCashuMintUrl env (prs_mintUrl reservation))) (\<lambda>mintUrl.
     bindR (catchR (\<lambda>_. RC_evidence_invalid) (identifierOf (prs_operatorId reservation))) (\<lambda>oid.
     bindR (catchR (\<lambda>_. RC_evidence_invalid) (identifierOf (prs_paymentId reservation))) (\<lambda>pid.
     bindR (catchR (\<lambda>_. RC_evidence_invalid) (unixTimestamp (prs_reservedAt reservation))) (\<lambda>reservedAt.
     if pid \<noteq> expectedPaymentId \<or> totalAmount \<noteq> gross \<or> keysetObservedAt > reservedAt
     then Inl RC_evidence_invalid
     else Inr \<lparr>prs_invoiceId = iid, prs_keysetObservedAt = keysetObservedAt, prs_mintUrl = mintUrl,
          prs_operatorId = oid, prs_paymentId = pid, prs_proofReferences = proofs,
          prs_reservedAt = reservedAt, prs_unit = CASHU_STELLAR_UNIT, prs_grossAmount = gross,
          prs_schemaVersion = CASHU_PROOF_RESERVATION_SCHEMA_VERSION\<rparr>))))))))))"

text \<open>The melt effect of a lifecycle that is still open: its reference and expiry.\<close>

record melt_effect =
  me_effectId :: string
  me_reference :: string
  me_expiresAt :: int
  me_startedAt :: int

definition requireRecoverableEffect :: "lifecycle \<Rightarrow> coordinator_error + melt_effect" where
  "requireRecoverableEffect lifecycle =
    (case lc_effect lifecycle of
       None \<Rightarrow> Inl RC_effect_not_recoverable
     | Some effect \<Rightarrow>
     case oe_kind effect of
       Swap \<Rightarrow> Inl RC_effect_not_recoverable
     | Melt reference expiresAt \<Rightarrow>
         if lc_state lifecycle \<notin> {Dispatch_started, Pending, Needs_attention}
         then Inl RC_effect_not_recoverable
         else Inr \<lparr>me_effectId = oe_effectId effect, me_reference = reference,
              me_expiresAt = expiresAt, me_startedAt = oe_startedAt effect\<rparr>)"

text \<open>The quoted attempt with its latest quote and its observations.\<close>

record recoverable_attempt =
  ra_attempt :: melt_attempt
  ra_latestQuote :: melt_quote
  ra_observations :: "melt_quote list"

definition requireRecoverableAttempt ::
  "cashu_env \<Rightarrow> melt_attempt \<Rightarrow> proof_reservation \<Rightarrow> melt_effect
     \<Rightarrow> coordinator_error + recoverable_attempt" where
  "requireRecoverableAttempt env attempt reservation effect =
    (case mat_body attempt of
       Attempt_quoted latest observations \<Rightarrow>
         if mat_schemaVersion attempt \<noteq> 1 \<or> mat_paymentId attempt \<noteq> prs_paymentId reservation
            \<or> mat_invoiceId attempt \<noteq> prs_invoiceId reservation
            \<or> mat_operatorId attempt \<noteq> prs_operatorId reservation
         then Inl RC_evidence_invalid
         else
         bindR (catchR (\<lambda>_. RC_evidence_invalid) (normalizeCashuMintUrl env (mat_mintUrl attempt)))
           (\<lambda>mintUrl.
         if mintUrl \<noteq> prs_mintUrl reservation \<or> qr_unit (mat_request attempt) \<noteq> CASHU_STELLAR_UNIT
         then Inl RC_evidence_invalid
         else case atLast observations of
           None \<Rightarrow> Inl RC_evidence_invalid
         | Some latestObservation \<Rightarrow>
         bindR (catchR (\<lambda>_. RC_evidence_invalid)
                  (createCashuStellarMeltQuoteV1 env (quoteInput latest))) (\<lambda>latestQuote.
         bindR (catchR (\<lambda>_. RC_evidence_invalid)
                  (createCashuStellarMeltQuoteV1 env (quoteInput latestObservation))) (\<lambda>observed.
         if \<not> sameQuote latestQuote observed
            \<or> mq_quoteId latestQuote \<noteq> me_reference effect
            \<or> mq_expiry latestQuote \<noteq> me_expiresAt effect
            \<or> mq_mintUrl latestQuote \<noteq> prs_mintUrl reservation
            \<or> mat_startedAt attempt > me_startedAt effect
            \<or> me_startedAt effect \<ge> mq_expiry latestQuote
         then Inl RC_evidence_invalid
         else Inr \<lparr>ra_attempt = attempt, ra_latestQuote = latest, ra_observations = observations\<rparr>)))
     | _ \<Rightarrow> Inl RC_evidence_invalid)"

record recovery_context =
  rx_attempt :: recoverable_attempt
  rx_effect :: melt_effect
  rx_lifecycle :: lifecycle
  rx_paymentId :: string
  rx_reservation :: proof_reservation

definition assertObservedQuote :: "melt_quote \<Rightarrow> recovery_context \<Rightarrow> bool" where
  "assertObservedQuote quote context \<longleftrightarrow>
     sameImmutableQuoteTerms quote (ra_latestQuote (rx_attempt context))
     \<and> (case atLast (ra_observations (rx_attempt context)) of
          None \<Rightarrow> False
        | Some last' \<Rightarrow> mq_observedAt last' \<le> mq_observedAt quote
            \<and> (mq_observedAt quote = mq_observedAt last'
                 \<longrightarrow> sameQuote quote (ra_latestQuote (rx_attempt context))))"

definition validateProofStateSnapshot ::
  "cashu_env \<Rightarrow> proof_state_snapshot_input \<Rightarrow> proof_reservation
     \<Rightarrow> coordinator_error + proof_state_snapshot" where
  "validateProofStateSnapshot env input reservation =
     bindR (catchR (\<lambda>_. RC_evidence_invalid) (createCashuProofStateSnapshotV1 env input)) (\<lambda>snapshot.
     if pss_mintUrl snapshot \<noteq> prs_mintUrl reservation
        \<or> length (pss_states snapshot) \<noteq> length (prs_proofReferences reservation)
        \<or> map pse_y (pss_states snapshot) \<noteq> map pr_y (prs_proofReferences reservation)
     then Inl RC_evidence_invalid else Inr snapshot)"

section \<open>Event ids\<close>

definition recoveryFingerprint :: "cashu_env \<Rightarrow> recovery_context \<Rightarrow> string" where
  "recoveryFingerprint env context =
     env_sha256 env (JObj
       [(''domain'', JStr ''cashmesh.acquirer.stellar-melt-recovery.v1''),
        (''effectId'', JStr (me_effectId (rx_effect context))),
        (''mintUrl'', JStr (prs_mintUrl (rx_reservation context))),
        (''paymentId'', JStr (rx_paymentId context)),
        (''quoteId'', JStr (mq_quoteId (ra_latestQuote (rx_attempt context))))])"

text \<open>A malformed id is a \<^verbatim>\<open>TypeError\<close>, which no caller catches.\<close>

definition eventIdOf :: "string \<Rightarrow> recover_failure + string" where
  "eventIdOf v = catchR (\<lambda>_. Uncaught_error) (identifierOf v)"

definition recoveryEventId ::
  "cashu_env \<Rightarrow> recovery_context \<Rightarrow> string \<Rightarrow> int \<Rightarrow> recover_failure + string" where
  "recoveryEventId env context kind evidenceAt =
     eventIdOf (''stellar-melt-recovery:'' @ env_sha256 env (JObj
       [(''evidenceAt'', JNum evidenceAt), (''kind'', JStr kind),
        (''recoveryFingerprint'', JStr (recoveryFingerprint env context))]))"

record terminal_ids =
  ti_acceptedEventId :: string
  ti_journalEntryId :: string
  ti_releasedEventId :: string

definition terminalIds :: "cashu_env \<Rightarrow> recovery_context \<Rightarrow> recover_failure + terminal_ids" where
  "terminalIds env context =
    (let fingerprint = recoveryFingerprint env context in
     bindR (eventIdOf (''stellar-melt-recovery-accepted:'' @ fingerprint)) (\<lambda>accepted.
     bindR (eventIdOf (''stellar-melt-payment:'' @ fingerprint)) (\<lambda>journal.
     bindR (eventIdOf (''stellar-melt-recovery-released:'' @ fingerprint)) (\<lambda>released.
     Inr \<lparr>ti_acceptedEventId = accepted, ti_journalEntryId = journal,
          ti_releasedEventId = released\<rparr>))))"

section \<open>Classifying failed observations\<close>

definition isObservationAbort :: "observation_error \<Rightarrow> bool" where
  "isObservationAbort e \<longleftrightarrow> e = Quote_client_error ''request_aborted''
     \<or> e = Proof_observation_error ''observation_aborted'' \<or> e = Proof_http_error ''request_aborted''"

definition observationFailureReason :: "observation_error \<Rightarrow> string" where
  "observationFailureReason e =
    (case e of
       Quote_client_error c \<Rightarrow>
         if c \<in> {''invalid_response'', ''quote_response_mismatch'', ''response_too_large''}
         then ''operator_response_invalid'' else ''operator_state_unknown''
     | Proof_observation_error c \<Rightarrow>
         if c \<in> {''invalid_state_response'', ''state_response_mismatch''}
         then ''operator_response_invalid'' else ''operator_state_unknown''
     | Proof_http_error c \<Rightarrow>
         if c \<in> {''invalid_response'', ''response_too_large''}
         then ''operator_response_invalid'' else ''operator_state_unknown''
     | Observation_rejected \<Rightarrow> ''operator_response_invalid''
     | Other_observation_error \<Rightarrow> ''operator_state_unknown'')"

end
