(* ===== verification/Recovery_Recover.thy ===== *)
theory Recovery_Recover
  imports Recovery_Coordinator
begin

text \<open>
  The methods of \<^verbatim>\<open>CashuStellarMeltRecoveryCoordinator\<close>, as actions that log every observation
  of the operator and every write.
\<close>

section \<open>Reading\<close>

definition readClock :: "'w recovery_deps \<Rightarrow> ('w, int) recovery_act" where
  "readClock deps =
     eitherA (callA (rd_now deps)) (\<lambda>_. throwCoordinator RC_clock_unavailable)
       (\<lambda>t. pureA (catchR (\<lambda>_. Coordinator_error RC_clock_unavailable) (unixTimestamp t)))"

definition loadRecoveryReservation ::
  "cashu_env \<Rightarrow> 'w recovery_deps \<Rightarrow> string \<Rightarrow> ('w, proof_reservation) recovery_act" where
  "loadRecoveryReservation env deps pid =
     eitherA (callA (rd_findReservation deps pid)) (\<lambda>_. throwCoordinator RC_storage_unavailable)
       (\<lambda>found. case found of
          None \<Rightarrow> throwCoordinator RC_reservation_not_found
        | Some r \<Rightarrow> pureA (catchR Coordinator_error (validateReservation env r pid)))"

definition loadRecoveryLifecycle :: "'w recovery_deps \<Rightarrow> string \<Rightarrow> ('w, lifecycle) recovery_act" where
  "loadRecoveryLifecycle deps pid =
     eitherA (callA (rd_findLifecycle deps pid)) (\<lambda>_. throwCoordinator RC_storage_unavailable)
       (\<lambda>found. case found of
          None \<Rightarrow> throwCoordinator RC_evidence_invalid
        | Some lifecycle \<Rightarrow>
            if lc_paymentId lifecycle \<noteq> pid
               \<or> lc_schemaVersion lifecycle \<noteq> CASHU_PROOF_RESERVATION_LIFECYCLE_SCHEMA_VERSION
            then throwCoordinator RC_evidence_invalid else doneA lifecycle)"

definition loadQuoteAttempt :: "'w recovery_deps \<Rightarrow> string \<Rightarrow> ('w, melt_attempt) recovery_act" where
  "loadQuoteAttempt deps pid =
     eitherA (callA (rd_findQuote deps pid)) (\<lambda>_. throwCoordinator RC_storage_unavailable)
       (\<lambda>found. case found of
          None \<Rightarrow> throwCoordinator RC_quote_evidence_missing | Some a \<Rightarrow> doneA a)"

definition resultOf :: "string \<Rightarrow> lifecycle \<Rightarrow> recovery_outcome \<Rightarrow> recovery_result" where
  "resultOf pid lifecycle outcome =
     \<lparr>rr_lifecycle = lifecycle, rr_paymentId = pid, rr_outcome = outcome\<rparr>"

definition terminalResult ::
  "'w recovery_deps \<Rightarrow> string \<Rightarrow> lifecycle \<Rightarrow> ('w, recovery_result option) recovery_act" where
  "terminalResult deps pid lifecycle =
    (if lc_state lifecycle = Released
     then doneA (Some (resultOf pid lifecycle (Recovery_released True)))
     else if lc_state lifecycle \<noteq> Consumed then doneA None
     else eitherA (callA (rd_findAccounting deps pid)) (\<lambda>_. throwCoordinator RC_storage_unavailable)
       (\<lambda>found. case found of
          None \<Rightarrow> throwCoordinator RC_evidence_invalid
        | Some accounting \<Rightarrow>
            doneA (Some (resultOf pid lifecycle (Recovery_accepted accounting True)))))"

section \<open>Reloading after a failed write\<close>

record expected_event =
  xe_evidenceAt :: int
  xe_evidenceKind :: string
  xe_eventId :: string
  xe_state :: reservation_state

datatype reloaded_recovery = Equivalent_event lifecycle | Terminal_recovery recovery_result

definition expectedEvent :: "lifecycle \<Rightarrow> expected_event \<Rightarrow> bool" where
  "expectedEvent lifecycle expected \<longleftrightarrow> lc_state lifecycle = xe_state expected
     \<and> (case atLast (lc_events lifecycle) of
          None \<Rightarrow> False
        | Some event \<Rightarrow> le_eventId event = xe_eventId expected
            \<and> eventState (le_body event) = xe_state expected
            \<and> eventEvidenceKind (le_body event) = Some (xe_evidenceKind expected)
            \<and> eventEvidenceAt (le_body event) = Some (xe_evidenceAt expected))"

text \<open>Every error on the way is an undefined result.\<close>

definition reloadAfterEventWrite ::
  "'w recovery_deps \<Rightarrow> string \<Rightarrow> expected_event option
     \<Rightarrow> ('w, reloaded_recovery option) recovery_act" where
  "reloadAfterEventWrite deps pid expected =
     eitherA (callA (rd_findLifecycle deps pid)) (\<lambda>_. doneA None)
       (\<lambda>found. case found of
          None \<Rightarrow> doneA None
        | Some lifecycle \<Rightarrow>
            if lc_paymentId lifecycle \<noteq> pid
               \<or> lc_schemaVersion lifecycle \<noteq> CASHU_PROOF_RESERVATION_LIFECYCLE_SCHEMA_VERSION
            then doneA None
            else eitherA (terminalResult deps pid lifecycle) (\<lambda>_. doneA None)
              (\<lambda>terminal. case terminal of
                 Some result \<Rightarrow> doneA (Some (Terminal_recovery result))
               | None \<Rightarrow>
                   if (case expected of None \<Rightarrow> True | Some e \<Rightarrow> \<not> expectedEvent lifecycle e)
                   then doneA None else doneA (Some (Equivalent_event lifecycle))))"

definition reloadTerminal :: "'w recovery_deps \<Rightarrow> string \<Rightarrow> ('w, recovery_result option) recovery_act" where
  "reloadTerminal deps pid =
     thenA (reloadAfterEventWrite deps pid None) (\<lambda>reloaded.
     doneA (case reloaded of Some (Terminal_recovery result) \<Rightarrow> Some result | _ \<Rightarrow> None))"

section \<open>Attention\<close>

definition latestRecordedAt :: "recovery_context \<Rightarrow> int" where
  "latestRecordedAt context =
    (case atLast (lc_events (rx_lifecycle context)) of
       None \<Rightarrow> me_startedAt (rx_effect context) | Some e \<Rightarrow> le_recordedAt e)"

definition recordAttention ::
  "cashu_env \<Rightarrow> 'w recovery_deps \<Rightarrow> recovery_context \<Rightarrow> string \<Rightarrow> int \<Rightarrow> int option
     \<Rightarrow> ('w, recovery_result) recovery_act" where
  "recordAttention env deps context reason evidenceAt knownRecordedAt =
     thenA (case knownRecordedAt of None \<Rightarrow> readClock deps | Some t \<Rightarrow> doneA t) (\<lambda>recordedAt.
     if evidenceAt < me_startedAt (rx_effect context) \<or> recordedAt < evidenceAt
        \<or> recordedAt < latestRecordedAt context
     then throwCoordinator RC_clock_unavailable
     else
     thenA (pureA (recoveryEventId env context (''attention:'' @ reason) evidenceAt)) (\<lambda>eventId.
     let input = \<lparr>ei_effectId = me_effectId (rx_effect context), ei_eventId = eventId,
                  ei_evidenceAt = evidenceAt, ei_paymentId = rx_paymentId context,
                  ei_recordedAt = recordedAt, ai_reason = reason\<rparr>;
         attention = (\<lambda>lifecycle. resultOf (rx_paymentId context) lifecycle (Recovery_attention reason))
     in eitherA (loggedA (Attention_required input) (rd_requireAttention deps input))
          (\<lambda>_. thenA (reloadAfterEventWrite deps (rx_paymentId context)
                  (Some \<lparr>xe_evidenceAt = evidenceAt, xe_evidenceKind = reason, xe_eventId = eventId,
                         xe_state = Needs_attention\<rparr>)) (\<lambda>reloaded.
               case reloaded of
                 Some (Terminal_recovery result) \<Rightarrow> doneA result
               | Some (Equivalent_event lifecycle) \<Rightarrow> doneA (attention lifecycle)
               | None \<Rightarrow> throwCoordinator RC_storage_unavailable))
          (\<lambda>change. doneA (attention (ch_lifecycle change)))))"

definition handleObservationFailure ::
  "cashu_env \<Rightarrow> 'w recovery_deps \<Rightarrow> recovery_context \<Rightarrow> observation_error \<Rightarrow> int option
     \<Rightarrow> ('w, recovery_result) recovery_act" where
  "handleObservationFailure env deps context e evidenceAt =
     thenA (askA (rd_aborted deps)) (\<lambda>aborted.
     if aborted \<or> isObservationAbort e then throwCoordinator RC_request_aborted
     else
     thenA (case evidenceAt of None \<Rightarrow> readClock deps | Some t \<Rightarrow> doneA t) (\<lambda>at.
     recordAttention env deps context (observationFailureReason e) at None))"

section \<open>Terminal writes and waiting\<close>

definition afterFailedWrite ::
  "cashu_env \<Rightarrow> 'w recovery_deps \<Rightarrow> recovery_context \<Rightarrow> bool \<Rightarrow> int \<Rightarrow> int
     \<Rightarrow> ('w, recovery_result) recovery_act" where
  "afterFailedWrite env deps context repositoryError evidenceAt recordedAt =
     thenA (reloadTerminal deps (rx_paymentId context)) (\<lambda>terminal.
     case terminal of
       Some result \<Rightarrow> doneA result
     | None \<Rightarrow>
         if repositoryError
         then recordAttention env deps context ''operator_state_unknown'' evidenceAt (Some recordedAt)
         else throwCoordinator RC_storage_unavailable)"

definition acceptRecovered ::
  "cashu_env \<Rightarrow> 'w recovery_deps \<Rightarrow> recovery_context \<Rightarrow> melt_quote \<Rightarrow> proof_state_snapshot \<Rightarrow> int
     \<Rightarrow> ('w, recovery_result) recovery_act" where
  "acceptRecovered env deps context quote proofState recordedAt =
     thenA (pureA (terminalIds env context)) (\<lambda>ids.
     let input = \<lparr>ei_effectId = me_effectId (rx_effect context),
                  ei_eventId = ti_acceptedEventId ids, ei_evidenceAt = mq_observedAt quote,
                  ei_paymentId = rx_paymentId context, ei_recordedAt = recordedAt,
                  ci_evidenceKind = ''melt_paid'', ci_feeAmount = 0,
                  ci_journalEntryId = ti_journalEntryId ids,
                  ci_proofStateObservedAt = pss_observedAt proofState\<rparr>
     in eitherA (loggedA (Payment_accepted input) (rd_acceptPayment deps input))
          (\<lambda>e. afterFailedWrite env deps context e (pss_observedAt proofState) recordedAt)
          (\<lambda>accepted. doneA (resultOf (rx_paymentId context) (ch_lifecycle (an_change accepted))
             (Recovery_accepted (an_accounting accepted) (ch_replayed (an_change accepted))))))"

definition releaseReservation ::
  "cashu_env \<Rightarrow> 'w recovery_deps \<Rightarrow> recovery_context \<Rightarrow> melt_quote \<Rightarrow> proof_state_snapshot \<Rightarrow> int
     \<Rightarrow> ('w, recovery_result) recovery_act" where
  "releaseReservation env deps context quote proofState recordedAt =
     thenA (pureA (terminalIds env context)) (\<lambda>ids.
     let input = \<lparr>ri_eventId = ti_releasedEventId ids, ri_paymentId = rx_paymentId context,
                  ri_recordedAt = recordedAt, ri_kind = ''after_failure'',
                  ri_effectId = Some (me_effectId (rx_effect context)),
                  ri_evidenceAt = Some (mq_observedAt quote),
                  ri_evidenceKind = Some ''melt_unpaid_after_expiry'',
                  ri_proofStateObservedAt = Some (pss_observedAt proofState)\<rparr>
     in eitherA (loggedA (Reservation_released input) (rd_release deps input))
          (\<lambda>e. afterFailedWrite env deps context e (pss_observedAt proofState) recordedAt)
          (\<lambda>released. doneA (resultOf (rx_paymentId context) (ch_lifecycle released)
             (Recovery_released (ch_replayed released)))))"

definition pendingResult ::
  "cashu_env \<Rightarrow> 'w recovery_deps \<Rightarrow> recovery_context \<Rightarrow> melt_quote \<Rightarrow> proof_state_snapshot \<Rightarrow> int
     \<Rightarrow> ('w, recovery_result) recovery_act" where
  "pendingResult env deps context quote proofState recordedAt =
    (let pending = (\<lambda>lifecycle. resultOf (rx_paymentId context) lifecycle
                      (Recovery_pending (pss_observedAt proofState) (mq_observedAt quote)))
     in if mq_state quote \<noteq> Quote_pending then doneA (pending (rx_lifecycle context))
        else
        thenA (pureA (recoveryEventId env context ''pending'' (mq_observedAt quote))) (\<lambda>eventId.
        let input = \<lparr>ei_effectId = me_effectId (rx_effect context), ei_eventId = eventId,
                     ei_evidenceAt = mq_observedAt quote, ei_paymentId = rx_paymentId context,
                     ei_recordedAt = recordedAt\<rparr>
        in eitherA (loggedA (Pending_recorded input) (rd_recordPending deps input))
             (\<lambda>_. thenA (reloadAfterEventWrite deps (rx_paymentId context)
                     (Some \<lparr>xe_evidenceAt = mq_observedAt quote, xe_evidenceKind = ''operator_pending'',
                            xe_eventId = eventId, xe_state = Pending\<rparr>)) (\<lambda>reloaded.
                  case reloaded of
                    Some (Terminal_recovery result) \<Rightarrow> doneA result
                  | Some (Equivalent_event lifecycle) \<Rightarrow> doneA (pending lifecycle)
                  | None \<Rightarrow> throwCoordinator RC_storage_unavailable))
             (\<lambda>change. doneA (pending (ch_lifecycle change)))))"

section \<open>The decision\<close>

definition decideRecovery ::
  "cashu_env \<Rightarrow> 'w recovery_deps \<Rightarrow> recovery_context \<Rightarrow> melt_quote \<Rightarrow> proof_state_snapshot
     \<Rightarrow> ('w, recovery_result) recovery_act" where
  "decideRecovery env deps context quote proofState =
     thenA (readClock deps) (\<lambda>recordedAt.
     if mq_observedAt quote < me_startedAt (rx_effect context)
        \<or> pss_observedAt proofState < mq_observedAt quote
        \<or> recordedAt < latestRecordedAt context \<or> recordedAt < pss_observedAt proofState
     then throwCoordinator RC_clock_unavailable
     else
     let state = uniformProofState proofState in
     if mq_state quote = Quote_paid \<and> state = Some Proof_spent
     then acceptRecovered env deps context quote proofState recordedAt
     else if mq_state quote = Quote_unpaid \<and> mq_observedAt quote \<ge> mq_expiry quote
             \<and> state = Some Proof_unspent
     then releaseReservation env deps context quote proofState recordedAt
     else if mq_state quote = Quote_pending \<and> (state = Some Proof_pending \<or> state = Some Proof_unspent)
             \<or> mq_state quote = Quote_unpaid \<and> mq_observedAt quote < mq_expiry quote
               \<and> state = Some Proof_unspent
     then pendingResult env deps context quote proofState recordedAt
     else recordAttention env deps context ''operator_state_unknown''
       (laterTimestamp (mq_observedAt quote) (pss_observedAt proofState)) (Some recordedAt))"

text \<open>What follows when an observation cannot be stored.\<close>

definition storeFailure ::
  "cashu_env \<Rightarrow> 'w recovery_deps \<Rightarrow> recovery_context \<Rightarrow> int \<Rightarrow> ('w, recovery_result) recovery_act" where
  "storeFailure env deps context evidenceAt =
     thenA (reloadTerminal deps (rx_paymentId context)) (\<lambda>terminal.
     case terminal of
       Some result \<Rightarrow> doneA result
     | None \<Rightarrow> recordAttention env deps context ''operator_state_unknown'' evidenceAt None)"

definition observeProofs ::
  "cashu_env \<Rightarrow> 'w recovery_deps \<Rightarrow> recovery_context \<Rightarrow> melt_quote
     \<Rightarrow> ('w, recovery_result) recovery_act" where
  "observeProofs env deps context quote =
    (let reservation = rx_reservation context; proofs = prs_proofReferences reservation in
     eitherA
       (thenA (loggedA (Proofs_observed proofs) (rd_observe deps (prs_mintUrl reservation) proofs)) (\<lambda>answer.
        pureA (catchR (\<lambda>_. Observation_rejected) (validateProofStateSnapshot env answer reservation))))
       (\<lambda>e. handleObservationFailure env deps context e (Some (mq_observedAt quote)))
       (\<lambda>proofState.
        let input = \<lparr>poi_operatorId = prs_operatorId reservation, poi_paymentId = rx_paymentId context,
                     poi_snapshot = proofState, poi_unit = prs_unit reservation\<rparr>
        in eitherA
          (thenA (loggedA (Proofs_stored input) (rd_storeProofState deps input)) (\<lambda>stored.
           pureA (bindR (catchR (\<lambda>_. ()) (validateProofStateSnapshot env stored reservation)) (\<lambda>s.
             throwIf (\<not> sameProofStateSnapshot s proofState) ()))))
          (\<lambda>_. storeFailure env deps context
             (laterTimestamp (mq_observedAt quote) (pss_observedAt proofState)))
          (\<lambda>_. decideRecovery env deps context quote proofState)))"

definition observeQuote ::
  "cashu_env \<Rightarrow> 'w recovery_deps \<Rightarrow> recovery_context \<Rightarrow> ('w, recovery_result) recovery_act" where
  "observeQuote env deps context =
    (let reservation = rx_reservation context; latest = ra_latestQuote (rx_attempt context);
         attempt = ra_attempt (rx_attempt context) in
     eitherA
       (thenA (loggedA (Quote_checked latest) (rd_check deps (prs_mintUrl reservation) latest)) (\<lambda>answer.
        pureA (bindR (catchR (\<lambda>_. Other_observation_error) (createCashuStellarMeltQuoteV1 env answer))
          (\<lambda>quote. if assertObservedQuote quote context then Inr quote else Inl Observation_rejected))))
       (\<lambda>e. handleObservationFailure env deps context e None)
       (\<lambda>quote.
        let input = \<lparr>qti_attemptId = mat_attemptId attempt, qti_paymentId = rx_paymentId context,
                     qti_quote = quote\<rparr>
        in eitherA
          (thenA (loggedA (Quote_stored input) (rd_storeQuote deps input)) (\<lambda>stored.
           pureA (bindR (catchR (\<lambda>_. ())
                    (requireRecoverableAttempt env stored reservation (rx_effect context))) (\<lambda>a.
             throwIf (\<not> sameQuote (ra_latestQuote a) quote) ()))))
          (\<lambda>_. storeFailure env deps context (mq_observedAt quote))
          (\<lambda>_. observeProofs env deps context quote)))"

text \<open>\<open>recover\<close> from the point where the lifecycle is known not to be terminal.\<close>

definition recoverOpen ::
  "recovery_config \<Rightarrow> 'w recovery_deps \<Rightarrow> string \<Rightarrow> proof_reservation \<Rightarrow> lifecycle
     \<Rightarrow> ('w, recovery_result) recovery_act" where
  "recoverOpen config deps pid reservation lifecycle =
     thenA (pureA (catchR Coordinator_error (requireRecoverableEffect lifecycle))) (\<lambda>effect.
     thenA (loadQuoteAttempt deps pid) (\<lambda>found.
     thenA (pureA (catchR Coordinator_error
              (requireRecoverableAttempt (rcf_env config) found reservation effect))) (\<lambda>attempt.
     if prs_mintUrl reservation \<notin> set (rcf_quoteMints config)
        \<or> prs_mintUrl reservation \<notin> set (rcf_observerMints config)
     then throwCoordinator RC_operator_not_configured
     else observeQuote (rcf_env config) deps
       \<lparr>rx_attempt = attempt, rx_effect = effect, rx_lifecycle = lifecycle, rx_paymentId = pid,
        rx_reservation = reservation\<rparr>)))"

definition recover ::
  "recovery_config \<Rightarrow> 'w recovery_deps \<Rightarrow> string \<Rightarrow> ('w, recovery_result) recovery_act" where
  "recover config deps requested =
     thenA (pureA (catchR (\<lambda>_. Coordinator_error RC_invalid_request) (identifierOf requested))) (\<lambda>pid.
     thenA (askA (rd_aborted deps)) (\<lambda>aborted.
     if aborted then throwCoordinator RC_request_aborted
     else
     thenA (loadRecoveryReservation (rcf_env config) deps pid) (\<lambda>reservation.
     thenA (loadRecoveryLifecycle deps pid) (\<lambda>lifecycle.
     thenA (terminalResult deps pid lifecycle) (\<lambda>terminal.
     case terminal of
       Some result \<Rightarrow> doneA result
     | None \<Rightarrow> recoverOpen config deps pid reservation lifecycle)))))"

end
