(* ===== verification/Recovery_Worker.thy ===== *)
theory Recovery_Worker
  imports Recovery_Recover Recovery_Facts
begin

text \<open>
  \<^verbatim>\<open>cashu-stellar-melt-recovery-worker.ts\<close>: a worker claims one recovery job under a lease, runs
  the recovery coordinator on it, and records what came of the attempt: the payment is settled, a
  retry is due after an exponential delay, or a person has to look at it.

  The clock, the token factory, the repository of jobs and the coordinator are the functions of
  \<open>worker_deps\<close> on the state \<open>'w\<close> of the world.  An error of the job repository is its code, or
  \<open>None\<close> for an error of another class.  The abort signal that the worker hands to the coordinator
  and its timer are part of what the coordinator answers.
\<close>

section \<open>Configuration\<close>

definition DEFAULT_ATTEMPT_TIMEOUT_MS :: int where "DEFAULT_ATTEMPT_TIMEOUT_MS = 65000"
definition DEFAULT_LEASE_SECONDS :: int where "DEFAULT_LEASE_SECONDS = 90"
definition DEFAULT_MAX_ATTEMPTS :: int where "DEFAULT_MAX_ATTEMPTS = 6"
definition DEFAULT_RETRY_BASE_SECONDS :: int where "DEFAULT_RETRY_BASE_SECONDS = 30"
definition DEFAULT_RETRY_MAX_SECONDS :: int where "DEFAULT_RETRY_MAX_SECONDS = 300"
definition MAX_ATTEMPT_TIMEOUT_MS :: int where "MAX_ATTEMPT_TIMEOUT_MS = 120000"
definition MAX_LEASE_SECONDS :: int where "MAX_LEASE_SECONDS = 300"
definition MAX_RECOVERY_ATTEMPTS :: int where "MAX_RECOVERY_ATTEMPTS = 32"
definition MAX_RETRY_SECONDS :: int where "MAX_RETRY_SECONDS = 3600"

lemmas worker_constants = DEFAULT_ATTEMPT_TIMEOUT_MS_def DEFAULT_LEASE_SECONDS_def
  DEFAULT_MAX_ATTEMPTS_def DEFAULT_RETRY_BASE_SECONDS_def DEFAULT_RETRY_MAX_SECONDS_def
  MAX_ATTEMPT_TIMEOUT_MS_def MAX_LEASE_SECONDS_def MAX_RECOVERY_ATTEMPTS_def MAX_RETRY_SECONDS_def

datatype worker_error =
    RW_clock_unavailable | RW_invalid_configuration | RW_lease_lost
  | RW_request_aborted | RW_storage_unavailable

record worker_options =
  wo_attemptTimeoutMs :: "int option"
  wo_leaseDurationSeconds :: "int option"
  wo_maxAttempts :: "int option"
  wo_retryBaseSeconds :: "int option"
  wo_retryMaxSeconds :: "int option"
  wo_workerId :: string

record worker_policy =
  wp_attemptTimeoutMs :: int
  wp_leaseDurationSeconds :: int
  wp_maxAttempts :: int
  wp_retryBaseSeconds :: int
  wp_retryMaxSeconds :: int
  wp_workerId :: string

definition boundedInteger :: "int \<Rightarrow> int \<Rightarrow> int \<Rightarrow> bool" where
  "boundedInteger v minimum maximum \<longleftrightarrow> isSafeInteger v \<and> minimum \<le> v \<and> v \<le> maximum"

definition orDefault :: "'a option \<Rightarrow> 'a \<Rightarrow> 'a" where
  "orDefault v d = (case v of None \<Rightarrow> d | Some x \<Rightarrow> x)"

definition validatePolicy :: "worker_options \<Rightarrow> worker_error + worker_policy" where
  "validatePolicy options =
    (let policy = \<lparr>wp_attemptTimeoutMs = orDefault (wo_attemptTimeoutMs options) DEFAULT_ATTEMPT_TIMEOUT_MS,
           wp_leaseDurationSeconds = orDefault (wo_leaseDurationSeconds options) DEFAULT_LEASE_SECONDS,
           wp_maxAttempts = orDefault (wo_maxAttempts options) DEFAULT_MAX_ATTEMPTS,
           wp_retryBaseSeconds = orDefault (wo_retryBaseSeconds options) DEFAULT_RETRY_BASE_SECONDS,
           wp_retryMaxSeconds = orDefault (wo_retryMaxSeconds options) DEFAULT_RETRY_MAX_SECONDS,
           wp_workerId = wo_workerId options\<rparr>
     in if \<not> identifierPattern (wp_workerId policy)
           \<or> \<not> boundedInteger (wp_attemptTimeoutMs policy) 1 MAX_ATTEMPT_TIMEOUT_MS
           \<or> \<not> boundedInteger (wp_leaseDurationSeconds policy) 1 MAX_LEASE_SECONDS
           \<or> wp_leaseDurationSeconds policy * 1000 \<le> wp_attemptTimeoutMs policy
           \<or> \<not> boundedInteger (wp_maxAttempts policy) 1 MAX_RECOVERY_ATTEMPTS
           \<or> \<not> boundedInteger (wp_retryBaseSeconds policy) 1 MAX_RETRY_SECONDS
           \<or> \<not> boundedInteger (wp_retryMaxSeconds policy) (wp_retryBaseSeconds policy) MAX_RETRY_SECONDS
        then Inl RW_invalid_configuration else Inr policy)"

section \<open>Dependencies and results\<close>

record 'w worker_deps =
  wd_now :: "'w \<Rightarrow> 'w \<times> (unit + int)"
  wd_aborted :: "'w \<Rightarrow> bool"
  wd_leaseToken :: "'w \<Rightarrow> 'w \<times> (unit + string)"
  wd_recover :: "string \<Rightarrow> 'w \<Rightarrow> 'w \<times> (recover_failure + recovery_result)"
  wd_claimNext :: "claim_input \<Rightarrow> 'w \<Rightarrow> 'w \<times> (recovery_job_error option + recovery_lease option)"
  wd_findJob :: "string \<Rightarrow> 'w \<Rightarrow> 'w \<times> (recovery_job_error option + recovery_job option)"
  wd_recordOutcome :: "outcome_input \<Rightarrow> 'w \<Rightarrow> 'w \<times> (recovery_job_error option + outcome_result)"

datatype worker_call =
    Lease_claimed claim_input "recovery_job_error option + recovery_lease option"
  | Recovery_run string "recover_failure + recovery_result"
  | Outcome_recorded outcome_input "recovery_job_error option + outcome_result"

datatype worker_result =
    Worker_idle
  | Worker_settled recovery_lease string
  | Worker_retry_scheduled recovery_lease int string
  | Worker_attention_required recovery_lease string

type_synonym ('w, 'a) worker_act = "(worker_call list \<times> 'w, worker_error, 'a) act"

definition workerClock :: "'w worker_deps \<Rightarrow> ('w, int) worker_act" where
  "workerClock deps =
     eitherA (callA (wd_now deps)) (\<lambda>_. failA RW_clock_unavailable)
       (\<lambda>t. pureA (catchR (\<lambda>_. RW_clock_unavailable) (unixTimestamp t)))"

definition addSeconds :: "int \<Rightarrow> int \<Rightarrow> worker_error + int" where
  "addSeconds timestamp seconds = catchR (\<lambda>_. RW_clock_unavailable) (unixTimestamp (timestamp + seconds))"

definition mapRepositoryError :: "recovery_job_error option \<Rightarrow> worker_error" where
  "mapRepositoryError e = (if e = Some RJ_lease_lost then RW_lease_lost else RW_storage_unavailable)"

section \<open>The outcome of an attempt\<close>

definition attentionOutcome :: "string \<Rightarrow> int \<Rightarrow> lease_outcome" where
  "attentionOutcome reason recordedAt =
     \<lparr>lo_recordedAt = recordedAt, lo_body = Outcome_attention_required reason\<rparr>"

text \<open>Attempts are numbered from 1; the powers of 2 are far below the range of a JavaScript number.\<close>

definition retryDelay :: "worker_policy \<Rightarrow> int \<Rightarrow> int" where
  "retryDelay policy attemptNumber =
     min (wp_retryBaseSeconds policy * 2 ^ nat (attemptNumber - 1)) (wp_retryMaxSeconds policy)"

definition retryOrExhaust ::
  "worker_policy \<Rightarrow> recovery_lease \<Rightarrow> int \<Rightarrow> string \<Rightarrow> worker_error + lease_outcome" where
  "retryOrExhaust policy lease recordedAt reason =
    (if rl_attemptNumber lease \<ge> wp_maxAttempts policy
     then Inr (attentionOutcome ''retry_exhausted'' recordedAt)
     else bindR (addSeconds recordedAt (retryDelay policy (rl_attemptNumber lease))) (\<lambda>nextAttemptAt.
       Inr \<lparr>lo_recordedAt = recordedAt, lo_body = Outcome_retry_scheduled nextAttemptAt reason\<rparr>))"

definition selectOutcome ::
  "worker_policy \<Rightarrow> recovery_lease \<Rightarrow> int \<Rightarrow> recover_failure + recovery_result
     \<Rightarrow> worker_error + lease_outcome" where
  "selectOutcome policy lease recordedAt answer =
    (case answer of
       Inr result \<Rightarrow>
         if rr_paymentId result \<noteq> rl_paymentId lease
         then Inr (attentionOutcome ''evidence_invalid'' recordedAt)
         else (case rr_outcome result of
           Recovery_accepted _ _ \<Rightarrow> Inr \<lparr>lo_recordedAt = recordedAt, lo_body = Outcome_accepted\<rparr>
         | Recovery_released _ \<Rightarrow> Inr \<lparr>lo_recordedAt = recordedAt, lo_body = Outcome_released\<rparr>
         | Recovery_attention reason \<Rightarrow>
             if reason = ''operator_response_invalid''
             then Inr (attentionOutcome ''operator_response_invalid'' recordedAt)
             else retryOrExhaust policy lease recordedAt ''operator_state_unknown''
         | Recovery_pending _ _ \<Rightarrow> retryOrExhaust policy lease recordedAt ''nonterminal_evidence'')
     | Inl (Coordinator_error code) \<Rightarrow>
         if code = RC_request_aborted then retryOrExhaust policy lease recordedAt ''worker_aborted''
         else if code = RC_storage_unavailable
         then retryOrExhaust policy lease recordedAt ''storage_unavailable''
         else if code \<in> {RC_clock_unavailable, RC_invalid_configuration, RC_operator_not_configured}
         then Inr (attentionOutcome ''recovery_configuration_invalid'' recordedAt)
         else Inr (attentionOutcome ''evidence_invalid'' recordedAt)
     | Inl Uncaught_error \<Rightarrow> retryOrExhaust policy lease recordedAt ''storage_unavailable'')"

text \<open>The input of \<open>recordOutcome\<close>: the lease's token and payment, and the fields of the outcome.\<close>

definition outcomeInput :: "recovery_lease \<Rightarrow> lease_outcome \<Rightarrow> outcome_input" where
  "outcomeInput lease out =
    (let base = \<lparr>oi_kind = '''', oi_leaseToken = rl_leaseToken lease, oi_nextAttemptAt = None,
                 oi_paymentId = rl_paymentId lease, oi_reason = None, oi_recordedAt = lo_recordedAt out\<rparr>
     in case lo_body out of
          Outcome_accepted \<Rightarrow> base\<lparr>oi_kind := ''accepted''\<rparr>
        | Outcome_released \<Rightarrow> base\<lparr>oi_kind := ''released''\<rparr>
        | Outcome_retry_scheduled nextAttemptAt reason \<Rightarrow>
            base\<lparr>oi_kind := ''retry_scheduled'', oi_nextAttemptAt := Some nextAttemptAt, oi_reason := Some reason\<rparr>
        | Outcome_attention_required reason \<Rightarrow>
            base\<lparr>oi_kind := ''attention_required'', oi_reason := Some reason\<rparr>)"

section \<open>One run\<close>

definition loadConcurrentTerminal :: "'w worker_deps \<Rightarrow> string \<Rightarrow> ('w, string option) worker_act" where
  "loadConcurrentTerminal deps pid =
     eitherA (callA (wd_findJob deps pid)) (\<lambda>e. failA (mapRepositoryError e))
       (\<lambda>found. doneA (case found of
          None \<Rightarrow> None
        | Some job \<Rightarrow> (case rj_state job of Job_completed _ settled \<Rightarrow> Some settled | _ \<Rightarrow> None)))"

definition workerResult :: "recovery_lease \<Rightarrow> lease_outcome \<Rightarrow> worker_result" where
  "workerResult lease out =
    (case lo_body out of
       Outcome_accepted \<Rightarrow> Worker_settled lease ''accepted''
     | Outcome_released \<Rightarrow> Worker_settled lease ''released''
     | Outcome_retry_scheduled nextAttemptAt reason \<Rightarrow> Worker_retry_scheduled lease nextAttemptAt reason
     | Outcome_attention_required reason \<Rightarrow> Worker_attention_required lease reason)"

definition persistOutcome ::
  "'w worker_deps \<Rightarrow> recovery_lease \<Rightarrow> lease_outcome \<Rightarrow> ('w, worker_result) worker_act" where
  "persistOutcome deps lease out =
    (let input = outcomeInput lease out in
     eitherA (loggedA (Outcome_recorded input) (wd_recordOutcome deps input))
       (\<lambda>e. if e = Some RJ_lease_lost
            then thenA (loadConcurrentTerminal deps (rl_paymentId lease)) (\<lambda>terminal.
              case terminal of
                Some state \<Rightarrow> doneA (Worker_settled lease state)
              | None \<Rightarrow> failA (mapRepositoryError e))
            else failA (mapRepositoryError e))
       (\<lambda>_. doneA (workerResult lease out)))"

text \<open>The attempt under a lease: its clock must still be inside the lease when it ends.\<close>

definition leaseClock :: "'w worker_deps \<Rightarrow> recovery_lease \<Rightarrow> ('w, int) worker_act" where
  "leaseClock deps lease =
     thenA (workerClock deps) (\<lambda>recordedAt.
     if recordedAt < rl_claimedAt lease \<or> recordedAt > rl_expiresAt lease then failA RW_lease_lost
     else doneA recordedAt)"

definition runLease ::
  "worker_policy \<Rightarrow> 'w worker_deps \<Rightarrow> recovery_lease \<Rightarrow> ('w, worker_result) worker_act" where
  "runLease policy deps lease =
    (if rl_attemptNumber lease > wp_maxAttempts policy
     then thenA (leaseClock deps lease) (\<lambda>recordedAt.
       persistOutcome deps lease (attentionOutcome ''retry_exhausted'' recordedAt))
     else
     let pid = rl_paymentId lease;
         concluded = (\<lambda>answer. thenA (leaseClock deps lease) (\<lambda>recordedAt.
           thenA (pureA (selectOutcome policy lease recordedAt answer)) (persistOutcome deps lease)))
     in eitherA (loggedA (Recovery_run pid) (wd_recover deps pid))
          (\<lambda>failure. concluded (Inl failure)) (\<lambda>result. concluded (Inr result)))"

definition runOnce :: "worker_policy \<Rightarrow> 'w worker_deps \<Rightarrow> ('w, worker_result) worker_act" where
  "runOnce policy deps =
     thenA (askA (wd_aborted deps)) (\<lambda>aborted.
     if aborted then failA RW_request_aborted
     else
     thenA (workerClock deps) (\<lambda>claimedAt.
     thenA (pureA (addSeconds claimedAt (wp_leaseDurationSeconds policy))) (\<lambda>expiresAt.
     thenA (eitherA (callA (wd_leaseToken deps)) (\<lambda>_. failA RW_invalid_configuration)
              (\<lambda>v. pureA (catchR (\<lambda>_. RW_invalid_configuration) (cashuStellarMeltRecoveryLeaseToken v))))
       (\<lambda>leaseToken.
     let claim = \<lparr>cl_claimedAt = claimedAt, cl_expiresAt = expiresAt, cl_leaseToken = leaseToken,
                  cl_workerId = wp_workerId policy\<rparr>
     in eitherA (loggedA (Lease_claimed claim) (wd_claimNext deps claim))
          (\<lambda>e. failA (mapRepositoryError e))
          (\<lambda>found. case found of None \<Rightarrow> doneA Worker_idle | Some lease \<Rightarrow> runLease policy deps lease)))))"

end
