(* ===== verification/Worker_Facts.thy ===== *)
theory Worker_Facts
  imports Recovery_Worker
begin

text \<open>
  What one run of a recovery worker does, for every behaviour of its dependencies: the calls it
  makes, in order, and what it records.  The contract of the job repository, as the worker relies
  on it, is the locale \<open>recovery_jobs\<close>, interpreted on the PostgreSQL model.
\<close>

section \<open>Policies\<close>

definition policyOk :: "worker_policy \<Rightarrow> bool" where
  "policyOk p \<longleftrightarrow> identifierPattern (wp_workerId p)
     \<and> 1 \<le> wp_leaseDurationSeconds p \<and> wp_leaseDurationSeconds p \<le> 300
     \<and> 1 \<le> wp_attemptTimeoutMs p \<and> wp_attemptTimeoutMs p < wp_leaseDurationSeconds p * 1000
     \<and> 1 \<le> wp_maxAttempts p \<and> wp_maxAttempts p \<le> 32
     \<and> 1 \<le> wp_retryBaseSeconds p \<and> wp_retryBaseSeconds p \<le> wp_retryMaxSeconds p
     \<and> wp_retryMaxSeconds p \<le> 3600"

lemma validatePolicy_ok: "validatePolicy options = Inr p \<Longrightarrow> policyOk p"
  by (auto simp: validatePolicy_def Let_def boundedInteger_def policyOk_def worker_constants
      split: if_splits)

lemma retryDelay_bounds:
  assumes "policyOk p"
  shows "wp_retryBaseSeconds p \<le> retryDelay p n" and "retryDelay p n \<le> wp_retryMaxSeconds p"
proof -
  have "wp_retryBaseSeconds p * 1 \<le> wp_retryBaseSeconds p * 2 ^ nat (n - 1)"
    using assms by (intro mult_left_mono) (simp_all add: policyOk_def)
  then show "wp_retryBaseSeconds p \<le> retryDelay p n" "retryDelay p n \<le> wp_retryMaxSeconds p"
    using assms by (simp_all add: retryDelay_def policyOk_def)
qed

section \<open>Outcomes\<close>

lemma addSeconds_iff: "addSeconds t d = Inr u \<longleftrightarrow> validTimestamp (t + d) \<and> u = t + d"
  by (auto simp: addSeconds_def result_simps validTimestamp_def)

text \<open>The outcomes a worker may record for an attempt that ended at \<open>t\<close>.\<close>

definition outcomeOk :: "worker_policy \<Rightarrow> recovery_lease \<Rightarrow> int \<Rightarrow> lease_outcome \<Rightarrow> bool" where
  "outcomeOk policy lease t out \<longleftrightarrow> lo_recordedAt out = t \<and> validTimestamp t
     \<and> rl_claimedAt lease \<le> t \<and> t \<le> rl_expiresAt lease
     \<and> (case lo_body out of
          Outcome_retry_scheduled next' reason \<Rightarrow>
            validTimestamp next' \<and> reason \<in> set CASHU_STELLAR_MELT_RECOVERY_RETRY_REASONS
            \<and> next' = t + retryDelay policy (rl_attemptNumber lease)
            \<and> rl_attemptNumber lease < wp_maxAttempts policy
        | Outcome_attention_required reason \<Rightarrow> reason \<in> set CASHU_STELLAR_MELT_RECOVERY_ATTENTION_REASONS
        | _ \<Rightarrow> True)"

lemma retryOrExhaust_ok:
  assumes "retryOrExhaust policy lease t reason = Inr out"
    and "reason \<in> set CASHU_STELLAR_MELT_RECOVERY_RETRY_REASONS"
    and "validTimestamp t" "rl_claimedAt lease \<le> t" "t \<le> rl_expiresAt lease"
  shows "outcomeOk policy lease t out"
  using assms
  by (auto simp: retryOrExhaust_def outcomeOk_def attentionOutcome_def result_simps addSeconds_iff
      CASHU_STELLAR_MELT_RECOVERY_ATTENTION_REASONS_def split: if_splits)

lemma selectOutcome_ok:
  assumes "selectOutcome policy lease t answer = Inr out"
    and "validTimestamp t" "rl_claimedAt lease \<le> t" "t \<le> rl_expiresAt lease"
  shows "outcomeOk policy lease t out"
  using assms retryOrExhaust_ok [OF _ _ assms(2,3,4)]
  by (auto simp: selectOutcome_def outcomeOk_def attentionOutcome_def
      CASHU_STELLAR_MELT_RECOVERY_ATTENTION_REASONS_def CASHU_STELLAR_MELT_RECOVERY_RETRY_REASONS_def
      split: sum.splits recover_failure.splits recovery_outcome.splits if_splits)

lemma outcomeInput_sel [simp]:
  "oi_leaseToken (outcomeInput lease out) = rl_leaseToken lease"
  "oi_paymentId (outcomeInput lease out) = rl_paymentId lease"
  "oi_recordedAt (outcomeInput lease out) = lo_recordedAt out"
  by (simp_all add: outcomeInput_def Let_def split: outcome_body.splits)

lemma outcomeInput_kind:
  "oi_kind (outcomeInput lease out) = ''accepted'' \<longleftrightarrow> lo_body out = Outcome_accepted"
  "oi_kind (outcomeInput lease out) = ''released'' \<longleftrightarrow> lo_body out = Outcome_released"
  "oi_kind (outcomeInput lease out) = ''retry_scheduled'' \<longleftrightarrow>
     (\<exists>next' reason. lo_body out = Outcome_retry_scheduled next' reason
        \<and> oi_nextAttemptAt (outcomeInput lease out) = Some next')"
  "oi_kind (outcomeInput lease out) = ''attention_required'' \<longleftrightarrow>
     (\<exists>reason. lo_body out = Outcome_attention_required reason
        \<and> oi_reason (outcomeInput lease out) = Some reason)"
  by (simp_all add: outcomeInput_def Let_def split: outcome_body.splits)

lemma outcomeInput_valid:
  assumes "outcomeOk policy lease t out" and "policyOk policy"
    and "identifierPattern (rl_leaseToken lease)" "identifierPattern (rl_paymentId lease)"
  shows "validateOutcome (outcomeInput lease out) = Inr (outcomeInput lease out)"
  using assms retryDelay_bounds(1) [OF assms(2), of "rl_attemptNumber lease"]
  by (auto simp: outcomeInput_def validateOutcome_def Let_def outcomeOk_def policyOk_def badInput_def
      cashuStellarMeltRecoveryLeaseToken_def split: outcome_body.splits)

section \<open>The calls of a run\<close>

text \<open>Recording an outcome is the last call; the result is the outcome, unless the lease was lost.\<close>

definition recordedLog :: "recovery_lease \<Rightarrow> lease_outcome \<Rightarrow> worker_call list
  \<Rightarrow> worker_error + worker_result \<Rightarrow> bool" where
  "recordedLog lease out calls r \<longleftrightarrow>
     (\<exists>answer. calls = [Outcome_recorded (outcomeInput lease out) answer]
        \<and> (\<forall>result. r = Inr result \<longrightarrow>
             (\<exists>recorded. answer = Inr recorded) \<and> result = workerResult lease out
             \<or> answer = Inl (Some RJ_lease_lost) \<and> (\<exists>state. result = Worker_settled lease state)))"

definition leaseLog :: "worker_policy \<Rightarrow> recovery_lease \<Rightarrow> worker_call list
  \<Rightarrow> worker_error + worker_result \<Rightarrow> bool" where
  "leaseLog policy lease calls r \<longleftrightarrow>
    (if rl_attemptNumber lease > wp_maxAttempts policy
     then calls = [] \<and> isl r
       \<or> (\<exists>t. outcomeOk policy lease t (attentionOutcome ''retry_exhausted'' t)
            \<and> recordedLog lease (attentionOutcome ''retry_exhausted'' t) calls r)
     else \<exists>answer rest. calls = Recovery_run (rl_paymentId lease) answer # rest
       \<and> (rest = [] \<and> isl r
          \<or> (\<exists>t out. selectOutcome policy lease t answer = Inr out \<and> outcomeOk policy lease t out
               \<and> recordedLog lease out rest r)))"

definition claimOf :: "worker_policy \<Rightarrow> claim_input \<Rightarrow> bool" where
  "claimOf policy claim \<longleftrightarrow> cl_workerId claim = wp_workerId policy
     \<and> validTimestamp (cl_claimedAt claim) \<and> validTimestamp (cl_expiresAt claim)
     \<and> cl_expiresAt claim = cl_claimedAt claim + wp_leaseDurationSeconds policy
     \<and> identifierPattern (cl_leaseToken claim)"

lemma claimOf_valid: "claimOf policy claim \<Longrightarrow> policyOk policy \<Longrightarrow> validateClaim claim = Inr claim"
  by (auto simp: claimOf_def policyOk_def validateClaim_iff)

definition workerLog :: "(claim_input \<Rightarrow> recovery_lease \<Rightarrow> bool) \<Rightarrow> worker_policy \<Rightarrow> worker_call list
  \<Rightarrow> worker_error + worker_result \<Rightarrow> bool" where
  "workerLog ok policy calls r \<longleftrightarrow>
     calls = [] \<and> isl r
     \<or> (\<exists>claim answer rest. calls = Lease_claimed claim answer # rest \<and> claimOf policy claim
          \<and> ((\<exists>e. answer = Inl e) \<and> rest = [] \<and> isl r
             \<or> answer = Inr None \<and> rest = [] \<and> r = Inr Worker_idle
             \<or> (\<exists>lease. answer = Inr (Some lease) \<and> ok claim lease \<and> leaseLog policy lease rest r)))"

section \<open>Proofs\<close>

text \<open>The dependencies of a worker keep a property of the world.\<close>

definition workerKeeps :: "('w \<Rightarrow> bool) \<Rightarrow> 'w worker_deps \<Rightarrow> bool" where
  "workerKeeps I deps \<longleftrightarrow> keeps I (wd_now deps) \<and> keeps I (wd_leaseToken deps)
     \<and> (\<forall>pid. keeps I (wd_recover deps pid)) \<and> (\<forall>c. keeps I (wd_claimNext deps c))
     \<and> (\<forall>pid. keeps I (wd_findJob deps pid)) \<and> (\<forall>i. keeps I (wd_recordOutcome deps i))"

lemma workerClock_logs:
  assumes "workerKeeps I deps"
  shows "quietlyIn I validTimestamp (workerClock deps)"
  unfolding workerClock_def
  by (rule quietlyIn_either [OF quietlyIn_call])
    (use assms in \<open>auto intro!: logsIn_fail quietlyIn_pure simp: workerKeeps_def result_simps\<close>)

lemma leaseClock_logs:
  assumes "workerKeeps I deps"
  shows "quietlyIn I (\<lambda>t. validTimestamp t \<and> rl_claimedAt lease \<le> t \<and> t \<le> rl_expiresAt lease)
    (leaseClock deps lease)"
  unfolding leaseClock_def
  by (rule quietlyIn_then [OF workerClock_logs [OF assms]]) (auto intro!: logsIn_fail logsIn_done)

lemma loadConcurrentTerminal_logs:
  assumes "workerKeeps I deps"
  shows "quietlyIn I (\<lambda>_. True) (loadConcurrentTerminal deps pid)"
  unfolding loadConcurrentTerminal_def
  by (rule quietlyIn_either [OF quietlyIn_call])
    (use assms in \<open>auto intro!: logsIn_fail logsIn_done simp: workerKeeps_def\<close>)

lemma persistOutcome_logs:
  assumes "workerKeeps I deps"
  shows "logsIn I (recordedLog lease out) (persistOutcome deps lease out)"
  unfolding persistOutcome_def Let_def
  by (rule loggedIn_either)
    (use assms in \<open>auto intro!: logsIn_fail logsIn_done quietlyIn_then [OF loadConcurrentTerminal_logs [OF assms]]
      simp: workerKeeps_def recordedLog_def split: option.splits\<close>)

lemma runLease_logs:
  assumes deps: "workerKeeps I deps"
  shows "logsIn I (leaseLog policy lease) (runLease policy deps lease)"
proof (cases "rl_attemptNumber lease > wp_maxAttempts policy")
  case True
  show ?thesis
    unfolding runLease_def if_P [OF True]
    by (rule quietlyIn_then [OF leaseClock_logs [OF deps]])
      (auto intro!: logsIn_mono [OF persistOutcome_logs [OF deps]] simp: leaseLog_def True outcomeOk_def
        attentionOutcome_def CASHU_STELLAR_MELT_RECOVERY_ATTENTION_REASONS_def)
next
  case False
  have concluded: "logsIn I (\<lambda>calls r. leaseLog policy lease (Recovery_run (rl_paymentId lease) answer # calls) r)
      (thenA (leaseClock deps lease) (\<lambda>recordedAt.
         thenA (pureA (selectOutcome policy lease recordedAt answer)) (persistOutcome deps lease)))"
    for answer
  proof (rule quietlyIn_then [OF leaseClock_logs [OF deps]], simp add: leaseLog_def False)
    fix t
    assume t: "validTimestamp t \<and> rl_claimedAt lease \<le> t \<and> t \<le> rl_expiresAt lease"
    then have "outcomeOk policy lease t out" if "selectOutcome policy lease t answer = Inr out" for out
      using selectOutcome_ok [OF that] by simp
    then have "leaseLog policy lease (Recovery_run (rl_paymentId lease) answer # calls) r"
      if "selectOutcome policy lease t answer = Inr out" "recordedLog lease out calls r" for out calls r
      using that by (auto simp: leaseLog_def False)
    then show "logsIn I (\<lambda>calls r. leaseLog policy lease (Recovery_run (rl_paymentId lease) answer # calls) r)
        (thenA (pureA (selectOutcome policy lease t answer)) (persistOutcome deps lease))"
      by (intro pureIn_bind logsIn_mono [OF persistOutcome_logs [OF deps]]) (auto simp: leaseLog_def False)
  qed
  show ?thesis
    unfolding runLease_def if_not_P [OF False] Let_def
    by (rule loggedIn_either) (use deps concluded in \<open>auto simp: workerKeeps_def\<close>)
qed

lemma runOnce_logs:
  assumes deps: "workerKeeps I deps"
    and claims: "\<And>claim w w' lease. I w \<Longrightarrow> claimOf policy claim \<Longrightarrow>
      wd_claimNext deps claim w = (w', Inr (Some lease)) \<Longrightarrow> ok claim lease"
  shows "logsIn I (workerLog ok policy) (runOnce policy deps)"
  unfolding runOnce_def
proof (rule quietlyIn_then [OF quietlyIn_ask], simp add: workerLog_def)
  fix aborted
  have token: "quietlyIn I identifierPattern
      (eitherA (callA (wd_leaseToken deps)) (\<lambda>_. failA RW_invalid_configuration)
        (\<lambda>v. pureA (catchR (\<lambda>_. RW_invalid_configuration) (cashuStellarMeltRecoveryLeaseToken v))))"
    by (rule quietlyIn_either [OF quietlyIn_call])
      (use deps in \<open>auto intro!: logsIn_fail quietlyIn_pure simp: workerKeeps_def result_simps\<close>)
  show "logsIn I (workerLog ok policy) (if aborted then failA RW_request_aborted
     else
     thenA (workerClock deps) (\<lambda>claimedAt.
     thenA (pureA (addSeconds claimedAt (wp_leaseDurationSeconds policy))) (\<lambda>expiresAt.
     thenA (eitherA (callA (wd_leaseToken deps)) (\<lambda>_. failA RW_invalid_configuration)
              (\<lambda>v. pureA (catchR (\<lambda>_. RW_invalid_configuration) (cashuStellarMeltRecoveryLeaseToken v))))
       (\<lambda>leaseToken.
     let claim = \<lparr>cl_claimedAt = claimedAt, cl_expiresAt = expiresAt, cl_leaseToken = leaseToken,
                  cl_workerId = wp_workerId policy\<rparr>
     in eitherA (loggedA (Lease_claimed claim) (wd_claimNext deps claim))
          (\<lambda>e. failA (mapRepositoryError e))
          (\<lambda>found. case found of None \<Rightarrow> doneA Worker_idle | Some lease \<Rightarrow> runLease policy deps lease)))))"
  proof (cases aborted)
    case False
    show ?thesis
      unfolding if_not_P [OF False]
    proof (intro quietlyIn_then [OF workerClock_logs [OF deps]] quietlyIn_then [OF token]
        pureIn_bind, goal_cases)
      case (4 claimedAt expiresAt leaseToken)
      let ?claim = "\<lparr>cl_claimedAt = claimedAt, cl_expiresAt = expiresAt, cl_leaseToken = leaseToken,
        cl_workerId = wp_workerId policy\<rparr>"
      have claim: "claimOf policy ?claim"
        using 4 by (auto simp: claimOf_def addSeconds_iff)
      show ?case
        unfolding Let_def
        by (rule loggedIn_either)
          (use deps claim claims in \<open>auto intro!: logsIn_fail logsIn_done logsIn_mono [OF runLease_logs [OF deps]]
            simp: workerKeeps_def workerLog_def split: option.splits\<close>)
    qed (auto simp: workerLog_def)
  qed (simp add: logsIn_fail workerLog_def)
qed

section \<open>The job repository the worker relies on\<close>

text \<open>The lease that a claim gives.\<close>

definition leaseFor :: "claim_input \<Rightarrow> recovery_lease \<Rightarrow> bool" where
  "leaseFor claim lease \<longleftrightarrow> rl_leaseToken lease = cl_leaseToken claim
     \<and> rl_claimedAt lease = cl_claimedAt claim \<and> rl_expiresAt lease = cl_expiresAt claim
     \<and> rl_workerId lease = cl_workerId claim
     \<and> identifierPattern (rl_leaseToken lease) \<and> identifierPattern (rl_paymentId lease)
     \<and> 1 \<le> rl_attemptNumber lease"

locale recovery_jobs =
  fixes claim :: "claim_input \<Rightarrow> 'w \<Rightarrow> 'w \<times> (recovery_job_error option + recovery_lease option)"
    and job :: "string \<Rightarrow> 'w \<Rightarrow> 'w \<times> (recovery_job_error option + recovery_job option)"
    and conclude :: "outcome_input \<Rightarrow> 'w \<Rightarrow> 'w \<times> (recovery_job_error option + outcome_result)"
    and inv :: "'w \<Rightarrow> bool"
  assumes claim_keeps: "keeps inv (claim c)"
    and job_keeps: "keeps inv (job pid)"
    and conclude_keeps: "keeps inv (conclude i)"
    and claim_lease: "inv w \<Longrightarrow> claim c w = (w', Inr (Some lease)) \<Longrightarrow> leaseFor c lease"
begin

definition serves :: "'w worker_deps \<Rightarrow> bool" where
  "serves deps \<longleftrightarrow> wd_claimNext deps = claim \<and> wd_findJob deps = job \<and> wd_recordOutcome deps = conclude
     \<and> keeps inv (wd_now deps) \<and> keeps inv (wd_leaseToken deps) \<and> (\<forall>pid. keeps inv (wd_recover deps pid))"

lemma serves_keeps: "serves deps \<Longrightarrow> workerKeeps inv deps"
  by (simp add: serves_def workerKeeps_def claim_keeps job_keeps conclude_keeps)

lemma run_logs:
  assumes "serves deps"
  shows "logsIn inv (workerLog leaseFor policy) (runOnce policy deps)"
  by (rule runOnce_logs [OF serves_keeps [OF assms]])
    (use assms claim_lease in \<open>auto simp: serves_def\<close>)

lemma run_inputs_valid:
  assumes "serves deps" and "policyOk policy" and "inv w"
    and "runOnce policy deps (log, w) = ((log @ calls, w'), r)"
  shows "inv w'"
    and "Lease_claimed c answer \<in> set calls \<Longrightarrow> validateClaim c = Inr c"
    and "Outcome_recorded i answer' \<in> set calls \<Longrightarrow> validateOutcome i = Inr i"
proof -
  have run: "inv w'" "workerLog leaseFor policy calls r"
    using logsInD [OF run_logs [OF assms(1)] assms(3,4)] by auto
  show "inv w'" by (rule run(1))
  have rest: "validateOutcome i = Inr i"
    if "leaseLog policy lease calls' r'" "leaseFor c' lease" "Outcome_recorded i answer' \<in> set calls'"
    for lease c' calls' r' i answer'
    using that outcomeInput_valid [OF _ assms(2)]
    by (auto simp: leaseLog_def recordedLog_def leaseFor_def split: if_splits)
  show "Lease_claimed c answer \<in> set calls \<Longrightarrow> validateClaim c = Inr c"
    using run(2) claimOf_valid [OF _ assms(2)]
    by (auto simp: workerLog_def leaseLog_def recordedLog_def split: if_splits)
  show "Outcome_recorded i answer' \<in> set calls \<Longrightarrow> validateOutcome i = Inr i"
    using run(2) rest by (auto simp: workerLog_def)
qed

end

text \<open>The operations of the PostgreSQL model, on a world that holds the database.\<close>

definition onStore ::
  "('o \<Rightarrow> db \<Rightarrow> 'e + db \<times> 'a) \<Rightarrow> db \<times> 'o \<Rightarrow> (db \<times> 'o) \<times> ('e option + 'a)" where
  "onStore operation = (\<lambda>(db, others).
     case operation others db of
       Inl e \<Rightarrow> ((db, others), Inl (Some e))
     | Inr (db', x) \<Rightarrow> ((db', others), Inr x))"

definition readingStore :: "(db \<Rightarrow> 'e + 'a) \<Rightarrow> db \<times> 'o \<Rightarrow> (db \<times> 'o) \<times> ('e option + 'a)" where
  "readingStore operation = onStore (\<lambda>_ db. catchR id (bindR (operation db) (\<lambda>x. Inr (db, x))))"

definition storeInv :: "db \<times> 'o \<Rightarrow> bool" where
  "storeInv w \<longleftrightarrow> recoveryInv (fst w)"

lemma claimNext_lease:
  assumes "claimNext locked c db = Inr (db', Some lease)"
  shows "leaseFor c lease"
proof -
  from assms obtain after where "claimNextIn locked c db = Inr (after, Some lease)"
    unfolding claimNext_Inr by blast
  then obtain pid n where "lease = leaseOfRow (leaseRowOf c pid n)" "leaseRowOk (leaseRowOf c pid n)"
    by (rule claimNextIn_Some)
  then show ?thesis
    by (auto simp: leaseFor_def leaseOfRow_def leaseRowOf_def leaseRowOk_def leaseCheck_def)
qed

interpretation job_store: recovery_jobs
  "\<lambda>c. onStore (\<lambda>others. claimNext (locked others) c)"
  "\<lambda>pid. readingStore (findRecoveryJob pid)"
  "\<lambda>i. onStore (\<lambda>_. recordOutcome i)" storeInv for locked
  by unfold_locales
    (auto simp: keeps_def onStore_def readingStore_def storeInv_def result_simps
      dest: claimNext_inv claimNext_lease recordOutcome_inv split: sum.splits prod.splits)

end
