(* ===== verification/Recovery_Evidence.thy ===== *)
theory Recovery_Evidence
  imports Recovery_Recover
begin

text \<open>
  What one call of \<open>recover\<close> does to the outside world, whatever the operator and the repositories
  answer.  The lemmas follow the methods: each says which calls a method adds to the log and what
  its result then is.  The last one, \<open>recover_logs\<close>, describes a whole call.
\<close>

section \<open>Reading\<close>

lemma throwCoordinator_logs: "L [] (Inl (Coordinator_error e)) \<Longrightarrow> logs L (throwCoordinator e)"
  unfolding throwCoordinator_def by (rule logs_fail)

lemma readClock_quiet: "quiet (readClock deps)"
  unfolding readClock_def
  by (intro quiet_either logs_intros throwCoordinator_logs) simp_all

lemma loadRecoveryReservation_quiet: "quiet (loadRecoveryReservation env deps pid)"
  unfolding loadRecoveryReservation_def
  by (intro quiet_either) (auto intro!: logs_intros throwCoordinator_logs split: option.splits)

lemma loadQuoteAttempt_quiet: "quiet (loadQuoteAttempt deps pid)"
  unfolding loadQuoteAttempt_def
  by (intro quiet_either) (auto intro!: logs_intros throwCoordinator_logs split: option.splits)

section \<open>Stored terminal results\<close>

text \<open>
  A terminal result that a run read from the store: the last thing it did, to end in the world \<open>w\<close>,
  was to read the lifecycle of the payment and, when that is consumed, its accounting, and the
  result is made of their answers.
\<close>

definition storedTerminal :: "'w recovery_deps \<Rightarrow> string \<Rightarrow> 'w \<Rightarrow> recovery_result \<Rightarrow> bool" where
  "storedTerminal deps pid w result \<longleftrightarrow> rr_paymentId result = pid
     \<and> (\<exists>u v. rd_findLifecycle deps pid u = (v, Inr (Some (rr_lifecycle result)))
        \<and> (lc_state (rr_lifecycle result) = Released \<and> rr_outcome result = Recovery_released True \<and> w = v
           \<or> lc_state (rr_lifecycle result) = Consumed
             \<and> (\<exists>accounting. rd_findAccounting deps pid v = (w, Inr (Some accounting))
                  \<and> rr_outcome result = Recovery_accepted accounting True)))"

lemma storedTerminal_intros:
  "rd_findLifecycle deps pid u = (v, Inr (Some lifecycle)) \<Longrightarrow> lc_state lifecycle = Released \<Longrightarrow>
     storedTerminal deps pid v (resultOf pid lifecycle (Recovery_released True))"
  "rd_findLifecycle deps pid u = (v, Inr (Some lifecycle)) \<Longrightarrow> lc_state lifecycle = Consumed \<Longrightarrow>
     rd_findAccounting deps pid v = (w, Inr (Some accounting)) \<Longrightarrow>
     storedTerminal deps pid w (resultOf pid lifecycle (Recovery_accepted accounting True))"
  unfolding storedTerminal_def resultOf_def by (simp, blast)+

lemma storedTerminal_outcome:
  "storedTerminal deps pid w result \<Longrightarrow> rr_paymentId result = pid
     \<and> (rr_outcome result = Recovery_released True \<or> (\<exists>accounting. rr_outcome result = Recovery_accepted accounting True))"
  unfolding storedTerminal_def by blast

lemma throwCoordinator_from: "L [] w (Inl (Coordinator_error e)) \<Longrightarrow> logsFrom w L (throwCoordinator e)"
  unfolding throwCoordinator_def by (rule logsFrom_fail)

lemma loadRecoveryLifecycle_logs:
  "quietlyFrom w (\<lambda>v x. \<exists>u. rd_findLifecycle deps pid u = (v, Inr (Some x))) (loadRecoveryLifecycle deps pid)"
  unfolding loadRecoveryLifecycle_def
  by (rule logsFrom_either [OF logsFrom_call [where L = "\<lambda>new v r. new = [] \<and> (\<exists>u. rd_findLifecycle deps pid u = (v, r))"]])
    (auto intro!: logsFrom_done throwCoordinator_from split: option.splits)

lemma terminalResult_logs:
  assumes read: "rd_findLifecycle deps pid u = (w, Inr (Some lifecycle))"
  shows "quietlyFrom w (\<lambda>v found. \<forall>result. found = Some result \<longrightarrow> storedTerminal deps pid v result)
     (terminalResult deps pid lifecycle)"
proof (cases "lc_state lifecycle = Consumed")
  case True
  have "quietlyFrom w (\<lambda>v found. \<forall>result. found = Some result \<longrightarrow> storedTerminal deps pid v result)
      (eitherA (callA (rd_findAccounting deps pid)) (\<lambda>_. throwCoordinator RC_storage_unavailable)
        (\<lambda>found. case found of None \<Rightarrow> throwCoordinator RC_evidence_invalid
         | Some accounting \<Rightarrow> doneA (Some (resultOf pid lifecycle (Recovery_accepted accounting True)))))"
    by (rule logsFrom_either [OF logsFrom_call [where L = "\<lambda>new v r. new = [] \<and> rd_findAccounting deps pid w = (v, r)"]])
      (use True in \<open>auto intro!: logsFrom_done throwCoordinator_from storedTerminal_intros(2) [OF read]
        split: option.splits\<close>)
  with True show ?thesis by (simp add: terminalResult_def)
next
  case False
  with read show ?thesis
    unfolding terminalResult_def
    by (auto intro!: logsFrom_done storedTerminal_intros(1))
qed

lemma reloadAfterEventWrite_logs:
  "quietlyFrom w (\<lambda>v found. \<forall>result. found = Some (Terminal_recovery result) \<longrightarrow> storedTerminal deps pid v result)
     (reloadAfterEventWrite deps pid expected)"
  unfolding reloadAfterEventWrite_def
proof (rule logsFrom_either [OF logsFrom_call [where L = "\<lambda>new v r. new = []
    \<and> (\<exists>u. rd_findLifecycle deps pid u = (v, r))"]], goal_cases)
  case (3 before v found)
  then show ?case
    by (auto intro!: logsFrom_done logsFrom_either [OF terminalResult_logs] split: option.splits)
qed (auto intro!: logsFrom_done)

lemma reloadTerminal_logs:
  "quietlyFrom w (\<lambda>v found. \<forall>result. found = Some result \<longrightarrow> storedTerminal deps pid v result)
     (reloadTerminal deps pid)"
  unfolding reloadTerminal_def
  by (rule logsFrom_then [OF reloadAfterEventWrite_logs])
    (auto intro!: logsFrom_done split: option.splits reloaded_recovery.splits)

section \<open>Attention, acceptance, release, waiting\<close>

text \<open>
  A call for attention: nothing, or one write.  When it returns, its outcome is the reason it wrote,
  or what the store says another call has settled meanwhile.
\<close>

definition attentionLog ::
  "'w recovery_deps \<Rightarrow> recovery_context \<Rightarrow> recovery_call list \<Rightarrow> 'w \<Rightarrow> recover_failure + recovery_result \<Rightarrow> bool" where
  "attentionLog deps context calls w r \<longleftrightarrow>
     calls = [] \<and> isl r
     \<or> (\<exists>input answer. calls = [Attention_required input answer]
          \<and> ei_paymentId input = rx_paymentId context
          \<and> ei_effectId input = me_effectId (rx_effect context)
          \<and> me_startedAt (rx_effect context) \<le> ei_evidenceAt input
          \<and> ei_evidenceAt input \<le> ei_recordedAt input
          \<and> (\<forall>result. r = Inr result \<longrightarrow> storedTerminal deps (rx_paymentId context) w result
               \<or> rr_paymentId result = rx_paymentId context
                  \<and> rr_outcome result = Recovery_attention (ai_reason input)))"

lemma recordAttention_logs:
  "logsFrom w (attentionLog deps context) (recordAttention env deps context reason evidenceAt known)"
  unfolding recordAttention_def Let_def
proof (rule thenFrom_quiet, goal_cases)
  case 1
  show ?case by (auto intro: readClock_quiet logs_done split: option.splits)
next
  case (3 v recordedAt)
  show ?case
  proof (cases "evidenceAt < me_startedAt (rx_effect context) \<or> recordedAt < evidenceAt
      \<or> recordedAt < latestRecordedAt context")
    case True
    then show ?thesis by (simp add: throwCoordinator_from attentionLog_def)
  next
    case False
    then show ?thesis
      apply (simp only: if_False)
      apply (rule thenFrom_quiet)
        apply (simp add: logs_pure)
       apply (simp add: attentionLog_def)
      apply (rule loggedFrom_either)
       apply (rule logsFrom_then [OF reloadAfterEventWrite_logs])
        apply (simp add: attentionLog_def)
       apply (auto simp: attentionLog_def resultOf_def intro!: logsFrom_done throwCoordinator_from
         split: option.splits reloaded_recovery.splits)
      done
  qed
qed (simp add: attentionLog_def)

text \<open>Nothing more than an error, a stored terminal result, or a call for attention.\<close>

definition settledLog ::
  "'w recovery_deps \<Rightarrow> recovery_context \<Rightarrow> recovery_call list \<Rightarrow> 'w \<Rightarrow> recover_failure + recovery_result \<Rightarrow> bool" where
  "settledLog deps context calls w r \<longleftrightarrow> attentionLog deps context calls w r
     \<or> calls = [] \<and> (\<forall>result. r = Inr result \<longrightarrow> storedTerminal deps (rx_paymentId context) w result)"

lemma settledLog_error [simp]: "settledLog deps context [] w (Inl e)"
  by (simp add: settledLog_def)

lemma settledLog_stored:
  "storedTerminal deps (rx_paymentId context) w result \<Longrightarrow> settledLog deps context [] w (Inr result)"
  by (simp add: settledLog_def)

lemma recordAttention_settled:
  "logsFrom w (settledLog deps context) (recordAttention env deps context reason evidenceAt known)"
  by (rule logsFrom_mono [OF recordAttention_logs]) (simp add: settledLog_def)

lemma handleObservationFailure_logs:
  "logsFrom w (settledLog deps context) (handleObservationFailure env deps context e evidenceAt)"
  unfolding handleObservationFailure_def
proof (rule thenFrom_quiet, goal_cases)
  case (3 v aborted)
  show ?case
    by (auto intro!: throwCoordinator_from thenFrom_quiet readClock_quiet recordAttention_settled logs_done
        split: option.splits)
qed (auto intro: logs_ask)

lemma reloaded_settled:
  assumes "\<And>w. logsFrom w (settledLog deps context) m"
  shows "logsFrom w (settledLog deps context)
    (thenA (reloadTerminal deps (rx_paymentId context)) (\<lambda>terminal.
       case terminal of Some result \<Rightarrow> doneA result | None \<Rightarrow> m))"
  using assms
  by (intro logsFrom_then [OF reloadTerminal_logs])
    (auto intro!: logsFrom_done settledLog_stored split: option.splits)

lemma afterFailedWrite_logs:
  "logsFrom w (settledLog deps context) (afterFailedWrite env deps context e evidenceAt recordedAt)"
  unfolding afterFailedWrite_def
  by (intro reloaded_settled) (auto intro: recordAttention_settled throwCoordinator_from)

lemma storeFailure_logs: "logsFrom w (settledLog deps context) (storeFailure env deps context evidenceAt)"
  unfolding storeFailure_def by (intro reloaded_settled recordAttention_settled)

text \<open>The evidence under which a payment is booked and a reservation released.\<close>

definition paidEvidence ::
  "recovery_context \<Rightarrow> melt_quote \<Rightarrow> proof_state_snapshot \<Rightarrow> acceptance_input \<Rightarrow> bool" where
  "paidEvidence context quote proofState input \<longleftrightarrow>
     mq_state quote = Quote_paid \<and> uniformProofState proofState = Some Proof_spent
     \<and> ei_paymentId input = rx_paymentId context
     \<and> ei_effectId input = me_effectId (rx_effect context)
     \<and> ci_feeAmount input = 0 \<and> ci_evidenceKind input = ''melt_paid''
     \<and> ei_evidenceAt input = mq_observedAt quote
     \<and> ci_proofStateObservedAt input = pss_observedAt proofState
     \<and> me_startedAt (rx_effect context) \<le> mq_observedAt quote
     \<and> mq_observedAt quote \<le> pss_observedAt proofState
     \<and> pss_observedAt proofState \<le> ei_recordedAt input"

definition unpaidEvidence ::
  "recovery_context \<Rightarrow> melt_quote \<Rightarrow> proof_state_snapshot \<Rightarrow> release_input \<Rightarrow> bool" where
  "unpaidEvidence context quote proofState input \<longleftrightarrow>
     mq_state quote = Quote_unpaid \<and> mq_expiry quote \<le> mq_observedAt quote
     \<and> uniformProofState proofState = Some Proof_unspent
     \<and> ri_paymentId input = rx_paymentId context
     \<and> ri_kind input = ''after_failure''
     \<and> ri_effectId input = Some (me_effectId (rx_effect context))
     \<and> ri_evidenceKind input = Some ''melt_unpaid_after_expiry''
     \<and> ri_evidenceAt input = Some (mq_observedAt quote)
     \<and> ri_proofStateObservedAt input = Some (pss_observedAt proofState)
     \<and> mq_observedAt quote \<le> pss_observedAt proofState
     \<and> pss_observedAt proofState \<le> ri_recordedAt input"

definition acceptedLog ::
  "'w recovery_deps \<Rightarrow> recovery_context \<Rightarrow> melt_quote \<Rightarrow> proof_state_snapshot
  \<Rightarrow> recovery_call list \<Rightarrow> 'w \<Rightarrow> recover_failure + recovery_result \<Rightarrow> bool" where
  "acceptedLog deps context quote proofState calls w r \<longleftrightarrow>
     (\<exists>input answer rest. calls = Payment_accepted input answer # rest
        \<and> paidEvidence context quote proofState input
        \<and> ((\<exists>e. answer = Inl e) \<and> settledLog deps context rest w r
           \<or> (\<exists>a. answer = Inr a \<and> rest = [] \<and> r = Inr (resultOf (rx_paymentId context) (ch_lifecycle (an_change a))
                 (Recovery_accepted (an_accounting a) (ch_replayed (an_change a)))))))"

definition releasedLog ::
  "'w recovery_deps \<Rightarrow> recovery_context \<Rightarrow> melt_quote \<Rightarrow> proof_state_snapshot
  \<Rightarrow> recovery_call list \<Rightarrow> 'w \<Rightarrow> recover_failure + recovery_result \<Rightarrow> bool" where
  "releasedLog deps context quote proofState calls w r \<longleftrightarrow>
     (\<exists>input answer rest. calls = Reservation_released input answer # rest
        \<and> unpaidEvidence context quote proofState input
        \<and> ((\<exists>e. answer = Inl e) \<and> settledLog deps context rest w r
           \<or> (\<exists>c. answer = Inr c \<and> rest = [] \<and> r = Inr (resultOf (rx_paymentId context) (ch_lifecycle c)
                 (Recovery_released (ch_replayed c))))))"

definition pendingLog ::
  "'w recovery_deps \<Rightarrow> recovery_context \<Rightarrow> melt_quote \<Rightarrow> proof_state_snapshot
  \<Rightarrow> recovery_call list \<Rightarrow> 'w \<Rightarrow> recover_failure + recovery_result \<Rightarrow> bool" where
  "pendingLog deps context quote proofState calls w r \<longleftrightarrow>
     (calls = [] \<or> (\<exists>input answer. calls = [Pending_recorded input answer]
          \<and> mq_state quote = Quote_pending))
     \<and> (\<forall>result. r = Inr result \<longrightarrow> storedTerminal deps (rx_paymentId context) w result
          \<or> rr_paymentId result = rx_paymentId context
             \<and> rr_outcome result = Recovery_pending (pss_observedAt proofState) (mq_observedAt quote))"

lemma acceptRecovered_logs:
  assumes "\<And>input. ei_paymentId input = rx_paymentId context \<Longrightarrow>
      ei_effectId input = me_effectId (rx_effect context) \<Longrightarrow>
      ci_feeAmount input = 0 \<Longrightarrow> ci_evidenceKind input = ''melt_paid'' \<Longrightarrow>
      ei_evidenceAt input = mq_observedAt quote \<Longrightarrow>
      ci_proofStateObservedAt input = pss_observedAt proofState \<Longrightarrow>
      ei_recordedAt input = recordedAt \<Longrightarrow> paidEvidence context quote proofState input"
  shows "logsFrom w (\<lambda>calls w r. settledLog deps context calls w r \<or> acceptedLog deps context quote proofState calls w r)
    (acceptRecovered env deps context quote proofState recordedAt)"
  unfolding acceptRecovered_def Let_def
  by (intro pureFrom_bind loggedFrom_either)
    (auto intro!: logsFrom_done logsFrom_mono [OF afterFailedWrite_logs] assms simp: acceptedLog_def)

lemma releaseReservation_logs:
  assumes "\<And>input. ri_paymentId input = rx_paymentId context \<Longrightarrow>
      ri_kind input = ''after_failure'' \<Longrightarrow>
      ri_effectId input = Some (me_effectId (rx_effect context)) \<Longrightarrow>
      ri_evidenceKind input = Some ''melt_unpaid_after_expiry'' \<Longrightarrow>
      ri_evidenceAt input = Some (mq_observedAt quote) \<Longrightarrow>
      ri_proofStateObservedAt input = Some (pss_observedAt proofState) \<Longrightarrow>
      ri_recordedAt input = recordedAt \<Longrightarrow> unpaidEvidence context quote proofState input"
  shows "logsFrom w (\<lambda>calls w r. settledLog deps context calls w r \<or> releasedLog deps context quote proofState calls w r)
    (releaseReservation env deps context quote proofState recordedAt)"
  unfolding releaseReservation_def Let_def
  by (intro pureFrom_bind loggedFrom_either)
    (auto intro!: logsFrom_done logsFrom_mono [OF afterFailedWrite_logs] assms simp: releasedLog_def)

lemma pendingResult_logs:
  "logsFrom w (pendingLog deps context quote proofState)
    (pendingResult env deps context quote proofState recordedAt)"
proof (cases "mq_state quote = Quote_pending")
  case False
  then show ?thesis
    by (simp add: pendingResult_def Let_def pendingLog_def resultOf_def logsFrom_done)
next
  case True
  show ?thesis
    unfolding pendingResult_def Let_def
    by (simp add: True, intro pureFrom_bind loggedFrom_either logsFrom_then [OF reloadAfterEventWrite_logs])
      (auto intro!: logsFrom_done throwCoordinator_from simp: pendingLog_def resultOf_def True
        split: option.splits reloaded_recovery.splits)
qed

section \<open>A whole recovery\<close>

definition decideLog ::
  "'w recovery_deps \<Rightarrow> recovery_context \<Rightarrow> melt_quote \<Rightarrow> proof_state_snapshot
  \<Rightarrow> recovery_call list \<Rightarrow> 'w \<Rightarrow> recover_failure + recovery_result \<Rightarrow> bool" where
  "decideLog deps context quote proofState calls w r \<longleftrightarrow>
     settledLog deps context calls w r \<or> acceptedLog deps context quote proofState calls w r
     \<or> releasedLog deps context quote proofState calls w r \<or> pendingLog deps context quote proofState calls w r"

lemma decideRecovery_logs:
  "logsFrom w (decideLog deps context quote proofState) (decideRecovery env deps context quote proofState)"
  unfolding decideRecovery_def Let_def
proof (rule thenFrom_quiet, goal_cases)
  case (3 v recordedAt)
  show ?case
  proof (cases "mq_observedAt quote < me_startedAt (rx_effect context)
      \<or> pss_observedAt proofState < mq_observedAt quote
      \<or> recordedAt < latestRecordedAt context \<or> recordedAt < pss_observedAt proofState")
    case True
    then show ?thesis by (simp add: throwCoordinator_from decideLog_def)
  next
    case False
    then have times: "me_startedAt (rx_effect context) \<le> mq_observedAt quote"
      "mq_observedAt quote \<le> pss_observedAt proofState" "pss_observedAt proofState \<le> recordedAt"
      by simp_all
    have "logsFrom v (decideLog deps context quote proofState)
        (acceptRecovered env deps context quote proofState recordedAt)"
      if "mq_state quote = Quote_paid \<and> uniformProofState proofState = Some Proof_spent"
      using that times
      by (intro logsFrom_mono [OF acceptRecovered_logs]) (auto simp: decideLog_def paidEvidence_def)
    moreover have "logsFrom v (decideLog deps context quote proofState)
        (releaseReservation env deps context quote proofState recordedAt)"
      if "mq_state quote = Quote_unpaid \<and> mq_expiry quote \<le> mq_observedAt quote
        \<and> uniformProofState proofState = Some Proof_unspent"
      using that times
      by (intro logsFrom_mono [OF releaseReservation_logs]) (auto simp: decideLog_def unpaidEvidence_def)
    moreover have "logsFrom v (decideLog deps context quote proofState)
        (pendingResult env deps context quote proofState recordedAt)"
      by (rule logsFrom_mono [OF pendingResult_logs]) (simp add: decideLog_def)
    moreover have "logsFrom v (decideLog deps context quote proofState)
        (recordAttention env deps context reason at known)" for reason at known
      by (rule logsFrom_mono [OF recordAttention_settled]) (simp add: decideLog_def)
    ultimately show ?thesis using False by (simp del: not_less)
  qed
qed (simp_all add: readClock_quiet decideLog_def)

definition observeProofsLog :: "cashu_env \<Rightarrow> 'w recovery_deps \<Rightarrow> recovery_context \<Rightarrow> melt_quote
  \<Rightarrow> recovery_call list \<Rightarrow> 'w \<Rightarrow> recover_failure + recovery_result \<Rightarrow> bool" where
  "observeProofsLog env deps context quote calls w r \<longleftrightarrow>
     (\<exists>answer more. calls = Proofs_observed (prs_proofReferences (rx_reservation context)) answer # more
        \<and> (settledLog deps context more w r
           \<or> (\<exists>received proofState store stored rest.
                answer = Inr received
                \<and> validateProofStateSnapshot env received (rx_reservation context) = Inr proofState
                \<and> poi_snapshot store = proofState
                \<and> more = Proofs_stored store stored # rest
                \<and> (settledLog deps context rest w r
                   \<or> (\<exists>row. stored = Inr row) \<and> decideLog deps context quote proofState rest w r))))"

lemma observeProofs_logs:
  "logsFrom w (observeProofsLog env deps context quote) (observeProofs env deps context quote)"
  unfolding observeProofs_def Let_def
proof (rule logsFrom_either [where M = "\<lambda>calls w r.
      \<exists>answer. calls = [Proofs_observed (prs_proofReferences (rx_reservation context)) answer]
        \<and> (\<forall>proofState. r = Inr proofState \<longrightarrow> (\<exists>received. answer = Inr received
             \<and> validateProofStateSnapshot env received (rx_reservation context) = Inr proofState))"],
    goal_cases)
  case 1
  show ?case
    by (rule logsFrom_then [OF logsFrom_logged [where L = "\<lambda>calls w r.
          calls = [Proofs_observed (prs_proofReferences (rx_reservation context)) r]"]])
      (auto intro!: logsFrom_pure simp: catchR_def split: sum.splits)
next
  case (2 before v e)
  then show ?case
    by (intro logsFrom_mono [OF handleObservationFailure_logs]) (auto simp: observeProofsLog_def)
next
  case (3 before v proofState)
  then obtain received where
    before: "before = [Proofs_observed (prs_proofReferences (rx_reservation context)) (Inr received)]"
    and snapshot: "validateProofStateSnapshot env received (rx_reservation context) = Inr proofState"
    by blast
  let ?store = "\<lparr>poi_operatorId = prs_operatorId (rx_reservation context),
    poi_paymentId = rx_paymentId context, poi_snapshot = proofState,
    poi_unit = prs_unit (rx_reservation context)\<rparr>"
  show ?case
  proof (rule logsFrom_either [where M = "\<lambda>calls w r. \<exists>stored. calls = [Proofs_stored ?store stored]
        \<and> (\<forall>x. r = Inr x \<longrightarrow> (\<exists>row. stored = Inr row))"], goal_cases)
    case 1
    show ?case
      by (rule logsFrom_then [OF logsFrom_logged [where L = "\<lambda>calls w r. calls = [Proofs_stored ?store r]"]])
        (auto intro!: logsFrom_pure)
  next
    case (2 more u e)
    then show ?case
      using snapshot before
      by (intro logsFrom_mono [OF storeFailure_logs]) (auto simp: observeProofsLog_def)
  next
    case (3 more u x)
    then show ?case
      using snapshot before
      by (intro logsFrom_mono [OF decideRecovery_logs]) (auto simp: observeProofsLog_def)
  qed
qed

definition observeQuoteLog :: "cashu_env \<Rightarrow> 'w recovery_deps \<Rightarrow> recovery_context
  \<Rightarrow> recovery_call list \<Rightarrow> 'w \<Rightarrow> recover_failure + recovery_result \<Rightarrow> bool" where
  "observeQuoteLog env deps context calls w r \<longleftrightarrow>
     (\<exists>answer more. calls = Quote_checked (ra_latestQuote (rx_attempt context)) answer # more
        \<and> (settledLog deps context more w r
           \<or> (\<exists>received quote store stored rest.
                answer = Inr received
                \<and> createCashuStellarMeltQuoteV1 env received = Inr quote
                \<and> assertObservedQuote quote context
                \<and> qti_quote store = quote
                \<and> more = Quote_stored store stored # rest
                \<and> (settledLog deps context rest w r
                   \<or> (\<exists>row. stored = Inr row) \<and> observeProofsLog env deps context quote rest w r))))"

lemma observeQuote_logs: "logsFrom w (observeQuoteLog env deps context) (observeQuote env deps context)"
  unfolding observeQuote_def Let_def
proof (rule logsFrom_either [where M = "\<lambda>calls w r.
      \<exists>answer. calls = [Quote_checked (ra_latestQuote (rx_attempt context)) answer]
        \<and> (\<forall>quote. r = Inr quote \<longrightarrow> (\<exists>received. answer = Inr received
             \<and> createCashuStellarMeltQuoteV1 env received = Inr quote
             \<and> assertObservedQuote quote context))"],
    goal_cases)
  case 1
  show ?case
    by (rule logsFrom_then [OF logsFrom_logged [where L = "\<lambda>calls w r.
          calls = [Quote_checked (ra_latestQuote (rx_attempt context)) r]"]])
      (auto intro!: logsFrom_pure simp: catchR_def bindR_def split: sum.splits if_splits)
next
  case (2 before v e)
  then show ?case
    by (intro logsFrom_mono [OF handleObservationFailure_logs]) (auto simp: observeQuoteLog_def)
next
  case (3 before v quote)
  then obtain received where
    before: "before = [Quote_checked (ra_latestQuote (rx_attempt context)) (Inr received)]"
    and checked: "createCashuStellarMeltQuoteV1 env received = Inr quote"
      "assertObservedQuote quote context"
    by blast
  let ?store = "\<lparr>qti_attemptId = mat_attemptId (ra_attempt (rx_attempt context)),
    qti_paymentId = rx_paymentId context, qti_quote = quote\<rparr>"
  show ?case
  proof (rule logsFrom_either [where M = "\<lambda>calls w r. \<exists>stored. calls = [Quote_stored ?store stored]
        \<and> (\<forall>x. r = Inr x \<longrightarrow> (\<exists>row. stored = Inr row))"], goal_cases)
    case 1
    show ?case
      by (rule logsFrom_then [OF logsFrom_logged [where L = "\<lambda>calls w r. calls = [Quote_stored ?store r]"]])
        (auto intro!: logsFrom_pure)
  next
    case (2 more u e)
    then show ?case
      using checked before
      by (intro logsFrom_mono [OF storeFailure_logs]) (auto simp: observeQuoteLog_def)
  next
    case (3 more u x)
    then show ?case
      using checked before
      by (intro logsFrom_mono [OF observeProofs_logs]) (auto simp: observeQuoteLog_def)
  qed
qed

text \<open>The context of a recovery: what \<open>recover\<close> has checked before it asks the operator.\<close>

definition recoverableContext :: "recovery_config \<Rightarrow> recovery_context \<Rightarrow> bool" where
  "recoverableContext config context \<longleftrightarrow>
     prs_mintUrl (rx_reservation context) \<in> set (rcf_quoteMints config) \<inter> set (rcf_observerMints config)
     \<and> (\<exists>found. validateReservation (rcf_env config) found (rx_paymentId context)
          = Inr (rx_reservation context))
     \<and> requireRecoverableEffect (rx_lifecycle context) = Inr (rx_effect context)
     \<and> (\<exists>found. requireRecoverableAttempt (rcf_env config) found (rx_reservation context)
          (rx_effect context) = Inr (rx_attempt context))"

definition recoverLog :: "recovery_config \<Rightarrow> 'w recovery_deps \<Rightarrow> string
  \<Rightarrow> recovery_call list \<Rightarrow> 'w \<Rightarrow> recover_failure + recovery_result \<Rightarrow> bool" where
  "recoverLog config deps pid calls w r \<longleftrightarrow>
     calls = [] \<and> (\<forall>result. r = Inr result \<longrightarrow> storedTerminal deps pid w result)
     \<or> (\<exists>context. rx_paymentId context = pid \<and> recoverableContext config context
          \<and> observeQuoteLog (rcf_env config) deps context calls w r)"

lemma loadRecoveryReservation_logs:
  "quietlyFrom w (\<lambda>w x. \<exists>found. validateReservation env found pid = Inr x)
    (loadRecoveryReservation env deps pid)"
  unfolding loadRecoveryReservation_def
  by (rule logsFrom_either [OF logsFrom_call [where L = "\<lambda>new v r. new = []"]]) (auto intro!: logsFrom_intros throwCoordinator_from simp: result_simps
      split: option.splits)

lemma recoverOpen_logs:
  assumes reservation: "validateReservation (rcf_env config) found pid = Inr reservation"
  shows "logsFrom w (recoverLog config deps pid) (recoverOpen config deps pid reservation lifecycle)"
  unfolding recoverOpen_def
proof (rule pureFrom_bind, simp add: recoverLog_def)
  fix effect
  assume effect: "catchR Coordinator_error (requireRecoverableEffect lifecycle) = Inr effect"
  show "logsFrom w (recoverLog config deps pid) (thenA (loadQuoteAttempt deps pid) (\<lambda>found.
     thenA (pureA (catchR Coordinator_error
              (requireRecoverableAttempt (rcf_env config) found reservation effect))) (\<lambda>attempt.
     if prs_mintUrl reservation \<notin> set (rcf_quoteMints config)
        \<or> prs_mintUrl reservation \<notin> set (rcf_observerMints config)
     then throwCoordinator RC_operator_not_configured
     else observeQuote (rcf_env config) deps
       \<lparr>rx_attempt = attempt, rx_effect = effect, rx_lifecycle = lifecycle, rx_paymentId = pid,
        rx_reservation = reservation\<rparr>)))"
  proof (intro thenFrom_quiet [OF loadQuoteAttempt_quiet] pureFrom_bind, goal_cases)
    case (3 v found' attempt)
    then have attempt: "requireRecoverableAttempt (rcf_env config) found' reservation effect
        = Inr attempt"
      by (simp add: result_simps)
    let ?ctx = "\<lparr>rx_attempt = attempt, rx_effect = effect, rx_lifecycle = lifecycle,
      rx_paymentId = pid, rx_reservation = reservation\<rparr>"
    have "recoverLog config deps pid calls w r"
      if "observeQuoteLog (rcf_env config) deps ?ctx calls w r"
        "prs_mintUrl reservation \<in> set (rcf_quoteMints config)"
        "prs_mintUrl reservation \<in> set (rcf_observerMints config)" for calls w r
      unfolding recoverLog_def
      using that reservation effect attempt
      by (intro disjI2 exI [of _ ?ctx]) (auto simp: recoverableContext_def result_simps)
    then show ?case
      by (auto intro!: throwCoordinator_from logsFrom_mono [OF observeQuote_logs] simp: recoverLog_def)
  qed (simp_all add: recoverLog_def)
qed

lemma recover_logs: "logsFrom w (recoverLog config deps requested) (recover config deps requested)"
  unfolding recover_def
proof (rule pureFrom_bind, simp add: recoverLog_def)
  fix pid
  assume "catchR (\<lambda>_. Coordinator_error RC_invalid_request) (identifierOf requested) = Inr pid"
  then have pid: "pid = requested" by (simp add: result_simps)
  have stored: "recoverLog config deps requested [] w (Inr result)" if "storedTerminal deps requested w result" for w result
    using that by (simp add: recoverLog_def)
  have thrown: "recoverLog config deps requested [] w (Inl e)" for w e
    by (simp add: recoverLog_def)
  show "logsFrom w (recoverLog config deps requested) (thenA (askA (rd_aborted deps)) (\<lambda>aborted.
     if aborted then throwCoordinator RC_request_aborted
     else
     thenA (loadRecoveryReservation (rcf_env config) deps pid) (\<lambda>reservation.
     thenA (loadRecoveryLifecycle deps pid) (\<lambda>lifecycle.
     thenA (terminalResult deps pid lifecycle) (\<lambda>terminal.
     case terminal of
       Some result \<Rightarrow> doneA result
     | None \<Rightarrow> recoverOpen config deps pid reservation lifecycle)))))"
    unfolding pid
    by (auto intro!: thenFrom_quiet [where m = "askA _"] quietlyFrom_then [OF loadRecoveryReservation_logs]
        quietlyFrom_then [OF loadRecoveryLifecycle_logs] quietlyFrom_then [OF terminalResult_logs]
        logs_ask throwCoordinator_from logsFrom_done stored thrown recoverOpen_logs split: option.splits)
qed

end
