(* ===== verification/Recovery_Results.thy ===== *)
theory Recovery_Results
  imports Recovery_Evidence Example
begin

text \<open>
  The properties of the recovery coordinator, for every behaviour of the operator and of the
  repositories: under which evidence it books or releases, how much it may write, and what backs
  the result it returns.
\<close>

section \<open>The shape of a run\<close>

fun observation :: "recovery_call \<Rightarrow> bool" where
  "observation (Quote_checked _ _) = True"
| "observation (Quote_stored _ _) = True"
| "observation (Proofs_observed _ _) = True"
| "observation (Proofs_stored _ _) = True"
| "observation _ = False"

fun terminalWrite :: "recovery_call \<Rightarrow> bool" where
  "terminalWrite (Payment_accepted _ _) = True"
| "terminalWrite (Reservation_released _ _) = True"
| "terminalWrite _ = False"

text \<open>The two pairs of observations that precede a decision, all of them answered.\<close>

definition observedStates :: "cashu_env \<Rightarrow> recovery_context \<Rightarrow> proof_state_snapshot
  \<Rightarrow> recovery_call list \<Rightarrow> bool" where
  "observedStates env context proofState calls \<longleftrightarrow>
     (\<exists>answer store snapshot.
        calls = [Proofs_observed (prs_proofReferences (rx_reservation context)) (Inr answer),
                 Proofs_stored store (Inr snapshot)]
        \<and> validateProofStateSnapshot env answer (rx_reservation context) = Inr proofState
        \<and> poi_snapshot store = proofState)"

definition observedTerms :: "cashu_env \<Rightarrow> recovery_context \<Rightarrow> melt_quote
  \<Rightarrow> recovery_call list \<Rightarrow> bool" where
  "observedTerms env context quote calls \<longleftrightarrow>
     (\<exists>answer store attempt.
        calls = [Quote_checked (ra_latestQuote (rx_attempt context)) (Inr answer),
                 Quote_stored store (Inr attempt)]
        \<and> createCashuStellarMeltQuoteV1 env answer = Inr quote
        \<and> assertObservedQuote quote context
        \<and> qti_quote store = quote)"

lemma observeProofsLog_cases:
  assumes "observeProofsLog env deps ctx quote calls w r"
  obtains (settled) before more where "calls = before @ more" "list_all observation before"
      "length before \<le> 2" "settledLog deps ctx more w r"
  | (decided) proofState before more where "calls = before @ more"
      "observedStates env ctx proofState before" "decideLog deps ctx quote proofState more w r"
proof -
  obtain answer more where
    calls: "calls = Proofs_observed (prs_proofReferences (rx_reservation ctx)) answer # more"
    and more: "settledLog deps ctx more w r \<or> (\<exists>received proofState store stored rest.
        answer = Inr received
        \<and> validateProofStateSnapshot env received (rx_reservation ctx) = Inr proofState
        \<and> poi_snapshot store = proofState \<and> more = Proofs_stored store stored # rest
        \<and> (settledLog deps ctx rest w r \<or> (\<exists>row. stored = Inr row) \<and> decideLog deps ctx quote proofState rest w r))"
    using assms unfolding observeProofsLog_def by blast
  show thesis
  proof (cases "settledLog deps ctx more w r")
    case True
    show thesis by (rule settled [OF _ _ _ True, where before = "take 1 calls"]) (simp_all add: calls)
  next
    case False
    with more obtain received proofState store stored rest where
      parts: "answer = Inr received" "poi_snapshot store = proofState"
        "validateProofStateSnapshot env received (rx_reservation ctx) = Inr proofState"
        "more = Proofs_stored store stored # rest"
      and rest: "settledLog deps ctx rest w r
        \<or> (\<exists>row. stored = Inr row) \<and> decideLog deps ctx quote proofState rest w r"
      by blast
    from rest show thesis
    proof (elim disjE conjE exE)
      assume "settledLog deps ctx rest w r"
      then show thesis
        by (intro settled [where before = "take 2 calls" and more = rest]) (simp_all add: calls parts)
    next
      fix row
      assume "stored = Inr row" "decideLog deps ctx quote proofState rest w r"
      then show thesis
        by (intro decided [where before = "[_, _]" and more = rest])
          (auto simp: calls parts observedStates_def)
    qed
  qed
qed

lemma observeQuoteLog_cases:
  assumes "observeQuoteLog env deps ctx calls w r"
  obtains (settled) before more where "calls = before @ more" "list_all observation before"
      "length before \<le> 2" "settledLog deps ctx more w r"
  | (observed) quote before more where "calls = before @ more"
      "observedTerms env ctx quote before" "observeProofsLog env deps ctx quote more w r"
proof -
  obtain answer more where
    calls: "calls = Quote_checked (ra_latestQuote (rx_attempt ctx)) answer # more"
    and more: "settledLog deps ctx more w r \<or> (\<exists>received quote store stored rest.
        answer = Inr received \<and> createCashuStellarMeltQuoteV1 env received = Inr quote
        \<and> assertObservedQuote quote ctx \<and> qti_quote store = quote
        \<and> more = Quote_stored store stored # rest
        \<and> (settledLog deps ctx rest w r \<or> (\<exists>row. stored = Inr row) \<and> observeProofsLog env deps ctx quote rest w r))"
    using assms unfolding observeQuoteLog_def by blast
  show thesis
  proof (cases "settledLog deps ctx more w r")
    case True
    show thesis by (rule settled [OF _ _ _ True, where before = "take 1 calls"]) (simp_all add: calls)
  next
    case False
    with more obtain received quote store stored rest where
      parts: "answer = Inr received" "qti_quote store = quote"
        "createCashuStellarMeltQuoteV1 env received = Inr quote" "assertObservedQuote quote ctx"
        "more = Quote_stored store stored # rest"
      and rest: "settledLog deps ctx rest w r
        \<or> (\<exists>row. stored = Inr row) \<and> observeProofsLog env deps ctx quote rest w r"
      by blast
    from rest show thesis
    proof (elim disjE conjE exE)
      assume "settledLog deps ctx rest w r"
      then show thesis
        by (intro settled [where before = "take 2 calls" and more = rest]) (simp_all add: calls parts)
    next
      fix row
      assume "stored = Inr row" "observeProofsLog env deps ctx quote rest w r"
      then show thesis
        by (intro observed [where before = "[_, _]" and more = rest])
          (auto simp: calls parts observedTerms_def)
    qed
  qed
qed

lemma observed_prefix:
  "observedStates env ctx proofState calls \<Longrightarrow> list_all observation calls \<and> length calls = 2"
  "observedTerms env ctx quote calls \<Longrightarrow> list_all observation calls \<and> length calls = 2"
  by (auto simp: observedStates_def observedTerms_def)

lemma recoverLog_cases:
  assumes "recoverLog config deps pid calls w r"
  obtains (stored) "calls = []" "\<forall>result. r = Inr result \<longrightarrow> storedTerminal deps pid w result"
  | (settled) ctx before more where "calls = before @ more" "list_all observation before"
      "length before \<le> 4" "rx_paymentId ctx = pid" "settledLog deps ctx more w r"
  | (decided) ctx quote proofState terms states more where "calls = terms @ states @ more"
      "observedTerms (rcf_env config) ctx quote terms"
      "observedStates (rcf_env config) ctx proofState states"
      "rx_paymentId ctx = pid" "recoverableContext config ctx"
      "decideLog deps ctx quote proofState more w r"
  using assms unfolding recoverLog_def
proof (elim disjE exE conjE)
  fix ctx
  assume ctx: "rx_paymentId ctx = pid" "recoverableContext config ctx"
    and "observeQuoteLog (rcf_env config) deps ctx calls w r"
  from this(3) show thesis
  proof (cases rule: observeQuoteLog_cases)
    case 1: (settled before more)
    show thesis by (rule settled [OF 1(1,2) _ ctx(1) 1(4)]) (use 1 in simp)
  next
    case 2: (observed quote before more)
    from 2(3) show thesis
    proof (cases rule: observeProofsLog_cases)
      case 3: (settled before' more')
      show thesis
        by (rule settled [OF _ _ _ ctx(1) 3(4), where before = "before @ before'"])
          (use 2(1) 3 observed_prefix(2) [OF 2(2)] in auto)
    next
      case 3: (decided proofState before' more')
      show thesis by (rule decided [OF _ 2(2) 3(2) ctx 3(3)]) (simp add: 2(1) 3(1))
    qed
  qed
qed (rule stored)

section \<open>What may be written\<close>

lemma settledLog_calls:
  "settledLog deps ctx calls w r \<Longrightarrow> length calls \<le> 1 \<and> filter terminalWrite calls = []
     \<and> (\<forall>c \<in> set calls. \<exists>input answer. c = Attention_required input answer)"
  by (auto simp: settledLog_def attentionLog_def)

lemma decideLog_calls:
  assumes "decideLog deps ctx quote proofState calls w r"
  shows "length calls \<le> 2" and "length (filter terminalWrite calls) \<le> 1"
  using assms
  by (auto simp: decideLog_def acceptedLog_def releasedLog_def pendingLog_def
      dest!: settledLog_calls)

lemma observation_not_write:
  assumes "list_all observation calls"
  shows "filter terminalWrite calls = []" and "c \<in> set calls \<Longrightarrow> \<not> terminalWrite c"
proof -
  have "\<not> terminalWrite c" if "observation c" for c using that by (cases c) auto
  with assms show "filter terminalWrite calls = []" and "c \<in> set calls \<Longrightarrow> \<not> terminalWrite c"
    by (auto simp: list_all_iff filter_empty_conv)
qed

text \<open>
  C9 (safety): \<open>recover\<close> books a payment only on complete evidence.  Whatever the operator, the
  clock and the repositories answer, when a call of \<open>acceptPayment\<close> is in the log of a run, the
  run consists of exactly these calls: the operator answered the stored quote with a quote that
  the constructor accepts, that has the same terms and is PAID; the repository stored it; the
  operator answered the reserved proofs with a snapshot of exactly these proofs in which every
  proof is SPENT; the repository stored that; and the booking carries the times of these two
  observations in order, the payment and effect of the run, and no fee.  No other terminal write
  follows.
\<close>

theorem books_only_paid_and_spent:
  assumes run: "recover config deps requested (log, w) = ((log @ calls, w'), r)"
    and booked: "Payment_accepted input answer \<in> set calls"
  shows "\<exists>ctx quote proofState terms states rest.
     calls = terms @ states @ Payment_accepted input answer # rest
     \<and> observedTerms (rcf_env config) ctx quote terms
     \<and> observedStates (rcf_env config) ctx proofState states
     \<and> rx_paymentId ctx = requested
     \<and> recoverableContext config ctx
     \<and> paidEvidence ctx quote proofState input
     \<and> filter terminalWrite rest = []"
proof -
  from logsFromD [OF recover_logs run] have "recoverLog config deps requested calls w' r" by auto
  then show ?thesis
  proof (cases rule: recoverLog_cases)
    case stored
    with booked show ?thesis by simp
  next
    case 1: (settled ctx before more)
    with booked show ?thesis
      using observation_not_write(2) [OF 1(2)] settledLog_calls [OF 1(5)] by fastforce
  next
    case 1: (decided ctx quote proofState terms states more)
    have "Payment_accepted input answer \<notin> set terms \<union> set states"
      using observation_not_write(2) observed_prefix 1(2,3) by fastforce
    with booked 1(1) have "Payment_accepted input answer \<in> set more" by auto
    with 1(6) obtain rest where "more = Payment_accepted input answer # rest"
      "paidEvidence ctx quote proofState input" "filter terminalWrite rest = []"
      by (auto simp: decideLog_def acceptedLog_def releasedLog_def pendingLog_def
          dest!: settledLog_calls)
    with 1 show ?thesis by blast
  qed
qed

text \<open>
  C10 (safety): \<open>recover\<close> releases a reservation only when the operator can no longer pay.  When a
  call of \<open>release\<close> is in the log of a run, the run consists of exactly these calls: the operator
  answered with the same quote, UNPAID, observed at or after its expiry; the repository stored
  it; the operator answered with a snapshot of exactly the reserved proofs, all UNSPENT, observed
  no earlier than the quote; the repository stored that; and the release carries the times of
  these two observations.
\<close>

theorem releases_only_expired_and_unspent:
  assumes run: "recover config deps requested (log, w) = ((log @ calls, w'), r)"
    and released: "Reservation_released input answer \<in> set calls"
  shows "\<exists>ctx quote proofState terms states rest.
     calls = terms @ states @ Reservation_released input answer # rest
     \<and> observedTerms (rcf_env config) ctx quote terms
     \<and> observedStates (rcf_env config) ctx proofState states
     \<and> rx_paymentId ctx = requested
     \<and> recoverableContext config ctx
     \<and> unpaidEvidence ctx quote proofState input
     \<and> filter terminalWrite rest = []"
proof -
  from logsFromD [OF recover_logs run] have "recoverLog config deps requested calls w' r" by auto
  then show ?thesis
  proof (cases rule: recoverLog_cases)
    case stored
    with released show ?thesis by simp
  next
    case 1: (settled ctx before more)
    with released show ?thesis
      using observation_not_write(2) [OF 1(2)] settledLog_calls [OF 1(5)] by fastforce
  next
    case 1: (decided ctx quote proofState terms states more)
    have "Reservation_released input answer \<notin> set terms \<union> set states"
      using observation_not_write(2) observed_prefix 1(2,3) by fastforce
    with released 1(1) have "Reservation_released input answer \<in> set more" by auto
    with 1(6) obtain rest where "more = Reservation_released input answer # rest"
      "unpaidEvidence ctx quote proofState input" "filter terminalWrite rest = []"
      by (auto simp: decideLog_def acceptedLog_def releasedLog_def pendingLog_def
          dest!: settledLog_calls)
    with 1 show ?thesis by blast
  qed
qed

text \<open>
  One call of \<open>recover\<close> makes at most six calls to the operator and the repositories'
  writes, and at most one of them is terminal: it never both books and releases a payment, and
  never writes a terminal event twice.
\<close>

theorem recover_writes_at_most_once:
  assumes run: "recover config deps requested (log, w) = ((log @ calls, w'), r)"
  shows "length calls \<le> 6 \<and> length (filter terminalWrite calls) \<le> 1"
proof -
  from logsFromD [OF recover_logs run] have "recoverLog config deps requested calls w' r" by auto
  then show ?thesis
  proof (cases rule: recoverLog_cases)
    case 1: (settled ctx before more)
    then show ?thesis
      using observation_not_write(1) [OF 1(2)] settledLog_calls [OF 1(5)] by simp
  next
    case 1: (decided ctx quote proofState terms states more)
    then show ?thesis
      using observation_not_write(1) observed_prefix decideLog_calls [OF 1(6)] by fastforce
  qed simp
qed

text \<open>What stands behind a result: the last write of the run, or the store.\<close>

definition backedBy ::
  "'w recovery_deps \<Rightarrow> recovery_call list \<Rightarrow> 'w \<Rightarrow> string \<Rightarrow> recovery_result \<Rightarrow> bool" where
  "backedBy deps calls w pid result \<longleftrightarrow> rr_paymentId result = pid
    \<and> (case rr_outcome result of
         Recovery_accepted accounting replayed \<Rightarrow>
           storedTerminal deps pid w result
           \<or> (\<exists>input a before. calls = before @ [Payment_accepted input (Inr a)]
                \<and> accounting = an_accounting a \<and> replayed = ch_replayed (an_change a)
                \<and> rr_lifecycle result = ch_lifecycle (an_change a))
       | Recovery_released replayed \<Rightarrow>
           storedTerminal deps pid w result
           \<or> (\<exists>input c before. calls = before @ [Reservation_released input (Inr c)]
                \<and> replayed = ch_replayed c \<and> rr_lifecycle result = ch_lifecycle c)
       | Recovery_pending _ _ \<Rightarrow> filter terminalWrite calls = []
       | Recovery_attention reason \<Rightarrow>
           \<exists>input answer before. calls = before @ [Attention_required input answer]
             \<and> ai_reason input = reason)"

lemma stored_backed: "storedTerminal deps pid w result \<Longrightarrow> backedBy deps calls w pid result"
  using storedTerminal_outcome [of deps pid w result] by (auto simp: backedBy_def)

lemma settled_backed:
  assumes "settledLog deps ctx rest w (Inr result)"
  shows "backedBy deps (before @ rest) w (rx_paymentId ctx) result"
proof (cases "storedTerminal deps (rx_paymentId ctx) w result")
  case True
  then show ?thesis by (rule stored_backed)
next
  case False
  with assms show ?thesis by (auto simp: settledLog_def attentionLog_def backedBy_def)
qed

lemma decided_backed:
  assumes "decideLog deps ctx quote proofState rest w (Inr result)" and "filter terminalWrite before = []"
  shows "backedBy deps (before @ rest) w (rx_paymentId ctx) result"
  using assms(1) unfolding decideLog_def
proof (elim disjE)
  assume "settledLog deps ctx rest w (Inr result)"
  then show ?thesis by (rule settled_backed)
next
  assume "acceptedLog deps ctx quote proofState rest w (Inr result)"
  then show ?thesis
    using settled_backed [where before = "before @ [_]"]
    by (fastforce simp: acceptedLog_def backedBy_def resultOf_def)
next
  assume "releasedLog deps ctx quote proofState rest w (Inr result)"
  then show ?thesis
    using settled_backed [where before = "before @ [_]"]
    by (fastforce simp: releasedLog_def backedBy_def resultOf_def)
next
  assume pending: "pendingLog deps ctx quote proofState rest w (Inr result)"
  show ?thesis
  proof (cases "storedTerminal deps (rx_paymentId ctx) w result")
    case True
    then show ?thesis by (rule stored_backed)
  next
    case False
    with pending assms(2) show ?thesis by (auto simp: pendingLog_def backedBy_def)
  qed
qed

text \<open>
  C11 (functional): the result of \<open>recover\<close> is backed by the store.  A run that returns an accepted
  or a released payment either made the terminal write itself, its last call, and returns what
  the repository answered, or ended by reading from the store that the payment is consumed or
  released: then it returns the lifecycle the repository answered, and for a consumed payment the
  accounting answered next, marked as replayed.  A run that returns \<open>needs_attention\<close> tried to record that reason last.
\<close>

theorem recover_result_backed:
  assumes run: "recover config deps requested (log, w) = ((log @ calls, w'), Inr result)"
  shows "backedBy deps calls w' requested result"
proof -
  from logsFromD [OF recover_logs run] have "recoverLog config deps requested calls w' (Inr result)" by auto
  then show ?thesis
  proof (cases rule: recoverLog_cases)
    case stored
    then show ?thesis by (simp add: stored_backed)
  next
    case 1: (settled ctx before more)
    show ?thesis using settled_backed [OF 1(5), of before] 1(1,4) by simp
  next
    case 1: (decided ctx quote proofState terms states more)
    have "filter terminalWrite (terms @ states) = []"
      using observation_not_write(1) observed_prefix 1(2,3) by fastforce
    with decided_backed [OF 1(6)] 1(1,4) show ?thesis by (metis append.assoc)
  qed
qed

section \<open>A deployment\<close>

text \<open>
  The payment of the example, dispatched at 40: the operator answers with the quote state and the
  proof state given, at the times given, and the repositories keep what they are handed.
\<close>

definition exReference :: proof_reference where
  "exReference = \<lparr>pr_amount = 100, pr_keysetId = ''0000000000000001'', pr_y = exY\<rparr>"

definition exProofReservation :: proof_reservation where
  "exProofReservation = \<lparr>prs_invoiceId = ''i1'', prs_keysetObservedAt = 15, prs_mintUrl = ''https:m'',
     prs_operatorId = ''o1'', prs_paymentId = ''p1'', prs_proofReferences = [exReference],
     prs_reservedAt = 20, prs_unit = ''usdc'', prs_grossAmount = 100, prs_schemaVersion = 1\<rparr>"

definition exMeltQuote :: "melt_quote_state \<Rightarrow> int \<Rightarrow> melt_quote" where
  "exMeltQuote st t = \<lparr>mq_amount = 100, mq_expiry = 90, mq_feeReserve = 1, mq_method = ''stellar'',
     mq_mintUrl = ''https:m'', mq_observedAt = t, mq_quoteId = exQuoteId, mq_request = ''web+pay'',
     mq_schemaVersion = 1, mq_state = st, mq_unit = ''usdc''\<rparr>"

definition exMeltAttempt :: "melt_quote list \<Rightarrow> melt_attempt" where
  "exMeltAttempt quotes = \<lparr>mat_attemptId = ''a1'', mat_invoiceId = ''i1'', mat_mintUrl = ''https:m'',
     mat_operatorId = ''o1'', mat_paymentId = ''p1'', mat_request = \<lparr>qr_amount = 100,
       qr_method = ''stellar'', qr_request = ''web+pay'', qr_unit = ''usdc''\<rparr>,
     mat_schemaVersion = 1, mat_startedAt = 25, mat_body = Attempt_quoted (last quotes) quotes\<rparr>"

definition exProofSnapshot :: "string \<Rightarrow> int \<Rightarrow> proof_state_snapshot_input" where
  "exProofSnapshot st t = \<lparr>pssi_mintUrl = ''https:m'', pssi_observedAt = t, pssi_schemaVersion = Some 1,
     pssi_states = [\<lparr>psi_state = st, psi_y = exY\<rparr>]\<rparr>"

definition exRecoveryConfig :: recovery_config where
  "exRecoveryConfig = \<lparr>rcf_env = exEnv, rcf_quoteMints = [''https:m''], rcf_observerMints = [''https:m'']\<rparr>"

definition exRecoveryDeps :: "melt_quote_state \<Rightarrow> int \<Rightarrow> string \<Rightarrow> int \<Rightarrow> unit recovery_deps" where
  "exRecoveryDeps qst qt pst pt = \<lparr>rd_now = (\<lambda>w. (w, Inr (pt + 5))), rd_aborted = (\<lambda>_. False),
     rd_findReservation = (\<lambda>_ w. (w, Inr (Some exProofReservation))),
     rd_findLifecycle = (\<lambda>_ w. (w, Inr (Some (exLifecycle [] Dispatch_started)))),
     rd_findAccounting = (\<lambda>_ w. (w, Inr None)),
     rd_findQuote = (\<lambda>_ w. (w, Inr (Some (exMeltAttempt [exMeltQuote Quote_unpaid 30])))),
     rd_check = (\<lambda>_ _ w. (w, Inr (quoteInput (exMeltQuote qst qt)))),
     rd_observe = (\<lambda>_ _ w. (w, Inr (exProofSnapshot pst pt))),
     rd_storeQuote = (\<lambda>input w. (w, Inr (exMeltAttempt [exMeltQuote Quote_unpaid 30, qti_quote input]))),
     rd_storeProofState = (\<lambda>input w. (w, Inr (snapshotInput (poi_snapshot input)))),
     rd_acceptPayment = (\<lambda>_ w. (w, Inr exAccepted)),
     rd_release = (\<lambda>_ w. (w, Inr (exChange [exReleased] Released))),
     rd_recordPending = (\<lambda>_ w. (w, Inl True)),
     rd_requireAttention = (\<lambda>_ w. (w, Inl True))\<rparr>"

abbreviation exRun :: "unit recovery_deps \<Rightarrow> (recovery_call list \<times> unit) \<times> (recover_failure + recovery_result)" where
  "exRun deps \<equiv> recover exRecoveryConfig deps ''p1'' ([], ())"

definition exPaid :: "unit recovery_deps" where
  "exPaid = exRecoveryDeps Quote_paid 60 ''SPENT'' 65"

definition exExpired :: "unit recovery_deps" where
  "exExpired = exRecoveryDeps Quote_unpaid 95 ''UNSPENT'' 97"

fun booking :: "recovery_call \<Rightarrow> bool" where
  "booking (Payment_accepted _ _) = True"
| "booking _ = False"

fun releasing :: "recovery_call \<Rightarrow> bool" where
  "releasing (Reservation_released _ _) = True"
| "releasing _ = False"

lemma terminalWrite_cases:
  "booking c \<longleftrightarrow> (\<exists>input answer. c = Payment_accepted input answer)"
  "releasing c \<longleftrightarrow> (\<exists>input answer. c = Reservation_released input answer)"
  by (cases c; simp)+

lemma exRecoveryConfig_env: "rcf_env exRecoveryConfig = exEnv"
  by (simp add: exRecoveryConfig_def)

lemma exRun_paid:
  "list_ex booking (fst (fst (exRun exPaid)))"
  "map_sum id (\<lambda>r. rr_outcome r) (snd (exRun exPaid)) = Inr (Recovery_accepted (an_accounting exAccepted) False)"
  by code_simp+

lemma exRun_expired: "list_ex releasing (fst (fst (exRun exExpired)))"
  by code_simp

lemma exRun_run: "recover exRecoveryConfig deps ''p1'' ([], ())
    = (([] @ fst (fst (exRun deps)), ()), snd (exRun deps))"
  by (simp add: prod_eq_iff)

theorem books_only_paid_and_spent_witness:
  "\<exists>ctx quote proofState terms states input.
     observedTerms exEnv ctx quote terms
     \<and> observedStates exEnv ctx proofState states \<and> rx_paymentId ctx = ''p1''
     \<and> paidEvidence ctx quote proofState input"
proof -
  obtain input answer where "Payment_accepted input answer \<in> set (fst (fst (exRun exPaid)))"
    using exRun_paid(1) by (auto simp: list_ex_iff terminalWrite_cases)
  from books_only_paid_and_spent [OF exRun_run this] show ?thesis
    unfolding exRecoveryConfig_env by blast
qed

theorem releases_only_expired_and_unspent_witness:
  "\<exists>ctx quote proofState terms states input.
     observedTerms exEnv ctx quote terms
     \<and> observedStates exEnv ctx proofState states \<and> rx_paymentId ctx = ''p1''
     \<and> unpaidEvidence ctx quote proofState input"
proof -
  obtain input answer where "Reservation_released input answer \<in> set (fst (fst (exRun exExpired)))"
    using exRun_expired by (auto simp: list_ex_iff terminalWrite_cases)
  from releases_only_expired_and_unspent [OF exRun_run this] show ?thesis
    unfolding exRecoveryConfig_env by blast
qed

theorem recover_writes_at_most_once_witness:
  "length (fst (fst (exRun exPaid))) \<le> 6 \<and> length (filter terminalWrite (fst (fst (exRun exPaid)))) \<le> 1"
  by (rule recover_writes_at_most_once [OF exRun_run])

theorem recover_result_backed_witness:
  "\<exists>result input a before. snd (exRun exPaid) = Inr result
     \<and> fst (fst (exRun exPaid)) = before @ [Payment_accepted input (Inr a)]
     \<and> an_accounting exAccepted = an_accounting a"
proof -
  obtain result where r: "snd (exRun exPaid) = Inr result"
    "rr_outcome result = Recovery_accepted (an_accounting exAccepted) False"
    using exRun_paid(2) by (cases "snd (exRun exPaid)") auto
  from recover_result_backed [OF exRun_run [of exPaid, unfolded r(1)]] r show ?thesis
    by (auto simp: backedBy_def storedTerminal_def)
qed

end
