(* ===== verification/Worker_Properties.thy ===== *)
theory Worker_Properties
  imports Worker_Facts Recovery_Results
begin

text \<open>The properties of the recovery worker.\<close>

text \<open>
  C17 (functional): what a worker records follows from what the coordinator answered.  When a run
  records an outcome, its first call claimed a lease; the outcome is for that lease's token and
  payment and at a time within the lease; \<open>accepted\<close> and \<open>released\<close> are recorded only when the
  coordinator returned exactly that for this payment; and a retry is scheduled only before the
  last attempt that the policy allows, at the back-off delay after the recorded time.
\<close>

theorem outcome_follows_coordinator:
  assumes run: "runOnce policy deps (log, w) = ((log @ calls, w'), r)"
    and recorded: "Outcome_recorded input answer \<in> set calls"
  shows "\<exists>claim lease rest. calls = Lease_claimed claim (Inr (Some lease)) # rest
    \<and> oi_leaseToken input = rl_leaseToken lease \<and> oi_paymentId input = rl_paymentId lease
    \<and> rl_claimedAt lease \<le> oi_recordedAt input \<and> oi_recordedAt input \<le> rl_expiresAt lease
    \<and> (oi_kind input = ''accepted'' \<longrightarrow> (\<exists>result accounting replayed.
         Recovery_run (rl_paymentId lease) (Inr result) \<in> set rest
         \<and> rr_paymentId result = rl_paymentId lease
         \<and> rr_outcome result = Recovery_accepted accounting replayed))
    \<and> (oi_kind input = ''released'' \<longrightarrow> (\<exists>result replayed.
         Recovery_run (rl_paymentId lease) (Inr result) \<in> set rest
         \<and> rr_paymentId result = rl_paymentId lease
         \<and> rr_outcome result = Recovery_released replayed))
    \<and> (oi_kind input = ''retry_scheduled'' \<longrightarrow>
         rl_attemptNumber lease < wp_maxAttempts policy
         \<and> oi_nextAttemptAt input
             = Some (oi_recordedAt input + retryDelay policy (rl_attemptNumber lease)))"
proof -
  have "workerLog (\<lambda>_ _. True) policy calls r"
    using logsInD [OF runOnce_logs [where I = "\<lambda>_. True" and ok = "\<lambda>_ _. True"] _ run]
    by (auto simp: workerKeeps_def)
  with recorded obtain claim lease rest where calls: "calls = Lease_claimed claim (Inr (Some lease)) # rest"
    and rest: "leaseLog policy lease rest r" "Outcome_recorded input answer \<in> set rest"
    by (auto simp: workerLog_def)
  from rest obtain t out where out: "input = outcomeInput lease out" "outcomeOk policy lease t out"
    "out = attentionOutcome ''retry_exhausted'' t
     \<or> (\<exists>answer. Recovery_run (rl_paymentId lease) answer \<in> set rest
          \<and> selectOutcome policy lease t answer = Inr out)"
    by (auto simp: leaseLog_def recordedLog_def split: if_splits)
  have settled: "\<exists>result. answer = Inr result \<and> rr_paymentId result = rl_paymentId lease
      \<and> ((\<exists>accounting replayed. rr_outcome result = Recovery_accepted accounting replayed)
             \<and> lo_body out = Outcome_accepted
         \<or> (\<exists>replayed. rr_outcome result = Recovery_released replayed) \<and> lo_body out = Outcome_released)"
    if "selectOutcome policy lease t answer = Inr out" "lo_body out \<in> {Outcome_accepted, Outcome_released}"
    for answer
    using that
    by (auto simp: selectOutcome_def retryOrExhaust_def attentionOutcome_def result_simps
        split: sum.splits recover_failure.splits recovery_outcome.splits if_splits)
  have accepted: "\<exists>result accounting replayed. Recovery_run (rl_paymentId lease) (Inr result) \<in> set rest
      \<and> rr_paymentId result = rl_paymentId lease \<and> rr_outcome result = Recovery_accepted accounting replayed"
    if "lo_body out = Outcome_accepted"
    using out(3) settled that by (fastforce simp: attentionOutcome_def)
  have released: "\<exists>result replayed. Recovery_run (rl_paymentId lease) (Inr result) \<in> set rest
      \<and> rr_paymentId result = rl_paymentId lease \<and> rr_outcome result = Recovery_released replayed"
    if "lo_body out = Outcome_released"
    using out(3) settled that by (fastforce simp: attentionOutcome_def)
  have times: "rl_claimedAt lease \<le> lo_recordedAt out" "lo_recordedAt out \<le> rl_expiresAt lease"
    using out(2) by (auto simp: outcomeOk_def)
  have retry: "rl_attemptNumber lease < wp_maxAttempts policy
      \<and> next' = lo_recordedAt out + retryDelay policy (rl_attemptNumber lease)"
    if "lo_body out = Outcome_retry_scheduled next' reason" for next' reason
    using out(2) that by (auto simp: outcomeOk_def)
  show ?thesis
    unfolding out(1) outcomeInput_sel outcomeInput_kind
    using calls times accepted released retry by blast
qed

text \<open>
  C19 (safety): a worker does not contact the operator for a job whose attempts are used up.  When
  the lease it claims has a number above the limit of the policy, the run makes no recovery, and
  the only outcome it records calls for attention because the retries are exhausted.
\<close>

theorem exhausted_job_stays_offline:
  assumes run: "runOnce policy deps (log, w) = ((log @ calls, w'), r)"
    and lease: "Lease_claimed claim (Inr (Some lease)) \<in> set calls"
    and exhausted: "wp_maxAttempts policy < rl_attemptNumber lease"
  shows "Recovery_run pid answer \<notin> set calls
    \<and> (\<forall>input answer. Outcome_recorded input answer \<in> set calls
         \<longrightarrow> oi_kind input = ''attention_required'' \<and> oi_reason input = Some ''retry_exhausted'')"
proof -
  have "workerLog (\<lambda>_ _. True) policy calls r"
    using logsInD [OF runOnce_logs [where I = "\<lambda>_. True" and ok = "\<lambda>_ _. True"] _ run]
    by (auto simp: workerKeeps_def)
  with lease exhausted show ?thesis
    by (auto simp: workerLog_def leaseLog_def recordedLog_def outcomeInput_def attentionOutcome_def
        split: if_splits)
qed

text \<open>
  C20 (bounds): the back-off of a validated policy.  The delay of the first retry is the base; each
  further one doubles the previous one until it reaches the maximum; delays never decrease and
  always lie between the base and the maximum, which is at most an hour.
\<close>

theorem retries_back_off:
  assumes "validatePolicy options = Inr policy" and "1 \<le> n"
  shows "retryDelay policy 1 = wp_retryBaseSeconds policy
    \<and> retryDelay policy (n + 1) = min (2 * retryDelay policy n) (wp_retryMaxSeconds policy)
    \<and> retryDelay policy n \<le> retryDelay policy (n + 1)
    \<and> wp_retryBaseSeconds policy \<le> retryDelay policy n
    \<and> retryDelay policy n \<le> wp_retryMaxSeconds policy \<and> wp_retryMaxSeconds policy \<le> 3600"
proof -
  note ok = validatePolicy_ok [OF assms(1)]
  from assms(2) have "nat n = Suc (nat (n - 1))" by simp
  then have power: "(2 :: int) ^ nat n = 2 * 2 ^ nat (n - 1)" by simp
  have double: "retryDelay policy (n + 1) = min (2 * retryDelay policy n) (wp_retryMaxSeconds policy)"
    using ok by (auto simp: retryDelay_def power policyOk_def min_def)
  then show ?thesis
    using ok retryDelay_bounds [OF ok, of n] by (auto simp: retryDelay_def policyOk_def)
qed

text \<open>
  C18 (refinement): the worker and the job repository fit together.  On the PostgreSQL model, with a
  validated policy and whatever the clock, the token factory and the coordinator do that keeps the
  invariant of the job tables, every claim and every outcome that the worker sends passes the
  repository's validation unchanged, and the run keeps the invariant: leases stay numbered without
  gaps, never overlap, and have one outcome at most.
\<close>

theorem worker_fits_job_store:
  fixes deps :: "(db \<times> 'o) worker_deps"
  assumes policy: "validatePolicy options = Inr policy"
    and jobs: "wd_claimNext deps = (\<lambda>c. onStore (\<lambda>others. claimNext (locked others) c))"
      "wd_findJob deps = (\<lambda>pid. readingStore (findRecoveryJob pid))"
      "wd_recordOutcome deps = (\<lambda>i. onStore (\<lambda>_. recordOutcome i))"
    and others: "keeps storeInv (wd_now deps)" "keeps storeInv (wd_leaseToken deps)"
      "\<And>pid. keeps storeInv (wd_recover deps pid)"
    and start: "recoveryInv db"
    and run: "runOnce policy deps (log, (db, others)) = ((log @ calls, (db', others')), r)"
  shows "recoveryInv db'
    \<and> (\<forall>claim answer. Lease_claimed claim answer \<in> set calls \<longrightarrow> validateClaim claim = Inr claim)
    \<and> (\<forall>input answer. Outcome_recorded input answer \<in> set calls \<longrightarrow> validateOutcome input = Inr input)"
proof -
  have serves: "job_store.serves locked deps"
    using jobs others by (simp add: job_store.serves_def)
  show ?thesis
    using job_store.run_inputs_valid [OF serves validatePolicy_ok [OF policy] _ run] start
    by (auto simp: storeInv_def)
qed

section \<open>A deployment\<close>

definition exOptions :: worker_options where
  "exOptions = \<lparr>wo_attemptTimeoutMs = None, wo_leaseDurationSeconds = None, wo_maxAttempts = None,
     wo_retryBaseSeconds = None, wo_retryMaxSeconds = None, wo_workerId = ''w1''\<rparr>"

definition exPolicy :: worker_policy where
  "exPolicy = \<lparr>wp_attemptTimeoutMs = 65000, wp_leaseDurationSeconds = 90, wp_maxAttempts = 6,
     wp_retryBaseSeconds = 30, wp_retryMaxSeconds = 300, wp_workerId = ''w1''\<rparr>"

lemma exPolicy_valid: "validatePolicy exOptions = Inr exPolicy"
  by code_simp

text \<open>A coordinator that finds the payment pending, on the database after the dispatch.\<close>

definition exWorkerDeps :: "(db \<times> unit) worker_deps" where
  "exWorkerDeps = \<lparr>wd_now = (\<lambda>w. (w, Inr 105)), wd_aborted = (\<lambda>_. False),
     wd_leaseToken = (\<lambda>w. (w, Inr ''t1'')),
     wd_recover = (\<lambda>pid w. (w, Inr (resultOf pid (exLifecycle [] Pending) (Recovery_pending 65 60)))),
     wd_claimNext = (\<lambda>c. onStore (\<lambda>_. claimNext [] c)),
     wd_findJob = (\<lambda>pid. readingStore (findRecoveryJob pid)),
     wd_recordOutcome = (\<lambda>i. onStore (\<lambda>_. recordOutcome i))\<rparr>"

fun retried :: "worker_call \<Rightarrow> int option" where
  "retried (Outcome_recorded input (Inr _)) = oi_nextAttemptAt input"
| "retried _ = None"

abbreviation exWork :: "(worker_call list \<times> db \<times> unit) \<times> (worker_error + worker_result)" where
  "exWork \<equiv> runOnce exPolicy exWorkerDeps ([], (exDb1, ()))"

lemma exWork_calls: "map retried (fst (fst exWork)) = [None, None, Some 135]"
  by code_simp

lemma exWork_run: "runOnce exPolicy exWorkerDeps ([], (exDb1, ()))
    = (([] @ fst (fst exWork), (fst (snd (fst exWork)), ())), snd exWork)"
  by (simp add: prod_eq_iff)

lemma exStore_inv: "recoveryInv exDb1"
  by (simp add: recoveryInv_def exDb1_def exDb_def attemptRows_def leasesOf_def) code_simp

lemma retried_Some: "retried c = Some t \<longleftrightarrow>
    (\<exists>input recorded. c = Outcome_recorded input (Inr recorded) \<and> oi_nextAttemptAt input = Some t)"
  by (cases c rule: retried.cases) simp_all

lemma exWork_recorded:
  obtains input recorded where "Outcome_recorded input (Inr recorded) \<in> set (fst (fst exWork))"
    "oi_nextAttemptAt input = Some 135"
proof -
  have "Some 135 \<in> set (map retried (fst (fst exWork)))" unfolding exWork_calls by simp
  then obtain c where c: "c \<in> set (fst (fst exWork))" "retried c = Some 135" by auto
  show thesis using c(2) c(1) that unfolding retried_Some by blast
qed

theorem outcome_follows_coordinator_witness:
  "\<exists>(input :: outcome_input) claim lease rest. fst (fst exWork) = Lease_claimed claim (Inr (Some lease)) # rest
     \<and> oi_paymentId input = rl_paymentId lease \<and> oi_nextAttemptAt input = Some 135"
proof -
  obtain input recorded where recorded: "Outcome_recorded input (Inr recorded) \<in> set (fst (fst exWork))"
    "oi_nextAttemptAt input = Some 135" by (rule exWork_recorded)
  from outcome_follows_coordinator [OF exWork_run recorded(1)] show ?thesis
    using recorded(2) by - (rule exI [of _ input], elim exE conjE, intro exI conjI)
qed

text \<open>A lease with the seventh attempt, where the policy allows six.\<close>

definition exExhausted :: recovery_lease where
  "exExhausted = \<lparr>rl_attemptNumber = 7, rl_claimedAt = 105, rl_expiresAt = 195, rl_leaseToken = ''t7'',
     rl_paymentId = ''p1'', rl_schemaVersion = 1, rl_workerId = ''w1''\<rparr>"

definition exExhaustedDeps :: "(db \<times> unit) worker_deps" where
  "exExhaustedDeps = exWorkerDeps\<lparr>wd_claimNext := (\<lambda>_ w. (w, Inr (Some exExhausted)))\<rparr>"

fun claimedAttempt :: "worker_call \<Rightarrow> int option" where
  "claimedAttempt (Lease_claimed _ (Inr (Some lease))) = Some (rl_attemptNumber lease)"
| "claimedAttempt _ = None"

lemma claimedAttempt_Some: "claimedAttempt c = Some n \<longleftrightarrow>
    (\<exists>claim lease. c = Lease_claimed claim (Inr (Some lease)) \<and> rl_attemptNumber lease = n)"
  by (cases c rule: claimedAttempt.cases) simp_all

abbreviation exLastWork :: "(worker_call list \<times> db \<times> unit) \<times> (worker_error + worker_result)" where
  "exLastWork \<equiv> runOnce exPolicy exExhaustedDeps ([], (exDb1, ()))"

lemma exLastWork_calls: "map claimedAttempt (fst (fst exLastWork)) = [Some 7, None]"
  by code_simp

theorem exhausted_job_stays_offline_witness:
  "\<forall>answer. Recovery_run ''p1'' answer \<notin> set (fst (fst exLastWork))"
proof -
  have "Some 7 \<in> set (map claimedAttempt (fst (fst exLastWork)))" unfolding exLastWork_calls by simp
  then obtain c where c: "c \<in> set (fst (fst exLastWork))" "claimedAttempt c = Some 7" by auto
  obtain claim lease where lease: "c = Lease_claimed claim (Inr (Some lease))" "rl_attemptNumber lease = 7"
    using c(2) unfolding claimedAttempt_Some by blast
  have run: "exLastWork = (([] @ fst (fst exLastWork), snd (fst exLastWork)), snd exLastWork)"
    by (simp add: prod_eq_iff)
  have "wp_maxAttempts exPolicy < rl_attemptNumber lease" by (simp add: lease(2) exPolicy_def)
  from exhausted_job_stays_offline [OF run c(1) [unfolded lease(1)] this] show ?thesis by simp
qed

theorem retries_back_off_witness:
  "retryDelay exPolicy 1 = 30 \<and> retryDelay exPolicy 4 = min (2 * retryDelay exPolicy 3) 300"
  using retries_back_off [OF exPolicy_valid, of 3] by (simp add: exPolicy_def)

theorem worker_fits_job_store_witness:
  "recoveryInv (fst (snd (fst exWork)))"
proof -
  have "recoveryInv (fst (snd (fst exWork)))
    \<and> (\<forall>claim answer. Lease_claimed claim answer \<in> set (fst (fst exWork)) \<longrightarrow> validateClaim claim = Inr claim)
    \<and> (\<forall>input answer. Outcome_recorded input answer \<in> set (fst (fst exWork)) \<longrightarrow> validateOutcome input = Inr input)"
    by (rule worker_fits_job_store [OF exPolicy_valid _ _ _ _ _ _ exStore_inv exWork_run,
        where locked = "\<lambda>_. []"]) (simp_all add: exWorkerDeps_def keeps_def)
  then show ?thesis by blast
qed

end
