(* ===== verification/Local_State.thy ===== *)
theory Local_State
  imports Effects
begin

text \<open>
  Local variables that a callback assigns: an action over the world and a value \<open>'v\<close> of the
  variables.  \<open>localA\<close> runs it on their initial value and returns the last one with what was thrown
  or returned, as a closure leaves them to the code that follows.
\<close>

definition withVars :: "('w \<Rightarrow> 'w \<times> 'r) \<Rightarrow> 'w \<times> 'v \<Rightarrow> ('w \<times> 'v) \<times> 'r" where
  "withVars dep = (\<lambda>(w, v). case dep w of (u, r) \<Rightarrow> ((u, v), r))"

definition assignA :: "('v \<Rightarrow> 'v) \<Rightarrow> ('c list \<times> ('w \<times> 'v), 'e, unit) act" where
  "assignA f = (\<lambda>(log, (w, v)). ((log, (w, f v)), Inr ()))"

definition localA ::
  "'v \<Rightarrow> ('c list \<times> ('w \<times> 'v), 'e, 'a) act \<Rightarrow> ('c list \<times> 'w, 'f, 'v \<times> ('e + 'a)) act" where
  "localA v m = (\<lambda>(log, w). case m (log, (w, v)) of ((log', (w', v')), r) \<Rightarrow> ((log', w'), Inr (v', r)))"

lemma withVars_eval [act_simps]: "withVars dep (w, v) = (case dep w of (u, r) \<Rightarrow> ((u, v), r))"
  by (simp add: withVars_def)

lemma assignA_eval [act_simps]: "assignA f (log, (w, v)) = ((log, (w, f v)), Inr ())"
  by (simp add: assignA_def)

lemma localA_eval [act_simps]:
  "localA v m (log, w) = (case m (log, (w, v)) of ((log', (w', v')), r) \<Rightarrow> ((log', w'), Inr (v', r)))"
  by (simp add: localA_def)

section \<open>What an action logs and leaves in the variables\<close>

definition logsV ::
  "'v \<Rightarrow> ('c list \<Rightarrow> 'v \<Rightarrow> 'e + 'a \<Rightarrow> bool) \<Rightarrow> ('c list \<times> ('w \<times> 'v), 'e, 'a) act \<Rightarrow> bool" where
  "logsV v L m \<longleftrightarrow> (\<forall>log w log' w' v' r. m (log, (w, v)) = ((log', (w', v')), r)
     \<longrightarrow> (\<exists>new. log' = log @ new \<and> L new v' r))"

lemma logsVD:
  "logsV v L m \<Longrightarrow> m (log, (w, v)) = ((log', (w', v')), r) \<Longrightarrow> \<exists>new. log' = log @ new \<and> L new v' r"
  unfolding logsV_def by blast

lemma logsV_mono: "logsV v L m \<Longrightarrow> (\<And>new u r. L new u r \<Longrightarrow> M new u r) \<Longrightarrow> logsV v M m"
  unfolding logsV_def by blast

lemma logsV_done: "L [] v (Inr x) \<Longrightarrow> logsV v L (doneA x)"
  by (auto simp: logsV_def act_simps)

lemma logsV_fail: "L [] v (Inl e) \<Longrightarrow> logsV v L (failA e)"
  by (auto simp: logsV_def act_simps)

lemma logsV_pure: "L [] v r \<Longrightarrow> logsV v L (pureA r)"
  by (auto simp: logsV_def act_simps)

lemma logsV_assign: "L [] (f v) (Inr ()) \<Longrightarrow> logsV v L (assignA f)"
  by (auto simp: logsV_def act_simps)

lemma logsV_ask: "(\<And>x. L [] v (Inr x)) \<Longrightarrow> logsV v L (askA f)"
  by (auto simp: logsV_def act_simps)

lemma logsV_call: "(\<And>r. L [] v r) \<Longrightarrow> logsV v L (callA (withVars dep))"
  by (auto simp: logsV_def act_simps split: prod.splits)

lemma logsV_logged: "(\<And>r. L [event r] v r) \<Longrightarrow> logsV v L (loggedA event (withVars dep))"
  by (auto simp: logsV_def act_simps split: prod.splits)

lemma logsV_either:
  assumes "logsV v M m"
    and "\<And>before u e. M before u (Inl e) \<Longrightarrow> logsV u (\<lambda>new. L (before @ new)) (h e)"
    and "\<And>before u x. M before u (Inr x) \<Longrightarrow> logsV u (\<lambda>new. L (before @ new)) (k x)"
  shows "logsV v L (eitherA m h k)"
  unfolding logsV_def
proof (intro allI impI)
  fix log w log' w' v' r
  assume run: "eitherA m h k (log, (w, v)) = ((log', (w', v')), r)"
  obtain log1 w1 u r1 where m: "m (log, (w, v)) = ((log1, (w1, u)), r1)" by (metis prod.collapse)
  then obtain before where before: "log1 = log @ before" "M before u r1"
    using logsVD [OF assms(1)] by blast
  show "\<exists>new. log' = log @ new \<and> L new v' r"
  proof (cases r1)
    case (Inl e)
    with run m have "h e (log1, (w1, u)) = ((log', (w', v')), r)" by (simp add: act_simps)
    with logsVD [OF assms(2)] before Inl show ?thesis by fastforce
  next
    case (Inr x)
    with run m have "k x (log1, (w1, u)) = ((log', (w', v')), r)" by (simp add: act_simps)
    with logsVD [OF assms(3)] before Inr show ?thesis by fastforce
  qed
qed

lemma logsV_then:
  assumes "logsV v M m"
    and "\<And>before u e. M before u (Inl e) \<Longrightarrow> L before u (Inl e)"
    and "\<And>before u x. M before u (Inr x) \<Longrightarrow> logsV u (\<lambda>new. L (before @ new)) (k x)"
  shows "logsV v L (thenA m k)"
  unfolding thenA_def
proof (rule logsV_either [OF assms(1)])
  show "logsV u (\<lambda>new. L (before @ new)) (failA e)" if "M before u (Inl e)" for before u e
    by (rule logsV_fail) (simp add: assms(2) that)
qed (rule assms(3))

lemma logsV_mapError:
  assumes "logsV v M m" and "\<And>before u e. M before u (Inl e) \<Longrightarrow> L before u (Inl (f e))"
    and "\<And>before u x. M before u (Inr x) \<Longrightarrow> L before u (Inr x)"
  shows "logsV v L (mapErrorA f m)"
  unfolding mapErrorA_def
proof (rule logsV_either [OF assms(1)])
  show "logsV u (\<lambda>new. L (before @ new)) (failA (f e))" if "M before u (Inl e)" for before u e
    by (rule logsV_fail) (simp add: assms(2) that)
  show "logsV u (\<lambda>new. L (before @ new)) (doneA x)" if "M before u (Inr x)" for before u x
    by (rule logsV_done) (simp add: assms(3) that)
qed

lemma logs_local:
  fixes L :: "'c list \<Rightarrow> 'f + 'v \<times> ('e + 'a) \<Rightarrow> bool"
  assumes "logsV v M m" and "\<And>new u r. M new u r \<Longrightarrow> L new (Inr (u, r))"
  shows "logs L (localA v m)"
  unfolding logs_def
proof (intro allI impI)
  fix log w log' w' and r :: "'f + 'v \<times> ('e + 'a)"
  assume run: "localA v m (log, w) = ((log', w'), r)"
  obtain log1 w1 u q where m: "m (log, (w, v)) = ((log1, (w1, u)), q)" by (metis prod.collapse)
  with run have "log' = log1" "r = Inr (u, q)" by (auto simp: act_simps)
  then show "\<exists>new. log' = log @ new \<and> L new r"
    using logsVD [OF assms(1) m] assms(2) by blast
qed

text \<open>Actions that log nothing and leave the variables alone.\<close>

abbreviation quietV :: "'v \<Rightarrow> ('a \<Rightarrow> bool) \<Rightarrow> ('c list \<times> ('w \<times> 'v), 'e, 'a) act \<Rightarrow> bool" where
  "quietV v P m \<equiv> logsV v (\<lambda>new u r. new = [] \<and> u = v \<and> (\<forall>x. r = Inr x \<longrightarrow> P x)) m"

lemma quietV_then:
  assumes "quietV v P m" and "\<And>e. L [] v (Inl e)" and "\<And>x. P x \<Longrightarrow> logsV v L (k x)"
  shows "logsV v L (thenA m k)"
  by (rule logsV_then [OF assms(1)]) (auto simp: assms(2,3))

lemma quietV_either:
  assumes "quietV v P m" and "\<And>e. logsV v L (h e)" and "\<And>x. P x \<Longrightarrow> logsV v L (k x)"
  shows "logsV v L (eitherA m h k)"
  by (rule logsV_either [OF assms(1)]) (auto simp: assms(2,3))

lemma pureV_bind:
  assumes "\<And>e. L [] v (Inl e)" and "\<And>x. r = Inr x \<Longrightarrow> logsV v L (k x)"
  shows "logsV v L (thenA (pureA r) k)"
  by (rule quietV_then [where P = "\<lambda>x. r = Inr x"]) (simp_all add: logsV_pure assms)

lemma assignV_then:
  assumes "logsV (f v) L (k ())"
  shows "logsV v L (thenA (assignA f) k)"
  by (rule logsV_then [where M = "\<lambda>new u r. new = [] \<and> u = f v \<and> r = Inr ()"])
    (auto simp: logsV_assign assms)

lemma loggedV_either:
  assumes "\<And>e. logsV v (\<lambda>new. L (event (Inl e) # new)) (h e)"
    and "\<And>x. logsV v (\<lambda>new. L (event (Inr x) # new)) (k x)"
  shows "logsV v L (eitherA (loggedA event (withVars dep)) h k)"
proof (rule logsV_either)
  show "logsV v (\<lambda>new u r. new = [event r] \<and> u = v) (loggedA event (withVars dep))"
    by (rule logsV_logged) simp
qed (auto simp: assms)

end
