(* ===== verification/Operator_Clients.thy ===== *)
theory Operator_Clients
  imports Effects Interfaces Database
begin

text \<open>
  The clients that talk to an operator: \<^verbatim>\<open>packages/cashu/src/stellar-melt-quote-client.ts\<close>
  (\<open>createQuote\<close>, \<open>checkQuote\<close>) and \<^verbatim>\<open>stellar-melt-execution-client.ts\<close> (\<open>execute\<close>), with
  \<open>withCashuBearerMeltInputsV1\<close> of \<^verbatim>\<open>bearer-proof-bundle.ts\<close>.

  The clock, the abort signal, the timer and \<open>fetch\<close> are the record \<open>client_deps\<close> of actions on a
  state \<open>'s\<close>.  A response carries the sizes of the chunks its body is read in, and the JSON value
  of its text where there is one; \<open>JSON.stringify\<close> is written out, for its text is what is hashed
  and sent.
\<close>

section \<open>JSON\<close>

datatype json_value =
    Json_null
  | Json_bool bool
  | Json_number int
  | Json_string string
  | Json_array "json_value list"
  | Json_object "(string \<times> json_value) list"

definition hexDigit :: "nat \<Rightarrow> char" where
  "hexDigit n = (if n < 10 then char_of (48 + n) else char_of (87 + n))"

definition escapeChar :: "char \<Rightarrow> string" where
  "escapeChar c =
    (let n = of_char c :: nat in
     if c = CHR 0x22 then [CHR 0x5C, CHR 0x22]
     else if c = CHR 0x5C then [CHR 0x5C, CHR 0x5C]
     else if n = 8 then CHR 0x5C # ''b'' else if n = 9 then CHR 0x5C # ''t''
     else if n = 10 then CHR 0x5C # ''n'' else if n = 12 then CHR 0x5C # ''f''
     else if n = 13 then CHR 0x5C # ''r''
     else if n < 32 then CHR 0x5C # ''u00'' @ [hexDigit (n div 16), hexDigit (n mod 16)]
     else [c])"

definition quoted :: "string \<Rightarrow> string" where
  "quoted s = CHR 0x22 # concat (map escapeChar s) @ [CHR 0x22]"

fun separated :: "string list \<Rightarrow> string" where
  "separated [] = []"
| "separated [x] = x"
| "separated (x # y # zs) = x @ '','' @ separated (y # zs)"

fun jsonText :: "json_value \<Rightarrow> string" where
  "jsonText Json_null = ''null''"
| "jsonText (Json_bool b) = (if b then ''true'' else ''false'')"
| "jsonText (Json_number n) = bigintText n"
| "jsonText (Json_string s) = quoted s"
| "jsonText (Json_array vs) = ''['' @ separated (map jsonText vs) @ '']''"
| "jsonText (Json_object fs) =
     ''{'' @ separated (map (\<lambda>(k, v). quoted k @ '':'' @ jsonText v) fs) @ ''}''"

section \<open>Transport\<close>

datatype client_error =
    CE_dispatch_not_authorized | CE_input_amount_mismatch | CE_invalid_clock
  | CE_invalid_configuration | CE_invalid_request | CE_invalid_response | CE_network_error
  | CE_quote_expired | CE_quote_response_mismatch | CE_request_aborted | CE_request_timeout
  | CE_response_too_large | CE_unexpected_status | CE_unsupported_fee_reserve

text \<open>One read of a body: a chunk of a size, or a failure of the stream.\<close>

datatype body_read = Chunk nat | Read_failed

record http_request =
  hq_method :: string
  hq_endpoint :: string
  hq_body :: "string option"

record http_response =
  hr_redirected :: bool
  hr_url :: string
  hr_ok :: bool
  hr_contentLength :: "string option"
  hr_body :: "body_read list option"
  hr_json :: "json_value option"

record 's client_deps =
  cd_now :: "('s, unit, int) act"
  cd_aborted :: "('s, unit, bool) act"
  cd_timedOut :: "('s, unit, bool) act"
  cd_fetch :: "http_request \<Rightarrow> ('s, unit, http_response) act"

record client =
  cl_mintUrl :: string
  cl_maxResponseBytes :: nat

text \<open>
  What an execution throws: an error of the client, or one that the callback \<open>authorize\<close> throws
  through it.
\<close>

datatype 'e client_failure = Client_failure client_error | Callback_failure 'e

type_synonym ('s, 'e, 'a) client_act = "('s, 'e client_failure, 'a) act"

definition throwClient :: "client_error \<Rightarrow> ('s, 'e, 'a) client_act" where
  "throwClient e = failA (Client_failure e)"

text \<open>Reading a flag: the read itself cannot fail.\<close>

definition whenA ::
  "('s, unit, bool) act \<Rightarrow> ('s, 'e, 'a) act \<Rightarrow> ('s, 'e, 'a) act \<Rightarrow> ('s, 'e, 'a) act" where
  "whenA flag yes no = eitherA flag (\<lambda>_. no) (\<lambda>b. if b then yes else no)"

definition readClientClock :: "'s client_deps \<Rightarrow> ('s, 'e, int) client_act" where
  "readClientClock deps =
     eitherA (cd_now deps) (\<lambda>_. throwClient CE_invalid_clock) (\<lambda>t.
       pureA (catchR (\<lambda>_. Client_failure CE_invalid_clock) (unixTimestamp t)))"

text \<open>The loop that reads a body: \<^theory_text>\<open>None\<close> for an error of the stream, which is no client error.\<close>

fun readChunks :: "nat \<Rightarrow> nat \<Rightarrow> body_read list \<Rightarrow> client_error option + unit" where
  "readChunks maximumBytes totalBytes [] = Inr ()"
| "readChunks maximumBytes totalBytes (Read_failed # rest) = Inl None"
| "readChunks maximumBytes totalBytes (Chunk size' # rest) =
    (if totalBytes + size' > maximumBytes then Inl (Some CE_response_too_large)
     else readChunks maximumBytes (totalBytes + size') rest)"

definition readBoundedResponseBody ::
  "http_response \<Rightarrow> nat \<Rightarrow> client_error option + json_value option" where
  "readBoundedResponseBody response maximumBytes =
    (if (case hr_contentLength response of None \<Rightarrow> False
         | Some l \<Rightarrow> l \<noteq> [] \<and> list_all isDigit l \<and> digitsValue l > int maximumBytes)
     then Inl (Some CE_response_too_large)
     else (case hr_body response of None \<Rightarrow> Inr None
           | Some reads \<Rightarrow>
               bindR (readChunks maximumBytes 0 reads) (\<lambda>_. Inr (hr_json response))))"

text \<open>What follows \<open>fetch\<close> inside the \<open>try\<close>.\<close>

definition acceptResponse ::
  "nat \<Rightarrow> string \<Rightarrow> http_response \<Rightarrow> client_error option + json_value" where
  "acceptResponse maximumBytes endpoint response =
    (if hr_redirected response \<or> (hr_url response \<noteq> '''' \<and> hr_url response \<noteq> endpoint)
     then Inl (Some CE_invalid_response)
     else if \<not> hr_ok response then Inl (Some CE_unexpected_status)
     else bindR (readBoundedResponseBody response maximumBytes) (\<lambda>parsed.
       case parsed of None \<Rightarrow> Inl (Some CE_invalid_response) | Some v \<Rightarrow> Inr v))"

text \<open>The \<open>catch\<close>: an abort and a timeout hide what was thrown.\<close>

definition transportFailure ::
  "'s client_deps \<Rightarrow> client_error option \<Rightarrow> ('s, 'e, 'a) client_act" where
  "transportFailure deps thrown =
     whenA (cd_aborted deps) (throwClient CE_request_aborted)
     (whenA (cd_timedOut deps) (throwClient CE_request_timeout)
     (throwClient (case thrown of None \<Rightarrow> CE_network_error | Some e \<Rightarrow> e)))"

definition requestJson ::
  "client \<Rightarrow> 's client_deps \<Rightarrow> http_request \<Rightarrow> ('s, 'e, json_value) client_act" where
  "requestJson client deps request =
     whenA (cd_aborted deps) (throwClient CE_request_aborted)
     (eitherA (cd_fetch deps request) (\<lambda>_. transportFailure deps None) (\<lambda>response.
        case acceptResponse (cl_maxResponseBytes client) (hq_endpoint request) response of
          Inl thrown \<Rightarrow> transportFailure deps thrown
        | Inr v \<Rightarrow> doneA v))"

text \<open>The quote client's own \<open>requestJson\<close>, which takes a path.\<close>

definition quoteRequestJson ::
  "client \<Rightarrow> 's client_deps \<Rightarrow> string \<Rightarrow> string \<Rightarrow> json_value option
     \<Rightarrow> ('s, 'e, json_value) client_act" where
  "quoteRequestJson client deps path method body =
     requestJson client deps
       \<lparr>hq_method = method, hq_endpoint = cl_mintUrl client @ path,
        hq_body = map_option jsonText body\<rparr>"

section \<open>Responses\<close>

definition hasUnsupportedChange :: "json_value option \<Rightarrow> bool" where
  "hasUnsupportedChange v =
    (case v of None \<Rightarrow> False | Some Json_null \<Rightarrow> False | Some (Json_array xs) \<Rightarrow> xs \<noteq> []
     | _ \<Rightarrow> True)"

fun asNumber :: "json_value option \<Rightarrow> int option" where
  "asNumber (Some (Json_number n)) = Some n"
| "asNumber _ = None"

fun asString :: "json_value option \<Rightarrow> string option" where
  "asString (Some (Json_string s)) = Some s"
| "asString _ = None"

text \<open>
  The casts \<open>as number\<close> and \<open>as string\<close>: a field of another type is a value that
  \<open>createCashuStellarMeltQuoteV1\<close> rejects with one of its own errors.
\<close>

definition responseQuoteInput ::
  "(string \<rightharpoonup> json_value) \<Rightarrow> string \<Rightarrow> int \<Rightarrow> melt_quote_input option" where
  "responseQuoteInput response mintUrl observedAt =
    (case (asNumber (response ''amount''), asNumber (response ''expiry''),
           case response ''fee_reserve'' of None \<Rightarrow> Some 0 | v \<Rightarrow> asNumber v) of
       (Some amount, Some expiry, Some feeReserve) \<Rightarrow>
         (case (asString (response ''method''), asString (response ''quote''),
                asString (response ''request'')) of
            (Some method, Some quoteId, Some request) \<Rightarrow>
              (case (asString (response ''state''), asString (response ''unit'')) of
                 (Some st, Some unit') \<Rightarrow>
                   Some \<lparr>mqi_amount = amount, mqi_expiry = expiry, mqi_feeReserve = Some feeReserve,
                     mqi_method = method, mqi_mintUrl = mintUrl, mqi_observedAt = observedAt,
                     mqi_quoteId = quoteId, mqi_request = request, mqi_schemaVersion = None,
                     mqi_state = st, mqi_unit = unit'\<rparr>
               | _ \<Rightarrow> None)
          | _ \<Rightarrow> None)
     | _ \<Rightarrow> None)"

definition parseCashuStellarMeltQuoteResponse ::
  "cashu_env \<Rightarrow> json_value \<Rightarrow> string \<Rightarrow> int \<Rightarrow> client_error + melt_quote" where
  "parseCashuStellarMeltQuoteResponse env v mintUrl observedAt =
    (case v of
       Json_object members \<Rightarrow>
         if hasUnsupportedChange (map_of members ''change'') then Inl CE_invalid_response
         else (case responseQuoteInput (map_of members) mintUrl observedAt of
                 None \<Rightarrow> Inl CE_invalid_response
               | Some input \<Rightarrow>
                   catchR (\<lambda>_. CE_invalid_response) (createCashuStellarMeltQuoteV1 env input))
     | _ \<Rightarrow> Inl CE_invalid_response)"

definition cashuStellarMeltQuoteTermsMatch :: "melt_quote \<Rightarrow> melt_quote \<Rightarrow> bool" where
  "cashuStellarMeltQuoteTermsMatch expected observed \<longleftrightarrow>
     mq_amount observed = mq_amount expected \<and> mq_expiry observed = mq_expiry expected
     \<and> mq_feeReserve observed = mq_feeReserve expected \<and> mq_method observed = mq_method expected
     \<and> mq_mintUrl observed = mq_mintUrl expected \<and> mq_quoteId observed = mq_quoteId expected
     \<and> mq_request observed = mq_request expected \<and> mq_unit observed = mq_unit expected"

section \<open>The quote client\<close>

definition DEFAULT_RESPONSE_BYTES :: int where
  "DEFAULT_RESPONSE_BYTES = 65536"

definition MAX_RESPONSE_BYTES :: int where
  "MAX_RESPONSE_BYTES = 262144"

definition DEFAULT_TIMEOUT_MS :: int where
  "DEFAULT_TIMEOUT_MS = 5000"

definition MAX_TIMEOUT_MS :: int where
  "MAX_TIMEOUT_MS = 30000"

definition MAX_CASHU_STELLAR_MELT_QUOTE_TTL_SECONDS :: int where
  "MAX_CASHU_STELLAR_MELT_QUOTE_TTL_SECONDS = 900"

definition isBoundedPositiveInteger :: "int \<Rightarrow> int \<Rightarrow> bool" where
  "isBoundedPositiveInteger v maximum \<longleftrightarrow> isSafeInteger v \<and> v > 0 \<and> v \<le> maximum"

record client_options =
  clo_maxResponseBytes :: "int option"
  clo_requestTimeoutMs :: "int option"

definition newQuoteClient ::
  "cashu_env \<Rightarrow> string \<Rightarrow> client_options \<Rightarrow> client_error + client" where
  "newQuoteClient env mintUrl options =
     bindR (catchR (\<lambda>_. CE_invalid_configuration) (normalizeCashuMintUrl env mintUrl)) (\<lambda>url.
     let maxResponseBytes =
           (case clo_maxResponseBytes options of None \<Rightarrow> DEFAULT_RESPONSE_BYTES | Some b \<Rightarrow> b);
         requestTimeoutMs =
           (case clo_requestTimeoutMs options of None \<Rightarrow> DEFAULT_TIMEOUT_MS | Some t \<Rightarrow> t)
     in if \<not> isBoundedPositiveInteger maxResponseBytes MAX_RESPONSE_BYTES
           \<or> \<not> isBoundedPositiveInteger requestTimeoutMs MAX_TIMEOUT_MS
        then Inl CE_invalid_configuration
        else Inr \<lparr>cl_mintUrl = url, cl_maxResponseBytes = nat maxResponseBytes\<rparr>)"

definition validateCreateInput ::
  "cashu_env \<Rightarrow> melt_quote_request_input \<Rightarrow> client_error + melt_quote_request" where
  "validateCreateInput env input =
     catchR (\<lambda>_. CE_invalid_request) (createCashuStellarMeltQuoteRequestV1 env input)"

definition validateCheckInput ::
  "cashu_env \<Rightarrow> melt_quote_input \<Rightarrow> string \<Rightarrow> client_error + melt_quote" where
  "validateCheckInput env quote mintUrl =
     bindR (catchR (\<lambda>_. CE_invalid_request) (createCashuStellarMeltQuoteV1 env quote))
       (\<lambda>normalized.
     if mq_mintUrl normalized \<noteq> mintUrl then Inl CE_invalid_request else Inr normalized)"

abbreviation checked :: "client_error + 'a \<Rightarrow> ('s, 'e, 'a) client_act" where
  "checked r \<equiv> pureA (catchR Client_failure r)"

definition acceptCreatedQuote ::
  "melt_quote_request \<Rightarrow> int \<Rightarrow> int \<Rightarrow> melt_quote \<Rightarrow> client_error + melt_quote" where
  "acceptCreatedQuote request startedAt observedAt quote =
    (if mq_amount quote \<noteq> qr_amount request \<or> mq_request quote \<noteq> qr_request request
     then Inl CE_quote_response_mismatch
     else if mq_state quote \<noteq> Quote_unpaid then Inl CE_invalid_response
     else if mq_expiry quote \<le> observedAt then Inl CE_quote_expired
     else if mq_expiry quote - startedAt > MAX_CASHU_STELLAR_MELT_QUOTE_TTL_SECONDS
     then Inl CE_invalid_response
     else Inr quote)"

definition createQuote ::
  "cashu_env \<Rightarrow> client \<Rightarrow> 's client_deps \<Rightarrow> melt_quote_request_input \<Rightarrow> ('s, 'e, melt_quote) client_act" where
  "createQuote env client deps input =
     thenA (checked (validateCreateInput env input)) (\<lambda>request.
     thenA (readClientClock deps) (\<lambda>startedAt.
     thenA (quoteRequestJson client deps (''/v1/melt/quote/'' @ CASHU_STELLAR_METHOD) ''POST''
       (Some (Json_object
          [(''amount'', Json_number (qr_amount request)),
           (''request'', Json_string (qr_request request)),
           (''unit'', Json_string (qr_unit request))]))) (\<lambda>response.
     thenA (readClientClock deps) (\<lambda>observedAt.
     if observedAt < startedAt then throwClient CE_invalid_clock
     else
     thenA (checked (parseCashuStellarMeltQuoteResponse env response
                       (cl_mintUrl client) observedAt)) (\<lambda>quote.
     checked (acceptCreatedQuote request startedAt observedAt quote))))))"

definition acceptCheckedQuote :: "melt_quote \<Rightarrow> melt_quote \<Rightarrow> client_error + melt_quote" where
  "acceptCheckedQuote expected observed =
    (if \<not> cashuStellarMeltQuoteTermsMatch expected observed then Inl CE_quote_response_mismatch
     else if mq_state expected = Quote_paid \<and> mq_state observed \<noteq> Quote_paid
     then Inl CE_quote_response_mismatch
     else Inr observed)"

definition checkQuote ::
  "cashu_env \<Rightarrow> client \<Rightarrow> 's client_deps \<Rightarrow> melt_quote_input \<Rightarrow> ('s, 'e, melt_quote) client_act" where
  "checkQuote env client deps quote =
     thenA (checked (validateCheckInput env quote (cl_mintUrl client))) (\<lambda>expected.
     thenA (readClientClock deps) (\<lambda>startedAt.
     if startedAt < mq_observedAt expected then throwClient CE_invalid_clock
     else
     thenA (quoteRequestJson client deps
       (''/v1/melt/quote/'' @ CASHU_STELLAR_METHOD @ ''/'' @ mq_quoteId expected) ''GET'' None)
       (\<lambda>response.
     thenA (readClientClock deps) (\<lambda>observedAt.
     if observedAt < startedAt then throwClient CE_invalid_clock
     else
     thenA (checked (parseCashuStellarMeltQuoteResponse env response
                       (cl_mintUrl client) observedAt)) (\<lambda>observed.
     checked (acceptCheckedQuote expected observed))))))"

section \<open>The execution client\<close>

definition CASHU_STELLAR_MELT_DISPATCH_SCHEMA_VERSION :: int where
  "CASHU_STELLAR_MELT_DISPATCH_SCHEMA_VERSION = 1"

record bearer_proof =
  bp_amount :: int
  bp_keysetId :: string
  bp_secret :: string
  bp_signature :: string
  bp_y :: string

text \<open>A bundle: what is public, and its plaintext, which \<open>destroy\<close> removes.\<close>

record bearer_bundle =
  bb_invoiceId :: string
  bb_mintUrl :: string
  bb_unit :: string
  bb_plaintext :: "bearer_proof list option"

record melt_dispatch =
  dp_dispatchFingerprint :: string
  dp_expiresAt :: int
  dp_method :: string
  dp_mintUrl :: string
  dp_quoteId :: string
  dp_schemaVersion :: int

record execution_input =
  xi_bearerProofs :: bearer_bundle
  xi_inputFee :: int
  xi_quote :: melt_quote_input

record execution_result =
  xr_dispatch :: melt_dispatch
  xr_quote :: melt_quote

definition newExecutionClient ::
  "cashu_env \<Rightarrow> string \<Rightarrow> client_options \<Rightarrow> client_error + client" where
  "newExecutionClient env mintUrl options =
     bindR (catchR (\<lambda>_. CE_invalid_configuration) (normalizeCashuMintUrl env mintUrl)) (\<lambda>url.
     let maxResponseBytes =
           (case clo_maxResponseBytes options of None \<Rightarrow> DEFAULT_RESPONSE_BYTES | Some b \<Rightarrow> b);
         requestTimeoutMs =
           (case clo_requestTimeoutMs options of None \<Rightarrow> DEFAULT_TIMEOUT_MS | Some t \<Rightarrow> t)
     in if \<not> isBoundedPositiveInteger maxResponseBytes MAX_RESPONSE_BYTES
           \<or> \<not> isBoundedPositiveInteger requestTimeoutMs MAX_TIMEOUT_MS
        then Inl CE_invalid_configuration
        else Inr \<lparr>cl_mintUrl = url, cl_maxResponseBytes = nat maxResponseBytes\<rparr>)"

text \<open>\<open>None\<close>: the bundle was destroyed.\<close>

definition meltInputs :: "bearer_bundle \<Rightarrow> bearer_proof list option" where
  "meltInputs bundle = bb_plaintext bundle"

definition meltInputJson :: "bearer_proof \<Rightarrow> json_value" where
  "meltInputJson p = Json_object
     [(''C'', Json_string (bp_signature p)), (''amount'', Json_number (bp_amount p)),
      (''id'', Json_string (bp_keysetId p)), (''secret'', Json_string (bp_secret p))]"

record validated_execution =
  ve_bearerProofs :: bearer_bundle
  ve_inputFee :: int
  ve_quote :: melt_quote

definition validateExecutionInput ::
  "cashu_env \<Rightarrow> execution_input \<Rightarrow> string \<Rightarrow> client_error + validated_execution" where
  "validateExecutionInput env input mintUrl =
     bindR (catchR (\<lambda>_. CE_invalid_request) (createCashuStellarMeltQuoteV1 env (xi_quote input)))
       (\<lambda>quote.
     bindR (catchR (\<lambda>_. CE_invalid_request) (minorUnits (xi_inputFee input))) (\<lambda>inputFee.
     if mq_mintUrl quote \<noteq> mintUrl \<or> bb_mintUrl (xi_bearerProofs input) \<noteq> mintUrl
        \<or> bb_unit (xi_bearerProofs input) \<noteq> mq_unit quote
     then Inl CE_invalid_request
     else if mq_feeReserve quote \<noteq> 0 then Inl CE_unsupported_fee_reserve
     else Inr \<lparr>ve_bearerProofs = xi_bearerProofs input, ve_inputFee = inputFee,
                ve_quote = quote\<rparr>))"

definition requireExecutableQuote :: "melt_quote \<Rightarrow> int \<Rightarrow> client_error + unit" where
  "requireExecutableQuote quote now =
    (if mq_observedAt quote > now then Inl CE_invalid_clock
     else if mq_state quote \<noteq> Quote_unpaid then Inl CE_invalid_request
     else if now \<ge> mq_expiry quote then Inl CE_quote_expired
     else Inr ())"

fun sumInputs :: "int \<Rightarrow> bearer_proof list \<Rightarrow> client_error + int" where
  "sumInputs acc [] = Inr acc"
| "sumInputs acc (p # ps) =
    (if \<not> isSafeInteger (acc + bp_amount p) then Inl CE_input_amount_mismatch
     else sumInputs (acc + bp_amount p) ps)"

definition requireExactInputAmount ::
  "bearer_proof list \<Rightarrow> int \<Rightarrow> int \<Rightarrow> client_error + unit" where
  "requireExactInputAmount inputs amount inputFee =
     bindR (sumInputs 0 inputs) (\<lambda>acc.
     if \<not> isSafeInteger (amount + inputFee) \<or> acc \<noteq> amount + inputFee
     then Inl CE_input_amount_mismatch else Inr ())"

definition executionEndpoint :: "client \<Rightarrow> string" where
  "executionEndpoint client = cl_mintUrl client @ ''/v1/melt/'' @ CASHU_STELLAR_METHOD"

definition executionBody :: "melt_quote \<Rightarrow> bearer_proof list \<Rightarrow> string" where
  "executionBody quote inputs = jsonText (Json_object
     [(''quote'', Json_string (mq_quoteId quote)),
      (''inputs'', Json_array (map meltInputJson inputs)),
      (''prefer_async'', Json_bool True)])"

definition dispatchFingerprint :: "cashu_env \<Rightarrow> string \<Rightarrow> string \<Rightarrow> string" where
  "dispatchFingerprint env endpoint requestBody = env_sha256 env (JObj
     [(''body'', JStr requestBody),
      (''domain'', JStr ''cashmesh.cashu.stellar-melt-dispatch.v1''),
      (''method'', JStr ''POST''), (''url'', JStr endpoint)])"

definition createDispatch :: "cashu_env \<Rightarrow> melt_quote \<Rightarrow> string \<Rightarrow> string \<Rightarrow> melt_dispatch" where
  "createDispatch env quote endpoint requestBody =
     \<lparr>dp_dispatchFingerprint = dispatchFingerprint env endpoint requestBody,
      dp_expiresAt = mq_expiry quote, dp_method = CASHU_STELLAR_METHOD,
      dp_mintUrl = mq_mintUrl quote, dp_quoteId = mq_quoteId quote,
      dp_schemaVersion = CASHU_STELLAR_MELT_DISPATCH_SCHEMA_VERSION\<rparr>"

text \<open>What the answer to the request becomes.\<close>

definition acceptExecution ::
  "cashu_env \<Rightarrow> client \<Rightarrow> 's client_deps \<Rightarrow> melt_quote \<Rightarrow> int \<Rightarrow> melt_dispatch \<Rightarrow> json_value
     \<Rightarrow> ('s, 'e, execution_result) client_act" where
  "acceptExecution env client deps quote dispatchedAt dispatch response =
     thenA (readClientClock deps) (\<lambda>observedAt.
     if observedAt < dispatchedAt then throwClient CE_invalid_clock
     else
     thenA (checked (catchR (\<lambda>_. CE_invalid_response) (parseCashuStellarMeltQuoteResponse
                env response (cl_mintUrl client) observedAt))) (\<lambda>observed.
     if \<not> cashuStellarMeltQuoteTermsMatch quote observed
     then throwClient CE_quote_response_mismatch
     else doneA \<lparr>xr_dispatch = dispatch, xr_quote = observed\<rparr>))"

text \<open>
  The part of \<open>execute\<close> after the callback granted the dispatch: the deadline, the one request and
  its answer.
\<close>

definition sendExecution ::
  "cashu_env \<Rightarrow> client \<Rightarrow> 's client_deps \<Rightarrow> melt_quote \<Rightarrow> int \<Rightarrow> melt_dispatch \<Rightarrow> string
     \<Rightarrow> ('s, 'e, execution_result) client_act" where
  "sendExecution env client deps quote preparedAt dispatch requestBody =
     whenA (cd_aborted deps) (throwClient CE_request_aborted)
     (thenA (readClientClock deps) (\<lambda>dispatchedAt.
     if dispatchedAt < preparedAt then throwClient CE_invalid_clock
     else if dispatchedAt \<ge> mq_expiry quote then throwClient CE_quote_expired
     else
     thenA (requestJson client deps
       \<lparr>hq_method = ''POST'', hq_endpoint = executionEndpoint client,
        hq_body = Some requestBody\<rparr>)
       (acceptExecution env client deps quote dispatchedAt dispatch)))"

text \<open>
  The callback of \<open>withCashuBearerMeltInputsV1\<close> is asynchronous, so the \<open>catch\<close> around it sees only
  the error of a destroyed bundle; what the callback throws passes through.
\<close>

definition execute ::
  "cashu_env \<Rightarrow> client \<Rightarrow> 's client_deps \<Rightarrow> (melt_dispatch \<Rightarrow> ('s, 'e, bool) act) \<Rightarrow> execution_input
     \<Rightarrow> ('s, 'e, execution_result) client_act" where
  "execute env client deps authorize input =
     thenA (checked (validateExecutionInput env input (cl_mintUrl client)))
       (\<lambda>validated.
     whenA (cd_aborted deps) (throwClient CE_request_aborted)
     (thenA (readClientClock deps) (\<lambda>preparedAt.
     thenA (checked (requireExecutableQuote (ve_quote validated) preparedAt)) (\<lambda>_.
     case meltInputs (ve_bearerProofs validated) of
       None \<Rightarrow> throwClient CE_invalid_request
     | Some inputs \<Rightarrow>
     thenA (checked (requireExactInputAmount inputs (mq_amount (ve_quote validated))
                       (ve_inputFee validated))) (\<lambda>_.
     let requestBody = executionBody (ve_quote validated) inputs;
         dispatch = createDispatch env (ve_quote validated)
                      (executionEndpoint client) requestBody
     in whenA (cd_aborted deps) (throwClient CE_request_aborted)
     (thenA (mapErrorA Callback_failure (authorize dispatch)) (\<lambda>granted.
     if \<not> granted then throwClient CE_dispatch_not_authorized
     else sendExecution env client deps (ve_quote validated) preparedAt dispatch requestBody)))))))"

end
