(* ===== verification/Melt_Coordinator.thy ===== *)
theory Melt_Coordinator
  imports Local_State Operator_Clients Keyset_Snapshot Lifecycle_Operations
begin

text \<open>
  \<^verbatim>\<open>cashu-stellar-melt-coordinator.ts\<close>: \<open>dispatch\<close> pays an invoice by melting the reserved proofs.
  It checks the stored evidence, derives the input fee, decrypts the bearer proofs and hands them to
  the operator's execution client; the callback the client asks for authority starts the operator
  effect in the lifecycle repository, and only a fresh effect lets the request go out.  Whatever
  happens after that is recorded: the observed quote, or a call for attention.

  Dependencies are functions on the state \<open>'w\<close> of the world; the errors of the repositories are not
  told apart.  \<open>withDecryptedBundle\<close> is the repository's own: retrieve, use, destroy.
\<close>

section \<open>Errors, results, dependencies\<close>

datatype dispatch_error =
    MC_clock_unavailable | MC_custody_not_found | MC_evidence_invalid | MC_invalid_configuration
  | MC_invalid_request | MC_keyset_evidence_missing | MC_operator_not_configured
  | MC_quote_not_dispatchable | MC_request_aborted | MC_reservation_not_found
  | MC_storage_unavailable

text \<open>What \<open>dispatch\<close> throws: its own error, or the \<^verbatim>\<open>TypeError\<close> of a malformed id.\<close>

datatype dispatch_failure = Dispatch_error dispatch_error | Dispatch_uncaught

datatype dispatch_state =
    Recovery_required
  | Dispatch_attention string
  | Operator_unpaid int
  | Operator_pending int
  | Operator_paid_observed int

record dispatch_result =
  ds_lifecycle :: lifecycle
  ds_paymentId :: string
  ds_state :: dispatch_state

record 'w dispatch_deps =
  dd_now :: "'w \<Rightarrow> 'w \<times> (unit + int)"
  dd_aborted :: "'w \<Rightarrow> bool"
  dd_findReservation :: "string \<Rightarrow> 'w \<Rightarrow> 'w \<times> (unit + proof_reservation option)"
  dd_findLifecycle :: "string \<Rightarrow> 'w \<Rightarrow> 'w \<times> (unit + lifecycle option)"
  dd_findQuote :: "string \<Rightarrow> 'w \<Rightarrow> 'w \<times> (unit + melt_attempt option)"
  dd_findKeysets :: "keyset_query \<Rightarrow> 'w \<Rightarrow> 'w \<times> (unit + keyset_snapshot_input option)"
  dd_retrieveBundle :: "string \<Rightarrow> 'w \<Rightarrow> 'w \<times> (unit + bearer_bundle option)"
  dd_startEffect :: "start_effect_input \<Rightarrow> 'w \<Rightarrow> 'w \<times> (unit + lifecycle_change)"
  dd_observe :: "quote_attempt_input \<Rightarrow> 'w \<Rightarrow> 'w \<times> (unit + melt_attempt)"
  dd_recordPending :: "evidence_input \<Rightarrow> 'w \<Rightarrow> 'w \<times> (unit + lifecycle_change)"
  dd_requireAttention :: "attention_input \<Rightarrow> 'w \<Rightarrow> 'w \<times> (unit + lifecycle_change)"
  dd_clientNow :: "'w \<Rightarrow> 'w \<times> (unit + int)"
  dd_timedOut :: "'w \<Rightarrow> bool"
  dd_fetch :: "http_request \<Rightarrow> 'w \<Rightarrow> 'w \<times> (unit + http_response)"

text \<open>The calls that write to a repository or reach the operator, with their answers.\<close>

datatype dispatch_call =
    Effect_started start_effect_input "unit + lifecycle_change"
  | Melt_posted http_request "unit + http_response"
  | Execution_stored quote_attempt_input "unit + melt_attempt"
  | Pending_marked evidence_input "unit + lifecycle_change"
  | Attention_marked attention_input "unit + lifecycle_change"

type_synonym ('w, 'a) dispatch_act = "(dispatch_call list \<times> 'w, dispatch_failure, 'a) act"

definition throwDispatch :: "dispatch_error \<Rightarrow> ('w, 'a) dispatch_act" where
  "throwDispatch e = failA (Dispatch_error e)"

text \<open>The configured executors, by mint.\<close>

record dispatch_config =
  dc_env :: cashu_env
  dc_executors :: "(string \<times> client) list"

fun configuredExecutors ::
  "cashu_env \<Rightarrow> (string \<times> client) list \<Rightarrow> client list \<Rightarrow> dispatch_error + (string \<times> client) list" where
  "configuredExecutors env configured [] = Inr configured"
| "configuredExecutors env configured (c # cs) =
     bindR (catchR (\<lambda>_. MC_invalid_configuration) (normalizeCashuMintUrl env (cl_mintUrl c)))
       (\<lambda>mintUrl.
     if mintUrl \<in> fst ` set configured then Inl MC_invalid_configuration
     else configuredExecutors env (configured @ [(mintUrl, c)]) cs)"

definition newMeltCoordinator ::
  "cashu_env \<Rightarrow> client list \<Rightarrow> dispatch_error + dispatch_config" where
  "newMeltCoordinator env clients =
     bindR (configuredExecutors env [] clients) (\<lambda>executors.
     if executors = [] then Inl MC_invalid_configuration
     else Inr \<lparr>dc_env = env, dc_executors = executors\<rparr>)"

section \<open>Checking the evidence\<close>

text \<open>Increasing \<open>y\<close> and the total, as the loop computes them.\<close>

fun referenceTotal ::
  "string set \<Rightarrow> string option \<Rightarrow> int \<Rightarrow> proof_reference list \<Rightarrow> dispatch_error + int" where
  "referenceTotal proofYs previousY acc [] = Inr acc"
| "referenceTotal proofYs previousY acc (p # ps) =
    (if pr_y p \<in> proofYs \<or> (case previousY of None \<Rightarrow> False | Some y \<Rightarrow> y \<ge> pr_y p)
     then Inl MC_evidence_invalid
     else referenceTotal (insert (pr_y p) proofYs) (Some (pr_y p)) (acc + pr_amount p) ps)"

abbreviation evidence :: "'e + 'a \<Rightarrow> dispatch_error + 'a" where
  "evidence r \<equiv> catchR (\<lambda>_. MC_evidence_invalid) r"

definition validateReservedProofs ::
  "cashu_env \<Rightarrow> proof_reservation \<Rightarrow> string \<Rightarrow> dispatch_error + proof_reservation" where
  "validateReservedProofs env reservation expectedPaymentId =
    (if prs_schemaVersion reservation \<noteq> CASHU_PROOF_RESERVATION_SCHEMA_VERSION
        \<or> prs_proofReferences reservation = [] \<or> length (prs_proofReferences reservation) > 128
     then Inl MC_evidence_invalid
     else
     bindR (evidence (identifierOf (prs_paymentId reservation))) (\<lambda>pid.
     bindR (evidence (identifierOf (prs_invoiceId reservation))) (\<lambda>iid.
     bindR (evidence (identifierOf (prs_operatorId reservation))) (\<lambda>oid.
     bindR (evidence (normalizeCashuMintUrl env (prs_mintUrl reservation))) (\<lambda>mintUrl.
     bindR (evidence (minorUnits (prs_grossAmount reservation))) (\<lambda>gross.
     bindR (evidence (unixTimestamp (prs_keysetObservedAt reservation))) (\<lambda>keysetObservedAt.
     bindR (evidence (unixTimestamp (prs_reservedAt reservation))) (\<lambda>reservedAt.
     bindR (evidence (mapR (createCashuProofReferenceV1 env) (prs_proofReferences reservation)))
       (\<lambda>proofs.
     bindR (referenceTotal {} None 0 proofs) (\<lambda>acc.
     if pid \<noteq> expectedPaymentId \<or> prs_unit reservation \<noteq> CASHU_STELLAR_UNIT
        \<or> keysetObservedAt > reservedAt \<or> acc \<noteq> gross
     then Inl MC_evidence_invalid
     else Inr \<lparr>prs_invoiceId = iid, prs_keysetObservedAt = keysetObservedAt, prs_mintUrl = mintUrl,
          prs_operatorId = oid, prs_paymentId = pid, prs_proofReferences = proofs,
          prs_reservedAt = reservedAt, prs_unit = CASHU_STELLAR_UNIT, prs_grossAmount = gross,
          prs_schemaVersion = CASHU_PROOF_RESERVATION_SCHEMA_VERSION\<rparr>))))))))))"

definition matchingImmutableQuoteTerms :: "melt_quote \<Rightarrow> melt_quote \<Rightarrow> bool" where
  "matchingImmutableQuoteTerms left right \<longleftrightarrow>
     mq_amount left = mq_amount right \<and> mq_expiry left = mq_expiry right
     \<and> mq_feeReserve left = mq_feeReserve right \<and> mq_method left = mq_method right
     \<and> mq_mintUrl left = mq_mintUrl right \<and> mq_quoteId left = mq_quoteId right
     \<and> mq_request left = mq_request right \<and> mq_unit left = mq_unit right"

definition matchingQuoteSnapshots :: "cashu_env \<Rightarrow> melt_quote \<Rightarrow> melt_quote \<Rightarrow> bool" where
  "matchingQuoteSnapshots env left right \<longleftrightarrow>
    (case createCashuStellarMeltQuoteV1 env (quoteInput right) of
       Inl _ \<Rightarrow> False
     | Inr normalized \<Rightarrow> matchingImmutableQuoteTerms left normalized
         \<and> mq_observedAt left = mq_observedAt normalized \<and> mq_state left = mq_state normalized)"

definition requireDispatchableQuote ::
  "cashu_env \<Rightarrow> melt_attempt \<Rightarrow> proof_reservation \<Rightarrow> int \<Rightarrow> dispatch_error + melt_quote" where
  "requireDispatchableQuote env attempt reservation now =
    (case mat_body attempt of
       Attempt_quoted latestQuote observations \<Rightarrow>
         if mat_schemaVersion attempt \<noteq> 1 \<or> mat_paymentId attempt \<noteq> prs_paymentId reservation
            \<or> mat_invoiceId attempt \<noteq> prs_invoiceId reservation
            \<or> mat_operatorId attempt \<noteq> prs_operatorId reservation
         then Inl MC_quote_not_dispatchable
         else
         bindR (catchR (\<lambda>_. MC_quote_not_dispatchable)
                  (normalizeCashuMintUrl env (mat_mintUrl attempt))) (\<lambda>mintUrl.
         if mintUrl \<noteq> prs_mintUrl reservation
            \<or> qr_method (mat_request attempt) \<noteq> CASHU_STELLAR_METHOD
            \<or> qr_unit (mat_request attempt) \<noteq> CASHU_STELLAR_UNIT \<or> observations = []
         then Inl MC_quote_not_dispatchable
         else
         bindR (catchR (\<lambda>_. MC_quote_not_dispatchable)
                  (createCashuStellarMeltQuoteV1 env (quoteInput latestQuote))) (\<lambda>quote.
         if (case atLast observations of None \<Rightarrow> True
             | Some latest \<Rightarrow> \<not> matchingQuoteSnapshots env quote latest)
            \<or> mq_mintUrl quote \<noteq> prs_mintUrl reservation
            \<or> mq_amount quote \<noteq> qr_amount (mat_request attempt)
            \<or> mq_request quote \<noteq> qr_request (mat_request attempt)
            \<or> mq_state quote \<noteq> Quote_unpaid \<or> mq_feeReserve quote \<noteq> 0
            \<or> mq_observedAt quote > now \<or> now \<ge> mq_expiry quote
         then Inl MC_quote_not_dispatchable
         else Inr quote))
     | _ \<Rightarrow> Inl MC_quote_not_dispatchable)"

text \<open>
  The loop over the proofs: the fee of each one's keyset.  \<open>new Map(entries)\<close> keeps the last keyset
  of an id, but a snapshot has each id once.
\<close>

fun sumFeePpk ::
  "(string \<rightharpoonup> keyset_entry) \<Rightarrow> string \<Rightarrow> int \<Rightarrow> int \<Rightarrow> proof_reference list \<Rightarrow> dispatch_error + int"
where
  "sumFeePpk keysets unit' evaluatedAt acc [] = Inr acc"
| "sumFeePpk keysets unit' evaluatedAt acc (p # ps) =
    (case keysets (pr_keysetId p) of
       None \<Rightarrow> Inl MC_evidence_invalid
     | Some keyset \<Rightarrow>
         if kse_unit keyset \<noteq> unit'
            \<or> map_of (kse_keys keyset) (bigintText (pr_amount p)) = None
            \<or> (case kse_finalExpiry keyset of None \<Rightarrow> False | Some t \<Rightarrow> evaluatedAt \<ge> t)
         then Inl MC_evidence_invalid
         else sumFeePpk keysets unit' evaluatedAt (acc + kse_inputFeePpk keyset) ps)"

definition deriveInputFee ::
  "cashu_env \<Rightarrow> proof_reservation \<Rightarrow> keyset_snapshot_input \<Rightarrow> melt_quote \<Rightarrow> int
     \<Rightarrow> dispatch_error + int" where
  "deriveInputFee env reservation rawSnapshot quote evaluatedAt =
     bindR (evidence (createCashuKeysetSnapshotV1 env rawSnapshot)) (\<lambda>snapshot.
     if kss_mintUrl snapshot \<noteq> prs_mintUrl reservation
        \<or> kss_observedAt snapshot \<noteq> prs_keysetObservedAt reservation
     then Inl MC_evidence_invalid
     else
     bindR (sumFeePpk (map_of (rev (map (\<lambda>k. (kse_id k, k)) (kss_keysets snapshot))))
              (prs_unit reservation) evaluatedAt 0 (prs_proofReferences reservation)) (\<lambda>feePpk.
     let inputFee = (feePpk + 999) div 1000
     in if inputFee > MAX_SAFE_INTEGER \<or> mq_amount quote + inputFee \<noteq> prs_grossAmount reservation
        then Inl MC_evidence_invalid else Inr inputFee))"

definition validateDispatchAuthority ::
  "cashu_env \<Rightarrow> melt_dispatch \<Rightarrow> melt_quote \<Rightarrow> string \<Rightarrow> dispatch_error + unit" where
  "validateDispatchAuthority env dispatch quote mintUrl =
    (if dp_schemaVersion dispatch \<noteq> CASHU_STELLAR_MELT_DISPATCH_SCHEMA_VERSION
        \<or> dp_method dispatch \<noteq> CASHU_STELLAR_METHOD
     then Inl MC_evidence_invalid
     else
     bindR (evidence (normalizeCashuMintUrl env (dp_mintUrl dispatch))) (\<lambda>dispatchMint.
     if dispatchMint \<noteq> mintUrl \<or> dp_quoteId dispatch \<noteq> mq_quoteId quote
        \<or> dp_expiresAt dispatch \<noteq> mq_expiry quote
     then Inl MC_evidence_invalid
     else bindR (evidence (cashuOperatorDispatchFingerprint (dp_dispatchFingerprint dispatch)))
       (\<lambda>_. Inr ())))"

definition executionMatchesAuthority ::
  "cashu_env \<Rightarrow> execution_result \<Rightarrow> melt_dispatch \<Rightarrow> melt_quote \<Rightarrow> bool" where
  "executionMatchesAuthority env execution dispatch expectedQuote \<longleftrightarrow>
    (case createCashuStellarMeltQuoteV1 env (quoteInput (xr_quote execution)) of
       Inl _ \<Rightarrow> False
     | Inr quote \<Rightarrow>
         dp_dispatchFingerprint (xr_dispatch execution) = dp_dispatchFingerprint dispatch
         \<and> dp_quoteId (xr_dispatch execution) = dp_quoteId dispatch
         \<and> dp_mintUrl (xr_dispatch execution) = dp_mintUrl dispatch
         \<and> dp_expiresAt (xr_dispatch execution) = dp_expiresAt dispatch
         \<and> dp_method (xr_dispatch execution) = dp_method dispatch
         \<and> dp_schemaVersion (xr_dispatch execution) = dp_schemaVersion dispatch
         \<and> matchingImmutableQuoteTerms expectedQuote quote)"

section \<open>Ids and error mapping\<close>

record coordination_ids =
  cid_fingerprint :: string
  cid_effectId :: string
  cid_pendingEventId :: string
  cid_startEventId :: string

definition attentionEventId :: "coordination_ids \<Rightarrow> string \<Rightarrow> domain_error + string" where
  "attentionEventId ids reason =
     identifierOf (''stellar-melt-attention:'' @ reason @ '':'' @ cid_fingerprint ids)"

definition coordinationIds ::
  "cashu_env \<Rightarrow> proof_reservation \<Rightarrow> melt_quote \<Rightarrow> domain_error + coordination_ids" where
  "coordinationIds env reservation quote =
    (let fingerprint = env_sha256 env (JObj
           [(''domain'', JStr ''cashmesh.acquirer.stellar-melt-coordination.v1''),
            (''mintUrl'', JStr (prs_mintUrl reservation)),
            (''paymentId'', JStr (prs_paymentId reservation)),
            (''quoteId'', JStr (mq_quoteId quote))])
     in bindR (identifierOf (''stellar-melt:'' @ fingerprint)) (\<lambda>effectId.
        bindR (identifierOf (''stellar-melt-pending:'' @ fingerprint)) (\<lambda>pendingEventId.
        bindR (identifierOf (''stellar-melt-start:'' @ fingerprint)) (\<lambda>startEventId.
        Inr \<lparr>cid_fingerprint = fingerprint, cid_effectId = effectId,
             cid_pendingEventId = pendingEventId, cid_startEventId = startEventId\<rparr>))))"

text \<open>What \<open>withDecryptedBundle\<close> throws: an error of the custody repository, or of its callback.\<close>

datatype execution_failure =
    Custody_failure
  | Execution_failure "dispatch_error client_failure"

definition attentionReason :: "execution_failure \<Rightarrow> string" where
  "attentionReason error =
    (case error of
       Execution_failure (Client_failure code) \<Rightarrow>
         if code \<in> {CE_invalid_response, CE_quote_response_mismatch, CE_response_too_large}
         then ''operator_response_invalid''
         else if code \<in> {CE_network_error, CE_request_aborted, CE_request_timeout,
                         CE_unexpected_status}
         then ''transport_ambiguous''
         else ''operator_state_unknown''
     | _ \<Rightarrow> ''operator_state_unknown'')"

definition mapPreAuthorizationError :: "execution_failure \<Rightarrow> dispatch_error" where
  "mapPreAuthorizationError error =
    (case error of
       Execution_failure (Callback_failure e) \<Rightarrow> e
     | Execution_failure (Client_failure code) \<Rightarrow>
         if code = CE_request_aborted then MC_request_aborted
         else if code \<in> {CE_quote_expired, CE_unsupported_fee_reserve}
         then MC_quote_not_dispatchable
         else if code = CE_invalid_clock then MC_clock_unavailable
         else MC_evidence_invalid
     | Custody_failure \<Rightarrow> MC_storage_unavailable)"

section \<open>The dispatch\<close>

text \<open>The variables of \<open>dispatch\<close> that the callback assigns.\<close>

record dispatch_vars =
  dv_fresh :: "lifecycle option"
  dv_replayed :: "lifecycle option"
  dv_authorized :: "melt_dispatch option"

definition noVars :: dispatch_vars where
  "noVars = \<lparr>dv_fresh = None, dv_replayed = None, dv_authorized = None\<rparr>"

type_synonym ('w, 'e, 'a) callback_act =
  "(dispatch_call list \<times> ('w \<times> dispatch_vars), 'e, 'a) act"

definition dispatchClock :: "('w \<Rightarrow> 'w \<times> (unit + int)) \<Rightarrow> (dispatch_call list \<times> 'w, dispatch_error, int) act" where
  "dispatchClock clock =
     eitherA (callA clock) (\<lambda>_. failA MC_clock_unavailable) (\<lambda>t.
       pureA (catchR (\<lambda>_. MC_clock_unavailable) (unixTimestamp t)))"

definition clientDeps ::
  "'w dispatch_deps \<Rightarrow> (dispatch_call list \<times> ('w \<times> dispatch_vars)) client_deps" where
  "clientDeps deps =
     \<lparr>cd_now = callA (withVars (dd_clientNow deps)),
      cd_aborted = askA (\<lambda>(w, v). dd_aborted deps w),
      cd_timedOut = askA (\<lambda>(w, v). dd_timedOut deps w),
      cd_fetch = (\<lambda>rq. loggedA (Melt_posted rq) (withVars (dd_fetch deps rq)))\<rparr>"

record dispatch_context =
  dx_paymentId :: string
  dx_reservation :: proof_reservation
  dx_attempt :: melt_attempt
  dx_quote :: melt_quote
  dx_snapshot :: keyset_snapshot
  dx_inputFee :: int
  dx_ids :: coordination_ids

definition effectInputOf :: "dispatch_context \<Rightarrow> melt_dispatch \<Rightarrow> int \<Rightarrow> start_effect_input" where
  "effectInputOf ctx dispatch startedAt =
     \<lparr>se_dispatchFingerprint = dp_dispatchFingerprint dispatch,
      se_effectId = cid_effectId (dx_ids ctx), se_eventId = cid_startEventId (dx_ids ctx),
      se_paymentId = dx_paymentId ctx, se_startedAt = startedAt, se_kind = ''melt'',
      se_operatorReference = Some (mq_quoteId (dx_quote ctx)),
      se_operatorReferenceExpiresAt = Some (mq_expiry (dx_quote ctx))\<rparr>"

definition startDispatchEffect ::
  "'w dispatch_deps \<Rightarrow> dispatch_context \<Rightarrow> melt_dispatch \<Rightarrow> int
     \<Rightarrow> ('w, dispatch_error, lifecycle_change) callback_act" where
  "startDispatchEffect deps ctx dispatch startedAt =
     thenA (pureA (catchR (\<lambda>_. MC_storage_unavailable)
              (cashuOperatorDispatchFingerprint (dp_dispatchFingerprint dispatch)))) (\<lambda>_.
     thenA (pureA (catchR (\<lambda>_. MC_storage_unavailable)
              (identifierOf (mq_quoteId (dx_quote ctx))))) (\<lambda>_.
     mapErrorA (\<lambda>_. MC_storage_unavailable)
       (loggedA (Effect_started (effectInputOf ctx dispatch startedAt))
         (withVars (dd_startEffect deps (effectInputOf ctx dispatch startedAt))))))"

text \<open>The callback that the execution client asks for authority.\<close>

definition authorizeDispatch ::
  "cashu_env \<Rightarrow> 'w dispatch_deps \<Rightarrow> dispatch_context \<Rightarrow> melt_dispatch
     \<Rightarrow> ('w, dispatch_error, bool) callback_act" where
  "authorizeDispatch env deps ctx dispatch =
     thenA (pureA (validateDispatchAuthority env dispatch (dx_quote ctx)
                     (prs_mintUrl (dx_reservation ctx)))) (\<lambda>_.
     thenA (dispatchClock (withVars (dd_now deps))) (\<lambda>startedAt.
     thenA (pureA (deriveInputFee env (dx_reservation ctx) (keysetSnapshotInput (dx_snapshot ctx))
                     (dx_quote ctx) startedAt)) (\<lambda>currentInputFee.
     if currentInputFee \<noteq> dx_inputFee ctx then failA MC_evidence_invalid
     else
     thenA (startDispatchEffect deps ctx dispatch startedAt) (\<lambda>started.
     if ch_replayed started
     then thenA (assignA (\<lambda>v. v\<lparr>dv_replayed := Some (ch_lifecycle started)\<rparr>)) (\<lambda>_. doneA False)
     else thenA (assignA (\<lambda>v. v\<lparr>dv_fresh := Some (ch_lifecycle started),
                               dv_authorized := Some dispatch\<rparr>)) (\<lambda>_. doneA True)))))"

text \<open>
  \<^verbatim>\<open>PostgresCashuProofCustodyRepository.withDecryptedBundle\<close>: the bundle is destroyed after its use,
  and nothing keeps a reference to it.
\<close>

definition withDecryptedBundle ::
  "(string \<Rightarrow> ('s, unit, bearer_bundle option) act) \<Rightarrow> string
     \<Rightarrow> (bearer_bundle \<Rightarrow> ('s, dispatch_error client_failure, 'a) act)
     \<Rightarrow> ('s, execution_failure, 'a option) act" where
  "withDecryptedBundle retrieveBundle pid use =
     eitherA (retrieveBundle pid) (\<lambda>_. failA Custody_failure) (\<lambda>found.
     case found of
       None \<Rightarrow> doneA None
     | Some bundle \<Rightarrow> eitherA (use bundle) (\<lambda>e. failA (Execution_failure e)) (\<lambda>x. doneA (Some x)))"

definition runExecution ::
  "cashu_env \<Rightarrow> 'w dispatch_deps \<Rightarrow> client \<Rightarrow> dispatch_context
     \<Rightarrow> ('w, execution_failure, execution_result option) callback_act" where
  "runExecution env deps executor ctx =
     withDecryptedBundle (\<lambda>pid. callA (withVars (dd_retrieveBundle deps pid))) (dx_paymentId ctx)
       (\<lambda>bearerProofs. execute env executor (clientDeps deps) (authorizeDispatch env deps ctx)
          \<lparr>xi_bearerProofs = bearerProofs, xi_inputFee = dx_inputFee ctx,
           xi_quote = quoteInput (dx_quote ctx)\<rparr>)"

text \<open>Writing the attention event.  Its id is made inside the \<open>try\<close>.\<close>

definition markAttention ::
  "'w dispatch_deps \<Rightarrow> dispatch_context \<Rightarrow> lifecycle \<Rightarrow> string \<Rightarrow> ('w, dispatch_result) dispatch_act"
where
  "markAttention deps ctx lifecycle reason =
    (case lc_effect lifecycle of
       None \<Rightarrow> throwDispatch MC_evidence_invalid
     | Some effect \<Rightarrow>
     case oe_kind effect of
       Swap \<Rightarrow> throwDispatch MC_evidence_invalid
     | Melt _ _ \<Rightarrow>
     thenA (mapErrorA Dispatch_error (dispatchClock (dd_now deps))) (\<lambda>recordedAt.
     if recordedAt < oe_startedAt effect then throwDispatch MC_clock_unavailable
     else
     case attentionEventId (dx_ids ctx) reason of
       Inl _ \<Rightarrow> throwDispatch MC_storage_unavailable
     | Inr eventId \<Rightarrow>
     let input = \<lparr>ei_effectId = oe_effectId effect, ei_eventId = eventId,
           ei_evidenceAt = recordedAt, ei_paymentId = dx_paymentId ctx,
           ei_recordedAt = recordedAt, ai_reason = reason\<rparr>
     in eitherA (loggedA (Attention_marked input) (dd_requireAttention deps input))
          (\<lambda>_. throwDispatch MC_storage_unavailable)
          (\<lambda>attention. doneA \<lparr>ds_lifecycle = ch_lifecycle attention,
             ds_paymentId = dx_paymentId ctx, ds_state = Dispatch_attention reason\<rparr>)))"

text \<open>The second \<open>try\<close>: every failure in it is answered by a call for attention.\<close>

definition recordExecution ::
  "'w dispatch_deps \<Rightarrow> dispatch_context \<Rightarrow> lifecycle \<Rightarrow> execution_result
     \<Rightarrow> (dispatch_call list \<times> 'w, unit, dispatch_result) act" where
  "recordExecution deps ctx fresh execution =
     thenA (mapErrorA (\<lambda>_. ()) (dispatchClock (dd_now deps))) (\<lambda>recordedAt.
     case lc_effect fresh of
       None \<Rightarrow> failA ()
     | Some effect \<Rightarrow>
     if oe_kind effect = Swap \<or> mq_observedAt (xr_quote execution) < oe_startedAt effect
        \<or> mq_observedAt (xr_quote execution) > recordedAt
     then failA ()
     else
     let observed = mq_observedAt (xr_quote execution);
         stored = \<lparr>qti_attemptId = mat_attemptId (dx_attempt ctx),
           qti_paymentId = dx_paymentId ctx, qti_quote = xr_quote execution\<rparr>
     in
     thenA (loggedA (Execution_stored stored) (dd_observe deps stored)) (\<lambda>_.
     case mq_state (xr_quote execution) of
       Quote_pending \<Rightarrow>
         let input = \<lparr>ei_effectId = oe_effectId effect,
               ei_eventId = cid_pendingEventId (dx_ids ctx), ei_evidenceAt = observed,
               ei_paymentId = dx_paymentId ctx, ei_recordedAt = recordedAt\<rparr>
         in thenA (loggedA (Pending_marked input) (dd_recordPending deps input)) (\<lambda>pending.
            doneA \<lparr>ds_lifecycle = ch_lifecycle pending, ds_paymentId = dx_paymentId ctx,
                   ds_state = Operator_pending observed\<rparr>)
     | Quote_paid \<Rightarrow> doneA \<lparr>ds_lifecycle = fresh, ds_paymentId = dx_paymentId ctx,
                        ds_state = Operator_paid_observed observed\<rparr>
     | Quote_unpaid \<Rightarrow> doneA \<lparr>ds_lifecycle = fresh, ds_paymentId = dx_paymentId ctx,
                          ds_state = Operator_unpaid observed\<rparr>))"

text \<open>What follows the first \<open>try\<close>, on the variables and on what it threw or returned.\<close>

definition afterExecution ::
  "cashu_env \<Rightarrow> 'w dispatch_deps \<Rightarrow> dispatch_context \<Rightarrow> dispatch_vars
     \<Rightarrow> execution_failure + execution_result option \<Rightarrow> ('w, dispatch_result) dispatch_act" where
  "afterExecution env deps ctx vars outcome =
    (case outcome of
       Inl error \<Rightarrow>
         (case dv_replayed vars of
            Some lifecycle \<Rightarrow> doneA \<lparr>ds_lifecycle = lifecycle, ds_paymentId = dx_paymentId ctx,
                                    ds_state = Recovery_required\<rparr>
          | None \<Rightarrow>
         (case dv_fresh vars of
            Some lifecycle \<Rightarrow> markAttention deps ctx lifecycle (attentionReason error)
          | None \<Rightarrow> throwDispatch (mapPreAuthorizationError error)))
     | Inr None \<Rightarrow>
         (case dv_fresh vars of
            Some lifecycle \<Rightarrow> markAttention deps ctx lifecycle ''operator_state_unknown''
          | None \<Rightarrow> throwDispatch MC_custody_not_found)
     | Inr (Some execution) \<Rightarrow>
         (case (dv_fresh vars, dv_authorized vars) of
            (Some fresh, Some authorized) \<Rightarrow>
              if \<not> executionMatchesAuthority env execution authorized (dx_quote ctx)
              then markAttention deps ctx fresh ''operator_response_invalid''
              else eitherA (recordExecution deps ctx fresh execution)
                     (\<lambda>_. markAttention deps ctx fresh ''operator_state_unknown'') doneA
          | _ \<Rightarrow> throwDispatch MC_evidence_invalid))"

section \<open>Loading the evidence\<close>

definition loadDispatchReservation ::
  "cashu_env \<Rightarrow> 'w dispatch_deps \<Rightarrow> string \<Rightarrow> ('w, proof_reservation) dispatch_act" where
  "loadDispatchReservation env deps pid =
     eitherA (callA (dd_findReservation deps pid)) (\<lambda>_. throwDispatch MC_storage_unavailable)
       (\<lambda>found. case found of
          None \<Rightarrow> throwDispatch MC_reservation_not_found
        | Some r \<Rightarrow> pureA (catchR Dispatch_error (validateReservedProofs env r pid)))"

definition loadDispatchLifecycle ::
  "'w dispatch_deps \<Rightarrow> string \<Rightarrow> ('w, lifecycle) dispatch_act" where
  "loadDispatchLifecycle deps pid =
     eitherA (callA (dd_findLifecycle deps pid)) (\<lambda>_. throwDispatch MC_storage_unavailable)
       (\<lambda>found. case found of
          None \<Rightarrow> throwDispatch MC_evidence_invalid
        | Some l \<Rightarrow> if lc_paymentId l \<noteq> pid then throwDispatch MC_evidence_invalid else doneA l)"

definition loadQuoteAttempt :: "'w dispatch_deps \<Rightarrow> string \<Rightarrow> ('w, melt_attempt) dispatch_act" where
  "loadQuoteAttempt deps pid =
     eitherA (callA (dd_findQuote deps pid)) (\<lambda>_. throwDispatch MC_storage_unavailable)
       (\<lambda>found. case found of
          None \<Rightarrow> throwDispatch MC_quote_not_dispatchable
        | Some a \<Rightarrow> doneA a)"

definition loadExactKeysetSnapshot ::
  "cashu_env \<Rightarrow> 'w dispatch_deps \<Rightarrow> proof_reservation \<Rightarrow> ('w, keyset_snapshot) dispatch_act" where
  "loadExactKeysetSnapshot env deps reservation =
     eitherA (callA (dd_findKeysets deps
       \<lparr>kq_mintUrl = prs_mintUrl reservation,
        kq_observedAtOrAfter = prs_keysetObservedAt reservation,
        kq_observedAtOrBefore = prs_keysetObservedAt reservation,
        kq_operatorId = prs_operatorId reservation, kq_unit = prs_unit reservation\<rparr>))
       (\<lambda>_. throwDispatch MC_storage_unavailable)
       (\<lambda>found. case found of
          None \<Rightarrow> throwDispatch MC_keyset_evidence_missing
        | Some s \<Rightarrow> pureA (catchR Dispatch_error (evidence (createCashuKeysetSnapshotV1 env s))))"

text \<open>What \<open>dispatch\<close> does once the lifecycle is reserved and has no effect.\<close>

definition dispatchReserved ::
  "dispatch_config \<Rightarrow> 'w dispatch_deps \<Rightarrow> string \<Rightarrow> int \<Rightarrow> proof_reservation
     \<Rightarrow> ('w, dispatch_result) dispatch_act" where
  "dispatchReserved config deps pid preparedAt reservation =
     thenA (loadQuoteAttempt deps pid) (\<lambda>attempt.
     thenA (pureA (catchR Dispatch_error
              (requireDispatchableQuote (dc_env config) attempt reservation preparedAt))) (\<lambda>quote.
     thenA (loadExactKeysetSnapshot (dc_env config) deps reservation) (\<lambda>snapshot.
     thenA (pureA (catchR Dispatch_error (deriveInputFee (dc_env config) reservation
              (keysetSnapshotInput snapshot) quote preparedAt))) (\<lambda>inputFee.
     case map_of (dc_executors config) (prs_mintUrl reservation) of
       None \<Rightarrow> throwDispatch MC_operator_not_configured
     | Some executor \<Rightarrow>
     thenA (pureA (catchR (\<lambda>_. Dispatch_uncaught)
              (coordinationIds (dc_env config) reservation quote))) (\<lambda>ids.
     let ctx = \<lparr>dx_paymentId = pid, dx_reservation = reservation, dx_attempt = attempt,
           dx_quote = quote, dx_snapshot = snapshot, dx_inputFee = inputFee, dx_ids = ids\<rparr>
     in thenA (localA noVars (runExecution (dc_env config) deps executor ctx)) (\<lambda>(vars, outcome).
        afterExecution (dc_env config) deps ctx vars outcome))))))"

text \<open>\<open>dispatch\<close> once its input is validated.\<close>

definition dispatchRequested ::
  "dispatch_config \<Rightarrow> 'w dispatch_deps \<Rightarrow> string \<Rightarrow> ('w, dispatch_result) dispatch_act" where
  "dispatchRequested config deps pid =
     thenA (askA (dd_aborted deps)) (\<lambda>aborted.
     if aborted then throwDispatch MC_request_aborted
     else
     thenA (mapErrorA Dispatch_error (dispatchClock (dd_now deps))) (\<lambda>preparedAt.
     thenA (loadDispatchReservation (dc_env config) deps pid) (\<lambda>reservation.
     thenA (loadDispatchLifecycle deps pid) (\<lambda>existing.
     if lc_state existing \<noteq> Reserved \<or> lc_effect existing \<noteq> None
     then doneA \<lparr>ds_lifecycle = existing, ds_paymentId = pid, ds_state = Recovery_required\<rparr>
     else dispatchReserved config deps pid preparedAt reservation))))"

definition dispatch ::
  "dispatch_config \<Rightarrow> 'w dispatch_deps \<Rightarrow> string \<Rightarrow> ('w, dispatch_result) dispatch_act" where
  "dispatch config deps inputPaymentId =
     thenA (pureA (catchR (\<lambda>_. Dispatch_error MC_invalid_request) (identifierOf inputPaymentId)))
       (dispatchRequested config deps)"

end
