(* ===== verification/Dispatch_Facts.thy ===== *)
theory Dispatch_Facts
  imports Melt_Coordinator
begin

text \<open>
  What a dispatch does to the outside world: the calls that the execution client, the callback that
  gives it authority and the rest of \<open>dispatch\<close> log, one lemma for each part.
\<close>

section \<open>The client\<close>

lemma clientDeps_sel [simp]:
  "cd_now (clientDeps deps) = callA (withVars (dd_clientNow deps))"
  "cd_aborted (clientDeps deps) = askA (\<lambda>(w, v). dd_aborted deps w)"
  "cd_timedOut (clientDeps deps) = askA (\<lambda>(w, v). dd_timedOut deps w)"
  "cd_fetch (clientDeps deps) rq = loggedA (Melt_posted rq) (withVars (dd_fetch deps rq))"
  by (simp_all add: clientDeps_def)

lemma whenV:
  assumes "logsV v L yes" and "logsV v L no"
  shows "logsV v L (whenA (askA f) yes no)"
  unfolding whenA_def
  by (rule quietV_either [where P = "\<lambda>_. True"]) (simp_all add: logsV_ask assms)

lemma ifV: "(b \<Longrightarrow> logsV v L m) \<Longrightarrow> (\<not> b \<Longrightarrow> logsV v L n) \<Longrightarrow> logsV v L (if b then m else n)"
  by simp

definition clientThrows :: "'e client_failure + 'a \<Rightarrow> bool" where
  "clientThrows r \<longleftrightarrow> (\<exists>c. r = Inl (Client_failure c))"

lemma clientThrows_simps [simp]:
  "clientThrows (Inl (Client_failure c))" "\<not> clientThrows (Inr x)"
  "\<not> clientThrows (Inl (Callback_failure e))"
  by (simp_all add: clientThrows_def)

lemma throwClientV: "L [] v (Inl (Client_failure c)) \<Longrightarrow> logsV v L (throwClient c)"
  by (simp add: throwClient_def logsV_fail)

lemma checkedV:
  "logsV v (\<lambda>new u r. new = [] \<and> u = v \<and> (clientThrows r \<or> (\<exists>x. q = Inr x \<and> r = Inr x)))
     (checked q)"
  by (rule logsV_pure) (cases q; simp)

lemma checkedV_then:
  assumes "\<And>c. L [] v (Inl (Client_failure c))" and "\<And>x. q = Inr x \<Longrightarrow> logsV v L (k x)"
  shows "logsV v L (thenA (checked q) k)"
proof (cases q)
  case (Inl c)
  with assms(1) [of c] show ?thesis by (auto simp: logsV_def act_simps)
next
  case (Inr x)
  with assms(2) [of x] show ?thesis by (simp add: logsV_def act_simps)
qed

lemma readClientClockV:
  "logsV v (\<lambda>new u r. new = [] \<and> u = v \<and> (clientThrows r \<or> isOk r))
     (readClientClock (clientDeps deps))"
  unfolding readClientClock_def clientDeps_sel
  by (rule quietV_either [where P = "\<lambda>_. True"])
    (auto simp: logsV_call throwClientV catchR_def intro!: logsV_pure split: sum.splits)

lemma clockV_then:
  assumes "\<And>c. L [] v (Inl (Client_failure c))" and "\<And>t. logsV v L (k t)"
  shows "logsV v L (thenA (readClientClock (clientDeps deps)) k)"
  by (rule logsV_then [OF readClientClockV]) (auto simp: assms clientThrows_def)

lemma transportFailureV:
  "logsV v (\<lambda>new u r. new = [] \<and> u = v \<and> clientThrows r) (transportFailure (clientDeps deps) e)"
  unfolding transportFailure_def clientDeps_sel by (intro whenV throwClientV) auto

lemma requestJsonV:
  "logsV v (\<lambda>new u r. u = v \<and> (clientThrows r \<or> isOk r)
       \<and> (new = [] \<and> clientThrows r \<or> (\<exists>a. new = [Melt_posted rq a])))
     (requestJson client (clientDeps deps) rq)"
  unfolding requestJson_def clientDeps_sel
proof (intro whenV throwClientV loggedV_either)
  show "logsV v (\<lambda>new u r. u = v \<and> (clientThrows r \<or> isOk r)
       \<and> (Melt_posted rq (Inl e) # new = [] \<and> clientThrows r
          \<or> (\<exists>a. Melt_posted rq (Inl e) # new = [Melt_posted rq a])))
     (transportFailure (clientDeps deps) None)" for e
    by (rule logsV_mono [OF transportFailureV]) auto
  show "logsV v (\<lambda>new u r. u = v \<and> (clientThrows r \<or> isOk r)
       \<and> (Melt_posted rq (Inr x) # new = [] \<and> clientThrows r
          \<or> (\<exists>a. Melt_posted rq (Inr x) # new = [Melt_posted rq a])))
     (case acceptResponse (cl_maxResponseBytes client) (hq_endpoint rq) x of
        Inl thrown \<Rightarrow> transportFailure (clientDeps deps) thrown | Inr v \<Rightarrow> doneA v)" for x
    by (auto split: sum.splits intro!: logsV_done logsV_mono [OF transportFailureV])
qed auto

section \<open>The request\<close>

definition executionRequest :: "client \<Rightarrow> string \<Rightarrow> http_request" where
  "executionRequest client body =
     \<lparr>hq_method = ''POST'', hq_endpoint = executionEndpoint client, hq_body = Some body\<rparr>"

definition sent ::
  "client \<Rightarrow> melt_quote \<Rightarrow> melt_dispatch \<Rightarrow> string \<Rightarrow> dispatch_call list
     \<Rightarrow> 'e client_failure + execution_result \<Rightarrow> bool" where
  "sent client quote authority body new r \<longleftrightarrow>
     (new = [] \<and> clientThrows r)
     \<or> (\<exists>a. new = [Melt_posted (executionRequest client body) a]
          \<and> (clientThrows r
             \<or> (\<exists>q. r = Inr \<lparr>xr_dispatch = authority, xr_quote = q\<rparr>
                  \<and> cashuStellarMeltQuoteTermsMatch quote q)))"

lemma acceptExecutionV:
  assumes "\<And>c. L [] v (Inl (Client_failure c))"
    and "\<And>q. cashuStellarMeltQuoteTermsMatch quote q
      \<Longrightarrow> L [] v (Inr \<lparr>xr_dispatch = authority, xr_quote = q\<rparr>)"
  shows "logsV v L
     (acceptExecution env client (clientDeps deps) quote dispatchedAt authority response)"
  unfolding acceptExecution_def
  by (intro clockV_then checkedV_then ifV throwClientV logsV_done) (simp_all add: assms)

lemma sendExecutionV:
  "logsV v (\<lambda>new u r. u = v \<and> sent client quote authority body new r)
     (sendExecution env client (clientDeps deps) quote preparedAt authority body)"
proof -
  have answered: "logsV u (\<lambda>new u r. u = v \<and> sent client quote authority body (before @ new) r)
     (acceptExecution env client (clientDeps deps) quote t authority response)"
    if "u = v \<and> (clientThrows r \<or> isOk r) \<and> (before = [] \<and> clientThrows r
        \<or> (\<exists>a. before = [Melt_posted (executionRequest client body) a]))" "r = Inr response"
    for before u t response and r :: "'e client_failure + json_value"
    using that by (auto simp: sent_def intro!: acceptExecutionV)
  show ?thesis
    unfolding sendExecution_def clientDeps_sel executionRequest_def [symmetric]
    by (intro whenV throwClientV clockV_then ifV logsV_then [OF requestJsonV] answered [OF _ refl])
      (auto simp: sent_def clientThrows_def)
qed

section \<open>The authority\<close>

lemma dispatchClockV_then:
  assumes "L [] v (Inl MC_clock_unavailable)" and "\<And>t. logsV v L (k t)"
  shows "logsV v L (thenA (dispatchClock (withVars clock)) k)"
proof (rule logsV_then)
  show "logsV v (\<lambda>new u r. new = [] \<and> u = v \<and> (r = Inl MC_clock_unavailable \<or> isOk r))
      (dispatchClock (withVars clock))"
    unfolding dispatchClock_def
    by (rule quietV_either [where P = "\<lambda>_. True"])
      (auto simp: logsV_call logsV_fail catchR_def intro!: logsV_pure split: sum.splits)
qed (auto simp: assms)

text \<open>The input of \<open>startEffect\<close>, made at a time at which the fee is what it was before.\<close>

definition effectFor ::
  "cashu_env \<Rightarrow> dispatch_context \<Rightarrow> melt_dispatch \<Rightarrow> start_effect_input \<Rightarrow> bool" where
  "effectFor env ctx authority i \<longleftrightarrow>
     validateDispatchAuthority env authority (dx_quote ctx) (prs_mintUrl (dx_reservation ctx)) = Inr ()
     \<and> (\<exists>t. i = effectInputOf ctx authority t
          \<and> deriveInputFee env (dx_reservation ctx) (keysetSnapshotInput (dx_snapshot ctx))
              (dx_quote ctx) t = Inr (dx_inputFee ctx))"

definition decided ::
  "cashu_env \<Rightarrow> dispatch_context \<Rightarrow> melt_dispatch \<Rightarrow> dispatch_call list \<Rightarrow> dispatch_vars
     \<Rightarrow> dispatch_error + bool \<Rightarrow> bool" where
  "decided env ctx authority new u r \<longleftrightarrow>
     (new = [] \<and> u = noVars \<and> \<not> isOk r)
     \<or> (\<exists>i. effectFor env ctx authority i
          \<and> (new = [Effect_started i (Inl ())] \<and> u = noVars \<and> r = Inl MC_storage_unavailable
             \<or> (\<exists>ch. new = [Effect_started i (Inr ch)] \<and> ch_replayed ch
                  \<and> u = noVars\<lparr>dv_replayed := Some (ch_lifecycle ch)\<rparr> \<and> r = Inr False)
             \<or> (\<exists>ch. new = [Effect_started i (Inr ch)] \<and> \<not> ch_replayed ch
                  \<and> u = noVars\<lparr>dv_fresh := Some (ch_lifecycle ch), dv_authorized := Some authority\<rparr>
                  \<and> r = Inr True)))"

lemma startDispatchEffectV:
  "logsV v (\<lambda>new u r. u = v
       \<and> (new = [] \<and> \<not> isOk r
          \<or> (\<exists>a. new = [Effect_started (effectInputOf ctx authority t) a]
               \<and> r = catchR (\<lambda>_. MC_storage_unavailable) a)))
     (startDispatchEffect deps ctx authority t)"
  unfolding startDispatchEffect_def
  by (intro pureV_bind
      logsV_mapError [where M = "\<lambda>new u r. u = v
        \<and> new = [Effect_started (effectInputOf ctx authority t) r]"] logsV_logged) auto

lemma assigned:
  assumes "L [] (f v) (Inr x)"
  shows "logsV v L (thenA (assignA f) (\<lambda>_. doneA x))"
  by (intro assignV_then logsV_done) (simp add: assms)

lemma authorizeDispatchV:
  "logsV noVars (decided env ctx authority) (authorizeDispatch env deps ctx authority)"
proof -
  have start: "logsV noVars (decided env ctx authority)
     (thenA (startDispatchEffect deps ctx authority t) (\<lambda>started.
     if ch_replayed started
     then thenA (assignA (\<lambda>v. v\<lparr>dv_replayed := Some (ch_lifecycle started)\<rparr>)) (\<lambda>_. doneA False)
     else thenA (assignA (\<lambda>v. v\<lparr>dv_fresh := Some (ch_lifecycle started),
                               dv_authorized := Some authority\<rparr>)) (\<lambda>_. doneA True)))"
    if "effectFor env ctx authority (effectInputOf ctx authority t)" for t
  proof (rule logsV_then [OF startDispatchEffectV])
    fix before u e
    assume "u = noVars \<and> (before = [] \<and> \<not> isOk (Inl e :: dispatch_error + lifecycle_change)
       \<or> (\<exists>a. before = [Effect_started (effectInputOf ctx authority t) a]
            \<and> Inl e = catchR (\<lambda>_. MC_storage_unavailable) a))"
    then show "decided env ctx authority before u (Inl e)"
      using that by (auto simp: decided_def dest!: sym [of "Inl e"] simp: catchR_eq_Inl)
  next
    fix before u started
    assume "u = noVars \<and> (before = [] \<and> \<not> isOk (Inr started :: dispatch_error + lifecycle_change)
       \<or> (\<exists>a. before = [Effect_started (effectInputOf ctx authority t) a]
            \<and> Inr started = catchR (\<lambda>_. MC_storage_unavailable) a))"
    then have "u = noVars" "before = [Effect_started (effectInputOf ctx authority t) (Inr started)]"
      by (auto dest!: sym [of "Inr started"] simp: catchR_eq_Inr)
    then show "logsV u (\<lambda>new. decided env ctx authority (before @ new))
     (if ch_replayed started
      then thenA (assignA (\<lambda>v. v\<lparr>dv_replayed := Some (ch_lifecycle started)\<rparr>)) (\<lambda>_. doneA False)
      else thenA (assignA (\<lambda>v. v\<lparr>dv_fresh := Some (ch_lifecycle started),
                                dv_authorized := Some authority\<rparr>)) (\<lambda>_. doneA True))"
      using that by (intro ifV assigned) (auto simp: decided_def)
  qed
  show ?thesis
    unfolding authorizeDispatch_def
    by (intro pureV_bind dispatchClockV_then ifV logsV_fail start)
      (auto simp: decided_def effectFor_def)
qed

section \<open>The execution\<close>

lemma sumInputs_sum: "sumInputs acc ps = Inr n \<Longrightarrow> n = acc + sum_list (map bp_amount ps)"
  by (induction ps arbitrary: acc) (force split: if_splits)+

lemma requireExactInputAmount_sum:
  "requireExactInputAmount ps amount fee = Inr () \<Longrightarrow> sum_list (map bp_amount ps) = amount + fee"
  by (auto simp: requireExactInputAmount_def result_simps dest: sumInputs_sum split: if_splits)

lemma createQuote_again:
  assumes "createCashuStellarMeltQuoteV1 env (quoteInput q) = Inr q'"
  shows "mq_amount q' = mq_amount q \<and> mq_quoteId q' = mq_quoteId q \<and> mq_expiry q' = mq_expiry q
     \<and> mq_request q' = mq_request q \<and> mq_feeReserve q' = mq_feeReserve q"
  using assms
  by (auto simp: createCashuStellarMeltQuoteV1_def quoteInput_def result_simps
      createCashuStellarMeltQuoteRequestV1_def cashuStellarMeltQuoteId_def
      split: if_splits option.splits)

text \<open>
  The authority a body of the request is given: the body spends proofs worth the quote and the fee
  on the quote of the dispatch.
\<close>

definition requestFor ::
  "cashu_env \<Rightarrow> client \<Rightarrow> dispatch_context \<Rightarrow> melt_dispatch \<Rightarrow> string \<Rightarrow> bool" where
  "requestFor env client ctx authority body \<longleftrightarrow>
     (\<exists>quote inputs. body = executionBody quote inputs
        \<and> mq_quoteId quote = mq_quoteId (dx_quote ctx)
        \<and> authority = createDispatch env quote (executionEndpoint client) body
        \<and> mq_mintUrl quote = cl_mintUrl client
        \<and> sum_list (map bp_amount inputs) = mq_amount (dx_quote ctx) + dx_inputFee ctx)"

definition executed ::
  "cashu_env \<Rightarrow> client \<Rightarrow> dispatch_context \<Rightarrow> dispatch_call list \<Rightarrow> dispatch_vars
     \<Rightarrow> dispatch_error client_failure + execution_result \<Rightarrow> bool" where
  "executed env client ctx new u r \<longleftrightarrow>
     (new = [] \<and> u = noVars \<and> \<not> isOk r)
     \<or> (\<exists>authority body i ch. requestFor env client ctx authority body
          \<and> effectFor env ctx authority i \<and> new = [Effect_started i (Inr ch)] \<and> ch_replayed ch
          \<and> u = noVars\<lparr>dv_replayed := Some (ch_lifecycle ch)\<rparr> \<and> \<not> isOk r)
     \<or> (\<exists>i. new = [Effect_started i (Inl ())] \<and> u = noVars
          \<and> r = Inl (Callback_failure MC_storage_unavailable))
     \<or> (\<exists>authority body i ch rest. requestFor env client ctx authority body
          \<and> effectFor env ctx authority i \<and> new = Effect_started i (Inr ch) # rest
          \<and> \<not> ch_replayed ch
          \<and> u = noVars\<lparr>dv_fresh := Some (ch_lifecycle ch), dv_authorized := Some authority\<rparr>
          \<and> (\<exists>quote. sent client quote authority body rest r))"

lemma authorized_send:
  assumes request: "requestFor env client ctx authority body"
  shows "logsV noVars (executed env client ctx)
     (thenA (mapErrorA Callback_failure (authorizeDispatch env deps ctx authority)) (\<lambda>granted.
       if \<not> granted then throwClient CE_dispatch_not_authorized
       else sendExecution env client (clientDeps deps) quote preparedAt authority body))"
proof (rule logsV_then)
  show "logsV noVars (\<lambda>new u r. \<exists>q. decided env ctx authority new u q \<and> r = catchR Callback_failure q)
      (mapErrorA Callback_failure (authorizeDispatch env deps ctx authority))"
    by (rule logsV_mapError [OF authorizeDispatchV]) (fastforce simp: catchR_def)+
next
  fix before u e
  assume "\<exists>q. decided env ctx authority before u q
      \<and> (Inl e :: dispatch_error client_failure + bool) = catchR Callback_failure q"
  then obtain d where "e = Callback_failure d" "decided env ctx authority before u (Inl d)"
    by (auto simp: catchR_eq_Inl dest!: sym [of "Inl e"])
  then show "executed env client ctx before u (Inl e)"
    by (auto simp: decided_def executed_def)
next
  fix before u granted
  assume "\<exists>q. decided env ctx authority before u q
      \<and> (Inr granted :: dispatch_error client_failure + bool) = catchR Callback_failure q"
  then have "decided env ctx authority before u (Inr granted)"
    by (auto simp: catchR_eq_Inr dest!: sym [of "Inr granted"])
  then consider (replayed) i ch where "effectFor env ctx authority i"
        "before = [Effect_started i (Inr ch)]" "ch_replayed ch" "\<not> granted"
        "u = noVars\<lparr>dv_replayed := Some (ch_lifecycle ch)\<rparr>"
    | (fresh) i ch where "effectFor env ctx authority i"
        "before = [Effect_started i (Inr ch)]" "\<not> ch_replayed ch" granted
        "u = noVars\<lparr>dv_fresh := Some (ch_lifecycle ch), dv_authorized := Some authority\<rparr>"
    by (auto simp: decided_def)
  then show "logsV u (\<lambda>new. executed env client ctx (before @ new))
     (if \<not> granted then throwClient CE_dispatch_not_authorized
      else sendExecution env client (clientDeps deps) quote preparedAt authority body)"
  proof cases
    case replayed
    with request show ?thesis
      by simp (rule throwClientV, simp add: executed_def, blast)
  next
    case fresh
    then show ?thesis
      using request
      by simp (rule logsV_mono [OF sendExecutionV], unfold executed_def, simp, blast)
  qed
qed

lemma executeV:
  assumes quote: "xi_quote input = quoteInput (dx_quote ctx)" and fee: "xi_inputFee input = dx_inputFee ctx"
  shows "logsV noVars (executed env client ctx)
     (execute env client (clientDeps deps) (authorizeDispatch env deps ctx) input)"
proof -
  have thrown: "executed env client ctx [] noVars (Inl e)" for e by (simp add: executed_def)
  have request: "requestFor env client ctx
      (createDispatch env (ve_quote validated) (executionEndpoint client)
        (executionBody (ve_quote validated) inputs)) (executionBody (ve_quote validated) inputs)"
    if "validateExecutionInput env input (cl_mintUrl client) = Inr validated"
      and "requireExactInputAmount inputs (mq_amount (ve_quote validated)) (ve_inputFee validated)
        = Inr u" for validated inputs and u :: unit
  proof -
    from that(1) have "createCashuStellarMeltQuoteV1 env (quoteInput (dx_quote ctx))
          = Inr (ve_quote validated)" "ve_inputFee validated = dx_inputFee ctx"
        "mq_mintUrl (ve_quote validated) = cl_mintUrl client"
      by (auto simp: validateExecutionInput_def result_simps quote fee split: if_splits)
    with requireExactInputAmount_sum [of inputs] that(2) createQuote_again show ?thesis
      unfolding requestFor_def by (metis (full_types) old.unit.exhaust)
  qed
  show ?thesis
    unfolding execute_def clientDeps_sel Let_def
  proof (intro checkedV_then whenV throwClientV clockV_then thrown)
    fix validated t and u :: unit
    assume v: "validateExecutionInput env input (cl_mintUrl client) = Inr validated"
    show "logsV noVars (executed env client ctx)
      (case meltInputs (ve_bearerProofs validated) of
         None \<Rightarrow> throwClient CE_invalid_request
       | Some inputs \<Rightarrow>
         thenA (checked (requireExactInputAmount inputs (mq_amount (ve_quote validated))
              (ve_inputFee validated))) (\<lambda>_.
         whenA (askA (\<lambda>(w, v). dd_aborted deps w)) (throwClient CE_request_aborted)
          (thenA (mapErrorA Callback_failure (authorizeDispatch env deps ctx
              (createDispatch env (ve_quote validated) (executionEndpoint client)
                (executionBody (ve_quote validated) inputs)))) (\<lambda>granted.
           if \<not> granted then throwClient CE_dispatch_not_authorized
           else sendExecution env client (clientDeps deps) (ve_quote validated) t
             (createDispatch env (ve_quote validated) (executionEndpoint client)
                (executionBody (ve_quote validated) inputs))
             (executionBody (ve_quote validated) inputs)))))"
      by (auto split: option.split
          intro!: throwClientV checkedV_then whenV thrown authorized_send request [OF v])
  qed
qed

lemma runExecutionV:
  "logsV noVars (\<lambda>new u r. \<exists>q. executed env client ctx new u q
       \<and> r = catchR Execution_failure (bindR q (\<lambda>x. Inr (Some x)))
     \<or> new = [] \<and> u = noVars \<and> (r = Inl Custody_failure \<or> r = Inr None))
     (runExecution env deps client ctx)"
  unfolding runExecution_def withDecryptedBundle_def
proof (rule quietV_either [where P = "\<lambda>_. True"])
  fix found
  show "logsV noVars (\<lambda>new u r. \<exists>q. executed env client ctx new u q
       \<and> r = catchR Execution_failure (bindR q (\<lambda>x. Inr (Some x)))
     \<or> new = [] \<and> u = noVars \<and> (r = Inl Custody_failure \<or> r = Inr None))
    (case found of None \<Rightarrow> doneA None
     | Some bundle \<Rightarrow> eitherA (execute env client (clientDeps deps) (authorizeDispatch env deps ctx)
          \<lparr>xi_bearerProofs = bundle, xi_inputFee = dx_inputFee ctx,
           xi_quote = quoteInput (dx_quote ctx)\<rparr>)
        (\<lambda>e. failA (Execution_failure e)) (\<lambda>x. doneA (Some x)))"
    by (cases found)
      (auto intro!: logsV_done logsV_fail logsV_either [OF executeV]
        simp: exI [of _ "Inl _"] exI [of _ "Inr _"], (force+)?)
qed (auto simp: logsV_call logsV_fail)

section \<open>What follows the execution\<close>

lemma logs_if: "(b \<Longrightarrow> logs L m) \<Longrightarrow> (\<not> b \<Longrightarrow> logs L n) \<Longrightarrow> logs L (if b then m else n)"
  by simp

lemma dispatchClock_quiet:
  "logs (\<lambda>new r. new = [] \<and> (r = Inl MC_clock_unavailable \<or> isOk r)) (dispatchClock clock)"
  unfolding dispatchClock_def
  by (rule either_quiet)
    (auto simp: logs_call catchR_def intro!: logs_pure logs_fail split: sum.splits)

lemma dispatchClock_then:
  assumes "L [] (Inl (f MC_clock_unavailable))" and "\<And>t. logs L (k t)"
  shows "logs L (thenA (mapErrorA f (dispatchClock clock)) k)"
  by (rule logs_then [OF logs_mapError [OF dispatchClock_quiet, where L =
      "\<lambda>new r. new = [] \<and> (r = Inl (f MC_clock_unavailable) \<or> isOk r)"]])
    (auto simp: assms)

definition lateError :: "dispatch_failure \<Rightarrow> bool" where
  "lateError e \<longleftrightarrow> e \<in> Dispatch_error ` {MC_clock_unavailable, MC_storage_unavailable, MC_evidence_invalid}"

text \<open>A call for attention: the last call, and what the result says of it.\<close>

definition attended ::
  "string \<Rightarrow> string \<Rightarrow> dispatch_call list \<Rightarrow> dispatch_failure + dispatch_result \<Rightarrow> bool" where
  "attended pid reason new r \<longleftrightarrow>
     (new = [] \<and> (\<exists>e. r = Inl e \<and> lateError e))
     \<or> (\<exists>input e. new = [Attention_marked input (Inl e)] \<and> r = Inl (Dispatch_error MC_storage_unavailable))
     \<or> (\<exists>input ch. new = [Attention_marked input (Inr ch)] \<and> ai_reason input = reason
          \<and> ei_paymentId input = pid
          \<and> r = Inr \<lparr>ds_lifecycle = ch_lifecycle ch, ds_paymentId = pid,
                     ds_state = Dispatch_attention reason\<rparr>)"

lemma markAttention_logs:
  "logs (attended (dx_paymentId ctx) reason) (markAttention deps ctx lifecycle reason)"
  unfolding markAttention_def throwDispatch_def Let_def
  by (auto simp: attended_def lateError_def split: option.split effect_kind.split sum.split
      intro!: logs_fail logs_done dispatchClock_then logged_either)

definition stateObserved :: "melt_quote_state \<Rightarrow> int \<Rightarrow> dispatch_state" where
  "stateObserved st t =
    (case st of Quote_pending \<Rightarrow> Operator_pending t | Quote_paid \<Rightarrow> Operator_paid_observed t
     | Quote_unpaid \<Rightarrow> Operator_unpaid t)"

text \<open>A stored observation: the quote was stored, and a pending one was marked.\<close>

definition observedAs ::
  "string \<Rightarrow> lifecycle \<Rightarrow> melt_quote \<Rightarrow> dispatch_call list \<Rightarrow> dispatch_result \<Rightarrow> bool" where
  "observedAs pid fresh quote new res \<longleftrightarrow>
     ds_paymentId res = pid \<and> ds_state res = stateObserved (mq_state quote) (mq_observedAt quote)
     \<and> (\<exists>stored a rest. new = Execution_stored stored (Inr a) # rest
          \<and> qti_paymentId stored = pid \<and> qti_quote stored = quote
          \<and> (if mq_state quote = Quote_pending
             then \<exists>input ch. rest = [Pending_marked input (Inr ch)] \<and> ei_paymentId input = pid
                    \<and> ei_evidenceAt input = mq_observedAt quote \<and> ds_lifecycle res = ch_lifecycle ch
             else rest = [] \<and> ds_lifecycle res = fresh))"

definition laterCall :: "dispatch_call \<Rightarrow> bool" where
  "laterCall c \<longleftrightarrow> (case c of Effect_started _ _ \<Rightarrow> False | Melt_posted _ _ \<Rightarrow> False | _ \<Rightarrow> True)"

lemma laterCall_simps [simp]:
  "\<not> laterCall (Effect_started i a)" "\<not> laterCall (Melt_posted rq b)"
  "laterCall (Execution_stored s c)" "laterCall (Pending_marked p d)" "laterCall (Attention_marked t d)"
  by (simp_all add: laterCall_def)

lemma recordExecution_logs:
  "logs (\<lambda>new r. list_all laterCall new
       \<and> (\<forall>res. r = Inr res \<longrightarrow> observedAs (dx_paymentId ctx) fresh (xr_quote execution) new res))
     (recordExecution deps ctx fresh execution)"
proof -
  have marked: "logs (\<lambda>new r. list_all laterCall (Execution_stored stored (Inr a) # new)
       \<and> (\<forall>res. r = Inr res
          \<longrightarrow> observedAs (dx_paymentId ctx) fresh (xr_quote execution)
                (Execution_stored stored (Inr a) # new) res))
     (thenA (loggedA (Pending_marked input) (dd_recordPending deps input)) (\<lambda>pending.
       doneA \<lparr>ds_lifecycle = ch_lifecycle pending, ds_paymentId = dx_paymentId ctx,
              ds_state = Operator_pending (mq_observedAt (xr_quote execution))\<rparr>))"
    if "qti_paymentId stored = dx_paymentId ctx" "qti_quote stored = xr_quote execution"
      "ei_paymentId input = dx_paymentId ctx" "mq_state (xr_quote execution) = Quote_pending"
      "ei_evidenceAt input = mq_observedAt (xr_quote execution)" for stored a and input :: evidence_input
    unfolding thenA_def
    by (rule logged_either) (auto simp: observedAs_def stateObserved_def that intro!: logs_fail logs_done)
  show ?thesis
    unfolding recordExecution_def Let_def thenA_def [of "loggedA _ _"]
    by (auto split: option.split melt_quote_state.split
        intro!: dispatchClock_then logs_fail logged_either logs_done
          marked [unfolded thenA_def] simp: observedAs_def stateObserved_def)
qed

section \<open>The whole dispatch\<close>

text \<open>
  The request the effect was started for: to the operator of the reservation's mint, spending on the
  quote of the effect proofs worth the reservation, with the fingerprint the effect carries.
\<close>

definition spends ::
  "dispatch_config \<Rightarrow> proof_reservation \<Rightarrow> start_effect_input \<Rightarrow> http_request \<Rightarrow> bool" where
  "spends config reservation i rq \<longleftrightarrow>
     (\<exists>client quote inputs. map_of (dc_executors config) (prs_mintUrl reservation) = Some client
        \<and> rq = executionRequest client (executionBody quote inputs)
        \<and> se_operatorReference i = Some (mq_quoteId quote)
        \<and> se_dispatchFingerprint i = dispatchFingerprint (dc_env config) (executionEndpoint client)
            (executionBody quote inputs)
        \<and> sum_list (map bp_amount inputs) = prs_grossAmount reservation)"

text \<open>What ends a dispatch that started a fresh effect.\<close>

definition concluded ::
  "string \<Rightarrow> lifecycle \<Rightarrow> bool \<Rightarrow> dispatch_call list \<Rightarrow> dispatch_failure + dispatch_result \<Rightarrow> bool" where
  "concluded pid fresh posted rest r \<longleftrightarrow>
     list_all laterCall rest
     \<and> (case r of
          Inl e \<Rightarrow> lateError e
        | Inr res \<Rightarrow>
            (\<exists>before input ch. rest = before @ [Attention_marked input (Inr ch)]
               \<and> ei_paymentId input = pid
               \<and> res = \<lparr>ds_lifecycle = ch_lifecycle ch, ds_paymentId = pid,
                        ds_state = Dispatch_attention (ai_reason input)\<rparr>)
            \<or> posted \<and> (\<exists>quote. observedAs pid fresh quote rest res))"

definition dispatchLog ::
  "dispatch_config \<Rightarrow> string \<Rightarrow> proof_reservation \<Rightarrow> dispatch_call list
     \<Rightarrow> dispatch_failure + dispatch_result \<Rightarrow> bool" where
  "dispatchLog config pid reservation new r \<longleftrightarrow>
     (new = [] \<and> (\<forall>res. r = Inr res \<longrightarrow> ds_state res = Recovery_required))
     \<or> (\<exists>i. new = [Effect_started i (Inl ())] \<and> r = Inl (Dispatch_error MC_storage_unavailable))
     \<or> (\<exists>i ch. new = [Effect_started i (Inr ch)] \<and> ch_replayed ch \<and> se_paymentId i = pid
          \<and> r = Inr \<lparr>ds_lifecycle = ch_lifecycle ch, ds_paymentId = pid,
                     ds_state = Recovery_required\<rparr>)
     \<or> (\<exists>i ch post rest. new = Effect_started i (Inr ch) # post @ rest \<and> \<not> ch_replayed ch
          \<and> se_paymentId i = pid
          \<and> (post = [] \<or> (\<exists>rq a. post = [Melt_posted rq a] \<and> spends config reservation i rq))
          \<and> concluded pid (ch_lifecycle ch) (post \<noteq> []) rest r)"

lemma markAttention_concluded:
  assumes "list_all laterCall before"
  shows "logs (\<lambda>new. concluded (dx_paymentId ctx) fresh posted (before @ new))
     (markAttention deps ctx lifecycle reason)"
  by (rule logs_mono [OF markAttention_logs])
    (use assms in \<open>auto simp: attended_def concluded_def lateError_def\<close>)

lemmas markAttention_concluded_at_once = markAttention_concluded [where before = "[]", simplified]

lemma conclude_execution:
  "logs (concluded (dx_paymentId ctx) fresh True)
     (eitherA (recordExecution deps ctx fresh execution)
       (\<lambda>_. markAttention deps ctx fresh reason) doneA)"
proof (rule logs_either [OF recordExecution_logs])
  show "logs (\<lambda>new. concluded (dx_paymentId ctx) fresh True (before @ new))
      (markAttention deps ctx fresh reason)"
    if "list_all laterCall before \<and> (\<forall>res. Inl e = Inr res \<longrightarrow> P res)" for before e P
    using that by (simp add: markAttention_concluded)
qed (auto simp: concluded_def intro!: logs_done)

lemma authority_spends:
  assumes "requestFor env client ctx authority body" and "effectFor env ctx authority i"
    and "env = dc_env config" "dx_reservation ctx = reservation"
    and "map_of (dc_executors config) (prs_mintUrl reservation) = Some client"
  shows "spends config reservation i (executionRequest client body) \<and> se_paymentId i = dx_paymentId ctx"
proof -
  obtain quote inputs where body: "body = executionBody quote inputs"
      and quote: "mq_quoteId quote = mq_quoteId (dx_quote ctx)"
      and authority: "authority = createDispatch env quote (executionEndpoint client) body"
      and amounts: "sum_list (map bp_amount inputs) = mq_amount (dx_quote ctx) + dx_inputFee ctx"
    using assms(1) by (auto simp: requestFor_def)
  obtain t where i: "i = effectInputOf ctx authority t"
      and fee: "deriveInputFee env (dx_reservation ctx) (keysetSnapshotInput (dx_snapshot ctx))
              (dx_quote ctx) t = Inr (dx_inputFee ctx)"
    using assms(2) by (auto simp: effectFor_def)
  have "mq_amount (dx_quote ctx) + dx_inputFee ctx = prs_grossAmount reservation"
    using fee assms(4) by (auto simp: deriveInputFee_def result_simps Let_def split: if_splits)
  with amounts body quote authority i assms(3,5) show ?thesis
    unfolding spends_def
    by (intro conjI exI [of _ client] exI [of _ quote] exI [of _ inputs])
      (auto simp: effectInputOf_def createDispatch_def)
qed

lemma dispatchLog_freshI:
  assumes "\<not> ch_replayed ch" "se_paymentId i = pid"
    and "post = [] \<or> (\<exists>rq a. post = [Melt_posted rq a] \<and> spends config reservation i rq)"
    and "concluded pid (ch_lifecycle ch) (post \<noteq> []) rest r"
  shows "dispatchLog config pid reservation ((Effect_started i (Inr ch) # post) @ rest) r"
  unfolding dispatchLog_def
  by (intro disjI2, rule exI [of _ i], rule exI [of _ ch], rule exI [of _ post], rule exI [of _ rest])
    (use assms in auto)

lemma afterExecution_logs:
  assumes "executed env client ctx before vars q \<and> outcome = catchR Execution_failure (bindR q (\<lambda>x. Inr (Some x)))
      \<or> before = [] \<and> vars = noVars \<and> (outcome = Inl Custody_failure \<or> outcome = Inr None)"
    and "env = dc_env config" "dx_reservation ctx = reservation"
    and "map_of (dc_executors config) (prs_mintUrl reservation) = Some client"
  shows "logs (\<lambda>new. dispatchLog config (dx_paymentId ctx) reservation (before @ new))
     (afterExecution env deps ctx vars outcome)"
proof -
  note authority = authority_spends [OF _ _ assms(2-4)]
  consider (early) "before = []" "vars = noVars" "\<And>x. outcome \<noteq> Inr (Some x)"
    | (replayed) i ch e where "before = [Effect_started i (Inr ch)]" "ch_replayed ch"
        "vars = noVars\<lparr>dv_replayed := Some (ch_lifecycle ch)\<rparr>" "outcome = Inl e"
        "se_paymentId i = dx_paymentId ctx"
    | (unstored) i where "before = [Effect_started i (Inl ())]" "vars = noVars"
        "outcome = Inl (Execution_failure (Callback_failure MC_storage_unavailable))"
    | (fresh) authority' quote body i ch post where "before = Effect_started i (Inr ch) # post"
        "\<not> ch_replayed ch" "se_paymentId i = dx_paymentId ctx"
        "vars = noVars\<lparr>dv_fresh := Some (ch_lifecycle ch), dv_authorized := Some authority'\<rparr>"
        "sent client quote authority' body post q"
        "spends config reservation i (executionRequest client body)"
        "outcome = catchR Execution_failure (bindR q (\<lambda>x. Inr (Some x)))"
    using assms(1) unfolding executed_def
    by (cases q; elim disjE conjE exE) (auto dest: authority)
  then show ?thesis
  proof cases
    case early
    then show ?thesis
      by (auto simp: afterExecution_def dispatchLog_def noVars_def throwDispatch_def
          split: sum.split option.split intro!: logs_fail)
  next
    case replayed
    then show ?thesis
      by (auto simp: afterExecution_def dispatchLog_def intro!: logs_done)
  next
    case unstored
    then show ?thesis
      by (auto simp: afterExecution_def dispatchLog_def noVars_def throwDispatch_def
          mapPreAuthorizationError_def intro!: logs_fail)
  next
    case fresh
    have post: "post = [] \<or> (\<exists>rq a. post = [Melt_posted rq a] \<and> spends config reservation i rq)"
      using fresh(5,6) by (auto simp: sent_def)
    have conclude: "logs (\<lambda>new. dispatchLog config (dx_paymentId ctx) reservation (before @ new)) m"
      if "logs (concluded (dx_paymentId ctx) (ch_lifecycle ch) (post \<noteq> [])) m" for m
      unfolding fresh(1)
      by (rule logs_mono [OF that]) (rule dispatchLog_freshI [OF fresh(2,3) post])
    show ?thesis
    proof (cases q)
      case (Inl e)
      with fresh(4,7) show ?thesis
        by (auto simp: afterExecution_def noVars_def
            intro!: conclude markAttention_concluded_at_once)
    next
      case (Inr x)
      with fresh(5) have "post \<noteq> []" by (auto simp: sent_def clientThrows_def)
      with fresh(4,7) Inr show ?thesis
        by (auto simp: afterExecution_def noVars_def conclude_execution
            intro!: conclude markAttention_concluded_at_once)
    qed
  qed
qed

lemma dispatchReserved_logs:
  "logs (dispatchLog config pid reservation) (dispatchReserved config deps pid preparedAt reservation)"
proof -
  have failed: "dispatchLog config pid reservation [] (Inl e)" for e by (simp add: dispatchLog_def)
  have attempt: "quiet (loadQuoteAttempt deps pid)"
    unfolding loadQuoteAttempt_def throwDispatch_def
    by (auto intro!: either_quiet logs_intros split: option.split)
  have snapshot: "quiet (loadExactKeysetSnapshot (dc_env config) deps reservation)"
    unfolding loadExactKeysetSnapshot_def throwDispatch_def
    by (auto intro!: either_quiet logs_intros split: option.split)
  have execution: "logs (dispatchLog config pid reservation)
     (thenA (localA noVars (runExecution (dc_env config) deps executor ctx)) (\<lambda>(vars, outcome).
        afterExecution (dc_env config) deps ctx vars outcome))"
    if "map_of (dc_executors config) (prs_mintUrl reservation) = Some executor"
      and "dx_paymentId ctx = pid" "dx_reservation ctx = reservation" for executor ctx
  proof (rule logs_then)
    let ?run = "\<lambda>before vars outcome. \<exists>q. executed (dc_env config) executor ctx before vars q
           \<and> outcome = catchR Execution_failure (bindR q (\<lambda>x. Inr (Some x)))
         \<or> before = [] \<and> vars = noVars \<and> (outcome = Inl Custody_failure \<or> outcome = Inr None)"
    show "logs (\<lambda>new r. \<exists>vars outcome. r = Inr (vars, outcome) \<and> ?run new vars outcome)
        (localA noVars (runExecution (dc_env config) deps executor ctx))"
      by (rule logs_local [OF runExecutionV]) auto
    fix before and x :: "dispatch_vars \<times> (execution_failure + execution_result option)"
    assume "\<exists>vars outcome. (Inr x :: dispatch_failure + _) = Inr (vars, outcome) \<and> ?run before vars outcome"
    then obtain vars outcome q where x: "x = (vars, outcome)" and run:
        "executed (dc_env config) executor ctx before vars q
           \<and> outcome = catchR Execution_failure (bindR q (\<lambda>x. Inr (Some x)))
         \<or> before = [] \<and> vars = noVars \<and> (outcome = Inl Custody_failure \<or> outcome = Inr None)"
      by auto
    show "logs (\<lambda>new. dispatchLog config pid reservation (before @ new))
       (case x of (vars, outcome) \<Rightarrow> afterExecution (dc_env config) deps ctx vars outcome)"
      unfolding x prod.case that(2) [symmetric]
      by (rule afterExecution_logs [OF run refl that(3,1)])
  qed auto
  show ?thesis
    unfolding dispatchReserved_def Let_def throwDispatch_def
    by (auto intro!: then_quiet [OF attempt] then_quiet [OF snapshot] pure_bind execution logs_fail
        simp: failed split: option.split)
qed

text \<open>The reservation a dispatch works on is the one the repository answered, validated.\<close>

definition storedReservation ::
  "cashu_env \<Rightarrow> 'w dispatch_deps \<Rightarrow> string \<Rightarrow> proof_reservation \<Rightarrow> bool" where
  "storedReservation env deps pid reservation \<longleftrightarrow>
     (\<exists>w w' found. dd_findReservation deps pid w = (w', Inr (Some found))
        \<and> validateReservedProofs env found pid = Inr reservation)"

lemma quietly_called: "quietly (\<lambda>x. \<exists>w w'. dep w = (w', Inr x)) (callA dep)"
  by (auto simp: logs_def act_simps split: prod.splits)

lemma quietly_either:
  assumes "quietly P m" and "\<And>e. logs L (h e)" and "\<And>x. P x \<Longrightarrow> logs L (k x)"
  shows "logs L (eitherA m h k)"
  by (rule logs_either [OF assms(1)]) (auto simp: assms(2,3))

lemma loadDispatchReservation_quietly:
  "quietly (storedReservation env deps pid) (loadDispatchReservation env deps pid)"
  unfolding loadDispatchReservation_def throwDispatch_def
  by (rule quietly_either [OF quietly_called])
    (auto simp: storedReservation_def catchR_eq_Inr intro!: logs_fail logs_pure split: option.split,
      blast)

lemma dispatch_logs:
  "logs (\<lambda>new r. (new = [] \<and> (\<forall>res. r = Inr res \<longrightarrow> ds_state res = Recovery_required))
     \<or> (\<exists>reservation. storedReservation (dc_env config) deps pid reservation
          \<and> dispatchLog config pid reservation new r))
     (dispatch config deps pid)"
proof -
  let ?L = "\<lambda>new r. (new = [] \<and> (\<forall>res. r = Inr res \<longrightarrow> ds_state res = Recovery_required))
     \<or> (\<exists>reservation. storedReservation (dc_env config) deps pid reservation
          \<and> dispatchLog config pid reservation new r)"
  have lifecycle: "quiet (loadDispatchLifecycle deps pid)"
    unfolding loadDispatchLifecycle_def throwDispatch_def
    by (auto intro!: either_quiet logs_intros split: option.split)
  have reserved: "logs ?L (thenA (loadDispatchReservation (dc_env config) deps pid) (\<lambda>reservation.
     thenA (loadDispatchLifecycle deps pid) (\<lambda>existing.
     if lc_state existing \<noteq> Reserved \<or> lc_effect existing \<noteq> None
     then doneA \<lparr>ds_lifecycle = existing, ds_paymentId = pid, ds_state = Recovery_required\<rparr>
     else dispatchReserved config deps pid t reservation)))" for t
    by (intro quietly_then [OF loadDispatchReservation_quietly] then_quiet [OF lifecycle])
      (auto intro!: logs_done logs_mono [OF dispatchReserved_logs])
  have "logs ?L (dispatchRequested config deps pid)"
    unfolding dispatchRequested_def throwDispatch_def
    by (intro then_quiet [OF logs_ask] logs_if logs_fail dispatchClock_then reserved) simp_all
  then show ?thesis
    unfolding dispatch_def
    by (auto simp: catchR_eq_Inr identifierOf_def result_simps intro!: pure_bind)
qed

end
