(* ===== verification/Dispatch_Properties.thy ===== *)
theory Dispatch_Properties
  imports Dispatch_Facts Example
begin

text \<open>
  The properties of the dispatch of a melt, for arbitrary repositories, clocks and operators, and
  the example they are instantiated on.
\<close>

section \<open>The request\<close>

lemma dispatchLog_cases:
  assumes "dispatchLog config pid reservation new r"
  obtains (none) "new = []" "\<And>res. r = Inr res \<Longrightarrow> ds_state res = Recovery_required"
  | (unstored) i where "new = [Effect_started i (Inl ())]"
      "r = Inl (Dispatch_error MC_storage_unavailable)"
  | (replayed) i ch where "new = [Effect_started i (Inr ch)]" "ch_replayed ch"
      "r = Inr \<lparr>ds_lifecycle = ch_lifecycle ch, ds_paymentId = pid, ds_state = Recovery_required\<rparr>"
  | (unsent) i ch rest where "new = Effect_started i (Inr ch) # rest" "\<not> ch_replayed ch"
      "se_paymentId i = pid" "concluded pid (ch_lifecycle ch) False rest r"
  | (sent) i ch rq a rest where "new = Effect_started i (Inr ch) # Melt_posted rq a # rest"
      "\<not> ch_replayed ch" "se_paymentId i = pid" "spends config reservation i rq"
      "concluded pid (ch_lifecycle ch) True rest r"
proof -
  from assms consider "new = []" "\<forall>res. r = Inr res \<longrightarrow> ds_state res = Recovery_required"
    | i where "new = [Effect_started i (Inl ())]" "r = Inl (Dispatch_error MC_storage_unavailable)"
    | i ch where "new = [Effect_started i (Inr ch)]" "ch_replayed ch"
      "r = Inr \<lparr>ds_lifecycle = ch_lifecycle ch, ds_paymentId = pid, ds_state = Recovery_required\<rparr>"
    | i ch post rest where "new = Effect_started i (Inr ch) # post @ rest" "\<not> ch_replayed ch"
      "se_paymentId i = pid" "concluded pid (ch_lifecycle ch) (post \<noteq> []) rest r"
      "post = [] \<or> (\<exists>rq a. post = [Melt_posted rq a] \<and> spends config reservation i rq)"
    unfolding dispatchLog_def by blast
  then show thesis
  proof cases
    case 4
    from 4(5) show thesis
    proof
      assume "post = []"
      with 4 show thesis by (intro unsent [of i ch rest]) simp_all
    next
      assume "\<exists>rq a. post = [Melt_posted rq a] \<and> spends config reservation i rq"
      with 4 show thesis by (auto intro: sent [of i ch _ _ rest])
    qed
  qed (use none unstored replayed in blast)+
qed

lemma concluded_later: "concluded pid fresh posted rest r \<Longrightarrow> list_all laterCall rest"
  by (simp add: concluded_def)

lemma later_not:
  "list_all laterCall rest \<Longrightarrow> Melt_posted rq a \<notin> set rest \<and> Effect_started i b \<notin> set rest"
  by (auto simp: list_all_iff)

lemma request_log:
  assumes run: "dispatch config deps pid (log, w) = ((log @ calls, w'), r)"
    and posted: "Melt_posted rq answer \<in> set calls"
  shows "\<exists>i ch rest reservation.
     calls = Effect_started i (Inr ch) # Melt_posted rq answer # rest \<and> \<not> ch_replayed ch
     \<and> list_all laterCall rest \<and> se_paymentId i = pid
     \<and> storedReservation (dc_env config) deps pid reservation \<and> spends config reservation i rq"
proof -
  obtain reservation where stored: "storedReservation (dc_env config) deps pid reservation"
      and new: "dispatchLog config pid reservation calls r"
    using logsD [OF dispatch_logs run] posted by auto
  from new show ?thesis
  proof (cases rule: dispatchLog_cases)
    case (unsent i ch rest)
    with posted later_not [OF concluded_later [OF unsent(4)]] show ?thesis by simp
  next
    case (sent i ch rq' a rest)
    with posted stored later_not [OF concluded_later [OF sent(5)]] concluded_later [OF sent(5)]
    show ?thesis by auto
  qed (use posted in auto)
qed

text \<open>
  C22 (safety): a dispatch sends an operator at most one request, and only right after
  \<open>startEffect\<close> answered that the effect is new.  The request goes to the operator configured for
  the mint of the stored reservation; its body spends, on the quote that the effect names, proofs
  worth exactly the reservation; and the effect carries the digest of that body.  Nothing is sent on
  a replayed effect.
\<close>

theorem request_only_on_fresh_effect:
  assumes run: "dispatch config deps pid (log, w) = ((log @ calls, w'), r)"
    and posted: "Melt_posted rq answer \<in> set calls"
  shows "\<exists>i ch rest reservation.
     calls = Effect_started i (Inr ch) # Melt_posted rq answer # rest \<and> \<not> ch_replayed ch
     \<and> list_all laterCall rest \<and> se_paymentId i = pid
     \<and> storedReservation (dc_env config) deps pid reservation \<and> spends config reservation i rq"
  using assms by (rule request_log)

text \<open>
  C23 (liveness): once an effect has been started the dispatch does not end silently.  It returns
  a state backed by its last calls: a stored observation of the operator's answer (with the pending
  mark when the quote is pending), or a recorded call for attention; or it throws that a clock or
  the storage failed, or that the lifecycle just returned is not that of a melt.
\<close>

theorem started_effect_is_concluded:
  assumes run: "dispatch config deps pid (log, w) = ((log @ calls, w'), r)"
    and started: "Effect_started i (Inr ch) \<in> set calls" "\<not> ch_replayed ch"
  shows "(\<exists>e. r = Inl e \<and> lateError e)
     \<or> (\<exists>before input change. calls = before @ [Attention_marked input (Inr change)]
          \<and> ei_paymentId input = pid
          \<and> r = Inr \<lparr>ds_lifecycle = ch_lifecycle change, ds_paymentId = pid,
                     ds_state = Dispatch_attention (ai_reason input)\<rparr>)
     \<or> (\<exists>rq a rest quote res. calls = Effect_started i (Inr ch) # Melt_posted rq a # rest
          \<and> r = Inr res \<and> observedAs pid (ch_lifecycle ch) quote rest res)"
proof -
  obtain reservation where new: "dispatchLog config pid reservation calls r"
    using logsD [OF dispatch_logs run] started by auto
  obtain post rest where calls: "calls = Effect_started i (Inr ch) # post @ rest"
      and post: "post = [] \<or> (\<exists>rq a. post = [Melt_posted rq a])"
      and ended: "concluded pid (ch_lifecycle ch) (post \<noteq> []) rest r"
    using new
  proof (cases rule: dispatchLog_cases)
    case (unsent i' ch' rest)
    with started later_not [OF concluded_later [OF unsent(4)]] that [of "[]" rest] show ?thesis by auto
  next
    case (sent i' ch' rq a rest)
    with started later_not [OF concluded_later [OF sent(5)]] that [of "[Melt_posted rq a]" rest]
    show ?thesis by auto
  qed (use started in auto)
  show ?thesis
  proof (cases r)
    case (Inl e)
    with ended show ?thesis by (simp add: concluded_def)
  next
    case (Inr res)
    with ended consider
        (attended) before input change where "rest = before @ [Attention_marked input (Inr change)]"
          "ei_paymentId input = pid"
          "res = \<lparr>ds_lifecycle = ch_lifecycle change, ds_paymentId = pid,
                 ds_state = Dispatch_attention (ai_reason input)\<rparr>"
      | (observed) quote where "post \<noteq> []" "observedAs pid (ch_lifecycle ch) quote rest res"
      by (auto simp: concluded_def)
    then show ?thesis
    proof cases
      case attended
      then have "calls = (Effect_started i (Inr ch) # post @ before)
          @ [Attention_marked input (Inr change)]" by (simp add: calls)
      with attended Inr show ?thesis by blast
    next
      case observed
      with calls post Inr show ?thesis by auto
    qed
  qed
qed

text \<open>
  C24 (error): a dispatch refused for any reason but a failing clock, a failing storage or invalid
  evidence has written nothing and sent nothing: a malformed or aborted request, a missing
  reservation, custody or keyset observation, a quote that cannot be dispatched, an operator that is
  not configured.
\<close>

theorem refused_dispatch_writes_nothing:
  assumes run: "dispatch config deps pid (log, w) = ((log', w'), Inl e)"
    and refused: "\<not> lateError e"
  shows "log' = log"
proof -
  obtain calls where "log' = log @ calls" "calls = []
      \<or> (\<exists>reservation. dispatchLog config pid reservation calls (Inl e :: dispatch_failure + dispatch_result))"
    using logsD [OF dispatch_logs run] by auto
  with refused show ?thesis by (auto simp: dispatchLog_def concluded_def lateError_def)
qed

section \<open>The fee\<close>

definition usableFor :: "string \<Rightarrow> int \<Rightarrow> proof_reference \<Rightarrow> keyset_entry \<Rightarrow> bool" where
  "usableFor unit' evaluatedAt p k \<longleftrightarrow> kse_id k = pr_keysetId p \<and> kse_unit k = unit'
     \<and> (\<exists>key. (bigintText (pr_amount p), key) \<in> set (kse_keys k))
     \<and> (\<forall>t. kse_finalExpiry k = Some t \<longrightarrow> evaluatedAt < t)"

lemma keyset_lookup:
  assumes "distinct (map kse_id ks)"
  shows "map_of (rev (map (\<lambda>k. (kse_id k, k)) ks)) i = Some k \<longleftrightarrow> k \<in> set ks \<and> kse_id k = i"
proof -
  have "distinct (map fst (rev (map (\<lambda>k. (kse_id k, k)) ks)))"
    using assms by (simp add: rev_map [symmetric] comp_def)
  then have "map_of (rev (map (\<lambda>k. (kse_id k, k)) ks)) i = Some k
      \<longleftrightarrow> (i, k) \<in> set (rev (map (\<lambda>k. (kse_id k, k)) ks))" by (rule map_of_eq_Some_iff)
  then show ?thesis by auto
qed

lemma usable_lookup:
  assumes "\<And>i k. keysets i = Some k \<longleftrightarrow> k \<in> K \<and> kse_id k = i"
  shows "(\<exists>k. keysets (pr_keysetId p) = Some k \<and> kse_unit k = unit'
      \<and> map_of (kse_keys k) (bigintText (pr_amount p)) \<noteq> None
      \<and> \<not> (case kse_finalExpiry k of None \<Rightarrow> False | Some t \<Rightarrow> t \<le> evaluatedAt) \<and> f k)
    \<longleftrightarrow> (\<exists>k \<in> K. usableFor unit' evaluatedAt p k \<and> f k)"
proof -
  have "map_of xs x \<noteq> None \<longleftrightarrow> (\<exists>y. (x, y) \<in> set xs)" for xs :: "(string \<times> string) list" and x
    by (force simp: map_of_eq_None_iff)
  then show ?thesis
    by (auto simp: usableFor_def assms not_le split: option.split)
qed

lemma sumFeePpk_iff:
  assumes "\<And>i k. keysets i = Some k \<longleftrightarrow> k \<in> K \<and> kse_id k = i"
  shows "sumFeePpk keysets unit' evaluatedAt acc ps = Inr n \<longleftrightarrow>
     (\<exists>ks. list_all2 (\<lambda>p k. k \<in> K \<and> usableFor unit' evaluatedAt p k) ps ks
        \<and> n = acc + sum_list (map kse_inputFeePpk ks))"
proof (induction ps arbitrary: acc)
  case (Cons p ps)
  have "sumFeePpk keysets unit' evaluatedAt acc (p # ps) = Inr n \<longleftrightarrow>
      (\<exists>k. keysets (pr_keysetId p) = Some k \<and> kse_unit k = unit'
        \<and> map_of (kse_keys k) (bigintText (pr_amount p)) \<noteq> None
        \<and> \<not> (case kse_finalExpiry k of None \<Rightarrow> False | Some t \<Rightarrow> t \<le> evaluatedAt)
        \<and> sumFeePpk keysets unit' evaluatedAt (acc + kse_inputFeePpk k) ps = Inr n)"
    by (auto split: option.split)
  also have "\<dots> \<longleftrightarrow> (\<exists>k \<in> K. usableFor unit' evaluatedAt p k
        \<and> sumFeePpk keysets unit' evaluatedAt (acc + kse_inputFeePpk k) ps = Inr n)"
    by (rule usable_lookup [OF assms])
  finally show ?case
    unfolding Cons.IH by (fastforce simp: list_all2_Cons1)
qed auto

lemma ceiling_fee: "(s + 999) div 1000 = (fee :: int) \<longleftrightarrow> 1000 * (fee - 1) < s \<and> s \<le> 1000 * fee"
  by auto

text \<open>
  C25 (equivalence): \<open>deriveInputFee\<close> accepts exactly when the snapshot is valid, is the one of the
  reservation's mint and time, has for every reserved proof a keyset of the unit with a key for the
  amount and not expired, and the quote with the fee is worth the reservation.  The fee is the sum
  of the proofs' fees in thousandths, rounded up to the next unit.
\<close>

theorem input_fee_exact:
  "deriveInputFee env reservation raw quote evaluatedAt = Inr fee \<longleftrightarrow>
     (\<exists>snapshot ks. createCashuKeysetSnapshotV1 env raw = Inr snapshot
        \<and> kss_mintUrl snapshot = prs_mintUrl reservation
        \<and> kss_observedAt snapshot = prs_keysetObservedAt reservation
        \<and> list_all2 (\<lambda>p k. k \<in> set (kss_keysets snapshot)
             \<and> usableFor (prs_unit reservation) evaluatedAt p k) (prs_proofReferences reservation) ks
        \<and> 1000 * (fee - 1) < sum_list (map kse_inputFeePpk ks)
        \<and> sum_list (map kse_inputFeePpk ks) \<le> 1000 * fee
        \<and> fee \<le> MAX_SAFE_INTEGER \<and> mq_amount quote + fee = prs_grossAmount reservation)"
proof -
  have lookup: "map_of (rev (map (\<lambda>k. (kse_id k, k)) (kss_keysets snapshot))) i = Some k
      \<longleftrightarrow> k \<in> set (kss_keysets snapshot) \<and> kse_id k = i"
    if "createCashuKeysetSnapshotV1 env raw = Inr snapshot" for snapshot i k
    using createCashuKeysetSnapshotV1_parts [OF that] strictlyIncreasing_distinct keyset_lookup
    by blast
  have "deriveInputFee env reservation raw quote evaluatedAt = Inr fee \<longleftrightarrow>
     (\<exists>snapshot. createCashuKeysetSnapshotV1 env raw = Inr snapshot
        \<and> kss_mintUrl snapshot = prs_mintUrl reservation
        \<and> kss_observedAt snapshot = prs_keysetObservedAt reservation
        \<and> (\<exists>n. sumFeePpk (map_of (rev (map (\<lambda>k. (kse_id k, k)) (kss_keysets snapshot))))
              (prs_unit reservation) evaluatedAt 0 (prs_proofReferences reservation) = Inr n
            \<and> (n + 999) div 1000 = fee)
        \<and> fee \<le> MAX_SAFE_INTEGER \<and> mq_amount quote + fee = prs_grossAmount reservation)"
    by (auto simp: deriveInputFee_def result_simps Let_def split: if_splits)
  also have "\<dots> \<longleftrightarrow>
     (\<exists>snapshot. createCashuKeysetSnapshotV1 env raw = Inr snapshot
        \<and> kss_mintUrl snapshot = prs_mintUrl reservation
        \<and> kss_observedAt snapshot = prs_keysetObservedAt reservation
        \<and> (\<exists>n. (\<exists>ks. list_all2 (\<lambda>p k. k \<in> set (kss_keysets snapshot)
                \<and> usableFor (prs_unit reservation) evaluatedAt p k) (prs_proofReferences reservation) ks
              \<and> n = 0 + sum_list (map kse_inputFeePpk ks))
            \<and> (n + 999) div 1000 = fee)
        \<and> fee \<le> MAX_SAFE_INTEGER \<and> mq_amount quote + fee = prs_grossAmount reservation)"
    by (intro ex_cong1 conj_cong refl) (simp only: sumFeePpk_iff [OF lookup])
  finally show ?thesis unfolding ceiling_fee by auto
qed

section \<open>A deployment\<close>

text \<open>
  The payment of the example with two proofs of 100 and 1 whose keyset charges 300 thousandths each,
  so the fee is 1; the digest is a fixed one.  The operator answers the one request.
\<close>

definition exDispatchEnv :: cashu_env where
  "exDispatchEnv = exEnv\<lparr>env_sha256 := (\<lambda>_. replicate 64 CHR ''d'')\<rparr>"

definition exY2 :: string where
  "exY2 = ''03'' @ replicate 64 CHR ''a''"

definition exKeysetId :: string where
  "exKeysetId = ''0000000000000001''"

definition exReserved :: proof_reservation where
  "exReserved = \<lparr>prs_invoiceId = ''i1'', prs_keysetObservedAt = 15, prs_mintUrl = ''https:m'',
     prs_operatorId = ''o1'', prs_paymentId = ''p1'',
     prs_proofReferences = [\<lparr>pr_amount = 100, pr_keysetId = exKeysetId, pr_y = exY\<rparr>,
       \<lparr>pr_amount = 1, pr_keysetId = exKeysetId, pr_y = exY2\<rparr>],
     prs_reservedAt = 20, prs_unit = ''usdc'', prs_grossAmount = 101, prs_schemaVersion = 1\<rparr>"

definition exKeysets :: keyset_snapshot_input where
  "exKeysets = \<lparr>kssi_keysets = [\<lparr>ksi_active = True, ksi_finalExpiry = None, ksi_id = exKeysetId,
       ksi_inputFeePpk = Some 300, ksi_keys = [(''1'', exY), (''100'', exY)], ksi_unit = ''usdc''\<rparr>],
     kssi_mintUrl = ''https:m'', kssi_observedAt = 15, kssi_schemaVersion = Some 1\<rparr>"

definition exDispatchQuote :: melt_quote where
  "exDispatchQuote = \<lparr>mq_amount = 100, mq_expiry = 90, mq_feeReserve = 0, mq_method = ''stellar'',
     mq_mintUrl = ''https:m'', mq_observedAt = 30, mq_quoteId = exQuoteId, mq_request = ''web+pay'',
     mq_schemaVersion = 1, mq_state = Quote_unpaid, mq_unit = ''usdc''\<rparr>"

definition exQuoted :: melt_attempt where
  "exQuoted = \<lparr>mat_attemptId = ''a1'', mat_invoiceId = ''i1'', mat_mintUrl = ''https:m'',
     mat_operatorId = ''o1'', mat_paymentId = ''p1'', mat_request = \<lparr>qr_amount = 100,
       qr_method = ''stellar'', qr_request = ''web+pay'', qr_unit = ''usdc''\<rparr>,
     mat_schemaVersion = 1, mat_startedAt = 25,
     mat_body = Attempt_quoted exDispatchQuote [exDispatchQuote]\<rparr>"

definition exInputs :: "bearer_proof list" where
  "exInputs =
     [\<lparr>bp_amount = 100, bp_keysetId = exKeysetId, bp_secret = ''s'', bp_signature = exY, bp_y = exY\<rparr>,
      \<lparr>bp_amount = 1, bp_keysetId = exKeysetId, bp_secret = ''t'', bp_signature = exY, bp_y = exY2\<rparr>]"

definition exBundle :: bearer_bundle where
  "exBundle = \<lparr>bb_invoiceId = ''i1'', bb_mintUrl = ''https:m'', bb_unit = ''usdc'',
     bb_plaintext = Some exInputs\<rparr>"

definition exUndispatched :: lifecycle where
  "exUndispatched = \<lparr>lc_effect = None, lc_events = [], lc_paymentId = ''p1'', lc_schemaVersion = 1,
     lc_state = Reserved\<rparr>"

definition exAnswer :: "string \<Rightarrow> http_response" where
  "exAnswer st = \<lparr>hr_redirected = False, hr_url = [], hr_ok = True, hr_contentLength = None,
     hr_body = Some [Chunk 10], hr_json = Some (Json_object
       [(''amount'', Json_number 100), (''expiry'', Json_number 90),
        (''fee_reserve'', Json_number 0), (''method'', Json_string ''stellar''),
        (''quote'', Json_string exQuoteId), (''request'', Json_string ''web+pay''),
        (''state'', Json_string st), (''unit'', Json_string ''usdc'')])\<rparr>"

definition exDispatchDeps :: "(unit + http_response) \<Rightarrow> 'w dispatch_deps" where
  "exDispatchDeps answer = \<lparr>dd_now = (\<lambda>w. (w, Inr 40)), dd_aborted = (\<lambda>_. False),
     dd_findReservation = (\<lambda>_ w. (w, Inr (Some exReserved))),
     dd_findLifecycle = (\<lambda>_ w. (w, Inr (Some exUndispatched))),
     dd_findQuote = (\<lambda>_ w. (w, Inr (Some exQuoted))),
     dd_findKeysets = (\<lambda>_ w. (w, Inr (Some exKeysets))),
     dd_retrieveBundle = (\<lambda>_ w. (w, Inr (Some exBundle))),
     dd_startEffect = (\<lambda>_ w. (w, Inr (exChange [] Dispatch_started))),
     dd_observe = (\<lambda>_ w. (w, Inr exQuoted)),
     dd_recordPending = (\<lambda>_ w. (w, Inr (exChange [] Pending))),
     dd_requireAttention = (\<lambda>_ w. (w, Inr (exChange [] Needs_attention))),
     dd_clientNow = (\<lambda>w. (w, Inr 40)), dd_timedOut = (\<lambda>_. False),
     dd_fetch = (\<lambda>_ w. (w, answer))\<rparr>"

definition exDispatchConfig :: dispatch_config where
  "exDispatchConfig = \<lparr>dc_env = exDispatchEnv, dc_executors =
     [(''https:m'', \<lparr>cl_mintUrl = ''https:m'', cl_maxResponseBytes = 65536\<rparr>)]\<rparr>"

abbreviation exDispatchRun :: "(unit + http_response)
    \<Rightarrow> (dispatch_call list \<times> unit) \<times> (dispatch_failure + dispatch_result)" where
  "exDispatchRun answer \<equiv> dispatch exDispatchConfig (exDispatchDeps answer) ''p1'' ([], ())"

fun isPost :: "dispatch_call \<Rightarrow> bool" where
  "isPost (Melt_posted _ _) = True"
| "isPost _ = False"

fun isFresh :: "dispatch_call \<Rightarrow> bool" where
  "isFresh (Effect_started _ (Inr ch)) = (\<not> ch_replayed ch)"
| "isFresh _ = False"

lemma isPost_iff: "isPost c \<longleftrightarrow> (\<exists>rq a. c = Melt_posted rq a)"
  by (cases c) auto

lemma isFresh_iff: "isFresh c \<longleftrightarrow> (\<exists>i ch. c = Effect_started i (Inr ch) \<and> \<not> ch_replayed ch)"
  by (cases c rule: isFresh.cases) auto

lemma exDispatched_run: "dispatch exDispatchConfig (exDispatchDeps answer) ''p1'' ([], ())
    = (([] @ fst (fst (exDispatchRun answer)), ()), snd (exDispatchRun answer))"
  by (simp add: prod_eq_iff)

text \<open>The parts of the dispatch, evaluated one by one.\<close>

definition exSnapshotV1 :: keyset_snapshot where
  "exSnapshotV1 = \<lparr>kss_keysets = [\<lparr>kse_active = True, kse_finalExpiry = None, kse_id = exKeysetId,
       kse_inputFeePpk = 300, kse_keys = [(''1'', exY), (''100'', exY)], kse_unit = ''usdc''\<rparr>],
     kss_mintUrl = ''https:m'', kss_observedAt = 15, kss_schemaVersion = 1\<rparr>"

definition exIds :: coordination_ids where
  "exIds = \<lparr>cid_fingerprint = replicate 64 CHR ''d'',
     cid_effectId = ''stellar-melt:'' @ replicate 64 CHR ''d'',
     cid_pendingEventId = ''stellar-melt-pending:'' @ replicate 64 CHR ''d'',
     cid_startEventId = ''stellar-melt-start:'' @ replicate 64 CHR ''d''\<rparr>"

definition exAuthority :: melt_dispatch where
  "exAuthority = \<lparr>dp_dispatchFingerprint = replicate 64 CHR ''d'', dp_expiresAt = 90,
     dp_method = ''stellar'', dp_mintUrl = ''https:m'', dp_quoteId = exQuoteId, dp_schemaVersion = 1\<rparr>"

definition exPaidQuote :: melt_quote where
  "exPaidQuote = exDispatchQuote\<lparr>mq_observedAt := 40, mq_state := Quote_paid\<rparr>"

lemma exReserved_valid: "validateReservedProofs exDispatchEnv exReserved ''p1'' = Inr exReserved"
  by code_simp

lemma exKeysets_valid:
  "createCashuKeysetSnapshotV1 exDispatchEnv exKeysets = Inr exSnapshotV1"
  by code_simp

lemma exQuoted_valid: "requireDispatchableQuote exDispatchEnv exQuoted exReserved 40 = Inr exDispatchQuote"
  by code_simp

lemma exFee:
  "deriveInputFee exDispatchEnv exReserved (keysetSnapshotInput exSnapshotV1) exDispatchQuote 40 = Inr 1"
  by code_simp

lemma exIds_valid: "coordinationIds exDispatchEnv exReserved exDispatchQuote = Inr exIds"
  by code_simp

lemma exExecution_valid:
  "validateExecutionInput exDispatchEnv \<lparr>xi_bearerProofs = exBundle, xi_inputFee = 1,
       xi_quote = quoteInput exDispatchQuote\<rparr> ''https:m''
     = Inr \<lparr>ve_bearerProofs = exBundle, ve_inputFee = 1, ve_quote = exDispatchQuote\<rparr>"
  by code_simp

lemma exExecution_steps:
  "requireExecutableQuote exDispatchQuote 40 = Inr ()"
  "requireExactInputAmount exInputs 100 1 = Inr ()"
  "validateDispatchAuthority exDispatchEnv exAuthority exDispatchQuote ''https:m'' = Inr ()"
  "cashuOperatorDispatchFingerprint (replicate 64 CHR ''d'') = Inr (replicate 64 CHR ''d'')"
  "identifierOf exQuoteId = Inr exQuoteId" "identifierOf ''p1'' = Inr ''p1''"
  by code_simp+

lemma exAnswer_accepted:
  "acceptResponse 65536 endpoint (exAnswer st) = Inr (the (hr_json (exAnswer st)))"
  by (simp add: acceptResponse_def readBoundedResponseBody_def exAnswer_def)

lemma exAnswer_paid:
  "parseCashuStellarMeltQuoteResponse exDispatchEnv (the (hr_json (exAnswer ''PAID''))) ''https:m'' 40
     = Inr exPaidQuote"
  by code_simp

lemma exAuthority_created: "createDispatch exDispatchEnv exDispatchQuote endpoint body = exAuthority"
  by (simp add: createDispatch_def dispatchFingerprint_def exDispatchEnv_def exAuthority_def
      exDispatchQuote_def CASHU_STELLAR_METHOD_def CASHU_STELLAR_MELT_DISPATCH_SCHEMA_VERSION_def)

lemma exAuthority_matched:
  "executionMatchesAuthority exDispatchEnv \<lparr>xr_dispatch = exAuthority, xr_quote = exPaidQuote\<rparr>
     exAuthority exDispatchQuote"
  by code_simp

definition exContext :: dispatch_context where
  "exContext = \<lparr>dx_paymentId = ''p1'', dx_reservation = exReserved, dx_attempt = exQuoted,
     dx_quote = exDispatchQuote, dx_snapshot = exSnapshotV1, dx_inputFee = 1, dx_ids = exIds\<rparr>"

lemma exContext_sel [simp]:
  "dx_paymentId exContext = ''p1''" "dx_reservation exContext = exReserved"
  "dx_attempt exContext = exQuoted" "dx_quote exContext = exDispatchQuote"
  "dx_snapshot exContext = exSnapshotV1" "dx_inputFee exContext = 1" "dx_ids exContext = exIds"
  by (simp_all add: exContext_def)

lemmas exDispatch_evaluated =
  exReserved_valid exKeysets_valid exQuoted_valid exFee exIds_valid exExecution_valid
  exExecution_steps exAnswer_accepted exAnswer_paid exAuthority_created exAuthority_matched

lemma exDispatchDeps_sel [simp]:
  "dd_now (exDispatchDeps answer) = (\<lambda>w. (w, Inr 40))"
  "dd_aborted (exDispatchDeps answer) w = False"
  "dd_findReservation (exDispatchDeps answer) pid = (\<lambda>w. (w, Inr (Some exReserved)))"
  "dd_findLifecycle (exDispatchDeps answer) pid = (\<lambda>w. (w, Inr (Some exUndispatched)))"
  "dd_findQuote (exDispatchDeps answer) pid = (\<lambda>w. (w, Inr (Some exQuoted)))"
  "dd_findKeysets (exDispatchDeps answer) q = (\<lambda>w. (w, Inr (Some exKeysets)))"
  "dd_retrieveBundle (exDispatchDeps answer) pid = (\<lambda>w. (w, Inr (Some exBundle)))"
  "dd_startEffect (exDispatchDeps answer) i = (\<lambda>w. (w, Inr (exChange [] Dispatch_started)))"
  "dd_observe (exDispatchDeps answer) x = (\<lambda>w. (w, Inr exQuoted))"
  "dd_clientNow (exDispatchDeps answer) = (\<lambda>w. (w, Inr 40))"
  "dd_timedOut (exDispatchDeps answer) w = False"
  "dd_fetch (exDispatchDeps answer) rq = (\<lambda>w. (w, answer))"
  by (simp_all add: exDispatchDeps_def)

lemma exQuote_sel:
  "mq_amount exDispatchQuote = 100" "mq_expiry exDispatchQuote = 90"
  "mq_quoteId exDispatchQuote = exQuoteId" "mq_observedAt exPaidQuote = 40"
  "mq_state exPaidQuote = Quote_paid" "prs_mintUrl exReserved = ''https:m''"
  "cashuStellarMeltQuoteTermsMatch exDispatchQuote exPaidQuote"
  "dp_dispatchFingerprint exAuthority = replicate 64 CHR ''d''"
  by (simp_all add: exDispatchQuote_def exPaidQuote_def exReserved_def exAuthority_def
      cashuStellarMeltQuoteTermsMatch_def)

definition exClient :: client where
  "exClient = \<lparr>cl_mintUrl = ''https:m'', cl_maxResponseBytes = 65536\<rparr>"

lemma exAuthorized:
  "authorizeDispatch exDispatchEnv (exDispatchDeps answer) exContext exAuthority (log, ((), noVars))
     = ((log @ [Effect_started (effectInputOf exContext exAuthority 40)
           (Inr (exChange [] Dispatch_started))],
         ((), noVars\<lparr>dv_fresh := Some (exLifecycle [] Dispatch_started),
                     dv_authorized := Some exAuthority\<rparr>)), Inr True)"
  by (simp add: authorizeDispatch_def startDispatchEffect_def dispatchClock_def act_simps
      exDispatch_evaluated exQuote_sel exChange_def validTimestamp_def MAX_SAFE_INTEGER_def)

lemma exExecuted:
  "runExecution exDispatchEnv (exDispatchDeps (Inr (exAnswer ''PAID''))) exClient exContext
       (log, ((), noVars))
     = ((log @ [Effect_started (effectInputOf exContext exAuthority 40)
           (Inr (exChange [] Dispatch_started)),
          Melt_posted (executionRequest exClient (executionBody exDispatchQuote
             exInputs)) (Inr (exAnswer ''PAID''))],
         ((), noVars\<lparr>dv_fresh := Some (exLifecycle [] Dispatch_started),
                     dv_authorized := Some exAuthority\<rparr>)),
        Inr (Some \<lparr>xr_dispatch = exAuthority, xr_quote = exPaidQuote\<rparr>))"
proof -
  have inputs: "meltInputs exBundle = Some exInputs"
    by (simp add: meltInputs_def exBundle_def)
  have client: "cl_mintUrl exClient = ''https:m''" "cl_maxResponseBytes exClient = 65536"
    by (simp_all add: exClient_def)
  show ?thesis
    by (subst executionRequest_def)
      (simp add: runExecution_def withDecryptedBundle_def execute_def sendExecution_def
        acceptExecution_def requestJson_def readClientClock_def whenA_def act_simps
        exDispatch_evaluated exQuote_sel client inputs exAuthorized validTimestamp_def
        MAX_SAFE_INTEGER_def Let_def)
qed

lemma exConfig_sel:
  "dc_env exDispatchConfig = exDispatchEnv"
  "map_of (dc_executors exDispatchConfig) ''https:m'' = Some exClient"
  by (simp_all add: exDispatchConfig_def exClient_def)

definition exCalls :: "dispatch_call list" where
  "exCalls =
     [Effect_started (effectInputOf exContext exAuthority 40) (Inr (exChange [] Dispatch_started)),
      Melt_posted (executionRequest exClient (executionBody exDispatchQuote exInputs))
        (Inr (exAnswer ''PAID'')),
      Execution_stored \<lparr>qti_attemptId = ''a1'', qti_paymentId = ''p1'', qti_quote = exPaidQuote\<rparr>
        (Inr exQuoted)]"

definition exResult :: dispatch_result where
  "exResult = \<lparr>ds_lifecycle = exLifecycle [] Dispatch_started, ds_paymentId = ''p1'',
     ds_state = Operator_paid_observed 40\<rparr>"

lemma exRun_evaluated:
  "dispatch exDispatchConfig (exDispatchDeps (Inr (exAnswer ''PAID''))) ''p1'' ([], ())
     = (([] @ exCalls, ()), Inr exResult)"
proof -
  have undispatched: "lc_state exUndispatched = Reserved" "lc_effect exUndispatched = None"
      "lc_paymentId exUndispatched = ''p1''"
    by (simp_all add: exUndispatched_def)
  have effect: "lc_effect (exLifecycle [] Dispatch_started) \<noteq> None"
      "oe_kind (the (lc_effect (exLifecycle [] Dispatch_started))) = Melt exQuoteId 90"
      "oe_startedAt (the (lc_effect (exLifecycle [] Dispatch_started))) = 40"
    by (simp_all add: exLifecycle_def)
  then obtain e where e: "lc_effect (exLifecycle [] Dispatch_started) = Some e"
      "oe_kind e = Melt exQuoteId 90" "oe_startedAt e = 40" by auto
  have none: "dv_fresh noVars = None" "dv_replayed noVars = None" "dv_authorized noVars = None"
    "mat_attemptId exQuoted = ''a1''"
    by (simp_all add: noVars_def exQuoted_def)
  show ?thesis
    by (simp add: dispatch_def dispatchRequested_def dispatchReserved_def loadDispatchReservation_def
        loadDispatchLifecycle_def loadQuoteAttempt_def loadExactKeysetSnapshot_def dispatchClock_def
        act_simps exDispatch_evaluated exQuote_sel exConfig_sel undispatched validTimestamp_def
        MAX_SAFE_INTEGER_def exContext_def [symmetric] exExecuted afterExecution_def
        recordExecution_def e none Let_def exCalls_def exResult_def)
qed

theorem request_only_on_fresh_effect_witness:
  "\<exists>i reservation. storedReservation exDispatchEnv
       (exDispatchDeps (Inr (exAnswer ''PAID'')) :: unit dispatch_deps) ''p1'' reservation
     \<and> spends exDispatchConfig reservation i
         (executionRequest exClient (executionBody exDispatchQuote exInputs))"
proof -
  have "Melt_posted (executionRequest exClient (executionBody exDispatchQuote exInputs))
        (Inr (exAnswer ''PAID'')) \<in> set exCalls" by (simp add: exCalls_def)
  from request_only_on_fresh_effect [OF exRun_evaluated this] show ?thesis
    unfolding exConfig_sel by blast
qed

theorem started_effect_is_concluded_witness:
  "\<exists>quote rest. observedAs ''p1'' (exLifecycle [] Dispatch_started) quote rest exResult"
proof -
  have "Effect_started (effectInputOf exContext exAuthority 40) (Inr (exChange [] Dispatch_started))
        \<in> set exCalls" "\<not> ch_replayed (exChange [] Dispatch_started)"
      "ch_lifecycle (exChange [] Dispatch_started) = exLifecycle [] Dispatch_started"
    by (simp_all add: exCalls_def exChange_def)
  with started_effect_is_concluded [OF exRun_evaluated this(1,2)] show ?thesis
    by (auto simp: exResult_def)
qed

abbreviation exRefused :: "(dispatch_call list \<times> unit) \<times> (dispatch_failure + dispatch_result)" where
  "exRefused \<equiv> dispatch exDispatchConfig (exDispatchDeps (Inl ())) [] ([], ())"

theorem refused_dispatch_writes_nothing_witness: "fst (fst exRefused) = []"
proof -
  have "snd exRefused = Inl (Dispatch_error MC_invalid_request)"
    by (simp add: dispatch_def act_simps identifierOf_def assertIdentifier_def throwIf_def)
  then have run: "dispatch exDispatchConfig (exDispatchDeps (Inl ())) [] ([], ())
      = ((fst (fst exRefused), snd (fst exRefused)), Inl (Dispatch_error MC_invalid_request))"
    by (simp only: prod_eq_iff fst_conv snd_conv simp_thms)
  show ?thesis by (rule refused_dispatch_writes_nothing [OF run]) (simp add: lateError_def)
qed

end
