(* ===== verification/Dispatch_Store.thy ===== *)
theory Dispatch_Store
  imports Dispatch_Properties Lifecycle_Runs
begin

text \<open>
  The dispatch on the PostgreSQL lifecycle repository: however often and by however many processes a
  payment is dispatched, its operator gets one request.  The log of an action is related to the
  world before and after it by a relation that composes (\<open>trace_relation\<close>).
\<close>

section \<open>Logs related to the world\<close>

locale trace_relation =
  fixes R :: "'w \<Rightarrow> 'c list \<Rightarrow> 'w \<Rightarrow> bool"
  assumes still: "R w [] w"
    and follows: "R w as u \<Longrightarrow> R u bs v \<Longrightarrow> R w (as @ bs) v"
begin

definition tracks :: "('c list \<times> 'w, 'e, 'a) act \<Rightarrow> bool" where
  "tracks m \<longleftrightarrow> (\<forall>log w log' w' r. m (log, w) = ((log', w'), r) \<longrightarrow> (\<exists>new. log' = log @ new \<and> R w new w'))"

definition tracksV :: "('c list \<times> ('w \<times> 'v), 'e, 'a) act \<Rightarrow> bool" where
  "tracksV m \<longleftrightarrow> (\<forall>log w v log' w' v' r. m (log, (w, v)) = ((log', (w', v')), r)
     \<longrightarrow> (\<exists>new. log' = log @ new \<and> R w new w'))"

definition steps :: "('w \<Rightarrow> 'w \<times> 'r) \<Rightarrow> bool" where
  "steps dep \<longleftrightarrow> (\<forall>w. R w [] (fst (dep w)))"

definition stepsAs :: "('r \<Rightarrow> 'c) \<Rightarrow> ('w \<Rightarrow> 'w \<times> 'r) \<Rightarrow> bool" where
  "stepsAs event dep \<longleftrightarrow> (\<forall>w. R w [event (snd (dep w))] (fst (dep w)))"

lemma stepsD: "steps dep \<Longrightarrow> dep w = (u, r) \<Longrightarrow> R w [] u"
  unfolding steps_def by (metis fst_conv)

lemma stepsAsD: "stepsAs event dep \<Longrightarrow> dep w = (u, r) \<Longrightarrow> R w [event r] u"
  unfolding stepsAs_def by (metis fst_conv snd_conv)

lemma tracksD: "tracks m \<Longrightarrow> m (log, w) = ((log', w'), r) \<Longrightarrow> \<exists>new. log' = log @ new \<and> R w new w'"
  unfolding tracks_def by blast

lemma tracksVD:
  "tracksV m \<Longrightarrow> m (log, (w, v)) = ((log', (w', v')), r) \<Longrightarrow> \<exists>new. log' = log @ new \<and> R w new w'"
  unfolding tracksV_def by blast

lemma tracks_atoms [intro!]:
  "tracks (doneA x)" "tracks (failA e)" "tracks (pureA r)" "tracks (askA f)"
  by (auto simp: tracks_def act_simps still)

lemma tracks_call [intro!]: "steps dep \<Longrightarrow> tracks (callA dep)"
  by (auto simp: tracks_def act_simps dest: stepsD split: prod.splits)

lemma tracks_logged [intro!]: "stepsAs event dep \<Longrightarrow> tracks (loggedA event dep)"
  by (auto simp: tracks_def act_simps dest: stepsAsD split: prod.splits)

lemma tracks_either [intro!]:
  assumes "tracks m" and "\<And>e. tracks (h e)" and "\<And>x. tracks (k x)"
  shows "tracks (eitherA m h k)"
  unfolding tracks_def
proof (intro allI impI)
  fix log w log' w' r
  assume run: "eitherA m h k (log, w) = ((log', w'), r)"
  obtain log1 w1 r1 where m: "m (log, w) = ((log1, w1), r1)" by (metis prod.collapse)
  then obtain before where before: "log1 = log @ before" "R w before w1"
    using tracksD [OF assms(1)] by blast
  have "\<exists>after. log' = log1 @ after \<and> R w1 after w'"
    using run m tracksD [OF assms(2)] tracksD [OF assms(3)] by (cases r1) (auto simp: act_simps)
  with before follows show "\<exists>new. log' = log @ new \<and> R w new w'" by fastforce
qed

lemma tracks_then [intro!]: "tracks m \<Longrightarrow> (\<And>x. tracks (k x)) \<Longrightarrow> tracks (thenA m k)"
  unfolding thenA_def by blast

lemma tracks_mapError [intro!]: "tracks m \<Longrightarrow> tracks (mapErrorA f m)"
  unfolding mapErrorA_def by blast

lemma tracksV_atoms [intro!]:
  "tracksV (doneA x)" "tracksV (failA e)" "tracksV (pureA r)" "tracksV (askA f)"
  "tracksV (assignA g)"
  by (auto simp: tracksV_def act_simps still)

lemma tracksV_call [intro!]: "steps dep \<Longrightarrow> tracksV (callA (withVars dep))"
  by (auto simp: tracksV_def act_simps dest: stepsD split: prod.splits)

lemma tracksV_logged [intro!]: "stepsAs event dep \<Longrightarrow> tracksV (loggedA event (withVars dep))"
  by (auto simp: tracksV_def act_simps dest: stepsAsD split: prod.splits)

lemma tracksV_either [intro!]:
  assumes "tracksV m" and "\<And>e. tracksV (h e)" and "\<And>x. tracksV (k x)"
  shows "tracksV (eitherA m h k)"
  unfolding tracksV_def
proof (intro allI impI)
  fix log w v log' w' v' r
  assume run: "eitherA m h k (log, (w, v)) = ((log', (w', v')), r)"
  obtain log1 w1 v1 r1 where m: "m (log, (w, v)) = ((log1, (w1, v1)), r1)" by (metis prod.collapse)
  then obtain before where before: "log1 = log @ before" "R w before w1"
    using tracksVD [OF assms(1)] by blast
  have "\<exists>after. log' = log1 @ after \<and> R w1 after w'"
    using run m tracksVD [OF assms(2)] tracksVD [OF assms(3)] by (cases r1) (auto simp: act_simps)
  with before follows show "\<exists>new. log' = log @ new \<and> R w new w'" by fastforce
qed

lemma tracksV_then [intro!]: "tracksV m \<Longrightarrow> (\<And>x. tracksV (k x)) \<Longrightarrow> tracksV (thenA m k)"
  unfolding thenA_def by blast

lemma tracksV_mapError [intro!]: "tracksV m \<Longrightarrow> tracksV (mapErrorA f m)"
  unfolding mapErrorA_def by blast

lemma tracksV_when [intro!]: "tracksV yes \<Longrightarrow> tracksV no \<Longrightarrow> tracksV (whenA (askA f) yes no)"
  unfolding whenA_def by auto

lemma tracks_local: "tracksV m \<Longrightarrow> tracks (localA v m)"
  by (auto simp: tracks_def act_simps dest: tracksVD split: prod.splits)

end

section \<open>One effect for each payment\<close>

definition hasEffect :: "string \<Rightarrow> db \<times> 'o \<Rightarrow> bool" where
  "hasEffect pid w \<longleftrightarrow> (\<exists>e \<in> set (db_effects (fst w)). ef_payment_id e = pid)"

fun startedFresh :: "string \<Rightarrow> dispatch_call \<Rightarrow> bool" where
  "startedFresh pid (Effect_started i (Inr ch)) = (se_paymentId i = pid \<and> \<not> ch_replayed ch)"
| "startedFresh pid _ = False"

text \<open>Effects stay, and a fresh one was not there before.\<close>

definition effectOnce :: "string \<Rightarrow> db \<times> 'o \<Rightarrow> dispatch_call list \<Rightarrow> db \<times> 'o \<Rightarrow> bool" where
  "effectOnce pid w new w' \<longleftrightarrow> (hasEffect pid w \<longrightarrow> hasEffect pid w')
     \<and> (list_ex (startedFresh pid) new \<longrightarrow> \<not> hasEffect pid w \<and> hasEffect pid w')"

interpretation once: trace_relation "effectOnce pid" for pid
  by unfold_locales (auto simp: effectOnce_def)

section \<open>The dependencies\<close>

text \<open>
  The lifecycle repository of the dispatch is the PostgreSQL one, in a world that holds the database
  and the rest; the other dependencies are arbitrary.
\<close>

definition onDb :: "(db \<Rightarrow> 'e + db \<times> 'a) \<Rightarrow> db \<times> 'o \<Rightarrow> (db \<times> 'o) \<times> (unit + 'a)" where
  "onDb operation = (\<lambda>(db, others).
     case operation db of
       Inl _ \<Rightarrow> ((db, others), Inl ())
     | Inr (db', x) \<Rightarrow> ((db', others), Inr x))"

definition withLifecycleStore ::
  "cashu_env \<Rightarrow> (db \<times> 'o) dispatch_deps \<Rightarrow> (db \<times> 'o) dispatch_deps" where
  "withLifecycleStore env deps = deps
     \<lparr>dd_findLifecycle := (\<lambda>pid. onDb (\<lambda>db. bindR (findByPaymentId env pid db) (\<lambda>l. Inr (db, l)))),
      dd_startEffect := (\<lambda>i. onDb (startEffect env i)),
      dd_recordPending := (\<lambda>i. onDb (recordPending env i)),
      dd_requireAttention := (\<lambda>i. onDb (requireAttention env i))\<rparr>"

text \<open>What the other dependencies, and the processes that run meanwhile, leave alone.\<close>

definition keepsEffect :: "string \<Rightarrow> (db \<times> 'o \<Rightarrow> (db \<times> 'o) \<times> 'r) \<Rightarrow> bool" where
  "keepsEffect pid dep \<longleftrightarrow> (\<forall>w. hasEffect pid w \<longrightarrow> hasEffect pid (fst (dep w)))"

definition keepsEffects :: "string \<Rightarrow> (db \<times> 'o) dispatch_deps \<Rightarrow> bool" where
  "keepsEffects pid deps \<longleftrightarrow> keepsEffect pid (dd_now deps) \<and> keepsEffect pid (dd_clientNow deps)
     \<and> (\<forall>x. keepsEffect pid (dd_findReservation deps x)) \<and> (\<forall>x. keepsEffect pid (dd_findQuote deps x))
     \<and> (\<forall>x. keepsEffect pid (dd_findKeysets deps x)) \<and> (\<forall>x. keepsEffect pid (dd_retrieveBundle deps x))
     \<and> (\<forall>x. keepsEffect pid (dd_observe deps x)) \<and> (\<forall>x. keepsEffect pid (dd_fetch deps x))"

lemma command_keeps_effects:
  assumes "runCommand env command db = Inr (db', change)" and "e \<in> set (db_effects db)"
  shows "e \<in> set (db_effects db')"
  using command_step_cases [OF assms(1)] assms(2) by (auto simp: tablesGrow_def effectsGrow_def)

lemma onDb_command:
  assumes "operation = runCommand env command"
  shows "keepsEffect pid (onDb operation)"
  using command_keeps_effects [of env command]
  by (auto simp: keepsEffect_def hasEffect_def onDb_def assms split: sum.split prod.split)

lemma startEffect_once:
  assumes "startEffect env i db = Inr (db', ch)" and "\<not> ch_replayed ch"
  shows "(\<forall>e \<in> set (db_effects db). ef_payment_id e \<noteq> se_paymentId i)
     \<and> (\<exists>e \<in> set (db_effects db'). ef_payment_id e = se_paymentId i)"
proof -
  obtain v after where v: "validateStartEffect i = Inr v" "startEffectIn env v db = Inr (after, ch)"
      "db' = after\<lparr>db_deferred := []\<rparr>"
    using assms(1) by (auto simp: startEffect_iff)
  from startEffectIn_fresh [OF v(2) assms(2)] obtain scope where s:
      "requireReservation env db (vs_paymentId v) True = Inr scope"
      "lifecycleView after = (lifecycleView db)
        \<lparr>db_events := db_events db @ [eventRowOf env (dispatchDraft v scope) 0],
         db_effects := db_effects db @ [effectRowOf env scope (effectOfInput v)],
         db_invoiceClaims := db_invoiceClaims db @ [\<lparr>ic_invoice_id = sc_invoiceId scope,
            ic_payment_id = sc_paymentId scope, ic_effect_id = vs_effectId v\<rparr>]\<rparr>"
      "\<forall>e \<in> set (db_effects db). ef_payment_id e \<noteq> sc_paymentId scope \<and> ef_effect_id e \<noteq> vs_effectId v"
    by blast
  have pid: "sc_paymentId scope = se_paymentId i"
    using s(1) loadReservation_scope validateStartEffect_ids [OF v(1)]
    by (auto simp: requireReservation_Inr)
  have "ef_payment_id (effectRowOf env scope (effectOfInput v)) = sc_paymentId scope"
    by (simp add: effectRowOf_def)
  with viewD(2) [OF s(2)] s(3) pid v(3) show ?thesis by auto
qed

lemma startEffect_tracked:
  "once.stepsAs pid (Effect_started i) (onDb (startEffect env i))"
  unfolding once.stepsAs_def effectOnce_def
proof (intro allI conjI impI)
  fix w :: "db \<times> 'o"
  have "keepsEffect pid (onDb (startEffect env i) :: db \<times> 'o \<Rightarrow> _)"
    by (rule onDb_command [of _ env "Start_effect i"]) (auto simp: runCommand_def)
  then show "hasEffect pid w \<Longrightarrow> hasEffect pid (fst (onDb (startEffect env i) w))"
    unfolding keepsEffect_def by blast
  assume "list_ex (startedFresh pid) [Effect_started i (snd (onDb (startEffect env i) w))]"
  then have "\<exists>db' ch. startEffect env i (fst w) = Inr (db', ch) \<and> \<not> ch_replayed ch \<and> se_paymentId i = pid"
    by (auto simp: onDb_def split: sum.splits prod.splits)
  then show "\<not> hasEffect pid w" "hasEffect pid (fst (onDb (startEffect env i) w))"
    using startEffect_once [of env i "fst w"]
    by (auto simp: hasEffect_def onDb_def split: prod.splits)
qed

text \<open>Any other call of a dependency that keeps the effects.\<close>

lemma kept_steps: "keepsEffect pid dep \<Longrightarrow> once.steps pid dep"
  by (simp add: once.steps_def keepsEffect_def effectOnce_def)

lemma kept_stepsAs:
  "keepsEffect pid dep \<Longrightarrow> (\<And>r. \<not> startedFresh pid (event r)) \<Longrightarrow> once.stepsAs pid event dep"
  by (simp add: once.stepsAs_def keepsEffect_def effectOnce_def)

section \<open>A dispatch on the store\<close>

abbreviation tracked :: "string \<Rightarrow> (dispatch_call list \<times> (db \<times> 'o), 'e, 'a) act \<Rightarrow> bool" where
  "tracked pid \<equiv> once.tracks pid"

definition storeDeps :: "string \<Rightarrow> (db \<times> 'o) dispatch_deps \<Rightarrow> bool" where
  "storeDeps pid deps \<longleftrightarrow> keepsEffects pid deps \<and> (\<forall>x. keepsEffect pid (dd_findLifecycle deps x))
     \<and> (\<forall>x. keepsEffect pid (dd_recordPending deps x))
     \<and> (\<forall>x. keepsEffect pid (dd_requireAttention deps x))
     \<and> (\<forall>i. once.stepsAs pid (Effect_started i) (dd_startEffect deps i))"

lemma withLifecycleStore_deps:
  fixes deps :: "(db \<times> 'o) dispatch_deps"
  assumes "keepsEffects pid deps"
  shows "storeDeps pid (withLifecycleStore env deps)"
proof -
  have "keepsEffect pid (onDb (\<lambda>db. bindR (f db) (\<lambda>l. Inr (db, l))) :: db \<times> 'o \<Rightarrow> _)"
    for f :: "db \<Rightarrow> 'e + 'a"
    by (auto simp: keepsEffect_def hasEffect_def onDb_def result_simps split: sum.split prod.split)
  then have "keepsEffect pid (onDb (\<lambda>db. bindR (findByPaymentId env x db) (\<lambda>l. Inr (db, l)))
      :: db \<times> 'o \<Rightarrow> _)" for x .
  moreover have "keepsEffect pid (onDb (recordPending env i) :: db \<times> 'o \<Rightarrow> _)" for i
    by (rule onDb_command [of _ env "Record_pending i"]) (auto simp: runCommand_def)
  moreover have "keepsEffect pid (onDb (requireAttention env i) :: db \<times> 'o \<Rightarrow> _)" for i
    by (rule onDb_command [of _ env "Require_attention i"]) (auto simp: runCommand_def)
  ultimately show ?thesis
    using assms
    by (simp add: storeDeps_def keepsEffects_def withLifecycleStore_def startEffect_tracked)
qed

lemmas dispatch_step_defs =
  dispatch_def dispatchRequested_def dispatchReserved_def loadDispatchReservation_def
  loadDispatchLifecycle_def loadQuoteAttempt_def loadExactKeysetSnapshot_def dispatchClock_def
  throwDispatch_def afterExecution_def recordExecution_def markAttention_def Let_def

lemmas execution_step_defs =
  runExecution_def withDecryptedBundle_def execute_def sendExecution_def acceptExecution_def
  requestJson_def transportFailure_def readClientClock_def throwClient_def authorizeDispatch_def
  startDispatchEffect_def dispatchClock_def Let_def

lemma dispatchClock_tracked: "keepsEffect pid clock \<Longrightarrow> once.tracks pid (dispatchClock clock)"
  unfolding dispatchClock_def by (auto intro: kept_steps)

lemma dispatchClock_trackedV:
  "keepsEffect pid clock \<Longrightarrow> once.tracksV pid (dispatchClock (withVars clock))"
  unfolding dispatchClock_def by (auto intro: kept_steps)

lemma authorizeDispatch_tracked:
  assumes "storeDeps pid deps"
  shows "once.tracksV pid (authorizeDispatch env deps ctx authority)"
  unfolding authorizeDispatch_def startDispatchEffect_def
  using assms
  by (auto simp: storeDeps_def keepsEffects_def intro!: dispatchClock_trackedV split: if_split)

lemma readClientClock_tracked:
  "keepsEffect pid (dd_clientNow deps) \<Longrightarrow> once.tracksV pid (readClientClock (clientDeps deps))"
  unfolding readClientClock_def throwClient_def clientDeps_sel by (auto intro: kept_steps)

lemma requestJson_tracked:
  assumes "storeDeps pid deps"
  shows "once.tracksV pid (requestJson client (clientDeps deps) rq)"
proof -
  have "once.stepsAs pid (Melt_posted rq) (dd_fetch deps rq)"
    using assms by (auto simp: storeDeps_def keepsEffects_def intro!: kept_stepsAs)
  then show ?thesis
    unfolding requestJson_def transportFailure_def throwClient_def clientDeps_sel
    by (auto split: sum.split)
qed

lemma runExecution_tracked:
  assumes "storeDeps pid deps"
  shows "once.tracksV pid (runExecution env deps client ctx)"
proof -
  have clock: "once.tracksV pid (readClientClock (clientDeps deps))"
    using assms by (auto simp: storeDeps_def keepsEffects_def intro!: readClientClock_tracked)
  have accept: "once.tracksV pid (acceptExecution env client (clientDeps deps) quote t authority v)"
    for quote t authority v
    unfolding acceptExecution_def throwClient_def by (auto intro!: clock)
  have send: "once.tracksV pid (sendExecution env client (clientDeps deps) quote t authority body)"
    for quote t authority body
    unfolding sendExecution_def throwClient_def clientDeps_sel
    by (auto intro!: clock accept requestJson_tracked [OF assms])
  have "once.tracksV pid (execute env client (clientDeps deps) (authorizeDispatch env deps ctx) input)"
    for input
    unfolding execute_def throwClient_def clientDeps_sel Let_def
    by (auto intro!: clock send authorizeDispatch_tracked [OF assms] split: option.split)
  moreover have "once.steps pid (dd_retrieveBundle deps x)" for x
    using assms by (auto simp: storeDeps_def keepsEffects_def intro!: kept_steps)
  ultimately show ?thesis
    unfolding runExecution_def withDecryptedBundle_def by (auto split: option.split)
qed

lemma markAttention_tracked:
  assumes "storeDeps pid deps"
  shows "once.tracks pid (markAttention deps ctx lifecycle reason)"
proof -
  have "once.stepsAs pid (Attention_marked i) (dd_requireAttention deps i)" for i
    using assms by (auto simp: storeDeps_def intro!: kept_stepsAs)
  then show ?thesis
    using assms unfolding markAttention_def throwDispatch_def Let_def
    by (auto simp: storeDeps_def keepsEffects_def intro!: dispatchClock_tracked
        split: option.split effect_kind.split sum.split)
qed

lemma recordExecution_tracked:
  assumes "storeDeps pid deps"
  shows "once.tracks pid (recordExecution deps ctx lifecycle execution)"
proof -
  have "once.stepsAs pid (Execution_stored i) (dd_observe deps i)" for i
    using assms by (auto simp: storeDeps_def keepsEffects_def intro!: kept_stepsAs)
  moreover have "once.stepsAs pid (Pending_marked j) (dd_recordPending deps j)" for j
    using assms by (auto simp: storeDeps_def intro!: kept_stepsAs)
  ultimately show ?thesis
    using assms unfolding recordExecution_def Let_def
    by (auto simp: storeDeps_def keepsEffects_def intro!: dispatchClock_tracked
        split: option.split melt_quote_state.split)
qed

lemma dispatchReserved_tracked:
  assumes "storeDeps pid deps"
  shows "once.tracks pid (dispatchReserved config deps requested t reservation)"
proof -
  have kept: "once.steps pid (dd_findQuote deps x)" "once.steps pid (dd_findKeysets deps q)" for x q
    using assms by (auto simp: storeDeps_def keepsEffects_def intro!: kept_steps)
  have after: "once.tracks pid (afterExecution env deps ctx vars outcome)" for env ctx vars outcome
    unfolding afterExecution_def throwDispatch_def
    by (auto intro!: markAttention_tracked [OF assms] recordExecution_tracked [OF assms]
        split: option.split sum.split)
  have "once.tracks pid (loadQuoteAttempt deps x)" for x
    unfolding loadQuoteAttempt_def throwDispatch_def by (auto intro: kept split: option.split)
  moreover have "once.tracks pid (loadExactKeysetSnapshot env deps r)" for env r
    unfolding loadExactKeysetSnapshot_def throwDispatch_def by (auto intro: kept split: option.split)
  ultimately show ?thesis
    unfolding dispatchReserved_def throwDispatch_def Let_def
    by (auto intro!: once.tracks_local runExecution_tracked [OF assms] after
        split: option.split prod.split)
qed

lemma dispatch_tracked:
  assumes "storeDeps pid deps"
  shows "once.tracks pid (dispatch config deps requested)"
proof -
  have kept: "once.steps pid (dd_findReservation deps x)" "once.steps pid (dd_findLifecycle deps x)" for x
    using assms by (auto simp: storeDeps_def keepsEffects_def intro!: kept_steps)
  have "once.tracks pid (loadDispatchReservation env deps x)" for env x
    unfolding loadDispatchReservation_def throwDispatch_def by (auto intro: kept split: option.split)
  moreover have "once.tracks pid (loadDispatchLifecycle deps x)" for x
    unfolding loadDispatchLifecycle_def throwDispatch_def by (auto intro: kept split: option.split)
  moreover have "once.tracks pid (dispatchClock (dd_now deps))"
    using assms by (auto simp: storeDeps_def keepsEffects_def intro!: dispatchClock_tracked)
  ultimately show ?thesis
    unfolding dispatch_def dispatchRequested_def throwDispatch_def
    by (auto intro!: dispatchReserved_tracked [OF assms])
qed

section \<open>One request for each payment\<close>

text \<open>Dispatches of one payment, each with dependencies of its own, one after the other.\<close>

fun dispatchAll ::
  "dispatch_config \<Rightarrow> string \<Rightarrow> 'w dispatch_deps list \<Rightarrow> dispatch_call list \<times> 'w
     \<Rightarrow> dispatch_call list \<times> 'w" where
  "dispatchAll config pid [] s = s"
| "dispatchAll config pid (deps # rest) s =
     dispatchAll config pid rest (fst (dispatch config deps pid s))"

lemma dispatch_posts:
  assumes "storeDeps pid deps" and run: "dispatch config deps pid (log, w) = ((log', w'), r)"
  shows "\<exists>new. log' = log @ new \<and> (hasEffect pid w \<longrightarrow> hasEffect pid w')
     \<and> (filter isPost new = [] \<or> length (filter isPost new) = 1 \<and> \<not> hasEffect pid w \<and> hasEffect pid w')"
proof -
  obtain new where new: "log' = log @ new" "effectOnce pid w new w'"
    using once.tracksD [OF dispatch_tracked [OF assms(1)] run] by blast
  have "filter isPost new = [] \<or> length (filter isPost new) = 1 \<and> list_ex (startedFresh pid) new"
  proof (cases "filter isPost new = []")
    case False
    then obtain rq a where posted: "Melt_posted rq a \<in> set new"
      by (auto simp: filter_empty_conv isPost_iff)
    from request_log [OF run [unfolded new(1)] posted] obtain i ch rest where
        "new = Effect_started i (Inr ch) # Melt_posted rq a # rest" "\<not> ch_replayed ch"
        "list_all laterCall rest" "se_paymentId i = pid"
      by blast
    moreover have "filter isPost rest = []"
      using \<open>list_all laterCall rest\<close> by (auto simp: filter_empty_conv list_all_iff isPost_iff)
    ultimately show ?thesis by simp
  qed simp
  with new show ?thesis by (auto simp: effectOnce_def)
qed

lemma dispatchAll_posts:
  assumes "\<forall>deps \<in> set ds. storeDeps pid deps"
  shows "\<exists>new. fst (dispatchAll config pid ds (log, w)) = log @ new
     \<and> length (filter isPost new) \<le> (if hasEffect pid w then 0 else 1)"
  using assms
proof (induction ds arbitrary: log w)
  case (Cons deps ds)
  obtain log1 w1 r where run: "dispatch config deps pid (log, w) = ((log1, w1), r)"
    by (metis prod.collapse)
  from dispatch_posts [OF _ run] Cons.prems obtain new where new: "log1 = log @ new"
      "hasEffect pid w \<longrightarrow> hasEffect pid w1"
      "filter isPost new = [] \<or> length (filter isPost new) = 1 \<and> \<not> hasEffect pid w \<and> hasEffect pid w1"
    by auto
  from Cons.IH [of log1 w1] Cons.prems obtain more where
      "fst (dispatchAll config pid ds (log1, w1)) = log1 @ more"
      "length (filter isPost more) \<le> (if hasEffect pid w1 then 0 else 1)"
    by auto
  with run new show ?case by (intro exI [of _ "new @ more"]) (auto split: if_splits)
qed simp

text \<open>
  C21 (safety): a payment is sent to its operator at most once.  Over the PostgreSQL lifecycle
  repository, in any sequence of dispatches of a payment, by processes with other clocks, operators
  and repositories and with other processes running meanwhile, as long as nobody deletes an operator
  effect, at most one request goes out; none does if the payment had an effect at the start.
\<close>

theorem payment_sent_once:
  assumes "\<forall>deps \<in> set ds. keepsEffects pid deps"
  shows "length (filter isPost (fst (dispatchAll config pid
       (map (withLifecycleStore (dc_env config)) ds) ([], w)))) \<le> (if hasEffect pid w then 0 else 1)"
proof -
  have "\<forall>deps \<in> set (map (withLifecycleStore (dc_env config)) ds). storeDeps pid deps"
    using assms by (auto intro: withLifecycleStore_deps)
  from dispatchAll_posts [OF this, of config "[]" w] show ?thesis by auto
qed

theorem payment_sent_once_witness:
  "length (filter isPost (fst (dispatchAll exDispatchConfig ''p1''
       (map (withLifecycleStore exDispatchEnv)
          [exDispatchDeps (Inl ()), exDispatchDeps (Inr (exAnswer ''PAID''))])
       ([], (exDb, ()))))) \<le> 1"
proof -
  have "keepsEffects ''p1'' (exDispatchDeps answer :: (db \<times> unit) dispatch_deps)" for answer
    by (simp add: keepsEffects_def keepsEffect_def)
  moreover have "\<not> hasEffect ''p1'' (exDb, ())" by (simp add: hasEffect_def exDb_def)
  ultimately show ?thesis
    using payment_sent_once [where config = exDispatchConfig and pid = "''p1''" and w = "(exDb, ())"
        and ds = "[exDispatchDeps (Inl ()), exDispatchDeps (Inr (exAnswer ''PAID''))]"]
    by (simp add: exConfig_sel)
qed

end
