(* ===== verification/Reservation_Store.thy ===== *)
theory Reservation_Store
  imports Lifecycle Interfaces
begin

text \<open>
  \<^verbatim>\<open>postgres-cashu-proof-reservation-repository.ts\<close>: the reservation of the proofs a customer pays
  with.  A reservation fixes the proofs of one payment under its invoice and route; a row trigger
  claims every reserved proof, and the primary key of the claims is what keeps two payments from
  holding the same proof.
\<close>

type_synonym 'a reservation_result = "proof_reservation_error failure + 'a"

definition MAX_NUT18_PAYMENT_PROOFS :: nat where
  "MAX_NUT18_PAYMENT_PROOFS = 128"

section \<open>Making a reservation\<close>

definition invalidReservationInput :: "'e + 'a \<Rightarrow> 'a reservation_result" where
  "invalidReservationInput = catchR (\<lambda>_. Repository_failure PRR_invalid_input)"

definition invalidReservationRecord :: "'e + 'a \<Rightarrow> 'a reservation_result" where
  "invalidReservationRecord = catchR (\<lambda>_. Repository_failure PRR_invalid_record)"

lemma invalidReservation_iff [simp]:
  "invalidReservationInput m = Inr x \<longleftrightarrow> m = Inr x" "invalidReservationInput (Inr x) = Inr x"
  "invalidReservationRecord m = Inr x \<longleftrightarrow> m = Inr x" "invalidReservationRecord (Inr x) = Inr x"
  by (simp_all add: invalidReservationInput_def invalidReservationRecord_def catchR_eq_Inr)

text \<open>The \<open>map\<close> callback with its set of seen points and its running total.\<close>

fun collectProofs ::
  "cashu_env \<Rightarrow> string set \<Rightarrow> int \<Rightarrow> proof_reference list
     \<Rightarrow> (proof_reference list \<times> int) reservation_result" where
  "collectProofs env proofYs grossAmount [] = Inr ([], grossAmount)"
| "collectProofs env proofYs grossAmount (p # ps) =
     bindR (invalidReservationInput (createCashuProofReferenceV1 env p)) (\<lambda>reference.
     if pr_y reference \<in> proofYs then failWith PRR_invalid_input
     else let acc = grossAmount + pr_amount reference in
     if acc > MAX_SAFE_INTEGER then failWith PRR_invalid_input
     else bindR (collectProofs env (insert (pr_y reference) proofYs) acc ps) (\<lambda>(rest, gross).
       Inr (reference # rest, gross)))"

definition createReservation ::
  "cashu_env \<Rightarrow> reserve_proofs_input \<Rightarrow> proof_reservation reservation_result" where
  "createReservation env input =
    (if length (prs_proofReferences input) = 0
        \<or> length (prs_proofReferences input) > MAX_NUT18_PAYMENT_PROOFS
     then failWith PRR_invalid_input
     else
     bindR (collectProofs env {} 0 (prs_proofReferences input)) (\<lambda>(references, grossAmount).
     bindR (invalidReservationInput (unixTimestamp (prs_keysetObservedAt input))) (\<lambda>keysetObservedAt.
     bindR (invalidReservationInput (unixTimestamp (prs_reservedAt input))) (\<lambda>reservedAt.
     if keysetObservedAt > reservedAt then failWith PRR_invalid_input
     else
     bindR (invalidReservationInput (identifierOf (prs_invoiceId input))) (\<lambda>invoiceId.
     bindR (invalidReservationInput (normalizeCashuMintUrl env (prs_mintUrl input))) (\<lambda>mintUrl.
     bindR (invalidReservationInput (identifierOf (prs_operatorId input))) (\<lambda>operatorId.
     bindR (invalidReservationInput (identifierOf (prs_paymentId input))) (\<lambda>paymentId.
     bindR (invalidReservationInput (normalizeUnit (prs_unit input))) (\<lambda>unit.
     Inr \<lparr>prs_invoiceId = invoiceId, prs_keysetObservedAt = keysetObservedAt,
          prs_mintUrl = mintUrl, prs_operatorId = operatorId, prs_paymentId = paymentId,
          prs_proofReferences = sort_key pr_y references, prs_reservedAt = reservedAt,
          prs_unit = unit, prs_grossAmount = grossAmount,
          prs_schemaVersion = CASHU_PROOF_RESERVATION_SCHEMA_VERSION\<rparr>)))))))))"

definition proofReferenceJson :: "proof_reference \<Rightarrow> json" where
  "proofReferenceJson p =
     JObj [(''amount'', JNum (pr_amount p)), (''keysetId'', JStr (pr_keysetId p)),
       (''y'', JStr (pr_y p))]"

definition createReservationFingerprint :: "cashu_env \<Rightarrow> proof_reservation \<Rightarrow> string" where
  "createReservationFingerprint env reservation =
     env_sha256 env (JObj
       [(''grossAmount'', JNum (prs_grossAmount reservation)),
        (''invoiceId'', JStr (prs_invoiceId reservation)),
        (''keysetObservedAt'', JNum (prs_keysetObservedAt reservation)),
        (''mintUrl'', JStr (prs_mintUrl reservation)),
        (''operatorId'', JStr (prs_operatorId reservation)),
        (''paymentId'', JStr (prs_paymentId reservation)),
        (''proofReferences'', JArr (map proofReferenceJson (prs_proofReferences reservation))),
        (''reservedAt'', JNum (prs_reservedAt reservation)),
        (''schemaVersion'', JNum (prs_schemaVersion reservation)),
        (''unit'', JStr (prs_unit reservation))])"

section \<open>The tables\<close>

text \<open>
  \<^verbatim>\<open>INSERT ... ON CONFLICT DO NOTHING\<close>, after \<open>cashmesh_require_accountable_cashu_reservation_route\<close>;
  \<open>None\<close> when a unique index has the row already.
\<close>

definition insertReservation :: "db \<Rightarrow> reservation_row \<Rightarrow> db_error + db option" where
  "insertReservation db new =
     bindR (checkRow (list_ex (\<lambda>q. rq_invoice_id q = rs_invoice_id new) (db_requests db))) (\<lambda>_.
     bindR (checkRow (length (rs_mint_url new) \<le> 512)) (\<lambda>_.
     if list_ex (\<lambda>r. rs_payment_id r = rs_payment_id new
          \<or> rs_reservation_fingerprint r = rs_reservation_fingerprint new) (db_reservations db)
     then Inr None
     else
     bindR (requireExists (\<lambda>i. ir_id i = rs_invoice_id new) (db_invoices db)) (\<lambda>_.
     bindR (requireExists (\<lambda>rt. rt_invoice_id rt = rs_invoice_id new
              \<and> rt_operator_id rt = rs_operator_id new \<and> rt_mint_url rt = rs_mint_url new)
              (db_routes db)) (\<lambda>_.
     Inr (Some (queue [Reservation_check (rs_payment_id new)]
                  (db\<lparr>db_reservations := db_reservations db @ [new]\<rparr>)))))))"

text \<open>\<open>cashmesh_claim_cashu_reserved_proof\<close> inserts the claim of a reserved proof.\<close>

definition insertProofClaim :: "db \<Rightarrow> proof_claim_row \<Rightarrow> db_error + db" where
  "insertProofClaim db new =
     bindR (requireUnique ''cashu_active_proof_claims_pkey''
              (\<lambda>c. (pc_mint_url c, pc_proof_y c)) (db_proofClaims db) new) (\<lambda>_.
     bindR (requireUnique ''cashu_active_proof_claims_payment_y_unique''
              (\<lambda>c. (pc_payment_id c, pc_proof_y c)) (db_proofClaims db) new) (\<lambda>_.
     bindR (requireExists (\<lambda>p. pf_payment_id p = pc_payment_id new
              \<and> pf_mint_url p = pc_mint_url new \<and> pf_proof_y p = pc_proof_y new)
              (db_proofs db)) (\<lambda>_.
     Inr (queue [Active_claims_check (pc_payment_id new)]
            (db\<lparr>db_proofClaims := db_proofClaims db @ [new]\<rparr>)))))"

definition insertReservedProof :: "db \<Rightarrow> proof_row \<Rightarrow> db_error + db" where
  "insertReservedProof db new =
     bindR (checkRow (0 \<le> pf_position new \<and> pf_position new < 128)) (\<lambda>_.
     bindR (requireUnique ''cashu_reserved_proofs_pkey''
              (\<lambda>p. (pf_payment_id p, pf_position p)) (db_proofs db) new) (\<lambda>_.
     bindR (requireUnique ''cashu_reserved_proofs_payment_y_unique''
              (\<lambda>p. (pf_payment_id p, pf_proof_y p)) (db_proofs db) new) (\<lambda>_.
     bindR (requireExists (\<lambda>r. rs_payment_id r = pf_payment_id new
              \<and> rs_mint_url r = pf_mint_url new \<and> rs_unit r = pf_unit new)
              (db_reservations db)) (\<lambda>_.
     bindR (requireExists (\<lambda>k. kr_mint_url k = pf_mint_url new
              \<and> kr_keyset_id k = pf_keyset_id new \<and> kr_unit k = pf_unit new)
              (db_keysets db)) (\<lambda>_.
     bindR (insertProofClaim (db\<lparr>db_proofs := db_proofs db @ [new]\<rparr>)
              \<lparr>pc_mint_url = pf_mint_url new, pc_proof_y = pf_proof_y new,
               pc_payment_id = pf_payment_id new\<rparr>) (\<lambda>claimed.
     Inr (queue [Active_claims_check (pf_payment_id new), Reservation_check (pf_payment_id new)]
            claimed)))))))"

fun insertReservedProofs :: "db \<Rightarrow> proof_row list \<Rightarrow> db_error + db" where
  "insertReservedProofs db [] = Inr db"
| "insertReservedProofs db (row # rows) =
     bindR (insertReservedProof db row) (\<lambda>after. insertReservedProofs after rows)"

section \<open>Checks\<close>

definition assertInvoiceRoute :: "db \<Rightarrow> proof_reservation \<Rightarrow> unit reservation_result" where
  "assertInvoiceRoute db reservation =
    (case findInvoice db (prs_invoiceId reservation) of
       None \<Rightarrow> failWith PRR_invoice_not_open
     | Some row \<Rightarrow>
         if ir_schema_version row \<noteq> 1 \<or> ir_state row \<noteq> ''open'' then failWith PRR_invoice_not_open
         else if ir_unit row \<noteq> prs_unit reservation then failWith PRR_invalid_input
         else
         bindR (readBigint (Repository_failure PRR_invalid_record) (ir_created_at row)) (\<lambda>createdAt.
         bindR (readBigint (Repository_failure PRR_invalid_record) (ir_expires_at row)) (\<lambda>expiresAt.
         let routeAccepted = list_ex (\<lambda>rt. rt_invoice_id rt = ir_id row
               \<and> rt_operator_id rt = prs_operatorId reservation
               \<and> rt_mint_url rt = prs_mintUrl reservation
               \<and> list_ex (\<lambda>q. rq_invoice_id q = rt_invoice_id rt) (db_requests db)) (db_routes db)
         in if prs_reservedAt reservation < createdAt \<or> prs_reservedAt reservation \<ge> expiresAt
            then failWith PRR_reservation_window_closed
            else if \<not> routeAccepted then failWith PRR_route_not_accepted
            else Inr ())))"

definition assertKeysetEvidence :: "db \<Rightarrow> proof_reservation \<Rightarrow> unit reservation_result" where
  "assertKeysetEvidence db reservation =
    (let expectedKeysetIds = remdups (map pr_keysetId (prs_proofReferences reservation));
         rows = remdups [ke_keyset_id e. o' \<leftarrow> db_keysetObservations db,
           ko_operator_id o' = prs_operatorId reservation \<and> ko_mint_url o' = prs_mintUrl reservation
             \<and> ko_unit o' = prs_unit reservation
             \<and> ko_observed_at o' = prs_keysetObservedAt reservation,
           e \<leftarrow> db_keysetEntries db, ke_snapshot_fingerprint e = ko_snapshot_fingerprint o'
             \<and> ke_keyset_id e \<in> set expectedKeysetIds]
     in if length rows \<noteq> length expectedKeysetIds
           \<or> list_ex (\<lambda>kid. kid \<notin> set expectedKeysetIds) rows
        then failWith PRR_keyset_evidence_missing else Inr ())"

section \<open>Reading a reservation\<close>

definition storedProof ::
  "cashu_env \<Rightarrow> reservation_row \<Rightarrow> nat \<times> proof_row \<Rightarrow> proof_reference reservation_result" where
  "storedProof env row = (\<lambda>(position, p).
     if pf_position p \<noteq> int position \<or> pf_mint_url p \<noteq> rs_mint_url row \<or> pf_unit p \<noteq> rs_unit row
     then failWith PRR_invalid_record
     else
     bindR (readBigint (Repository_failure PRR_invalid_record) (pf_amount p)) (\<lambda>amount.
     invalidReservationRecord (createCashuProofReferenceV1 env
       \<lparr>pr_amount = amount, pr_keysetId = pf_keyset_id p, pr_y = pf_proof_y p\<rparr>)))"

definition sameStoredProofs :: "proof_row list \<Rightarrow> proof_reference list \<Rightarrow> bool reservation_result" where
  "sameStoredProofs rows references =
     bindR (mapR (\<lambda>(position, reference).
       case nthOpt rows position of
         None \<Rightarrow> Inr False
       | Some stored \<Rightarrow>
           bindR (readBigint (Repository_failure PRR_invalid_record) (pf_amount stored)) (\<lambda>amount.
           Inr (pr_amount reference = amount \<and> pr_keysetId reference = pf_keyset_id stored
                \<and> pr_y reference = pf_proof_y stored)))
       (List.enumerate 0 references)) (\<lambda>same. Inr (list_all id same))"

text \<open>
  \<open>createReservation\<close> throws \<open>invalid_input\<close> also for a stored record, and the \<open>catch\<close> of
  \<open>mapReservation\<close> passes it on.
\<close>

definition mapReservation ::
  "cashu_env \<Rightarrow> db \<Rightarrow> reservation_row \<Rightarrow> proof_reservation reservation_result" where
  "mapReservation env db row =
    (let proofs = sort_key pf_position (proofsOf db (rs_payment_id row));
         readRow = (\<lambda>v. readBigint (Repository_failure PRR_invalid_record) v) in
     if rs_schema_version row \<noteq> CASHU_PROOF_RESERVATION_SCHEMA_VERSION \<or> proofs = []
     then failWith PRR_invalid_record
     else
     bindR (invalidReservationRecord (identifierOf (rs_invoice_id row))) (\<lambda>invoiceId.
     bindR (readRow (rs_keyset_observed_at row)) (\<lambda>keysetObservedAt.
     bindR (invalidReservationRecord (identifierOf (rs_operator_id row))) (\<lambda>operatorId.
     bindR (invalidReservationRecord (identifierOf (rs_payment_id row))) (\<lambda>paymentId.
     bindR (mapR (storedProof env row) (List.enumerate 0 proofs)) (\<lambda>proofReferences.
     bindR (readRow (rs_reserved_at row)) (\<lambda>reservedAt.
     bindR (createReservation env
              \<lparr>prs_invoiceId = invoiceId, prs_keysetObservedAt = keysetObservedAt,
               prs_mintUrl = rs_mint_url row, prs_operatorId = operatorId,
               prs_paymentId = paymentId, prs_proofReferences = proofReferences,
               prs_reservedAt = reservedAt, prs_unit = rs_unit row\<rparr>) (\<lambda>reservation.
     bindR (readRow (rs_gross_amount row)) (\<lambda>grossAmount.
     bindR (sameStoredProofs proofs (prs_proofReferences reservation)) (\<lambda>same.
     if prs_schemaVersion reservation \<noteq> rs_schema_version row
        \<or> prs_grossAmount reservation \<noteq> grossAmount
        \<or> prs_mintUrl reservation \<noteq> rs_mint_url row \<or> \<not> same
        \<or> createReservationFingerprint env reservation \<noteq> rs_reservation_fingerprint row
     then failWith PRR_invalid_record
     else Inr reservation))))))))))"

definition activeClaims :: "db \<Rightarrow> string \<Rightarrow> nat" where
  "activeClaims db pid = length (filter (\<lambda>c. pc_payment_id c = pid) (db_proofClaims db))"

definition replayReservation ::
  "cashu_env \<Rightarrow> db \<Rightarrow> reservation_row \<Rightarrow> string \<Rightarrow> reserve_proofs_result reservation_result" where
  "replayReservation env db row expectedFingerprint =
    (if rs_reservation_fingerprint row \<noteq> expectedFingerprint then failWith PRR_payment_conflict
     else
     bindR (mapReservation env db row) (\<lambda>reservation.
     if latestState db (prs_paymentId reservation) = Some ''released''
     then failWith PRR_reservation_released
     else
     bindR (readBigint (Repository_failure PRR_invalid_record)
              (int (activeClaims db (prs_paymentId reservation)))) (\<lambda>active.
     if active \<noteq> int (length (prs_proofReferences reservation)) then failWith PRR_invalid_record
     else Inr \<lparr>rpr_replayed = True, rpr_reservation = reservation\<rparr>)))"

section \<open>Operations\<close>

definition reservationRowOf :: "cashu_env \<Rightarrow> proof_reservation \<Rightarrow> reservation_row" where
  "reservationRowOf env reservation =
     \<lparr>rs_payment_id = prs_paymentId reservation,
      rs_reservation_fingerprint = createReservationFingerprint env reservation,
      rs_invoice_id = prs_invoiceId reservation, rs_operator_id = prs_operatorId reservation,
      rs_mint_url = prs_mintUrl reservation, rs_unit = prs_unit reservation,
      rs_schema_version = prs_schemaVersion reservation,
      rs_keyset_observed_at = prs_keysetObservedAt reservation,
      rs_reserved_at = prs_reservedAt reservation,
      rs_gross_amount = prs_grossAmount reservation\<rparr>"

definition proofRowOf :: "proof_reservation \<Rightarrow> nat \<Rightarrow> proof_reference \<Rightarrow> proof_row" where
  "proofRowOf reservation position p =
     \<lparr>pf_payment_id = prs_paymentId reservation, pf_mint_url = prs_mintUrl reservation,
      pf_unit = prs_unit reservation, pf_position = int position, pf_proof_y = pr_y p,
      pf_keyset_id = pr_keysetId p, pf_amount = pr_amount p\<rparr>"

definition proofRowsOf :: "proof_reservation \<Rightarrow> proof_row list" where
  "proofRowsOf reservation =
     map (\<lambda>(position, p). proofRowOf reservation position p)
       (List.enumerate 0 (prs_proofReferences reservation))"

definition reserveIn ::
  "cashu_env \<Rightarrow> proof_reservation \<Rightarrow> db \<Rightarrow> (db \<times> reserve_proofs_result) reservation_result" where
  "reserveIn env reservation db =
    (let fingerprint = createReservationFingerprint env reservation;
         replay = (\<lambda>existing. bindR (replayReservation env db existing fingerprint) (\<lambda>r. Inr (db, r)))
     in case findReservation db (prs_paymentId reservation) of
       Some existing \<Rightarrow> replay existing
     | None \<Rightarrow>
         bindR (assertInvoiceRoute db reservation) (\<lambda>_.
         bindR (assertKeysetEvidence db reservation) (\<lambda>_.
         bindR (liftDb (insertReservation db (reservationRowOf env reservation))) (\<lambda>inserted.
         case inserted of
           None \<Rightarrow>
             (case findReservation db (prs_paymentId reservation) of
                None \<Rightarrow> failWith PRR_invalid_record
              | Some concurrent \<Rightarrow> replay concurrent)
         | Some reserved \<Rightarrow>
             bindR (liftDb (insertReservedProofs reserved (proofRowsOf reservation))) (\<lambda>after.
             Inr (after, \<lparr>rpr_replayed = False, rpr_reservation = reservation\<rparr>))))))"

definition mapReservationStorageError :: "proof_reservation_error failure \<Rightarrow> proof_reservation_error" where
  "mapReservationStorageError f = (case f of
       Repository_failure c \<Rightarrow> c
     | Database_failure (Unique_violation name) \<Rightarrow>
         if name = ''cashu_active_proof_claims_pkey'' then PRR_proof_conflict
         else PRR_storage_unavailable
     | _ \<Rightarrow> PRR_storage_unavailable)"

definition reserve ::
  "cashu_env \<Rightarrow> reserve_proofs_input \<Rightarrow> db
     \<Rightarrow> proof_reservation_error + db \<times> reserve_proofs_result" where
  "reserve env input db =
     catchR mapReservationStorageError (
     bindR (createReservation env input) (\<lambda>reservation.
     withTransaction (reserveIn env reservation) db))"

definition findReservationByPaymentId ::
  "cashu_env \<Rightarrow> db \<Rightarrow> string \<Rightarrow> proof_reservation_error + proof_reservation option" where
  "findReservationByPaymentId env db requestedPaymentId =
     catchR mapReservationStorageError (
     bindR (invalidReservationInput (identifierOf requestedPaymentId)) (\<lambda>validatedPaymentId.
     case findReservation db validatedPaymentId of
       None \<Rightarrow> Inr None
     | Some row \<Rightarrow> bindR (mapReservation env db row) (\<lambda>reservation. Inr (Some reservation))))"

end
