(* ===== verification/Reservation_Facts.thy ===== *)
theory Reservation_Facts
  imports Reservation_Store
begin

text \<open>
  What the reservation repository guarantees: the reservations it makes, the rows it writes and
  what it reads back from them.
\<close>

section \<open>Well-formed reservations\<close>

lemma sum_list_insort:
  fixes g :: "'a \<Rightarrow> int"
  shows "sum_list (map g (insort_key f x xs)) = g x + sum_list (map g xs)"
  by (induction xs) auto

lemma sum_list_sort:
  fixes g :: "'a \<Rightarrow> int"
  shows "sum_list (map g (sort_key f xs)) = sum_list (map g xs)"
  by (induction xs) (auto simp: sum_list_insort)

lemma distinct_map_sort: "distinct (map g (sort_key f xs)) \<longleftrightarrow> distinct (map g xs)"
  by (simp add: distinct_map)

definition proofValid :: "cashu_env \<Rightarrow> proof_reference \<Rightarrow> bool" where
  "proofValid env p \<longleftrightarrow> createCashuProofReferenceV1 env p = Inr p"

lemma createReference_iff: "createCashuProofReferenceV1 env p = Inr q \<longleftrightarrow> proofValid env p \<and> q = p"
  by (auto simp: proofValid_def createCashuProofReferenceV1_iff)

lemma proofValid_amount:
  "proofValid env p \<Longrightarrow> 0 < pr_amount p \<and> pr_amount p \<le> MAX_SAFE_INTEGER"
  by (simp add: proofValid_def createCashuProofReferenceV1_iff)

definition proofTotal :: "proof_reference list \<Rightarrow> int" where
  "proofTotal ps = sum_list (map pr_amount ps)"

lemma proofTotal_simps [simp]:
  "proofTotal [] = 0" "proofTotal (p # ps) = pr_amount p + proofTotal ps"
  "proofTotal (sort_key f ps) = proofTotal ps"
  by (simp_all add: proofTotal_def sum_list_sort)

lemma proofTotal_nonneg: "\<forall>p \<in> set ps. proofValid env p \<Longrightarrow> 0 \<le> proofTotal ps"
  by (induction ps) (use proofValid_amount in fastforce)+

lemma collectProofs_iff:
  "collectProofs env ys g ps = Inr (qs, total') \<longleftrightarrow>
     qs = ps \<and> total' = g + proofTotal ps \<and> (\<forall>p \<in> set ps. proofValid env p)
     \<and> distinct (map pr_y ps) \<and> ys \<inter> pr_y ` set ps = {}
     \<and> (ps = [] \<or> total' \<le> MAX_SAFE_INTEGER)"
proof (induction ps arbitrary: ys g qs total')
  case (Cons p ps)
  show ?case
  proof (cases "proofValid env p \<and> pr_y p \<notin> ys \<and> g + pr_amount p \<le> MAX_SAFE_INTEGER")
    case True
    then have "collectProofs env ys g (p # ps) = Inr (qs, total') \<longleftrightarrow>
        (\<exists>rest. qs = p # rest
           \<and> collectProofs env (insert (pr_y p) ys) (g + pr_amount p) ps = Inr (rest, total'))"
      by (auto simp: createReference_iff [THEN iffD2] Let_def result_simps split: prod.splits)
    then show ?thesis using True by (auto simp: Cons.IH)
  next
    case False
    then have "\<not> collectProofs env ys g (p # ps) = Inr (qs, total')"
      by (auto simp: createReference_iff Let_def result_simps split: if_splits)
    moreover have "g + pr_amount p \<le> g + proofTotal (p # ps)" if "\<forall>q \<in> set (p # ps). proofValid env q"
      using that proofTotal_nonneg [of ps env] by simp
    ultimately show ?thesis using False by force
  qed
qed auto

text \<open>\<open>reservationValid\<close>: the shape of a reservation the constructor made from normal parts.\<close>

definition reservationValid :: "cashu_env \<Rightarrow> proof_reservation \<Rightarrow> bool" where
  "reservationValid env r \<longleftrightarrow>
     prs_proofReferences r \<noteq> [] \<and> length (prs_proofReferences r) \<le> MAX_NUT18_PAYMENT_PROOFS
     \<and> (\<forall>p \<in> set (prs_proofReferences r). proofValid env p)
     \<and> strictlyIncreasing (map pr_y (prs_proofReferences r))
     \<and> prs_grossAmount r = proofTotal (prs_proofReferences r)
     \<and> prs_grossAmount r \<le> MAX_SAFE_INTEGER
     \<and> validTimestamp (prs_keysetObservedAt r) \<and> validTimestamp (prs_reservedAt r)
     \<and> prs_keysetObservedAt r \<le> prs_reservedAt r
     \<and> identifierPattern (prs_invoiceId r) \<and> identifierPattern (prs_operatorId r)
     \<and> identifierPattern (prs_paymentId r) \<and> normalizeUnit (prs_unit r) = Inr (prs_unit r)
     \<and> prs_schemaVersion r = 1"

lemma normalizeUnit_same: "normalizeUnit u = Inr w \<Longrightarrow> w = u"
  by (auto simp: normalizeUnit_def split: if_splits)

lemma createReservation_Inr:
  assumes "createReservation env input = Inr r"
  shows "reservationValid env r \<and> normalizeCashuMintUrl env (prs_mintUrl input) = Inr (prs_mintUrl r)
    \<and> prs_paymentId r = prs_paymentId input \<and> prs_invoiceId r = prs_invoiceId input
    \<and> prs_operatorId r = prs_operatorId input \<and> prs_unit r = prs_unit input
    \<and> prs_reservedAt r = prs_reservedAt input \<and> prs_keysetObservedAt r = prs_keysetObservedAt input
    \<and> prs_proofReferences r = sort_key pr_y (prs_proofReferences input)"
proof -
  have sorted: "strictlyIncreasing (map pr_y (sort_key pr_y (prs_proofReferences input)))"
    if "distinct (map pr_y (prs_proofReferences input))"
    using that by (rule sort_key_strict)
  obtain m u where parts: "normalizeCashuMintUrl env (prs_mintUrl input) = Inr m"
      "normalizeUnit (prs_unit input) = Inr u" "\<not> prs_keysetObservedAt input > prs_reservedAt input"
      "prs_proofReferences input \<noteq> []"
      "length (prs_proofReferences input) \<le> MAX_NUT18_PAYMENT_PROOFS"
      "collectProofs env {} 0 (prs_proofReferences input)
         = Inr (prs_proofReferences input, proofTotal (prs_proofReferences input))"
      "validTimestamp (prs_keysetObservedAt input)" "validTimestamp (prs_reservedAt input)"
      "identifierPattern (prs_invoiceId input)" "identifierPattern (prs_operatorId input)"
      "identifierPattern (prs_paymentId input)"
    and r: "r = \<lparr>prs_invoiceId = prs_invoiceId input,
      prs_keysetObservedAt = prs_keysetObservedAt input, prs_mintUrl = m,
      prs_operatorId = prs_operatorId input, prs_paymentId = prs_paymentId input,
      prs_proofReferences = sort_key pr_y (prs_proofReferences input),
      prs_reservedAt = prs_reservedAt input, prs_unit = u,
      prs_grossAmount = proofTotal (prs_proofReferences input), prs_schemaVersion = 1\<rparr>"
    using assms
    by (auto simp: createReservation_def result_simps collectProofs_iff
        CASHU_PROOF_RESERVATION_SCHEMA_VERSION_def split: if_splits prod.splits)
  moreover have "u = prs_unit input" using parts(2) by (rule normalizeUnit_same)
  ultimately show ?thesis
    using sorted by (auto simp: collectProofs_iff reservationValid_def)
qed

definition reservationInput :: "proof_reservation \<Rightarrow> reserve_proofs_input" where
  "reservationInput r =
     \<lparr>prs_invoiceId = prs_invoiceId r, prs_keysetObservedAt = prs_keysetObservedAt r,
      prs_mintUrl = prs_mintUrl r, prs_operatorId = prs_operatorId r,
      prs_paymentId = prs_paymentId r, prs_proofReferences = prs_proofReferences r,
      prs_reservedAt = prs_reservedAt r, prs_unit = prs_unit r\<rparr>"

lemma createReservation_again:
  assumes "reservationValid env r"
    and "normalizeCashuMintUrl env (prs_mintUrl r) = Inr (prs_mintUrl r)"
  shows "createReservation env (reservationInput r) = Inr r"
proof -
  have "collectProofs env {} 0 (prs_proofReferences r) = Inr (prs_proofReferences r, prs_grossAmount r)"
    using assms(1) strictlyIncreasing_distinct by (auto simp: collectProofs_iff reservationValid_def)
  moreover have "sort_key pr_y (prs_proofReferences r) = prs_proofReferences r"
    using assms(1) by (simp add: reservationValid_def sort_key_fixed)
  moreover have "\<not> prs_keysetObservedAt r > prs_reservedAt r"
      "\<not> length (prs_proofReferences r) > MAX_NUT18_PAYMENT_PROOFS"
    using assms(1) by (simp_all add: reservationValid_def not_less)
  ultimately show ?thesis
    using assms
    by (cases r) (simp add: createReservation_def reservationInput_def reservationValid_def
        CASHU_PROOF_RESERVATION_SCHEMA_VERSION_def)
qed

section \<open>Reading the stored rows\<close>

lemma proofRowOf_sel [simp]:
  "pf_payment_id (proofRowOf r n p) = prs_paymentId r" "pf_mint_url (proofRowOf r n p) = prs_mintUrl r"
  "pf_unit (proofRowOf r n p) = prs_unit r" "pf_position (proofRowOf r n p) = int n"
  "pf_proof_y (proofRowOf r n p) = pr_y p" "pf_keyset_id (proofRowOf r n p) = pr_keysetId p"
  "pf_amount (proofRowOf r n p) = pr_amount p"
  by (simp_all add: proofRowOf_def)

lemma reservationRowOf_sel [simp]:
  "rs_payment_id (reservationRowOf env r) = prs_paymentId r"
  "rs_reservation_fingerprint (reservationRowOf env r) = createReservationFingerprint env r"
  "rs_invoice_id (reservationRowOf env r) = prs_invoiceId r"
  "rs_mint_url (reservationRowOf env r) = prs_mintUrl r" "rs_unit (reservationRowOf env r) = prs_unit r"
  "rs_operator_id (reservationRowOf env r) = prs_operatorId r"
  by (simp_all add: reservationRowOf_def)

lemma proofRowsOf_sorted: "sort_key pf_position (proofRowsOf r) = proofRowsOf r"
  by (rule sort_key_fixed)
    (auto simp: proofRowsOf_def strictlyIncreasing_iff sorted_wrt_iff_nth_less nth_enumerate_eq)

lemma proofRowsOf_payment: "p \<in> set (proofRowsOf r) \<Longrightarrow> pf_payment_id p = prs_paymentId r"
  by (auto simp: proofRowsOf_def)

lemma length_proofRowsOf [simp]: "length (proofRowsOf r) = length (prs_proofReferences r)"
  by (simp add: proofRowsOf_def)

lemma proofRowsOf_Nil [simp]: "proofRowsOf r = [] \<longleftrightarrow> prs_proofReferences r = []"
  by (simp add: proofRowsOf_def enumerate_eq_zip)

lemma readBigint_amount:
  "proofValid env p \<Longrightarrow> readBigint e (pr_amount p) = Inr (pr_amount p)"
  by (auto simp: readBigint_safe dest: proofValid_amount)

lemma createReference_valid: "proofValid env p \<Longrightarrow> createCashuProofReferenceV1 env p = Inr p"
  by (simp add: createReference_iff)

lemma storedProofs_read:
  assumes "\<forall>p \<in> set ps. proofValid env p"
  shows "mapR (storedProof env (reservationRowOf env r))
      (List.enumerate n (map (\<lambda>(n, p). proofRowOf r n p) (List.enumerate n ps))) = Inr ps"
  using assms
proof (induction ps arbitrary: n)
  case (Cons p ps)
  have "storedProof env (reservationRowOf env r) (n, proofRowOf r n p) = Inr p"
    using Cons.prems proofValid_amount [of env p]
    by (cases p) (simp add: storedProof_def readBigint_safe createReference_valid)
  with Cons show ?case by simp
qed simp

lemma sameStoredProofs_read:
  assumes "\<forall>p \<in> set (prs_proofReferences r). proofValid env p"
  shows "sameStoredProofs (proofRowsOf r) (prs_proofReferences r) = Inr True"
proof -
  let ?ps = "prs_proofReferences r"
  let ?f = "\<lambda>(position, reference). case nthOpt (proofRowsOf r) position of
      None \<Rightarrow> (Inr False :: bool reservation_result)
    | Some stored \<Rightarrow> bindR (readBigint (Repository_failure PRR_invalid_record) (pf_amount stored))
        (\<lambda>amount. Inr (pr_amount reference = amount \<and> pr_keysetId reference = pf_keyset_id stored
           \<and> pr_y reference = pf_proof_y stored))"
  have "?f x = Inr True" if mem: "x \<in> set (List.enumerate 0 ?ps)" for x
  proof -
    obtain n p where x: "x = (n, p)" "n < length ?ps" "?ps ! n = p"
      using mem by (intro that [of "fst x" "snd x"]) (auto simp: in_set_enumerate_eq)
    then have "nthOpt (proofRowsOf r) n = Some (proofRowOf r n p)"
      by (simp add: nthOpt_def proofRowsOf_def nth_enumerate_eq)
    moreover have "proofValid env p" using assms x by auto
    ultimately show ?thesis using proofValid_amount [of env p] by (simp add: x(1) readBigint_safe)
  qed
  then have "list_all2 (\<lambda>x y. ?f x = Inr y) (List.enumerate 0 ?ps) (replicate (length ?ps) True)"
    by (auto simp: list_all2_conv_all_nth)
  then have "mapR ?f (List.enumerate 0 ?ps) = Inr (replicate (length ?ps) True)"
    by (simp only: mapR_Inr_iff)
  then show ?thesis by (simp add: sameStoredProofs_def list_all_iff)
qed

lemma mapReservation_stored:
  assumes "reservationValid env r"
    and "normalizeCashuMintUrl env (prs_mintUrl r) = Inr (prs_mintUrl r)"
    and "proofsOf db (prs_paymentId r) = proofRowsOf r"
  shows "mapReservation env db (reservationRowOf env r) = Inr r"
proof -
  note valid = assms(1) [unfolded reservationValid_def]
  have gross: "0 \<le> proofTotal (prs_proofReferences r)"
    using valid proofTotal_nonneg by blast
  have proofs: "mapR (storedProof env (reservationRowOf env r)) (List.enumerate 0 (proofRowsOf r))
      = Inr (prs_proofReferences r)"
    unfolding proofRowsOf_def using valid by (intro storedProofs_read) simp
  have rows: "sort_key pf_position (proofsOf db (rs_payment_id (reservationRowOf env r))) = proofRowsOf r"
    by (simp add: assms(3) proofRowsOf_sorted)
  have "createReservation env \<lparr>prs_invoiceId = prs_invoiceId r,
      prs_keysetObservedAt = prs_keysetObservedAt r, prs_mintUrl = prs_mintUrl r,
      prs_operatorId = prs_operatorId r, prs_paymentId = prs_paymentId r,
      prs_proofReferences = prs_proofReferences r, prs_reservedAt = prs_reservedAt r,
      prs_unit = prs_unit r\<rparr> = Inr r"
    using createReservation_again [OF assms(1,2)] by (simp add: reservationInput_def)
  then show ?thesis
    using valid gross proofs rows sameStoredProofs_read [of r env]
    by (simp add: mapReservation_def reservationRowOf_def readBigint_safe CASHU_PROOF_RESERVATION_SCHEMA_VERSION_def)
qed

end
