(* ===== verification/Reservation_Runs.thy ===== *)
theory Reservation_Runs
  imports Reservation_Facts Lifecycle_Runs
begin

text \<open>
  Reservations and their lifecycles together, on one database: the invariant of the reservation
  tables, what \<open>reserve\<close> and every lifecycle command do to it, and runs that mix the two.
\<close>

section \<open>The invariant\<close>

definition claimKey :: "proof_claim_row \<Rightarrow> string \<times> string" where
  "claimKey c = (pc_mint_url c, pc_proof_y c)"

definition proofKey :: "proof_row \<Rightarrow> string \<times> string" where
  "proofKey p = (pf_mint_url p, pf_proof_y p)"

definition claimOf :: "proof_row \<Rightarrow> proof_claim_row" where
  "claimOf p = \<lparr>pc_mint_url = pf_mint_url p, pc_proof_y = pf_proof_y p, pc_payment_id = pf_payment_id p\<rparr>"

definition paymentsOf :: "db \<Rightarrow> string set" where
  "paymentsOf db = rs_payment_id ` set (db_reservations db)"

text \<open>
  The foreign keys to the reservation, the primary keys of the reservations and of the claims, and
  what the claims are for: exactly the proofs of the payments that are not released are claimed.
\<close>

definition reservationTables :: "db \<Rightarrow> bool" where
  "reservationTables db \<longleftrightarrow>
     distinct (map rs_payment_id (db_reservations db))
     \<and> pf_payment_id ` set (db_proofs db) \<subseteq> paymentsOf db
     \<and> ev_payment_id ` set (db_events db) \<subseteq> paymentsOf db
     \<and> ef_payment_id ` set (db_effects db) \<subseteq> paymentsOf db
     \<and> ic_payment_id ` set (db_invoiceClaims db) \<subseteq> paymentsOf db
     \<and> distinct (map claimKey (db_proofClaims db))
     \<and> set (db_proofClaims db) \<subseteq> claimOf ` set (db_proofs db)
     \<and> (\<forall>p \<in> set (db_proofs db). latestState db (pf_payment_id p) \<noteq> Some ''released''
          \<longrightarrow> claimOf p \<in> set (db_proofClaims db))
     \<and> db_deferred db = []"

text \<open>Two payments that are not released hold no proof in common.\<close>

definition proofsExclusive :: "db \<Rightarrow> bool" where
  "proofsExclusive db \<longleftrightarrow>
     (\<forall>p \<in> set (db_proofs db). \<forall>q \<in> set (db_proofs db). proofKey p = proofKey q
        \<and> latestState db (pf_payment_id p) \<noteq> Some ''released''
        \<and> latestState db (pf_payment_id q) \<noteq> Some ''released''
        \<longrightarrow> pf_payment_id p = pf_payment_id q)"

lemma claimOf_sel [simp]:
  "pc_payment_id (claimOf p) = pf_payment_id p" "claimKey (claimOf p) = proofKey p"
  by (simp_all add: claimOf_def claimKey_def proofKey_def)

lemma reservationTables_exclusive:
  assumes "reservationTables db"
  shows "proofsExclusive db"
  unfolding proofsExclusive_def
proof (intro ballI impI)
  fix p q
  assume pq: "p \<in> set (db_proofs db)" "q \<in> set (db_proofs db)"
    and same: "proofKey p = proofKey q \<and> latestState db (pf_payment_id p) \<noteq> Some ''released''
      \<and> latestState db (pf_payment_id q) \<noteq> Some ''released''"
  then have "claimOf p \<in> set (db_proofClaims db)" "claimOf q \<in> set (db_proofClaims db)"
    using assms by (auto simp: reservationTables_def)
  moreover have "inj_on claimKey (set (db_proofClaims db))"
    using assms by (simp add: reservationTables_def distinct_map)
  ultimately have "claimOf p = claimOf q"
    using same inj_onD [of claimKey "set (db_proofClaims db)" "claimOf p" "claimOf q"] by simp
  then show "pf_payment_id p = pf_payment_id q" by (simp add: claimOf_def)
qed

section \<open>What a reservation writes\<close>

definition reservedDb :: "cashu_env \<Rightarrow> proof_reservation \<Rightarrow> db \<Rightarrow> db" where
  "reservedDb env r db = db
     \<lparr>db_reservations := db_reservations db @ [reservationRowOf env r],
      db_proofs := db_proofs db @ proofRowsOf r,
      db_proofClaims := db_proofClaims db @ map claimOf (proofRowsOf r), db_deferred := []\<rparr>"

lemma reservedDb_sel [simp]:
  "db_reservations (reservedDb env r db) = db_reservations db @ [reservationRowOf env r]"
  "db_proofs (reservedDb env r db) = db_proofs db @ proofRowsOf r"
  "db_proofClaims (reservedDb env r db) = db_proofClaims db @ map claimOf (proofRowsOf r)"
  "db_events (reservedDb env r db) = db_events db" "db_effects (reservedDb env r db) = db_effects db"
  "db_invoiceClaims (reservedDb env r db) = db_invoiceClaims db"
  "db_deferred (reservedDb env r db) = []"
  "paymentsOf (reservedDb env r db) = insert (prs_paymentId r) (paymentsOf db)"
  by (simp_all add: reservedDb_def paymentsOf_def)

lemma insertReservedProof_Inr:
  assumes "insertReservedProof db row = Inr db'"
  shows "(\<exists>q. db' = db\<lparr>db_proofs := db_proofs db @ [row],
        db_proofClaims := db_proofClaims db @ [claimOf row], db_deferred := q\<rparr>)
    \<and> proofKey row \<notin> claimKey ` set (db_proofClaims db)"
  using assms
  by (auto simp: insertReservedProof_def insertProofClaim_def result_simps queue_def claimOf_def
      claimKey_def proofKey_def)

lemma insertReservedProofs_Inr:
  assumes "insertReservedProofs db rows = Inr db'"
  shows "(\<exists>q. db' = db\<lparr>db_proofs := db_proofs db @ rows,
        db_proofClaims := db_proofClaims db @ map claimOf rows, db_deferred := q\<rparr>)
    \<and> distinct (map proofKey rows) \<and> proofKey ` set rows \<inter> claimKey ` set (db_proofClaims db) = {}"
  using assms
proof (induction rows arbitrary: db)
  case (Cons row rows)
  then obtain mid where mid: "insertReservedProof db row = Inr mid" "insertReservedProofs mid rows = Inr db'"
    by (auto simp: result_simps)
  from insertReservedProof_Inr [OF mid(1)] obtain q0 where
    m: "mid = db\<lparr>db_proofs := db_proofs db @ [row],
        db_proofClaims := db_proofClaims db @ [claimOf row], db_deferred := q0\<rparr>"
      "proofKey row \<notin> claimKey ` set (db_proofClaims db)" by blast
  from Cons.IH [OF mid(2)] obtain q where
    "db' = mid\<lparr>db_proofs := db_proofs mid @ rows,
        db_proofClaims := db_proofClaims mid @ map claimOf rows, db_deferred := q\<rparr>"
      "distinct (map proofKey rows)" "proofKey ` set rows \<inter> claimKey ` set (db_proofClaims mid) = {}"
    by blast
  then show ?case using m by auto
next
  case Nil
  then show ?case by (intro conjI exI [of _ "db_deferred db"]) auto
qed

lemma reserve_cases:
  assumes "reserve env input db = Inr (db', res)" and "db_deferred db = []"
  obtains (fresh) r where "createReservation env input = Inr r"
    "findReservation db (prs_paymentId r) = None" "\<not> rpr_replayed res" "rpr_reservation res = r"
    "db' = reservedDb env r db" "length (prs_mintUrl r) \<le> 512"
    "assertInvoiceRoute db r = Inr ()" "assertKeysetEvidence db r = Inr ()"
    "distinct (map proofKey (proofRowsOf r))"
    "proofKey ` set (proofRowsOf r) \<inter> claimKey ` set (db_proofClaims db) = {}"
  | (replay) r row where "createReservation env input = Inr r"
    "findReservation db (prs_paymentId r) = Some row" "rpr_replayed res" "db' = db"
    "replayReservation env db row (createReservationFingerprint env r) = Inr res"
proof -
  obtain r after where r: "createReservation env input = Inr r" "reserveIn env r db = Inr (after, res)"
      "db' = after\<lparr>db_deferred := []\<rparr>"
    using assms(1) by (auto simp: reserve_def result_simps withTransaction_iff)
  show thesis
  proof (cases "findReservation db (prs_paymentId r)")
    case (Some row)
    with r(2) have "replayReservation env db row (createReservationFingerprint env r) = Inr res"
        "after = db"
      by (auto simp: reserveIn_def result_simps)
    moreover from this(1) have "rpr_replayed res"
      by (auto simp: replayReservation_def result_simps split: if_splits)
    moreover have "db' = db" using r(3) \<open>after = db\<close> assms(2) by simp
    ultimately show thesis using replay [OF r(1) Some] by blast
  next
    case None
    with r(2) obtain inserted where ins: "assertInvoiceRoute db r = Inr ()"
        "assertKeysetEvidence db r = Inr ()"
        "insertReservation db (reservationRowOf env r) = Inr (Some inserted)"
        "insertReservedProofs inserted (proofRowsOf r) = Inr after"
        "res = \<lparr>rpr_replayed = False, rpr_reservation = r\<rparr>"
      by (auto simp: reserveIn_def result_simps Let_def split: option.splits)
    from ins(3) have inserted: "\<exists>q. inserted = db\<lparr>db_reservations := db_reservations db
          @ [reservationRowOf env r], db_deferred := q\<rparr>" "length (prs_mintUrl r) \<le> 512"
      by (auto simp: insertReservation_def result_simps queue_def split: if_splits)
    note proofs = insertReservedProofs_Inr [OF ins(4)]
    have "db_proofClaims inserted = db_proofClaims db" using inserted(1) by auto
    with proofs have "distinct (map proofKey (proofRowsOf r))"
        "proofKey ` set (proofRowsOf r) \<inter> claimKey ` set (db_proofClaims db) = {}"
      by simp_all
    moreover have "db' = reservedDb env r db"
      using proofs inserted(1) r(3) by (auto simp: reservedDb_def)
    ultimately show thesis using inserted(2) ins by (intro fresh [OF r(1) None]) simp_all
  qed
qed

lemma findReservation_None: "findReservation db pid = None \<longleftrightarrow> pid \<notin> paymentsOf db"
  by (auto simp: findReservation_def findFirst_None paymentsOf_def)

lemma latestState_none: "pid \<notin> ev_payment_id ` set (db_events db) \<Longrightarrow> latestState db pid = None"
  by (auto simp: latestState_def latestEvent_def eventsOf_def filter_empty_conv)

lemma latestState_frame: "db_events db' = db_events db \<Longrightarrow> latestState db' pid = latestState db pid"
  by (simp add: latestState_def latestEvent_def eventsOf_def)

lemma reserve_tables:
  assumes "reserve env input db = Inr (db', res)" and "reservationTables db"
  shows "reservationTables db'"
proof -
  note tables = assms(2) [unfolded reservationTables_def]
  have "db_deferred db = []" using tables by simp
  with assms(1) show ?thesis
  proof (cases rule: reserve_cases)
    case (fresh r)
    have new: "prs_paymentId r \<notin> rs_payment_id ` set (db_reservations db)"
      using fresh(2) by (simp add: findReservation_None paymentsOf_def)
    have latest: "latestState db' pid = latestState db pid" for pid
      by (rule latestState_frame) (simp add: fresh(5))
    have "distinct (map claimKey (db_proofClaims db'))"
      using tables fresh(9,10) by (auto simp: fresh(5) comp_def)
    moreover have "\<forall>p \<in> set (db_proofs db'). latestState db' (pf_payment_id p) \<noteq> Some ''released''
          \<longrightarrow> claimOf p \<in> set (db_proofClaims db')"
      unfolding latest using tables by (auto simp: fresh(5))
    moreover have "set (db_proofClaims db') \<subseteq> claimOf ` set (db_proofs db')"
      using tables by (auto simp: fresh(5))
    moreover have "pf_payment_id ` set (db_proofs db') \<subseteq> paymentsOf db'"
      using tables proofRowsOf_payment by (auto simp: fresh(5))
    ultimately show ?thesis
      using tables new unfolding reservationTables_def by (auto simp: fresh(5))
  qed (use assms(2) in simp)
qed

section \<open>What a lifecycle command writes\<close>

text \<open>The evidence an operator gave is written by its own repositories only.\<close>

definition evidenceKept :: "db \<Rightarrow> db \<Rightarrow> bool" where
  "evidenceKept db db' \<longleftrightarrow>
     db_quoteAttempts db' = db_quoteAttempts db \<and> db_quoteOutcomes db' = db_quoteOutcomes db
     \<and> db_quoteObservations db' = db_quoteObservations db
     \<and> db_proofObservations db' = db_proofObservations db \<and> db_proofEntries db' = db_proofEntries db"

lemma command_frame:
  assumes "runCommand env command db = Inr (db', change)" and "\<not> ch_replayed change"
  shows "db_reservations db' = db_reservations db \<and> db_proofs db' = db_proofs db
    \<and> ef_payment_id ` set (db_effects db')
        \<subseteq> insert (commandPayment command) (ef_payment_id ` set (db_effects db))
    \<and> evidenceKept db db'"
proof -
  have tr: "db_reservations db' = db_reservations db'' \<and> db_proofs db' = db_proofs db''
      \<and> db_effects db' = db_effects db'' \<and> evidenceKept db'' db'"
    if "lifecycleView db' = transitionView env draft n db''" for draft n db''
    using viewD [OF that] by (simp add: transitionView_def claimsAfter_def evidenceKept_def)
  show ?thesis
  proof (cases command)
    case (Start_effect input)
    then obtain v after where v: "validateStartEffect input = Inr v"
      "startEffectIn env v db = Inr (after, change)" "db' = after\<lparr>db_deferred := []\<rparr>"
      using assms(1) by (auto simp: runCommand_def startEffect_iff)
    from startEffectIn_fresh [OF v(2) assms(2)] obtain scope and cur :: lifecycle where
      s: "requireReservation env db (vs_paymentId v) True = Inr scope"
      "lifecycleView after = (lifecycleView db)
          \<lparr>db_events := db_events db @ [eventRowOf env (dispatchDraft v scope) 0],
           db_effects := db_effects db @ [effectRowOf env scope (effectOfInput v)],
           db_invoiceClaims := db_invoiceClaims db @ [\<lparr>ic_invoice_id = sc_invoiceId scope,
              ic_payment_id = sc_paymentId scope, ic_effect_id = vs_effectId v\<rparr>]\<rparr>"
      by blast
    have "sc_paymentId scope = se_paymentId input"
      using s(1) loadReservation_scope validateStartEffect_ids [OF v(1)]
      by (auto simp: requireReservation_Inr)
    then show ?thesis
      using viewD [OF s(2)] v(3) Start_effect by (simp add: effectRowOf_def evidenceKept_def)
  next
    case (Release_reservation input)
    then have "release env input db = Inr (db', change)"
      using assms(1) by (simp add: runCommand_def)
    from release_facts [OF this assms(2)] show ?thesis by (auto dest: tr)
  next
    case (Record_pending input)
    then obtain v :: evidence_input where
      "persistTransition env (evidenceDraft v ''operator_pending'' Pending) db = Inr (db', change)"
      using assms(1) by (auto simp: runCommand_def recordPending_def result_simps catchR_eq_Inr)
    from persistTransition_fresh_step [OF this assms(2)] show ?thesis by (auto dest: tr)
  next
    case (Require_attention input)
    then obtain v :: attention_input where
      "persistTransition env (evidenceDraft v (ai_reason v) Needs_attention) db = Inr (db', change)"
      using assms(1) by (auto simp: runCommand_def requireAttention_def result_simps catchR_eq_Inr)
    from persistTransition_fresh_step [OF this assms(2)] show ?thesis by (auto dest: tr)
  next
    case (Accept_payment input)
    then obtain a where a: "acceptPayment env input db = Inr (db', a)" "change = an_change a"
      using assms(1) by (auto simp: runCommand_def result_simps)
    from acceptance_facts [OF a(1)] assms(2) a(2) obtain scope f paid and cur :: lifecycle where
      p: "persistAcceptedPayment env scope input db = Inr (paid, an_accounting a)"
      "lifecycleView db' = transitionView env (acceptanceDraft input f) (int (length (lc_events cur))) paid"
      by blast
    from viewD [OF persistAcceptedPayment_Inr [OF p(1), THEN conjunct1]] tr [OF p(2)]
    show ?thesis by (auto simp: evidenceKept_def)
  qed
qed

lemma latestState_loaded:
  assumes "loadLifecycle env db scope = Inr lc"
  shows "lc_state lc = Released \<longleftrightarrow> latestState db (sc_paymentId scope) = Some ''released''"
proof -
  let ?rows = "sort_key ev_sequence (eventsOf db (sc_paymentId scope))"
  have rows: "list_all2 (\<lambda>row e. mapEvent env db row scope (lc_effect lc) = Inr e) ?rows (lc_events lc)"
    using loadLifecycle_rows [OF assms] by simp
  have valid: "lifecycleValid scope lc" by (rule loadLifecycle_valid [OF assms])
  show ?thesis
  proof (cases "lc_events lc" rule: rev_cases)
    case Nil
    then have "eventsOf db (sc_paymentId scope) = []" using rows by simp
    then show ?thesis
      using valid Nil
      by (simp add: lifecycleValid_def latestState_def latestEvent_def latestBy_def)
  next
    case (snoc es e)
    then obtain olds row where olds: "?rows = olds @ [row]"
        "mapEvent env db row scope (lc_effect lc) = Inr e"
      using rows by (auto simp: list_all2_append2 list_all2_Cons2)
    then have "latestState db (sc_paymentId scope) = Some (ev_state row)"
      by (simp add: latestState_def latestEvent_def latestBy_def)
    moreover have "lc_state lc = eventState (le_body e)"
      using valid snoc by (simp add: lifecycleValid_def)
    ultimately show ?thesis
      using mapEvent_fields [OF olds(2)] by (cases "eventState (le_body e)") auto
  qed
qed

lemma command_claims:
  assumes "runCommand env command db = Inr (db', change)" and "\<not> ch_replayed change"
    and "claimOf p \<in> set (db_proofClaims db)" and "latestState db' (pf_payment_id p) \<noteq> Some ''released''"
    and "latestState db' (commandPayment command) = Some ''released'' \<longleftrightarrow> commandState command = Released"
  shows "claimOf p \<in> set (db_proofClaims db')"
proof -
  have "commandState command = Released \<longrightarrow> pf_payment_id p \<noteq> commandPayment command"
    using assms(4,5) by auto
  then show ?thesis
    using claims_of_command [OF assms(1,2)] assms(3) by (auto simp: claimsDropped_def)
qed

lemma command_states:
  assumes "runCommand env command db = Inr (db', change)" and "\<not> ch_replayed change"
  shows "commandPayment command \<in> paymentsOf db
    \<and> ev_payment_id ` set (db_events db') = insert (commandPayment command) (ev_payment_id ` set (db_events db))
    \<and> (\<forall>q. q \<noteq> commandPayment command \<longrightarrow> latestState db' q = latestState db q)
    \<and> latestState db (commandPayment command) \<noteq> Some ''released''
    \<and> (latestState db' (commandPayment command) = Some ''released'' \<longleftrightarrow> commandState command = Released)"
proof -
  let ?p = "commandPayment command"
  from command_step [OF assms] obtain scope draft cur where
    s: "requireReservation env db ?p True = Inr scope" "dr_state draft = commandState command"
      "eventAppended env scope draft db cur db' (ch_lifecycle change)" by blast
  have pid: "sc_paymentId scope = ?p" "?p \<in> paymentsOf db"
    using s(1) loadReservation_scope findReservation_None
    by (auto simp: requireReservation_Inr) (metis option.distinct(1))
  note step = s(3) [unfolded eventAppended_def]
  have "latestState db ?p \<noteq> Some ''released''"
  proof
    assume "latestState db ?p = Some ''released''"
    moreover have "loadLifecycle env db scope = Inr cur" using step by simp
    ultimately have "lc_state cur = Released" using latestState_loaded pid(1) by metis
    then show False using step by simp
  qed
  moreover have "latestState db' ?p = Some ''released'' \<longleftrightarrow> commandState command = Released"
    using latestState_loaded [of env db' scope "ch_lifecycle change"] step s(2) pid(1) by simp
  ultimately show ?thesis
    using step pid by (auto simp: latestState_def latestEvent_def eventsOf_def)
qed

lemma command_clean: "runCommand env command db = Inr (db', change) \<Longrightarrow> db_deferred db' = []"
  by (cases command) (auto simp: runCommand_def command_iffs recordPending_def requireAttention_def
      result_simps catchR_eq_Inr)

lemma command_tables:
  assumes "runCommand env command db = Inr (db', change)" and "reservationTables db"
  shows "reservationTables db'"
proof (cases "ch_replayed change")
  case True
  then have "db' = db"
    using command_replay [OF assms(1)] assms(2) by (simp add: reservationTables_def)
  with assms(2) show ?thesis by simp
next
  case False
  let ?p = "commandPayment command"
  note tables = assms(2) [unfolded reservationTables_def] and frame = command_frame [OF assms(1) False]
  note states = command_states [OF assms(1) False]
  have claims: "set (db_proofClaims db') \<subseteq> set (db_proofClaims db)"
      "distinct (map claimKey (db_proofClaims db'))"
      "ic_payment_id ` set (db_invoiceClaims db') \<subseteq> insert ?p (ic_payment_id ` set (db_invoiceClaims db))"
    using claims_of_command [OF assms(1) False] tables
    by (auto simp: claimsDropped_def distinct_map_filter)
  have held: "claimOf p \<in> set (db_proofClaims db')"
    if p: "p \<in> set (db_proofs db')" "latestState db' (pf_payment_id p) \<noteq> Some ''released''" for p
  proof -
    have "latestState db (pf_payment_id p) \<noteq> Some ''released''"
      using p(2) states by (cases "pf_payment_id p = ?p") auto
    then have "claimOf p \<in> set (db_proofClaims db)" using tables p(1) frame by auto
    with command_claims [OF assms(1) False] p(2) states show ?thesis by blast
  qed
  have pays: "paymentsOf db' = paymentsOf db" using frame by (simp add: paymentsOf_def)
  have keep: "X \<subseteq> paymentsOf db" if "X \<subseteq> insert ?p Y" "Y \<subseteq> paymentsOf db" for X Y
    using that states by blast
  have "ev_payment_id ` set (db_events db') \<subseteq> paymentsOf db"
    by (rule keep [of _ "ev_payment_id ` set (db_events db)"]) (use states tables in auto)
  moreover have "ef_payment_id ` set (db_effects db') \<subseteq> paymentsOf db"
    by (rule keep [of _ "ef_payment_id ` set (db_effects db)"]) (use frame tables in auto)
  moreover have "ic_payment_id ` set (db_invoiceClaims db') \<subseteq> paymentsOf db"
    by (rule keep [OF claims(3)]) (use tables in simp)
  moreover have "set (db_proofClaims db') \<subseteq> claimOf ` set (db_proofs db')"
    using claims(1) tables frame by (metis subset_trans)
  ultimately show ?thesis
    unfolding reservationTables_def pays
    using tables frame claims(2) held command_clean [OF assms(1)] by auto
qed

section \<open>Runs\<close>

datatype payment_command =
    Reserve_proofs reserve_proofs_input
  | Run_lifecycle lifecycle_command

definition runPayment :: "cashu_env \<Rightarrow> payment_command \<Rightarrow> db \<Rightarrow> db" where
  "runPayment env c db = (case c of
       Reserve_proofs input \<Rightarrow> (case reserve env input db of Inl _ \<Rightarrow> db | Inr (after, _) \<Rightarrow> after)
     | Run_lifecycle command \<Rightarrow>
         (case runCommand env command db of Inl _ \<Rightarrow> db | Inr (after, _) \<Rightarrow> after))"

fun runPayments :: "cashu_env \<Rightarrow> payment_command list \<Rightarrow> db \<Rightarrow> db" where
  "runPayments env [] db = db"
| "runPayments env (c # cs) db = runPayments env cs (runPayment env c db)"

lemma runPayment_tables: "reservationTables db \<Longrightarrow> reservationTables (runPayment env c db)"
  by (auto simp: runPayment_def split: payment_command.split sum.splits
      dest: reserve_tables command_tables)

lemma runPayments_tables: "reservationTables db \<Longrightarrow> reservationTables (runPayments env cs db)"
  by (induction cs arbitrary: db) (auto intro: runPayment_tables)

end
