(* ===== verification/Keyset_Store.thy ===== *)
theory Keyset_Store
  imports Lifecycle Keyset_Snapshot Commit Interfaces
begin

text \<open>
  \<^verbatim>\<open>postgres-cashu-keyset-repository.ts\<close>: the store of keyset observations.  A keyset's immutable
  material (its keys, unit, input fee and expiry) is kept once per mint and id; an observation names
  the keysets that a mint listed at a time and which of them were active.
\<close>

type_synonym 'a keyset_result = "keyset_repository_error failure + 'a"

section \<open>Fingerprints\<close>

definition keysJson :: "(string \<times> string) list \<Rightarrow> json" where
  "keysJson ks = JObj (map (\<lambda>(amount, key). (amount, JStr key)) ks)"

definition identityJson :: "string \<Rightarrow> keyset_entry \<Rightarrow> json" where
  "identityJson mintUrl keyset =
     JObj [(''finalExpiry'', jOpt JNum (kse_finalExpiry keyset)),
       (''id'', JStr (kse_id keyset)),
       (''inputFeePpk'', JNum (kse_inputFeePpk keyset)),
       (''keys'', keysJson (kse_keys keyset)),
       (''mintUrl'', JStr mintUrl),
       (''schemaVersion'', JNum CASHU_KEYSET_SNAPSHOT_SCHEMA_VERSION),
       (''unit'', JStr (kse_unit keyset))]"

definition createIdentityFingerprint :: "cashu_env \<Rightarrow> string \<Rightarrow> keyset_entry \<Rightarrow> string" where
  "createIdentityFingerprint env mintUrl keyset = env_sha256 env (identityJson mintUrl keyset)"

record validated_observation =
  vo_operatorId :: string
  vo_snapshot :: keyset_snapshot
  vo_unit :: string

definition observedKeysetJson :: "keyset_entry \<Rightarrow> json" where
  "observedKeysetJson keyset =
     JObj [(''active'', JBool (kse_active keyset)),
       (''finalExpiry'', jOpt JNum (kse_finalExpiry keyset)),
       (''id'', JStr (kse_id keyset)),
       (''inputFeePpk'', JNum (kse_inputFeePpk keyset)),
       (''keys'', keysJson (kse_keys keyset)),
       (''unit'', JStr (kse_unit keyset))]"

definition createSnapshotFingerprint :: "cashu_env \<Rightarrow> validated_observation \<Rightarrow> string" where
  "createSnapshotFingerprint env observation =
     env_sha256 env (JObj
       [(''keysets'', JArr (map observedKeysetJson (kss_keysets (vo_snapshot observation)))),
        (''mintUrl'', JStr (kss_mintUrl (vo_snapshot observation))),
        (''observedAt'', JNum (kss_observedAt (vo_snapshot observation))),
        (''operatorId'', JStr (vo_operatorId observation)),
        (''schemaVersion'', JNum (kss_schemaVersion (vo_snapshot observation))),
        (''unit'', JStr (vo_unit observation))])"

section \<open>Validation\<close>

definition invalidKeysetInput :: "'e + 'a \<Rightarrow> 'a keyset_result" where
  "invalidKeysetInput = catchR (\<lambda>_. Repository_failure KSR_invalid_input)"

definition invalidKeysetRecord :: "'e + 'a \<Rightarrow> 'a keyset_result" where
  "invalidKeysetRecord = catchR (\<lambda>_. Repository_failure KSR_invalid_record)"

lemma invalidKeyset_iff [simp]:
  "invalidKeysetInput m = Inr x \<longleftrightarrow> m = Inr x" "invalidKeysetInput (Inr x) = Inr x"
  "invalidKeysetRecord m = Inr x \<longleftrightarrow> m = Inr x" "invalidKeysetRecord (Inr x) = Inr x"
  by (simp_all add: invalidKeysetInput_def invalidKeysetRecord_def catchR_eq_Inr)

definition validateObservation ::
  "cashu_env \<Rightarrow> persist_keysets_input \<Rightarrow> validated_observation keyset_result" where
  "validateObservation env input =
     bindR (invalidKeysetInput (identifierOf (pki_operatorId input))) (\<lambda>validatedOperatorId.
     bindR (invalidKeysetInput (normalizeUnit (pki_unit input))) (\<lambda>unit.
     bindR (invalidKeysetInput (createCashuKeysetSnapshotV1 env
              (keysetSnapshotInput (pki_snapshot input)))) (\<lambda>snapshot.
     if list_ex (\<lambda>keyset. kse_unit keyset \<noteq> unit) (kss_keysets snapshot)
     then failWith KSR_invalid_input
     else Inr \<lparr>vo_operatorId = validatedOperatorId, vo_snapshot = snapshot, vo_unit = unit\<rparr>)))"

definition validateFreshLookup :: "cashu_env \<Rightarrow> keyset_query \<Rightarrow> keyset_query keyset_result" where
  "validateFreshLookup env input =
     bindR (invalidKeysetInput (unixTimestamp (kq_observedAtOrAfter input))) (\<lambda>observedAtOrAfter.
     bindR (invalidKeysetInput (unixTimestamp (kq_observedAtOrBefore input))) (\<lambda>observedAtOrBefore.
     if observedAtOrAfter > observedAtOrBefore then failWith KSR_invalid_input
     else
     bindR (invalidKeysetInput (normalizeCashuMintUrl env (kq_mintUrl input))) (\<lambda>mintUrl.
     bindR (invalidKeysetInput (identifierOf (kq_operatorId input))) (\<lambda>operatorId.
     bindR (invalidKeysetInput (normalizeUnit (kq_unit input))) (\<lambda>unit.
     Inr \<lparr>kq_mintUrl = mintUrl, kq_observedAtOrAfter = observedAtOrAfter,
          kq_observedAtOrBefore = observedAtOrBefore, kq_operatorId = operatorId,
          kq_unit = unit\<rparr>)))))"

definition parsePositiveSafeInteger :: "'e \<Rightarrow> int \<Rightarrow> 'e + int" where
  "parsePositiveSafeInteger e v =
     bindR (readBigint e v) (\<lambda>parsed. if parsed = 0 then Inl e else Inr parsed)"

text \<open>The keyset of a stored row, \<open>active\<close> being no part of the identity.\<close>

definition storedKeysetInput :: "bool \<Rightarrow> keyset_row \<Rightarrow> keyset_entry_input keyset_result" where
  "storedKeysetInput active row =
     bindR (case kr_final_expiry row of None \<Rightarrow> Inr None
            | Some t \<Rightarrow> bindR (parsePositiveSafeInteger (Repository_failure KSR_invalid_record) t)
                (\<lambda>u. Inr (Some u))) (\<lambda>finalExpiry.
     bindR (readBigint (Repository_failure KSR_invalid_record) (kr_input_fee_ppk row)) (\<lambda>inputFeePpk.
     Inr \<lparr>ksi_active = active, ksi_finalExpiry = finalExpiry, ksi_id = kr_keyset_id row,
          ksi_inputFeePpk = Some inputFeePpk, ksi_keys = kr_keys row, ksi_unit = kr_unit row\<rparr>))"

definition validateStoredIdentity :: "cashu_env \<Rightarrow> keyset_row \<Rightarrow> unit keyset_result" where
  "validateStoredIdentity env row =
     bindR (invalidKeysetRecord (normalizeCashuMintUrl env (kr_mint_url row))) (\<lambda>mintUrl.
     if mintUrl \<noteq> kr_mint_url row then failWith KSR_invalid_record
     else
     bindR (storedKeysetInput False row) (\<lambda>keyset.
     bindR (invalidKeysetRecord (normalizeUnit (kr_unit row))) (\<lambda>unit.
     bindR (invalidKeysetRecord (createCashuKeysetSnapshotV1 env
              \<lparr>kssi_keysets = [keyset], kssi_mintUrl = mintUrl, kssi_observedAt = 0,
               kssi_schemaVersion = None\<rparr>)) (\<lambda>snapshot.
     case kss_keysets snapshot of
       [] \<Rightarrow> failWith KSR_invalid_record
     | k # _ \<Rightarrow>
         if createIdentityFingerprint env (kss_mintUrl snapshot) k \<noteq> kr_identity_fingerprint row
         then failWith KSR_invalid_record else Inr ()))))"

section \<open>The tables\<close>

text \<open>
  \<^verbatim>\<open>INSERT ... ON CONFLICT DO NOTHING\<close>.  Of the row checks only the width of \<open>mint_url\<close> is no
  repetition of the validation: a normal form may be longer than the URL it was made from.
\<close>

definition insertKeyset :: "db \<Rightarrow> keyset_row \<Rightarrow> db_error + db" where
  "insertKeyset db new =
     bindR (checkRow (length (kr_mint_url new) \<le> 512)) (\<lambda>_.
     Inr (if list_ex (\<lambda>k. kr_mint_url k = kr_mint_url new \<and> kr_keyset_id k = kr_keyset_id new)
             (db_keysets db)
          then db else db\<lparr>db_keysets := db_keysets db @ [new]\<rparr>))"

definition insertKeysetObservation ::
  "db \<Rightarrow> keyset_observation_row \<Rightarrow> db_error + db option" where
  "insertKeysetObservation db new =
    (if list_ex (\<lambda>o'. ko_snapshot_fingerprint o' = ko_snapshot_fingerprint new
          \<or> ko_operator_id o' = ko_operator_id new \<and> ko_mint_url o' = ko_mint_url new
            \<and> ko_unit o' = ko_unit new \<and> ko_observed_at o' = ko_observed_at new)
         (db_keysetObservations db)
     then Inr None
     else Inr (Some (queue [Keyset_observation_check (ko_snapshot_fingerprint new)]
            (db\<lparr>db_keysetObservations := db_keysetObservations db @ [new]\<rparr>))))"

definition insertKeysetEntry :: "db \<Rightarrow> keyset_entry_row \<Rightarrow> db_error + db" where
  "insertKeysetEntry db new =
     bindR (checkRow (0 \<le> ke_position new \<and> ke_position new < 64)) (\<lambda>_.
     bindR (requireUnique ''cashu_keyset_observation_entries_pkey''
              (\<lambda>e. (ke_snapshot_fingerprint e, ke_position e)) (db_keysetEntries db) new) (\<lambda>_.
     bindR (requireUnique ''cashu_keyset_observation_entries_keyset_unique''
              (\<lambda>e. (ke_snapshot_fingerprint e, ke_keyset_id e)) (db_keysetEntries db) new) (\<lambda>_.
     bindR (requireExists (\<lambda>o'. ko_snapshot_fingerprint o' = ke_snapshot_fingerprint new
              \<and> ko_mint_url o' = ke_mint_url new \<and> ko_unit o' = ke_unit new)
              (db_keysetObservations db)) (\<lambda>_.
     bindR (requireExists (\<lambda>k. kr_mint_url k = ke_mint_url new
              \<and> kr_keyset_id k = ke_keyset_id new \<and> kr_unit k = ke_unit new)
              (db_keysets db)) (\<lambda>_.
     Inr (db\<lparr>db_keysetEntries := db_keysetEntries db @ [new]\<rparr>))))))"

fun insertKeysetEntries :: "db \<Rightarrow> keyset_entry_row list \<Rightarrow> db_error + db" where
  "insertKeysetEntries db [] = Inr db"
| "insertKeysetEntries db (row # rows) =
     bindR (insertKeysetEntry db row) (\<lambda>after. insertKeysetEntries after rows)"

section \<open>Reading an observation\<close>

definition keysetEntriesOf :: "db \<Rightarrow> string \<Rightarrow> (keyset_entry_row \<times> keyset_row) list" where
  "keysetEntriesOf db f =
     sort_key (\<lambda>(e, k). ke_position e)
       [(e, k). e \<leftarrow> db_keysetEntries db, ke_snapshot_fingerprint e = f, k \<leftarrow> db_keysets db,
          kr_mint_url k = ke_mint_url e \<and> kr_keyset_id k = ke_keyset_id e
          \<and> kr_unit k = ke_unit e]"

definition observedKeyset ::
  "string \<Rightarrow> string \<Rightarrow> nat \<times> keyset_entry_row \<times> keyset_row \<Rightarrow> keyset_entry_input keyset_result" where
  "observedKeyset mintUrl unit = (\<lambda>(position, e, k).
     if ke_position e \<noteq> int position \<or> ke_mint_url e \<noteq> mintUrl \<or> ke_unit e \<noteq> unit
     then failWith KSR_invalid_record
     else storedKeysetInput (ke_active e) k)"

definition sameIdentities ::
  "cashu_env \<Rightarrow> string \<Rightarrow> (keyset_entry_row \<times> keyset_row) list \<Rightarrow> keyset_entry list \<Rightarrow> bool" where
  "sameIdentities env mintUrl entries keysets \<longleftrightarrow>
     list_all (\<lambda>(position, keyset).
       case nthOpt entries position of
         None \<Rightarrow> False
       | Some (e, k) \<Rightarrow> ke_keyset_id e = kse_id keyset
           \<and> kr_identity_fingerprint k = createIdentityFingerprint env mintUrl keyset)
       (List.enumerate 0 keysets)"

definition mapObservation ::
  "cashu_env \<Rightarrow> db \<Rightarrow> keyset_observation_row \<Rightarrow> keyset_snapshot keyset_result" where
  "mapObservation env db observationRow =
    (let entries = keysetEntriesOf db (ko_snapshot_fingerprint observationRow) in
     if ko_schema_version observationRow \<noteq> CASHU_KEYSET_SNAPSHOT_SCHEMA_VERSION \<or> entries = []
     then failWith KSR_invalid_record
     else
     bindR (invalidKeysetRecord (identifierOf (ko_operator_id observationRow))) (\<lambda>storedOperatorId.
     bindR (invalidKeysetRecord (normalizeCashuMintUrl env (ko_mint_url observationRow))) (\<lambda>mintUrl.
     if mintUrl \<noteq> ko_mint_url observationRow then failWith KSR_invalid_record
     else
     bindR (invalidKeysetRecord (normalizeUnit (ko_unit observationRow))) (\<lambda>unit.
     bindR (invalidKeysetRecord (readBigint () (ko_observed_at observationRow))) (\<lambda>observedAt.
     bindR (mapR (observedKeyset mintUrl unit) (List.enumerate 0 entries)) (\<lambda>keysets.
     bindR (invalidKeysetRecord (createCashuKeysetSnapshotV1 env
              \<lparr>kssi_keysets = keysets, kssi_mintUrl = mintUrl, kssi_observedAt = observedAt,
               kssi_schemaVersion = Some (ko_schema_version observationRow)\<rparr>)) (\<lambda>snapshot.
     if list_ex (\<lambda>keyset. kse_unit keyset \<noteq> unit) (kss_keysets snapshot)
        \<or> \<not> sameIdentities env mintUrl entries (kss_keysets snapshot)
        \<or> createSnapshotFingerprint env
             \<lparr>vo_operatorId = storedOperatorId, vo_snapshot = snapshot, vo_unit = unit\<rparr>
           \<noteq> ko_snapshot_fingerprint observationRow
     then failWith KSR_invalid_record
     else Inr snapshot)))))))"

section \<open>Operations\<close>

definition keysetRowOf :: "cashu_env \<Rightarrow> string \<Rightarrow> keyset_entry \<Rightarrow> keyset_row" where
  "keysetRowOf env mintUrl keyset =
     \<lparr>kr_mint_url = mintUrl, kr_keyset_id = kse_id keyset, kr_unit = kse_unit keyset,
      kr_input_fee_ppk = kse_inputFeePpk keyset, kr_final_expiry = kse_finalExpiry keyset,
      kr_keys = kse_keys keyset,
      kr_identity_fingerprint = createIdentityFingerprint env mintUrl keyset\<rparr>"

definition persistKeysetIdentity ::
  "cashu_env \<Rightarrow> string \<Rightarrow> db \<Rightarrow> keyset_entry \<Rightarrow> db keyset_result" where
  "persistKeysetIdentity env mintUrl db keyset =
     bindR (liftDb (insertKeyset db (keysetRowOf env mintUrl keyset))) (\<lambda>after.
     case findFirst (\<lambda>k. kr_mint_url k = mintUrl \<and> kr_keyset_id k = kse_id keyset)
            (db_keysets after) of
       None \<Rightarrow> failWith KSR_invalid_record
     | Some row \<Rightarrow>
         bindR (validateStoredIdentity env row) (\<lambda>_.
         if kr_identity_fingerprint row \<noteq> createIdentityFingerprint env mintUrl keyset
         then failWith KSR_keyset_collision
         else Inr after))"

fun persistKeysetIdentities ::
  "cashu_env \<Rightarrow> string \<Rightarrow> db \<Rightarrow> keyset_entry list \<Rightarrow> db keyset_result" where
  "persistKeysetIdentities env mintUrl db [] = Inr db"
| "persistKeysetIdentities env mintUrl db (k # ks) =
     bindR (persistKeysetIdentity env mintUrl db k) (\<lambda>after.
     persistKeysetIdentities env mintUrl after ks)"

definition findObservationAt ::
  "db \<Rightarrow> validated_observation \<Rightarrow> keyset_observation_row option" where
  "findObservationAt db observation =
     findFirst (\<lambda>o'. ko_operator_id o' = vo_operatorId observation
       \<and> ko_mint_url o' = kss_mintUrl (vo_snapshot observation) \<and> ko_unit o' = vo_unit observation
       \<and> ko_observed_at o' = kss_observedAt (vo_snapshot observation)) (db_keysetObservations db)"

definition observationRowOf :: "string \<Rightarrow> validated_observation \<Rightarrow> keyset_observation_row" where
  "observationRowOf f observation =
     \<lparr>ko_snapshot_fingerprint = f, ko_operator_id = vo_operatorId observation,
      ko_mint_url = kss_mintUrl (vo_snapshot observation), ko_unit = vo_unit observation,
      ko_schema_version = kss_schemaVersion (vo_snapshot observation),
      ko_observed_at = kss_observedAt (vo_snapshot observation)\<rparr>"

definition entryRowOf ::
  "string \<Rightarrow> validated_observation \<Rightarrow> nat \<Rightarrow> keyset_entry \<Rightarrow> keyset_entry_row" where
  "entryRowOf f observation position keyset =
     \<lparr>ke_snapshot_fingerprint = f, ke_mint_url = kss_mintUrl (vo_snapshot observation),
      ke_unit = vo_unit observation, ke_position = int position, ke_keyset_id = kse_id keyset,
      ke_active = kse_active keyset\<rparr>"

definition entryRowsOf :: "string \<Rightarrow> validated_observation \<Rightarrow> keyset_entry_row list" where
  "entryRowsOf f observation =
     map (\<lambda>(position, keyset). entryRowOf f observation position keyset)
       (List.enumerate 0 (kss_keysets (vo_snapshot observation)))"

definition persistObservationIn ::
  "cashu_env \<Rightarrow> validated_observation \<Rightarrow> db \<Rightarrow> (db \<times> persist_keysets_result) keyset_result" where
  "persistObservationIn env observation db =
    (let snapshotFingerprint = createSnapshotFingerprint env observation;
         snapshot = vo_snapshot observation in
     bindR (persistKeysetIdentities env (kss_mintUrl snapshot) db (kss_keysets snapshot)) (\<lambda>known.
     bindR (liftDb (insertKeysetObservation known
              (observationRowOf snapshotFingerprint observation))) (\<lambda>inserted.
     case inserted of
       None \<Rightarrow>
         (case findObservationAt known observation of
            None \<Rightarrow> failWith KSR_invalid_record
          | Some existing \<Rightarrow>
              if ko_snapshot_fingerprint existing \<noteq> snapshotFingerprint
              then failWith KSR_observation_conflict
              else bindR (mapObservation env known existing) (\<lambda>stored.
                   Inr (known, \<lparr>pkr_replayed = True, pkr_snapshot = stored\<rparr>)))
     | Some observed \<Rightarrow>
         bindR (liftDb (insertKeysetEntries observed
                  (entryRowsOf snapshotFingerprint observation))) (\<lambda>listed.
         Inr (listed, \<lparr>pkr_replayed = False, pkr_snapshot = snapshot\<rparr>)))))"

definition mapKeysetStorageError :: "keyset_repository_error failure \<Rightarrow> keyset_repository_error" where
  "mapKeysetStorageError f =
     (case f of Repository_failure c \<Rightarrow> c | _ \<Rightarrow> KSR_storage_unavailable)"

definition persistObservation ::
  "cashu_env \<Rightarrow> persist_keysets_input \<Rightarrow> db
     \<Rightarrow> keyset_repository_error + db \<times> persist_keysets_result" where
  "persistObservation env input db =
     catchR mapKeysetStorageError (
     bindR (validateObservation env input) (\<lambda>observation.
     withTransaction (persistObservationIn env observation) db))"

definition findLatestFreshSnapshot ::
  "cashu_env \<Rightarrow> db \<Rightarrow> keyset_query \<Rightarrow> keyset_repository_error + keyset_snapshot option" where
  "findLatestFreshSnapshot env db input =
     catchR mapKeysetStorageError (
     bindR (validateFreshLookup env input) (\<lambda>lookup.
     let rows = filter (\<lambda>o'. ko_operator_id o' = kq_operatorId lookup
           \<and> ko_mint_url o' = kq_mintUrl lookup \<and> ko_unit o' = kq_unit lookup
           \<and> ko_observed_at o' \<ge> kq_observedAtOrAfter lookup
           \<and> ko_observed_at o' \<le> kq_observedAtOrBefore lookup) (db_keysetObservations db)
     in case sort_key (\<lambda>o'. - ko_observed_at o') (sort_key ko_snapshot_fingerprint rows) of
          [] \<Rightarrow> Inr None
        | row # _ \<Rightarrow> bindR (mapObservation env db row) (\<lambda>snapshot. Inr (Some snapshot))))"

end
