(* ===== verification/Keyset_Facts.thy ===== *)
theory Keyset_Facts
  imports Keyset_Store
begin

text \<open>
  The tables of keyset observations: their invariant, what one \<open>persistObservation\<close> adds to them,
  and the round trip through \<open>findLatestFreshSnapshot\<close>.
\<close>

section \<open>The invariant\<close>

definition keysetKey :: "keyset_row \<Rightarrow> string \<times> string" where
  "keysetKey row = (kr_mint_url row, kr_keyset_id row)"

definition observationScope :: "keyset_observation_row \<Rightarrow> string \<times> string \<times> string \<times> int" where
  "observationScope o' = (ko_operator_id o', ko_mint_url o', ko_unit o', ko_observed_at o')"

text \<open>
  Every stored keyset is a valid keyset, kept once per mint and id; an operator has one observation
  per mint, unit and time; an entry belongs to an observation.
\<close>

definition keysetTables :: "cashu_env \<Rightarrow> db \<Rightarrow> bool" where
  "keysetTables env db \<longleftrightarrow>
     (\<forall>row \<in> set (db_keysets db).
        \<exists>k. keysetValid env k \<and> row = keysetRowOf env (kr_mint_url row) k)
     \<and> distinct (map keysetKey (db_keysets db))
     \<and> distinct (map observationScope (db_keysetObservations db))
     \<and> (\<forall>e \<in> set (db_keysetEntries db). \<exists>o' \<in> set (db_keysetObservations db).
          ko_snapshot_fingerprint o' = ke_snapshot_fingerprint e)
     \<and> db_deferred db = []"

lemma keysetRowOf_sel [simp]:
  "kr_mint_url (keysetRowOf env m k) = m" "kr_keyset_id (keysetRowOf env m k) = kse_id k"
  "kr_unit (keysetRowOf env m k) = kse_unit k" "keysetKey (keysetRowOf env m k) = (m, kse_id k)"
  "kr_identity_fingerprint (keysetRowOf env m k) = createIdentityFingerprint env m k"
  by (simp_all add: keysetRowOf_def keysetKey_def)

section \<open>Identities\<close>

lemma keysJson_inject [simp]: "keysJson ks = keysJson ks' \<longleftrightarrow> ks = ks'"
proof -
  have "inj (\<lambda>(amount, key). (amount, JStr key))" by (auto intro: injI)
  from inj_map_eq_map [OF this] show ?thesis by (simp only: keysJson_def json.inject)
qed

lemma jOpt_inject [simp]: "jOpt JNum v = jOpt JNum w \<longleftrightarrow> v = w"
  by (cases v; cases w) simp_all

lemma identityJson_row:
  "identityJson m k = identityJson m k' \<Longrightarrow> keysetRowOf env m k = keysetRowOf env m k'"
  by (simp add: identityJson_def keysetRowOf_def createIdentityFingerprint_def)

text \<open>The identities at hand: those of the stored keysets and of a snapshot that is to be stored.\<close>

definition rowIdentity :: "keyset_row \<Rightarrow> json" where
  "rowIdentity row = identityJson (kr_mint_url row)
     \<lparr>kse_active = False, kse_finalExpiry = kr_final_expiry row, kse_id = kr_keyset_id row,
      kse_inputFeePpk = kr_input_fee_ppk row, kse_keys = kr_keys row, kse_unit = kr_unit row\<rparr>"

definition identitiesAtHand :: "db \<Rightarrow> keyset_snapshot \<Rightarrow> json set" where
  "identitiesAtHand db snapshot =
     rowIdentity ` set (db_keysets db) \<union> identityJson (kss_mintUrl snapshot) ` set (kss_keysets snapshot)"

lemma rowIdentity_keysetRowOf [simp]: "rowIdentity (keysetRowOf env m k) = identityJson m k"
  by (simp add: rowIdentity_def keysetRowOf_def identityJson_def)

text \<open>\<open>identityKept m db k\<close>: a row of mint \<open>m\<close> has the id and the identity of \<open>k\<close>.\<close>

definition identityKept :: "cashu_env \<Rightarrow> string \<Rightarrow> db \<Rightarrow> keyset_entry \<Rightarrow> bool" where
  "identityKept env m db k \<longleftrightarrow>
     (\<exists>row \<in> set (db_keysets db). keysetKey row = (m, kse_id k)
        \<and> kr_identity_fingerprint row = createIdentityFingerprint env m k)"

lemma identityKept_append:
  "identityKept env m db k \<Longrightarrow>
   identityKept env m (db\<lparr>db_keysets := db_keysets db @ new\<rparr>) k"
  by (auto simp: identityKept_def)

lemma persistKeysetIdentity_Inr:
  assumes "persistKeysetIdentity env m db k = Inr db'"
  shows "\<exists>new. db' = db\<lparr>db_keysets := db_keysets db @ new\<rparr> \<and> length m \<le> 512
    \<and> (new = [] \<or> new = [keysetRowOf env m k] \<and> (m, kse_id k) \<notin> keysetKey ` set (db_keysets db))
    \<and> identityKept env m db' k"
proof -
  obtain after row where after: "insertKeyset db (keysetRowOf env m k) = Inr after" "db' = after"
    and row: "findFirst (\<lambda>r. kr_mint_url r = m \<and> kr_keyset_id r = kse_id k) (db_keysets after) = Some row"
      "kr_identity_fingerprint row = createIdentityFingerprint env m k"
    using assms by (auto simp: persistKeysetIdentity_def result_simps split: option.splits if_splits)
  have "identityKept env m db' k"
    using findFirst_Some [OF row(1)] row(2) after(2) by (auto simp: identityKept_def keysetKey_def)
  moreover have "length m \<le> 512" using after(1) by (simp add: insertKeyset_def result_simps)
  moreover have "list_ex (\<lambda>r. kr_mint_url r = m \<and> kr_keyset_id r = kse_id k) (db_keysets db)
      \<longleftrightarrow> (m, kse_id k) \<in> keysetKey ` set (db_keysets db)"
    by (auto simp: list_ex_iff keysetKey_def)
  then have "after = (if (m, kse_id k) \<in> keysetKey ` set (db_keysets db) then db
      else db\<lparr>db_keysets := db_keysets db @ [keysetRowOf env m k]\<rparr>)"
    using after(1) by (simp add: insertKeyset_def result_simps)
  ultimately show ?thesis
    using after(2)
    by (cases "(m, kse_id k) \<in> keysetKey ` set (db_keysets db)")
      (intro exI [of _ "[]"], simp, intro exI [of _ "[keysetRowOf env m k]"], simp)
qed

lemma persistKeysetIdentities_Inr:
  assumes "persistKeysetIdentities env m db ks = Inr db'"
  shows "\<exists>new. db' = db\<lparr>db_keysets := db_keysets db @ new\<rparr> \<and> set new \<subseteq> keysetRowOf env m ` set ks
    \<and> (ks \<noteq> [] \<longrightarrow> length m \<le> 512)
    \<and> (distinct (map keysetKey (db_keysets db)) \<longrightarrow> distinct (map keysetKey (db_keysets db @ new)))
    \<and> (\<forall>k \<in> set ks. identityKept env m db' k)"
  using assms
proof (induction ks arbitrary: db)
  case (Cons k ks)
  then obtain mid where mid: "persistKeysetIdentity env m db k = Inr mid"
      "persistKeysetIdentities env m mid ks = Inr db'"
    by (auto simp: result_simps)
  from persistKeysetIdentity_Inr [OF mid(1)] obtain new0 where
    new0: "mid = db\<lparr>db_keysets := db_keysets db @ new0\<rparr>" "length m \<le> 512"
      "new0 = [] \<or> new0 = [keysetRowOf env m k] \<and> (m, kse_id k) \<notin> keysetKey ` set (db_keysets db)"
      "identityKept env m mid k"
    by blast
  from Cons.IH [OF mid(2)] obtain new where new: "db' = mid\<lparr>db_keysets := db_keysets mid @ new\<rparr>"
      "set new \<subseteq> keysetRowOf env m ` set ks"
      "distinct (map keysetKey (db_keysets mid)) \<longrightarrow> distinct (map keysetKey (db_keysets mid @ new))"
      "\<forall>k \<in> set ks. identityKept env m db' k"
    by blast
  have "identityKept env m db' k" using new0(4) new(1) identityKept_append by metis
  moreover have "distinct (map keysetKey (db_keysets db)) \<longrightarrow> distinct (map keysetKey (db_keysets mid))"
    using new0(1,3) by auto
  moreover have "db_keysets mid = db_keysets db @ new0" using new0(1) by simp
  moreover have "set (new0 @ new) \<subseteq> keysetRowOf env m ` set (k # ks)" using new0(3) new(2) by auto
  ultimately show ?case
    using new new0(1,2) by (intro exI [of _ "new0 @ new"]) simp
qed (intro exI [of _ "[]"], simp)

text \<open>Without a collision among the identities at hand, the stored keyset is the observed one.\<close>

lemma identity_stored:
  assumes "persistKeysetIdentities env (kss_mintUrl s) db (kss_keysets s) = Inr db'"
    and "keysetTables env db" and "inj_on (env_sha256 env) (identitiesAtHand db s)"
    and "k \<in> set (kss_keysets s)"
  shows "keysetRowOf env (kss_mintUrl s) k \<in> set (db_keysets db')"
proof -
  let ?m = "kss_mintUrl s"
  from persistKeysetIdentities_Inr [OF assms(1)] assms(4) obtain new row where
    new: "db' = db\<lparr>db_keysets := db_keysets db @ new\<rparr>" "set new \<subseteq> keysetRowOf env ?m ` set (kss_keysets s)"
    and row: "row \<in> set (db_keysets db')" "keysetKey row = (?m, kse_id k)"
      "kr_identity_fingerprint row = createIdentityFingerprint env ?m k"
    unfolding identityKept_def by blast
  have "row \<in> set (db_keysets db) \<or> row \<in> keysetRowOf env ?m ` set (kss_keysets s)"
    using new row(1) by auto
  then obtain k' where k': "row = keysetRowOf env ?m k'" "identityJson ?m k' \<in> identitiesAtHand db s"
  proof
    assume old: "row \<in> set (db_keysets db)"
    then obtain k' where "row = keysetRowOf env (kr_mint_url row) k'"
      using assms(2) by (auto simp: keysetTables_def)
    moreover have "kr_mint_url row = ?m" using row(2) by (simp add: keysetKey_def)
    ultimately show thesis
      using old that [of k'] by (metis UnCI identitiesAtHand_def imageI rowIdentity_keysetRowOf)
  qed (auto simp: identitiesAtHand_def)
  moreover have "identityJson ?m k \<in> identitiesAtHand db s"
    using assms(4) by (simp add: identitiesAtHand_def)
  ultimately have "identityJson ?m k' = identityJson ?m k"
    using row(3) assms(3) by (simp add: createIdentityFingerprint_def inj_on_def)
  with k' row(1) show ?thesis using identityJson_row by metis
qed

section \<open>What an observation adds\<close>

lemma insertKeysetEntries_Inr:
  "insertKeysetEntries db rows = Inr db' \<Longrightarrow>
     db' = db\<lparr>db_keysetEntries := db_keysetEntries db @ rows\<rparr>"
proof (induction rows arbitrary: db)
  case (Cons row rows)
  then have "insertKeysetEntries (db\<lparr>db_keysetEntries := db_keysetEntries db @ [row]\<rparr>) rows = Inr db'"
    by (auto simp: insertKeysetEntry_def result_simps)
  from Cons.IH [OF this] show ?case by simp
qed simp

lemma validateObservation_Inr:
  assumes "validateObservation env input = Inr v"
  shows "vo_operatorId v = pki_operatorId input \<and> vo_unit v = pki_unit input
    \<and> identifierPattern (pki_operatorId input) \<and> normalizeUnit (pki_unit input) = Inr (pki_unit input)
    \<and> createCashuKeysetSnapshotV1 env (keysetSnapshotInput (pki_snapshot input)) = Inr (vo_snapshot v)
    \<and> (\<forall>k \<in> set (kss_keysets (vo_snapshot v)). kse_unit k = pki_unit input)"
proof -
  have "normalizeUnit u = Inr w \<Longrightarrow> w = u" for u w
    by (auto simp: normalizeUnit_def split: if_splits)
  then show ?thesis
    using assms
    by (auto simp: validateObservation_def result_simps list_ex_iff split: if_splits)
qed

lemma observationRowOf_scope [simp]:
  "observationScope (observationRowOf f v) = (vo_operatorId v, kss_mintUrl (vo_snapshot v),
     vo_unit v, kss_observedAt (vo_snapshot v))"
  "ko_snapshot_fingerprint (observationRowOf f v) = f"
  by (simp_all add: observationScope_def observationRowOf_def)

definition observedDb :: "cashu_env \<Rightarrow> validated_observation \<Rightarrow> keyset_row list \<Rightarrow> db \<Rightarrow> db" where
  "observedDb env v new db =
    (let f = createSnapshotFingerprint env v in
     db\<lparr>db_keysets := db_keysets db @ new,
        db_keysetObservations := db_keysetObservations db @ [observationRowOf f v],
        db_keysetEntries := db_keysetEntries db @ entryRowsOf f v, db_deferred := []\<rparr>)"

lemma persistObservation_cases:
  assumes "persistObservation env input db = Inr (db', res)" and "db_deferred db = []"
  obtains (fresh) v new where "validateObservation env input = Inr v"
    "persistKeysetIdentities env (kss_mintUrl (vo_snapshot v)) db (kss_keysets (vo_snapshot v))
       = Inr (db\<lparr>db_keysets := db_keysets db @ new\<rparr>)"
    "\<not> pkr_replayed res" "db' = observedDb env v new db" "pkr_snapshot res = vo_snapshot v"
    "\<forall>o' \<in> set (db_keysetObservations db).
       ko_snapshot_fingerprint o' \<noteq> createSnapshotFingerprint env v
       \<and> observationScope o' \<noteq> (vo_operatorId v, kss_mintUrl (vo_snapshot v), vo_unit v,
            kss_observedAt (vo_snapshot v))"
  | (replay) v new row where "validateObservation env input = Inr v"
    "persistKeysetIdentities env (kss_mintUrl (vo_snapshot v)) db (kss_keysets (vo_snapshot v))
       = Inr (db\<lparr>db_keysets := db_keysets db @ new\<rparr>)"
    "pkr_replayed res" "db' = db\<lparr>db_keysets := db_keysets db @ new\<rparr>"
    "findObservationAt db' v = Some row" "mapObservation env db' row = Inr (pkr_snapshot res)"
proof -
  let ?f = "\<lambda>v. createSnapshotFingerprint env v"
  obtain v after where v: "validateObservation env input = Inr v"
      "persistObservationIn env v db = Inr (after, res)" "db' = after\<lparr>db_deferred := []\<rparr>"
    using assms(1) by (auto simp: persistObservation_def result_simps withTransaction_iff)
  then obtain known inserted where known:
      "persistKeysetIdentities env (kss_mintUrl (vo_snapshot v)) db (kss_keysets (vo_snapshot v)) = Inr known"
      "insertKeysetObservation known (observationRowOf (?f v) v) = Inr inserted"
    by (auto simp: persistObservationIn_def result_simps Let_def)
  from persistKeysetIdentities_Inr [OF known(1)] obtain new where
    new: "known = db\<lparr>db_keysets := db_keysets db @ new\<rparr>" by blast
  show thesis
  proof (cases inserted)
    case None
    then obtain row where row: "findObservationAt known v = Some row" "after = known"
        "mapObservation env known row = Inr (pkr_snapshot res)" "pkr_replayed res"
      using v(2) known
      by (auto simp: persistObservationIn_def result_simps Let_def split: option.splits if_splits)
    have "db' = known" using v(3) row(2) new assms(2) by simp
    then have same: "db' = db\<lparr>db_keysets := db_keysets db @ new\<rparr>" using new by simp
    show thesis
      using known(1) row same \<open>db' = known\<close>
      by (intro replay [OF v(1) _ row(4) same]) simp_all
  next
    case (Some observed)
    with v(2) known obtain listed where listed:
        "insertKeysetEntries observed (entryRowsOf (?f v) v) = Inr listed" "after = listed"
        "res = \<lparr>pkr_replayed = False, pkr_snapshot = vo_snapshot v\<rparr>"
      by (auto simp: persistObservationIn_def result_simps Let_def)
    with v(3) insertKeysetEntries_Inr [OF listed(1)] known(2) Some new
    have "db' = observedDb env v new db"
      by (auto simp: insertKeysetObservation_def observedDb_def Let_def queue_def split: if_splits)
    moreover have "\<forall>o' \<in> set (db_keysetObservations db). ko_snapshot_fingerprint o' \<noteq> ?f v
       \<and> observationScope o' \<noteq> (vo_operatorId v, kss_mintUrl (vo_snapshot v), vo_unit v,
            kss_observedAt (vo_snapshot v))"
      using known(2) Some new
      by (auto simp: insertKeysetObservation_def list_ex_iff observationScope_def observationRowOf_def
          split: if_splits)
    ultimately show thesis
      using known(1) new listed(3) by (intro fresh [OF v(1)]) simp_all
  qed
qed

section \<open>Reading an observation back\<close>

lemma in_set_enumerate: "(n, k) \<in> set (List.enumerate i ks) \<Longrightarrow> k \<in> set ks"
  by (auto simp: enumerate_eq_zip dest: set_zip_rightD)

lemma keysetValid_parts:
  assumes "keysetValid env k"
  shows "storedKeysetInput (kse_active k) (keysetRowOf env m k) = Inr (keysetInput k)"
proof -
  have valid: "normalizeKeyset env (keysetInput k) = Inr k" using assms by (simp add: keysetValid_def)
  then have "normalizeFinalExpiry (kse_finalExpiry k) = Inr (kse_finalExpiry k)"
      "0 \<le> kse_inputFeePpk k" "isSafeInteger (kse_inputFeePpk k)"
    unfolding normalizeKeyset_Inr by (simp_all add: keysetInput_def)
  then show ?thesis
    by (auto simp: isSafeInteger_def readBigint_safe storedKeysetInput_def keysetRowOf_def keysetInput_def parsePositiveSafeInteger_def
        normalizeFinalExpiry_iff split: option.splits)
qed

lemma filter_keysetKey:
  assumes "distinct (map keysetKey rows)" and "row \<in> set rows" and "keysetKey row = (m, kid)"
    and "kr_unit row = u"
  shows "filter (\<lambda>k. kr_mint_url k = m \<and> kr_keyset_id k = kid \<and> kr_unit k = u) rows = [row]"
  using assms
proof (induction rows)
  case (Cons r rows)
  show ?case
  proof (cases "r = row")
    case True
    with Cons.prems have "\<forall>x \<in> set rows. \<not> (kr_mint_url x = m \<and> kr_keyset_id x = kid)"
      by (auto simp: keysetKey_def image_iff)
    with True Cons.prems(3,4) show ?thesis by (auto simp: keysetKey_def filter_empty_conv)
  next
    case False
    with Cons show ?thesis by (auto simp: keysetKey_def image_iff)
  qed
qed simp

lemma entryRowOf_sel [simp]:
  "ke_snapshot_fingerprint (entryRowOf f v n k) = f" "ke_position (entryRowOf f v n k) = int n"
  "ke_mint_url (entryRowOf f v n k) = kss_mintUrl (vo_snapshot v)" "ke_unit (entryRowOf f v n k) = vo_unit v"
  "ke_keyset_id (entryRowOf f v n k) = kse_id k" "ke_active (entryRowOf f v n k) = kse_active k"
  by (simp_all add: entryRowOf_def)

text \<open>The stored rows of an observation, in the order of its keysets.\<close>

definition joinedRows ::
  "cashu_env \<Rightarrow> string \<Rightarrow> validated_observation \<Rightarrow> (keyset_entry_row \<times> keyset_row) list" where
  "joinedRows env f v =
     map (\<lambda>(n, k). (entryRowOf f v n k, keysetRowOf env (kss_mintUrl (vo_snapshot v)) k))
       (List.enumerate 0 (kss_keysets (vo_snapshot v)))"

lemma joinedRows_sorted: "sort_key (\<lambda>(e, k). ke_position e) (joinedRows env f v) = joinedRows env f v"
  by (rule sort_key_fixed)
    (auto simp: joinedRows_def strictlyIncreasing_iff sorted_wrt_iff_nth_less nth_enumerate_eq)

lemma keysetEntriesOf_observed:
  assumes "db_keysetEntries db' = old @ entryRowsOf f v"
    and "\<forall>e \<in> set old. ke_snapshot_fingerprint e \<noteq> f"
    and "distinct (map keysetKey (db_keysets db'))"
    and "\<forall>k \<in> set (kss_keysets (vo_snapshot v)).
           keysetRowOf env (kss_mintUrl (vo_snapshot v)) k \<in> set (db_keysets db') \<and> kse_unit k = vo_unit v"
  shows "keysetEntriesOf db' f = joinedRows env f v"
proof -
  let ?m = "kss_mintUrl (vo_snapshot v)"
  let ?join = "\<lambda>e. if ke_snapshot_fingerprint e = f
      then map (Pair e) (filter (\<lambda>k. kr_mint_url k = ke_mint_url e \<and> kr_keyset_id k = ke_keyset_id e
         \<and> kr_unit k = ke_unit e) (db_keysets db')) else []"
  have join: "concat (map (\<lambda>k. if P k then [(e, k)] else []) ks) = map (Pair e) (filter P ks)"
    for e :: keyset_entry_row and P and ks :: "keyset_row list"
    by (induction ks) auto
  have rows: "[(e, k). e \<leftarrow> es, ke_snapshot_fingerprint e = f, k \<leftarrow> db_keysets db',
          kr_mint_url k = ke_mint_url e \<and> kr_keyset_id k = ke_keyset_id e \<and> kr_unit k = ke_unit e]
      = concat (map ?join es)" for es :: "keyset_entry_row list"
    by (rule arg_cong [where f = concat], rule map_cong [OF refl]) (auto simp: join)
  have none: "concat (map ?join old) = []" using assms(2) by (simp add: concat_eq_Nil_conv)
  have "?join (entryRowOf f v n k) = [(entryRowOf f v n k, keysetRowOf env ?m k)]"
    if "k \<in> set (kss_keysets (vo_snapshot v))" for n k
    using filter_keysetKey [OF assms(3), of "keysetRowOf env ?m k" ?m "kse_id k" "vo_unit v"]
      assms(4) that by simp
  then have "concat (map ?join (entryRowsOf f v)) = joinedRows env f v"
    unfolding entryRowsOf_def joinedRows_def map_map
    by (intro trans [OF arg_cong [where f = concat, OF map_cong [OF refl]] concat_map_singleton])
      (auto dest: in_set_enumerate)
  then have "concat (map ?join (old @ entryRowsOf f v)) = joinedRows env f v"
    unfolding map_append concat_append none by simp
  then show ?thesis
    unfolding keysetEntriesOf_def rows assms(1) by (simp only: joinedRows_sorted)
qed

lemma observedKeysets:
  assumes "\<forall>k \<in> set ks. keysetValid env k \<and> kse_unit k = vo_unit v"
  shows "mapR (observedKeyset (kss_mintUrl (vo_snapshot v)) (vo_unit v))
      (List.enumerate n (map (\<lambda>(n, k). (entryRowOf f v n k, keysetRowOf env (kss_mintUrl (vo_snapshot v)) k))
         (List.enumerate n ks))) = Inr (map keysetInput ks)"
  using assms
  by (induction ks arbitrary: n) (auto simp: observedKeyset_def keysetValid_parts)

lemma sameIdentities_joined:
  "sameIdentities env (kss_mintUrl (vo_snapshot v)) (joinedRows env f v) (kss_keysets (vo_snapshot v))"
  by (auto simp: sameIdentities_def joinedRows_def list_all_length nth_enumerate_eq nthOpt_def)

lemma mapObservation_observed:
  assumes "keysetEntriesOf db' f = joinedRows env f v"
    and "f = createSnapshotFingerprint env v" and "keysetSnapshotValid env (vo_snapshot v)"
    and "identifierPattern (vo_operatorId v)" and "normalizeUnit (vo_unit v) = Inr (vo_unit v)"
    and "\<forall>k \<in> set (kss_keysets (vo_snapshot v)). kse_unit k = vo_unit v"
  shows "mapObservation env db' (observationRowOf f v) = Inr (vo_snapshot v)"
proof -
  have "joinedRows env f v \<noteq> []"
    using assms(3) by (auto simp: joinedRows_def keysetSnapshotValid_def enumerate_eq_zip)
  moreover have "mapR (observedKeyset (kss_mintUrl (vo_snapshot v)) (vo_unit v))
      (List.enumerate 0 (joinedRows env f v)) = Inr (map keysetInput (kss_keysets (vo_snapshot v)))"
    unfolding joinedRows_def
    using assms(3,6) by (intro observedKeysets) (simp add: keysetSnapshotValid_def)
  moreover have "createCashuKeysetSnapshotV1 env
      \<lparr>kssi_keysets = map keysetInput (kss_keysets (vo_snapshot v)),
       kssi_mintUrl = kss_mintUrl (vo_snapshot v), kssi_observedAt = kss_observedAt (vo_snapshot v),
       kssi_schemaVersion = Some 1\<rparr> = Inr (vo_snapshot v)"
    using keysetSnapshotValid_recreate [OF assms(3)] assms(3)
    by (simp add: keysetSnapshotInput_def keysetSnapshotValid_def)
  moreover have eta: "\<lparr>vo_operatorId = vo_operatorId v, vo_snapshot = vo_snapshot v, vo_unit = vo_unit v\<rparr> = v"
    by simp
  ultimately show ?thesis
    using assms sameIdentities_joined [of env v f]
    by (simp add: eta mapObservation_def observationRowOf_def keysetSnapshotValid_def list_ex_iff
        CASHU_KEYSET_SNAPSHOT_SCHEMA_VERSION_def Let_def)
qed

section \<open>The round trip\<close>

lemma validateFreshLookup_exact:
  assumes "keysetSnapshotValid env s" and "identifierPattern oid" and "normalizeUnit u = Inr u"
  shows "validateFreshLookup env \<lparr>kq_mintUrl = kss_mintUrl s, kq_observedAtOrAfter = kss_observedAt s,
      kq_observedAtOrBefore = kss_observedAt s, kq_operatorId = oid, kq_unit = u\<rparr>
    = Inr \<lparr>kq_mintUrl = kss_mintUrl s, kq_observedAtOrAfter = kss_observedAt s,
      kq_observedAtOrBefore = kss_observedAt s, kq_operatorId = oid, kq_unit = u\<rparr>"
  using assms by (simp add: validateFreshLookup_def keysetSnapshotValid_def)

lemma filter_distinct_key:
  assumes "distinct (map f xs)" and "x \<in> set xs"
  shows "filter (\<lambda>y. f y = f x) xs = [x]"
  using assms
  by (induction xs) (auto simp: filter_empty_conv image_iff)

lemma findLatest_exact:
  assumes "keysetSnapshotValid env s" and "identifierPattern oid" and "normalizeUnit u = Inr u"
    and "distinct (map observationScope (db_keysetObservations db))"
    and "row \<in> set (db_keysetObservations db)"
    and "observationScope row = (oid, kss_mintUrl s, u, kss_observedAt s)"
  shows "findLatestFreshSnapshot env db \<lparr>kq_mintUrl = kss_mintUrl s,
      kq_observedAtOrAfter = kss_observedAt s, kq_observedAtOrBefore = kss_observedAt s,
      kq_operatorId = oid, kq_unit = u\<rparr>
    = catchR mapKeysetStorageError (bindR (mapObservation env db row) (\<lambda>snapshot. Inr (Some snapshot)))"
proof -
  have "filter (\<lambda>o'. ko_operator_id o' = oid \<and> ko_mint_url o' = kss_mintUrl s \<and> ko_unit o' = u
      \<and> ko_observed_at o' \<ge> kss_observedAt s \<and> ko_observed_at o' \<le> kss_observedAt s)
      (db_keysetObservations db)
    = filter (\<lambda>o'. observationScope o' = observationScope row) (db_keysetObservations db)"
    using assms(6) by (intro filter_cong [OF refl]) (auto simp: observationScope_def)
  also have "\<dots> = [row]" by (rule filter_distinct_key [OF assms(4,5)])
  finally have rows: "filter (\<lambda>o'. ko_operator_id o' = oid \<and> ko_mint_url o' = kss_mintUrl s \<and> ko_unit o' = u
      \<and> ko_observed_at o' \<ge> kss_observedAt s \<and> ko_observed_at o' \<le> kss_observedAt s)
      (db_keysetObservations db) = [row]" .
  show ?thesis
    unfolding findLatestFreshSnapshot_def validateFreshLookup_exact [OF assms(1-3)]
    by (simp add: rows)
qed

lemma validated_snapshot:
  assumes "validateObservation env input = Inr v" and "mintUrlStable env"
    and "persistKeysetIdentities env (kss_mintUrl (vo_snapshot v)) db (kss_keysets (vo_snapshot v)) = Inr known"
  shows "keysetSnapshotValid env (vo_snapshot v)"
proof -
  have created: "createCashuKeysetSnapshotV1 env (keysetSnapshotInput (pki_snapshot input)) = Inr (vo_snapshot v)"
    using validateObservation_Inr [OF assms(1)] by simp
  then have "length (kss_mintUrl (vo_snapshot v)) \<le> MAX_CASHU_ENDPOINT_LENGTH"
    using persistKeysetIdentities_Inr [OF assms(3)] createCashuKeysetSnapshotV1_parts
    by (auto simp: MAX_CASHU_ENDPOINT_LENGTH_def)
  with created assms(2) show ?thesis by (intro createCashuKeysetSnapshotV1_valid)
qed

lemma identities_tables:
  assumes "validateObservation env input = Inr v"
    and "persistKeysetIdentities env (kss_mintUrl (vo_snapshot v)) db (kss_keysets (vo_snapshot v))
       = Inr (db\<lparr>db_keysets := db_keysets db @ new\<rparr>)"
    and "keysetTables env db"
  shows "keysetTables env (db\<lparr>db_keysets := db_keysets db @ new\<rparr>)"
proof -
  let ?m = "kss_mintUrl (vo_snapshot v)" and ?ks = "kss_keysets (vo_snapshot v)"
  from persistKeysetIdentities_Inr [OF assms(2)] obtain new' where new':
      "db\<lparr>db_keysets := db_keysets db @ new\<rparr> = db\<lparr>db_keysets := db_keysets db @ new'\<rparr>"
      "set new' \<subseteq> keysetRowOf env ?m ` set ?ks"
      "distinct (map keysetKey (db_keysets db)) \<longrightarrow> distinct (map keysetKey (db_keysets db @ new'))"
    by blast
  from arg_cong [OF new'(1), of db_keysets] have same: "new' = new" by simp
  have "\<forall>k \<in> set ?ks. keysetValid env k"
    using validateObservation_Inr [OF assms(1)] createCashuKeysetSnapshotV1_parts by blast
  then have "\<forall>row \<in> set new. \<exists>k. keysetValid env k \<and> row = keysetRowOf env (kr_mint_url row) k"
    using new'(2) same by fastforce
  moreover have "distinct (map keysetKey (db_keysets db @ new))"
    using new'(3) assms(3) same by (simp add: keysetTables_def)
  ultimately show ?thesis
    using assms(3) by (simp add: keysetTables_def ball_Un del: map_append)
qed

lemma keysetTables_observed:
  assumes "keysetTables env (db\<lparr>db_keysets := db_keysets db @ new\<rparr>)"
    and "\<forall>o' \<in> set (db_keysetObservations db).
       observationScope o' \<noteq> (vo_operatorId v, kss_mintUrl (vo_snapshot v), vo_unit v,
            kss_observedAt (vo_snapshot v))"
  shows "keysetTables env (observedDb env v new db)"
proof -
  have "\<forall>e \<in> set (entryRowsOf f v). ke_snapshot_fingerprint e = f" for f
    by (auto simp: entryRowsOf_def)
  moreover have "(vo_operatorId v, kss_mintUrl (vo_snapshot v), vo_unit v,
      kss_observedAt (vo_snapshot v)) \<notin> observationScope ` set (db_keysetObservations db)"
    using assms(2) by auto
  ultimately show ?thesis
    using assms(1) by (simp add: keysetTables_def observedDb_def Let_def ball_Un del: map_append) auto
qed

lemma persistObservation_tables:
  assumes "persistObservation env input db = Inr (db', res)" and "keysetTables env db"
  shows "keysetTables env db' \<and> (\<exists>new. db_keysets db' = db_keysets db @ new)"
proof -
  have "db_deferred db = []" using assms(2) by (simp add: keysetTables_def)
  with assms(1) show ?thesis
  proof (cases rule: persistObservation_cases)
    case (fresh v new)
    with identities_tables [OF fresh(1,2) assms(2)] keysetTables_observed show ?thesis
      by (simp add: observedDb_def Let_def)
  next
    case (replay v new row)
    with identities_tables [OF replay(1,2) assms(2)] show ?thesis by simp
  qed
qed

lemma mapObservation_scope:
  assumes "mapObservation env db row = Inr s"
  shows "kss_mintUrl s = ko_mint_url row \<and> kss_observedAt s = ko_observed_at row"
  using assms
  by (auto simp: mapObservation_def createCashuKeysetSnapshotV1_def result_simps Let_def
      split: if_splits)

lemma observedDb_found:
  assumes "validateObservation env input = Inr v"
    and "persistKeysetIdentities env (kss_mintUrl (vo_snapshot v)) db (kss_keysets (vo_snapshot v))
       = Inr (db\<lparr>db_keysets := db_keysets db @ new\<rparr>)"
    and "keysetTables env db" and "keysetSnapshotValid env (vo_snapshot v)"
    and "inj_on (env_sha256 env) (identitiesAtHand db (vo_snapshot v))"
    and "\<forall>o' \<in> set (db_keysetObservations db).
       ko_snapshot_fingerprint o' \<noteq> createSnapshotFingerprint env v"
  shows "mapObservation env (observedDb env v new db)
      (observationRowOf (createSnapshotFingerprint env v) v) = Inr (vo_snapshot v)"
proof -
  let ?f = "createSnapshotFingerprint env v" and ?m = "kss_mintUrl (vo_snapshot v)"
  note input = validateObservation_Inr [OF assms(1)]
  have tables: "keysetTables env (db\<lparr>db_keysets := db_keysets db @ new\<rparr>)"
    by (rule identities_tables [OF assms(1-3)])
  have "\<forall>e \<in> set (db_keysetEntries db). ke_snapshot_fingerprint e \<noteq> ?f"
    using assms(3,6) by (fastforce simp: keysetTables_def)
  moreover have "\<forall>k \<in> set (kss_keysets (vo_snapshot v)).
      keysetRowOf env ?m k \<in> set (db_keysets db @ new)"
    using identity_stored [OF assms(2,3,5)] by simp
  moreover have "distinct (map keysetKey (db_keysets db @ new))"
    using tables by (simp add: keysetTables_def)
  ultimately have "keysetEntriesOf (observedDb env v new db) ?f = joinedRows env ?f v"
    using input
    by (intro keysetEntriesOf_observed [where old = "db_keysetEntries db"])
      (simp_all add: observedDb_def Let_def del: map_append set_append)
  then show ?thesis
    using input assms(4) by (intro mapObservation_observed) simp_all
qed

lemma observation_found:
  assumes "persistObservation env input db = Inr (db', res)" and "keysetTables env db"
    and "mintUrlStable env" and "inj_on (env_sha256 env) (identitiesAtHand db (pkr_snapshot res))"
  shows "findLatestFreshSnapshot env db'
      \<lparr>kq_mintUrl = kss_mintUrl (pkr_snapshot res),
       kq_observedAtOrAfter = kss_observedAt (pkr_snapshot res),
       kq_observedAtOrBefore = kss_observedAt (pkr_snapshot res),
       kq_operatorId = pki_operatorId input, kq_unit = pki_unit input\<rparr>
    = Inr (Some (pkr_snapshot res))"
proof -
  have "db_deferred db = []" using assms(2) by (simp add: keysetTables_def)
  have "distinct (map observationScope (db_keysetObservations db'))"
    using persistObservation_tables [OF assms(1,2)] by (simp add: keysetTables_def)
  note find = findLatest_exact [OF _ _ _ this]
  from assms(1) \<open>db_deferred db = []\<close> show ?thesis
  proof (cases rule: persistObservation_cases)
    case (fresh v new)
    note input = validateObservation_Inr [OF fresh(1)]
    have valid: "keysetSnapshotValid env (vo_snapshot v)"
      by (rule validated_snapshot [OF fresh(1) assms(3) fresh(2)])
    have "mapObservation env db' (observationRowOf (createSnapshotFingerprint env v) v)
        = Inr (vo_snapshot v)"
      using observedDb_found [OF fresh(1,2) assms(2) valid] assms(4) fresh(4-6) by simp
    moreover have "observationRowOf (createSnapshotFingerprint env v) v \<in> set (db_keysetObservations db')"
      using fresh(4) by (simp add: observedDb_def Let_def)
    ultimately show ?thesis
      using find [OF valid, of "pki_operatorId input" "pki_unit input"] input fresh(5) by simp
  next
    case (replay v new row)
    note input = validateObservation_Inr [OF replay(1)] and scope = mapObservation_scope [OF replay(6)]
    have valid: "keysetSnapshotValid env (vo_snapshot v)"
      by (rule validated_snapshot [OF replay(1) assms(3) replay(2)])
    have row: "row \<in> set (db_keysetObservations db')" "observationScope row = (vo_operatorId v,
        kss_mintUrl (vo_snapshot v), vo_unit v, kss_observedAt (vo_snapshot v))"
      using findFirst_Some [OF replay(5) [unfolded findObservationAt_def]]
      by (auto simp: observationScope_def)
    with find [OF valid, of "pki_operatorId input" "pki_unit input" row] input scope replay(6)
    show ?thesis by (simp add: observationScope_def)
  qed
qed

end
