(* ===== verification/Reservation_Outcome.thy ===== *)
theory Reservation_Outcome
  imports Reservation_Runs Keyset_Facts
begin

text \<open>
  The outcome of \<open>reserve\<close> for a new payment that passes the checks of its route and keysets: it is
  decided by the claims alone, and every constraint of the tables then holds at the commit.
\<close>

section \<open>Inserting the proofs\<close>

lemma constraint_holds:
  "\<forall>r \<in> set rows. key r \<noteq> key row \<Longrightarrow> requireUnique name key rows row = Inr ()"
  "\<exists>r \<in> set rows. P r \<Longrightarrow> requireExists P rows = Inr ()"
  "ok \<Longrightarrow> checkRow ok = Inr ()"
  by simp_all

text \<open>What the rows of one reservation have in common, and what they need of the tables.\<close>

definition proofRowsFit :: "db \<Rightarrow> string \<Rightarrow> proof_row list \<Rightarrow> bool" where
  "proofRowsFit db pid rows \<longleftrightarrow>
     (\<forall>p \<in> set rows. pf_payment_id p = pid \<and> 0 \<le> pf_position p \<and> pf_position p < 128
        \<and> (\<exists>r \<in> set (db_reservations db). rs_payment_id r = pid \<and> rs_mint_url r = pf_mint_url p
             \<and> rs_unit r = pf_unit p)
        \<and> (\<exists>k \<in> set (db_keysets db). kr_mint_url k = pf_mint_url p
             \<and> kr_keyset_id k = pf_keyset_id p \<and> kr_unit k = pf_unit p))
     \<and> distinct (map pf_position (filter (\<lambda>p. pf_payment_id p = pid) (db_proofs db) @ rows))
     \<and> distinct (map pf_proof_y (filter (\<lambda>p. pf_payment_id p = pid) (db_proofs db) @ rows))
     \<and> set (db_proofClaims db) \<subseteq> claimOf ` set (db_proofs db)"

definition ownChecks :: "string \<Rightarrow> deferred_check list \<Rightarrow> bool" where
  "ownChecks pid q \<longleftrightarrow> set q \<subseteq> {Active_claims_check pid, Reservation_check pid}"

definition proofAdded :: "proof_row \<Rightarrow> db \<Rightarrow> db" where
  "proofAdded row db = queue [Active_claims_check (pf_payment_id row),
       Active_claims_check (pf_payment_id row), Reservation_check (pf_payment_id row)]
     (db\<lparr>db_proofs := db_proofs db @ [row], db_proofClaims := db_proofClaims db @ [claimOf row]\<rparr>)"

lemma proofRowsFit_no_claim:
  assumes "proofRowsFit db pid (row # rows)" and "c \<in> set (db_proofClaims db)"
  shows "\<not> (pc_payment_id c = pf_payment_id row \<and> pc_proof_y c = pf_proof_y row)"
proof
  assume c: "pc_payment_id c = pf_payment_id row \<and> pc_proof_y c = pf_proof_y row"
  from assms obtain p where p: "p \<in> set (db_proofs db)" "c = claimOf p"
    by (auto simp: proofRowsFit_def)
  with c assms(1) have "pf_payment_id p = pid" "pf_proof_y p = pf_proof_y row"
    by (auto simp: proofRowsFit_def claimOf_def)
  with assms(1) p(1) show False by (auto simp: proofRowsFit_def image_iff)
qed

lemma insertProofClaim_eq:
  assumes "row \<in> set (db_proofs db)"
    and "\<forall>c \<in> set (db_proofClaims db).
           \<not> (pc_payment_id c = pf_payment_id row \<and> pc_proof_y c = pf_proof_y row)"
  shows "insertProofClaim db (claimOf row) =
    (if proofKey row \<in> claimKey ` set (db_proofClaims db)
     then Inl (Unique_violation ''cashu_active_proof_claims_pkey'')
     else Inr (queue [Active_claims_check (pf_payment_id row)]
            (db\<lparr>db_proofClaims := db_proofClaims db @ [claimOf row]\<rparr>)))"
proof -
  have "requireUnique n (\<lambda>c. (pc_payment_id c, pc_proof_y c)) (db_proofClaims db) (claimOf row) = Inr ()" for n
    using assms(2) by (auto simp: claimOf_def)
  moreover have "requireUnique n (\<lambda>c. (pc_mint_url c, pc_proof_y c)) (db_proofClaims db) (claimOf row)
      = (if proofKey row \<in> claimKey ` set (db_proofClaims db) then Inl (Unique_violation n) else Inr ())" for n
    by (force simp: requireUnique_def throwIf_def list_ex_iff claimKey_def proofKey_def claimOf_def image_iff)
  moreover have "requireExists (\<lambda>p. pf_payment_id p = pc_payment_id (claimOf row)
      \<and> pf_mint_url p = pc_mint_url (claimOf row) \<and> pf_proof_y p = pc_proof_y (claimOf row))
      (db_proofs db) = Inr ()"
    using assms(1) by (auto simp: claimOf_def)
  ultimately show ?thesis unfolding insertProofClaim_def by (simp add: constraint_holds)
qed

lemma insertReservedProof_eq:
  assumes "proofRowsFit db pid (row # rows)"
  shows "insertReservedProof db row =
    (if proofKey row \<in> claimKey ` set (db_proofClaims db)
     then Inl (Unique_violation ''cashu_active_proof_claims_pkey'')
     else Inr (proofAdded row db))"
proof -
  have row: "pf_payment_id row = pid" "0 \<le> pf_position row" "pf_position row < 128"
    and fk: "\<exists>r \<in> set (db_reservations db). rs_payment_id r = pid \<and> rs_mint_url r = pf_mint_url row
             \<and> rs_unit r = pf_unit row"
      "\<exists>k \<in> set (db_keysets db). kr_mint_url k = pf_mint_url row
             \<and> kr_keyset_id k = pf_keyset_id row \<and> kr_unit k = pf_unit row"
    using assms by (simp_all add: proofRowsFit_def)
  have "pf_position row \<notin> pf_position ` {p \<in> set (db_proofs db). pf_payment_id p = pid}"
      "pf_proof_y row \<notin> pf_proof_y ` {p \<in> set (db_proofs db). pf_payment_id p = pid}"
    using assms by (simp_all add: proofRowsFit_def)
  then have apart: "\<forall>p \<in> set (db_proofs db). pf_payment_id p = pid \<longrightarrow>
      pf_position p \<noteq> pf_position row \<and> pf_proof_y p \<noteq> pf_proof_y row"
    by (metis (mono_tags, lifting) imageI mem_Collect_eq)
  have "insertProofClaim (db\<lparr>db_proofs := db_proofs db @ [row]\<rparr>) (claimOf row) =
    (if proofKey row \<in> claimKey ` set (db_proofClaims db)
     then Inl (Unique_violation ''cashu_active_proof_claims_pkey'')
     else Inr (queue [Active_claims_check (pf_payment_id row)]
            (db\<lparr>db_proofs := db_proofs db @ [row],
                db_proofClaims := db_proofClaims db @ [claimOf row]\<rparr>)))"
    using proofRowsFit_no_claim [OF assms] by (subst insertProofClaim_eq) auto
  then show ?thesis
    unfolding insertReservedProof_def claimOf_def [symmetric]
    using row fk apart by (simp add: constraint_holds proofAdded_def queue_def)
qed

lemma proofRowsFit_step:
  assumes "proofRowsFit db pid (row # rows)"
  shows "proofRowsFit (proofAdded row db) pid rows"
  using assms by (auto simp: proofRowsFit_def proofAdded_def queue_def)

lemma insertReservedProofs_conflict:
  assumes "proofRowsFit db pid rows" and "row \<in> set rows"
    and "proofKey row \<in> claimKey ` set (db_proofClaims db)"
  shows "insertReservedProofs db rows = Inl (Unique_violation ''cashu_active_proof_claims_pkey'')"
  using assms
proof (induction rows arbitrary: db)
  case (Cons r rows)
  show ?case
  proof (cases "proofKey r \<in> claimKey ` set (db_proofClaims db)")
    case False
    then have "row \<in> set rows" using Cons.prems by auto
    moreover have "proofKey row \<in> claimKey ` set (db_proofClaims (proofAdded r db))"
      using Cons.prems(3) by (auto simp: proofAdded_def queue_def)
    ultimately have "insertReservedProofs (proofAdded r db) rows
        = Inl (Unique_violation ''cashu_active_proof_claims_pkey'')"
      by (intro Cons.IH [OF proofRowsFit_step [OF Cons.prems(1)]])
    then show ?thesis using False by (simp add: insertReservedProof_eq [OF Cons.prems(1)])
  qed (simp add: insertReservedProof_eq [OF Cons.prems(1)])
qed simp

lemma insertReservedProofs_ok:
  assumes "proofRowsFit db pid rows" and "ownChecks pid (db_deferred db)"
    and "distinct (map proofKey rows)" and "proofKey ` set rows \<inter> claimKey ` set (db_proofClaims db) = {}"
  shows "\<exists>q. insertReservedProofs db rows = Inr (db\<lparr>db_proofs := db_proofs db @ rows,
        db_proofClaims := db_proofClaims db @ map claimOf rows, db_deferred := q\<rparr>) \<and> ownChecks pid q"
  using assms
proof (induction rows arbitrary: db)
  case Nil
  then show ?case by (intro exI [of _ "db_deferred db"]) simp
next
  case (Cons r rows)
  have free: "proofKey r \<notin> claimKey ` set (db_proofClaims db)" using Cons.prems(4) by auto
  let ?mid = "proofAdded r db"
  have "pf_payment_id r = pid" using Cons.prems(1) by (simp add: proofRowsFit_def)
  then have own: "ownChecks pid (db_deferred ?mid)"
    using Cons.prems(2) by (simp add: ownChecks_def proofAdded_def queue_def)
  have "proofKey ` set rows \<inter> claimKey ` set (db_proofClaims ?mid) = {}"
    using Cons.prems(3,4) by (auto simp: proofAdded_def queue_def)
  from Cons.IH [OF proofRowsFit_step [OF Cons.prems(1)] own _ this] Cons.prems(3)
  obtain q where "insertReservedProofs ?mid rows = Inr (?mid\<lparr>db_proofs := db_proofs ?mid @ rows,
        db_proofClaims := db_proofClaims ?mid @ map claimOf rows, db_deferred := q\<rparr>)" "ownChecks pid q"
    by auto
  then show ?case
    using free by (simp add: insertReservedProof_eq [OF Cons.prems(1)] proofAdded_def queue_def) blast
qed

section \<open>The constraints at the commit\<close>

text \<open>The foreign keys of the keyset entries.\<close>

definition keysetForeignKeys :: "db \<Rightarrow> bool" where
  "keysetForeignKeys db \<longleftrightarrow>
     (\<forall>e \<in> set (db_keysetEntries db).
        (\<forall>o' \<in> set (db_keysetObservations db). ko_snapshot_fingerprint o' = ke_snapshot_fingerprint e
           \<longrightarrow> ko_mint_url o' = ke_mint_url e \<and> ko_unit o' = ke_unit e)
        \<and> (\<exists>k \<in> set (db_keysets db). kr_mint_url k = ke_mint_url e
             \<and> kr_keyset_id k = ke_keyset_id e \<and> kr_unit k = ke_unit e))"

lemma assertKeysetEvidence_Inr:
  assumes "assertKeysetEvidence db r = Inr u" and "p \<in> set (prs_proofReferences r)"
  shows "\<exists>o' \<in> set (db_keysetObservations db). \<exists>e \<in> set (db_keysetEntries db).
      ko_operator_id o' = prs_operatorId r \<and> ko_mint_url o' = prs_mintUrl r
      \<and> ko_unit o' = prs_unit r \<and> ko_observed_at o' = prs_keysetObservedAt r
      \<and> ke_snapshot_fingerprint e = ko_snapshot_fingerprint o' \<and> ke_keyset_id e = pr_keysetId p"
proof -
  let ?ids = "map pr_keysetId (prs_proofReferences r)"
  let ?rows = "[ke_keyset_id e. o' \<leftarrow> db_keysetObservations db,
           ko_operator_id o' = prs_operatorId r \<and> ko_mint_url o' = prs_mintUrl r
             \<and> ko_unit o' = prs_unit r \<and> ko_observed_at o' = prs_keysetObservedAt r,
           e \<leftarrow> db_keysetEntries db, ke_snapshot_fingerprint e = ko_snapshot_fingerprint o'
             \<and> ke_keyset_id e \<in> set (remdups ?ids)]"
  have "length (remdups ?rows) = length (remdups ?ids)"
    using assms(1) by (simp add: assertKeysetEvidence_def Let_def split: if_splits)
  then have "card (set ?rows) = card (set ?ids)" by (simp only: length_remdups_card_conv)
  moreover have "set ?rows \<subseteq> set ?ids" by auto
  ultimately have "set ?rows = set ?ids" by (simp add: card_subset_eq)
  moreover have "pr_keysetId p \<in> set ?ids" using assms(2) by simp
  ultimately have "pr_keysetId p \<in> set ?rows" by (simp only:)
  then obtain o' e where "o' \<in> set (db_keysetObservations db)" "e \<in> set (db_keysetEntries db)"
      "ko_operator_id o' = prs_operatorId r" "ko_mint_url o' = prs_mintUrl r"
      "ko_unit o' = prs_unit r" "ko_observed_at o' = prs_keysetObservedAt r"
      "ke_snapshot_fingerprint e = ko_snapshot_fingerprint o'" "ke_keyset_id e = pr_keysetId p"
    by (auto simp del: set_remdups split: if_splits)
  then show ?thesis by (intro bexI [of _ o'] bexI [of _ e]) simp_all
qed

lemma assertInvoiceRoute_Inr:
  assumes "assertInvoiceRoute db r = Inr u"
  shows "\<exists>i rt. findInvoice db (prs_invoiceId r) = Some i \<and> ir_state i = ''open''
    \<and> ir_unit i = prs_unit r \<and> ir_created_at i \<le> prs_reservedAt r \<and> prs_reservedAt r < ir_expires_at i
    \<and> rt \<in> set (db_routes db) \<and> rt_invoice_id rt = prs_invoiceId r
    \<and> rt_operator_id rt = prs_operatorId r \<and> rt_mint_url rt = prs_mintUrl r
    \<and> (\<exists>q \<in> set (db_requests db). rq_invoice_id q = prs_invoiceId r)"
proof (cases "findInvoice db (prs_invoiceId r)")
  case (Some i)
  have "ir_id i = prs_invoiceId r"
    using findFirst_Some [OF Some [unfolded findInvoice_def]] by simp
  then show ?thesis
    using assms Some
    by (simp add: assertInvoiceRoute_def result_simps Let_def list_ex_iff failWith_def split: if_splits)
      (metis not_less)
qed (use assms in \<open>simp add: assertInvoiceRoute_def\<close>)

lemma insertReservation_ok:
  assumes "assertInvoiceRoute db r = Inr ()" and "prs_paymentId r \<notin> paymentsOf db"
    and "\<forall>x \<in> set (db_reservations db).
           rs_reservation_fingerprint x \<noteq> createReservationFingerprint env r"
    and "length (prs_mintUrl r) \<le> 512"
  shows "insertReservation db (reservationRowOf env r) =
    Inr (Some (queue [Reservation_check (prs_paymentId r)]
      (db\<lparr>db_reservations := db_reservations db @ [reservationRowOf env r]\<rparr>)))"
proof -
  from assertInvoiceRoute_Inr [OF assms(1)] obtain i rt where
    "findInvoice db (prs_invoiceId r) = Some i" and rt: "rt \<in> set (db_routes db)"
      "rt_invoice_id rt = prs_invoiceId r" "rt_operator_id rt = prs_operatorId r"
      "rt_mint_url rt = prs_mintUrl r" "\<exists>q \<in> set (db_requests db). rq_invoice_id q = prs_invoiceId r"
    by blast
  then have "\<exists>i \<in> set (db_invoices db). ir_id i = prs_invoiceId r"
    using findFirst_Some [of _ "db_invoices db" i] by (auto simp: findInvoice_def)
  moreover have "\<exists>rt \<in> set (db_routes db). rt_invoice_id rt = prs_invoiceId r
      \<and> rt_operator_id rt = prs_operatorId r \<and> rt_mint_url rt = prs_mintUrl r"
    using rt by blast
  moreover have "\<not> list_ex (\<lambda>x. rs_payment_id x = prs_paymentId r
      \<or> rs_reservation_fingerprint x = createReservationFingerprint env r) (db_reservations db)"
    using assms(2,3) by (auto simp: list_ex_iff paymentsOf_def image_iff)
  ultimately show ?thesis
    using rt(5) assms(4) by (simp add: insertReservation_def constraint_holds list_ex_iff)
qed

lemma new_payment_none:
  assumes "reservationTables db" and "pid \<notin> paymentsOf db"
  shows "filter (\<lambda>p. pf_payment_id p = pid) (db_proofs db) = []"
    "filter (\<lambda>c. pc_payment_id c = pid) (db_proofClaims db) = []"
    "filter (\<lambda>c. ic_payment_id c = pid) (db_invoiceClaims db) = []"
    "latestState db pid = None" "effectOf db pid = None"
proof -
  note tables = assms(1) [unfolded reservationTables_def]
  show proofs: "filter (\<lambda>p. pf_payment_id p = pid) (db_proofs db) = []"
    using tables assms(2) by (auto simp: filter_empty_conv)
  show "filter (\<lambda>c. pc_payment_id c = pid) (db_proofClaims db) = []"
    using tables proofs by (fastforce simp: filter_empty_conv)
  show "filter (\<lambda>c. ic_payment_id c = pid) (db_invoiceClaims db) = []"
    using tables assms(2) by (auto simp: filter_empty_conv)
  have "pid \<notin> ev_payment_id ` set (db_events db)" using tables assms(2) by blast
  then show "latestState db pid = None" by (rule latestState_none)
  show "effectOf db pid = None"
    using tables assms(2) by (auto simp: effectOf_def findFirst_None)
qed

lemma proofRows_positions: "map pf_position (proofRowsOf r) = map int [0..<length (prs_proofReferences r)]"
  by (rule nth_equalityI) (simp_all add: proofRowsOf_def nth_enumerate_eq)

lemma proofRows_keys:
  "map pf_proof_y (proofRowsOf r) = map pr_y (prs_proofReferences r)"
  "map pf_amount (proofRowsOf r) = map pr_amount (prs_proofReferences r)"
  by (rule nth_equalityI; simp add: proofRowsOf_def nth_enumerate_eq)+

lemma proofRows_row:
  "p \<in> set (proofRowsOf r) \<Longrightarrow> pf_mint_url p = prs_mintUrl r \<and> pf_unit p = prs_unit r
     \<and> pf_payment_id p = prs_paymentId r
     \<and> (\<exists>q \<in> set (prs_proofReferences r). pf_keyset_id p = pr_keysetId q \<and> pf_proof_y p = pr_y q)"
  by (auto simp: proofRowsOf_def dest: in_set_enumerate)

lemma reserved_rows_fit:
  assumes "reservationValid env r" and "reservationTables db" and "keysetForeignKeys db"
    and "prs_paymentId r \<notin> paymentsOf db" and "assertKeysetEvidence db r = Inr ()"
    and "mid = queue q (db\<lparr>db_reservations := db_reservations db @ [reservationRowOf env r]\<rparr>)"
  shows "proofRowsFit mid (prs_paymentId r) (proofRowsOf r)"
proof -
  have "filter (\<lambda>p. pf_payment_id p = prs_paymentId r) (db_proofs mid) = []"
    using new_payment_none [OF assms(2,4)] assms(6) by (simp add: queue_def)
  moreover have "distinct (map pf_position (proofRowsOf r))"
    by (simp add: proofRows_positions distinct_map)
  moreover have "distinct (map pf_proof_y (proofRowsOf r))"
    using assms(1) by (simp add: proofRows_keys reservationValid_def strictlyIncreasing_distinct)
  moreover have "0 \<le> pf_position p \<and> pf_position p < 128" if "p \<in> set (proofRowsOf r)" for p
  proof -
    have "pf_position p \<in> set (map pf_position (proofRowsOf r))" using that by simp
    then show ?thesis
      using assms(1) unfolding proofRows_positions
      by (auto simp: reservationValid_def MAX_NUT18_PAYMENT_PROOFS_def)
  qed
  moreover have "\<exists>k \<in> set (db_keysets mid). kr_mint_url k = pf_mint_url p
      \<and> kr_keyset_id k = pf_keyset_id p \<and> kr_unit k = pf_unit p" if p: "p \<in> set (proofRowsOf r)" for p
  proof -
    obtain ref where ref: "ref \<in> set (prs_proofReferences r)" "pf_keyset_id p = pr_keysetId ref"
      using proofRows_row [OF p] by blast
    from assertKeysetEvidence_Inr [OF assms(5) ref(1)] obtain o' e where
      "o' \<in> set (db_keysetObservations db)" "e \<in> set (db_keysetEntries db)"
      "ko_mint_url o' = prs_mintUrl r" "ko_unit o' = prs_unit r"
      "ke_snapshot_fingerprint e = ko_snapshot_fingerprint o'" "ke_keyset_id e = pr_keysetId ref"
      by blast
    moreover from this have "ko_mint_url o' = ke_mint_url e \<and> ko_unit o' = ke_unit e
        \<and> (\<exists>k \<in> set (db_keysets db). kr_mint_url k = ke_mint_url e
             \<and> kr_keyset_id k = ke_keyset_id e \<and> kr_unit k = ke_unit e)"
      using assms(3) unfolding keysetForeignKeys_def by metis
    ultimately show ?thesis
      using proofRows_row [OF p] ref(2) assms(6) by (simp add: queue_def)
  qed
  moreover have "set (db_proofClaims mid) \<subseteq> claimOf ` set (db_proofs mid)"
    using assms(2,6) by (simp add: reservationTables_def queue_def)
  ultimately show ?thesis
    using proofRows_row assms(6) unfolding proofRowsFit_def by (auto simp: queue_def)
qed

lemma reserved_joined:
  assumes "reservationTables db" and "prs_paymentId r \<notin> paymentsOf db" and "reservationValid env r"
    and "db_proofs db' = db_proofs db @ proofRowsOf r"
    and "db_proofClaims db' = db_proofClaims db @ map claimOf (proofRowsOf r)"
  shows "joinedProofClaims db' (prs_paymentId r) = length (prs_proofReferences r)"
proof -
  let ?pid = "prs_paymentId r"
  let ?join = "\<lambda>c. if pc_payment_id c = ?pid
      then map (Pair c) (filter (\<lambda>p. pf_payment_id p = pc_payment_id c \<and> pf_mint_url p = pc_mint_url c
         \<and> pf_proof_y p = pc_proof_y c) (db_proofs db')) else []"
  have join: "concat (map (\<lambda>k. if P k then [(e, k)] else []) ks) = map (Pair e) (filter P ks)"
    for e :: proof_claim_row and P and ks :: "proof_row list"
    by (induction ks) auto
  have rows: "joinedProofClaims db' ?pid = length (concat (map ?join (db_proofClaims db')))"
    unfolding joinedProofClaims_def
    by (rule arg_cong [where f = "\<lambda>xs. length (concat xs)"], rule map_cong [OF refl]) (auto simp: join)
  have none: "concat (map ?join (db_proofClaims db)) = []"
    using new_payment_none(2) [OF assms(1,2)] by (auto simp: filter_empty_conv)
  have "?join (claimOf p) = [(claimOf p, p)]" if p: "p \<in> set (proofRowsOf r)" for p
  proof -
    have "filter (\<lambda>x. pf_payment_id x = ?pid \<and> pf_mint_url x = prs_mintUrl r
        \<and> pf_proof_y x = pf_proof_y p) (db_proofs db) = []"
      using new_payment_none(1) [OF assms(1,2)] by (auto simp: filter_empty_conv)
    moreover have "filter (\<lambda>x. pf_payment_id x = ?pid \<and> pf_mint_url x = prs_mintUrl r
        \<and> pf_proof_y x = pf_proof_y p) (proofRowsOf r) = filter (\<lambda>x. pf_proof_y x = pf_proof_y p) (proofRowsOf r)"
      by (rule filter_cong [OF refl]) (auto dest: proofRows_row)
    moreover have "filter (\<lambda>x. pf_proof_y x = pf_proof_y p) (proofRowsOf r) = [p]"
      using assms(3) p by (intro filter_distinct_key)
        (simp_all add: proofRows_keys reservationValid_def strictlyIncreasing_distinct)
    ultimately show ?thesis using proofRows_row [OF p] assms(4) by (simp add: claimOf_def)
  qed
  then have "concat (map ?join (map claimOf (proofRowsOf r))) = map (\<lambda>p. (claimOf p, p)) (proofRowsOf r)"
    unfolding map_map
    by (intro trans [OF arg_cong [where f = concat, OF map_cong [OF refl]] concat_map_singleton]) simp
  then show ?thesis
    unfolding rows assms(5) map_append concat_append none by simp
qed

lemma reserved_checks:
  assumes "reservationTables db" and "prs_paymentId r \<notin> paymentsOf db" and "reservationValid env r"
    and "assertInvoiceRoute db r = Inr ()" and "assertKeysetEvidence db r = Inr ()"
    and after: "after = (reservedDb env r db)\<lparr>db_deferred := q\<rparr>"
  shows "deferredHolds after (Active_claims_check (prs_paymentId r))"
    "deferredHolds after (Reservation_check (prs_paymentId r))"
proof -
  note none = new_payment_none [OF assms(1,2)]
  have "latestState after (prs_paymentId r) = None"
    using none(4) latestState_frame [of after db] after by simp
  moreover have "effectOf after (prs_paymentId r) = None" using none(5) after by (simp add: effectOf_def)
  moreover have "invoiceClaimCount after (prs_paymentId r) = 0"
    using none(3) after by (simp add: invoiceClaimCount_def)
  moreover have "reservedProofCount after (prs_paymentId r) = length (prs_proofReferences r)"
    using none(1) after by (simp add: reservedProofCount_def filter_id_conv [THEN iffD2] proofRowsOf_payment)
  moreover have "joinedProofClaims after (prs_paymentId r) = length (prs_proofReferences r)"
    using assms(1-3) after by (intro reserved_joined) simp_all
  ultimately show "deferredHolds after (Active_claims_check (prs_paymentId r))"
    by (simp add: activeClaimsCheck_def)
  have "findReservation db (prs_paymentId r) = None" using assms(2) by (simp add: findReservation_None)
  then have found: "findReservation after (prs_paymentId r) = Some (reservationRowOf env r)"
    using after by (simp add: findReservation_def findFirst_append_None)
  have proofs: "proofsOf after (prs_paymentId r) = proofRowsOf r"
    using none(1) after by (simp add: proofsOf_def filter_id_conv [THEN iffD2] proofRowsOf_payment)
  have observed: "keysetObserved after (reservationRowOf env r) (pf_keyset_id p)"
    if p: "p \<in> set (proofRowsOf r)" for p
  proof -
    obtain ref where "ref \<in> set (prs_proofReferences r)" "pf_keyset_id p = pr_keysetId ref"
      using proofRows_row [OF p] by blast
    with assertKeysetEvidence_Inr [OF assms(5)] after show ?thesis
      by (fastforce simp: keysetObserved_def reservedDb_def list_ex_iff reservationRowOf_def)
  qed
  have sum: "sum_list (map pf_amount (proofRowsOf r)) = prs_grossAmount r"
    using assms(3) by (simp add: proofRows_keys reservationValid_def proofTotal_def)
  have last: "last (sort (map pf_position (proofRowsOf r))) = int (length (proofRowsOf r)) - 1"
      "proofRowsOf r \<noteq> []" "length (proofRowsOf r) \<le> 128"
    using assms(3)
    by (auto simp: proofRows_positions reservationValid_def MAX_NUT18_PAYMENT_PROOFS_def sorted_sort_id
        last_map sorted_map of_nat_diff Suc_le_eq)
  from assertInvoiceRoute_Inr [OF assms(4)] obtain i where
    i: "findInvoice after (prs_invoiceId r) = Some i" "ir_state i = ''open''"
      "ir_unit i = prs_unit r" "ir_created_at i \<le> prs_reservedAt r" "prs_reservedAt r < ir_expires_at i"
    using after by (auto simp: findInvoice_def reservedDb_def)
  show "deferredHolds after (Reservation_check (prs_paymentId r))"
    using found proofs observed sum last i
    by (simp add: reservationCheck_def list_all_iff reservationRowOf_def)
qed

section \<open>The outcome\<close>

lemma reserve_outcome:
  assumes created: "createReservation env input = Inr r" and tables: "reservationTables db"
    and keys: "keysetForeignKeys db" and new: "prs_paymentId r \<notin> paymentsOf db"
    and fingerprint: "\<forall>x \<in> set (db_reservations db).
           rs_reservation_fingerprint x \<noteq> createReservationFingerprint env r"
    and size: "length (prs_mintUrl r) \<le> 512"
    and route: "assertInvoiceRoute db r = Inr ()" and evidence: "assertKeysetEvidence db r = Inr ()"
  shows "reserve env input db =
    (if \<exists>p \<in> set (prs_proofReferences r). (prs_mintUrl r, pr_y p) \<in> claimKey ` set (db_proofClaims db)
     then Inl PRR_proof_conflict
     else Inr (reservedDb env r db, \<lparr>rpr_replayed = False, rpr_reservation = r\<rparr>))"
proof -
  let ?pid = "prs_paymentId r" and ?rows = "proofRowsOf r"
  define mid where "mid = queue [Reservation_check ?pid]
      (db\<lparr>db_reservations := db_reservations db @ [reservationRowOf env r]\<rparr>)"
  have valid: "reservationValid env r" using createReservation_Inr [OF created] by simp
  have fits: "proofRowsFit mid ?pid ?rows"
    by (rule reserved_rows_fit [OF valid tables keys new evidence]) (simp add: mid_def)
  have none: "findReservation db ?pid = None" using new by (simp add: findReservation_None)
  have claims: "db_proofClaims mid = db_proofClaims db" by (simp add: mid_def queue_def)
  have keys': "proofKey ` set ?rows = (\<lambda>p. (prs_mintUrl r, pr_y p)) ` set (prs_proofReferences r)"
  proof -
    have "map proofKey ?rows = map (\<lambda>p. (prs_mintUrl r, pr_y p)) (prs_proofReferences r)"
      by (rule nth_equalityI) (simp_all add: proofRowsOf_def nth_enumerate_eq proofKey_def)
    then show ?thesis by (metis set_map)
  qed
  have steps: "reserveIn env r db = bindR (liftDb (insertReservedProofs mid ?rows)) (\<lambda>after.
      Inr (after, \<lparr>rpr_replayed = False, rpr_reservation = r\<rparr>))"
    using insertReservation_ok [OF route new fingerprint size]
    by (simp add: reserveIn_def none route evidence mid_def Let_def)
  show ?thesis
  proof (cases "\<exists>p \<in> set (prs_proofReferences r). (prs_mintUrl r, pr_y p) \<in> claimKey ` set (db_proofClaims db)")
    case True
    then obtain p where p: "p \<in> set (prs_proofReferences r)"
        "(prs_mintUrl r, pr_y p) \<in> claimKey ` set (db_proofClaims db)" by blast
    from p(1) have "(prs_mintUrl r, pr_y p) \<in> proofKey ` set ?rows" unfolding keys' by (rule imageI)
    then obtain row where row: "row \<in> set ?rows" "proofKey row = (prs_mintUrl r, pr_y p)"
      by (elim imageE) simp
    have "insertReservedProofs mid ?rows = Inl (Unique_violation ''cashu_active_proof_claims_pkey'')"
      by (rule insertReservedProofs_conflict [OF fits row(1)]) (simp add: row(2) claims p(2))
    then show ?thesis
      using True by (simp add: reserve_def created withTransaction_def steps liftDb_def
          mapReservationStorageError_def)
  next
    case False
    have "distinct (map pf_proof_y ?rows)"
      using valid by (simp add: proofRows_keys reservationValid_def strictlyIncreasing_distinct)
    then have "distinct (map proofKey ?rows)"
      unfolding distinct_map proofKey_def by (auto simp: inj_on_def)
    moreover have "proofKey ` set ?rows \<inter> claimKey ` set (db_proofClaims mid) = {}"
      using False keys' claims by auto
    moreover have "ownChecks ?pid (db_deferred mid)"
      using tables by (simp add: ownChecks_def mid_def queue_def reservationTables_def)
    ultimately obtain q where q: "insertReservedProofs mid ?rows = Inr (mid\<lparr>db_proofs := db_proofs mid @ ?rows,
        db_proofClaims := db_proofClaims mid @ map claimOf ?rows, db_deferred := q\<rparr>)" "ownChecks ?pid q"
      using insertReservedProofs_ok [OF fits] by blast
    define after where "after = (reservedDb env r db)\<lparr>db_deferred := q\<rparr>"
    have ins: "insertReservedProofs mid ?rows = Inr after"
      using q(1) by (simp add: after_def reservedDb_def mid_def queue_def)
    have "\<forall>c \<in> set (db_deferred after). deferredHolds after c"
      using q(2) reserved_checks [OF tables new valid route evidence after_def]
      by (auto simp: ownChecks_def after_def)
    moreover have "reservedDb env r db = after\<lparr>db_deferred := []\<rparr>"
      by (simp add: after_def reservedDb_def)
    ultimately have "withTransaction (reserveIn env r) db
        = Inr (reservedDb env r db, \<lparr>rpr_replayed = False, rpr_reservation = r\<rparr>)"
      unfolding withTransaction_iff by (intro exI [of _ after] conjI) (simp_all add: steps ins)
    then show ?thesis using False by (simp add: reserve_def created)
  qed
qed

section \<open>A reservation is permanent\<close>

text \<open>The rows of a reservation, which no later command touches.\<close>

definition reservationKept :: "cashu_env \<Rightarrow> proof_reservation \<Rightarrow> db \<Rightarrow> bool" where
  "reservationKept env r db \<longleftrightarrow> reservationTables db
     \<and> findReservation db (prs_paymentId r) = Some (reservationRowOf env r)
     \<and> proofsOf db (prs_paymentId r) = proofRowsOf r"

lemma reservation_made:
  assumes "reserve env input db = Inr (db', res)" and "\<not> rpr_replayed res"
    and "reservationTables db" and "mintUrlStable env"
  shows "createReservation env input = Inr (rpr_reservation res)
    \<and> reservationKept env (rpr_reservation res) db'
    \<and> normalizeCashuMintUrl env (prs_mintUrl (rpr_reservation res)) = Inr (prs_mintUrl (rpr_reservation res))"
proof -
  have "db_deferred db = []" using assms(3) by (simp add: reservationTables_def)
  with assms(1) show ?thesis
  proof (cases rule: reserve_cases)
    case (fresh r)
    have new: "prs_paymentId r \<notin> paymentsOf db" using fresh(2) by (simp add: findReservation_None)
    have "findReservation db' (prs_paymentId r) = Some (reservationRowOf env r)"
      using fresh(2) by (simp add: fresh(5) findReservation_def findFirst_append_None)
    moreover have "proofsOf db' (prs_paymentId r) = proofRowsOf r"
      using new_payment_none(1) [OF assms(3) new]
      by (simp add: fresh(5) proofsOf_def filter_id_conv [THEN iffD2] proofRowsOf_payment)
    moreover have "normalizeCashuMintUrl env (prs_mintUrl r) = Inr (prs_mintUrl r)"
      using createReservation_Inr [OF fresh(1)] fresh(6) mintUrlStableD [OF assms(4)]
      by (auto simp: MAX_CASHU_ENDPOINT_LENGTH_def)
    ultimately show ?thesis
      using reserve_tables [OF assms(1,3)] fresh(1,4) by (simp add: reservationKept_def)
  qed (use assms(2) in simp)
qed

lemma reservationKept_reserve:
  assumes "reservationKept env r db" and "reserve env' input db = Inr (db', res)"
  shows "reservationKept env r db'"
proof -
  have tables: "reservationTables db" using assms(1) by (simp add: reservationKept_def)
  have "db_deferred db = []" using tables by (simp add: reservationTables_def)
  with assms(2) show ?thesis
  proof (cases rule: reserve_cases)
    case (fresh r')
    have "prs_paymentId r' \<noteq> prs_paymentId r"
      using fresh(2) assms(1) by (auto simp: reservationKept_def)
    then have "filter (\<lambda>p. pf_payment_id p = prs_paymentId r) (proofRowsOf r') = []"
      by (auto simp: filter_empty_conv dest: proofRowsOf_payment)
    with assms(1) reserve_tables [OF assms(2) tables] show ?thesis
      by (simp add: reservationKept_def fresh(5) findReservation_def findFirst_append_Some proofsOf_def)
  qed (use assms(1) in simp)
qed

lemma reservationKept_command:
  assumes "reservationKept env r db" and "runCommand env' command db = Inr (db', change)"
  shows "reservationKept env r db'"
proof -
  have tables: "reservationTables db" using assms(1) by (simp add: reservationKept_def)
  have "db_reservations db' = db_reservations db \<and> db_proofs db' = db_proofs db"
    using command_frame [OF assms(2)] command_replay [OF assms(2)] by (cases "ch_replayed change") auto
  then show ?thesis
    using assms(1) command_tables [OF assms(2) tables]
    by (simp add: reservationKept_def findReservation_def proofsOf_def)
qed

lemma reservationKept_run: "reservationKept env r db \<Longrightarrow> reservationKept env r (runPayments env' cs db)"
proof (induction cs arbitrary: db)
  case (Cons c cs)
  then have "reservationKept env r (runPayment env' c db)"
    by (auto simp: runPayment_def split: payment_command.split sum.splits
        intro: reservationKept_reserve reservationKept_command)
  with Cons.IH show ?case by simp
qed simp

text \<open>While a payment is not released, exactly its proofs are claimed.\<close>

lemma active_claims_kept:
  assumes "reservationKept env r db" and "reservationValid env r"
    and "latestState db (prs_paymentId r) \<noteq> Some ''released''"
  shows "activeClaims db (prs_paymentId r) = length (prs_proofReferences r)"
proof -
  let ?pid = "prs_paymentId r"
  note tables = assms(1) [unfolded reservationKept_def reservationTables_def]
  have mine: "set (proofRowsOf r) = {p \<in> set (db_proofs db). pf_payment_id p = ?pid}"
    using tables by (metis proofsOf_def set_filter)
  have claims: "set (db_proofClaims db) \<subseteq> claimOf ` set (db_proofs db)"
    and active: "\<And>p. p \<in> set (db_proofs db) \<Longrightarrow> pf_payment_id p = ?pid \<Longrightarrow> claimOf p \<in> set (db_proofClaims db)"
    using tables assms(3) by auto
  have "set (filter (\<lambda>c. pc_payment_id c = ?pid) (db_proofClaims db)) = claimOf ` set (proofRowsOf r)"
  proof (intro set_eqI iffI)
    fix c
    assume c: "c \<in> set (filter (\<lambda>c. pc_payment_id c = ?pid) (db_proofClaims db))"
    then obtain p where "p \<in> set (db_proofs db)" "c = claimOf p" using claims by auto
    then show "c \<in> claimOf ` set (proofRowsOf r)" using c mine by simp
  next
    fix c
    assume "c \<in> claimOf ` set (proofRowsOf r)"
    then show "c \<in> set (filter (\<lambda>c. pc_payment_id c = ?pid) (db_proofClaims db))"
      using mine active by auto
  qed
  moreover have "distinct (filter (\<lambda>c. pc_payment_id c = ?pid) (db_proofClaims db))"
    using tables by (simp add: distinct_map)
  ultimately have "activeClaims db ?pid = card (claimOf ` set (proofRowsOf r))"
    by (metis activeClaims_def distinct_card)
  moreover have "distinct (map pf_proof_y (proofRowsOf r))"
    using assms(2) by (simp add: proofRows_keys reservationValid_def strictlyIncreasing_distinct)
  then have "distinct (proofRowsOf r)" "inj_on claimOf (set (proofRowsOf r))"
    by (simp_all add: distinct_map inj_on_def claimOf_def)
  ultimately show ?thesis by (simp add: card_image distinct_card)
qed

lemma reserve_replays:
  assumes "reservationKept env r db" and "createReservation env input = Inr r"
    and "normalizeCashuMintUrl env (prs_mintUrl r) = Inr (prs_mintUrl r)"
  shows "findReservationByPaymentId env db (prs_paymentId input) = Inr (Some r)
    \<and> reserve env input db =
       (if latestState db (prs_paymentId r) = Some ''released'' then Inl PRR_reservation_released
        else Inr (db, \<lparr>rpr_replayed = True, rpr_reservation = r\<rparr>))"
proof -
  note kept = assms(1) [unfolded reservationKept_def] and made = createReservation_Inr [OF assms(2)]
  have valid: "reservationValid env r" using made by simp
  have mapped: "mapReservation env db (reservationRowOf env r) = Inr r"
    using kept by (intro mapReservation_stored [OF valid assms(3)]) simp
  have "length (prs_proofReferences r) \<le> 128"
    using valid by (simp add: reservationValid_def MAX_NUT18_PAYMENT_PROOFS_def)
  then have size: "int (length (prs_proofReferences r)) \<le> MAX_SAFE_INTEGER"
    by (simp add: MAX_SAFE_INTEGER_def)
  have replay: "replayReservation env db (reservationRowOf env r) (createReservationFingerprint env r) =
      (if latestState db (prs_paymentId r) = Some ''released'' then failWith PRR_reservation_released
       else Inr \<lparr>rpr_replayed = True, rpr_reservation = r\<rparr>)"
    using active_claims_kept [OF assms(1) valid] size
    by (simp add: replayReservation_def mapped readBigint_safe)
  have "db_deferred db = []" using kept by (simp add: reservationTables_def)
  then have "withTransaction (reserveIn env r) db =
      (if latestState db (prs_paymentId r) = Some ''released'' then failWith PRR_reservation_released
       else Inr (db, \<lparr>rpr_replayed = True, rpr_reservation = r\<rparr>))"
    using kept by (simp add: reserveIn_def withTransaction_def Let_def replay commit_def liftDb_def
        failWith_def)
  moreover have "identifierPattern (prs_paymentId r)" "prs_paymentId input = prs_paymentId r"
    using made unfolding reservationValid_def by auto
  then have "invalidReservationInput (identifierOf (prs_paymentId input)) = Inr (prs_paymentId r)"
    by simp
  ultimately show ?thesis
    using kept by (simp add: findReservationByPaymentId_def reserve_def assms(2) mapped failWith_def
        mapReservationStorageError_def)
qed

lemma reserve_conflicts:
  assumes "reservationKept env r db" and "createReservation env again = Inr r'"
    and "prs_paymentId r' = prs_paymentId r"
    and "createReservationFingerprint env r' \<noteq> createReservationFingerprint env r"
  shows "reserve env again db = Inl PRR_payment_conflict"
  using assms
  by (simp add: reservationKept_def reserve_def reserveIn_def withTransaction_def replayReservation_def
      failWith_def mapReservationStorageError_def Let_def)

end
