(* ===== verification/Reservation_Properties.thy ===== *)
theory Reservation_Properties
  imports Reservation_Outcome Dispatch_Properties
begin

text \<open>
  The properties of the keyset and the reservation repositories, over any sequence of reservations
  and lifecycle commands, and a shop on which they are instantiated: the payment of the example
  database, and a second one that arrives after it.
\<close>

section \<open>Reservations\<close>

text \<open>
  C26 (invariant): whatever customers reserve and whatever the lifecycle does, in whatever order and
  with whatever failures in between, no proof of a mint is ever held by two payments that are not
  released, and the claims stay exactly the proofs of those payments.
\<close>

theorem no_double_reservation:
  assumes "reservationTables db"
  shows "reservationTables (runPayments env cs db) \<and> proofsExclusive (runPayments env cs db)"
  using runPayments_tables [OF assms] reservationTables_exclusive by blast

text \<open>
  C27 (functional): a payment seen for the first time, inside the window of its open invoice, on an
  accepted route and with keyset evidence, is reserved completely or not at all: it is refused as
  a conflict exactly when one of its proofs is claimed, and otherwise its reservation row, its proof
  rows and their claims are written, and nothing else.
\<close>

theorem new_reservation_outcome:
  assumes "createReservation env input = Inr r" and "reservationTables db"
    and "keysetForeignKeys db" and "prs_paymentId r \<notin> paymentsOf db"
    and "\<forall>x \<in> set (db_reservations db). rs_reservation_fingerprint x \<noteq> createReservationFingerprint env r"
    and "length (prs_mintUrl r) \<le> 512"
    and "assertInvoiceRoute db r = Inr ()" and "assertKeysetEvidence db r = Inr ()"
  shows "reserve env input db =
    (if \<exists>p \<in> set (prs_proofReferences r). (prs_mintUrl r, pr_y p) \<in> claimKey ` set (db_proofClaims db)
     then Inl PRR_proof_conflict
     else Inr (reservedDb env r db, \<lparr>rpr_replayed = False, rpr_reservation = r\<rparr>))"
  using assms by (rule reserve_outcome)

text \<open>
  C28 (roundtrip): a reservation is permanent.  After any further run it is found by its payment as
  it was returned; reserving it again answers the same reservation and writes nothing, until its
  release, after which it is refused as released; and other terms under its payment are a conflict.
\<close>

theorem reservation_permanent:
  assumes first: "reserve env input db = Inr (db', res)" "\<not> rpr_replayed res"
    and tables: "reservationTables db" and stable: "mintUrlStable env"
    and run: "later = runPayments env cs db'"
  shows "findReservationByPaymentId env later (prs_paymentId input) = Inr (Some (rpr_reservation res))
    \<and> reserve env input later =
        (if latestState later (prs_paymentId input) = Some ''released''
         then Inl PRR_reservation_released
         else Inr (later, \<lparr>rpr_replayed = True, rpr_reservation = rpr_reservation res\<rparr>))
    \<and> (\<forall>again r'. createReservation env again = Inr r' \<and> prs_paymentId r' = prs_paymentId input
          \<and> createReservationFingerprint env r' \<noteq> createReservationFingerprint env (rpr_reservation res)
          \<longrightarrow> reserve env again later = Inl PRR_payment_conflict)"
proof -
  note made = reservation_made [OF first tables stable]
  then have kept: "reservationKept env (rpr_reservation res) later"
    unfolding run by (blast intro: reservationKept_run)
  have pid: "prs_paymentId (rpr_reservation res) = prs_paymentId input"
    using made by (auto dest: createReservation_Inr)
  show ?thesis
    using reserve_replays [OF kept] reserve_conflicts [OF kept] made by (auto simp: pid)
qed

section \<open>Keyset observations\<close>

text \<open>
  C29 (roundtrip): the keysets of a mint that \<open>persistObservation\<close> stored are found again, at their
  time, by \<open>findLatestFreshSnapshot\<close>, exactly as returned: active flags, fees, expiries and keys.
  The hypothesis on the digest says that it does not collide on the identities at hand.
\<close>

theorem observed_keysets_found:
  assumes "persistObservation env input db = Inr (db', res)" and "keysetTables env db"
    and "mintUrlStable env" and "inj_on (env_sha256 env) (identitiesAtHand db (pkr_snapshot res))"
  shows "findLatestFreshSnapshot env db'
      \<lparr>kq_mintUrl = kss_mintUrl (pkr_snapshot res),
       kq_observedAtOrAfter = kss_observedAt (pkr_snapshot res),
       kq_observedAtOrBefore = kss_observedAt (pkr_snapshot res),
       kq_operatorId = pki_operatorId input, kq_unit = pki_unit input\<rparr>
    = Inr (Some (pkr_snapshot res))"
  using assms by (rule observation_found)

section \<open>A shop\<close>

definition exObserve :: persist_keysets_input where
  "exObserve = \<lparr>pki_operatorId = ''o1'', pki_snapshot = exSnapshotV1, pki_unit = ''usdc''\<rparr>"

definition exShopDb :: db where
  "exShopDb = exDb
     \<lparr>db_keysets := [\<lparr>kr_mint_url = ''https:m'', kr_keyset_id = exKeysetId, kr_unit = ''usdc'',
        kr_input_fee_ppk = 300, kr_final_expiry = None, kr_keys = [(''1'', exY), (''100'', exY)],
        kr_identity_fingerprint = replicate 64 CHR ''d''\<rparr>],
      db_keysetObservations := [\<lparr>ko_snapshot_fingerprint = replicate 64 CHR ''d'',
        ko_operator_id = ''o1'', ko_mint_url = ''https:m'', ko_unit = ''usdc'',
        ko_schema_version = 1, ko_observed_at = 15\<rparr>],
      db_keysetEntries := [\<lparr>ke_snapshot_fingerprint = replicate 64 CHR ''d'',
        ke_mint_url = ''https:m'', ke_unit = ''usdc'', ke_position = 0,
        ke_keyset_id = exKeysetId, ke_active = True\<rparr>]\<rparr>"

text \<open>Payment \<open>p2\<close> offers one proof, either a fresh one or the one that \<open>p1\<close> holds.\<close>

definition exOffer :: "string \<Rightarrow> reserve_proofs_input" where
  "exOffer y = \<lparr>prs_invoiceId = ''i1'', prs_keysetObservedAt = 15, prs_mintUrl = ''https:m'',
     prs_operatorId = ''o1'', prs_paymentId = ''p2'',
     prs_proofReferences = [\<lparr>pr_amount = 100, pr_keysetId = exKeysetId, pr_y = y\<rparr>],
     prs_reservedAt = 21, prs_unit = ''usdc''\<rparr>"

definition exOffered :: "string \<Rightarrow> proof_reservation" where
  "exOffered y = \<lparr>prs_invoiceId = ''i1'', prs_keysetObservedAt = 15, prs_mintUrl = ''https:m'',
     prs_operatorId = ''o1'', prs_paymentId = ''p2'',
     prs_proofReferences = [\<lparr>pr_amount = 100, pr_keysetId = exKeysetId, pr_y = y\<rparr>],
     prs_reservedAt = 21, prs_unit = ''usdc'', prs_grossAmount = 100, prs_schemaVersion = 1\<rparr>"

lemma exObserve_result: "persistObservation exDispatchEnv exObserve exDb
    = Inr (exShopDb, \<lparr>pkr_replayed = False, pkr_snapshot = exSnapshotV1\<rparr>)"
  by code_simp

lemma exOffer_fresh: "createReservation exDispatchEnv (exOffer exY2) = Inr (exOffered exY2)"
  by code_simp

lemma exOffer_taken: "createReservation exDispatchEnv (exOffer exY) = Inr (exOffered exY)"
  by code_simp

lemma exOffered_checks:
  "assertInvoiceRoute exShopDb (exOffered y) = Inr ()"
  "assertKeysetEvidence exShopDb (exOffered y) = Inr ()"
  "keysetForeignKeys exShopDb" "prs_paymentId (exOffered y) \<notin> paymentsOf exShopDb"
  "\<forall>x \<in> set (db_reservations exShopDb).
     rs_reservation_fingerprint x \<noteq> createReservationFingerprint exDispatchEnv (exOffered y)"
  "length (prs_mintUrl (exOffered y)) \<le> 512"
  subgoal by (simp add: assertInvoiceRoute_def exOffered_def exShopDb_def exDb_def exInvoice_def
      exRoute_def exRequest_def findInvoice_def readBigint_safe MAX_SAFE_INTEGER_def)
  subgoal by (simp add: assertKeysetEvidence_def exOffered_def exShopDb_def exDb_def)
  subgoal by (simp add: keysetForeignKeys_def exShopDb_def)
  by (simp_all add: paymentsOf_def exOffered_def exShopDb_def exDb_def exReservation_def
      createReservationFingerprint_def exDispatchEnv_def numeral_eq_Suc)

lemma exShop_tables: "reservationTables exShopDb"
  by (simp add: reservationTables_def exShopDb_def exDb_def paymentsOf_def exReservation_def
      exProof_def claimOf_def)

lemma exEnv_normal: "normalizeCashuMintUrl exDispatchEnv v = Inr u \<Longrightarrow> u = v"
  by (auto simp: normalizeCashuMintUrl_def exDispatchEnv_def exEnv_def exUrl_def result_simps
      split: option.splits if_splits)

lemma exEnv_stable: "mintUrlStable exDispatchEnv"
  by (auto simp: mintUrlStable_def dest: exEnv_normal)

section \<open>Witnesses\<close>

theorem new_reservation_outcome_witness:
  "reserve exDispatchEnv (exOffer exY2) exShopDb = Inr (reservedDb exDispatchEnv (exOffered exY2) exShopDb,
       \<lparr>rpr_replayed = False, rpr_reservation = exOffered exY2\<rparr>)
   \<and> reserve exDispatchEnv (exOffer exY) exShopDb = Inl PRR_proof_conflict"
  using new_reservation_outcome [OF exOffer_fresh exShop_tables exOffered_checks(3-6,1,2)]
    new_reservation_outcome [OF exOffer_taken exShop_tables exOffered_checks(3-6,1,2)]
  by (simp add: exOffered_def exShopDb_def exDb_def claimKey_def exY_def exY2_def)

lemma exReserve_result:
  "reserve exDispatchEnv (exOffer exY2) exShopDb = Inr (reservedDb exDispatchEnv (exOffered exY2) exShopDb,
       \<lparr>rpr_replayed = False, rpr_reservation = exOffered exY2\<rparr>)"
  using reserve_outcome [OF exOffer_fresh exShop_tables exOffered_checks(3-6,1,2)]
  by (simp add: exOffered_def exShopDb_def exDb_def claimKey_def exY_def exY2_def)

theorem no_double_reservation_witness:
  "proofsExclusive (runPayments exDispatchEnv [Reserve_proofs (exOffer exY2),
     Reserve_proofs (exOffer exY)] exShopDb)
   \<and> length (db_proofs (runPayment exDispatchEnv (Reserve_proofs (exOffer exY2)) exShopDb)) = 2"
proof
  show "proofsExclusive (runPayments exDispatchEnv
      [Reserve_proofs (exOffer exY2), Reserve_proofs (exOffer exY)] exShopDb)"
    using no_double_reservation [OF exShop_tables] by blast
  show "length (db_proofs (runPayment exDispatchEnv (Reserve_proofs (exOffer exY2)) exShopDb)) = 2"
    by (simp add: runPayment_def exReserve_result proofRowsOf_def exOffered_def)
      (simp add: exShopDb_def exDb_def)
qed

theorem reservation_permanent_witness:
  "\<exists>later. later = runPayments exDispatchEnv [Reserve_proofs (exOffer exY)]
       (reservedDb exDispatchEnv (exOffered exY2) exShopDb)
     \<and> findReservationByPaymentId exDispatchEnv later ''p2'' = Inr (Some (exOffered exY2))"
  using reservation_permanent [OF exReserve_result _ exShop_tables exEnv_stable refl,
      where cs = "[Reserve_proofs (exOffer exY)]"]
  by (simp add: exOffer_def)

theorem observed_keysets_found_witness:
  "findLatestFreshSnapshot exDispatchEnv exShopDb
      \<lparr>kq_mintUrl = ''https:m'', kq_observedAtOrAfter = 15, kq_observedAtOrBefore = 15,
       kq_operatorId = ''o1'', kq_unit = ''usdc''\<rparr> = Inr (Some exSnapshotV1)"
proof -
  have "keysetTables exDispatchEnv exDb" by (simp add: keysetTables_def exDb_def)
  moreover have "inj_on (env_sha256 exDispatchEnv) (identitiesAtHand exDb exSnapshotV1)"
    by (simp add: identitiesAtHand_def exDb_def exSnapshotV1_def)
  ultimately show ?thesis
    using observed_keysets_found [OF exObserve_result _ exEnv_stable]
    by (simp add: exObserve_def exSnapshotV1_def)
qed

end
