(* ===== verification/Quote_Store.thy ===== *)
theory Quote_Store
  imports Schema Commit Quote_Record Interfaces
begin

text \<open>
  \<^verbatim>\<open>postgres-cashu-stellar-melt-quote-repository.ts\<close>: the quote a reserved payment asks its operator
  for.  An attempt is stored before the operator is asked; its outcome is either a quote with its
  first observation or the note that the answer was lost; later observations of the quote follow.
\<close>

type_synonym 'a quote_result = "quote_repository_error failure + 'a"

definition CASHU_STELLAR_MELT_QUOTE_AMBIGUITY_REASONS :: "string list" where
  "CASHU_STELLAR_MELT_QUOTE_AMBIGUITY_REASONS = [''transport_ambiguous'']"

definition invalidQuoteInput :: "'e + 'a \<Rightarrow> 'a quote_result" where
  "invalidQuoteInput = catchR (\<lambda>_. Repository_failure QR_invalid_input)"

definition invalidQuoteRecord :: "'e + 'a \<Rightarrow> 'a quote_result" where
  "invalidQuoteRecord = catchR (\<lambda>_. Repository_failure QR_invalid_record)"

lemma invalidQuote_iff [simp]:
  "invalidQuoteInput m = Inr x \<longleftrightarrow> m = Inr x" "invalidQuoteInput (Inr x) = Inr x"
  "invalidQuoteRecord m = Inr x \<longleftrightarrow> m = Inr x" "invalidQuoteRecord (Inr x) = Inr x"
  by (simp_all add: invalidQuoteInput_def invalidQuoteRecord_def catchR_eq_Inr)

abbreviation readQuoteBigint :: "int \<Rightarrow> int quote_result" where
  "readQuoteBigint \<equiv> readBigint (Repository_failure QR_invalid_record)"

section \<open>Validation\<close>

record validated_begin =
  vb_attemptId :: string
  vb_paymentId :: string
  vb_request :: melt_quote_request
  vb_startedAt :: int

definition validateBegin :: "cashu_env \<Rightarrow> begin_attempt_input \<Rightarrow> validated_begin quote_result" where
  "validateBegin env input =
     bindR (invalidQuoteInput (identifierOf (bat_attemptId input))) (\<lambda>attemptId.
     bindR (invalidQuoteInput (identifierOf (bat_paymentId input))) (\<lambda>paymentId.
     bindR (invalidQuoteInput (createCashuStellarMeltQuoteRequestV1 env
              \<lparr>qri_amount = bat_amount input, qri_request = bat_request input\<rparr>)) (\<lambda>request.
     bindR (invalidQuoteInput (unixTimestamp (bat_startedAt input))) (\<lambda>startedAt.
     Inr \<lparr>vb_attemptId = attemptId, vb_paymentId = paymentId, vb_request = request,
          vb_startedAt = startedAt\<rparr>))))"

definition validateAmbiguous :: "ambiguous_attempt_input \<Rightarrow> ambiguous_attempt_input quote_result" where
  "validateAmbiguous input =
    (if aat_reason input \<notin> set CASHU_STELLAR_MELT_QUOTE_AMBIGUITY_REASONS
     then failWith QR_invalid_input
     else
     bindR (invalidQuoteInput (identifierOf (aat_attemptId input))) (\<lambda>attemptId.
     bindR (invalidQuoteInput (identifierOf (aat_paymentId input))) (\<lambda>paymentId.
     bindR (invalidQuoteInput (unixTimestamp (aat_recordedAt input))) (\<lambda>recordedAt.
     Inr \<lparr>aat_attemptId = attemptId, aat_paymentId = paymentId, aat_reason = aat_reason input,
          aat_recordedAt = recordedAt\<rparr>))))"

definition validateQuoteInput ::
  "cashu_env \<Rightarrow> quote_attempt_input \<Rightarrow> quote_attempt_input quote_result" where
  "validateQuoteInput env input =
     bindR (invalidQuoteInput (identifierOf (qti_attemptId input))) (\<lambda>attemptId.
     bindR (invalidQuoteInput (identifierOf (qti_paymentId input))) (\<lambda>paymentId.
     bindR (invalidQuoteInput (createCashuStellarMeltQuoteV1 env (quoteInput (qti_quote input)))) (\<lambda>quote.
     Inr \<lparr>qti_attemptId = attemptId, qti_paymentId = paymentId, qti_quote = quote\<rparr>)))"

section \<open>The tables\<close>

text \<open>\<open>cashmesh_validate_stellar_quote_destination\<close>\<close>

definition validateQuoteDestination :: "db \<Rightarrow> quote_attempt_row \<Rightarrow> db_error + unit" where
  "validateQuoteDestination db new =
    (case findFirst (\<lambda>rt. rt_invoice_id rt = qa_invoice_id new \<and> rt_operator_id rt = qa_operator_id new
            \<and> rt_mint_url rt = qa_mint_url new) (db_routes db) of
       None \<Rightarrow> Inl Check_violation
     | Some route \<Rightarrow> checkRow (\<not> (rt_mode route \<noteq> ''immediate_conversion''
         \<or> rt_settlement_destination route \<noteq> qa_settlement_destination new)))"

text \<open>\<open>SELECT COUNT(*) ... WHERE payment_id = $1\<close>\<close>

definition countProofs :: "db \<Rightarrow> string \<Rightarrow> int" where
  "countProofs db pid = int (length (filter (\<lambda>p. pf_payment_id p = pid) (db_proofs db)))"

definition countClaims :: "db \<Rightarrow> string \<Rightarrow> int" where
  "countClaims db pid = int (length (filter (\<lambda>c. pc_payment_id c = pid) (db_proofClaims db)))"

definition countEffects :: "db \<Rightarrow> string \<Rightarrow> int" where
  "countEffects db pid = int (length (filter (\<lambda>e. ef_payment_id e = pid) (db_effects db)))"

definition countEvents :: "db \<Rightarrow> string \<Rightarrow> int" where
  "countEvents db pid = int (length (eventsOf db pid))"

definition findCustody :: "db \<Rightarrow> string \<Rightarrow> custody_row option" where
  "findCustody db pid = findFirst (\<lambda>c. cu_payment_id c = pid) (db_custody db)"

text \<open>\<open>cashmesh_validate_stellar_quote_attempt\<close>\<close>

definition validateQuoteAttempt :: "db \<Rightarrow> quote_attempt_row \<Rightarrow> db_error + unit" where
  "validateQuoteAttempt db new =
    (case (findReservation db (qa_payment_id new), findInvoice db (qa_invoice_id new),
           findCustody db (qa_payment_id new)) of
       (Some r, Some i, Some c) \<Rightarrow>
         checkRow (\<not> (rs_invoice_id r \<noteq> qa_invoice_id new
           \<or> rs_operator_id r \<noteq> qa_operator_id new
           \<or> rs_mint_url r \<noteq> qa_mint_url new
           \<or> rs_unit r \<noteq> qa_unit new
           \<or> ir_unit i \<noteq> qa_unit new
           \<or> ir_amount i \<noteq> qa_amount new
           \<or> ir_state i \<noteq> ''open''
           \<or> qa_started_at new < rs_reserved_at r
           \<or> qa_started_at new < ir_created_at i
           \<or> qa_started_at new \<ge> ir_expires_at i
           \<or> qa_started_at new < cu_created_at c
           \<or> countEffects db (qa_payment_id new) \<noteq> 0
           \<or> countEvents db (qa_payment_id new) \<noteq> 0
           \<or> countProofs db (qa_payment_id new) = 0
           \<or> countClaims db (qa_payment_id new) \<noteq> countProofs db (qa_payment_id new)))
     | _ \<Rightarrow> Inl Check_violation)"

text \<open>\<^verbatim>\<open>INSERT ... ON CONFLICT DO NOTHING\<close>: \<open>None\<close> when a unique index has the row already.\<close>

definition insertQuoteAttempt :: "db \<Rightarrow> quote_attempt_row \<Rightarrow> db_error + db option" where
  "insertQuoteAttempt db new =
     bindR (validateQuoteDestination db new) (\<lambda>_.
     bindR (validateQuoteAttempt db new) (\<lambda>_.
     if list_ex (\<lambda>a. qa_attempt_id a = qa_attempt_id new
          \<or> qa_attempt_fingerprint a = qa_attempt_fingerprint new
          \<or> qa_payment_id a = qa_payment_id new) (db_quoteAttempts db)
     then Inr None
     else
     bindR (requireExists (\<lambda>r. rs_payment_id r = qa_payment_id new
              \<and> rs_invoice_id r = qa_invoice_id new \<and> rs_operator_id r = qa_operator_id new
              \<and> rs_mint_url r = qa_mint_url new) (db_reservations db)) (\<lambda>_.
     bindR (requireExists (\<lambda>rt. rt_invoice_id rt = qa_invoice_id new
              \<and> rt_operator_id rt = qa_operator_id new \<and> rt_mint_url rt = qa_mint_url new
              \<and> rt_settlement_destination rt = qa_settlement_destination new) (db_routes db)) (\<lambda>_.
     Inr (Some (db\<lparr>db_quoteAttempts := db_quoteAttempts db @ [new]\<rparr>))))))"

text \<open>\<open>cashmesh_validate_stellar_quote_outcome\<close>\<close>

definition validateQuoteOutcome :: "db \<Rightarrow> quote_outcome_row \<Rightarrow> db_error + unit" where
  "validateQuoteOutcome db new =
    (case findFirst (\<lambda>a. qa_attempt_id a = qo_attempt_id new) (db_quoteAttempts db) of
       None \<Rightarrow> Inl Check_violation
     | Some attempt \<Rightarrow>
         checkRow (\<not> (qo_recorded_at new < qa_started_at attempt
           \<or> countEffects db (qo_payment_id new) \<noteq> 0
           \<or> countEvents db (qo_payment_id new) \<noteq> 0
           \<or> findCustody db (qo_payment_id new) = None
           \<or> qo_outcome_kind new = ''quoted''
             \<and> (ltN (Some (qa_started_at attempt + 900)) (qo_expiry new)
                \<or> ltN (Some (MAX_SAFE_INTEGER - qa_amount attempt)) (qo_fee_reserve new)))))"

text \<open>The check \<open>cashu_stellar_quote_outcomes_shape\<close>.\<close>

definition outcomeShapeCheck :: "quote_outcome_row \<Rightarrow> bool" where
  "outcomeShapeCheck new \<longleftrightarrow>
     qo_outcome_kind new = ''ambiguous'' \<and> qo_ambiguity_reason new = Some ''transport_ambiguous''
       \<and> qo_quote_id new = None \<and> qo_fee_reserve new = None \<and> qo_expiry new = None
     \<or> qo_outcome_kind new = ''quoted'' \<and> qo_ambiguity_reason new = None
       \<and> qo_quote_id new \<noteq> None
       \<and> (case qo_fee_reserve new of None \<Rightarrow> False | Some fee \<Rightarrow> 0 \<le> fee \<and> fee \<le> MAX_SAFE_INTEGER)
       \<and> (case qo_expiry new of None \<Rightarrow> False
          | Some expiry \<Rightarrow> qo_recorded_at new < expiry \<and> expiry \<le> MAX_SAFE_INTEGER)"

text \<open>The index on mint and quote is partial: it holds the quoted outcomes only.\<close>

definition insertQuoteOutcome :: "db \<Rightarrow> quote_outcome_row \<Rightarrow> db_error + db" where
  "insertQuoteOutcome db new =
     bindR (validateQuoteOutcome db new) (\<lambda>_.
     bindR (checkRow (outcomeShapeCheck new)) (\<lambda>_.
     bindR (requireUnique ''cashu_stellar_melt_quote_outcomes_pkey'' qo_attempt_id
              (db_quoteOutcomes db) new) (\<lambda>_.
     bindR (requireUnique ''cashu_stellar_melt_quote_outcomes_outcome_fingerprint_key''
              qo_outcome_fingerprint (db_quoteOutcomes db) new) (\<lambda>_.
     bindR (if qo_outcome_kind new \<noteq> ''quoted'' then Inr ()
            else requireUnique ''cashu_stellar_quote_outcomes_mint_quote_unique''
              (\<lambda>out. (qo_mint_url out, qo_quote_id out))
              (filter (\<lambda>out. qo_outcome_kind out = ''quoted'') (db_quoteOutcomes db)) new) (\<lambda>_.
     bindR (requireExists (\<lambda>a. qa_attempt_id a = qo_attempt_id new
              \<and> qa_payment_id a = qo_payment_id new \<and> qa_mint_url a = qo_mint_url new)
              (db_quoteAttempts db)) (\<lambda>_.
     Inr (queue [Quote_outcome_check (qo_attempt_id new)]
            (db\<lparr>db_quoteOutcomes := db_quoteOutcomes db @ [new]\<rparr>))))))))"

text \<open>\<open>cashmesh_guard_cashu_observation_append\<close>\<close>

definition guardObservationAppend :: "db \<Rightarrow> string \<Rightarrow> db_error + unit" where
  "guardObservationAppend db pid =
    (if findReservation db pid = None then Inl Check_violation
     else if terminalState (latestState db pid) then Inl Not_in_prerequisite_state
     else Inr ())"

text \<open>\<open>cashmesh_validate_stellar_quote_observation\<close>\<close>

definition validateQuoteObservation :: "db \<Rightarrow> quote_observation_row \<Rightarrow> db_error + unit" where
  "validateQuoteObservation db new =
    (case findFirst (\<lambda>out. qo_attempt_id out = qb_attempt_id new) (db_quoteOutcomes db) of
       None \<Rightarrow> Inl Check_violation
     | Some outcome \<Rightarrow>
         checkRow (\<not> (qo_outcome_kind outcome \<noteq> ''quoted''
           \<or> qo_payment_id outcome \<noteq> qb_payment_id new
           \<or> qo_mint_url outcome \<noteq> qb_mint_url new
           \<or> neqN (qo_quote_id outcome) (Some (qb_quote_id new))
           \<or> qb_observed_at new < qo_recorded_at outcome
           \<or> (case latestBy qb_observed_at
                     (filter (\<lambda>b. qb_attempt_id b = qb_attempt_id new) (db_quoteObservations db)) of
                None \<Rightarrow> qb_observed_at new \<noteq> qo_recorded_at outcome \<or> qb_state new \<noteq> ''UNPAID''
              | Some latest \<Rightarrow> qb_observed_at new \<le> qb_observed_at latest
                  \<or> qb_state latest = ''PAID'' \<and> qb_state new \<noteq> ''PAID''))))"

definition insertQuoteObservation :: "db \<Rightarrow> quote_observation_row \<Rightarrow> db_error + db" where
  "insertQuoteObservation db new =
     bindR (guardObservationAppend db (qb_payment_id new)) (\<lambda>_.
     bindR (validateQuoteObservation db new) (\<lambda>_.
     bindR (requireUnique ''cashu_stellar_melt_quote_observations_pkey'' qb_snapshot_fingerprint
              (db_quoteObservations db) new) (\<lambda>_.
     bindR (requireUnique ''cashu_stellar_quote_observations_attempt_time_unique''
              (\<lambda>b. (qb_attempt_id b, qb_observed_at b)) (db_quoteObservations db) new) (\<lambda>_.
     bindR (requireExists (\<lambda>out. qo_attempt_id out = qb_attempt_id new
              \<and> qo_payment_id out = qb_payment_id new \<and> qo_mint_url out = qb_mint_url new
              \<and> qo_quote_id out = Some (qb_quote_id new)) (db_quoteOutcomes db)) (\<lambda>_.
     Inr (queue [Quote_outcome_check (qb_attempt_id new)]
            (db\<lparr>db_quoteObservations := db_quoteObservations db @ [new]\<rparr>)))))))"

section \<open>The reservation of an attempt\<close>

record reservation_context =
  qx_active_proof_count :: int
  qx_created_at :: int
  qx_custody_created_at :: "int option"
  qx_effect_count :: int
  qx_event_count :: int
  qx_expires_at :: int
  qx_invoice_amount :: int
  qx_invoice_id :: string
  qx_invoice_state :: string
  qx_invoice_unit :: string
  qx_mint_url :: string
  qx_operator_id :: string
  qx_payment_id :: string
  qx_reservation_schema_version :: int
  qx_reservation_unit :: string
  qx_route_mode :: string
  qx_reserved_at :: int
  qx_reserved_proof_count :: int
  qx_settlement_destination :: string

definition joinedContexts :: "db \<Rightarrow> string \<Rightarrow> reservation_context list" where
  "joinedContexts db pid =
     [\<lparr>qx_active_proof_count = countClaims db pid, qx_created_at = ir_created_at i,
       qx_custody_created_at = map_option cu_created_at (findCustody db pid),
       qx_effect_count = countEffects db pid, qx_event_count = countEvents db pid,
       qx_expires_at = ir_expires_at i, qx_invoice_amount = ir_amount i,
       qx_invoice_id = rs_invoice_id r, qx_invoice_state = ir_state i, qx_invoice_unit = ir_unit i,
       qx_mint_url = rs_mint_url r, qx_operator_id = rs_operator_id r,
       qx_payment_id = rs_payment_id r, qx_reservation_schema_version = rs_schema_version r,
       qx_reservation_unit = rs_unit r, qx_route_mode = rt_mode rt,
       qx_reserved_at = rs_reserved_at r, qx_reserved_proof_count = countProofs db pid,
       qx_settlement_destination = rt_settlement_destination rt\<rparr>.
      r \<leftarrow> db_reservations db, rs_payment_id r = pid,
      i \<leftarrow> db_invoices db, ir_id i = rs_invoice_id r,
      rt \<leftarrow> db_routes db, rt_invoice_id rt = rs_invoice_id r
        \<and> rt_operator_id rt = rs_operator_id r \<and> rt_mint_url rt = rs_mint_url r]"

definition requireReservationContext :: "db \<Rightarrow> string \<Rightarrow> reservation_context quote_result" where
  "requireReservationContext db pid =
    (case joinedContexts db pid of [] \<Rightarrow> failWith QR_reservation_not_found | row # _ \<Rightarrow> Inr row)"

definition createAttemptFromContext ::
  "cashu_env \<Rightarrow> validated_begin \<Rightarrow> reservation_context \<Rightarrow> stored_attempt quote_result" where
  "createAttemptFromContext env input row =
     bindR (invalidQuoteRecord (identifierOf (qx_invoice_id row))) (\<lambda>invoiceId.
     bindR (invalidQuoteRecord (normalizeCashuMintUrl env (qx_mint_url row))) (\<lambda>mintUrl.
     bindR (invalidQuoteRecord (identifierOf (qx_operator_id row))) (\<lambda>operatorId.
     bindR (invalidQuoteRecord (identifierOf (qx_payment_id row))) (\<lambda>paymentId.
     bindR (invalidQuoteRecord (cashuStellarMeltRequestDestination env (vb_request input))) (\<lambda>destination.
     let base = \<lparr>qat_attemptId = vb_attemptId input, qat_invoiceId = invoiceId,
           qat_mintUrl = mintUrl, qat_operatorId = operatorId, qat_paymentId = paymentId,
           qat_request = vb_request input,
           qat_schemaVersion = CASHU_STELLAR_MELT_QUOTE_ATTEMPT_SCHEMA_VERSION,
           qat_settlementDestination = destination, qat_startedAt = vb_startedAt input\<rparr>
     in Inr (quote_attempt.extend base (stored_attempt.fields
          (createCashuStellarMeltQuoteAttemptFingerprint env base))))))))"

text \<open>The counts come as text and are parsed like the times.\<close>

definition assertReservationActive :: "reservation_context \<Rightarrow> unit quote_result" where
  "assertReservationActive row =
     bindR (readQuoteBigint (qx_reserved_proof_count row)) (\<lambda>reservedProofs.
     if reservedProofs = 0 then failWith QR_reservation_not_active
     else
     bindR (readQuoteBigint (qx_active_proof_count row)) (\<lambda>activeProofs.
     if activeProofs \<noteq> reservedProofs then failWith QR_reservation_not_active
     else
     bindR (readQuoteBigint (qx_effect_count row)) (\<lambda>effects.
     if effects \<noteq> 0 then failWith QR_reservation_not_active
     else
     bindR (readQuoteBigint (qx_event_count row)) (\<lambda>events.
     if events \<noteq> 0 then failWith QR_reservation_not_active else Inr ()))))"

text \<open>
  The URL was normalised when the attempt was made, so its second normalisation, a comparison in the
  code, cannot differ.
\<close>

definition assertBeginPreconditions ::
  "stored_attempt \<Rightarrow> reservation_context \<Rightarrow> unit quote_result" where
  "assertBeginPreconditions attempt row =
    (case qx_custody_created_at row of
       None \<Rightarrow> failWith QR_custody_not_found
     | Some storedCustody \<Rightarrow>
     bindR (readQuoteBigint (qx_created_at row)) (\<lambda>createdAt.
     bindR (readQuoteBigint (qx_expires_at row)) (\<lambda>expiresAt.
     bindR (readQuoteBigint (qx_reserved_at row)) (\<lambda>reservedAt.
     bindR (readQuoteBigint storedCustody) (\<lambda>custodyCreatedAt.
     if qx_reservation_schema_version row \<noteq> 1
        \<or> qx_payment_id row \<noteq> qat_paymentId attempt \<or> qx_invoice_id row \<noteq> qat_invoiceId attempt
        \<or> qx_operator_id row \<noteq> qat_operatorId attempt
        \<or> qx_reservation_unit row \<noteq> CASHU_STELLAR_UNIT \<or> qx_invoice_unit row \<noteq> CASHU_STELLAR_UNIT
     then failWith QR_invalid_record
     else if qx_route_mode row \<noteq> ''immediate_conversion''
        \<or> qx_settlement_destination row \<noteq> qat_settlementDestination attempt
     then failWith QR_terms_mismatch
     else
     bindR (readQuoteBigint (qx_invoice_amount row)) (\<lambda>amount.
     if amount \<noteq> qr_amount (qat_request attempt) then failWith QR_terms_mismatch
     else if qx_invoice_state row \<noteq> ''open'' \<or> qat_startedAt attempt < createdAt
        \<or> qat_startedAt attempt < reservedAt \<or> qat_startedAt attempt < custodyCreatedAt
        \<or> qat_startedAt attempt \<ge> expiresAt
     then failWith QR_invoice_window_closed
     else assertReservationActive row))))))"

section \<open>Reading an attempt\<close>

definition mapAttemptBase :: "cashu_env \<Rightarrow> quote_attempt_row \<Rightarrow> stored_attempt quote_result" where
  "mapAttemptBase env row = invalidQuoteRecord (mapCashuStellarMeltQuoteAttemptRecord env row)"

definition publicAttemptBase :: "stored_attempt \<Rightarrow> attempt_body \<Rightarrow> melt_attempt" where
  "publicAttemptBase a body =
     \<lparr>mat_attemptId = qat_attemptId a, mat_invoiceId = qat_invoiceId a, mat_mintUrl = qat_mintUrl a,
      mat_operatorId = qat_operatorId a, mat_paymentId = qat_paymentId a,
      mat_request = qat_request a, mat_schemaVersion = qat_schemaVersion a,
      mat_startedAt = qat_startedAt a, mat_body = body\<rparr>"

definition conflictingAttempts :: "db \<Rightarrow> string \<Rightarrow> string \<Rightarrow> quote_attempt_row list" where
  "conflictingAttempts db aid pid =
     filter (\<lambda>a. qa_attempt_id a = aid \<or> qa_payment_id a = pid) (db_quoteAttempts db)"

definition findOutcome :: "db \<Rightarrow> string \<Rightarrow> quote_outcome_row option" where
  "findOutcome db aid = findFirst (\<lambda>out. qo_attempt_id out = aid) (db_quoteOutcomes db)"

definition observationsOf :: "db \<Rightarrow> string \<Rightarrow> quote_observation_row list" where
  "observationsOf db aid = filter (\<lambda>b. qb_attempt_id b = aid) (db_quoteObservations db)"

definition findObservation :: "db \<Rightarrow> string \<Rightarrow> int \<Rightarrow> quote_observation_row option" where
  "findObservation db aid observedAt =
     findFirst (\<lambda>b. qb_observed_at b = observedAt) (observationsOf db aid)"

definition findLatestObservation :: "db \<Rightarrow> string \<Rightarrow> quote_observation_row option" where
  "findLatestObservation db aid = latestBy qb_observed_at (observationsOf db aid)"

definition parseAmbiguityReason :: "string option \<Rightarrow> string quote_result" where
  "parseAmbiguityReason v =
    (case v of
       None \<Rightarrow> failWith QR_invalid_record
     | Some reason \<Rightarrow> if reason \<notin> set CASHU_STELLAR_MELT_QUOTE_AMBIGUITY_REASONS
         then failWith QR_invalid_record else Inr reason)"

definition createAmbiguousOutcomeFingerprint ::
  "cashu_env \<Rightarrow> stored_attempt \<Rightarrow> ambiguous_attempt_input \<Rightarrow> string" where
  "createAmbiguousOutcomeFingerprint env attempt input =
     env_sha256 env (JObj
       [(''ambiguityReason'', JStr (aat_reason input)),
        (''attemptFingerprint'', JStr (qat_attemptFingerprint attempt)),
        (''attemptId'', JStr (qat_attemptId attempt)), (''kind'', JStr ''ambiguous''),
        (''paymentId'', JStr (qat_paymentId attempt)), (''recordedAt'', JNum (aat_recordedAt input)),
        (''schemaVersion'', JNum (qat_schemaVersion attempt))])"

definition mapAmbiguous ::
  "cashu_env \<Rightarrow> stored_attempt \<Rightarrow> quote_outcome_row \<Rightarrow> quote_observation_row list
     \<Rightarrow> melt_attempt quote_result" where
  "mapAmbiguous env attempt outcome observations =
     bindR (parseAmbiguityReason (qo_ambiguity_reason outcome)) (\<lambda>reason.
     bindR (readQuoteBigint (qo_recorded_at outcome)) (\<lambda>storedAt.
     bindR (other (unixTimestamp storedAt)) (\<lambda>ambiguousAt.
     if qo_quote_id outcome \<noteq> None \<or> qo_fee_reserve outcome \<noteq> None \<or> qo_expiry outcome \<noteq> None
        \<or> ambiguousAt < qat_startedAt attempt \<or> observations \<noteq> []
        \<or> createAmbiguousOutcomeFingerprint env attempt
             \<lparr>aat_attemptId = qat_attemptId attempt, aat_paymentId = qat_paymentId attempt,
              aat_reason = reason, aat_recordedAt = ambiguousAt\<rparr> \<noteq> qo_outcome_fingerprint outcome
     then failWith QR_invalid_record
     else Inr (publicAttemptBase attempt (Attempt_ambiguous reason ambiguousAt)))))"

definition mapAttempt :: "cashu_env \<Rightarrow> db \<Rightarrow> quote_attempt_row \<Rightarrow> melt_attempt quote_result" where
  "mapAttempt env db row =
     bindR (mapAttemptBase env row) (\<lambda>attempt.
     let observations = sort_key qb_observed_at (observationsOf db (qat_attemptId attempt)) in
     case findOutcome db (qat_attemptId attempt) of
       None \<Rightarrow> if observations \<noteq> [] then failWith QR_invalid_record
         else Inr (publicAttemptBase attempt Attempt_creating)
     | Some outcome \<Rightarrow>
         if qo_attempt_id outcome \<noteq> qat_attemptId attempt
            \<or> qo_payment_id outcome \<noteq> qat_paymentId attempt
            \<or> qo_mint_url outcome \<noteq> qat_mintUrl attempt
            \<or> qo_schema_version outcome \<noteq> qat_schemaVersion attempt
         then failWith QR_invalid_record
         else if qo_outcome_kind outcome = ''ambiguous''
         then mapAmbiguous env attempt outcome observations
         else if qo_outcome_kind outcome \<noteq> ''quoted'' then failWith QR_invalid_record
         else
         bindR (invalidQuoteRecord (mapCashuStellarMeltQuotedEvidenceRecord env row outcome observations))
           (\<lambda>evidence.
         case atLast (qe_observations evidence) of
           None \<Rightarrow> failWith QR_invalid_record
         | Some latestQuote \<Rightarrow>
             Inr (publicAttemptBase (qe_attempt evidence)
                    (Attempt_quoted latestQuote (qe_observations evidence)))))"

section \<open>Operations\<close>

definition attemptResult ::
  "cashu_env \<Rightarrow> db \<Rightarrow> quote_attempt_row \<Rightarrow> bool \<Rightarrow> (db \<times> attempt_result) quote_result" where
  "attemptResult env db row replayed =
     bindR (mapAttempt env db row) (\<lambda>attempt.
     Inr (db, \<lparr>atr_attempt = attempt, atr_replayed = replayed\<rparr>))"

definition replayBegin ::
  "cashu_env \<Rightarrow> db \<Rightarrow> quote_attempt_row list \<Rightarrow> string \<Rightarrow> (db \<times> attempt_result) quote_result" where
  "replayBegin env db rows expectedFingerprint =
    (case rows of
       [row] \<Rightarrow> if qa_attempt_fingerprint row \<noteq> expectedFingerprint then failWith QR_attempt_conflict
         else attemptResult env db row True
     | _ \<Rightarrow> failWith QR_attempt_conflict)"

definition attemptRowOf :: "stored_attempt \<Rightarrow> quote_attempt_row" where
  "attemptRowOf a =
     \<lparr>qa_attempt_id = qat_attemptId a, qa_attempt_fingerprint = qat_attemptFingerprint a,
      qa_payment_id = qat_paymentId a, qa_invoice_id = qat_invoiceId a,
      qa_operator_id = qat_operatorId a, qa_mint_url = qat_mintUrl a,
      qa_method = qr_method (qat_request a), qa_unit = qr_unit (qat_request a),
      qa_amount = qr_amount (qat_request a), qa_request = qr_request (qat_request a),
      qa_schema_version = qat_schemaVersion a,
      qa_settlement_destination = qat_settlementDestination a, qa_started_at = qat_startedAt a\<rparr>"

definition beginIn ::
  "cashu_env \<Rightarrow> validated_begin \<Rightarrow> db \<Rightarrow> (db \<times> attempt_result) quote_result" where
  "beginIn env validated db =
     bindR (requireReservationContext db (vb_paymentId validated)) (\<lambda>row.
     bindR (createAttemptFromContext env validated row) (\<lambda>attempt.
     let existing = conflictingAttempts db (qat_attemptId attempt) (qat_paymentId attempt) in
     if existing \<noteq> [] then replayBegin env db existing (qat_attemptFingerprint attempt)
     else
     bindR (assertBeginPreconditions attempt row) (\<lambda>_.
     bindR (liftDb (insertQuoteAttempt db (attemptRowOf attempt))) (\<lambda>inserted.
     case inserted of
       None \<Rightarrow> replayBegin env db
         (conflictingAttempts db (qat_attemptId attempt) (qat_paymentId attempt))
         (qat_attemptFingerprint attempt)
     | Some begun \<Rightarrow> attemptResult env begun (attemptRowOf attempt) False))))"

definition lockReservation :: "db \<Rightarrow> string \<Rightarrow> unit quote_result" where
  "lockReservation db pid =
    (if findReservation db pid = None then failWith QR_reservation_not_found else Inr ())"

definition lockAttempt :: "db \<Rightarrow> string \<Rightarrow> string \<Rightarrow> quote_attempt_row quote_result" where
  "lockAttempt db aid pid =
    (case conflictingAttempts db aid pid of
       [] \<Rightarrow> failWith QR_attempt_not_found
     | [row] \<Rightarrow> if qa_attempt_id row \<noteq> aid \<or> qa_payment_id row \<noteq> pid
         then failWith QR_attempt_conflict else Inr row
     | _ \<Rightarrow> failWith QR_attempt_conflict)"

definition assertOutcomeWritable :: "db \<Rightarrow> string \<Rightarrow> unit quote_result" where
  "assertOutcomeWritable db pid =
    (if findCustody db pid = None \<or> countEffects db pid \<noteq> 0 \<or> countEvents db pid \<noteq> 0
     then failWith QR_invalid_transition else Inr ())"

definition assertObservationWritable :: "db \<Rightarrow> string \<Rightarrow> unit quote_result" where
  "assertObservationWritable db pid =
    (if terminalState (latestState db pid) then failWith QR_invalid_transition else Inr ())"

definition assertMatchingTerms :: "stored_attempt \<Rightarrow> melt_quote \<Rightarrow> unit quote_result" where
  "assertMatchingTerms attempt quote =
    (if mq_mintUrl quote \<noteq> qat_mintUrl attempt \<or> mq_method quote \<noteq> qr_method (qat_request attempt)
        \<or> mq_unit quote \<noteq> qr_unit (qat_request attempt)
        \<or> mq_amount quote \<noteq> qr_amount (qat_request attempt)
        \<or> mq_request quote \<noteq> qr_request (qat_request attempt)
     then failWith QR_terms_mismatch else Inr ())"

definition assertInitialQuote :: "stored_attempt \<Rightarrow> melt_quote \<Rightarrow> unit quote_result" where
  "assertInitialQuote attempt quote =
     bindR (assertMatchingTerms attempt quote) (\<lambda>_.
     if mq_state quote \<noteq> Quote_unpaid \<or> mq_observedAt quote < qat_startedAt attempt
        \<or> mq_expiry quote \<le> mq_observedAt quote
        \<or> mq_expiry quote - qat_startedAt attempt > MAX_CASHU_STELLAR_MELT_QUOTE_TTL_SECONDS
     then failWith QR_invalid_input else Inr ())"

text \<open>\<open>parseSafeInteger(value ?? "")\<close> refuses a null.\<close>

definition readOptional :: "int option \<Rightarrow> int quote_result" where
  "readOptional v = (case v of None \<Rightarrow> parseSafeInteger (Repository_failure QR_invalid_record) []
     | Some n \<Rightarrow> readQuoteBigint n)"

definition assertObservedQuote ::
  "stored_attempt \<Rightarrow> quote_outcome_row \<Rightarrow> melt_quote \<Rightarrow> unit quote_result" where
  "assertObservedQuote attempt outcome quote =
     bindR (assertMatchingTerms attempt quote) (\<lambda>_.
     if qo_quote_id outcome \<noteq> Some (mq_quoteId quote) then failWith QR_terms_mismatch
     else
     bindR (readOptional (qo_fee_reserve outcome)) (\<lambda>feeReserve.
     if feeReserve \<noteq> mq_feeReserve quote then failWith QR_terms_mismatch
     else
     bindR (readOptional (qo_expiry outcome)) (\<lambda>expiry.
     if expiry \<noteq> mq_expiry quote then failWith QR_terms_mismatch else Inr ())))"

definition ambiguousRowOf ::
  "stored_attempt \<Rightarrow> ambiguous_attempt_input \<Rightarrow> string \<Rightarrow> quote_outcome_row" where
  "ambiguousRowOf a input fingerprint =
     \<lparr>qo_attempt_id = qat_attemptId a, qo_outcome_fingerprint = fingerprint,
      qo_payment_id = qat_paymentId a, qo_mint_url = qat_mintUrl a,
      qo_outcome_kind = ''ambiguous'', qo_ambiguity_reason = Some (aat_reason input),
      qo_quote_id = None, qo_fee_reserve = None, qo_expiry = None,
      qo_schema_version = qat_schemaVersion a, qo_recorded_at = aat_recordedAt input\<rparr>"

definition recordAmbiguousIn ::
  "cashu_env \<Rightarrow> ambiguous_attempt_input \<Rightarrow> db \<Rightarrow> (db \<times> attempt_result) quote_result" where
  "recordAmbiguousIn env validated db =
     bindR (lockReservation db (aat_paymentId validated)) (\<lambda>_.
     bindR (lockAttempt db (aat_attemptId validated) (aat_paymentId validated)) (\<lambda>row.
     bindR (mapAttemptBase env row) (\<lambda>attempt.
     if aat_recordedAt validated < qat_startedAt attempt then failWith QR_invalid_input
     else
     let fingerprint = createAmbiguousOutcomeFingerprint env attempt validated in
     case findOutcome db (qat_attemptId attempt) of
       Some existing \<Rightarrow>
         if qo_outcome_kind existing \<noteq> ''ambiguous'' then failWith QR_invalid_transition
         else if qo_outcome_fingerprint existing \<noteq> fingerprint then failWith QR_quote_conflict
         else attemptResult env db row True
     | None \<Rightarrow>
         bindR (assertOutcomeWritable db (qat_paymentId attempt)) (\<lambda>_.
         bindR (liftDb (insertQuoteOutcome db (ambiguousRowOf attempt validated fingerprint))) (\<lambda>stored.
         attemptResult env stored row False)))))"

definition quotedRowOf :: "stored_attempt \<Rightarrow> melt_quote \<Rightarrow> string \<Rightarrow> quote_outcome_row" where
  "quotedRowOf a quote fingerprint =
     \<lparr>qo_attempt_id = qat_attemptId a, qo_outcome_fingerprint = fingerprint,
      qo_payment_id = qat_paymentId a, qo_mint_url = qat_mintUrl a, qo_outcome_kind = ''quoted'',
      qo_ambiguity_reason = None, qo_quote_id = Some (mq_quoteId quote),
      qo_fee_reserve = Some (mq_feeReserve quote), qo_expiry = Some (mq_expiry quote),
      qo_schema_version = qat_schemaVersion a, qo_recorded_at = mq_observedAt quote\<rparr>"

definition quoteObservationRowOf ::
  "stored_attempt \<Rightarrow> melt_quote \<Rightarrow> string \<Rightarrow> quote_observation_row" where
  "quoteObservationRowOf a quote fingerprint =
     \<lparr>qb_snapshot_fingerprint = fingerprint, qb_attempt_id = qat_attemptId a,
      qb_payment_id = qat_paymentId a, qb_mint_url = qat_mintUrl a, qb_quote_id = mq_quoteId quote,
      qb_schema_version = mq_schemaVersion quote, qb_observed_at = mq_observedAt quote,
      qb_state = showQuoteState (mq_state quote)\<rparr>"

definition replayQuote ::
  "cashu_env \<Rightarrow> db \<Rightarrow> quote_attempt_row \<Rightarrow> stored_attempt \<Rightarrow> melt_quote \<Rightarrow> quote_outcome_row
     \<Rightarrow> (db \<times> attempt_result) quote_result" where
  "replayQuote env db row attempt quote existing =
    (if qo_outcome_kind existing \<noteq> ''quoted'' then failWith QR_invalid_transition
     else if qo_outcome_fingerprint existing
               \<noteq> createCashuStellarMeltQuotedOutcomeFingerprint env attempt quote
        \<or> map_option qb_snapshot_fingerprint
             (findObservation db (qat_attemptId attempt) (mq_observedAt quote))
           \<noteq> Some (createCashuStellarMeltQuoteObservationFingerprint env attempt quote)
     then failWith QR_quote_conflict
     else attemptResult env db row True)"

definition recordQuoteIn ::
  "cashu_env \<Rightarrow> quote_attempt_input \<Rightarrow> db \<Rightarrow> (db \<times> attempt_result) quote_result" where
  "recordQuoteIn env validated db =
     bindR (lockReservation db (qti_paymentId validated)) (\<lambda>_.
     bindR (lockAttempt db (qti_attemptId validated) (qti_paymentId validated)) (\<lambda>row.
     bindR (mapAttemptBase env row) (\<lambda>attempt.
     let quote = qti_quote validated in
     bindR (assertInitialQuote attempt quote) (\<lambda>_.
     case findOutcome db (qat_attemptId attempt) of
       Some existing \<Rightarrow> replayQuote env db row attempt quote existing
     | None \<Rightarrow>
         bindR (assertOutcomeWritable db (qat_paymentId attempt)) (\<lambda>_.
         bindR (liftDb (insertQuoteOutcome db (quotedRowOf attempt quote
                  (createCashuStellarMeltQuotedOutcomeFingerprint env attempt quote)))) (\<lambda>quoted.
         bindR (liftDb (insertQuoteObservation quoted (quoteObservationRowOf attempt quote
                  (createCashuStellarMeltQuoteObservationFingerprint env attempt quote)))) (\<lambda>stored.
         attemptResult env stored row False)))))))"

definition assertLaterObservation :: "db \<Rightarrow> string \<Rightarrow> melt_quote \<Rightarrow> unit quote_result" where
  "assertLaterObservation db aid quote =
    (case findLatestObservation db aid of
       None \<Rightarrow> failWith QR_invalid_transition
     | Some latest \<Rightarrow>
         bindR (readQuoteBigint (qb_observed_at latest)) (\<lambda>latestAt.
         if mq_observedAt quote \<le> latestAt
            \<or> qb_state latest = ''PAID'' \<and> mq_state quote \<noteq> Quote_paid
         then failWith QR_invalid_transition else Inr ()))"

definition observeIn ::
  "cashu_env \<Rightarrow> quote_attempt_input \<Rightarrow> db \<Rightarrow> (db \<times> attempt_result) quote_result" where
  "observeIn env validated db =
     bindR (lockReservation db (qti_paymentId validated)) (\<lambda>_.
     bindR (lockAttempt db (qti_attemptId validated) (qti_paymentId validated)) (\<lambda>row.
     bindR (mapAttemptBase env row) (\<lambda>attempt.
     let quote = qti_quote validated in
     case findOutcome db (qat_attemptId attempt) of
       None \<Rightarrow> failWith QR_invalid_transition
     | Some outcome \<Rightarrow>
         if qo_outcome_kind outcome \<noteq> ''quoted'' then failWith QR_invalid_transition
         else
         bindR (assertObservedQuote attempt outcome quote) (\<lambda>_.
         let fingerprint = createCashuStellarMeltQuoteObservationFingerprint env attempt quote in
         case findObservation db (qat_attemptId attempt) (mq_observedAt quote) of
           Some existing \<Rightarrow>
             if qb_snapshot_fingerprint existing \<noteq> fingerprint then failWith QR_observation_conflict
             else attemptResult env db row True
         | None \<Rightarrow>
             bindR (assertObservationWritable db (qat_paymentId attempt)) (\<lambda>_.
             bindR (assertLaterObservation db (qat_attemptId attempt) quote) (\<lambda>_.
             bindR (liftDb (insertQuoteObservation db
                      (quoteObservationRowOf attempt quote fingerprint))) (\<lambda>stored.
             attemptResult env stored row False)))))))"

definition mapQuoteStorageError :: "quote_repository_error failure \<Rightarrow> quote_repository_error" where
  "mapQuoteStorageError f = (case f of
       Repository_failure c \<Rightarrow> c
     | Database_failure (Unique_violation name) \<Rightarrow>
         if name = ''cashu_stellar_quote_outcomes_mint_quote_unique'' then QR_quote_conflict
         else if name \<in> {''cashu_stellar_quote_observations_attempt_time_unique'',
                         ''cashu_stellar_melt_quote_observations_pkey''}
         then QR_observation_conflict
         else if name \<in> {''cashu_stellar_melt_quote_attempts_pkey'',
                         ''cashu_stellar_melt_quote_attempts_payment_id_key''}
         then QR_attempt_conflict
         else QR_storage_unavailable
     | _ \<Rightarrow> QR_storage_unavailable)"

definition beginAttempt ::
  "cashu_env \<Rightarrow> begin_attempt_input \<Rightarrow> db \<Rightarrow> quote_repository_error + db \<times> attempt_result" where
  "beginAttempt env input db =
     catchR mapQuoteStorageError (bindR (validateBegin env input) (\<lambda>validated.
     withTransaction (beginIn env validated) db))"

definition recordAmbiguous ::
  "cashu_env \<Rightarrow> ambiguous_attempt_input \<Rightarrow> db \<Rightarrow> quote_repository_error + db \<times> attempt_result" where
  "recordAmbiguous env input db =
     catchR mapQuoteStorageError (bindR (validateAmbiguous input) (\<lambda>validated.
     withTransaction (recordAmbiguousIn env validated) db))"

definition recordQuote ::
  "cashu_env \<Rightarrow> quote_attempt_input \<Rightarrow> db \<Rightarrow> quote_repository_error + db \<times> attempt_result" where
  "recordQuote env input db =
     catchR mapQuoteStorageError (bindR (validateQuoteInput env input) (\<lambda>validated.
     withTransaction (recordQuoteIn env validated) db))"

definition observe ::
  "cashu_env \<Rightarrow> quote_attempt_input \<Rightarrow> db \<Rightarrow> quote_repository_error + db \<times> attempt_result" where
  "observe env input db =
     catchR mapQuoteStorageError (bindR (validateQuoteInput env input) (\<lambda>validated.
     withTransaction (observeIn env validated) db))"

definition findAttemptByPaymentId ::
  "cashu_env \<Rightarrow> db \<Rightarrow> string \<Rightarrow> quote_repository_error + melt_attempt option" where
  "findAttemptByPaymentId env db requestedPaymentId =
     catchR mapQuoteStorageError (
     bindR (invalidQuoteInput (identifierOf requestedPaymentId)) (\<lambda>validatedPaymentId.
     case findFirst (\<lambda>a. qa_payment_id a = validatedPaymentId) (db_quoteAttempts db) of
       None \<Rightarrow> Inr None
     | Some row \<Rightarrow> bindR (mapAttempt env db row) (\<lambda>attempt. Inr (Some attempt))))"

end
