(* ===== verification/Quote_Facts.thy ===== *)
theory Quote_Facts
  imports Quote_Store
begin

text \<open>
  The quote tables as a map from payments to attempts: the invariant under which every stored
  attempt can be read, the steps an attempt takes, and the refinement of those steps by the
  operations of \<open>Quote_Store\<close>.
\<close>

section \<open>What reading a row says\<close>

lemma attemptRecord_row:
  "mapCashuStellarMeltQuoteAttemptRecord env row = Inr a \<Longrightarrow>
     row = attemptRowOf a \<and> normalizeCashuMintUrl env (qat_mintUrl a) = Inr (qat_mintUrl a)
     \<and> qr_method (qat_request a) = ''stellar'' \<and> qr_unit (qat_request a) = ''usdc''"
  by (auto simp: mapCashuStellarMeltQuoteAttemptRecord_def result_simps createRequest_iff Let_def
      attemptRowOf_def cashuStellarSettlementDestination_def split: if_splits)

lemma mapAttemptBase_row:
  "mapAttemptBase env row = Inr a \<Longrightarrow>
     row = attemptRowOf a \<and> normalizeCashuMintUrl env (qat_mintUrl a) = Inr (qat_mintUrl a)
     \<and> qr_method (qat_request a) = ''stellar'' \<and> qr_unit (qat_request a) = ''usdc''"
  by (auto simp: mapAttemptBase_def dest: attemptRecord_row)

lemma attemptRowOf_sel [simp]:
  "qa_attempt_id (attemptRowOf a) = qat_attemptId a" "qa_payment_id (attemptRowOf a) = qat_paymentId a"
  "qa_mint_url (attemptRowOf a) = qat_mintUrl a"
  "qa_attempt_fingerprint (attemptRowOf a) = qat_attemptFingerprint a"
  by (simp_all add: attemptRowOf_def)

text \<open>The quote an observation row stands for.\<close>

definition quoteOfRow :: "stored_attempt \<Rightarrow> int \<Rightarrow> int \<Rightarrow> quote_observation_row \<Rightarrow> melt_quote_state \<Rightarrow> melt_quote" where
  "quoteOfRow a expiry fee row s =
     \<lparr>mq_amount = qr_amount (qat_request a), mq_expiry = expiry, mq_feeReserve = fee,
      mq_method = ''stellar'', mq_mintUrl = qat_mintUrl a, mq_observedAt = qb_observed_at row,
      mq_quoteId = qb_quote_id row, mq_request = qr_request (qat_request a), mq_schemaVersion = 1,
      mq_state = s, mq_unit = ''usdc''\<rparr>"

lemma createQuote_eq:
  "createCashuStellarMeltQuoteV1 env i = Inr q \<Longrightarrow>
     mq_method q = ''stellar'' \<and> mq_unit q = ''usdc'' \<and> mq_schemaVersion q = 1
     \<and> normalizeCashuMintUrl env (mqi_mintUrl i) = Inr (mq_mintUrl q)"
  by (auto simp: createCashuStellarMeltQuoteV1_def result_simps createRequest_iff quote_constants
      split: if_splits option.splits)

lemma observationRecord_quote:
  assumes "mapCashuStellarMeltQuoteObservationRecord env a out expiry fee row = Inr q"
    and "normalizeCashuMintUrl env (qat_mintUrl a) = Inr (qat_mintUrl a)"
  shows "q = quoteOfRow a expiry fee row (mq_state q) \<and> qb_state row = showQuoteState (mq_state q)
    \<and> qo_quote_id out = Some (qb_quote_id row)"
proof -
  obtain i where i: "createCashuStellarMeltQuoteV1 env i = Inr q" "mqi_mintUrl i = qat_mintUrl a"
      "mqi_quoteId i = qb_quote_id row"
    using assms(1)
    by (auto simp: mapCashuStellarMeltQuoteObservationRecord_def result_simps split: if_splits)
  with observationRecord_fields [OF assms(1)] createQuote_eq [OF i(1)] createQuote_fields [OF i(1)] assms(2)
  show ?thesis by (simp add: quoteOfRow_def)
qed

text \<open>What the three shapes of a stored attempt are read as.\<close>

lemma mapAttempt_base:
  assumes "mapAttempt env db row = Inr m"
  obtains a where "mapAttemptBase env row = Inr a" "qa_attempt_id row = qat_attemptId a"
proof -
  obtain a where "mapAttemptBase env row = Inr a"
    using assms by (cases "mapAttemptBase env row") (simp_all add: mapAttempt_def)
  with mapAttemptBase_row [OF this] that show thesis by simp
qed

lemma mapAttempt_creating:
  assumes "mapAttempt env db row = Inr m" and "findOutcome db (qa_attempt_id row) = None"
  obtains a where "mapAttemptBase env row = Inr a" "m = publicAttemptBase a Attempt_creating"
    "observationsOf db (qa_attempt_id row) = []"
proof -
  from mapAttempt_base [OF assms(1)] obtain a where
    a: "mapAttemptBase env row = Inr a" "qa_attempt_id row = qat_attemptId a" .
  with assms that show thesis by (simp add: mapAttempt_def Let_def split: if_splits)
qed

lemma mapAttempt_ambiguous:
  assumes "mapAttempt env db row = Inr m" and "findOutcome db (qa_attempt_id row) = Some out"
    and "qo_outcome_kind out = ''ambiguous''"
  obtains a where "mapAttemptBase env row = Inr a" "observationsOf db (qa_attempt_id row) = []"
    "m = publicAttemptBase a (Attempt_ambiguous ''transport_ambiguous'' (qo_recorded_at out))"
proof -
  from mapAttempt_base [OF assms(1)] obtain a where
    a: "mapAttemptBase env row = Inr a" "qa_attempt_id row = qat_attemptId a" .
  then have "mapAmbiguous env a out (sort_key qb_observed_at (observationsOf db (qat_attemptId a))) = Inr m"
    using assms by (simp add: mapAttempt_def Let_def split: if_splits)
  then show thesis
    using a by (intro that [of a])
      (auto simp: mapAmbiguous_def parseAmbiguityReason_def result_simps
        CASHU_STELLAR_MELT_QUOTE_AMBIGUITY_REASONS_def split: if_splits option.splits)
qed

lemma quotedEvidence_parts:
  assumes "mapCashuStellarMeltQuotedEvidenceRecord env row out rows = Inr ev"
    and "mapCashuStellarMeltQuoteAttemptRecord env row = Inr a"
  obtains expiry fee where "qo_expiry out = Some expiry" "qo_fee_reserve out = Some fee"
    "mapR (mapCashuStellarMeltQuoteObservationRecord env a out expiry fee) rows = Inr (qe_observations ev)"
    "qe_attempt ev = a"
proof -
  obtain expiry fee where *: "qo_expiry out = Some expiry" "qo_fee_reserve out = Some fee"
    using assms
    by (cases "qo_expiry out"; cases "qo_fee_reserve out")
      (auto simp: mapCashuStellarMeltQuotedEvidenceRecord_def result_simps split: if_splits)
  show thesis
    using assms *
    by (intro that [OF *])
      (auto simp: mapCashuStellarMeltQuotedEvidenceRecord_def result_simps
        split: if_splits list.splits)
qed

lemma mapAttempt_quoted:
  assumes "mapAttempt env db row = Inr m" and "findOutcome db (qa_attempt_id row) = Some out"
    and "qo_outcome_kind out = ''quoted''"
  obtains a expiry fee qs latest where "mapAttemptBase env row = Inr a"
    "qo_expiry out = Some expiry" "qo_fee_reserve out = Some fee"
    "mapR (mapCashuStellarMeltQuoteObservationRecord env a out expiry fee)
       (sort_key qb_observed_at (observationsOf db (qa_attempt_id row))) = Inr qs"
    "atLast qs = Some latest" "m = publicAttemptBase a (Attempt_quoted latest qs)"
proof -
  from mapAttempt_base [OF assms(1)] obtain a where
    a: "mapAttemptBase env row = Inr a" "qa_attempt_id row = qat_attemptId a" .
  let ?rows = "sort_key qb_observed_at (observationsOf db (qat_attemptId a))"
  have "bindR (invalidQuoteRecord (mapCashuStellarMeltQuotedEvidenceRecord env row out ?rows)) (\<lambda>ev.
      case atLast (qe_observations ev) of None \<Rightarrow> failWith QR_invalid_record
      | Some latestQuote \<Rightarrow> Inr (publicAttemptBase (qe_attempt ev)
          (Attempt_quoted latestQuote (qe_observations ev)))) = Inr m"
    using assms a by (simp add: mapAttempt_def Let_def split: if_splits)
  then obtain ev where ok: "mapCashuStellarMeltQuotedEvidenceRecord env row out ?rows = Inr ev"
      "(case atLast (qe_observations ev) of None \<Rightarrow> failWith QR_invalid_record
        | Some latestQuote \<Rightarrow> Inr (publicAttemptBase (qe_attempt ev)
            (Attempt_quoted latestQuote (qe_observations ev)))) = Inr m"
    unfolding bindR_eq_Inr invalidQuote_iff by blast
  from ok obtain latest where ev: "mapCashuStellarMeltQuotedEvidenceRecord env row out ?rows = Inr ev"
      "atLast (qe_observations ev) = Some latest"
      "m = publicAttemptBase (qe_attempt ev) (Attempt_quoted latest (qe_observations ev))"
    by (cases "atLast (qe_observations ev)") (auto simp del: atLast_eq_None)
  have "mapCashuStellarMeltQuoteAttemptRecord env row = Inr a"
    using a(1) by (simp add: mapAttemptBase_def)
  from quotedEvidence_parts [OF ev(1) this] obtain expiry fee where
    "qo_expiry out = Some expiry" "qo_fee_reserve out = Some fee"
    "mapR (mapCashuStellarMeltQuoteObservationRecord env a out expiry fee) ?rows = Inr (qe_observations ev)"
    "qe_attempt ev = a" .
  with a ev that show thesis by simp
qed

text \<open>An attempt is read from its own outcome and observations.\<close>

lemma mapAttempt_frame:
  assumes "findOutcome db' (qa_attempt_id row) = findOutcome db (qa_attempt_id row)"
    and "observationsOf db' (qa_attempt_id row) = observationsOf db (qa_attempt_id row)"
  shows "mapAttempt env db' row = mapAttempt env db row"
proof (cases "mapAttemptBase env row")
  case (Inr a)
  with mapAttemptBase_row [OF Inr] assms show ?thesis by (simp add: mapAttempt_def)
qed (simp add: mapAttempt_def)

section \<open>What the statements write\<close>

lemma insertQuoteAttempt_Inr:
  "insertQuoteAttempt db new = Inr (Some after) \<Longrightarrow>
     after = db\<lparr>db_quoteAttempts := db_quoteAttempts db @ [new]\<rparr>
     \<and> (\<forall>a \<in> set (db_quoteAttempts db). qa_attempt_id a \<noteq> qa_attempt_id new
          \<and> qa_payment_id a \<noteq> qa_payment_id new)"
  by (auto simp: insertQuoteAttempt_def result_simps list_ex_iff split: if_splits)

lemma insertQuoteOutcome_Inr:
  "insertQuoteOutcome db new = Inr after \<Longrightarrow>
     after = db\<lparr>db_quoteOutcomes := db_quoteOutcomes db @ [new],
       db_deferred := db_deferred db @ [Quote_outcome_check (qo_attempt_id new)]\<rparr>
     \<and> (\<forall>out \<in> set (db_quoteOutcomes db). qo_attempt_id out \<noteq> qo_attempt_id new)
     \<and> (qo_outcome_kind new = ''quoted'' \<longrightarrow>
          (\<forall>out \<in> set (db_quoteOutcomes db). qo_outcome_kind out = ''quoted'' \<longrightarrow>
             (qo_mint_url out, qo_quote_id out) \<noteq> (qo_mint_url new, qo_quote_id new)))
     \<and> (\<exists>a \<in> set (db_quoteAttempts db). qa_attempt_id a = qo_attempt_id new)"
  by (auto simp: insertQuoteOutcome_def queue_def result_simps split: if_splits)

lemma insertQuoteObservation_Inr:
  "insertQuoteObservation db new = Inr after \<Longrightarrow>
     after = db\<lparr>db_quoteObservations := db_quoteObservations db @ [new],
       db_deferred := db_deferred db @ [Quote_outcome_check (qb_attempt_id new)]\<rparr>
     \<and> qb_attempt_id new \<in> qo_attempt_id ` set (db_quoteOutcomes db)"
  by (auto simp: insertQuoteObservation_def queue_def result_simps intro: rev_image_eqI)

lemma attemptResult_Inr [simp]:
  "attemptResult env db row replayed = Inr (after, res) \<longleftrightarrow>
     after = db \<and> mapAttempt env db row = Inr (atr_attempt res) \<and> atr_replayed res = replayed"
  by (cases res) (auto simp: attemptResult_def result_simps)

section \<open>The invariant\<close>

text \<open>
  One attempt per payment, one outcome per attempt, one payment per quote of a mint, no row without
  the one it refers to; and every stored attempt can be read.
\<close>

definition quoteTables :: "cashu_env \<Rightarrow> db \<Rightarrow> bool" where
  "quoteTables env db \<longleftrightarrow>
     distinct (map qa_attempt_id (db_quoteAttempts db))
     \<and> distinct (map qa_payment_id (db_quoteAttempts db))
     \<and> distinct (map qo_attempt_id (db_quoteOutcomes db))
     \<and> distinct (map (\<lambda>out. (qo_mint_url out, qo_quote_id out))
          (filter (\<lambda>out. qo_outcome_kind out = ''quoted'') (db_quoteOutcomes db)))
     \<and> (\<forall>out \<in> set (db_quoteOutcomes db). qo_attempt_id out \<in> qa_attempt_id ` set (db_quoteAttempts db))
     \<and> (\<forall>b \<in> set (db_quoteObservations db). qb_attempt_id b \<in> qo_attempt_id ` set (db_quoteOutcomes db))
     \<and> (\<forall>row \<in> set (db_quoteAttempts db). isOk (mapAttempt env db row))
     \<and> db_deferred db = []"

text \<open>The tables read as a map from payments to attempts.\<close>

definition quoteView :: "cashu_env \<Rightarrow> db \<Rightarrow> string \<Rightarrow> melt_attempt option" where
  "quoteView env db pid =
    (case findFirst (\<lambda>a. qa_payment_id a = pid) (db_quoteAttempts db) of
       None \<Rightarrow> None
     | Some row \<Rightarrow> (case mapAttempt env db row of Inl _ \<Rightarrow> None | Inr m \<Rightarrow> Some m))"

lemma findFirst_distinct:
  "distinct (map f xs) \<Longrightarrow> x \<in> set xs \<Longrightarrow> findFirst (\<lambda>y. f y = f x) xs = Some x"
  by (induction xs) (auto simp: rev_image_eqI)

lemma quoteView_row:
  assumes "quoteTables env db" and "row \<in> set (db_quoteAttempts db)"
  shows "quoteView env db (qa_payment_id row) = (case mapAttempt env db row of Inl _ \<Rightarrow> None | Inr m \<Rightarrow> Some m)"
  using assms findFirst_distinct [of qa_payment_id "db_quoteAttempts db" row]
  by (simp add: quoteTables_def quoteView_def)

lemma quoteView_None:
  "quoteView env db pid = None \<longleftrightarrow> pid \<notin> qa_payment_id ` set (db_quoteAttempts db)"
  if "quoteTables env db"
proof (cases "findFirst (\<lambda>a. qa_payment_id a = pid) (db_quoteAttempts db)")
  case None
  then have "quoteView env db pid = None" by (simp add: quoteView_def)
  with None show ?thesis by (auto simp: findFirst_None)
next
  case (Some row)
  then have row: "row \<in> set (db_quoteAttempts db)" "qa_payment_id row = pid" using findFirst_Some by fastforce+
  then have "isOk (mapAttempt env db row)" using that by (simp add: quoteTables_def)
  then show ?thesis using Some row by (auto simp: quoteView_def isOk_iff)
qed

text \<open>The view depends on the quote tables only.\<close>

lemma quoteView_frame:
  assumes "db_quoteAttempts db' = db_quoteAttempts db" "db_quoteOutcomes db' = db_quoteOutcomes db"
    "db_quoteObservations db' = db_quoteObservations db"
  shows "mapAttempt env db' = mapAttempt env db" "quoteView env db' = quoteView env db"
proof -
  show "mapAttempt env db' = mapAttempt env db"
    by (rule ext, rule mapAttempt_frame) (simp_all add: findOutcome_def observationsOf_def assms)
  then show "quoteView env db' = quoteView env db"
    by (intro ext) (simp add: quoteView_def assms split: option.split)
qed

lemma quoteTables_frame:
  assumes "db_quoteAttempts db' = db_quoteAttempts db" "db_quoteOutcomes db' = db_quoteOutcomes db"
    "db_quoteObservations db' = db_quoteObservations db" "db_deferred db' = []"
  shows "quoteTables env db \<Longrightarrow> quoteTables env db'"
  using quoteView_frame(1) [OF assms(1-3), of env] by (simp add: quoteTables_def assms)

section \<open>The steps of an attempt\<close>

datatype quote_command =
    Begin_attempt begin_attempt_input
  | Record_ambiguous ambiguous_attempt_input
  | Record_quote quote_attempt_input
  | Observe_quote quote_attempt_input

definition runQuote ::
  "cashu_env \<Rightarrow> quote_command \<Rightarrow> db \<Rightarrow> quote_repository_error + db \<times> attempt_result" where
  "runQuote env c db = (case c of
       Begin_attempt i \<Rightarrow> beginAttempt env i db
     | Record_ambiguous i \<Rightarrow> recordAmbiguous env i db
     | Record_quote i \<Rightarrow> recordQuote env i db
     | Observe_quote i \<Rightarrow> observe env i db)"

definition quotePayment :: "quote_command \<Rightarrow> string" where
  "quotePayment c = (case c of
       Begin_attempt i \<Rightarrow> bat_paymentId i | Record_ambiguous i \<Rightarrow> aat_paymentId i
     | Record_quote i \<Rightarrow> qti_paymentId i | Observe_quote i \<Rightarrow> qti_paymentId i)"

text \<open>A quote answers the request of an attempt; a later sight of the same quote.\<close>

definition quoteAnswers :: "melt_attempt \<Rightarrow> melt_quote \<Rightarrow> bool" where
  "quoteAnswers m q \<longleftrightarrow> mq_mintUrl q = mat_mintUrl m
     \<and> mq_amount q = qr_amount (mat_request m) \<and> mq_method q = qr_method (mat_request m)
     \<and> mq_request q = qr_request (mat_request m) \<and> mq_unit q = qr_unit (mat_request m)"

definition sameQuote :: "melt_quote \<Rightarrow> melt_quote \<Rightarrow> bool" where
  "sameQuote p q \<longleftrightarrow> q = p\<lparr>mq_observedAt := mq_observedAt q, mq_state := mq_state q\<rparr>"

text \<open>
  An attempt is begun; its answer is lost, or is an unpaid quote that expires within fifteen minutes
  of the start; a quote is seen again, later, and stays paid once paid.
\<close>

inductive attempt_step ::
  "cashu_env \<Rightarrow> quote_command \<Rightarrow> melt_attempt option \<Rightarrow> melt_attempt \<Rightarrow> bool" for env where
  begun: "\<lbrakk>mat_attemptId m = bat_attemptId i; mat_paymentId m = bat_paymentId i;
      mat_request m = \<lparr>qr_amount = bat_amount i, qr_method = ''stellar'', qr_request = bat_request i,
        qr_unit = ''usdc''\<rparr>;
      mat_startedAt m = bat_startedAt i; mat_body m = Attempt_creating\<rbrakk>
    \<Longrightarrow> attempt_step env (Begin_attempt i) None m"
| lost: "\<lbrakk>mat_body m = Attempt_creating; mat_attemptId m = aat_attemptId i;
      mat_startedAt m \<le> aat_recordedAt i\<rbrakk>
    \<Longrightarrow> attempt_step env (Record_ambiguous i) (Some m)
          (m\<lparr>mat_body := Attempt_ambiguous ''transport_ambiguous'' (aat_recordedAt i)\<rparr>)"
| quoted: "\<lbrakk>mat_body m = Attempt_creating; mat_attemptId m = qti_attemptId i;
      createCashuStellarMeltQuoteV1 env (quoteInput (qti_quote i)) = Inr q; quoteAnswers m q;
      mq_state q = Quote_unpaid; mat_startedAt m \<le> mq_observedAt q; mq_observedAt q < mq_expiry q;
      mq_expiry q \<le> mat_startedAt m + 900\<rbrakk>
    \<Longrightarrow> attempt_step env (Record_quote i) (Some m) (m\<lparr>mat_body := Attempt_quoted q [q]\<rparr>)"
| observed: "\<lbrakk>mat_body m = Attempt_quoted latest qs; mat_attemptId m = qti_attemptId i;
      createCashuStellarMeltQuoteV1 env (quoteInput (qti_quote i)) = Inr q; sameQuote latest q;
      mq_observedAt latest < mq_observedAt q; mq_state latest = Quote_paid \<longrightarrow> mq_state q = Quote_paid\<rbrakk>
    \<Longrightarrow> attempt_step env (Observe_quote i) (Some m) (m\<lparr>mat_body := Attempt_quoted q (qs @ [q])\<rparr>)"

inductive_cases attempt_stepE: "attempt_step env c before after"

lemma publicAttemptBase_sel [simp]:
  "mat_attemptId (publicAttemptBase a body) = qat_attemptId a"
  "mat_paymentId (publicAttemptBase a body) = qat_paymentId a"
  "mat_mintUrl (publicAttemptBase a body) = qat_mintUrl a"
  "mat_request (publicAttemptBase a body) = qat_request a"
  "mat_startedAt (publicAttemptBase a body) = qat_startedAt a"
  "mat_body (publicAttemptBase a body) = body"
  "publicAttemptBase a body\<lparr>mat_body := body'\<rparr> = publicAttemptBase a body'"
  by (simp_all add: publicAttemptBase_def)

section \<open>How a command succeeds\<close>

lemma lockAttempt_Inr [simp]:
  "lockAttempt db aid pid = Inr row \<longleftrightarrow>
     conflictingAttempts db aid pid = [row] \<and> qa_attempt_id row = aid \<and> qa_payment_id row = pid"
  by (auto simp: lockAttempt_def split: list.splits)

lemma conflictingAttempts_in: "conflictingAttempts db aid pid = [row] \<Longrightarrow> row \<in> set (db_quoteAttempts db)"
  by (metis conflictingAttempts_def filter_is_subset list.set_intros(1) subsetD)

lemma replayBegin_Inr:
  assumes "replayBegin env db (conflictingAttempts db aid pid) f = Inr (after, res)"
  obtains row where "conflictingAttempts db aid pid = [row]" "qa_attempt_fingerprint row = f"
    "row \<in> set (db_quoteAttempts db)" "after = db" "atr_replayed res"
    "mapAttempt env db row = Inr (atr_attempt res)"
proof (cases "conflictingAttempts db aid pid")
  case (Cons row rest)
  with assms conflictingAttempts_in [of db aid pid row] that show thesis
    by (cases rest) (auto simp: replayBegin_def split: if_splits)
qed (use assms in \<open>simp add: replayBegin_def\<close>)

section \<open>Adding to the tables\<close>

lemma quoteView_other:
  assumes tables: "quoteTables env db" and row: "row \<in> set (db_quoteAttempts db)"
    and p: "p \<noteq> qa_payment_id row"
    and others: "\<And>aid. aid \<noteq> qa_attempt_id row \<Longrightarrow> findOutcome db' aid = findOutcome db aid
      \<and> observationsOf db' aid = observationsOf db aid"
    and attempts: "db_quoteAttempts db' = db_quoteAttempts db"
  shows "quoteView env db' p = quoteView env db p"
proof (cases "findFirst (\<lambda>a. qa_payment_id a = p) (db_quoteAttempts db)")
  case (Some x)
  then have x: "x \<in> set (db_quoteAttempts db)" "qa_payment_id x = p" using findFirst_Some by fastforce+
  have "inj_on qa_attempt_id (set (db_quoteAttempts db))"
    using tables by (simp add: quoteTables_def distinct_map)
  then have "qa_attempt_id x \<noteq> qa_attempt_id row"
    using x row p by (auto dest: inj_onD)
  then have "mapAttempt env db' x = mapAttempt env db x"
    by (intro mapAttempt_frame) (simp_all add: others)
  then show ?thesis using Some attempts by (simp add: quoteView_def)
qed (simp add: quoteView_def attempts)

lemma quoteTables_touched:
  assumes tables: "quoteTables env db" and row: "row \<in> set (db_quoteAttempts db)"
    and attempts: "db_quoteAttempts db' = db_quoteAttempts db" and deferred: "db_deferred db' = []"
    and others: "\<And>aid. aid \<noteq> qa_attempt_id row \<Longrightarrow> findOutcome db' aid = findOutcome db aid
      \<and> observationsOf db' aid = observationsOf db aid"
    and read: "mapAttempt env db' row = Inr m"
    and keys: "distinct (map qo_attempt_id (db_quoteOutcomes db'))"
      "distinct (map (\<lambda>out. (qo_mint_url out, qo_quote_id out))
         (filter (\<lambda>out. qo_outcome_kind out = ''quoted'') (db_quoteOutcomes db')))"
      "\<forall>out \<in> set (db_quoteOutcomes db'). qo_attempt_id out \<in> qa_attempt_id ` set (db_quoteAttempts db)"
      "\<forall>b \<in> set (db_quoteObservations db'). qb_attempt_id b \<in> qo_attempt_id ` set (db_quoteOutcomes db')"
  shows "quoteTables env db' \<and> quoteView env db' = (quoteView env db)(qa_payment_id row \<mapsto> m)"
proof
  have inj: "inj_on qa_attempt_id (set (db_quoteAttempts db))"
    using tables by (simp add: quoteTables_def distinct_map)
  have "isOk (mapAttempt env db' x)" if x: "x \<in> set (db_quoteAttempts db)" for x
  proof (cases "x = row")
    case False
    then have "qa_attempt_id x \<noteq> qa_attempt_id row" using inj x row by (auto dest: inj_onD)
    then have "mapAttempt env db' x = mapAttempt env db x"
      by (intro mapAttempt_frame) (simp_all add: others)
    then show ?thesis using tables x by (simp add: quoteTables_def)
  qed (simp add: read)
  then show tables': "quoteTables env db'"
    using tables keys deferred by (simp add: quoteTables_def attempts)
  show "quoteView env db' = (quoteView env db)(qa_payment_id row \<mapsto> m)"
  proof
    fix p
    show "quoteView env db' p = ((quoteView env db)(qa_payment_id row \<mapsto> m)) p"
      using quoteView_row [OF tables', of row] quoteView_other [OF tables row _ others attempts, of p]
      by (simp add: row attempts read)
  qed
qed

lemma findFirst_snoc_other: "\<not> P y \<Longrightarrow> findFirst P (xs @ [y]) = findFirst P xs"
  by (induction xs) auto

lemma findOutcome_snoc:
  "db_quoteOutcomes db' = db_quoteOutcomes db @ [new] \<Longrightarrow> aid \<noteq> qo_attempt_id new
    \<Longrightarrow> findOutcome db' aid = findOutcome db aid"
  by (simp add: findOutcome_def findFirst_snoc_other)

lemma findOutcome_new:
  "db_quoteOutcomes db' = db_quoteOutcomes db @ [new] \<Longrightarrow>
    \<forall>out \<in> set (db_quoteOutcomes db). qo_attempt_id out \<noteq> qo_attempt_id new
    \<Longrightarrow> findOutcome db' (qo_attempt_id new) = Some new"
  by (simp add: findOutcome_def findFirst_snoc findFirst_None [THEN iffD2])

lemma observationsOf_snoc:
  "db_quoteObservations db' = db_quoteObservations db @ [new] \<Longrightarrow>
    observationsOf db' aid = observationsOf db aid @ (if qb_attempt_id new = aid then [new] else [])"
  by (simp add: observationsOf_def)

lemma findOutcome_distinct:
  assumes "quoteTables env db" and "out \<in> set (db_quoteOutcomes db)"
  shows "findOutcome db (qo_attempt_id out) = Some out"
  using assms findFirst_distinct [of qo_attempt_id "db_quoteOutcomes db" out]
  by (simp add: quoteTables_def findOutcome_def)

lemma quoteTables_begun:
  assumes tables: "quoteTables env db"
    and db': "db_quoteAttempts db' = db_quoteAttempts db @ [row]"
      "db_quoteOutcomes db' = db_quoteOutcomes db" "db_quoteObservations db' = db_quoteObservations db"
      "db_deferred db' = []"
    and new: "\<forall>a \<in> set (db_quoteAttempts db). qa_attempt_id a \<noteq> qa_attempt_id row
      \<and> qa_payment_id a \<noteq> qa_payment_id row"
    and read: "mapAttempt env db' row = Inr m"
  shows "quoteTables env db' \<and> quoteView env db' = (quoteView env db)(qa_payment_id row \<mapsto> m)"
proof
  have frame: "mapAttempt env db' = mapAttempt env db"
    by (rule ext, rule mapAttempt_frame) (simp_all add: findOutcome_def observationsOf_def db')
  show tables': "quoteTables env db'"
    using tables new read frame by (auto simp: quoteTables_def db')
  show "quoteView env db' = (quoteView env db)(qa_payment_id row \<mapsto> m)"
  proof
    fix p
    have "findFirst (\<lambda>a. qa_payment_id a = p) (db_quoteAttempts db')
        = findFirst (\<lambda>a. qa_payment_id a = p) (db_quoteAttempts db)" if "p \<noteq> qa_payment_id row"
      using that by (simp add: db' findFirst_snoc_other)
    then show "quoteView env db' p = ((quoteView env db)(qa_payment_id row \<mapsto> m)) p"
    proof (cases "p = qa_payment_id row")
      case True
      then show ?thesis using quoteView_row [OF tables', of row] by (simp add: db'(1) read)
    qed (simp add: quoteView_def frame split: option.split)
  qed
qed

section \<open>The refinement, command by command\<close>

text \<open>What a command that succeeded has done to the tables.\<close>

definition quoteOutcome ::
  "cashu_env \<Rightarrow> quote_command \<Rightarrow> db \<Rightarrow> db \<Rightarrow> attempt_result \<Rightarrow> bool" where
  "quoteOutcome env c db db' res \<longleftrightarrow>
     (if atr_replayed res
      then db' = db \<and> quoteView env db (mat_paymentId (atr_attempt res)) = Some (atr_attempt res)
      else quoteTables env db'
        \<and> quoteView env db' = (quoteView env db)(quotePayment c \<mapsto> atr_attempt res)
        \<and> attempt_step env c (quoteView env db (quotePayment c)) (atr_attempt res))"

lemma mapAttemptBase_ids:
  "mapAttemptBase env row = Inr a \<Longrightarrow> qat_paymentId a = qa_payment_id row
     \<and> qat_attemptId a = qa_attempt_id row \<and> qat_mintUrl a = qa_mint_url row"
  by (drule mapAttemptBase_row) simp

lemma mapAttempt_payment:
  assumes read: "mapAttempt env db row = Inr m"
  shows "mat_paymentId m = qa_payment_id row"
proof (cases "findOutcome db (qa_attempt_id row)")
  case None
  show ?thesis by (rule mapAttempt_creating [OF read None]) (simp add: mapAttemptBase_ids)
next
  case (Some out)
  from mapAttempt_base [OF read] obtain a where
    a: "mapAttemptBase env row = Inr a" "qa_attempt_id row = qat_attemptId a" .
  then have "qo_outcome_kind out = ''ambiguous'' \<or> qo_outcome_kind out = ''quoted''"
    using read Some by (auto simp: mapAttempt_def Let_def split: if_splits)
  then show ?thesis
  proof
    assume "qo_outcome_kind out = ''ambiguous''"
    then show ?thesis by (rule mapAttempt_ambiguous [OF read Some]) (simp add: mapAttemptBase_ids)
  next
    assume "qo_outcome_kind out = ''quoted''"
    then show ?thesis by (rule mapAttempt_quoted [OF read Some]) (simp add: mapAttemptBase_ids)
  qed
qed

lemma replayed_outcome:
  assumes tables: "quoteTables env db" and row: "row \<in> set (db_quoteAttempts db)"
    and read: "mapAttempt env db row = Inr (atr_attempt res)" and "atr_replayed res" "db' = db"
  shows "quoteOutcome env c db db' res"
  using quoteView_row [OF tables row] mapAttempt_payment [OF read] assms(3-5)
  by (simp add: quoteOutcome_def)

lemma quote_transaction:
  assumes "catchR mapQuoteStorageError (bindR m (\<lambda>v. withTransaction (action v) db)) = Inr (db', res)"
  obtains v after where "m = Inr v" "action v db = Inr (after, res)" "db' = after\<lparr>db_deferred := []\<rparr>"
  using assms by (auto simp: result_simps withTransaction_iff)

text \<open>The undecorated data of a database is what it was before the commit.\<close>

lemma undeferred: "db_deferred db = [] \<Longrightarrow> db\<lparr>db_deferred := []\<rparr> = db"
  by simp

lemma createAttempt_facts:
  assumes "createAttemptFromContext env v row = Inr a"
  shows "qat_attemptId a = vb_attemptId v \<and> qat_paymentId a = qx_payment_id row
    \<and> qat_request a = vb_request v \<and> qat_startedAt a = vb_startedAt v"
  using assms
  by (auto simp: createAttemptFromContext_def result_simps Let_def quote_attempt.defs stored_attempt.defs)

lemma validateBegin_facts:
  "validateBegin env i = Inr v \<Longrightarrow> vb_attemptId v = bat_attemptId i \<and> vb_paymentId v = bat_paymentId i
    \<and> vb_startedAt v = bat_startedAt i
    \<and> vb_request v = \<lparr>qr_amount = bat_amount i, qr_method = ''stellar'', qr_request = bat_request i,
         qr_unit = ''usdc''\<rparr>"
  by (auto simp: validateBegin_def result_simps createRequest_iff)

lemma requireContext_payment: "requireReservationContext db pid = Inr row \<Longrightarrow> qx_payment_id row = pid"
proof -
  assume "requireReservationContext db pid = Inr row"
  then have "row \<in> set (joinedContexts db pid)"
    by (auto simp: requireReservationContext_def split: list.splits)
  then show ?thesis by (auto simp: joinedContexts_def split: if_splits)
qed

lemma begin_outcome:
  assumes tables: "quoteTables env db" and run: "beginAttempt env i db = Inr (db', res)"
  shows "quoteOutcome env (Begin_attempt i) db db' res"
proof -
  from quote_transaction [OF run [unfolded beginAttempt_def]] obtain v after where
    v: "validateBegin env i = Inr v" and inner: "beginIn env v db = Inr (after, res)"
    and db': "db' = after\<lparr>db_deferred := []\<rparr>" .
  have deferred: "db_deferred db = []" using tables by (simp add: quoteTables_def)
  from inner obtain row a where row: "requireReservationContext db (vb_paymentId v) = Inr row"
      and a: "createAttemptFromContext env v row = Inr a"
      and rest: "(if conflictingAttempts db (qat_attemptId a) (qat_paymentId a) \<noteq> []
        then replayBegin env db (conflictingAttempts db (qat_attemptId a) (qat_paymentId a))
               (qat_attemptFingerprint a) = Inr (after, res)
        else \<exists>inserted. insertQuoteAttempt db (attemptRowOf a) = Inr inserted
          \<and> (case inserted of
               None \<Rightarrow> replayBegin env db [] (qat_attemptFingerprint a) = Inr (after, res)
             | Some begun \<Rightarrow> attemptResult env begun (attemptRowOf a) False = Inr (after, res)))"
    by (auto simp: beginIn_def result_simps Let_def split: if_splits option.splits)
  note facts = createAttempt_facts [OF a] validateBegin_facts [OF v] requireContext_payment [OF row]
  show ?thesis
  proof (cases "conflictingAttempts db (qat_attemptId a) (qat_paymentId a) = []")
    case False
    with rest have "replayBegin env db (conflictingAttempts db (qat_attemptId a) (qat_paymentId a))
        (qat_attemptFingerprint a) = Inr (after, res)" by simp
    then show ?thesis
    proof (cases rule: replayBegin_Inr)
      case (1 x)
      then show ?thesis using replayed_outcome [OF tables 1(3,6,5)] db' undeferred [OF deferred] by simp
    qed
  next
    case True
    with rest obtain begun where begun: "insertQuoteAttempt db (attemptRowOf a) = Inr (Some begun)"
        "attemptResult env begun (attemptRowOf a) False = Inr (after, res)"
      by (auto simp: replayBegin_def split: option.splits)
    note new = insertQuoteAttempt_Inr [OF begun(1)]
    have frame: "mapAttempt env db' (attemptRowOf a) = mapAttempt env begun (attemptRowOf a)"
      using begun(2) db' by (intro mapAttempt_frame) (simp_all add: findOutcome_def observationsOf_def)
    have all: "quoteTables env db' \<and> quoteView env db'
        = (quoteView env db)(qa_payment_id (attemptRowOf a) \<mapsto> atr_attempt res)"
      by (rule quoteTables_begun [OF tables]) (use new begun(2) db' frame in auto)
    have none: "findOutcome db' (qat_attemptId a) = None"
      using tables new begun(2) db'
      by (auto simp: findOutcome_def findFirst_None quoteTables_def)
    have read: "mapAttempt env db' (attemptRowOf a) = Inr (atr_attempt res)"
      using frame begun(2) by simp
    from mapAttempt_creating [OF read] none obtain b where
      b: "mapAttemptBase env (attemptRowOf a) = Inr b" "atr_attempt res = publicAttemptBase b Attempt_creating"
      by auto
    have same: "attemptRowOf a = attemptRowOf b" using mapAttemptBase_row [OF b(1)] by simp
    then have "qat_attemptId b = qat_attemptId a" "qat_paymentId b = qat_paymentId a"
        "qat_startedAt b = qat_startedAt a" "qat_request b = qat_request a"
      by (auto simp: attemptRowOf_def)
    then have "attempt_step env (Begin_attempt i) None (atr_attempt res)"
      using facts by (intro attempt_step.begun) (simp_all add: b(2))
    moreover have "quoteView env db (bat_paymentId i) = None"
      using quoteView_None [OF tables] new facts by auto
    ultimately show ?thesis
      using all begun(2) facts by (simp add: quoteOutcome_def quotePayment_def)
  qed
qed

lemma creating_view:
  assumes tables: "quoteTables env db" and row: "row \<in> set (db_quoteAttempts db)"
    and base: "mapAttemptBase env row = Inr a" and none: "findOutcome db (qa_attempt_id row) = None"
  shows "quoteView env db (qa_payment_id row) = Some (publicAttemptBase a Attempt_creating)
    \<and> observationsOf db (qa_attempt_id row) = []"
proof -
  obtain m where m: "mapAttempt env db row = Inr m"
    using tables row by (auto simp: quoteTables_def isOk_iff)
  show ?thesis
    by (rule mapAttempt_creating [OF m none]) (use quoteView_row [OF tables row] m base in simp)
qed

lemma validateAmbiguous_facts:
  "validateAmbiguous i = Inr v \<Longrightarrow> v = i \<and> aat_reason i = ''transport_ambiguous''"
  by (auto simp: validateAmbiguous_def result_simps CASHU_STELLAR_MELT_QUOTE_AMBIGUITY_REASONS_def
      split: if_splits)

lemma ambiguousRowOf_sel [simp]:
  "qo_attempt_id (ambiguousRowOf a v f) = qat_attemptId a" "qo_outcome_kind (ambiguousRowOf a v f) = ''ambiguous''"
  "qo_recorded_at (ambiguousRowOf a v f) = aat_recordedAt v"
  by (simp_all add: ambiguousRowOf_def)

lemma ambiguous_outcome:
  assumes tables: "quoteTables env db" and run: "recordAmbiguous env i db = Inr (db', res)"
  shows "quoteOutcome env (Record_ambiguous i) db db' res"
proof -
  from quote_transaction [OF run [unfolded recordAmbiguous_def]] obtain v after where
    v: "validateAmbiguous i = Inr v" and inner: "recordAmbiguousIn env v db = Inr (after, res)"
    and db': "db' = after\<lparr>db_deferred := []\<rparr>" .
  have deferred: "db_deferred db = []" using tables by (simp add: quoteTables_def)
  from inner obtain row a where locked: "conflictingAttempts db (aat_attemptId v) (aat_paymentId v) = [row]"
      "qa_attempt_id row = aat_attemptId v" "qa_payment_id row = aat_paymentId v"
      and a: "mapAttemptBase env row = Inr a" "qat_startedAt a \<le> aat_recordedAt v"
      and rest: "if findOutcome db (qat_attemptId a) \<noteq> None
         then attemptResult env db row True = Inr (after, res)
         else insertQuoteOutcome db
                (ambiguousRowOf a v (createAmbiguousOutcomeFingerprint env a v)) = Inr after
            \<and> attemptResult env after row False = Inr (after, res)"
    by (auto simp: recordAmbiguousIn_def result_simps Let_def split: if_splits option.split_asm)
  note row = conflictingAttempts_in [OF locked(1)] and ids = mapAttemptBase_ids [OF a(1)]
  show ?thesis
  proof (cases "findOutcome db (qat_attemptId a)")
    case (Some out)
    with rest show ?thesis
      using replayed_outcome [OF tables row, of res] db' undeferred [OF deferred] by simp
  next
    case None
    define f where "f = createAmbiguousOutcomeFingerprint env a v"
    from None rest have stored: "insertQuoteOutcome db (ambiguousRowOf a v f) = Inr after"
        "mapAttempt env after row = Inr (atr_attempt res)" "\<not> atr_replayed res"
      by (simp_all add: f_def)
    let ?new = "ambiguousRowOf a v f"
    note new = insertQuoteOutcome_Inr [OF stored(1)]
    have out: "db_quoteOutcomes db' = db_quoteOutcomes db @ [?new]"
        "db_quoteObservations db' = db_quoteObservations db" "db_quoteAttempts db' = db_quoteAttempts db"
        "db_deferred db' = []"
      using new db' by simp_all
    have read: "mapAttempt env db' row = Inr (atr_attempt res)"
      using stored(2) mapAttempt_frame [of db' row after env] db'
      by (simp add: findOutcome_def observationsOf_def)
    have "quoteTables env db' \<and> quoteView env db'
        = (quoteView env db)(qa_payment_id row \<mapsto> atr_attempt res)"
    proof (rule quoteTables_touched [OF tables row out(3,4) _ read])
      show "findOutcome db' aid = findOutcome db aid \<and> observationsOf db' aid = observationsOf db aid"
        if "aid \<noteq> qa_attempt_id row" for aid
        using that findOutcome_snoc [OF out(1)] ids by (simp add: observationsOf_def out)
    qed (use tables new ids row in \<open>auto simp: quoteTables_def out\<close>)
    moreover have "findOutcome db' (qa_attempt_id row) = Some ?new"
      using findOutcome_new [OF out(1)] new ids by simp
    then have "atr_attempt res = publicAttemptBase a (Attempt_ambiguous ''transport_ambiguous'' (aat_recordedAt v))"
      by (rule mapAttempt_ambiguous [OF read]) (use a(1) in simp_all)
    moreover note creating_view [OF tables row a(1)] None
    ultimately show ?thesis
      using attempt_step.lost [of "publicAttemptBase a Attempt_creating" i env]
        validateAmbiguous_facts [OF v] locked a(2) ids stored(3)
      by (simp add: quoteOutcome_def quotePayment_def)
  qed
qed

lemma showQuoteState_inject [simp]: "showQuoteState s = showQuoteState t \<longleftrightarrow> s = t"
  by (metis option.inject parse_show_quote_state)

lemma assertMatchingTerms_Inr:
  "assertMatchingTerms a q = Inr u \<Longrightarrow> quoteAnswers (publicAttemptBase a body) q"
  by (auto simp: assertMatchingTerms_def quoteAnswers_def split: if_splits)

lemma validateQuoteInput_facts:
  "validateQuoteInput env i = Inr v \<Longrightarrow> qti_attemptId v = qti_attemptId i \<and> qti_paymentId v = qti_paymentId i
     \<and> createCashuStellarMeltQuoteV1 env (quoteInput (qti_quote i)) = Inr (qti_quote v)"
  by (auto simp: validateQuoteInput_def result_simps)

text \<open>An observation is read back as the quote it was made from.\<close>

lemma observation_read:
  assumes "mapCashuStellarMeltQuoteObservationRecord env a out (mq_expiry q) (mq_feeReserve q)
      (quoteObservationRowOf a q f) = Inr q'"
    and "normalizeCashuMintUrl env (qat_mintUrl a) = Inr (qat_mintUrl a)"
    and "quoteAnswers (publicAttemptBase a body) q" and "createCashuStellarMeltQuoteV1 env i = Inr q"
  shows "q' = q"
proof -
  note read = observationRecord_quote [OF assms(1,2)]
  then have "mq_state q' = mq_state q" by (simp add: quoteObservationRowOf_def)
  then show ?thesis
    using read createQuote_eq [OF assms(4)] assms(3)
    by (simp add: quoteObservationRowOf_def quoteOfRow_def quoteAnswers_def)
qed

lemma quotedRowOf_sel [simp]:
  "qo_attempt_id (quotedRowOf a q f) = qat_attemptId a" "qo_outcome_kind (quotedRowOf a q f) = ''quoted''"
  "qo_expiry (quotedRowOf a q f) = Some (mq_expiry q)" "qo_fee_reserve (quotedRowOf a q f) = Some (mq_feeReserve q)"
  by (simp_all add: quotedRowOf_def)

lemma quoteObservationRowOf_sel [simp]:
  "qb_attempt_id (quoteObservationRowOf a q f) = qat_attemptId a"
  "qb_observed_at (quoteObservationRowOf a q f) = mq_observedAt q"
  by (simp_all add: quoteObservationRowOf_def)

lemma recordQuoteIn_Inr:
  assumes "recordQuoteIn env v db = Inr (after, res)"
  obtains row a where "conflictingAttempts db (qti_attemptId v) (qti_paymentId v) = [row]"
    "qa_attempt_id row = qti_attemptId v" "qa_payment_id row = qti_paymentId v"
    "mapAttemptBase env row = Inr a" "assertInitialQuote a (qti_quote v) = Inr ()"
    "if findOutcome db (qat_attemptId a) \<noteq> None
     then attemptResult env db row True = Inr (after, res)
     else \<exists>mid. insertQuoteOutcome db (quotedRowOf a (qti_quote v)
              (createCashuStellarMeltQuotedOutcomeFingerprint env a (qti_quote v))) = Inr mid
        \<and> insertQuoteObservation mid (quoteObservationRowOf a (qti_quote v)
              (createCashuStellarMeltQuoteObservationFingerprint env a (qti_quote v))) = Inr after
        \<and> attemptResult env after row False = Inr (after, res)"
proof -
  from assms obtain row a where base: "conflictingAttempts db (qti_attemptId v) (qti_paymentId v) = [row]"
    "qa_attempt_id row = qti_attemptId v" "qa_payment_id row = qti_paymentId v"
    "mapAttemptBase env row = Inr a" "assertInitialQuote a (qti_quote v) = Inr ()"
    by (auto simp: recordQuoteIn_def bindR_eq_Inr Let_def)
  show thesis
  proof (rule that [OF base])
    show "if findOutcome db (qat_attemptId a) \<noteq> None
      then attemptResult env db row True = Inr (after, res)
      else \<exists>mid. insertQuoteOutcome db (quotedRowOf a (qti_quote v)
              (createCashuStellarMeltQuotedOutcomeFingerprint env a (qti_quote v))) = Inr mid
        \<and> insertQuoteObservation mid (quoteObservationRowOf a (qti_quote v)
              (createCashuStellarMeltQuoteObservationFingerprint env a (qti_quote v))) = Inr after
        \<and> attemptResult env after row False = Inr (after, res)"
    proof (cases "findOutcome db (qat_attemptId a)")
      case None
      with assms base show ?thesis by (auto simp: recordQuoteIn_def bindR_eq_Inr Let_def)
    next
      case (Some out)
      with assms base show ?thesis
        by (auto simp: recordQuoteIn_def bindR_eq_Inr Let_def replayQuote_def split: if_splits)
    qed
  qed
qed

lemma first_read:
  assumes read: "mapAttempt env db row = Inr m"
    and found: "findOutcome db (qa_attempt_id row) = Some (quotedRowOf a q f)"
    and rows: "observationsOf db (qa_attempt_id row) = [quoteObservationRowOf a q g]"
    and base: "mapAttemptBase env row = Inr a"
    and q: "quoteAnswers (publicAttemptBase a body) q" "createCashuStellarMeltQuoteV1 env j = Inr q"
  shows "m = publicAttemptBase a (Attempt_quoted q [q])"
proof -
  have kind: "qo_outcome_kind (quotedRowOf a q f) = ''quoted''" by simp
  from mapAttempt_quoted [OF read found kind] obtain a' expiry fee qs latest where
    parts: "mapAttemptBase env row = Inr a'" "qo_expiry (quotedRowOf a q f) = Some expiry"
      "qo_fee_reserve (quotedRowOf a q f) = Some fee"
      "mapR (mapCashuStellarMeltQuoteObservationRecord env a' (quotedRowOf a q f) expiry fee)
         (sort_key qb_observed_at (observationsOf db (qa_attempt_id row))) = Inr qs"
      "atLast qs = Some latest" "m = publicAttemptBase a' (Attempt_quoted latest qs)" .
  then have same: "a' = a" "expiry = mq_expiry q" "fee = mq_feeReserve q" using base by simp_all
  from parts(4) rows same obtain q' where
    q': "mapCashuStellarMeltQuoteObservationRecord env a (quotedRowOf a q f) (mq_expiry q) (mq_feeReserve q)
        (quoteObservationRowOf a q g) = Inr q'" "qs = [q']"
    by (auto simp: bindR_eq_Inr)
  have "q' = q" using observation_read [OF q'(1) _ q] mapAttemptBase_row [OF base] by simp
  with parts(5,6) same(1) q'(2) show ?thesis by (simp add: atLast_def)
qed

lemma quote_outcome:
  assumes tables: "quoteTables env db" and run: "recordQuote env i db = Inr (db', res)"
  shows "quoteOutcome env (Record_quote i) db db' res"
proof -
  from quote_transaction [OF run [unfolded recordQuote_def]] obtain v after where
    v: "validateQuoteInput env i = Inr v" and inner: "recordQuoteIn env v db = Inr (after, res)"
    and db': "db' = after\<lparr>db_deferred := []\<rparr>" .
  have deferred: "db_deferred db = []" using tables by (simp add: quoteTables_def)
  note input = validateQuoteInput_facts [OF v]
  from inner show ?thesis
  proof (cases rule: recordQuoteIn_Inr)
    case (1 row a)
    note row = conflictingAttempts_in [OF 1(1)] and ids = mapAttemptBase_ids [OF 1(4)]
      and base = mapAttemptBase_row [OF 1(4)]
    show ?thesis
    proof (cases "findOutcome db (qat_attemptId a)")
      case (Some out)
      with 1(6) show ?thesis
        using replayed_outcome [OF tables row, of res] db' undeferred [OF deferred] by simp
    next
      case None
      define q where "q = qti_quote v"
      have q: "quoteAnswers (publicAttemptBase a Attempt_creating) q" "mq_state q = Quote_unpaid"
          "qat_startedAt a \<le> mq_observedAt q" "mq_observedAt q < mq_expiry q"
          "mq_expiry q \<le> qat_startedAt a + 900"
        using 1(5) by (auto simp: assertInitialQuote_def q_def bindR_eq_Inr
            MAX_CASHU_STELLAR_MELT_QUOTE_TTL_SECONDS_def split: if_splits dest: assertMatchingTerms_Inr)
      from 1(6) None obtain mid f g where ins: "insertQuoteOutcome db (quotedRowOf a q f) = Inr mid"
          "insertQuoteObservation mid (quoteObservationRowOf a q g) = Inr after"
          "mapAttempt env after row = Inr (atr_attempt res)" "\<not> atr_replayed res"
        by (auto simp: q_def)
      note new = insertQuoteOutcome_Inr [OF ins(1)] insertQuoteObservation_Inr [OF ins(2)]
      have out: "db_quoteOutcomes db' = db_quoteOutcomes db @ [quotedRowOf a q f]"
          "db_quoteObservations db' = db_quoteObservations db @ [quoteObservationRowOf a q g]"
          "db_quoteAttempts db' = db_quoteAttempts db" "db_deferred db' = []"
        using new db' by simp_all
      have read: "mapAttempt env db' row = Inr (atr_attempt res)"
        using ins(3) mapAttempt_frame [of db' row after env] db'
        by (simp add: findOutcome_def observationsOf_def)
      have "quoteTables env db' \<and> quoteView env db'
          = (quoteView env db)(qa_payment_id row \<mapsto> atr_attempt res)"
      proof (rule quoteTables_touched [OF tables row out(3,4) _ read])
        show "findOutcome db' aid = findOutcome db aid \<and> observationsOf db' aid = observationsOf db aid"
          if "aid \<noteq> qa_attempt_id row" for aid
          using that findOutcome_snoc [OF out(1)] observationsOf_snoc [OF out(2)] ids by simp
      qed (use tables new ids row in \<open>auto simp: quoteTables_def out\<close>)
      moreover have found: "findOutcome db' (qa_attempt_id row) = Some (quotedRowOf a q f)"
        using findOutcome_new [OF out(1)] new ids by simp
      moreover note before = creating_view [OF tables row 1(4)] None
      moreover have "observationsOf db' (qa_attempt_id row) = [quoteObservationRowOf a q g]"
        using observationsOf_snoc [OF out(2)] before ids by simp
      then have "atr_attempt res = publicAttemptBase a (Attempt_quoted q [q])"
        using input
        by (intro first_read [OF read found _ 1(4) q(1), where j = "quoteInput (qti_quote i)"])
          (simp_all add: q_def)
      ultimately show ?thesis
        using attempt_step.quoted [of "publicAttemptBase a Attempt_creating" i env q]
          input 1(2,3) q ids ins(4)
        by (simp add: quoteOutcome_def quotePayment_def q_def)
    qed
  qed
qed

section \<open>Observations\<close>

lemma quoteView_quoted:
  assumes tables: "quoteTables env db" and row: "row \<in> set (db_quoteAttempts db)"
    and base: "mapAttemptBase env row = Inr a"
    and found: "findOutcome db (qa_attempt_id row) = Some out" "qo_outcome_kind out = ''quoted''"
    and terms: "qo_expiry out = Some expiry" "qo_fee_reserve out = Some fee"
  obtains qs latest where "mapR (mapCashuStellarMeltQuoteObservationRecord env a out expiry fee)
       (sort_key qb_observed_at (observationsOf db (qa_attempt_id row))) = Inr qs"
    "atLast qs = Some latest"
    "quoteView env db (qa_payment_id row) = Some (publicAttemptBase a (Attempt_quoted latest qs))"
proof -
  obtain m where m: "mapAttempt env db row = Inr m"
    using tables row by (auto simp: quoteTables_def isOk_iff)
  show thesis
    by (rule mapAttempt_quoted [OF m found])
      (use that quoteView_row [OF tables row] m base terms in simp)
qed

lemma mapR_snoc:
  "mapR f (xs @ [x]) = Inr ys \<longleftrightarrow> (\<exists>zs q. mapR f xs = Inr zs \<and> f x = Inr q \<and> ys = zs @ [q])"
  by (auto simp: mapR_Inr_iff list_all2_append1 list_all2_Cons1) (metis list_all2_lengthD)

text \<open>The rows of an attempt with one more, later than all of them.\<close>

lemma rows_read:
  assumes before: "mapR f (sort_key qb_observed_at rows) = Inr qs"
    and after: "mapR f (sort_key qb_observed_at (rows @ [new])) = Inr qs'"
    and later: "\<forall>b \<in> set rows. qb_observed_at b \<le> qb_observed_at new"
  obtains q where "f new = Inr q" "qs' = qs @ [q]"
proof -
  have "mapR f (sort_key qb_observed_at rows @ [new]) = Inr qs'"
    using after by (simp add: sort_key_snoc [OF later])
  with before that show thesis by (auto simp: mapR_snoc)
qed

lemma latest_read:
  assumes "mapR (mapCashuStellarMeltQuoteObservationRecord env a out expiry fee)
      (sort_key qb_observed_at rows) = Inr qs" and "atLast qs = Some latest"
    and "normalizeCashuMintUrl env (qat_mintUrl a) = Inr (qat_mintUrl a)"
    and "latestBy qb_observed_at rows = Some row"
  shows "latest = quoteOfRow a expiry fee row (mq_state latest) \<and> qb_state row = showQuoteState (mq_state latest)
    \<and> qo_quote_id out = Some (qb_quote_id row)"
proof -
  obtain ys where ys: "sort_key qb_observed_at rows = ys @ [row]"
    using assms(4) by (auto simp: latestBy_def atLast_Some_append)
  from assms(1,2) obtain ws where
    "mapCashuStellarMeltQuoteObservationRecord env a out expiry fee row = Inr latest" "qs = ws @ [latest]"
    by (auto simp: ys mapR_snoc)
  from observationRecord_quote [OF this(1) assms(3)] show ?thesis .
qed

lemma readOptional_Inr: "readOptional v = Inr n \<Longrightarrow> v = Some n"
  by (auto simp: readOptional_def split: option.splits)

lemma observeIn_Inr:
  assumes "observeIn env v db = Inr (after, res)"
  obtains row a out where "conflictingAttempts db (qti_attemptId v) (qti_paymentId v) = [row]"
    "qa_attempt_id row = qti_attemptId v" "qa_payment_id row = qti_paymentId v"
    "mapAttemptBase env row = Inr a" "findOutcome db (qat_attemptId a) = Some out"
    "qo_outcome_kind out = ''quoted''" "assertObservedQuote a out (qti_quote v) = Inr ()"
    "if findObservation db (qat_attemptId a) (mq_observedAt (qti_quote v)) \<noteq> None
     then attemptResult env db row True = Inr (after, res)
     else assertLaterObservation db (qat_attemptId a) (qti_quote v) = Inr ()
        \<and> insertQuoteObservation db (quoteObservationRowOf a (qti_quote v)
              (createCashuStellarMeltQuoteObservationFingerprint env a (qti_quote v))) = Inr after
        \<and> attemptResult env after row False = Inr (after, res)"
proof -
  from assms obtain row a where base: "conflictingAttempts db (qti_attemptId v) (qti_paymentId v) = [row]"
    "qa_attempt_id row = qti_attemptId v" "qa_payment_id row = qti_paymentId v"
    "mapAttemptBase env row = Inr a"
    by (auto simp: observeIn_def bindR_eq_Inr Let_def)
  from assms base obtain out where out: "findOutcome db (qat_attemptId a) = Some out"
    "qo_outcome_kind out = ''quoted''" "assertObservedQuote a out (qti_quote v) = Inr ()"
    by (cases "findOutcome db (qat_attemptId a)")
      (auto simp: observeIn_def bindR_eq_Inr Let_def split: if_splits)
  show thesis
  proof (rule that [OF base out])
    show "if findObservation db (qat_attemptId a) (mq_observedAt (qti_quote v)) \<noteq> None
      then attemptResult env db row True = Inr (after, res)
      else assertLaterObservation db (qat_attemptId a) (qti_quote v) = Inr ()
        \<and> insertQuoteObservation db (quoteObservationRowOf a (qti_quote v)
              (createCashuStellarMeltQuoteObservationFingerprint env a (qti_quote v))) = Inr after
        \<and> attemptResult env after row False = Inr (after, res)"
      using assms base out
      by (cases "findObservation db (qat_attemptId a) (mq_observedAt (qti_quote v))")
        (auto simp: observeIn_def bindR_eq_Inr Let_def split: if_splits)
  qed
qed

lemma assertObservedQuote_Inr:
  assumes "assertObservedQuote a out q = Inr u"
  shows "quoteAnswers (publicAttemptBase a body) q \<and> qo_quote_id out = Some (mq_quoteId q)
    \<and> qo_fee_reserve out = Some (mq_feeReserve q) \<and> qo_expiry out = Some (mq_expiry q)"
  using assms
  by (auto simp: assertObservedQuote_def bindR_eq_Inr split: if_splits
      dest: assertMatchingTerms_Inr readOptional_Inr)

text \<open>An observation that is later than the latest is later than all, and keeps a paid quote paid.\<close>

lemma assertLaterObservation_Inr:
  assumes "assertLaterObservation db aid q = Inr u"
  obtains row where "findLatestObservation db aid = Some row" "qb_observed_at row < mq_observedAt q"
    "qb_state row = ''PAID'' \<longrightarrow> mq_state q = Quote_paid"
    "\<forall>b \<in> set (observationsOf db aid). qb_observed_at b < mq_observedAt q"
proof (cases "findLatestObservation db aid")
  case (Some row)
  with assms have row: "qb_observed_at row < mq_observedAt q" "qb_state row = ''PAID'' \<longrightarrow> mq_state q = Quote_paid"
    by (auto simp: assertLaterObservation_def bindR_eq_Inr split: if_splits)
  moreover have "\<forall>b \<in> set (observationsOf db aid). qb_observed_at b < mq_observedAt q"
    using latestBy_Some [OF Some [unfolded findLatestObservation_def]] row(1) by fastforce
  ultimately show thesis using Some that by blast
qed (use assms in \<open>simp add: assertLaterObservation_def\<close>)

text \<open>What the attempt is read as after one more observation.\<close>

lemma next_read:
  assumes read: "mapAttempt env db' row = Inr m" and base: "mapAttemptBase env row = Inr a"
    and found: "findOutcome db' (qa_attempt_id row) = Some out" "qo_outcome_kind out = ''quoted''"
    and observed: "assertObservedQuote a out q = Inr ()" "createCashuStellarMeltQuoteV1 env j = Inr q"
    and rows: "observationsOf db' (qa_attempt_id row) = rows @ [quoteObservationRowOf a q g]"
    and later: "\<forall>b \<in> set rows. qb_observed_at b < mq_observedAt q"
    and before: "mapR (mapCashuStellarMeltQuoteObservationRecord env a out (mq_expiry q) (mq_feeReserve q))
       (sort_key qb_observed_at rows) = Inr qs"
  shows "m = publicAttemptBase a (Attempt_quoted q (qs @ [q]))"
proof -
  from mapAttempt_quoted [OF read found] obtain a' expiry fee qs' latest where
    parts: "mapAttemptBase env row = Inr a'" "qo_expiry out = Some expiry" "qo_fee_reserve out = Some fee"
      "mapR (mapCashuStellarMeltQuoteObservationRecord env a' out expiry fee)
         (sort_key qb_observed_at (observationsOf db' (qa_attempt_id row))) = Inr qs'"
      "atLast qs' = Some latest" "m = publicAttemptBase a' (Attempt_quoted latest qs')" .
  note terms = assertObservedQuote_Inr [OF observed(1)]
  have same: "a' = a" "expiry = mq_expiry q" "fee = mq_feeReserve q" using base parts terms by simp_all
  have le: "\<forall>b \<in> set rows. qb_observed_at b \<le> qb_observed_at (quoteObservationRowOf a q g)"
    using later by (auto intro: less_imp_le)
  from rows_read [OF before _ le] parts(4) obtain q' where
    q': "mapCashuStellarMeltQuoteObservationRecord env a out (mq_expiry q) (mq_feeReserve q)
        (quoteObservationRowOf a q g) = Inr q'" "qs' = qs @ [q']"
    unfolding rows same by blast
  have "q' = q"
    using observation_read [OF q'(1) _ _ observed(2)] mapAttemptBase_row [OF base] terms by blast
  with parts(5,6) same(1) q'(2) show ?thesis by simp
qed

lemma later_same:
  assumes "latest = quoteOfRow a (mq_expiry q) (mq_feeReserve q) lr (mq_state latest)"
    and "qb_state lr = showQuoteState (mq_state latest)" and "mq_quoteId q = qb_quote_id lr"
    and "qb_observed_at lr < mq_observedAt q" "qb_state lr = ''PAID'' \<longrightarrow> mq_state q = Quote_paid"
    and "quoteAnswers (publicAttemptBase a body) q" "createCashuStellarMeltQuoteV1 env j = Inr q"
  shows "sameQuote latest q \<and> mq_observedAt latest < mq_observedAt q
    \<and> (mq_state latest = Quote_paid \<longrightarrow> mq_state q = Quote_paid)"
proof -
  have at: "mq_observedAt latest = qb_observed_at lr" by (subst assms(1)) (simp add: quoteOfRow_def)
  have "q = quoteOfRow a (mq_expiry q) (mq_feeReserve q) lr (mq_state latest)
      \<lparr>mq_observedAt := mq_observedAt q, mq_state := mq_state q\<rparr>"
    using assms(3,6) createQuote_eq [OF assms(7)] by (simp add: quoteOfRow_def quoteAnswers_def)
  then have "sameQuote latest q" unfolding sameQuote_def by (subst assms(1))
  with at assms(2,4,5) show ?thesis by auto
qed

lemma observe_outcome:
  assumes tables: "quoteTables env db" and run: "observe env i db = Inr (db', res)"
  shows "quoteOutcome env (Observe_quote i) db db' res"
proof -
  from quote_transaction [OF run [unfolded observe_def]] obtain v after where
    v: "validateQuoteInput env i = Inr v" and inner: "observeIn env v db = Inr (after, res)"
    and db': "db' = after\<lparr>db_deferred := []\<rparr>" .
  have deferred: "db_deferred db = []" using tables by (simp add: quoteTables_def)
  note input = validateQuoteInput_facts [OF v]
  from inner show ?thesis
  proof (cases rule: observeIn_Inr)
    case (1 row a out)
    define q where "q = qti_quote v"
    note row = conflictingAttempts_in [OF 1(1)] and ids = mapAttemptBase_ids [OF 1(4)]
      and base = mapAttemptBase_row [OF 1(4)] and terms = assertObservedQuote_Inr [OF 1(7), folded q_def]
    show ?thesis
    proof (cases "findObservation db (qat_attemptId a) (mq_observedAt (qti_quote v))")
      case (Some b)
      with 1(8) show ?thesis
        using replayed_outcome [OF tables row, of res] db' undeferred [OF deferred] by simp
    next
      case None
      with 1(8) obtain g where ins: "insertQuoteObservation db (quoteObservationRowOf a q g) = Inr after"
          "mapAttempt env after row = Inr (atr_attempt res)" "\<not> atr_replayed res"
          "assertLaterObservation db (qat_attemptId a) q = Inr ()"
        by (auto simp: q_def)
      note new = insertQuoteObservation_Inr [OF ins(1)]
      have out: "db_quoteOutcomes db' = db_quoteOutcomes db"
          "db_quoteObservations db' = db_quoteObservations db @ [quoteObservationRowOf a q g]"
          "db_quoteAttempts db' = db_quoteAttempts db" "db_deferred db' = []"
        using new db' by simp_all
      have read: "mapAttempt env db' row = Inr (atr_attempt res)"
        using ins(2) mapAttempt_frame [of db' row after env] db'
        by (simp add: findOutcome_def observationsOf_def)
      have all: "quoteTables env db' \<and> quoteView env db'
          = (quoteView env db)(qa_payment_id row \<mapsto> atr_attempt res)"
      proof (rule quoteTables_touched [OF tables row out(3,4) _ read])
        show "findOutcome db' aid = findOutcome db aid \<and> observationsOf db' aid = observationsOf db aid"
          if "aid \<noteq> qa_attempt_id row" for aid
          using that observationsOf_snoc [OF out(2)] ids by (simp add: findOutcome_def out(1))
      qed (use tables new ids row in \<open>auto simp: quoteTables_def out\<close>)
      have found: "findOutcome db (qa_attempt_id row) = Some out" "findOutcome db' (qa_attempt_id row) = Some out"
        using 1(5) ids by (simp_all add: findOutcome_def out(1))
      have "qo_expiry out = Some (mq_expiry q)" "qo_fee_reserve out = Some (mq_feeReserve q)"
        using terms by blast+
      from quoteView_quoted [OF tables row 1(4) found(1) 1(6) this] obtain qs latest where
        before: "mapR (mapCashuStellarMeltQuoteObservationRecord env a out (mq_expiry q) (mq_feeReserve q))
            (sort_key qb_observed_at (observationsOf db (qa_attempt_id row))) = Inr qs"
          "atLast qs = Some latest"
          "quoteView env db (qa_payment_id row) = Some (publicAttemptBase a (Attempt_quoted latest qs))" .
      from assertLaterObservation_Inr [OF ins(4)] obtain lr where
        lr: "findLatestObservation db (qat_attemptId a) = Some lr" "qb_observed_at lr < mq_observedAt q"
          "qb_state lr = ''PAID'' \<longrightarrow> mq_state q = Quote_paid"
          "\<forall>b \<in> set (observationsOf db (qat_attemptId a)). qb_observed_at b < mq_observedAt q" .
      have "atr_attempt res = publicAttemptBase a (Attempt_quoted q (qs @ [q]))"
        using 1(7) input observationsOf_snoc [OF out(2), of "qa_attempt_id row"] lr(4) ids
        by (intro next_read [OF read 1(4) found(2) 1(6) _ _ _ _ before(1),
              where j = "quoteInput (qti_quote i)"]) (simp_all add: q_def)
      moreover have "latestBy qb_observed_at (observationsOf db (qa_attempt_id row)) = Some lr"
        using lr(1) ids by (simp add: findLatestObservation_def)
      from latest_read [OF before(1,2) _ this] base have
        latest: "latest = quoteOfRow a (mq_expiry q) (mq_feeReserve q) lr (mq_state latest)"
          "qb_state lr = showQuoteState (mq_state latest)" "qo_quote_id out = Some (qb_quote_id lr)"
        by blast+
      have "mq_quoteId q = qb_quote_id lr" using latest(3) terms by simp
      from later_same [OF latest(1,2) this lr(2,3)] terms input have later:
        "sameQuote latest q \<and> mq_observedAt latest < mq_observedAt q
          \<and> (mq_state latest = Quote_paid \<longrightarrow> mq_state q = Quote_paid)"
        unfolding q_def by blast
      ultimately show ?thesis
        using later attempt_step.observed [of "publicAttemptBase a (Attempt_quoted latest qs)" latest qs i env q]
          input 1(2,3) ids ins(3) all before(3)
        by (simp add: quoteOutcome_def quotePayment_def q_def)
    qed
  qed
qed

lemma runQuote_outcome:
  assumes "quoteTables env db" and "runQuote env c db = Inr (db', res)"
  shows "quoteOutcome env c db db' res"
  using assms
  by (cases c) (simp_all add: runQuote_def begin_outcome ambiguous_outcome quote_outcome observe_outcome)

end
