(* ===== verification/States_Store.thy ===== *)
theory States_Store
  imports Quote_Store Lifecycle
begin

text \<open>
  \<^verbatim>\<open>postgres-cashu-proof-state-repository.ts\<close>: what the mint said about the proofs of a reservation,
  and when.  An observation covers exactly the reserved proofs, there is one per payment and time,
  and a proof seen spent is spent in every later observation.
\<close>

section \<open>What goes in and out\<close>

record persist_observation_result =
  por_replayed :: bool
  por_snapshot :: proof_state_snapshot

record proof_state_query =
  pq_mintUrl :: string
  pq_observedAtOrAfter :: int
  pq_observedAtOrBefore :: int
  pq_operatorId :: string
  pq_paymentId :: string
  pq_unit :: string

datatype proof_state_repository_error =
    PSR_invalid_input | PSR_invalid_record | PSR_observation_before_reservation
  | PSR_observation_conflict | PSR_proof_set_mismatch | PSR_reservation_not_found
  | PSR_reservation_scope_mismatch | PSR_reservation_terminal | PSR_spent_state_regression
  | PSR_storage_unavailable

type_synonym 'a states_result = "proof_state_repository_error failure + 'a"

definition invalidStatesInput :: "'e + 'a \<Rightarrow> 'a states_result" where
  "invalidStatesInput = catchR (\<lambda>_. Repository_failure PSR_invalid_input)"

definition invalidStatesRecord :: "'e + 'a \<Rightarrow> 'a states_result" where
  "invalidStatesRecord = catchR (\<lambda>_. Repository_failure PSR_invalid_record)"

lemma invalidStates_iff [simp]:
  "invalidStatesInput m = Inr x \<longleftrightarrow> m = Inr x" "invalidStatesInput (Inr x) = Inr x"
  "invalidStatesRecord m = Inr x \<longleftrightarrow> m = Inr x" "invalidStatesRecord (Inr x) = Inr x"
  by (simp_all add: invalidStatesInput_def invalidStatesRecord_def catchR_eq_Inr)

section \<open>Validation\<close>

definition validateStates ::
  "cashu_env \<Rightarrow> persist_observation_input \<Rightarrow> persist_observation_input states_result" where
  "validateStates env input =
     bindR (invalidStatesInput (identifierOf (poi_operatorId input))) (\<lambda>operatorId.
     bindR (invalidStatesInput (identifierOf (poi_paymentId input))) (\<lambda>paymentId.
     bindR (invalidStatesInput (createCashuProofStateSnapshotV1 env
              (snapshotInput (poi_snapshot input)))) (\<lambda>snapshot.
     bindR (invalidStatesInput (normalizeUnit (poi_unit input))) (\<lambda>unit.
     Inr \<lparr>poi_operatorId = operatorId, poi_paymentId = paymentId, poi_snapshot = snapshot,
          poi_unit = unit\<rparr>))))"

definition validateStatesLookup ::
  "cashu_env \<Rightarrow> proof_state_query \<Rightarrow> proof_state_query states_result" where
  "validateStatesLookup env input =
     bindR (invalidStatesInput (unixTimestamp (pq_observedAtOrAfter input))) (\<lambda>after.
     bindR (invalidStatesInput (unixTimestamp (pq_observedAtOrBefore input))) (\<lambda>before.
     if after > before then failWith PSR_invalid_input
     else
     bindR (invalidStatesInput (normalizeCashuMintUrl env (pq_mintUrl input))) (\<lambda>mintUrl.
     bindR (invalidStatesInput (identifierOf (pq_operatorId input))) (\<lambda>operatorId.
     bindR (invalidStatesInput (identifierOf (pq_paymentId input))) (\<lambda>paymentId.
     bindR (invalidStatesInput (normalizeUnit (pq_unit input))) (\<lambda>unit.
     Inr \<lparr>pq_mintUrl = mintUrl, pq_observedAtOrAfter = after, pq_observedAtOrBefore = before,
          pq_operatorId = operatorId, pq_paymentId = paymentId, pq_unit = unit\<rparr>))))))"

definition stateJson :: "proof_state_entry \<Rightarrow> json" where
  "stateJson s = JObj [(''state'', JStr (showProofStateValue (pse_state s))), (''y'', JStr (pse_y s))]"

definition statesJson :: "persist_observation_input \<Rightarrow> json" where
  "statesJson observation = JObj
     [(''mintUrl'', JStr (pss_mintUrl (poi_snapshot observation))),
      (''observedAt'', JNum (pss_observedAt (poi_snapshot observation))),
      (''operatorId'', JStr (poi_operatorId observation)),
      (''paymentId'', JStr (poi_paymentId observation)),
      (''schemaVersion'', JNum (pss_schemaVersion (poi_snapshot observation))),
      (''states'', JArr (map stateJson (pss_states (poi_snapshot observation)))),
      (''unit'', JStr (poi_unit observation))]"

definition createStatesFingerprint :: "cashu_env \<Rightarrow> persist_observation_input \<Rightarrow> string" where
  "createStatesFingerprint env observation = env_sha256 env (statesJson observation)"

section \<open>The tables\<close>

definition insertProofObservation :: "db \<Rightarrow> proof_observation_row \<Rightarrow> db_error + db" where
  "insertProofObservation db new =
     bindR (guardObservationAppend db (px_payment_id new)) (\<lambda>_.
     bindR (requireUnique ''cashu_proof_state_observations_pkey'' px_snapshot_fingerprint
              (db_proofObservations db) new) (\<lambda>_.
     bindR (requireUnique ''cashu_proof_state_observations_payment_time_unique''
              (\<lambda>x. (px_payment_id x, px_observed_at x)) (db_proofObservations db) new) (\<lambda>_.
     bindR (requireExists (\<lambda>r. rs_payment_id r = px_payment_id new
              \<and> rs_operator_id r = px_operator_id new \<and> rs_mint_url r = px_mint_url new
              \<and> rs_unit r = px_unit new) (db_reservations db)) (\<lambda>_.
     Inr (queue [Proof_observation_check (px_snapshot_fingerprint new)]
            (db\<lparr>db_proofObservations := db_proofObservations db @ [new]\<rparr>))))))"

definition insertProofEntry :: "db \<Rightarrow> proof_entry_row \<Rightarrow> db_error + db" where
  "insertProofEntry db new =
     bindR (checkRow (0 \<le> pe_position new \<and> pe_position new < 128)) (\<lambda>_.
     bindR (requireUnique ''cashu_proof_state_observation_entries_pkey''
              (\<lambda>e. (pe_snapshot_fingerprint e, pe_position e)) (db_proofEntries db) new) (\<lambda>_.
     bindR (requireUnique ''cashu_proof_state_observation_entries_proof_unique''
              (\<lambda>e. (pe_snapshot_fingerprint e, pe_proof_y e)) (db_proofEntries db) new) (\<lambda>_.
     bindR (requireExists (\<lambda>x. px_snapshot_fingerprint x = pe_snapshot_fingerprint new
              \<and> px_payment_id x = pe_payment_id new) (db_proofObservations db)) (\<lambda>_.
     bindR (requireExists (\<lambda>p. pf_payment_id p = pe_payment_id new
              \<and> pf_proof_y p = pe_proof_y new) (db_proofs db)) (\<lambda>_.
     Inr (db\<lparr>db_proofEntries := db_proofEntries db @ [new]\<rparr>))))))"

fun insertProofEntries :: "db \<Rightarrow> proof_entry_row list \<Rightarrow> db_error + db" where
  "insertProofEntries db [] = Inr db"
| "insertProofEntries db (row # rows) =
     bindR (insertProofEntry db row) (\<lambda>after. insertProofEntries after rows)"

section \<open>The reservation of an observation\<close>

record reservation_evidence =
  re_mintUrl :: string
  re_operatorId :: string
  re_paymentId :: string
  re_proofYs :: "string list"
  re_reservedAt :: int
  re_unit :: string

text \<open>The \<open>Array.from\<close> callback, with its position and the row before it.\<close>

fun evidenceYs ::
  "cashu_env \<Rightarrow> int \<Rightarrow> string option \<Rightarrow> proof_row list \<Rightarrow> string list states_result" where
  "evidenceYs env position previous [] = Inr []"
| "evidenceYs env position previous (proof # rest) =
    (if pf_position proof \<noteq> position then failWith PSR_invalid_record
     else
     bindR (invalidStatesRecord (cashuProofY env (pf_proof_y proof))) (\<lambda>y.
     if (case previous of None \<Rightarrow> False | Some before \<Rightarrow> y \<le> before)
     then failWith PSR_invalid_record
     else
     bindR (evidenceYs env (position + 1) (Some (pf_proof_y proof)) rest) (\<lambda>ys. Inr (y # ys))))"

definition loadReservationEvidence ::
  "cashu_env \<Rightarrow> db \<Rightarrow> string \<Rightarrow> reservation_evidence option states_result" where
  "loadReservationEvidence env db requestedPaymentId =
    (case findReservation db requestedPaymentId of
       None \<Rightarrow> Inr None
     | Some row \<Rightarrow>
       let proofs = sort_key pf_position (proofsOf db requestedPaymentId) in
       if rs_schema_version row \<noteq> 1 \<or> proofs = [] then failWith PSR_invalid_record
       else
       bindR (invalidStatesRecord (identifierOf (rs_payment_id row))) (\<lambda>paymentId.
       bindR (invalidStatesRecord (identifierOf (rs_operator_id row))) (\<lambda>operatorId.
       bindR (invalidStatesRecord (normalizeCashuMintUrl env (rs_mint_url row))) (\<lambda>mintUrl.
       bindR (invalidStatesRecord (normalizeUnit (rs_unit row))) (\<lambda>unit.
       bindR (invalidStatesRecord (readBigint () (rs_reserved_at row))) (\<lambda>reservedAt.
       if paymentId \<noteq> rs_payment_id row \<or> paymentId \<noteq> requestedPaymentId
          \<or> operatorId \<noteq> rs_operator_id row \<or> mintUrl \<noteq> rs_mint_url row \<or> unit \<noteq> rs_unit row
       then failWith PSR_invalid_record
       else
       bindR (evidenceYs env 0 None proofs) (\<lambda>proofYs.
       Inr (Some \<lparr>re_mintUrl = mintUrl, re_operatorId = operatorId, re_paymentId = paymentId,
                  re_proofYs = proofYs, re_reservedAt = reservedAt, re_unit = unit\<rparr>))))))))"

definition assertStatesBinding ::
  "persist_observation_input \<Rightarrow> reservation_evidence \<Rightarrow> unit states_result" where
  "assertStatesBinding observation reservation =
    (if poi_operatorId observation \<noteq> re_operatorId reservation
        \<or> pss_mintUrl (poi_snapshot observation) \<noteq> re_mintUrl reservation
        \<or> poi_unit observation \<noteq> re_unit reservation
     then failWith PSR_reservation_scope_mismatch
     else if pss_observedAt (poi_snapshot observation) < re_reservedAt reservation
     then failWith PSR_observation_before_reservation
     else if map pse_y (pss_states (poi_snapshot observation)) \<noteq> re_proofYs reservation
     then failWith PSR_proof_set_mismatch
     else Inr ())"

section \<open>The history of a payment\<close>

definition statesOf :: "db \<Rightarrow> string \<Rightarrow> (proof_observation_row \<times> proof_entry_row) list" where
  "statesOf db pid =
     [(x, e). x \<leftarrow> db_proofObservations db, px_payment_id x = pid,
        e \<leftarrow> proofEntriesOf db (px_snapshot_fingerprint x)]"

text \<open>\<^verbatim>\<open>first_spent\<close>: each proof seen spent, with the time it was first seen so.\<close>

definition firstSpent :: "db \<Rightarrow> string \<Rightarrow> (string \<times> int) list" where
  "firstSpent db pid =
    (let seen = map (\<lambda>(x, e). (pe_proof_y e, px_observed_at x))
           (filter (\<lambda>(x, e). pe_state e = ''SPENT'') (statesOf db pid))
     in filter (\<lambda>(y, t). list_all (\<lambda>(y', t'). y' = y \<longrightarrow> t \<le> t') seen) seen)"

definition assertStoredHistory :: "db \<Rightarrow> string \<Rightarrow> unit states_result" where
  "assertStoredHistory db pid =
    (if list_ex (\<lambda>(y, t). list_ex (\<lambda>(x, e). px_observed_at x > t \<and> pe_proof_y e = y
          \<and> pe_state e \<noteq> ''SPENT'') (statesOf db pid)) (firstSpent db pid)
     then failWith PSR_invalid_record else Inr ())"

definition assertProposedTransition :: "db \<Rightarrow> persist_observation_input \<Rightarrow> unit states_result" where
  "assertProposedTransition db observation =
    (let states = pss_states (poi_snapshot observation);
         spentYs = map pse_y (filter (\<lambda>s. pse_state s = Proof_spent) states);
         nonSpentYs = map pse_y (filter (\<lambda>s. pse_state s \<noteq> Proof_spent) states);
         observedAt = pss_observedAt (poi_snapshot observation);
         history = statesOf db (poi_paymentId observation)
     in if list_ex (\<lambda>(x, e). px_observed_at x < observedAt \<and> pe_state e = ''SPENT''
               \<and> pe_proof_y e \<in> set nonSpentYs) history
           \<or> list_ex (\<lambda>(x, e). px_observed_at x > observedAt \<and> pe_state e \<noteq> ''SPENT''
               \<and> pe_proof_y e \<in> set spentYs) history
        then failWith PSR_spent_state_regression else Inr ())"

definition assertStatesWritable :: "db \<Rightarrow> string \<Rightarrow> unit states_result" where
  "assertStatesWritable db pid =
    (if terminalState (latestState db pid) then failWith PSR_reservation_terminal else Inr ())"

section \<open>Reading an observation\<close>

definition statesEntry :: "string \<Rightarrow> nat \<times> proof_entry_row \<Rightarrow> proof_state_entry_input states_result" where
  "statesEntry pid = (\<lambda>(position, entry).
     if pe_payment_id entry \<noteq> pid \<or> pe_position entry \<noteq> int position
     then failWith PSR_invalid_record
     else Inr \<lparr>psi_state = pe_state entry, psi_y = pe_proof_y entry\<rparr>)"

text \<open>The last condition of \<open>mapObservation\<close>: the snapshot is of the reservation, and is what was stored.\<close>

definition statesFit ::
  "cashu_env \<Rightarrow> string \<Rightarrow> persist_observation_input \<Rightarrow> reservation_evidence option \<Rightarrow> bool" where
  "statesFit env f observation found =
    (case found of
       None \<Rightarrow> False
     | Some reservation \<Rightarrow>
         re_operatorId reservation = poi_operatorId observation
         \<and> re_mintUrl reservation = pss_mintUrl (poi_snapshot observation)
         \<and> re_unit reservation = poi_unit observation
         \<and> pss_observedAt (poi_snapshot observation) \<ge> re_reservedAt reservation
         \<and> map pse_y (pss_states (poi_snapshot observation)) = re_proofYs reservation
         \<and> createStatesFingerprint env observation = f)"

definition mapStates ::
  "cashu_env \<Rightarrow> db \<Rightarrow> proof_observation_row \<Rightarrow> proof_state_snapshot states_result" where
  "mapStates env db row =
    (let entries = sort_key pe_position (proofEntriesOf db (px_snapshot_fingerprint row)) in
     if px_schema_version row \<noteq> CASHU_PROOF_STATE_SNAPSHOT_SCHEMA_VERSION \<or> entries = []
     then failWith PSR_invalid_record
     else
     bindR (invalidStatesRecord (identifierOf (px_payment_id row))) (\<lambda>storedPaymentId.
     bindR (invalidStatesRecord (identifierOf (px_operator_id row))) (\<lambda>storedOperatorId.
     bindR (invalidStatesRecord (normalizeCashuMintUrl env (px_mint_url row))) (\<lambda>mintUrl.
     bindR (invalidStatesRecord (normalizeUnit (px_unit row))) (\<lambda>unit.
     bindR (invalidStatesRecord (readBigint () (px_observed_at row))) (\<lambda>observedAt.
     if storedPaymentId \<noteq> px_payment_id row \<or> storedOperatorId \<noteq> px_operator_id row
        \<or> mintUrl \<noteq> px_mint_url row \<or> unit \<noteq> px_unit row
     then failWith PSR_invalid_record
     else
     bindR (mapR (statesEntry storedPaymentId) (List.enumerate 0 entries)) (\<lambda>states.
     bindR (invalidStatesRecord (createCashuProofStateSnapshotV1 env
              \<lparr>pssi_mintUrl = mintUrl, pssi_observedAt = observedAt,
               pssi_schemaVersion = Some (px_schema_version row), pssi_states = states\<rparr>)) (\<lambda>snapshot.
     bindR (loadReservationEvidence env db storedPaymentId) (\<lambda>reservation.
     if \<not> statesFit env (px_snapshot_fingerprint row)
          \<lparr>poi_operatorId = storedOperatorId, poi_paymentId = storedPaymentId,
           poi_snapshot = snapshot, poi_unit = unit\<rparr> reservation
     then failWith PSR_invalid_record
     else Inr snapshot)))))))))"

definition findStatesAt :: "db \<Rightarrow> string \<Rightarrow> int \<Rightarrow> proof_observation_row option" where
  "findStatesAt db pid observedAt =
     findFirst (\<lambda>x. px_payment_id x = pid \<and> px_observed_at x = observedAt) (db_proofObservations db)"

section \<open>Operations\<close>

definition statesRowOf :: "string \<Rightarrow> persist_observation_input \<Rightarrow> proof_observation_row" where
  "statesRowOf f observation =
     \<lparr>px_snapshot_fingerprint = f, px_payment_id = poi_paymentId observation,
      px_operator_id = poi_operatorId observation,
      px_mint_url = pss_mintUrl (poi_snapshot observation), px_unit = poi_unit observation,
      px_schema_version = pss_schemaVersion (poi_snapshot observation),
      px_observed_at = pss_observedAt (poi_snapshot observation)\<rparr>"

definition statesEntryRowOf :: "string \<Rightarrow> string \<Rightarrow> nat \<Rightarrow> proof_state_entry \<Rightarrow> proof_entry_row" where
  "statesEntryRowOf f pid position state =
     \<lparr>pe_snapshot_fingerprint = f, pe_payment_id = pid, pe_position = int position,
      pe_proof_y = pse_y state, pe_state = showProofStateValue (pse_state state)\<rparr>"

definition statesEntryRowsOf :: "string \<Rightarrow> persist_observation_input \<Rightarrow> proof_entry_row list" where
  "statesEntryRowsOf f observation =
     map (\<lambda>(position, state). statesEntryRowOf f (poi_paymentId observation) position state)
       (List.enumerate 0 (pss_states (poi_snapshot observation)))"

definition persistStatesIn ::
  "cashu_env \<Rightarrow> persist_observation_input \<Rightarrow> db \<Rightarrow> (db \<times> persist_observation_result) states_result" where
  "persistStatesIn env observation db =
    (let fingerprint = createStatesFingerprint env observation;
         pid = poi_paymentId observation;
         snapshot = poi_snapshot observation in
     bindR (loadReservationEvidence env db pid) (\<lambda>loaded.
     case loaded of
       None \<Rightarrow> failWith PSR_reservation_not_found
     | Some reservation \<Rightarrow>
     bindR (assertStatesBinding observation reservation) (\<lambda>_.
     bindR (assertStoredHistory db pid) (\<lambda>_.
     case findStatesAt db pid (pss_observedAt snapshot) of
       Some existing \<Rightarrow>
         if px_snapshot_fingerprint existing \<noteq> fingerprint then failWith PSR_observation_conflict
         else bindR (mapStates env db existing) (\<lambda>stored.
              Inr (db, \<lparr>por_replayed = True, por_snapshot = stored\<rparr>))
     | None \<Rightarrow>
         bindR (assertStatesWritable db pid) (\<lambda>_.
         bindR (assertProposedTransition db observation) (\<lambda>_.
         bindR (liftDb (insertProofObservation db (statesRowOf fingerprint observation))) (\<lambda>observed.
         bindR (liftDb (insertProofEntries observed
                  (statesEntryRowsOf fingerprint observation))) (\<lambda>listed.
         Inr (listed, \<lparr>por_replayed = False, por_snapshot = snapshot\<rparr>)))))))))"

definition mapStatesStorageError ::
  "proof_state_repository_error failure \<Rightarrow> proof_state_repository_error" where
  "mapStatesStorageError f = (case f of
       Repository_failure c \<Rightarrow> c
     | Database_failure (Unique_violation name) \<Rightarrow>
         if name = ''cashu_proof_state_observations_payment_time_unique''
         then PSR_observation_conflict else PSR_storage_unavailable
     | _ \<Rightarrow> PSR_storage_unavailable)"

definition persistStates ::
  "cashu_env \<Rightarrow> persist_observation_input \<Rightarrow> db
     \<Rightarrow> proof_state_repository_error + db \<times> persist_observation_result" where
  "persistStates env input db =
     catchR mapStatesStorageError (
     bindR (validateStates env input) (\<lambda>observation.
     withTransaction (persistStatesIn env observation) db))"

definition findLatestStates ::
  "cashu_env \<Rightarrow> db \<Rightarrow> proof_state_query \<Rightarrow> proof_state_repository_error + proof_state_snapshot option" where
  "findLatestStates env db input =
     catchR mapStatesStorageError (
     bindR (validateStatesLookup env input) (\<lambda>lookup.
     let rows = filter (\<lambda>x. px_payment_id x = pq_paymentId lookup
           \<and> px_operator_id x = pq_operatorId lookup \<and> px_mint_url x = pq_mintUrl lookup
           \<and> px_unit x = pq_unit lookup \<and> px_observed_at x \<ge> pq_observedAtOrAfter lookup
           \<and> px_observed_at x \<le> pq_observedAtOrBefore lookup) (db_proofObservations db)
     in case sort_key (\<lambda>x. - px_observed_at x) (sort_key px_snapshot_fingerprint rows) of
          [] \<Rightarrow> Inr None
        | row # _ \<Rightarrow>
            bindR (assertStoredHistory db (pq_paymentId lookup)) (\<lambda>_.
            bindR (mapStates env db row) (\<lambda>snapshot. Inr (Some snapshot)))))"

end
