(* ===== verification/States_Facts.thy ===== *)
theory States_Facts
  imports States_Store Quote_Facts Keyset_Facts
begin

text \<open>
  The proof-state tables as a map from payments and times to snapshots: the invariant under which
  every stored observation can be read and a spent proof stays spent, and the exact outcome of
  \<open>persistStates\<close> over it.
\<close>

section \<open>The reservation of a payment\<close>

lemma evidenceYs_Inr: "evidenceYs env n previous ps = Inr ys \<Longrightarrow> ys = map pf_proof_y ps"
  by (induction env n previous ps arbitrary: ys rule: evidenceYs.induct)
    (auto simp: result_simps split: if_splits)

lemma loadEvidence_Some:
  assumes "loadReservationEvidence env db pid = Inr (Some ev)"
  obtains row where "findReservation db pid = Some row" "rs_operator_id row = re_operatorId ev"
    "rs_mint_url row = re_mintUrl ev" "rs_unit row = re_unit ev" "rs_reserved_at row = re_reservedAt ev"
    "rs_payment_id row = pid" "identifierPattern pid" "identifierPattern (re_operatorId ev)"
    "re_proofYs ev = map pf_proof_y (sort_key pf_position (proofsOf db pid))" "proofsOf db pid \<noteq> []"
    "normalizeCashuMintUrl env (re_mintUrl ev) = Inr (re_mintUrl ev)"
    "normalizeUnit (re_unit ev) = Inr (re_unit ev)"
  using assms
  by (auto simp: loadReservationEvidence_def result_simps Let_def dest!: evidenceYs_Inr
      split: option.splits if_splits)

lemma loadEvidence_frame:
  assumes "findReservation db' pid = findReservation db pid" and "proofsOf db' pid = proofsOf db pid"
  shows "loadReservationEvidence env db' pid = loadReservationEvidence env db pid"
  unfolding loadReservationEvidence_def assms ..

lemma assertStatesBinding_Inr [simp]:
  "assertStatesBinding v ev = Inr u \<longleftrightarrow>
     poi_operatorId v = re_operatorId ev \<and> pss_mintUrl (poi_snapshot v) = re_mintUrl ev
     \<and> poi_unit v = re_unit ev \<and> re_reservedAt ev \<le> pss_observedAt (poi_snapshot v)
     \<and> map pse_y (pss_states (poi_snapshot v)) = re_proofYs ev"
  by (auto simp: assertStatesBinding_def)

section \<open>Reading an observation\<close>

definition observationOf :: "proof_observation_row \<Rightarrow> proof_state_snapshot \<Rightarrow> persist_observation_input" where
  "observationOf x s = \<lparr>poi_operatorId = px_operator_id x, poi_paymentId = px_payment_id x,
     poi_snapshot = s, poi_unit = px_unit x\<rparr>"

text \<open>The proofs of an observation with their states.\<close>

definition shownStates :: "proof_state_snapshot \<Rightarrow> (string \<times> string) set" where
  "shownStates s = (\<lambda>st. (pse_y st, showProofStateValue (pse_state st))) ` set (pss_states s)"

definition storedStates :: "db \<Rightarrow> string \<Rightarrow> (string \<times> string) set" where
  "storedStates db f = (\<lambda>e. (pe_proof_y e, pe_state e)) ` set (proofEntriesOf db f)"

lemma shownStates_iff:
  "(y, w) \<in> shownStates s \<longleftrightarrow>
     (\<exists>st \<in> set (pss_states s). pse_y st = y \<and> showProofStateValue (pse_state st) = w)"
  by (auto simp: shownStates_def)

lemma statesEntries_read:
  assumes "mapR (statesEntry pid) (List.enumerate n es) = Inr inputs"
  shows "inputs = map (\<lambda>e. \<lparr>psi_state = pe_state e, psi_y = pe_proof_y e\<rparr>) es"
  using assms
  by (induction es arbitrary: n inputs) (auto simp: result_simps statesEntry_def split: if_splits)

lemma createStates_shown:
  assumes "createStates env seen inputs = Inr sts"
  shows "(\<lambda>st. (pse_y st, showProofStateValue (pse_state st))) ` set sts
    = (\<lambda>i. (psi_y i, psi_state i)) ` set inputs"
  using assms by (auto simp: createStates_iff entryInput_def image_image)

lemma mapStates_parts:
  assumes "mapStates env db x = Inr s"
  obtains ev where "loadReservationEvidence env db (px_payment_id x) = Inr (Some ev)"
    "assertStatesBinding (observationOf x s) ev = Inr ()"
    "x = statesRowOf (px_snapshot_fingerprint x) (observationOf x s)"
    "px_snapshot_fingerprint x = createStatesFingerprint env (observationOf x s)"
    "shownStates s = storedStates db (px_snapshot_fingerprint x)"
proof -
  let ?es = "sort_key pe_position (proofEntriesOf db (px_snapshot_fingerprint x))"
  obtain inputs found where read: "mapR (statesEntry (px_payment_id x)) (List.enumerate 0 ?es) = Inr inputs"
    "createCashuProofStateSnapshotV1 env \<lparr>pssi_mintUrl = px_mint_url x, pssi_observedAt = px_observed_at x,
       pssi_schemaVersion = Some (px_schema_version x), pssi_states = inputs\<rparr> = Inr s"
    "normalizeCashuMintUrl env (px_mint_url x) = Inr (px_mint_url x)" "px_schema_version x = 1"
    "loadReservationEvidence env db (px_payment_id x) = Inr found"
    and fit: "statesFit env (px_snapshot_fingerprint x) (observationOf x s) found"
    using assms
    by (auto simp: mapStates_def result_simps Let_def observationOf_def
        CASHU_PROOF_STATE_SNAPSHOT_SCHEMA_VERSION_def split: if_split_asm)
  obtain sts where sts: "createStates env {} inputs = Inr sts" "s = \<lparr>pss_mintUrl = px_mint_url x,
      pss_observedAt = px_observed_at x, pss_schemaVersion = 1, pss_states = sort_key pse_y sts\<rparr>"
    using read(2,3)
    by (auto simp: createCashuProofStateSnapshotV1_def result_simps
        CASHU_PROOF_STATE_SNAPSHOT_SCHEMA_VERSION_def split: if_splits)
  from fit obtain ev where parts: "loadReservationEvidence env db (px_payment_id x) = Inr (Some ev)"
    "px_operator_id x = re_operatorId ev" "px_mint_url x = re_mintUrl ev" "px_unit x = re_unit ev"
    "re_reservedAt ev \<le> pss_observedAt s" "map pse_y (pss_states s) = re_proofYs ev"
    "px_snapshot_fingerprint x = createStatesFingerprint env (observationOf x s)"
    using read(5) by (cases found) (simp_all add: statesFit_def observationOf_def sts(2))
  have "shownStates s = storedStates db (px_snapshot_fingerprint x)"
    using createStates_shown [OF sts(1)] statesEntries_read [OF read(1)]
    by (simp add: shownStates_def storedStates_def sts(2) image_image)
  moreover have "x = statesRowOf (px_snapshot_fingerprint x) (observationOf x s)"
    using read(4) by (simp add: statesRowOf_def observationOf_def sts(2))
  ultimately show thesis
    using parts by (intro that [OF parts(1)]) (simp_all add: observationOf_def sts(2))
qed

lemma mapStates_distinct:
  assumes "mapStates env db x = Inr s"
  shows "distinct (map pse_y (pss_states s))"
proof -
  obtain i where "createCashuProofStateSnapshotV1 env i = Inr s"
    using assms by (auto simp: mapStates_def result_simps Let_def split: if_split_asm)
  then show ?thesis
    by (auto simp: createCashuProofStateSnapshotV1_def result_simps createStates_iff distinct_map)
qed

lemma mapStates_frame:
  assumes "loadReservationEvidence env db' (px_payment_id x) = loadReservationEvidence env db (px_payment_id x)"
    and "proofEntriesOf db' (px_snapshot_fingerprint x) = proofEntriesOf db (px_snapshot_fingerprint x)"
  shows "mapStates env db' x = mapStates env db x"
proof (cases "identifierOf (px_payment_id x)")
  case (Inr pid)
  then show ?thesis by (simp add: mapStates_def assms cong: if_cong)
next
  case (Inl e)
  then show ?thesis
    unfolding mapStates_def assms(2) Let_def invalidStatesRecord_def Inl by (simp only: catchR_simps bindR_simps)
qed

section \<open>Spent proofs\<close>

definition spentFinal :: "db \<Rightarrow> string \<Rightarrow> bool" where
  "spentFinal db pid \<longleftrightarrow>
     (\<forall>(x, e) \<in> set (statesOf db pid). \<forall>(x', e') \<in> set (statesOf db pid).
        px_observed_at x < px_observed_at x' \<and> pe_proof_y e' = pe_proof_y e \<and> pe_state e = ''SPENT''
        \<longrightarrow> pe_state e' = ''SPENT'')"

lemma spentFinalD:
  "spentFinal db pid \<Longrightarrow> (x, e) \<in> set (statesOf db pid) \<Longrightarrow> (x', e') \<in> set (statesOf db pid) \<Longrightarrow>
     px_observed_at x < px_observed_at x' \<Longrightarrow> pe_proof_y e' = pe_proof_y e \<Longrightarrow> pe_state e = ''SPENT'' \<Longrightarrow>
     pe_state e' = ''SPENT''"
  by (fastforce simp: spentFinal_def)

lemma in_statesOf:
  "(x, e) \<in> set (statesOf db pid) \<longleftrightarrow> x \<in> set (db_proofObservations db) \<and> px_payment_id x = pid
     \<and> e \<in> set (db_proofEntries db) \<and> pe_snapshot_fingerprint e = px_snapshot_fingerprint x"
  by (auto simp: statesOf_def proofEntriesOf_def)

lemma firstSpent_iff:
  "(y, t) \<in> set (firstSpent db pid) \<longleftrightarrow>
     (\<exists>(x, e) \<in> set (statesOf db pid). pe_state e = ''SPENT'' \<and> pe_proof_y e = y \<and> px_observed_at x = t)
     \<and> (\<forall>(x, e) \<in> set (statesOf db pid). pe_state e = ''SPENT'' \<and> pe_proof_y e = y \<longrightarrow> t \<le> px_observed_at x)"
  by (auto simp: firstSpent_def Let_def list_all_iff)

lemma firstSpent_exists:
  assumes "(x, e) \<in> set (statesOf db pid)" and "pe_state e = ''SPENT''"
  shows "\<exists>t. (pe_proof_y e, t) \<in> set (firstSpent db pid) \<and> t \<le> px_observed_at x"
proof -
  let ?T = "{px_observed_at x' |x' e'. (x', e') \<in> set (statesOf db pid) \<and> pe_state e' = ''SPENT''
     \<and> pe_proof_y e' = pe_proof_y e}"
  have "?T \<subseteq> px_observed_at ` fst ` set (statesOf db pid)" by force
  then have fin: "finite ?T" by (rule finite_subset) simp
  have mem: "px_observed_at x \<in> ?T" using assms by blast
  obtain t where t: "t \<in> ?T" "\<And>t'. t' \<in> ?T \<Longrightarrow> t \<le> t'"
    using Min_in [OF fin] Min_le [OF fin] mem by blast
  then obtain x0 e0 where m: "(x0, e0) \<in> set (statesOf db pid)" "pe_state e0 = ''SPENT''"
      "pe_proof_y e0 = pe_proof_y e" "px_observed_at x0 = t" by blast
  have "\<forall>(x, e') \<in> set (statesOf db pid). pe_state e' = ''SPENT'' \<and> pe_proof_y e' = pe_proof_y e
      \<longrightarrow> t \<le> px_observed_at x"
    using t(2) by blast
  then have "(pe_proof_y e, t) \<in> set (firstSpent db pid)"
    unfolding firstSpent_iff using m(2-4) by (intro conjI bexI [OF _ m(1)]) simp_all
  then show ?thesis using t(2) [OF mem] by blast
qed

lemma assertStoredHistory_Inr [simp]: "assertStoredHistory db pid = Inr u \<longleftrightarrow> spentFinal db pid"
proof -
  have "assertStoredHistory db pid = Inr () \<longleftrightarrow>
    (\<forall>(y, t) \<in> set (firstSpent db pid). \<forall>(x, e) \<in> set (statesOf db pid).
       px_observed_at x > t \<and> pe_proof_y e = y \<longrightarrow> pe_state e = ''SPENT'')"
    unfolding assertStoredHistory_def list_ex_iff by (auto simp: split_beta)
  also have "\<dots> \<longleftrightarrow> spentFinal db pid"
  proof
    assume first: "\<forall>(y, t) \<in> set (firstSpent db pid). \<forall>(x, e) \<in> set (statesOf db pid).
       px_observed_at x > t \<and> pe_proof_y e = y \<longrightarrow> pe_state e = ''SPENT''"
    show "spentFinal db pid"
      unfolding spentFinal_def
    proof (clarify)
      fix x e x' e'
      assume a: "(x, e) \<in> set (statesOf db pid)" "(x', e') \<in> set (statesOf db pid)"
        "px_observed_at x < px_observed_at x'" "pe_proof_y e' = pe_proof_y e" "pe_state e = ''SPENT''"
      from firstSpent_exists [OF a(1,5)] obtain t where
        "(pe_proof_y e, t) \<in> set (firstSpent db pid)" "t \<le> px_observed_at x" by blast
      with first a show "pe_state e' = ''SPENT''" by fastforce
    qed
  next
    assume "spentFinal db pid"
    show "\<forall>(y, t) \<in> set (firstSpent db pid). \<forall>(x, e) \<in> set (statesOf db pid).
       px_observed_at x > t \<and> pe_proof_y e = y \<longrightarrow> pe_state e = ''SPENT''"
    proof (clarify)
      fix t x e
      assume "(pe_proof_y e, t) \<in> set (firstSpent db pid)" and later: "(x, e) \<in> set (statesOf db pid)"
        "t < px_observed_at x"
      then obtain x0 e0 where "(x0, e0) \<in> set (statesOf db pid)" "pe_state e0 = ''SPENT''"
          "pe_proof_y e0 = pe_proof_y e" "px_observed_at x0 = t"
        unfolding firstSpent_iff by blast
      with later show "pe_state e = ''SPENT''"
        using spentFinalD [OF \<open>spentFinal db pid\<close>, of x0 e0 x e] by simp
    qed
  qed
  finally show ?thesis by simp
qed

section \<open>The invariant\<close>

text \<open>
  One observation per payment and time, no entry without its observation, every observation can be
  read, and a proof seen spent is spent in every later one.
\<close>

definition statesTables :: "cashu_env \<Rightarrow> db \<Rightarrow> bool" where
  "statesTables env db \<longleftrightarrow>
     distinct (map px_snapshot_fingerprint (db_proofObservations db))
     \<and> distinct (map (\<lambda>x. (px_payment_id x, px_observed_at x)) (db_proofObservations db))
     \<and> pe_snapshot_fingerprint ` set (db_proofEntries db)
          \<subseteq> px_snapshot_fingerprint ` set (db_proofObservations db)
     \<and> (\<forall>x \<in> set (db_proofObservations db). isOk (mapStates env db x))
     \<and> (\<forall>pid. spentFinal db pid)
     \<and> db_deferred db = []"

definition statesView :: "cashu_env \<Rightarrow> db \<Rightarrow> string \<Rightarrow> int \<Rightarrow> proof_state_snapshot option" where
  "statesView env db pid t =
    (case findStatesAt db pid t of
       None \<Rightarrow> None
     | Some x \<Rightarrow> (case mapStates env db x of Inl _ \<Rightarrow> None | Inr s \<Rightarrow> Some s))"

lemma findStatesAt_Some:
  "findStatesAt db pid t = Some x \<Longrightarrow> x \<in> set (db_proofObservations db) \<and> px_payment_id x = pid
     \<and> px_observed_at x = t"
  by (auto simp: findStatesAt_def dest: findFirst_Some)

lemma statesView_Some:
  assumes "statesTables env db"
  shows "statesView env db pid t = Some s \<longleftrightarrow>
    (\<exists>x \<in> set (db_proofObservations db). px_payment_id x = pid \<and> px_observed_at x = t
       \<and> mapStates env db x = Inr s)"
proof
  assume "statesView env db pid t = Some s"
  then show "\<exists>x \<in> set (db_proofObservations db). px_payment_id x = pid \<and> px_observed_at x = t
       \<and> mapStates env db x = Inr s"
    by (auto simp: statesView_def dest: findStatesAt_Some split: option.splits sum.splits)
next
  assume "\<exists>x \<in> set (db_proofObservations db). px_payment_id x = pid \<and> px_observed_at x = t
       \<and> mapStates env db x = Inr s"
  then obtain x where x: "x \<in> set (db_proofObservations db)" "px_payment_id x = pid"
    "px_observed_at x = t" "mapStates env db x = Inr s" by blast
  have "findStatesAt db pid t = Some x"
    using assms x(1-3) findFirst_distinct [of "\<lambda>x. (px_payment_id x, px_observed_at x)" _ x]
    by (simp add: findStatesAt_def statesTables_def)
  with x(4) show "statesView env db pid t = Some s" by (simp add: statesView_def)
qed

lemma statesView_None:
  assumes "statesTables env db"
  shows "statesView env db pid t = None \<longleftrightarrow> findStatesAt db pid t = None"
proof (cases "findStatesAt db pid t")
  case (Some x)
  then have "isOk (mapStates env db x)"
    using assms findStatesAt_Some by (simp add: statesTables_def)
  with Some show ?thesis by (auto simp: statesView_def isOk_iff)
qed (simp add: statesView_def)

lemma statesView_parts:
  assumes "statesTables env db" and "statesView env db pid t = Some s"
  obtains x where "x \<in> set (db_proofObservations db)" "px_payment_id x = pid" "px_observed_at x = t"
    "mapStates env db x = Inr s" "pss_observedAt s = t"
    "shownStates s = storedStates db (px_snapshot_fingerprint x)"
proof -
  obtain x where x: "x \<in> set (db_proofObservations db)" "px_payment_id x = pid" "px_observed_at x = t"
      "mapStates env db x = Inr s"
    using assms statesView_Some by blast
  from mapStates_parts [OF x(4)] have row: "x = statesRowOf (px_snapshot_fingerprint x) (observationOf x s)"
    and shown: "shownStates s = storedStates db (px_snapshot_fingerprint x)" by blast+
  have "px_observed_at x = pss_observedAt s"
    by (subst row) (simp add: statesRowOf_def observationOf_def)
  with x shown that show thesis by simp
qed

section \<open>What an observation adds\<close>

definition statesAdded :: "cashu_env \<Rightarrow> persist_observation_input \<Rightarrow> db \<Rightarrow> db" where
  "statesAdded env v db =
    (let f = createStatesFingerprint env v in
     db\<lparr>db_proofObservations := db_proofObservations db @ [statesRowOf f v],
        db_proofEntries := db_proofEntries db @ statesEntryRowsOf f v\<rparr>)"

lemma statesRowOf_sel [simp]:
  "px_snapshot_fingerprint (statesRowOf f v) = f" "px_payment_id (statesRowOf f v) = poi_paymentId v"
  "px_observed_at (statesRowOf f v) = pss_observedAt (poi_snapshot v)"
  "px_operator_id (statesRowOf f v) = poi_operatorId v" "px_unit (statesRowOf f v) = poi_unit v"
  "px_mint_url (statesRowOf f v) = pss_mintUrl (poi_snapshot v)"
  by (simp_all add: statesRowOf_def)

lemma statesEntryRowOf_sel [simp]:
  "pe_snapshot_fingerprint (statesEntryRowOf f p n st) = f" "pe_payment_id (statesEntryRowOf f p n st) = p"
  "pe_position (statesEntryRowOf f p n st) = int n" "pe_proof_y (statesEntryRowOf f p n st) = pse_y st"
  "pe_state (statesEntryRowOf f p n st) = showProofStateValue (pse_state st)"
  by (simp_all add: statesEntryRowOf_def)

lemma statesEntryRowsOf_maps:
  "map pe_proof_y (statesEntryRowsOf f v) = map pse_y (pss_states (poi_snapshot v))"
  "map pe_position (statesEntryRowsOf f v) = map int [0..<length (pss_states (poi_snapshot v))]"
  "length (statesEntryRowsOf f v) = length (pss_states (poi_snapshot v))"
  by (auto simp: statesEntryRowsOf_def enumerate_eq_zip map_zip_map2 split_beta intro!: nth_equalityI)

lemma statesEntryRowsOf_set:
  "e \<in> set (statesEntryRowsOf f v) \<Longrightarrow> pe_snapshot_fingerprint e = f \<and> pe_payment_id e = poi_paymentId v
     \<and> (\<exists>st \<in> set (pss_states (poi_snapshot v)). pe_proof_y e = pse_y st
          \<and> pe_state e = showProofStateValue (pse_state st))"
  by (auto simp: statesEntryRowsOf_def dest: in_set_enumerate)

lemma insertProofEntries_Inr:
  "insertProofEntries db rows = Inr after \<Longrightarrow> after = db\<lparr>db_proofEntries := db_proofEntries db @ rows\<rparr>"
proof (induction rows arbitrary: db)
  case (Cons row rows)
  then have "insertProofEntries (db\<lparr>db_proofEntries := db_proofEntries db @ [row]\<rparr>) rows = Inr after"
    by (auto simp: insertProofEntry_def result_simps)
  from Cons.IH [OF this] show ?case by simp
qed simp

lemma insertProofEntries_ok:
  assumes "\<forall>e \<in> set rows. pe_snapshot_fingerprint e = f \<and> pe_payment_id e = pid \<and> 0 \<le> pe_position e
      \<and> pe_position e < 128 \<and> (\<exists>p \<in> set (db_proofs db). pf_payment_id p = pid \<and> pf_proof_y p = pe_proof_y e)"
    and "\<exists>x \<in> set (db_proofObservations db). px_snapshot_fingerprint x = f \<and> px_payment_id x = pid"
    and "distinct (map pe_position (proofEntriesOf db f @ rows))"
    and "distinct (map pe_proof_y (proofEntriesOf db f @ rows))"
  shows "insertProofEntries db rows = Inr (db\<lparr>db_proofEntries := db_proofEntries db @ rows\<rparr>)"
  using assms
proof (induction rows arbitrary: db)
  case (Cons row rows)
  let ?mid = "db\<lparr>db_proofEntries := db_proofEntries db @ [row]\<rparr>"
  have f: "pe_snapshot_fingerprint row = f" using Cons.prems(1) by simp
  have "\<forall>e \<in> set (db_proofEntries db). pe_snapshot_fingerprint e = f \<longrightarrow>
      pe_position e \<noteq> pe_position row \<and> pe_proof_y e \<noteq> pe_proof_y row"
    using Cons.prems(3,4) by (auto simp: proofEntriesOf_def image_iff)
  then have "insertProofEntry db row = Inr ?mid"
    using Cons.prems(1,2) f by (auto simp: insertProofEntry_def result_simps)
  moreover have "insertProofEntries ?mid rows = Inr (?mid\<lparr>db_proofEntries := db_proofEntries ?mid @ rows\<rparr>)"
    using Cons.prems f by (intro Cons.IH) (simp_all add: proofEntriesOf_def)
  ultimately show ?case by simp
qed simp

section \<open>Validated observations\<close>

definition statesValid :: "cashu_env \<Rightarrow> persist_observation_input \<Rightarrow> bool" where
  "statesValid env v \<longleftrightarrow> snapshotValid env (poi_snapshot v) \<and> identifierPattern (poi_operatorId v)
     \<and> identifierPattern (poi_paymentId v) \<and> normalizeUnit (poi_unit v) = Inr (poi_unit v)"

lemma normalizeUnit_again: "normalizeUnit u = Inr w \<Longrightarrow> normalizeUnit w = Inr w"
  by (auto simp: normalizeUnit_def split: if_splits)

lemma createSnapshot_valid:
  assumes "createCashuProofStateSnapshotV1 env i = Inr s"
    and "normalizeCashuMintUrl env (pss_mintUrl s) = Inr (pss_mintUrl s)"
  shows "snapshotValid env s"
  using assms
  by (auto simp: createCashuProofStateSnapshotV1_def result_simps createStates_iff snapshotValid_def
      CASHU_PROOF_STATE_SNAPSHOT_SCHEMA_VERSION_def sort_key_strict)

lemma validateStates_bound:
  assumes "validateStates env i = Inr v" and "assertStatesBinding v ev = Inr ()"
    and "loadReservationEvidence env db (poi_paymentId v) = Inr (Some ev)"
  shows "statesValid env v"
proof -
  have "normalizeCashuMintUrl env (pss_mintUrl (poi_snapshot v)) = Inr (pss_mintUrl (poi_snapshot v))"
    using assms(2) by (auto intro: loadEvidence_Some [OF assms(3)])
  moreover have "createCashuProofStateSnapshotV1 env (snapshotInput (poi_snapshot i)) = Inr (poi_snapshot v)"
    "identifierPattern (poi_operatorId v)" "identifierPattern (poi_paymentId v)"
    "normalizeUnit (poi_unit v) = Inr (poi_unit v)"
    using assms(1) by (auto simp: validateStates_def result_simps intro: normalizeUnit_again)
  ultimately show ?thesis by (simp add: statesValid_def createSnapshot_valid)
qed

lemma statesEntries_added:
  "mapR (statesEntry (poi_paymentId v))
     (List.enumerate n (map (\<lambda>(n, st). statesEntryRowOf f (poi_paymentId v) n st) (List.enumerate n sts)))
   = Inr (map entryInput sts)"
  by (induction sts arbitrary: n) (simp_all add: statesEntry_def entryInput_def)

lemma mapStates_added:
  assumes "statesValid env v" and "loadReservationEvidence env db (poi_paymentId v) = Inr (Some ev)"
    and "assertStatesBinding v ev = Inr ()" and f: "f = createStatesFingerprint env v"
    and entries: "proofEntriesOf db f = statesEntryRowsOf f v"
  shows "mapStates env db (statesRowOf f v) = Inr (poi_snapshot v)"
proof -
  let ?s = "poi_snapshot v"
  have valid: "snapshotValid env ?s" using assms(1) by (simp add: statesValid_def)
  have "strictlyIncreasing (map pe_position (statesEntryRowsOf f v))"
    unfolding statesEntryRowsOf_maps strictlyIncreasing_iff by (simp add: sorted_wrt_map)
  then have sorted: "sort_key pe_position (statesEntryRowsOf f v) = statesEntryRowsOf f v"
    by (rule sort_key_fixed)
  have some: "statesEntryRowsOf f v \<noteq> []"
    using valid statesEntryRowsOf_maps(3) [of f v] by (auto simp: snapshotValid_def)
  have created: "createCashuProofStateSnapshotV1 env \<lparr>pssi_mintUrl = pss_mintUrl ?s,
      pssi_observedAt = pss_observedAt ?s, pssi_schemaVersion = Some 1,
      pssi_states = map entryInput (pss_states ?s)\<rparr> = Inr ?s"
    using snapshotValid_recreate [OF valid] valid by (simp add: snapshotInput_def snapshotValid_def)
  have "mapR (statesEntry (poi_paymentId v)) (List.enumerate 0 (statesEntryRowsOf f v))
      = Inr (map entryInput (pss_states ?s))"
    unfolding statesEntryRowsOf_def by (rule statesEntries_added)
  moreover have eta: "\<lparr>poi_operatorId = re_operatorId ev, poi_paymentId = poi_paymentId v,
      poi_snapshot = ?s, poi_unit = re_unit ev\<rparr> = v" using assms(3) by (cases v) simp
  ultimately show ?thesis
    using assms(1-3) created some valid
    by (simp add: eta mapStates_def entries f [symmetric] sorted statesFit_def statesValid_def snapshotValid_def
        statesRowOf_def CASHU_PROOF_STATE_SNAPSHOT_SCHEMA_VERSION_def Let_def)
qed

section \<open>The abstract history\<close>

definition spentYs :: "proof_state_snapshot \<Rightarrow> string set" where
  "spentYs s = pse_y ` {st \<in> set (pss_states s). pse_state st = Proof_spent}"

text \<open>A snapshot contradicts a history when a proof would be spent at one time and not at a later one.\<close>

definition contradicts :: "(int \<Rightarrow> proof_state_snapshot option) \<Rightarrow> proof_state_snapshot \<Rightarrow> bool" where
  "contradicts history s \<longleftrightarrow>
     (\<exists>t s'. history t = Some s'
        \<and> (t < pss_observedAt s \<and> \<not> spentYs s' \<subseteq> spentYs s
           \<or> pss_observedAt s < t \<and> \<not> spentYs s \<subseteq> spentYs s'))"

definition observeStates ::
  "reservation_evidence option \<Rightarrow> bool \<Rightarrow> (int \<Rightarrow> proof_state_snapshot option) \<Rightarrow> persist_observation_input
     \<Rightarrow> proof_state_repository_error + bool" where
  "observeStates found closed history v =
    (let s = poi_snapshot v in
     case found of
       None \<Rightarrow> Inl PSR_reservation_not_found
     | Some ev \<Rightarrow>
         if poi_operatorId v \<noteq> re_operatorId ev \<or> pss_mintUrl s \<noteq> re_mintUrl ev \<or> poi_unit v \<noteq> re_unit ev
         then Inl PSR_reservation_scope_mismatch
         else if pss_observedAt s < re_reservedAt ev then Inl PSR_observation_before_reservation
         else if map pse_y (pss_states s) \<noteq> re_proofYs ev then Inl PSR_proof_set_mismatch
         else (case history (pss_observedAt s) of
             Some stored \<Rightarrow> if stored = s then Inr True else Inl PSR_observation_conflict
           | None \<Rightarrow>
               if closed then Inl PSR_reservation_terminal
               else if contradicts history s then Inl PSR_spent_state_regression
               else Inr False))"

text \<open>Every snapshot of a payment covers the proofs of its reservation.\<close>

lemma statesView_ys:
  assumes "statesTables env db" and "statesView env db pid t = Some s"
    and "loadReservationEvidence env db pid = Inr (Some ev)"
  shows "map pse_y (pss_states s) = re_proofYs ev"
proof -
  from statesView_parts [OF assms(1,2)] obtain x where "px_payment_id x = pid" "mapStates env db x = Inr s"
    by blast
  from mapStates_parts [OF this(2)] this(1) assms(3) show ?thesis by (auto simp: observationOf_def)
qed

lemma same_proofs_states:
  assumes "map pse_y (pss_states s) = map pse_y (pss_states s')" and "strictlyIncreasing (map pse_y (pss_states s))"
  shows "spentYs s \<subseteq> spentYs s' \<longleftrightarrow>
    (\<forall>st \<in> set (pss_states s). \<forall>st' \<in> set (pss_states s'). pse_y st' = pse_y st \<and> pse_state st = Proof_spent
       \<longrightarrow> pse_state st' = Proof_spent)"
proof -
  have same: "pse_y ` set (pss_states s) = pse_y ` set (pss_states s')"
    using assms(1) by (metis set_map)
  have inj: "inj_on pse_y (set (pss_states s'))"
    using strictlyIncreasing_distinct [OF assms(2)] assms(1) by (simp add: distinct_map)
  show ?thesis (is "_ \<longleftrightarrow> ?all")
  proof
    assume sub: "spentYs s \<subseteq> spentYs s'"
    show ?all
    proof (intro ballI impI)
      fix st st'
      assume st: "st \<in> set (pss_states s)" "st' \<in> set (pss_states s')"
        "pse_y st' = pse_y st \<and> pse_state st = Proof_spent"
      then have "pse_y st' \<in> spentYs s'" using sub by (auto simp: spentYs_def)
      then obtain st'' where "st'' \<in> set (pss_states s')" "pse_state st'' = Proof_spent" "pse_y st'' = pse_y st'"
        by (auto simp: spentYs_def)
      with inj st(2) show "pse_state st' = Proof_spent" by (metis inj_onD)
    qed
  next
    assume all: ?all
    show "spentYs s \<subseteq> spentYs s'"
    proof
      fix y assume "y \<in> spentYs s"
      then obtain st where st: "st \<in> set (pss_states s)" "pse_state st = Proof_spent" "y = pse_y st"
        by (auto simp: spentYs_def)
      then have "y \<in> pse_y ` set (pss_states s')" using same by blast
      then obtain st' where st': "st' \<in> set (pss_states s')" "pse_y st' = y" by blast
      with all st have "pse_state st' = Proof_spent" by blast
      with st' show "y \<in> spentYs s'" by (auto simp: spentYs_def)
    qed
  qed
qed

lemma assertProposedTransition_Inr:
  "assertProposedTransition db v = Inr u \<longleftrightarrow>
     (\<forall>(x, e) \<in> set (statesOf db (poi_paymentId v)). \<forall>st \<in> set (pss_states (poi_snapshot v)).
        pe_proof_y e = pse_y st \<longrightarrow>
          (px_observed_at x < pss_observedAt (poi_snapshot v) \<and> pe_state e = ''SPENT''
             \<longrightarrow> pse_state st = Proof_spent)
          \<and> (pss_observedAt (poi_snapshot v) < px_observed_at x \<and> pse_state st = Proof_spent
             \<longrightarrow> pe_state e = ''SPENT''))"
  unfolding assertProposedTransition_def Let_def list_ex_iff by (auto simp: failWith_def)

text \<open>What holds of every stored entry holds of every state of the snapshots, and the other way round.\<close>

lemma statesOf_view:
  assumes "statesTables env db"
  shows "(\<forall>(x, e) \<in> set (statesOf db pid). P (px_observed_at x) (pe_proof_y e) (pe_state e)) \<longleftrightarrow>
    (\<forall>t s. statesView env db pid t = Some s \<longrightarrow>
       (\<forall>st \<in> set (pss_states s). P t (pse_y st) (showProofStateValue (pse_state st))))"
    (is "?stored \<longleftrightarrow> ?shown")
proof
  assume stored: ?stored
  show ?shown
  proof (intro allI impI ballI)
    fix t s st
    assume view: "statesView env db pid t = Some s" and st: "st \<in> set (pss_states s)"
    from statesView_parts [OF assms view] obtain x where x: "x \<in> set (db_proofObservations db)"
      "px_payment_id x = pid" "px_observed_at x = t" "shownStates s = storedStates db (px_snapshot_fingerprint x)"
      by blast
    from st have "(pse_y st, showProofStateValue (pse_state st)) \<in> storedStates db (px_snapshot_fingerprint x)"
      unfolding x(4) [symmetric] by (auto simp: shownStates_def)
    then obtain e where "(x, e) \<in> set (statesOf db pid)" "pe_proof_y e = pse_y st"
        "pe_state e = showProofStateValue (pse_state st)"
      using x(1,2) by (auto simp: storedStates_def in_statesOf proofEntriesOf_def)
    with stored x(3) show "P t (pse_y st) (showProofStateValue (pse_state st))" by fastforce
  qed
next
  assume shown: ?shown
  show ?stored
  proof clarify
    fix x e assume "(x, e) \<in> set (statesOf db pid)"
    then have x: "x \<in> set (db_proofObservations db)" "px_payment_id x = pid" and
      e: "(pe_proof_y e, pe_state e) \<in> storedStates db (px_snapshot_fingerprint x)"
      by (auto simp: in_statesOf storedStates_def proofEntriesOf_def)
    from assms x(1) obtain s where s: "mapStates env db x = Inr s"
      by (auto simp: statesTables_def isOk_iff)
    then have "statesView env db pid (px_observed_at x) = Some s"
      using x statesView_Some [OF assms] by blast
    moreover from mapStates_parts [OF s] have "shownStates s = storedStates db (px_snapshot_fingerprint x)"
      by blast
    with e have "(pe_proof_y e, pe_state e) \<in> shownStates s" by simp
    then obtain st where "st \<in> set (pss_states s)"
        "pe_proof_y e = pse_y st" "pe_state e = showProofStateValue (pse_state st)"
      unfolding shownStates_iff by auto
    ultimately show "P (px_observed_at x) (pe_proof_y e) (pe_state e)" using shown by simp
  qed
qed

lemma contradicts_iff:
  assumes tables: "statesTables env db" and valid: "statesValid env v"
    and load: "loadReservationEvidence env db (poi_paymentId v) = Inr (Some ev)"
    and bound: "assertStatesBinding v ev = Inr ()"
  shows "assertProposedTransition db v = Inr u \<longleftrightarrow>
    \<not> contradicts (statesView env db (poi_paymentId v)) (poi_snapshot v)"
proof -
  let ?s = "poi_snapshot v" and ?h = "statesView env db (poi_paymentId v)"
  have inc: "strictlyIncreasing (map pse_y (pss_states ?s))"
    using valid by (simp add: statesValid_def snapshotValid_def)
  have spent: "showProofStateValue w = ''SPENT'' \<longleftrightarrow> w = Proof_spent" for w by (cases w) auto
  have ys: "map pse_y (pss_states s') = map pse_y (pss_states ?s)" if "?h t = Some s'" for t s'
    using statesView_ys [OF tables that load] bound by simp
  have "assertProposedTransition db v = Inr u \<longleftrightarrow>
    (\<forall>t s'. ?h t = Some s' \<longrightarrow> (\<forall>st' \<in> set (pss_states s'). \<forall>st \<in> set (pss_states ?s). pse_y st' = pse_y st \<longrightarrow>
       (t < pss_observedAt ?s \<and> pse_state st' = Proof_spent \<longrightarrow> pse_state st = Proof_spent)
       \<and> (pss_observedAt ?s < t \<and> pse_state st = Proof_spent \<longrightarrow> pse_state st' = Proof_spent)))"
    unfolding assertProposedTransition_Inr
    by (subst statesOf_view [OF tables, where P = "\<lambda>t y w. \<forall>st \<in> set (pss_states ?s). y = pse_y st \<longrightarrow>
          (t < pss_observedAt ?s \<and> w = ''SPENT'' \<longrightarrow> pse_state st = Proof_spent)
          \<and> (pss_observedAt ?s < t \<and> pse_state st = Proof_spent \<longrightarrow> w = ''SPENT'')"])
      (simp add: spent)
  also have "\<dots> \<longleftrightarrow> (\<forall>t s'. ?h t = Some s' \<longrightarrow>
       (t < pss_observedAt ?s \<longrightarrow> spentYs s' \<subseteq> spentYs ?s)
       \<and> (pss_observedAt ?s < t \<longrightarrow> spentYs ?s \<subseteq> spentYs s'))"
  proof -
    have "spentYs s' \<subseteq> spentYs ?s \<longleftrightarrow> (\<forall>st' \<in> set (pss_states s'). \<forall>st \<in> set (pss_states ?s).
          pse_y st' = pse_y st \<and> pse_state st' = Proof_spent \<longrightarrow> pse_state st = Proof_spent)"
      "spentYs ?s \<subseteq> spentYs s' \<longleftrightarrow> (\<forall>st' \<in> set (pss_states s'). \<forall>st \<in> set (pss_states ?s).
          pse_y st' = pse_y st \<and> pse_state st = Proof_spent \<longrightarrow> pse_state st' = Proof_spent)"
      if "?h t = Some s'" for t s'
      using same_proofs_states [OF ys [OF that]] same_proofs_states [OF ys [OF that, symmetric] inc]
        inc ys [OF that] by (simp, metis)+
    then show ?thesis by (intro iff_allI) blast
  qed
  also have "\<dots> \<longleftrightarrow> \<not> contradicts ?h ?s" by (auto simp: contradicts_def)
  finally show ?thesis .
qed

lemma spentFinal_view:
  assumes tables: "statesTables env db" and earlier: "statesView env db pid t = Some s"
    and later: "statesView env db pid t' = Some s'" and "t < t'"
    and load: "loadReservationEvidence env db pid = Inr (Some ev)"
  shows "spentYs s \<subseteq> spentYs s'"
proof
  fix y assume "y \<in> spentYs s"
  then obtain st where st: "st \<in> set (pss_states s)" "pse_state st = Proof_spent" "pse_y st = y"
    by (auto simp: spentYs_def)
  have ys: "map pse_y (pss_states s) = map pse_y (pss_states s')"
    using statesView_ys [OF tables _ load] earlier later by metis
  have "y \<in> set (map pse_y (pss_states s))" using st by auto
  then have "y \<in> set (map pse_y (pss_states s'))" unfolding ys .
  then obtain st' where st': "st' \<in> set (pss_states s')" "pse_y st' = y" by auto
  from statesView_parts [OF tables earlier] obtain x where x: "x \<in> set (db_proofObservations db)"
      "px_payment_id x = pid" "px_observed_at x = t" "shownStates s = storedStates db (px_snapshot_fingerprint x)"
    by blast
  from statesView_parts [OF tables later] obtain x' where x': "x' \<in> set (db_proofObservations db)"
      "px_payment_id x' = pid" "px_observed_at x' = t'" "shownStates s' = storedStates db (px_snapshot_fingerprint x')"
    by blast
  have "(y, ''SPENT'') \<in> shownStates s" "(y, showProofStateValue (pse_state st')) \<in> shownStates s'"
    unfolding shownStates_iff using st st' by (force, blast)
  then obtain e e' where "(x, e) \<in> set (statesOf db pid)" "pe_proof_y e = y" "pe_state e = ''SPENT''"
      "(x', e') \<in> set (statesOf db pid)" "pe_proof_y e' = y" "pe_state e' = showProofStateValue (pse_state st')"
    unfolding x(4) x'(4) using x(1,2) x'(1,2) by (auto simp: storedStates_def in_statesOf proofEntriesOf_def)
  moreover have "spentFinal db pid" using tables by (simp add: statesTables_def)
  ultimately have "showProofStateValue (pse_state st') = ''SPENT''"
    using spentFinalD [of db pid x e x' e'] x(3) x'(3) assms(4) by simp
  then have "pse_state st' = Proof_spent" by (cases "pse_state st'") auto
  with st' show "y \<in> spentYs s'" by (auto simp: spentYs_def)
qed

lemma view_loaded:
  assumes "statesTables env db" and "statesView env db pid t = Some s"
  obtains ev where "loadReservationEvidence env db pid = Inr (Some ev)"
proof -
  from statesView_parts [OF assms] obtain x where "px_payment_id x = pid" "mapStates env db x = Inr s"
    by blast
  from mapStates_parts [OF this(2)] this(1) that show thesis by blast
qed

definition allSpent :: "proof_state_snapshot \<Rightarrow> bool" where
  "allSpent s \<longleftrightarrow> (\<forall>st \<in> set (pss_states s). pse_state st = Proof_spent)"

lemma allSpent_later:
  assumes tables: "statesTables env db" and earlier: "statesView env db pid t = Some s" "allSpent s"
    and later: "statesView env db pid t' = Some s'" and "t \<le> t'"
  shows "allSpent s'"
proof (cases "t = t'")
  case False
  obtain ev where load: "loadReservationEvidence env db pid = Inr (Some ev)" by (rule view_loaded [OF tables later])
  have sub: "spentYs s \<subseteq> spentYs s'"
    using spentFinal_view [OF tables earlier(1) later _ load] assms(5) False by simp
  have ys: "map pse_y (pss_states s) = map pse_y (pss_states s')"
    using statesView_ys [OF tables earlier(1) load] statesView_ys [OF tables later load] by simp
  from statesView_parts [OF tables later] obtain x where "mapStates env db x = Inr s'" by blast
  from mapStates_distinct [OF this] have inj: "inj_on pse_y (set (pss_states s'))" by (simp add: distinct_map)
  show ?thesis
    unfolding allSpent_def
  proof
    fix st assume st: "st \<in> set (pss_states s')"
    then have "pse_y st \<in> set (map pse_y (pss_states s))" unfolding ys by simp
    then have "pse_y st \<in> spentYs s" using earlier(2) by (auto simp: spentYs_def allSpent_def)
    then have "pse_y st \<in> spentYs s'" using sub by blast
    then obtain st' where "st' \<in> set (pss_states s')" "pse_state st' = Proof_spent" "pse_y st' = pse_y st"
      by (auto simp: spentYs_def)
    with inj st show "pse_state st = Proof_spent" by (metis inj_onD)
  qed
qed (use earlier later in simp)

text \<open>The newest observation of a window.\<close>

lemma atLast_head: "sort_key (\<lambda>x. - f x :: int) xs = y # ys \<Longrightarrow> y \<in> set xs \<and> (\<forall>x \<in> set xs. f x \<le> f y)"
proof -
  assume sorted: "sort_key (\<lambda>x. - f x :: int) xs = y # ys"
  have "sorted (map (\<lambda>x. - f x) (sort_key (\<lambda>x. - f x) xs))" by (rule sorted_sort_key)
  moreover have "set (y # ys) = set xs" using sorted by (metis set_sort)
  ultimately show ?thesis unfolding sorted by auto
qed

lemma mapStates_scope:
  assumes "mapStates env db x = Inr s" and "loadReservationEvidence env db (px_payment_id x) = Inr (Some ev)"
  shows "px_operator_id x = re_operatorId ev \<and> px_mint_url x = re_mintUrl ev \<and> px_unit x = re_unit ev
    \<and> pss_observedAt s = px_observed_at x"
proof -
  from mapStates_parts [OF assms(1)] obtain ev' where
    parts: "loadReservationEvidence env db (px_payment_id x) = Inr (Some ev')"
    "assertStatesBinding (observationOf x s) ev' = Inr ()"
    and row: "x = statesRowOf (px_snapshot_fingerprint x) (observationOf x s)" by blast
  have "px_mint_url x = pss_mintUrl s" "px_observed_at x = pss_observedAt s"
    by (subst row, simp add: observationOf_def)+
  moreover have "ev' = ev" using parts(1) assms(2) by simp
  ultimately show ?thesis using parts(2) by (simp add: observationOf_def)
qed

lemma findLatestStates_newest:
  assumes tables: "statesTables env db" and load: "loadReservationEvidence env db pid = Inr (Some ev)"
    and times: "validTimestamp a" "validTimestamp b" "a \<le> b"
  shows "\<exists>r. findLatestStates env db \<lparr>pq_mintUrl = re_mintUrl ev, pq_observedAtOrAfter = a,
        pq_observedAtOrBefore = b, pq_operatorId = re_operatorId ev, pq_paymentId = pid,
        pq_unit = re_unit ev\<rparr> = Inr r
    \<and> (case r of
         None \<Rightarrow> \<forall>t. a \<le> t \<and> t \<le> b \<longrightarrow> statesView env db pid t = None
       | Some s \<Rightarrow> a \<le> pss_observedAt s \<and> pss_observedAt s \<le> b
           \<and> statesView env db pid (pss_observedAt s) = Some s
           \<and> (\<forall>t. pss_observedAt s < t \<and> t \<le> b \<longrightarrow> statesView env db pid t = None))"
proof -
  let ?q = "\<lparr>pq_mintUrl = re_mintUrl ev, pq_observedAtOrAfter = a, pq_observedAtOrBefore = b,
      pq_operatorId = re_operatorId ev, pq_paymentId = pid, pq_unit = re_unit ev\<rparr>"
  obtain row where "identifierPattern pid" "identifierPattern (re_operatorId ev)"
      "normalizeCashuMintUrl env (re_mintUrl ev) = Inr (re_mintUrl ev)" "normalizeUnit (re_unit ev) = Inr (re_unit ev)"
    using loadEvidence_Some [OF load] by metis
  then have lookup: "validateStatesLookup env ?q = Inr ?q" using times by (simp add: validateStatesLookup_def)
  let ?rows = "filter (\<lambda>x. px_payment_id x = pid \<and> px_operator_id x = re_operatorId ev
      \<and> px_mint_url x = re_mintUrl ev \<and> px_unit x = re_unit ev
      \<and> px_observed_at x \<ge> a \<and> px_observed_at x \<le> b) (db_proofObservations db)"
  let ?sorted = "sort_key (\<lambda>x. - px_observed_at x) (sort_key px_snapshot_fingerprint ?rows)"
  have read: "\<exists>s. mapStates env db x = Inr s \<and> px_operator_id x = re_operatorId ev
      \<and> px_mint_url x = re_mintUrl ev \<and> px_unit x = re_unit ev \<and> pss_observedAt s = px_observed_at x"
    if x: "x \<in> set (db_proofObservations db)" "px_payment_id x = pid" for x
  proof -
    from tables x obtain s where s: "mapStates env db x = Inr s" by (auto simp: statesTables_def isOk_iff)
    from mapStates_scope [OF s] x load s show ?thesis by blast
  qed
  have rows: "set ?rows = {x \<in> set (db_proofObservations db). px_payment_id x = pid \<and> a \<le> px_observed_at x
      \<and> px_observed_at x \<le> b}"
    using read by auto
  have none: "statesView env db pid t = None" if "\<forall>x \<in> set ?rows. px_observed_at x \<noteq> t" "a \<le> t" "t \<le> b" for t
    using that unfolding statesView_None [OF tables] rows by (auto simp: findStatesAt_def findFirst_None)
  have final: "assertStoredHistory db pid = Inr ()" using tables by (simp add: statesTables_def)
  have found: "findLatestStates env db ?q = (case ?sorted of [] \<Rightarrow> Inr None
      | x # _ \<Rightarrow> catchR mapStatesStorageError (bindR (mapStates env db x) (\<lambda>s. Inr (Some s))))"
    using final by (simp only: findLatestStates_def lookup bindR_simps Let_def proof_state_query.simps)
      (simp split: list.split)
  show ?thesis
  proof (cases ?sorted)
    case Nil
    then have "?rows = []" by simp
    then have "\<forall>t. a \<le> t \<and> t \<le> b \<longrightarrow> statesView env db pid t = None" using none by auto
    then show ?thesis unfolding found Nil by simp
  next
    case (Cons x xs)
    from atLast_head [OF Cons] have x: "x \<in> set ?rows" "\<forall>x' \<in> set ?rows. px_observed_at x' \<le> px_observed_at x"
      by simp_all
    from read [of x] x(1) obtain s where s: "mapStates env db x = Inr s" "pss_observedAt s = px_observed_at x"
      by auto
    have "statesView env db pid (px_observed_at x) = Some s"
      using statesView_Some [OF tables] x(1) s(1) by auto
    moreover have "statesView env db pid t = None" if "px_observed_at x < t" "t \<le> b" for t
      using none [of t] x that by fastforce
    ultimately show ?thesis unfolding found Cons using s x(1) by auto
  qed
qed

end
