(* ===== verification/States_Outcome.thy ===== *)
theory States_Outcome
  imports States_Facts
begin

text \<open>
  The exact outcome of \<open>persistStates\<close>: what the repository checks decides it, and then every
  constraint of the tables holds at the commit.
\<close>

section \<open>A new observation\<close>

text \<open>What the code has checked when it stores an observation.\<close>

definition statesFresh :: "cashu_env \<Rightarrow> db \<Rightarrow> reservation_evidence \<Rightarrow> persist_observation_input \<Rightarrow> bool" where
  "statesFresh env db ev v \<longleftrightarrow>
     statesValid env v \<and> loadReservationEvidence env db (poi_paymentId v) = Inr (Some ev)
     \<and> assertStatesBinding v ev = Inr ()
     \<and> findStatesAt db (poi_paymentId v) (pss_observedAt (poi_snapshot v)) = None
     \<and> assertProposedTransition db v = Inr ()
     \<and> createStatesFingerprint env v \<notin> px_snapshot_fingerprint ` set (db_proofObservations db)"

lemma statesAdded_sel [simp]:
  "db_proofObservations (statesAdded env v db)
     = db_proofObservations db @ [statesRowOf (createStatesFingerprint env v) v]"
  "db_proofEntries (statesAdded env v db)
     = db_proofEntries db @ statesEntryRowsOf (createStatesFingerprint env v) v"
  "db_deferred (statesAdded env v db) = db_deferred db"
  "db_reservations (statesAdded env v db) = db_reservations db"
  "db_proofs (statesAdded env v db) = db_proofs db"
  "findReservation (statesAdded env v db) = findReservation db"
  "proofsOf (statesAdded env v db) = proofsOf db"
  by (simp_all add: statesAdded_def findReservation_def [abs_def] proofsOf_def [abs_def] Let_def)

lemma newFingerprint:
  assumes "statesTables env db" and "f \<notin> px_snapshot_fingerprint ` set (db_proofObservations db)"
  shows "x \<in> set (db_proofObservations db) \<Longrightarrow> px_snapshot_fingerprint x \<noteq> f"
    and "e \<in> set (db_proofEntries db) \<Longrightarrow> pe_snapshot_fingerprint e \<noteq> f"
proof -
  show "x \<in> set (db_proofObservations db) \<Longrightarrow> px_snapshot_fingerprint x \<noteq> f" using assms(2) by blast
  have "pe_snapshot_fingerprint ` set (db_proofEntries db) \<subseteq> px_snapshot_fingerprint ` set (db_proofObservations db)"
    using assms(1) by (simp add: statesTables_def)
  then show "e \<in> set (db_proofEntries db) \<Longrightarrow> pe_snapshot_fingerprint e \<noteq> f" using assms(2) by blast
qed

lemma proofEntriesOf_added:
  assumes "statesTables env db"
    and "createStatesFingerprint env v \<notin> px_snapshot_fingerprint ` set (db_proofObservations db)"
  shows "proofEntriesOf (statesAdded env v db) f = (if f = createStatesFingerprint env v
    then statesEntryRowsOf f v else proofEntriesOf db f)"
proof -
  let ?f = "createStatesFingerprint env v"
  have "filter (\<lambda>e. pe_snapshot_fingerprint e = ?f) (db_proofEntries db) = []"
    using newFingerprint(2) [OF assms] by (simp add: filter_empty_conv)
  moreover have "filter (\<lambda>e. pe_snapshot_fingerprint e = f') (statesEntryRowsOf ?f v)
      = (if f' = ?f then statesEntryRowsOf ?f v else [])" for f'
    by (auto simp: filter_id_conv filter_empty_conv dest: statesEntryRowsOf_set)
  ultimately show ?thesis by (simp add: proofEntriesOf_def)
qed

lemma mapStates_kept:
  assumes "statesTables env db" and "statesFresh env db ev v" and "x \<in> set (db_proofObservations db)"
  shows "mapStates env (statesAdded env v db) x = mapStates env db x"
proof (rule mapStates_frame)
  show "loadReservationEvidence env (statesAdded env v db) (px_payment_id x)
      = loadReservationEvidence env db (px_payment_id x)"
    by (rule loadEvidence_frame) simp_all
  show "proofEntriesOf (statesAdded env v db) (px_snapshot_fingerprint x)
      = proofEntriesOf db (px_snapshot_fingerprint x)"
    using assms(2,3) newFingerprint(1) [OF assms(1), of "createStatesFingerprint env v" x]
    by (subst proofEntriesOf_added [OF assms(1)]) (simp_all add: statesFresh_def)
qed

lemma mapStates_new:
  assumes "statesTables env db" and "statesFresh env db ev v"
  shows "mapStates env (statesAdded env v db) (statesRowOf (createStatesFingerprint env v) v) = Inr (poi_snapshot v)"
proof (rule mapStates_added [OF _ _ _ refl])
  show "loadReservationEvidence env (statesAdded env v db) (poi_paymentId v) = Inr (Some ev)"
    using assms(2) loadEvidence_frame [of "statesAdded env v db" "poi_paymentId v" db env]
    by (simp add: statesFresh_def)
  show "proofEntriesOf (statesAdded env v db) (createStatesFingerprint env v)
      = statesEntryRowsOf (createStatesFingerprint env v) v"
    using assms by (subst proofEntriesOf_added [OF assms(1)]) (auto simp: statesFresh_def)
qed (use assms(2) in \<open>simp_all add: statesFresh_def\<close>)

lemma statesOf_added:
  assumes "statesTables env db" and "statesFresh env db ev v"
  shows "(x, e) \<in> set (statesOf (statesAdded env v db) pid) \<longleftrightarrow> (x, e) \<in> set (statesOf db pid)
    \<or> pid = poi_paymentId v \<and> x = statesRowOf (createStatesFingerprint env v) v
      \<and> e \<in> set (statesEntryRowsOf (createStatesFingerprint env v) v)"
proof -
  have "createStatesFingerprint env v \<notin> px_snapshot_fingerprint ` set (db_proofObservations db)"
    using assms(2) by (simp add: statesFresh_def)
  note new = newFingerprint [OF assms(1) this]
  have apart: "pe_snapshot_fingerprint e \<noteq> px_snapshot_fingerprint x"
    if "x \<in> set (db_proofObservations db)" "e \<in> set (statesEntryRowsOf (createStatesFingerprint env v) v)" for x e
    using new(1) [OF that(1)] statesEntryRowsOf_set [OF that(2)] by simp
  show ?thesis
    unfolding in_statesOf using apart by (auto dest: new(2) statesEntryRowsOf_set)
qed

lemma spentFinal_added:
  assumes tables: "statesTables env db" and fresh: "statesFresh env db ev v"
  shows "spentFinal (statesAdded env v db) pid"
  unfolding spentFinal_def
proof (clarify)
  let ?f = "createStatesFingerprint env v"
  fix x e x' e'
  assume mem: "(x, e) \<in> set (statesOf (statesAdded env v db) pid)"
      "(x', e') \<in> set (statesOf (statesAdded env v db) pid)"
    and a: "px_observed_at x < px_observed_at x'" "pe_proof_y e' = pe_proof_y e" "pe_state e = ''SPENT''"
  have spent: "showProofStateValue w = ''SPENT'' \<longleftrightarrow> w = Proof_spent" for w by (cases w) auto
  have final: "spentFinal db pid" using tables by (simp add: statesTables_def)
  have proposed: "\<And>x e st. (x, e) \<in> set (statesOf db (poi_paymentId v)) \<Longrightarrow> st \<in> set (pss_states (poi_snapshot v))
      \<Longrightarrow> pe_proof_y e = pse_y st \<Longrightarrow>
        (px_observed_at x < pss_observedAt (poi_snapshot v) \<and> pe_state e = ''SPENT'' \<longrightarrow> pse_state st = Proof_spent)
        \<and> (pss_observedAt (poi_snapshot v) < px_observed_at x \<and> pse_state st = Proof_spent
             \<longrightarrow> pe_state e = ''SPENT'')"
    using fresh by (fastforce simp: statesFresh_def assertProposedTransition_Inr)
  consider "(x, e) \<in> set (statesOf db pid)" "(x', e') \<in> set (statesOf db pid)"
    | "(x, e) \<in> set (statesOf db (poi_paymentId v))" "x' = statesRowOf ?f v" "e' \<in> set (statesEntryRowsOf ?f v)"
    | "(x', e') \<in> set (statesOf db (poi_paymentId v))" "x = statesRowOf ?f v" "e \<in> set (statesEntryRowsOf ?f v)"
    | "x = statesRowOf ?f v" "x' = statesRowOf ?f v"
    using mem unfolding statesOf_added [OF tables fresh] by blast
  then show "pe_state e' = ''SPENT''"
  proof cases
    case 1
    then show ?thesis using spentFinalD [OF final 1] a by blast
  next
    case 2
    from statesEntryRowsOf_set [OF 2(3)] obtain st where st: "st \<in> set (pss_states (poi_snapshot v))"
      "pe_proof_y e' = pse_y st" "pe_state e' = showProofStateValue (pse_state st)" by blast
    with proposed [OF 2(1) st(1)] 2(2) a show ?thesis by (simp add: spent)
  next
    case 3
    from statesEntryRowsOf_set [OF 3(3)] obtain st where st: "st \<in> set (pss_states (poi_snapshot v))"
      "pe_proof_y e = pse_y st" "pe_state e = showProofStateValue (pse_state st)" by blast
    with proposed [OF 3(1) st(1)] 3(2) a show ?thesis by (simp add: spent)
  next
    case 4
    with a show ?thesis by simp
  qed
qed

lemma statesAdded_tables:
  assumes tables: "statesTables env db" and fresh: "statesFresh env db ev v"
  shows "statesTables env (statesAdded env v db)"
proof -
  have "(poi_paymentId v, pss_observedAt (poi_snapshot v))
      \<notin> (\<lambda>x. (px_payment_id x, px_observed_at x)) ` set (db_proofObservations db)"
    using fresh by (auto simp: statesFresh_def findStatesAt_def findFirst_None)
  moreover have "pe_snapshot_fingerprint ` set (statesEntryRowsOf (createStatesFingerprint env v) v)
      \<subseteq> {createStatesFingerprint env v}"
    by (auto dest: statesEntryRowsOf_set)
  moreover have "\<forall>x \<in> set (db_proofObservations db). isOk (mapStates env (statesAdded env v db) x)"
    using tables mapStates_kept [OF tables fresh] by (simp add: statesTables_def)
  ultimately show ?thesis
    using tables fresh spentFinal_added [OF tables fresh] mapStates_new [OF tables fresh]
    by (auto simp: statesTables_def statesFresh_def)
qed

lemma statesAdded_view:
  assumes tables: "statesTables env db" and fresh: "statesFresh env db ev v"
  shows "statesView env (statesAdded env v db) = (statesView env db)
    (poi_paymentId v := (statesView env db (poi_paymentId v))(pss_observedAt (poi_snapshot v) \<mapsto> poi_snapshot v))"
proof (intro ext)
  fix pid t
  let ?db' = "statesAdded env v db"
  show "statesView env ?db' pid t = ((statesView env db)
    (poi_paymentId v := (statesView env db (poi_paymentId v))(pss_observedAt (poi_snapshot v) \<mapsto> poi_snapshot v))) pid t"
  proof (cases "pid = poi_paymentId v \<and> t = pss_observedAt (poi_snapshot v)")
    case True
    then have "findStatesAt ?db' pid t = Some (statesRowOf (createStatesFingerprint env v) v)"
      using fresh by (simp add: statesFresh_def findStatesAt_def findFirst_append_None)
    with True mapStates_new [OF tables fresh] show ?thesis by (simp add: statesView_def)
  next
    case False
    then have same: "findStatesAt ?db' pid t = findStatesAt db pid t"
      unfolding findStatesAt_def statesAdded_sel by (intro findFirst_snoc_other) auto
    have "statesView env ?db' pid t = statesView env db pid t"
    proof (cases "findStatesAt db pid t")
      case (Some x)
      with same mapStates_kept [OF tables fresh, of x] findStatesAt_Some [OF Some]
      show ?thesis by (simp add: statesView_def)
    qed (simp add: statesView_def same)
    with False show ?thesis by auto
  qed
qed

section \<open>The commit\<close>

lemma statesFresh_spentIsTerminal:
  assumes tables: "statesTables env db" and fresh: "statesFresh env db ev v"
  shows "spentIsTerminal (statesAdded env v db) (statesRowOf (createStatesFingerprint env v) v)"
proof -
  let ?db' = "statesAdded env v db" and ?x = "statesRowOf (createStatesFingerprint env v) v"
  note final = spentFinalD [OF spentFinal_added [OF tables fresh, of "poi_paymentId v"]]
  have new: "(?x, cur) \<in> set (statesOf ?db' (poi_paymentId v))"
    if "cur \<in> set (proofEntriesOf ?db' (createStatesFingerprint env v))" for cur
    using that by (auto simp: in_statesOf proofEntriesOf_def)
  have old: "(x', e') \<in> set (statesOf ?db' (poi_paymentId v))"
    if "x' \<in> set (db_proofObservations ?db')" "px_payment_id x' = poi_paymentId v"
      "e' \<in> set (proofEntriesOf ?db' (px_snapshot_fingerprint x'))" for x' e'
    using that unfolding in_statesOf proofEntriesOf_def by auto
  show ?thesis
    unfolding spentIsTerminal_def list_ex_iff
  proof (clarify)
    fix cur x' e'
    assume c: "cur \<in> set (proofEntriesOf ?db' (px_snapshot_fingerprint ?x))"
      and x': "x' \<in> set (db_proofObservations ?db')" "px_payment_id x' = px_payment_id ?x"
      and e': "e' \<in> set (proofEntriesOf ?db' (px_snapshot_fingerprint x'))" "pe_proof_y e' = pe_proof_y cur"
      and bad: "px_observed_at x' < px_observed_at ?x \<and> pe_state e' = ''SPENT'' \<and> pe_state cur \<noteq> ''SPENT''
        \<or> px_observed_at ?x < px_observed_at x' \<and> pe_state cur = ''SPENT'' \<and> pe_state e' \<noteq> ''SPENT''"
    from new c have n: "(?x, cur) \<in> set (statesOf ?db' (poi_paymentId v))" by simp
    from old x' e' have m: "(x', e') \<in> set (statesOf ?db' (poi_paymentId v))" by simp
    from bad final [OF m n _ e'(2) [symmetric]] final [OF n m _ e'(2)] show False by blast
  qed
qed

lemma statesFresh_check:
  assumes tables: "statesTables env db" and fresh: "statesFresh env db ev v"
  shows "proofObservationCheck (statesAdded env v db) (createStatesFingerprint env v)"
proof -
  let ?f = "createStatesFingerprint env v" and ?db' = "statesAdded env v db" and ?s = "poi_snapshot v"
  have load: "loadReservationEvidence env db (poi_paymentId v) = Inr (Some ev)"
    and bound: "assertStatesBinding v ev = Inr ()" and valid: "snapshotValid env ?s"
    and new: "?f \<notin> px_snapshot_fingerprint ` set (db_proofObservations db)"
    using fresh by (simp_all add: statesFresh_def statesValid_def)
  from loadEvidence_Some [OF load] obtain row where row: "findReservation db (poi_paymentId v) = Some row"
      "rs_operator_id row = re_operatorId ev" "rs_mint_url row = re_mintUrl ev" "rs_unit row = re_unit ev"
      "rs_reserved_at row = re_reservedAt ev"
      "re_proofYs ev = map pf_proof_y (sort_key pf_position (proofsOf db (poi_paymentId v)))"
    by metis
  have found: "findFirst (\<lambda>x. px_snapshot_fingerprint x = ?f) (db_proofObservations ?db')
      = Some (statesRowOf ?f v)"
    using newFingerprint(1) [OF tables new] by (simp add: findFirst_append_None findFirst_None)
  have entries: "proofEntriesOf ?db' ?f = statesEntryRowsOf ?f v"
    by (simp add: proofEntriesOf_added [OF tables new])
  have ys: "map pe_proof_y (statesEntryRowsOf ?f v) = map pf_proof_y (sort_key pf_position (proofsOf db (poi_paymentId v)))"
    using bound row(6) statesEntryRowsOf_maps(1) [of ?f v] by simp
  then have "pe_proof_y ` set (statesEntryRowsOf ?f v) = pf_proof_y ` set (proofsOf db (poi_paymentId v))"
    by (metis set_map set_sort)
  then have "pf_proof_y p \<in> pe_proof_y ` set (statesEntryRowsOf ?f v)"
    if "p \<in> set (db_proofs db)" "pf_payment_id p = poi_paymentId v" for p
    using that by (simp add: proofsOf_def)
  then have covered: "\<exists>e \<in> set (statesEntryRowsOf ?f v). pe_payment_id e = poi_paymentId v \<and> pe_proof_y e = pf_proof_y p"
    if "p \<in> set (db_proofs db)" "pf_payment_id p = poi_paymentId v" for p
    using that statesEntryRowsOf_set by (metis imageE)
  from arg_cong [OF ys, of length] have "length (statesEntryRowsOf ?f v) = reservedProofCount ?db' (poi_paymentId v)"
    by (simp add: reservedProofCount_def proofsOf_def)
  moreover have "pss_states ?s \<noteq> []" using valid by (simp add: snapshotValid_def)
  then have "sort (map pe_position (statesEntryRowsOf ?f v)) = map int [0..<length (pss_states ?s)]"
      "hd (map int [0..<length (pss_states ?s)]) = 0"
      "last (map int [0..<length (pss_states ?s)]) = int (length (statesEntryRowsOf ?f v)) - 1"
      "statesEntryRowsOf ?f v \<noteq> []"
    using statesEntryRowsOf_maps(2,3) [of ?f v]
    by (auto simp: sorted_sort_id sorted_map hd_map last_map of_nat_diff Suc_le_eq)
  ultimately show ?thesis
    using row bound covered statesFresh_spentIsTerminal [OF tables fresh]
    unfolding proofObservationCheck_def found
    by (auto simp: entries Let_def list_all_iff list_ex_iff)
qed

section \<open>The exact outcome\<close>

lemma statesJson_inject [simp]: "statesJson v = statesJson w \<longleftrightarrow> v = w"
proof -
  have "stateJson a = stateJson b \<longleftrightarrow> a = b" for a b
    by (cases a; cases b) (simp add: stateJson_def)
  then have "map stateJson as = map stateJson bs \<longleftrightarrow> as = bs" for as bs
    by (simp add: inj_map_eq_map inj_def)
  then show ?thesis
    by (cases v; cases w; cases "poi_snapshot v"; cases "poi_snapshot w") (auto simp: statesJson_def)
qed

text \<open>The observations a new one is told apart from by their digests.\<close>

definition statesAtHand :: "cashu_env \<Rightarrow> db \<Rightarrow> persist_observation_input \<Rightarrow> json set" where
  "statesAtHand env db v = insert (statesJson v)
     {statesJson (observationOf x s) | x s. x \<in> set (db_proofObservations db) \<and> mapStates env db x = Inr s}"

lemma statesAtHand_eq:
  assumes "inj_on (env_sha256 env) (statesAtHand env db v)" and "x \<in> set (db_proofObservations db)"
    and "mapStates env db x = Inr s"
  shows "px_snapshot_fingerprint x = createStatesFingerprint env v \<longleftrightarrow> observationOf x s = v"
proof -
  have "px_snapshot_fingerprint x = env_sha256 env (statesJson (observationOf x s))"
    using mapStates_parts [OF assms(3)] by (metis createStatesFingerprint_def)
  moreover have "statesJson (observationOf x s) \<in> statesAtHand env db v" "statesJson v \<in> statesAtHand env db v"
    using assms(2,3) by (auto simp: statesAtHand_def)
  ultimately show ?thesis
    using inj_on_eq_iff [OF assms(1)] by (simp add: createStatesFingerprint_def)
qed

text \<open>The checks of the code as rewrite rules.\<close>

lemma states_hold:
  "spentFinal db pid \<Longrightarrow> assertStoredHistory db pid = Inr ()"
  "poi_operatorId v = re_operatorId ev \<and> pss_mintUrl (poi_snapshot v) = re_mintUrl ev
     \<and> poi_unit v = re_unit ev \<and> re_reservedAt ev \<le> pss_observedAt (poi_snapshot v)
     \<and> map pse_y (pss_states (poi_snapshot v)) = re_proofYs ev \<Longrightarrow> assertStatesBinding v ev = Inr ()"
  by simp_all

text \<open>A fresh observation is stored.\<close>

lemma statesFresh_inserted:
  assumes tables: "statesTables env db" and fresh: "statesFresh env db ev v"
    and open_: "\<not> terminalState (latestState db (poi_paymentId v))"
  shows "bindR (insertProofObservation db (statesRowOf (createStatesFingerprint env v) v)) (\<lambda>observed.
      insertProofEntries observed (statesEntryRowsOf (createStatesFingerprint env v) v))
    = Inr (queue [Proof_observation_check (createStatesFingerprint env v)] (statesAdded env v db))"
proof -
  let ?f = "createStatesFingerprint env v" and ?s = "poi_snapshot v" and ?pid = "poi_paymentId v"
  let ?mid = "queue [Proof_observation_check ?f]
    (db\<lparr>db_proofObservations := db_proofObservations db @ [statesRowOf ?f v]\<rparr>)"
  have load: "loadReservationEvidence env db ?pid = Inr (Some ev)"
    and bound: "assertStatesBinding v ev = Inr ()" and valid: "snapshotValid env ?s"
    and new: "?f \<notin> px_snapshot_fingerprint ` set (db_proofObservations db)"
    and none: "findStatesAt db ?pid (pss_observedAt ?s) = None"
    using fresh by (simp_all add: statesFresh_def statesValid_def)
  from loadEvidence_Some [OF load] obtain row where row: "findReservation db ?pid = Some row"
      "rs_operator_id row = re_operatorId ev" "rs_mint_url row = re_mintUrl ev" "rs_unit row = re_unit ev"
      "re_proofYs ev = map pf_proof_y (sort_key pf_position (proofsOf db ?pid))"
    by metis
  have ys: "map pse_y (pss_states ?s) = re_proofYs ev" using bound by simp
  have "row \<in> set (db_reservations db)" "rs_payment_id row = ?pid"
    using findFirst_Some [OF row(1) [unfolded findReservation_def]] by simp_all
  then have "insertProofObservation db (statesRowOf ?f v) = Inr ?mid"
    using newFingerprint(1) [OF tables new] none row bound open_
    by (auto simp: insertProofObservation_def result_simps guardObservationAppend_def findStatesAt_def findFirst_None)
  moreover have "insertProofEntries ?mid (statesEntryRowsOf ?f v)
      = Inr (?mid\<lparr>db_proofEntries := db_proofEntries ?mid @ statesEntryRowsOf ?f v\<rparr>)"
  proof (rule insertProofEntries_ok [where f = ?f and pid = ?pid])
    have old: "proofEntriesOf ?mid ?f = []"
      using newFingerprint(2) [OF tables new] by (simp add: proofEntriesOf_def queue_def filter_empty_conv)
    show "distinct (map pe_position (proofEntriesOf ?mid ?f @ statesEntryRowsOf ?f v))"
      unfolding old append_Nil statesEntryRowsOf_maps by (simp add: distinct_map)
    show "distinct (map pe_proof_y (proofEntriesOf ?mid ?f @ statesEntryRowsOf ?f v))"
      unfolding old append_Nil statesEntryRowsOf_maps
      using valid by (intro strictlyIncreasing_distinct) (simp add: snapshotValid_def)
    show "\<exists>x \<in> set (db_proofObservations ?mid). px_snapshot_fingerprint x = ?f \<and> px_payment_id x = ?pid"
      by (simp add: queue_def)
    show "\<forall>e \<in> set (statesEntryRowsOf ?f v). pe_snapshot_fingerprint e = ?f \<and> pe_payment_id e = ?pid
        \<and> 0 \<le> pe_position e \<and> pe_position e < 128
        \<and> (\<exists>p \<in> set (db_proofs ?mid). pf_payment_id p = ?pid \<and> pf_proof_y p = pe_proof_y e)"
    proof
      fix e assume e: "e \<in> set (statesEntryRowsOf ?f v)"
      have "pe_position e \<in> set (map pe_position (statesEntryRowsOf ?f v))" using e by simp
      then have "0 \<le> pe_position e \<and> pe_position e < 128"
        unfolding statesEntryRowsOf_maps using valid
        by (auto simp: snapshotValid_def MAX_CASHU_PROOF_STATES_PER_SNAPSHOT_def)
      moreover have "pe_proof_y e \<in> set (map pe_proof_y (statesEntryRowsOf ?f v))" using e by simp
      then have "pe_proof_y e \<in> set (re_proofYs ev)" unfolding statesEntryRowsOf_maps ys .
      then have "\<exists>p \<in> set (db_proofs ?mid). pf_payment_id p = ?pid \<and> pf_proof_y p = pe_proof_y e"
        unfolding row(5) by (auto simp: proofsOf_def queue_def)
      ultimately show "pe_snapshot_fingerprint e = ?f \<and> pe_payment_id e = ?pid
        \<and> 0 \<le> pe_position e \<and> pe_position e < 128
        \<and> (\<exists>p \<in> set (db_proofs ?mid). pf_payment_id p = ?pid \<and> pf_proof_y p = pe_proof_y e)"
        using statesEntryRowsOf_set [OF e] by blast
    qed
  qed
  ultimately show ?thesis by (simp add: statesAdded_def queue_def Let_def)
qed

lemma proofObservationCheck_queue [simp]: "proofObservationCheck (queue cs db) f = proofObservationCheck db f"
proof -
  have "findReservation (queue cs db) = findReservation db" "proofEntriesOf (queue cs db) = proofEntriesOf db"
      "reservedProofCount (queue cs db) = reservedProofCount db" "db_proofs (queue cs db) = db_proofs db"
      "db_proofObservations (queue cs db) = db_proofObservations db"
    by (auto simp: findReservation_def proofEntriesOf_def reservedProofCount_def queue_def)
  moreover from this(2) have "spentIsTerminal (queue cs db) = spentIsTerminal db"
    by (intro ext) (simp add: spentIsTerminal_def queue_def)
  ultimately show ?thesis by (simp only: proofObservationCheck_def)
qed

lemma persistStatesIn_fresh:
  assumes tables: "statesTables env db" and fresh: "statesFresh env db ev v"
    and open_: "\<not> terminalState (latestState db (poi_paymentId v))"
  shows "withTransaction (persistStatesIn env v) db
    = Inr (statesAdded env v db, \<lparr>por_replayed = False, por_snapshot = poi_snapshot v\<rparr>)"
proof -
  let ?f = "createStatesFingerprint env v" and ?pid = "poi_paymentId v"
  obtain observed where stored: "insertProofObservation db (statesRowOf ?f v) = Inr observed"
      "insertProofEntries observed (statesEntryRowsOf ?f v)
         = Inr (queue [Proof_observation_check ?f] (statesAdded env v db))"
    using statesFresh_inserted [OF assms] by (auto simp: bindR_eq_Inr)
  have final: "spentFinal db ?pid" and clean: "db_deferred db = []" using tables by (simp_all add: statesTables_def)
  have "persistStatesIn env v db = Inr (queue [Proof_observation_check ?f] (statesAdded env v db),
      \<lparr>por_replayed = False, por_snapshot = poi_snapshot v\<rparr>)"
  proof -
    have "assertStatesWritable db ?pid = Inr ()" using open_ by (simp add: assertStatesWritable_def)
    with fresh stored final show ?thesis by (simp add: persistStatesIn_def statesFresh_def states_hold Let_def)
  qed
  moreover have "proofObservationCheck (queue [Proof_observation_check ?f] (statesAdded env v db)) ?f"
    using statesFresh_check [OF tables fresh] by simp
  ultimately show ?thesis
    using clean by (simp add: withTransaction_def commit_def queue_def statesAdded_def Let_def)
qed

lemma persistStates_refused:
  assumes "validateStates env input = Inr v" and "persistStatesIn env v db = failWith c"
  shows "persistStates env input db = Inl c"
  using assms by (simp add: persistStates_def withTransaction_def mapStatesStorageError_def failWith_def)

text \<open>There is an observation at the time already.\<close>

lemma persistStatesIn_stored:
  assumes tables: "statesTables env db"
    and found: "loadReservationEvidence env db (poi_paymentId v) = Inr (Some ev)"
    and bound: "assertStatesBinding v ev = Inr ()" and inj: "inj_on (env_sha256 env) (statesAtHand env db v)"
    and view: "statesView env db (poi_paymentId v) (pss_observedAt (poi_snapshot v)) = Some s"
  shows "persistStatesIn env v db = (if s = poi_snapshot v
    then Inr (db, \<lparr>por_replayed = True, por_snapshot = s\<rparr>) else failWith PSR_observation_conflict)"
proof -
  from view obtain x where at: "findStatesAt db (poi_paymentId v) (pss_observedAt (poi_snapshot v)) = Some x"
      and s: "mapStates env db x = Inr s"
    by (auto simp: statesView_def split: option.splits sum.splits)
  note x = findStatesAt_Some [OF at]
  from mapStates_parts [OF s] obtain ev' where
    ev': "loadReservationEvidence env db (px_payment_id x) = Inr (Some ev')"
      "assertStatesBinding (observationOf x s) ev' = Inr ()" by blast
  have "ev' = ev" using ev'(1) found x by simp
  with ev'(2) bound have "px_operator_id x = poi_operatorId v" "px_unit x = poi_unit v"
    by (simp_all add: observationOf_def)
  then have "observationOf x s = v \<longleftrightarrow> s = poi_snapshot v"
    using x by (cases v) (auto simp: observationOf_def)
  then have "px_snapshot_fingerprint x = createStatesFingerprint env v \<longleftrightarrow> s = poi_snapshot v"
    using statesAtHand_eq [OF inj _ s] x by blast
  then show ?thesis
    using found bound tables at s
    by (simp add: persistStatesIn_def states_hold statesTables_def failWith_def Let_def)
qed

text \<open>There is none.\<close>

lemma new_states_fingerprint:
  assumes tables: "statesTables env db" and inj: "inj_on (env_sha256 env) (statesAtHand env db v)"
    and none: "findStatesAt db (poi_paymentId v) (pss_observedAt (poi_snapshot v)) = None"
  shows "createStatesFingerprint env v \<notin> px_snapshot_fingerprint ` set (db_proofObservations db)"
proof
  assume "createStatesFingerprint env v \<in> px_snapshot_fingerprint ` set (db_proofObservations db)"
  then obtain x where x: "x \<in> set (db_proofObservations db)"
      "px_snapshot_fingerprint x = createStatesFingerprint env v" by auto
  from tables x(1) obtain s where s: "mapStates env db x = Inr s" by (auto simp: statesTables_def isOk_iff)
  have same: "observationOf x s = v" using statesAtHand_eq [OF inj x(1) s] x(2) by blast
  obtain f where "x = statesRowOf f v" using mapStates_parts [OF s] unfolding same by blast
  then have "px_payment_id x = poi_paymentId v" "px_observed_at x = pss_observedAt (poi_snapshot v)"
    by simp_all
  with none x(1) show False by (auto simp: findStatesAt_def findFirst_None)
qed

lemma persistStates_new:
  assumes tables: "statesTables env db" and valid: "validateStates env input = Inr v"
    and found: "loadReservationEvidence env db (poi_paymentId v) = Inr (Some ev)"
    and bound: "assertStatesBinding v ev = Inr ()" and inj: "inj_on (env_sha256 env) (statesAtHand env db v)"
    and none: "findStatesAt db (poi_paymentId v) (pss_observedAt (poi_snapshot v)) = None"
  shows "persistStates env input db =
    (if terminalState (latestState db (poi_paymentId v)) then Inl PSR_reservation_terminal
     else if contradicts (statesView env db (poi_paymentId v)) (poi_snapshot v)
     then Inl PSR_spent_state_regression
     else Inr (statesAdded env v db, \<lparr>por_replayed = False, por_snapshot = poi_snapshot v\<rparr>))"
proof -
  have vv: "statesValid env v" by (rule validateStates_bound [OF valid bound found])
  note proposed = contradicts_iff [OF tables vv found bound, of "()"]
  have final: "spentFinal db (poi_paymentId v)" using tables by (simp add: statesTables_def)
  note step = found bound final none
  consider (closed) "terminalState (latestState db (poi_paymentId v))"
    | (bad) "\<not> terminalState (latestState db (poi_paymentId v))" "assertProposedTransition db v \<noteq> Inr ()"
    | (fresh) "\<not> terminalState (latestState db (poi_paymentId v))" "assertProposedTransition db v = Inr ()"
    by blast
  then show ?thesis
  proof cases
    case closed
    then have "persistStatesIn env v db = failWith PSR_reservation_terminal"
      using step by (simp add: persistStatesIn_def assertStatesWritable_def states_hold failWith_def Let_def)
    from persistStates_refused [OF valid this] closed show ?thesis by simp
  next
    case bad
    then have "assertProposedTransition db v = failWith PSR_spent_state_regression"
      by (auto simp: assertProposedTransition_def Let_def split: if_splits)
    then have "persistStatesIn env v db = failWith PSR_spent_state_regression"
      using step bad(1) by (simp add: persistStatesIn_def assertStatesWritable_def states_hold failWith_def Let_def)
    from persistStates_refused [OF valid this] bad proposed show ?thesis by simp
  next
    case fresh
    with vv found bound none new_states_fingerprint [OF tables inj none] have "statesFresh env db ev v"
      by (simp add: statesFresh_def)
    from persistStatesIn_fresh [OF tables this fresh(1)] fresh proposed show ?thesis
      by (simp add: persistStates_def valid)
  qed
qed

lemma persistStates_exact:
  assumes tables: "statesTables env db" and valid: "validateStates env input = Inr v"
    and load: "loadReservationEvidence env db (poi_paymentId v) = Inr found"
    and inj: "inj_on (env_sha256 env) (statesAtHand env db v)"
  shows "persistStates env input db =
    (case observeStates found (terminalState (latestState db (poi_paymentId v)))
            (statesView env db (poi_paymentId v)) v of
       Inl e \<Rightarrow> Inl e
     | Inr replayed \<Rightarrow> Inr (if replayed then db else statesAdded env v db,
         \<lparr>por_replayed = replayed, por_snapshot = poi_snapshot v\<rparr>))"
proof (cases found)
  case None
  then have "persistStatesIn env v db = failWith PSR_reservation_not_found"
    using load by (simp add: persistStatesIn_def Let_def)
  from persistStates_refused [OF valid this] None show ?thesis by (simp add: observeStates_def)
next
  case (Some ev)
  with load have found: "loadReservationEvidence env db (poi_paymentId v) = Inr (Some ev)" by simp
  show ?thesis
  proof (cases "assertStatesBinding v ev")
    case (Inl e)
    then obtain c where c: "assertStatesBinding v ev = failWith c"
        "observeStates found cl h v = Inl c" for cl h
      using Some by (auto simp: assertStatesBinding_def observeStates_def failWith_def Let_def split: if_splits)
    then have "persistStatesIn env v db = failWith c"
      using found by (simp add: persistStatesIn_def failWith_def Let_def)
    from persistStates_refused [OF valid this] c(2) show ?thesis by simp
  next
    case (Inr u)
    then have bound: "assertStatesBinding v ev = Inr ()" by simp
    show ?thesis
    proof (cases "statesView env db (poi_paymentId v) (pss_observedAt (poi_snapshot v))")
      case view: (Some s)
      have clean: "db_deferred db = []" using tables by (simp add: statesTables_def)
      have same: "db\<lparr>db_deferred := []\<rparr> = db" using clean by (metis db.surjective db.update_convs(25))
      from persistStatesIn_stored [OF tables found bound inj view] bound view clean same show ?thesis
        by (simp add: observeStates_def Some persistStates_def valid withTransaction_def commit_def
            mapStatesStorageError_def failWith_def Let_def)
    next
      case None
      with statesView_None [OF tables] have
        "findStatesAt db (poi_paymentId v) (pss_observedAt (poi_snapshot v)) = None" by simp
      from persistStates_new [OF tables valid found bound inj this] bound None show ?thesis
        by (simp add: observeStates_def Some Let_def)
    qed
  qed
qed

text \<open>What a success says, without the hypothesis on the digests.\<close>

lemma persistStates_cases:
  assumes "persistStates env input db = Inr (db', res)" and tables: "statesTables env db"
  obtains (replay) "por_replayed res" "db' = db"
  | (fresh) v ev where "validateStates env input = Inr v" "statesFresh env db ev v"
      "db' = statesAdded env v db" "\<not> por_replayed res" "por_snapshot res = poi_snapshot v"
proof -
  have clean: "db_deferred db = []" using tables by (simp add: statesTables_def)
  obtain v after where v: "validateStates env input = Inr v" "persistStatesIn env v db = Inr (after, res)"
      "db' = after\<lparr>db_deferred := []\<rparr>"
    using assms(1) by (auto simp: persistStates_def result_simps withTransaction_iff)
  obtain ev where ev: "loadReservationEvidence env db (poi_paymentId v) = Inr (Some ev)"
      "assertStatesBinding v ev = Inr ()"
    using v(2) by (auto simp: persistStatesIn_def result_simps Let_def split: option.splits)
  show thesis
  proof (cases "findStatesAt db (poi_paymentId v) (pss_observedAt (poi_snapshot v))")
    case (Some x)
    with v(2) ev have "after = db" "por_replayed res"
      by (auto simp: persistStatesIn_def bindR_eq_Inr Let_def split: if_splits)
    with v(3) clean show thesis by (intro replay) simp_all
  next
    case None
    with v(2) ev obtain observed where o': "assertProposedTransition db v = Inr ()"
        "insertProofObservation db (statesRowOf (createStatesFingerprint env v) v) = Inr observed"
        "insertProofEntries observed (statesEntryRowsOf (createStatesFingerprint env v) v) = Inr after"
        "res = \<lparr>por_replayed = False, por_snapshot = poi_snapshot v\<rparr>"
      by (auto simp: persistStatesIn_def bindR_eq_Inr Let_def)
    have "createStatesFingerprint env v \<notin> px_snapshot_fingerprint ` set (db_proofObservations db)"
      using o'(2) by (auto simp: insertProofObservation_def result_simps)
    with None ev o'(1) validateStates_bound [OF v(1) ev(2,1)] have "statesFresh env db ev v"
      by (simp add: statesFresh_def)
    moreover have "db' = statesAdded env v db"
      using v(3) o'(2) insertProofEntries_Inr [OF o'(3)] clean
      by (auto simp: insertProofObservation_def result_simps queue_def statesAdded_def Let_def)
    ultimately show thesis using o'(4) v(1) by (intro fresh) simp_all
  qed
qed

end
