(* ===== verification/Store_Runs.thy ===== *)
theory Store_Runs
  imports Quote_Facts States_Outcome Reservation_Outcome Invoice_Store Recovery_Facts
begin

text \<open>
  Seven repositories on one database: invoices, keysets, quotes, proof states, reservations,
  lifecycles and recovery jobs.  A command of the quote or of the proof-state repository leaves the
  tables of the other alone, and every other command leaves both alone; so runs that mix them all keep
  the invariants, an attempt moves only along its own steps, and an observation stays.
\<close>

text \<open>
  Every writing method of the seven repositories; a payment command is a reservation or a lifecycle
  command, and a claim names the jobs whose rows others hold locked.
\<close>

datatype store_command =
    Run_invoice create_invoice_record
  | Run_keysets persist_keysets_input
  | Run_quote quote_command
  | Run_states persist_observation_input
  | Run_payment payment_command
  | Run_claim "string list" claim_input
  | Run_outcome outcome_input

text \<open>What is left of the database: an error rolls back.\<close>

definition committed :: "db \<Rightarrow> 'e + db \<times> 'a \<Rightarrow> db" where
  "committed db r = (case r of Inl _ \<Rightarrow> db | Inr (after, _) \<Rightarrow> after)"

definition runStore :: "cashu_env \<Rightarrow> store_command \<Rightarrow> db \<Rightarrow> db" where
  "runStore env c db = (case c of
       Run_invoice i \<Rightarrow> committed db (createOpenInvoice env i db)
     | Run_keysets i \<Rightarrow> committed db (persistObservation env i db)
     | Run_quote q \<Rightarrow> committed db (runQuote env q db)
     | Run_states i \<Rightarrow> committed db (persistStates env i db)
     | Run_payment p \<Rightarrow> runPayment env p db
     | Run_claim locked i \<Rightarrow> committed db (claimNext locked i db)
     | Run_outcome i \<Rightarrow> committed db (recordOutcome i db))"

fun runStores :: "cashu_env \<Rightarrow> store_command list \<Rightarrow> db \<Rightarrow> db" where
  "runStores env [] db = db"
| "runStores env (c # cs) db = runStores env cs (runStore env c db)"

definition storeTables :: "cashu_env \<Rightarrow> db \<Rightarrow> bool" where
  "storeTables env db \<longleftrightarrow> reservationTables db \<and> quoteTables env db \<and> statesTables env db"

text \<open>What a later database still shows of an earlier one.\<close>

definition statesKept :: "cashu_env \<Rightarrow> db \<Rightarrow> db \<Rightarrow> bool" where
  "statesKept env db db' \<longleftrightarrow>
     (\<forall>pid t s. statesView env db pid t = Some s \<longrightarrow> statesView env db' pid t = Some s)"

lemma statesKept_refl [simp]: "statesKept env db db"
  by (simp add: statesKept_def)

lemma statesKept_trans: "statesKept env db db' \<Longrightarrow> statesKept env db' db'' \<Longrightarrow> statesKept env db db''"
  by (simp add: statesKept_def)

section \<open>Frames\<close>

lemma payment_keeps_evidence:
  assumes "db_deferred db = []"
  shows "evidenceKept db (runPayment env c db) \<and> db_deferred (runPayment env c db) = []"
proof (cases c)
  case (Reserve_proofs input)
  show ?thesis
  proof (cases "reserve env input db")
    case (Inr r)
    obtain db' res where r: "r = (db', res)" by (cases r)
    from Inr [unfolded r] assms have "evidenceKept db db' \<and> db_deferred db' = []"
      by (cases rule: reserve_cases) (simp_all add: assms evidenceKept_def reservedDb_def)
    then show ?thesis using Inr by (simp add: runPayment_def Reserve_proofs r)
  qed (simp add: runPayment_def Reserve_proofs evidenceKept_def assms)
next
  case (Run_lifecycle command)
  show ?thesis
  proof (cases "runCommand env command db")
    case (Inr r)
    obtain db' change where r: "r = (db', change)" by (cases r)
    have "evidenceKept db db' \<and> db_deferred db' = []"
      using command_frame [OF Inr [unfolded r]] command_replay [OF Inr [unfolded r]]
        command_clean [OF Inr [unfolded r]]
      by (cases "ch_replayed change") (simp_all add: evidenceKept_def)
    then show ?thesis using Inr by (simp add: runPayment_def Run_lifecycle r)
  qed (simp add: runPayment_def Run_lifecycle evidenceKept_def assms)
qed

lemma payment_quotes:
  assumes "quoteTables env db"
  shows "quoteTables env (runPayment env' c db) \<and> quoteView env (runPayment env' c db) = quoteView env db"
proof -
  have "db_deferred db = []" using assms by (simp add: quoteTables_def)
  from payment_keeps_evidence [OF this, of env' c] show ?thesis
    using assms quoteTables_frame [of "runPayment env' c db" db env]
      quoteView_frame [of "runPayment env' c db" db env]
    by (simp add: evidenceKept_def)
qed

text \<open>What a quote command leaves alone.\<close>

definition quotesHidden :: "db \<Rightarrow> db" where
  "quotesHidden db = db\<lparr>db_quoteAttempts := [], db_quoteOutcomes := [], db_quoteObservations := [],
     db_deferred := []\<rparr>"

lemma quotesHidden_added:
  "insertQuoteAttempt db a = Inr (Some after) \<Longrightarrow> quotesHidden after = quotesHidden db"
  "insertQuoteOutcome db out = Inr after \<Longrightarrow> quotesHidden after = quotesHidden db"
  "insertQuoteObservation db b = Inr after \<Longrightarrow> quotesHidden after = quotesHidden db"
  by (auto simp: quotesHidden_def dest: insertQuoteAttempt_Inr insertQuoteOutcome_Inr
      insertQuoteObservation_Inr)

lemma replayBegin_db: "replayBegin env db rows f = Inr (after, res) \<Longrightarrow> after = db"
  by (auto simp: replayBegin_def split: list.splits if_splits)

lemma beginIn_frame: "beginIn env v db = Inr (after, res) \<Longrightarrow> quotesHidden after = quotesHidden db"
  by (auto simp: beginIn_def bindR_eq_Inr Let_def
      dest!: replayBegin_db quotesHidden_added(1) split: if_splits option.split_asm)

lemma ambiguousIn_frame: "recordAmbiguousIn env v db = Inr (after, res) \<Longrightarrow> quotesHidden after = quotesHidden db"
  by (auto simp: recordAmbiguousIn_def bindR_eq_Inr Let_def
      dest!: quotesHidden_added(2) split: if_splits option.split_asm)

lemma recordQuoteIn_frame:
  assumes "recordQuoteIn env v db = Inr (after, res)"
  shows "quotesHidden after = quotesHidden db"
  using assms
proof (cases rule: recordQuoteIn_Inr)
  case (1 row a)
  show ?thesis
  proof (cases "findOutcome db (qat_attemptId a)")
    case None
    with 1(6) obtain mid f g where "insertQuoteOutcome db (quotedRowOf a (qti_quote v) f) = Inr mid"
        "insertQuoteObservation mid (quoteObservationRowOf a (qti_quote v) g) = Inr after" by auto
    from quotesHidden_added(2) [OF this(1)] quotesHidden_added(3) [OF this(2)] show ?thesis by simp
  qed (use 1(6) in simp)
qed

lemma observeIn_frame:
  assumes "observeIn env v db = Inr (after, res)"
  shows "quotesHidden after = quotesHidden db"
  using assms
proof (cases rule: observeIn_Inr)
  case (1 row a out)
  show ?thesis
  proof (cases "findObservation db (qat_attemptId a) (mq_observedAt (qti_quote v))")
    case None
    with 1(8) obtain g where
      "insertQuoteObservation db (quoteObservationRowOf a (qti_quote v) g) = Inr after" by auto
    from quotesHidden_added(3) [OF this] show ?thesis .
  qed (use 1(8) in simp)
qed

lemma quote_frame:
  assumes "runQuote env c db = Inr (db', res)"
  shows "quotesHidden db' = quotesHidden db \<and> db_deferred db' = []"
proof -
  have undefer: "quotesHidden (after\<lparr>db_deferred := []\<rparr>) = quotesHidden after" for after
    by (simp add: quotesHidden_def)
  show ?thesis
    using assms
    by (cases c) (auto simp: runQuote_def beginAttempt_def recordAmbiguous_def recordQuote_def observe_def
        undefer elim!: quote_transaction
        dest: beginIn_frame ambiguousIn_frame recordQuoteIn_frame observeIn_frame)
qed

lemma quotesHidden_reservations:
  assumes "quotesHidden db' = quotesHidden db" and "db_deferred db' = []"
  shows "reservationTables db \<Longrightarrow> reservationTables db'"
proof -
  note kept = arg_cong [OF assms(1), of db_reservations] arg_cong [OF assms(1), of db_proofs]
    arg_cong [OF assms(1), of db_events] arg_cong [OF assms(1), of db_effects]
    arg_cong [OF assms(1), of db_invoiceClaims] arg_cong [OF assms(1), of db_proofClaims]
  have "latestState db' = latestState db" "paymentsOf db' = paymentsOf db"
    using kept
    by (auto simp: quotesHidden_def latestState_def latestEvent_def eventsOf_def paymentsOf_def)
  then show "reservationTables db \<Longrightarrow> reservationTables db'"
    using kept assms(2) by (simp add: reservationTables_def quotesHidden_def)
qed

section \<open>Proof states among the others\<close>

text \<open>An observation is read from its rows and from its reservation.\<close>

lemma statesTables_frame:
  assumes "db_proofObservations db' = db_proofObservations db" "db_proofEntries db' = db_proofEntries db"
    and "db_deferred db' = []" and "statesTables env db"
    and rows: "\<And>x. x \<in> set (db_proofObservations db) \<Longrightarrow>
      findReservation db' (px_payment_id x) = findReservation db (px_payment_id x)
      \<and> proofsOf db' (px_payment_id x) = proofsOf db (px_payment_id x)"
  shows "statesTables env db' \<and> statesView env db' = statesView env db"
proof -
  have entries: "proofEntriesOf db' f = proofEntriesOf db f" for f by (simp add: proofEntriesOf_def assms(2))
  have read: "mapStates env db' x = mapStates env db x" if "x \<in> set (db_proofObservations db)" for x
    using rows [OF that] entries by (intro mapStates_frame loadEvidence_frame) simp_all
  have "statesOf db' pid = statesOf db pid" for pid unfolding statesOf_def entries assms(1) ..
  then have "spentFinal db' pid = spentFinal db pid" for pid by (simp add: spentFinal_def)
  moreover have "findStatesAt db' = findStatesAt db" by (intro ext) (simp add: findStatesAt_def assms(1))
  then have "statesView env db' = statesView env db"
    using read findStatesAt_Some [of db] by (intro ext) (auto simp: statesView_def split: option.split)
  ultimately show ?thesis using assms(1-4) read by (auto simp: statesTables_def)
qed

lemma observed_reserved:
  assumes "statesTables env db" and "x \<in> set (db_proofObservations db)"
  shows "px_payment_id x \<in> paymentsOf db"
proof -
  from assms obtain s where "mapStates env db x = Inr s" by (auto simp: statesTables_def isOk_iff)
  from mapStates_parts [OF this] obtain ev where
    "loadReservationEvidence env db (px_payment_id x) = Inr (Some ev)" by blast
  from loadEvidence_Some [OF this] obtain row where "findReservation db (px_payment_id x) = Some row" by blast
  then show ?thesis by (metis findReservation_None option.distinct(1))
qed

lemma payment_keeps_reserved:
  assumes "reservationTables db" and "pid \<in> paymentsOf db"
  shows "findReservation (runPayment env c db) pid = findReservation db pid
    \<and> proofsOf (runPayment env c db) pid = proofsOf db pid"
proof (cases c)
  case (Reserve_proofs input)
  have clean: "db_deferred db = []" using assms(1) by (simp add: reservationTables_def)
  obtain row where row: "findReservation db pid = Some row"
    using assms(2) findReservation_None [of db pid] by blast
  show ?thesis
  proof (cases "reserve env input db")
    case (Inr r)
    obtain db' res where r: "r = (db', res)" by (cases r)
    have "findReservation db' pid = findReservation db pid \<and> proofsOf db' pid = proofsOf db pid"
      using Inr [unfolded r] clean
    proof (cases rule: reserve_cases)
      case (fresh r')
      have "prs_paymentId r' \<noteq> pid" using fresh(2) row by auto
      then have "filter (\<lambda>p. pf_payment_id p = pid) (proofRowsOf r') = []"
        by (auto simp: filter_empty_conv dest: proofRowsOf_payment)
      with row show ?thesis by (simp add: fresh(5) findReservation_def findFirst_append_Some proofsOf_def)
    qed simp
    then show ?thesis using Inr by (simp add: runPayment_def Reserve_proofs r)
  qed (simp add: runPayment_def Reserve_proofs)
next
  case (Run_lifecycle command)
  show ?thesis
  proof (cases "runCommand env command db")
    case (Inr r)
    obtain db' change where r: "r = (db', change)" by (cases r)
    have "db_reservations db' = db_reservations db \<and> db_proofs db' = db_proofs db"
      using command_frame [OF Inr [unfolded r]] command_replay [OF Inr [unfolded r]]
      by (cases "ch_replayed change") auto
    then show ?thesis using Inr by (simp add: runPayment_def Run_lifecycle r findReservation_def proofsOf_def)
  qed (simp add: runPayment_def Run_lifecycle)
qed

lemma payment_states:
  assumes "statesTables env db" and "reservationTables db"
  shows "statesTables env (runPayment env' c db) \<and> statesView env (runPayment env' c db) = statesView env db"
proof -
  have "db_deferred db = []" using assms(1) by (simp add: statesTables_def)
  from payment_keeps_evidence [OF this, of env' c] show ?thesis
    using payment_keeps_reserved [OF assms(2) observed_reserved [OF assms(1)]] assms(1)
    by (intro statesTables_frame) (simp_all add: evidenceKept_def)
qed

lemma quote_states:
  assumes "quotesHidden db' = quotesHidden db" and "db_deferred db' = []" and "statesTables env db"
  shows "statesTables env db' \<and> statesView env db' = statesView env db"
proof -
  note kept = arg_cong [OF assms(1), of db_reservations] arg_cong [OF assms(1), of db_proofs]
    arg_cong [OF assms(1), of db_proofObservations] arg_cong [OF assms(1), of db_proofEntries]
  show ?thesis
    by (rule statesTables_frame)
      (use kept assms(2,3) in \<open>simp_all add: quotesHidden_def findReservation_def proofsOf_def\<close>)
qed

lemma states_others:
  assumes "reservationTables db" and "quoteTables env db"
  shows "reservationTables (statesAdded env' v db) \<and> quoteTables env (statesAdded env' v db)
    \<and> quoteView env (statesAdded env' v db) = quoteView env db"
proof -
  let ?db' = "statesAdded env' v db"
  have same: "db_events ?db' = db_events db" "db_effects ?db' = db_effects db"
      "db_invoiceClaims ?db' = db_invoiceClaims db" "db_proofClaims ?db' = db_proofClaims db"
      "db_quoteAttempts ?db' = db_quoteAttempts db" "db_quoteOutcomes ?db' = db_quoteOutcomes db"
      "db_quoteObservations ?db' = db_quoteObservations db" "db_deferred ?db' = []"
    using assms(1) by (simp_all add: statesAdded_def Let_def reservationTables_def)
  have "latestState ?db' = latestState db" "paymentsOf ?db' = paymentsOf db"
    by (auto simp: latestState_def latestEvent_def eventsOf_def paymentsOf_def same)
  then have "reservationTables ?db'" using assms(1) same by (simp add: reservationTables_def)
  then show ?thesis
    using quoteTables_frame [OF same(5-8) assms(2)] quoteView_frame(2) [OF same(5-7)] by simp
qed

section \<open>Invoices, keysets and recovery jobs\<close>

text \<open>The tables that carry a payment and its evidence, untouched.\<close>

definition coreKept :: "db \<Rightarrow> db \<Rightarrow> bool" where
  "coreKept db db' \<longleftrightarrow>
     db_reservations db' = db_reservations db \<and> db_proofs db' = db_proofs db
     \<and> db_proofClaims db' = db_proofClaims db \<and> db_invoiceClaims db' = db_invoiceClaims db
     \<and> db_effects db' = db_effects db \<and> db_events db' = db_events db
     \<and> db_quoteAttempts db' = db_quoteAttempts db \<and> db_quoteOutcomes db' = db_quoteOutcomes db
     \<and> db_quoteObservations db' = db_quoteObservations db
     \<and> db_proofObservations db' = db_proofObservations db \<and> db_proofEntries db' = db_proofEntries db"

lemma coreKept_refl [simp]: "coreKept db db" "coreKept db (db\<lparr>db_deferred := d\<rparr>)"
  by (simp_all add: coreKept_def)

lemma coreKept_trans: "coreKept db mid \<Longrightarrow> coreKept mid db' \<Longrightarrow> coreKept db db'"
  by (simp add: coreKept_def)

lemma routes_core: "insertRouteRows db rows = Inr after \<Longrightarrow> coreKept db after"
proof (induction rows arbitrary: db)
  case (Cons row rows)
  then obtain mid where "insertRouteRow db row = Inr mid" "insertRouteRows mid rows = Inr after"
    by (auto simp: bindR_eq_Inr)
  moreover from this(1) have "coreKept db mid"
    by (auto simp: insertRouteRow_def result_simps queue_def coreKept_def)
  ultimately show ?case using Cons.IH coreKept_trans by blast
qed simp

lemma issuance_core:
  "insertCreation db c = Inr (Some after) \<Longrightarrow> coreKept db after"
  "insertInvoiceRow db i = Inr after \<Longrightarrow> coreKept db after"
  "insertRequestRow db q = Inr after \<Longrightarrow> coreKept db after"
  by (auto simp: insertCreation_def insertInvoiceRow_def insertRequestRow_def result_simps queue_def coreKept_def
      split: if_splits)

lemma request_core: "insertCashuPaymentRequest env db i q d = Inr after \<Longrightarrow> coreKept db after"
  unfolding insertCashuPaymentRequest_def bindR_eq_Inr
  by (blast intro: coreKept_trans dest: issuance_core(3) routes_core)

lemma createOpenInvoiceIn_core:
  assumes "createOpenInvoiceIn env input request d db = Inr (after, res)"
  shows "coreKept db after"
proof -
  obtain reserved where reserved: "insertCreation db
              \<lparr>cr_merchant_id = inv_merchantId (cir_invoice input),
               cr_idempotency_key = cir_idempotencyKey input,
               cr_request_fingerprint = cir_requestFingerprint input,
               cr_invoice_id = inv_id (cir_invoice input),
               cr_created_at = inv_createdAt (cir_invoice input)\<rparr> = Inr reserved"
    using assms by (fastforce simp: createOpenInvoiceIn_def bindR_eq_Inr)
  show ?thesis
  proof (cases reserved)
    case None
    then show ?thesis using assms reserved by (auto simp: createOpenInvoiceIn_def result_simps)
  next
    case (Some db1)
    obtain db2 where "insertInvoiceRow db1 (invoiceRowOf (cir_invoice input)) = Inr db2"
      "insertCashuPaymentRequest env db2 (cir_invoice input) request d = Inr after"
      using assms reserved Some
      by (auto simp: createOpenInvoiceIn_def bindR_eq_Inr)
    with issuance_core(1) reserved Some show ?thesis
      by (blast intro: coreKept_trans dest: issuance_core(2) request_core)
  qed
qed

lemma jobs_core:
  "claimNextIn locked i db = Inr (after, found) \<Longrightarrow> coreKept db after"
  "recordOutcomeIn out db = Inr (after, r) \<Longrightarrow> coreKept db after"
proof -
  show "claimNextIn locked i db = Inr (after, found) \<Longrightarrow> coreKept db after"
    by (cases found) (auto simp: insertLease_Inr coreKept_def dest: claimNextIn_None elim!: claimNextIn_Some)
  show "recordOutcomeIn out db = Inr (after, r) \<Longrightarrow> coreKept db after"
    by (auto simp: recordOutcomeIn_def insertOutcome_def result_simps coreKept_def
        split: option.split_asm if_splits prod.split_asm)
qed

text \<open>Their commands leave the payments and their evidence alone.\<close>

lemma transaction_core:
  assumes "withTransaction m db = Inr (db', v)" and "\<And>after. m db = Inr (after, v) \<Longrightarrow> coreKept db after"
  shows "coreKept db db' \<and> db_deferred db' = []"
proof -
  obtain after where "m db = Inr (after, v)" "db' = after\<lparr>db_deferred := []\<rparr>"
    using assms(1) by (auto simp: withTransaction_iff)
  then show ?thesis using assms(2) by (simp add: coreKept_def)
qed

lemma committed_core:
  assumes "db_deferred db = []"
    and "\<And>db' v. r = Inr (db', v) \<Longrightarrow> coreKept db db' \<and> db_deferred db' = []"
  shows "coreKept db (committed db r) \<and> db_deferred (committed db r) = []"
  using assms by (cases r) (auto simp: committed_def)

lemma invoice_core:
  assumes "db_deferred db = []"
  shows "coreKept db (committed db (createOpenInvoice env i db))
    \<and> db_deferred (committed db (createOpenInvoice env i db)) = []"
  using assms
  by (rule committed_core)
    (auto simp: createOpenInvoice_def result_simps elim!: transaction_core dest: createOpenInvoiceIn_core)

lemma keysets_core:
  assumes "db_deferred db = []"
  shows "coreKept db (committed db (persistObservation env i db))
    \<and> db_deferred (committed db (persistObservation env i db)) = []"
proof (rule committed_core [OF assms])
  fix db' res assume "persistObservation env i db = Inr (db', res)"
  from this assms show "coreKept db db' \<and> db_deferred db' = []"
    by (cases rule: persistObservation_cases) (simp_all add: coreKept_def observedDb_def Let_def assms)
qed

lemma job_core:
  assumes "db_deferred db = []"
  shows "coreKept db (committed db (claimNext locked c db)) \<and> db_deferred (committed db (claimNext locked c db)) = []"
    and "coreKept db (committed db (recordOutcome out db)) \<and> db_deferred (committed db (recordOutcome out db)) = []"
proof -
  have undefer: "coreKept db after \<Longrightarrow> coreKept db (after\<lparr>db_deferred := []\<rparr>)" for after
    by (simp add: coreKept_def)
  show "coreKept db (committed db (claimNext locked c db)) \<and> db_deferred (committed db (claimNext locked c db)) = []"
    by (rule committed_core [OF assms]) (auto simp: claimNext_Inr dest: jobs_core intro: undefer)
  show "coreKept db (committed db (recordOutcome out db)) \<and> db_deferred (committed db (recordOutcome out db)) = []"
    by (rule committed_core [OF assms]) (auto simp: recordOutcome_Inr dest: jobs_core intro: undefer)
qed

lemma core_stores:
  assumes "coreKept db db' \<and> db_deferred db' = []" and "storeTables env db"
  shows "storeTables env db' \<and> quoteView env db' = quoteView env db \<and> statesView env db' = statesView env db"
proof -
  have same: "latestState db' = latestState db" "paymentsOf db' = paymentsOf db"
    using assms(1) by (auto simp: coreKept_def latestState_def latestEvent_def eventsOf_def paymentsOf_def)
  have "reservationTables db'"
    using assms same by (simp add: storeTables_def reservationTables_def coreKept_def)
  moreover have "quoteTables env db' \<and> quoteView env db' = quoteView env db"
    using assms quoteTables_frame [of db' db env] quoteView_frame [of db' db env]
    by (simp add: storeTables_def coreKept_def)
  moreover have "statesTables env db' \<and> statesView env db' = statesView env db"
    by (rule statesTables_frame)
      (use assms in \<open>simp_all add: storeTables_def coreKept_def findReservation_def proofsOf_def\<close>)
  ultimately show ?thesis by (simp add: storeTables_def)
qed

section \<open>Runs\<close>

text \<open>An attempt along a run: zero or more of its steps.\<close>

inductive attempt_path :: "cashu_env \<Rightarrow> melt_attempt option \<Rightarrow> melt_attempt option \<Rightarrow> bool" for env where
  stay: "attempt_path env m m"
| move: "attempt_path env m n \<Longrightarrow> attempt_step env c n n' \<Longrightarrow> attempt_path env m (Some n')"

lemma attempt_path_trans:
  "attempt_path env n p \<Longrightarrow> attempt_path env m n \<Longrightarrow> attempt_path env m p"
  by (induction rule: attempt_path.induct) (auto intro: attempt_path.intros)

lemma runStore_tables:
  assumes tables: "storeTables env db"
  shows "storeTables env (runStore env c db)
    \<and> attempt_path env (quoteView env db pid) (quoteView env (runStore env c db) pid)
    \<and> statesKept env db (runStore env c db)"
proof -
  have reserved: "reservationTables db" and quotes: "quoteTables env db" and states: "statesTables env db"
    using tables by (simp_all add: storeTables_def)
  have clean: "db_deferred db = []" using states by (simp add: statesTables_def)
  have aside: ?thesis
    if "coreKept db (runStore env c db) \<and> db_deferred (runStore env c db) = []"
    using core_stores [OF that tables] by (simp add: statesKept_def attempt_path.stay)
  show ?thesis
  proof (cases c)
    case (Run_invoice i)
    show ?thesis by (rule aside) (use invoice_core [OF clean] Run_invoice in \<open>simp add: runStore_def\<close>)
  next
    case (Run_keysets i)
    show ?thesis by (rule aside) (use keysets_core [OF clean] Run_keysets in \<open>simp add: runStore_def\<close>)
  next
    case (Run_claim locked i)
    show ?thesis by (rule aside) (use job_core [OF clean] Run_claim in \<open>simp add: runStore_def\<close>)
  next
    case (Run_outcome i)
    show ?thesis by (rule aside) (use job_core [OF clean] Run_outcome in \<open>simp add: runStore_def\<close>)
  next
    case (Run_payment p)
    then show ?thesis
      using payment_quotes [OF quotes, of env p] payment_states [OF states reserved, of env p]
        runPayment_tables [OF reserved, of env p]
      by (simp add: runStore_def storeTables_def statesKept_def attempt_path.stay)
  next
    case (Run_quote q)
    show ?thesis
    proof (cases "runQuote env q db")
      case (Inr r)
      obtain db' res where r: "r = (db', res)" by (cases r)
      note frame = quote_frame [OF Inr [unfolded r]]
      from runQuote_outcome [OF quotes Inr [unfolded r]]
      have "quoteTables env db' \<and> attempt_path env (quoteView env db pid) (quoteView env db' pid)"
        using quotes
        by (cases "atr_replayed res"; cases "pid = quotePayment q")
          (auto simp: quoteOutcome_def intro: attempt_path.intros)
      then show ?thesis
        using Inr frame quotesHidden_reservations [of db' db] reserved quote_states [of db' db env] states
        by (simp add: runStore_def committed_def Run_quote r storeTables_def statesKept_def)
    qed (simp add: runStore_def committed_def Run_quote tables attempt_path.stay)
  next
    case (Run_states i)
    show ?thesis
    proof (cases "persistStates env i db")
      case (Inr r)
      obtain db' res where r: "r = (db', res)" by (cases r)
      from Inr [unfolded r] states show ?thesis
      proof (cases rule: persistStates_cases)
        case replay
        with Inr r tables show ?thesis by (simp add: runStore_def committed_def Run_states attempt_path.stay)
      next
        case (fresh v ev)
        have none: "statesView env db (poi_paymentId v) (pss_observedAt (poi_snapshot v)) = None"
          using fresh(2) by (simp add: statesView_None [OF states] statesFresh_def)
        from fresh states_others [OF reserved quotes, of env v] statesAdded_tables [OF states fresh(2)]
          statesAdded_view [OF states fresh(2)] none Inr
        show ?thesis
          by (auto simp: runStore_def committed_def Run_states r storeTables_def statesKept_def attempt_path.stay)
      qed
    qed (simp add: runStore_def committed_def Run_states tables attempt_path.stay)
  qed
qed

lemma runStores_tables:
  "storeTables env db \<Longrightarrow> storeTables env (runStores env cs db)
    \<and> attempt_path env (quoteView env db pid) (quoteView env (runStores env cs db) pid)
    \<and> statesKept env db (runStores env cs db)"
proof (induction cs arbitrary: db)
  case (Cons c cs)
  from runStore_tables [OF Cons.prems, of c pid] Cons.IH [of "runStore env c db"] show ?case
    by (auto intro: attempt_path_trans statesKept_trans)
qed (simp add: attempt_path.stay)

end
