(* ===== verification/Quote_Properties.thy ===== *)
theory Quote_Properties
  imports Store_Runs Example
begin

text \<open>
  The properties of the quote repository, alone and in runs that mix the commands of all seven
  repositories of \<open>Store_Runs\<close> on one database.
\<close>

section \<open>One command\<close>

text \<open>
  C30 (refinement): the quote tables implement a map from payments to attempts.  A command that
  succeeds either replays, and then the database is unchanged and the answer is the stored attempt,
  or it changes the attempt of its payment alone, to the attempt it returns, along a step of the
  attempt: begun, answer lost, quoted, seen again.  Every attempt stays readable.
\<close>

theorem quote_command_refines:
  assumes "quoteTables env db" and "runQuote env c db = Inr (db', res)"
  shows "if atr_replayed res
    then db' = db \<and> quoteView env db (mat_paymentId (atr_attempt res)) = Some (atr_attempt res)
    else quoteTables env db'
      \<and> quoteView env db' = (quoteView env db)(quotePayment c \<mapsto> atr_attempt res)
      \<and> attempt_step env c (quoteView env db (quotePayment c)) (atr_attempt res)"
  using runQuote_outcome [OF assms] by (simp add: quoteOutcome_def)

section \<open>Runs\<close>

text \<open>How the body of an attempt may differ later.\<close>

fun bodyGrows :: "attempt_body \<Rightarrow> attempt_body \<Rightarrow> bool" where
  "bodyGrows Attempt_creating body = True"
| "bodyGrows (Attempt_ambiguous reason t) body = (body = Attempt_ambiguous reason t)"
| "bodyGrows (Attempt_quoted latest qs) body =
     (\<exists>later more. body = Attempt_quoted later (qs @ more) \<and> sameQuote latest later
        \<and> mq_observedAt latest \<le> mq_observedAt later
        \<and> (mq_state latest = Quote_paid \<longrightarrow> mq_state later = Quote_paid))"

lemma sameQuote_refl: "sameQuote q q"
  by (simp add: sameQuote_def)

lemma sameQuote_trans: "sameQuote p q \<Longrightarrow> sameQuote q r \<Longrightarrow> sameQuote p r"
  by (cases p; cases q; cases r) (simp add: sameQuote_def)

lemma attempt_body_id: "m\<lparr>mat_body := mat_body m\<rparr> = m"
  by simp

lemma bodyGrows_refl: "bodyGrows b b"
  by (cases b) (auto simp: sameQuote_refl)

lemma bodyGrows_step:
  assumes "attempt_step env c (Some n) n'" and "bodyGrows b (mat_body n)"
  shows "bodyGrows b (mat_body n') \<and> n' = n\<lparr>mat_body := mat_body n'\<rparr>"
  using assms
proof (cases rule: attempt_step.cases)
  case (observed latest qs i q)
  with assms(2) show ?thesis
    by (cases b) (auto intro: sameQuote_trans)
qed (use assms(2) in \<open>cases b; simp\<close>)+

lemma attempt_path_body:
  assumes "attempt_path env before after" and "before = Some m"
  shows "\<exists>n. after = Some n \<and> n = m\<lparr>mat_body := mat_body n\<rparr> \<and> bodyGrows (mat_body m) (mat_body n)"
  using assms
proof (induction rule: attempt_path.induct)
  case (move k n c n')
  then obtain x where x: "n = Some x" "x = m\<lparr>mat_body := mat_body x\<rparr>" "bodyGrows (mat_body m) (mat_body x)"
    by blast
  have step: "bodyGrows (mat_body m) (mat_body n')" "n' = x\<lparr>mat_body := mat_body n'\<rparr>"
    using bodyGrows_step [of env c x n'] move.hyps(2) x by blast+
  have "n' = m\<lparr>mat_body := mat_body n'\<rparr>" by (subst step(2), subst x(2)) simp
  with step(1) show ?case by blast
qed (auto simp: bodyGrows_refl)

text \<open>
  C31 (invariant): whatever commands the repositories of invoices, keysets, quotes, proof states,
  reservations, lifecycles and recovery jobs run, failed ones included, an attempt keeps its terms; a lost answer stays lost; and once quoted the attempt keeps that quote
  and its fee and expiry, its observations only grow at their end, and a quote seen paid stays paid.
\<close>

theorem quote_history_kept:
  assumes "storeTables env db" and "quoteView env db pid = Some m"
  shows "\<exists>n. quoteView env (runStores env cs db) pid = Some n \<and> n = m\<lparr>mat_body := mat_body n\<rparr>
    \<and> bodyGrows (mat_body m) (mat_body n)"
  using runStores_tables [OF assms(1), of cs pid] attempt_path_body [OF _ assms(2)] by blast

lemma mapAttempt_outcome:
  assumes "mapAttempt env db row = Inr m" and "mat_body m = Attempt_quoted latest qs"
  obtains out where "out \<in> set (db_quoteOutcomes db)" "qo_attempt_id out = qa_attempt_id row"
    "qo_outcome_kind out = ''quoted''" "qo_mint_url out = mat_mintUrl m"
    "qo_quote_id out = Some (mq_quoteId latest)"
proof (cases "findOutcome db (qa_attempt_id row)")
  case None
  have False by (rule mapAttempt_creating [OF assms(1) None]) (use assms(2) in simp)
  then show thesis ..
next
  case (Some out)
  from mapAttempt_base [OF assms(1)] obtain a where
    a: "mapAttemptBase env row = Inr a" "qa_attempt_id row = qat_attemptId a" .
  then have kinds: "qo_outcome_kind out = ''ambiguous'' \<or> qo_outcome_kind out = ''quoted''"
      and mint: "qo_mint_url out = qat_mintUrl a"
    using assms(1) Some by (auto simp: mapAttempt_def Let_def split: if_splits)
  have "qo_outcome_kind out \<noteq> ''ambiguous''"
  proof
    assume "qo_outcome_kind out = ''ambiguous''"
    then show False by (rule mapAttempt_ambiguous [OF assms(1) Some]) (use assms(2) in simp)
  qed
  with kinds have kind: "qo_outcome_kind out = ''quoted''" by blast
  from mapAttempt_quoted [OF assms(1) Some kind] obtain a' expiry fee qs' latest' where
    parts: "mapAttemptBase env row = Inr a'"
      "mapR (mapCashuStellarMeltQuoteObservationRecord env a' out expiry fee)
         (sort_key qb_observed_at (observationsOf db (qa_attempt_id row))) = Inr qs'"
      "atLast qs' = Some latest'" "m = publicAttemptBase a' (Attempt_quoted latest' qs')" .
  have "latest' \<in> set qs'" using parts(3) by (rule atLast_in_set)
  from mapR_Inr_set [OF parts(2) this] have "qo_quote_id out = Some (mq_quoteId latest')"
    using observationRecord_fields by fastforce
  moreover have "out \<in> set (db_quoteOutcomes db)" "qo_attempt_id out = qa_attempt_id row"
    using findFirst_Some [OF Some [unfolded findOutcome_def]] by blast+
  moreover have "latest = latest'" "mat_mintUrl m = qat_mintUrl a"
    using assms(2) parts(1,4) a(1) by simp_all
  ultimately show thesis using that kind mint by simp
qed

text \<open>
  C32 (safety): along any run of these seven repositories, a quote of a mint is bound to one payment: two payments whose
  attempts hold the same quote of the same mint are the same payment.
\<close>

theorem quote_bound_once:
  assumes "storeTables env db" and "later = runStores env cs db"
    and "quoteView env later p = Some m" "mat_body m = Attempt_quoted latest qs"
    and "quoteView env later p' = Some m'" "mat_body m' = Attempt_quoted latest' qs'"
    and "mat_mintUrl m = mat_mintUrl m'" "mq_quoteId latest = mq_quoteId latest'"
  shows "p = p'"
proof -
  have tables: "quoteTables env later"
    using runStores_tables [OF assms(1)] assms(2) by (simp add: storeTables_def)
  have found: "\<exists>row out. row \<in> set (db_quoteAttempts later) \<and> qa_payment_id row = x
      \<and> out \<in> set (filter (\<lambda>out. qo_outcome_kind out = ''quoted'') (db_quoteOutcomes later))
      \<and> qo_attempt_id out = qa_attempt_id row \<and> qo_mint_url out = mat_mintUrl n
      \<and> qo_quote_id out = Some (mq_quoteId q)"
    if view: "quoteView env later x = Some n" and body: "mat_body n = Attempt_quoted q os" for x n q os
  proof -
    from view obtain row where "findFirst (\<lambda>a. qa_payment_id a = x) (db_quoteAttempts later) = Some row"
        and read: "mapAttempt env later row = Inr n"
      by (auto simp: quoteView_def split: option.splits sum.splits)
    then have "row \<in> set (db_quoteAttempts later)" "qa_payment_id row = x" using findFirst_Some by fastforce+
    moreover from mapAttempt_outcome [OF read body] obtain out where
      "out \<in> set (db_quoteOutcomes later)" "qo_attempt_id out = qa_attempt_id row"
      "qo_outcome_kind out = ''quoted''" "qo_mint_url out = mat_mintUrl n"
      "qo_quote_id out = Some (mq_quoteId q)" .
    ultimately show ?thesis by (intro exI [of _ row] exI [of _ out]) simp
  qed
  from found [OF assms(3,4)] obtain row out where r: "row \<in> set (db_quoteAttempts later)"
      "qa_payment_id row = p" "qo_attempt_id out = qa_attempt_id row"
      "out \<in> set (filter (\<lambda>out. qo_outcome_kind out = ''quoted'') (db_quoteOutcomes later))"
      "(qo_mint_url out, qo_quote_id out) = (mat_mintUrl m, Some (mq_quoteId latest))" by blast
  from found [OF assms(5,6)] obtain row' out' where r': "row' \<in> set (db_quoteAttempts later)"
      "qa_payment_id row' = p'" "qo_attempt_id out' = qa_attempt_id row'"
      "out' \<in> set (filter (\<lambda>out. qo_outcome_kind out = ''quoted'') (db_quoteOutcomes later))"
      "(qo_mint_url out', qo_quote_id out') = (mat_mintUrl m', Some (mq_quoteId latest'))" by blast
  have inj: "inj_on (\<lambda>out. (qo_mint_url out, qo_quote_id out))
        (set (filter (\<lambda>out. qo_outcome_kind out = ''quoted'') (db_quoteOutcomes later)))"
      "inj_on qa_attempt_id (set (db_quoteAttempts later))"
    using tables by (simp_all add: quoteTables_def distinct_map del: set_filter)
  have "out = out'" by (rule inj_onD [OF inj(1) _ r(4) r'(4)]) (use r(5) r'(5) assms(7,8) in simp)
  then have "row = row'" using inj_onD [OF inj(2) _ r(1) r'(1)] r(3) r'(3) by simp
  with r(2) r'(2) show ?thesis by simp
qed

section \<open>Witnesses\<close>

text \<open>The quote of the example is seen paid at 60.\<close>

definition exSeen :: quote_attempt_input where
  "exSeen = \<lparr>qti_attemptId = ''a1'', qti_paymentId = ''p1'',
     qti_quote = \<lparr>mq_amount = 100, mq_expiry = 90, mq_feeReserve = 1, mq_method = ''stellar'',
       mq_mintUrl = ''https:m'', mq_observedAt = 60, mq_quoteId = exQuoteId,
       mq_request = ''web+pay'', mq_schemaVersion = 1, mq_state = Quote_paid, mq_unit = ''usdc''\<rparr>\<rparr>"

definition exFirst :: melt_quote where
  "exFirst = (qti_quote exSeen)\<lparr>mq_observedAt := 30, mq_state := Quote_unpaid\<rparr>"

definition exQuotedAttempt :: "melt_quote \<Rightarrow> melt_quote list \<Rightarrow> melt_attempt" where
  "exQuotedAttempt latest qs = \<lparr>mat_attemptId = ''a1'', mat_invoiceId = ''i1'', mat_mintUrl = ''https:m'',
     mat_operatorId = ''o1'', mat_paymentId = ''p1'', mat_request = \<lparr>qr_amount = 100, qr_method = ''stellar'', qr_request = ''web+pay'', qr_unit = ''usdc''\<rparr>,
     mat_schemaVersion = 1, mat_startedAt = 25, mat_body = Attempt_quoted latest qs\<rparr>"

definition exSeenDb :: db where
  "exSeenDb = exDb\<lparr>db_quoteObservations :=
     [exObservation 30 ''UNPAID'' ''a190rm3111y0Dc'', exObservation 60 ''PAID'' ''a190rm6111y0Dc'']\<rparr>"

lemma exAttempt_read: "mapAttempt exEnv exDb exAttempt = Inr (exQuotedAttempt exFirst [exFirst])"
  by code_simp

lemma exSeen_result: "observe exEnv exSeen exDb = Inr (exSeenDb,
    \<lparr>atr_attempt = exQuotedAttempt (qti_quote exSeen) [exFirst, qti_quote exSeen], atr_replayed = False\<rparr>)"
  by code_simp

lemma exDb_tables: "storeTables exEnv exDb"
proof -
  have "reservationTables exDb"
    by (simp add: reservationTables_def exDb_def paymentsOf_def exReservation_def exProof_def claimOf_def)
  moreover have "isOk (mapAttempt exEnv exDb exAttempt)" by (simp add: exAttempt_read)
  then have "quoteTables exEnv exDb"
    by (simp add: quoteTables_def) (simp add: exDb_def exAttempt_def exOutcome_def exObservation_def)
  moreover have "statesTables exEnv exDb"
    by (simp add: statesTables_def spentFinal_def statesOf_def) (simp add: exDb_def)
  ultimately show ?thesis by (simp add: storeTables_def)
qed

theorem quote_command_refines_witness:
  "\<exists>after. after = exSeenDb \<and> quoteTables exEnv after
     \<and> attempt_step exEnv (Observe_quote exSeen) (quoteView exEnv exDb ''p1'')
         (exQuotedAttempt (qti_quote exSeen) [exFirst, qti_quote exSeen])"
proof -
  have "runQuote exEnv (Observe_quote exSeen) exDb = Inr (exSeenDb,
      \<lparr>atr_attempt = exQuotedAttempt (qti_quote exSeen) [exFirst, qti_quote exSeen], atr_replayed = False\<rparr>)"
    by (simp add: runQuote_def exSeen_result)
  from quote_command_refines [OF _ this] exDb_tables show ?thesis
    by (simp add: storeTables_def quotePayment_def exSeen_def)
qed

lemma exDb_view: "quoteView exEnv exDb ''p1'' = Some (exQuotedAttempt exFirst [exFirst])"
  using exAttempt_read by (simp add: quoteView_def) (simp add: exDb_def exAttempt_def)

theorem quote_history_kept_witness:
  "\<exists>n. quoteView exEnv (runStores exEnv [Run_quote (Observe_quote exSeen)] exDb) ''p1'' = Some n
     \<and> bodyGrows (Attempt_quoted exFirst [exFirst]) (mat_body n)"
  using quote_history_kept [OF exDb_tables exDb_view, of "[Run_quote (Observe_quote exSeen)]"]
  by (auto simp: exQuotedAttempt_def)

theorem quote_bound_once_witness:
  "\<exists>p. p = ''p1'' \<and> quoteView exEnv (runStores exEnv [] exDb) p = Some (exQuotedAttempt exFirst [exFirst])"
proof -
  have "runStores exEnv [] exDb = exDb" by simp
  then show ?thesis
    using quote_bound_once [OF exDb_tables refl, of "[]" "''p1''" "exQuotedAttempt exFirst [exFirst]" exFirst
        "[exFirst]" "''p1''" "exQuotedAttempt exFirst [exFirst]" exFirst "[exFirst]"] exDb_view
    by (simp add: exQuotedAttempt_def)
qed

end
