(* ===== verification/States_Properties.thy ===== *)
theory States_Properties
  imports Quote_Properties Lifecycle_Properties
begin

text \<open>
  The properties of the proof-state repository, alone and in runs that mix the commands of all seven
  repositories of \<open>Store_Runs\<close> on one database.
\<close>

section \<open>One observation\<close>

text \<open>
  C33 (refinement): storing a valid observation has exactly the outcome of the abstract history of its
  payment, and no constraint of the tables ever interferes.  It is refused without a reservation, out
  of its scope, before it, for other proofs, against a different snapshot of the same time, once the
  payment is concluded, or when a proof would be spent first and not spent later; the same snapshot
  replays; and any other becomes the snapshot of its time.  The digest must tell the observations at
  hand apart.
\<close>

theorem proof_states_outcome:
  assumes tables: "statesTables env db" and valid: "validateStates env input = Inr v"
    and load: "loadReservationEvidence env db (poi_paymentId v) = Inr found"
    and inj: "inj_on (env_sha256 env) (statesAtHand env db v)"
  shows "case observeStates found (terminalState (latestState db (poi_paymentId v)))
            (statesView env db (poi_paymentId v)) v of
       Inl e \<Rightarrow> persistStates env input db = Inl e
     | Inr True \<Rightarrow> persistStates env input db
         = Inr (db, \<lparr>por_replayed = True, por_snapshot = poi_snapshot v\<rparr>)
     | Inr False \<Rightarrow> (\<exists>db'. persistStates env input db
         = Inr (db', \<lparr>por_replayed = False, por_snapshot = poi_snapshot v\<rparr>) \<and> statesTables env db'
         \<and> statesView env db' = (statesView env db)(poi_paymentId v :=
             (statesView env db (poi_paymentId v))(pss_observedAt (poi_snapshot v) \<mapsto> poi_snapshot v)))"
proof (cases "observeStates found (terminalState (latestState db (poi_paymentId v)))
    (statesView env db (poi_paymentId v)) v")
  case (Inl e)
  with persistStates_exact [OF assms] show ?thesis by simp
next
  case (Inr replayed)
  show ?thesis
  proof (cases replayed)
    case True
    with persistStates_exact [OF assms] Inr show ?thesis by simp
  next
    case False
    with persistStates_exact [OF assms] Inr have added: "persistStates env input db
        = Inr (statesAdded env v db, \<lparr>por_replayed = False, por_snapshot = poi_snapshot v\<rparr>)" by simp
    then obtain ev where "statesFresh env db ev v"
      using persistStates_cases [OF added tables] valid by auto
    with added Inr False statesAdded_tables [OF tables] statesAdded_view [OF tables] show ?thesis by simp
  qed
qed

section \<open>Runs\<close>

text \<open>
  C34 (safety): whatever commands the repositories of invoices, keysets, quotes, proof states,
  reservations, lifecycles and recovery jobs run, failed ones included, a stored observation stays as
  it is, and a proof it saw spent is spent in every observation of a later time, stored before or after.
\<close>

theorem spent_is_final:
  assumes "storeTables env db" and "statesView env db pid t = Some s"
    and "later = runStores env cs db" and "statesView env later pid t' = Some s'" and "t < t'"
  shows "statesView env later pid t = Some s \<and> spentYs s \<subseteq> spentYs s'"
proof -
  have tables: "statesTables env later" and kept: "statesView env later pid t = Some s"
    using runStores_tables [OF assms(1), of cs] assms(2,3) by (simp_all add: storeTables_def statesKept_def)
  obtain ev where "loadReservationEvidence env later pid = Inr (Some ev)" by (rule view_loaded [OF tables kept])
  from spentFinal_view [OF tables kept assms(4,5) this] kept show ?thesis by blast
qed

text \<open>The observation a payment was accepted on shows its proofs spent.\<close>

lemma accepted_snapshot:
  assumes "acceptPayment env input db = Inr (db', a)" and "\<not> ch_replayed (an_change a)"
    and tables: "statesTables env db"
  obtains s where "statesView env db (ei_paymentId input) (ci_proofStateObservedAt input) = Some s" "allSpent s"
proof -
  let ?pid = "ei_paymentId input" and ?t = "ci_proofStateObservedAt input"
  from acceptance_facts [OF assms(1,2)] obtain scope f where
    "sc_paymentId scope = ?pid" "resolveProofStateEvidence env db scope ?t ''SPENT'' = Inr f" by blast
  with resolveProofState_all obtain x where x: "x \<in> set (db_proofObservations db)" "px_payment_id x = ?pid"
      "px_observed_at x = ?t" "allProofs db ?pid ''SPENT'' (px_snapshot_fingerprint x)"
    by metis
  obtain s where s: "mapStates env db x = Inr s"
    using tables x(1) by (auto simp: statesTables_def isOk_iff)
  have shown: "shownStates s = storedStates db (px_snapshot_fingerprint x)"
    by (rule mapStates_parts [OF s]) blast
  have "pse_state st = Proof_spent" if "st \<in> set (pss_states s)" for st
  proof -
    have "(pse_y st, showProofStateValue (pse_state st)) \<in> storedStates db (px_snapshot_fingerprint x)"
      using that unfolding shown [symmetric] by (auto simp: shownStates_def)
    then have "showProofStateValue (pse_state st) = ''SPENT''"
      using x(4) by (auto simp: allProofs_def storedStates_def)
    then show ?thesis by (cases "pse_state st") auto
  qed
  then have "allSpent s" by (simp add: allSpent_def)
  moreover have "statesView env db ?pid ?t = Some s"
    using statesView_Some [OF tables] x(1-3) s by blast
  ultimately show thesis using that by blast
qed

text \<open>
  C35 (safety): once a payment has been accepted, every observation of its proofs at or after the one
  it was accepted on shows them all spent, whatever the seven repositories of
  \<open>Store_Runs\<close> run later.
\<close>

theorem accepted_proofs_stay_spent:
  assumes "storeTables env db" and "acceptPayment env input db = Inr (db', a)"
    and "\<not> ch_replayed (an_change a)" and "later = runStores env cs db'"
    and "statesView env later (ei_paymentId input) t = Some s" and "ci_proofStateObservedAt input \<le> t"
  shows "allSpent s"
proof -
  have "runStore env (Run_payment (Run_lifecycle (Accept_payment input))) db = db'"
    by (simp add: runStore_def runPayment_def runCommand_def assms(2))
  then have all: "later = runStores env (Run_payment (Run_lifecycle (Accept_payment input)) # cs) db"
    by (simp add: assms(4))
  have before: "statesTables env db" and tables: "statesTables env later" and kept: "statesKept env db later"
    using runStores_tables [OF assms(1)] assms(1) unfolding all
    by (simp_all add: storeTables_def del: runStores.simps)
  obtain s0 where "statesView env db (ei_paymentId input) (ci_proofStateObservedAt input) = Some s0" "allSpent s0"
    by (rule accepted_snapshot [OF assms(2,3) before])
  then have "statesView env later (ei_paymentId input) (ci_proofStateObservedAt input) = Some s0" "allSpent s0"
    using kept by (simp_all add: statesKept_def)
  from allSpent_later [OF tables this assms(5,6)] show ?thesis .
qed

section \<open>Reading\<close>

text \<open>
  C36 (functional): along any run of these repositories, the read within the scope of a reservation finds the newest
  observation of a window of time, exactly as it was stored, and finds none only where there is none.
\<close>

theorem latest_states_found:
  assumes "storeTables env db" and "later = runStores env cs db"
    and "loadReservationEvidence env later pid = Inr (Some ev)"
    and "validTimestamp a" "validTimestamp b" "a \<le> b"
  shows "\<exists>r. findLatestStates env later \<lparr>pq_mintUrl = re_mintUrl ev, pq_observedAtOrAfter = a,
        pq_observedAtOrBefore = b, pq_operatorId = re_operatorId ev, pq_paymentId = pid,
        pq_unit = re_unit ev\<rparr> = Inr r
    \<and> (case r of
         None \<Rightarrow> \<forall>t. a \<le> t \<and> t \<le> b \<longrightarrow> statesView env later pid t = None
       | Some s \<Rightarrow> a \<le> pss_observedAt s \<and> pss_observedAt s \<le> b
           \<and> statesView env later pid (pss_observedAt s) = Some s
           \<and> (\<forall>t. pss_observedAt s < t \<and> t \<le> b \<longrightarrow> statesView env later pid t = None))"
proof -
  have "statesTables env later" using runStores_tables [OF assms(1)] assms(2) by (simp add: storeTables_def)
  from findLatestStates_newest [OF this assms(3-6)] show ?thesis .
qed

section \<open>Witnesses\<close>

text \<open>An observation of the reserved proof of the example.\<close>

definition exStates :: "int \<Rightarrow> proof_state_value \<Rightarrow> proof_state_snapshot" where
  "exStates t w = \<lparr>pss_mintUrl = ''https:m'', pss_observedAt = t, pss_schemaVersion = 1,
     pss_states = [\<lparr>pse_state = w, pse_y = exY\<rparr>]\<rparr>"

definition exProofsSeen :: "int \<Rightarrow> proof_state_value \<Rightarrow> persist_observation_input" where
  "exProofsSeen t w = \<lparr>poi_operatorId = ''o1'', poi_paymentId = ''p1'', poi_snapshot = exStates t w,
     poi_unit = ''usdc''\<rparr>"

lemma exStates_read: "mapStates exEnv exDb2 (exSnapshot 65 ''m6110c'') = Inr (exStates 65 Proof_spent)"
  by code_simp

lemma exProofsSeen_valid: "validateStates exEnv (exProofsSeen 70 Proof_spent) = Inr (exProofsSeen 70 Proof_spent)"
  by code_simp

lemma exProofsSeen_later: "statesView exEnv (runStores exEnv [Run_states (exProofsSeen 70 Proof_spent)] exDb2) ''p1'' 70
   = Some (exStates 70 Proof_spent)"
  by code_simp

lemma exProofsSeen_load: "loadReservationEvidence exEnv exDb ''p1'' = Inr (Some \<lparr>re_mintUrl = ''https:m'',
   re_operatorId = ''o1'', re_paymentId = ''p1'', re_proofYs = [exY], re_reservedAt = 20, re_unit = ''usdc''\<rparr>)"
  by code_simp

lemma exDb2_states: "statesTables exEnv exDb2"
proof -
  have "isOk (mapStates exEnv exDb2 (exSnapshot 65 ''m6110c''))" by (simp add: exStates_read)
  then show ?thesis
    by (simp add: statesTables_def spentFinal_def statesOf_def)
      (simp add: exDb2_def exDb1_def exDb_def exSnapshot_def exEntry_def proofEntriesOf_def)
qed

lemma exDb2_view: "statesView exEnv exDb2 ''p1'' 65 = Some (exStates 65 Proof_spent)"
  unfolding statesView_Some [OF exDb2_states] using exStates_read
  by (intro bexI [of _ "exSnapshot 65 ''m6110c''"]) (simp_all add: exDb2_def exSnapshot_def)

lemma exDb2_tables: "storeTables exEnv exDb2"
proof -
  have "reservationTables exDb2"
    by (simp add: reservationTables_def exDb2_def exDb1_def exDb_def paymentsOf_def exReservation_def
        exProof_def claimOf_def exDispatched_def exEffect_def)
  moreover have "isOk (mapAttempt exEnv exDb2 exAttempt)" by code_simp
  then have "quoteTables exEnv exDb2"
    by (simp add: quoteTables_def)
      (simp add: exDb2_def exDb1_def exDb_def exAttempt_def exOutcome_def exObservation_def)
  ultimately show ?thesis using exDb2_states by (simp add: storeTables_def)
qed

theorem proof_states_outcome_witness:
  "\<exists>db'. persistStates exEnv (exProofsSeen 70 Proof_spent) exDb
      = Inr (db', \<lparr>por_replayed = False, por_snapshot = exStates 70 Proof_spent\<rparr>)
     \<and> statesView exEnv db' ''p1'' 70 = Some (exStates 70 Proof_spent)"
proof -
  let ?v = "exProofsSeen 70 Proof_spent"
  let ?found = "Some \<lparr>re_mintUrl = ''https:m'', re_operatorId = ''o1'', re_paymentId = ''p1'', re_proofYs = [exY],
      re_reservedAt = 20, re_unit = ''usdc''\<rparr>"
  have load: "loadReservationEvidence exEnv exDb (poi_paymentId ?v) = Inr ?found"
    using exProofsSeen_load by (simp add: exProofsSeen_def)
  have seen: "observeStates ?found False Map.empty ?v = Inr False"
    by (simp add: observeStates_def exProofsSeen_def exStates_def contradicts_def)
  have tables: "statesTables exEnv exDb" using exDb_tables by (simp add: storeTables_def)
  have "statesAtHand exEnv exDb ?v = {statesJson ?v}" by (simp add: statesAtHand_def exDb_def)
  then have inj: "inj_on (env_sha256 exEnv) (statesAtHand exEnv exDb ?v)" by simp
  have "statesView exEnv exDb (poi_paymentId ?v) = Map.empty"
    by (rule ext) (simp add: statesView_def findStatesAt_def, simp add: exDb_def)
  moreover have "\<not> terminalState (latestState exDb (poi_paymentId ?v))" by code_simp
  ultimately show ?thesis
    using proof_states_outcome [OF tables exProofsSeen_valid load inj] seen
    by (auto simp: exProofsSeen_def exStates_def)
qed

theorem spent_is_final_witness:
  "\<exists>s. s = exStates 70 Proof_spent \<and> spentYs (exStates 65 Proof_spent) \<subseteq> spentYs s"
  using spent_is_final [OF exDb2_tables exDb2_view refl exProofsSeen_later] by simp

theorem accepted_proofs_stay_spent_witness:
  "\<exists>s. statesView exEnv exDb4 ''p1'' 65 = Some s \<and> allSpent s"
proof -
  have fresh: "\<not> ch_replayed (an_change exAccepted)" by (simp add: exAccepted_def exChange_def)
  have "runStores exEnv [Run_payment (Run_lifecycle (Accept_payment exAcceptance))] exDb2 = exDb4"
    by (simp add: runStore_def runPayment_def runCommand_def exAcceptance_result)
  then have "statesKept exEnv exDb2 exDb4"
    using runStores_tables [OF exDb2_tables] by metis
  then have "statesView exEnv exDb4 ''p1'' 65 = Some (exStates 65 Proof_spent)"
    using exDb2_view by (simp add: statesKept_def)
  with accepted_proofs_stay_spent [OF exDb2_tables exAcceptance_result fresh, of exDb4 "[]" 65]
  show ?thesis by (simp add: exAcceptance_def)
qed

theorem latest_states_found_witness:
  "\<exists>r s. r = Some s \<and> pss_observedAt s = 65 \<and> statesView exEnv exDb2 ''p1'' 65 = r"
proof -
  obtain ev where load: "loadReservationEvidence exEnv (runStores exEnv [] exDb2) ''p1'' = Inr (Some ev)"
    using view_loaded [OF exDb2_states exDb2_view] by auto
  have "validTimestamp 60" "validTimestamp 65" "(60 :: int) \<le> 65" by code_simp+
  from latest_states_found [OF exDb2_tables refl load this] obtain r where
    r: "case r of None \<Rightarrow> \<forall>t. 60 \<le> t \<and> t \<le> 65 \<longrightarrow> statesView exEnv exDb2 ''p1'' t = None
       | Some s \<Rightarrow> 60 \<le> pss_observedAt s \<and> pss_observedAt s \<le> 65
           \<and> statesView exEnv exDb2 ''p1'' (pss_observedAt s) = Some s
           \<and> (\<forall>t. pss_observedAt s < t \<and> t \<le> 65 \<longrightarrow> statesView exEnv exDb2 ''p1'' t = None)"
    unfolding runStores.simps by blast
  show ?thesis
  proof (cases r)
    case None
    with r exDb2_view show ?thesis by auto
  next
    case (Some s)
    with r exDb2_view have "\<not> pss_observedAt s < 65" by auto
    with r Some show ?thesis by auto
  qed
qed

end
