(* ===== verification/Spec2Isabelle.thy ===== *)
theory Spec2Isabelle
  imports Lifecycle_Runs Issuance_Example Recovery_Properties Worker_Properties Dispatch_Store
    Reservation_Properties Quote_Properties States_Properties
begin

text \<open>
  A verification library for CashMesh, a Cashu acquirer: it issues invoices to merchants, reserves
  the ecash proofs a customer pays with, has the operator (a Cashu mint) melt them into a Stellar
  payment, and books the payment only on evidence.

  \<^bold>\<open>The program and the theories.\<close>  \<open>packages/domain\<close> is pure: \<open>Identifiers\<close> (identifiers.ts,
  operator-policy.ts, money.ts), \<open>Ledger\<close> (ledger.ts) and \<open>Invoice\<close> (invoice.ts).
  \<open>packages/cashu\<close> holds the protocol values: \<open>Cashu_Base\<close> (mint-url.ts, proof-reference.ts),
  \<open>Proof_State\<close> (proof-state.ts), \<open>Melt_Quote\<close> (stellar-melt-quote.ts), \<open>Payment_Request\<close>
  (payment-request.ts) and \<open>Keyset_Snapshot\<close> (keyset-snapshot.ts); \<open>Operator_Clients\<close> has the clients
  that talk to an operator (stellar-melt-quote-client.ts, stellar-melt-execution-client.ts).
  \<open>services/acquirer-api\<close> keeps the state in PostgreSQL: \<open>Database\<close> holds
  one record per table, \<open>Schema\<close> the check constraints, keys and immediate triggers of
  postgres-schema.ts, \<open>Commit\<close> its deferred constraint triggers and the transaction;
  \<open>Invoice_Store\<close> is postgres-invoice-repository.ts, \<open>Quote_Record\<close> is
  cashu-stellar-melt-quote-record.ts, and \<open>Lifecycle\<close>, \<open>Lifecycle_Store\<close> and
  \<open>Lifecycle_Operations\<close> are (postgres-)cashu-proof-reservation-lifecycle-repository.ts.
  \<open>Keyset_Store\<close> and \<open>Reservation_Store\<close> are postgres-cashu-keyset-repository.ts and
  postgres-cashu-proof-reservation-repository.ts: the keysets of a mint are observed, and the
  proofs of a payment are reserved under them.  \<open>Quote_Store\<close> is
  postgres-cashu-stellar-melt-quote-repository.ts: the attempts to get a melt quote for a reserved
  payment, and what was seen of the quote since.  \<open>States_Store\<close> is
  postgres-cashu-proof-state-repository.ts: what the mint said, and when, of the reserved proofs.
  \<open>Melt_Coordinator\<close> is
  cashu-stellar-melt-coordinator.ts, which starts the operator effect of a reserved payment, sends
  the melt and records the answer; \<open>Local_State\<close> has the local variables its callbacks assign.  A
  melt that was dispatched is recovered by three parts: \<open>Recovery_Job\<close> and \<open>Recovery_Store\<close> are the queue
  of jobs, (postgres-)cashu-stellar-melt-recovery-job-repository.ts; \<open>Recovery_Worker\<close> is
  cashu-stellar-melt-recovery-worker.ts, which leases a job and hands it to
  \<open>Recovery_Coordinator\<close> and \<open>Recovery_Recover\<close>, cashu-stellar-melt-recovery-coordinator.ts, which
  asks the operator and calls the lifecycle repository.  \<open>Interfaces\<close> holds the records the
  repositories exchange.

  \<^bold>\<open>Conventions.\<close>  A JavaScript number that the code has checked with \<open>isSafeInteger\<close> is an \<open>int\<close>
  with the check written out; a string is a list of characters (the code's patterns admit ASCII
  only, where it matters).  An exception is \<open>Inl\<close> of an error that keeps the code's error code.
  The platform and the Cashu library are the record \<open>cashu_env\<close>: URL parsing, point decoding,
  keyset verification, request encoding and SHA-256 of canonical JSON, which the theorems leave
  arbitrary.  A transaction is a function of the database; an error returns no database, which is
  the rollback.  Statements run one transaction at a time, as the row locks the code takes on the
  reservation make them.  Format checks that repeat the repository's own validation of a column
  are not repeated in \<open>Schema\<close>; nor are those on the idempotency key and the request fingerprint of
  an issuance, which its caller checks and computes, so \<open>createOpenInvoice\<close> here accepts more.

  The workers and coordinators call the outside world; \<open>Effects\<close> has their actions, functions of a
  world that is a parameter, with a log of the calls that matter.  Their dependencies are records of
  functions, left arbitrary: a property of a coordinator holds for every behaviour of the operator
  and of the repositories.  Abort signals and timers are part of what the world answers.

  \<^bold>\<open>What is proved.\<close>  \<open>Lifecycle_Facts\<close>, \<open>Lifecycle_Transitions\<close> and \<open>Lifecycle_Commands\<close> lift the
  operations to one statement per command; \<open>Lifecycle_Properties\<close> states that every writing
  command refines the reservation machine of \<open>Lifecycle\<close>, that acceptance and release rest on stored
  evidence, and that claims are held until release; \<open>Lifecycle_Runs\<close> carries this to sequences of
  commands.  \<open>Invoice_Store\<close> proves the round trip and the idempotency of issuance; \<open>Ledger\<close> and
  \<open>Invoice\<close> the accounting.  \<open>Recovery_Facts\<close> has the invariant of the job tables, a history of
  leases per payment, and \<open>Recovery_Properties\<close> what follows for claims and outcomes.
  \<open>Recovery_Evidence\<close> describes the log of one recovery, \<open>Recovery_Results\<close> draws from it that
  payments are booked and reservations released only on complete evidence, and that a result is what
  the last write answered or what the run read last from the store.  \<open>Worker_Facts\<close> states
  the contract between worker and job repository as the locale \<open>recovery_jobs\<close>, interpreted on the
  PostgreSQL model, and \<open>Worker_Properties\<close> what a worker records.
  \<open>Dispatch_Facts\<close> describes the log of one dispatch, \<open>Dispatch_Properties\<close> draws from it that a melt
  is sent at most once and only on a fresh effect, and \<open>Dispatch_Store\<close> carries this to any sequence
  of dispatches over the PostgreSQL lifecycle repository.  \<open>Keyset_Facts\<close> has the invariant of the
  keyset tables and the round trip of an observation; \<open>Reservation_Facts\<close>, \<open>Reservation_Runs\<close> and
  \<open>Reservation_Outcome\<close> the invariant of reservations, proofs and claims along runs that mix
  reservations and lifecycle commands, and the exact outcome of a reservation;
  \<open>Reservation_Properties\<close> states what follows.  \<open>Quote_Facts\<close> reads the quote tables as a map from
  payments to attempts and shows that every command of \<open>Quote_Store\<close> moves one attempt along one
  step.  \<open>States_Facts\<close> reads the proof-state tables as a history of snapshots per payment and
  \<open>States_Outcome\<close> shows the exact outcome of storing an observation.  \<open>Store_Runs\<close> runs the
  writing methods of the seven repositories above (invoices, keysets, quotes, proof states,
  reservations, lifecycles, recovery jobs) on one database and shows that the quotes and the
  observations change by their own commands only; \<open>Quote_Properties\<close> and \<open>States_Properties\<close> state
  what follows.  \<open>Example\<close>, \<open>Issuance_Example\<close> and the example
  sections hold concrete deployments on which the properties are instantiated.

  \<^bold>\<open>Not modelled.\<close>  The PostgreSQL repository of bearer-proof custody; the
  constructors of bearer bundles and payment payloads and the observers; the HTTP routes, process
  setup, migrations and connection pools, and the web application, which are input and output
  around the modelled code.
\<close>

end
